(* ===== verification/Prelude.thy ===== *)
theory Prelude
  imports Main "HOL-Library.Word" "HOL-Library.Char_ord" "HOL-Library.List_Lexorder"
    "HOL-Library.Product_Lexorder"
begin

text \<open>
  Shared material of the development: the named collections, source string literals, results,
  first-match search and update on vectors, and counts kept at 32 bits.
\<close>

named_theorems fence_simps \<open>definitions of the lifecycle predicates, unfolded together\<close>
named_theorems op_defs \<open>definitions of the coordinator's operations and their parts\<close>
named_theorems frame_simps \<open>what the helpers of the coordinator leave unchanged\<close>

section \<open>Machine integers and source literals\<close>

type_synonym u8 = "8 word"
type_synonym u16 = "16 word"
type_synonym u32 = "32 word"
type_synonym u64 = "64 word"

lemma unat_lt_64: "unat (x :: u64) < 2 ^ 64"
  by (rule order_less_le_trans [OF unsigned_less]) simp

lemma unat_lt_32: "unat (x :: u32) < 2 ^ 32"
  by (rule order_less_le_trans [OF unsigned_less]) simp

lemma word_eqI_unat: "unat x = unat y \<Longrightarrow> x = y"
  by (simp add: word_unat_eq_iff)

lemma unat_plus_one:
  assumes "(w::u64) < -1"
  shows "unat (w + 1) = unat w + 1"
proof -
  have "unat w < 2 ^ 64 - 1" using assms by (simp add: word_less_nat_alt unsigned_minus_1_eq_mask mask_eq_exp_minus_1)
  then show ?thesis by (simp add: unat_word_ariths)
qed

lemma word_plus_one_above: "(w::u64) < -1 \<Longrightarrow> w < w + 1"
  by (simp add: word_less_nat_alt unat_plus_one)

text \<open>
  A C++ string literal. The wrapper is the identity; the congruence rule keeps the simplifier
  out of the characters of the literal.
\<close>

definition lit :: "string \<Rightarrow> string" where
  "lit s = s"

lemma lit_cong [cong]: "lit s = lit s"
  by (rule refl)

text \<open>\<open>c_str b\<close> is the text of a C++ ternary between two literals.\<close>

definition pick :: "bool \<Rightarrow> 'a \<Rightarrow> 'a \<Rightarrow> 'a" where
  "pick b x y = (if b then x else y)"

lemma pick_simps [simp]: "pick True x y = x" "pick False x y = y"
  by (simp_all add: pick_def)

text \<open>A loop counter of type \<open>std::uint32_t\<close> that counts the elements satisfying a condition.\<close>

definition count32 :: "('a \<Rightarrow> bool) \<Rightarrow> 'a list \<Rightarrow> u32" where
  "count32 P xs = of_nat (length (filter P xs))"

lemma count32_zero_bounded:
  assumes "length xs < 2 ^ 32"
  shows "count32 P xs = 0 \<longleftrightarrow> (\<forall>x\<in>set xs. \<not> P x)"
proof -
  have "length (filter P xs) < 2 ^ 32"
    using assms le_less_trans length_filter_le by blast
  then have "count32 P xs = 0 \<longleftrightarrow> length (filter P xs) = 0"
    by (auto simp: count32_def of_nat_eq_0_iff nat_dvd_not_less word_of_nat_eq_0_iff)
  then show ?thesis by (auto simp: filter_empty_conv)
qed

lemma count32_le:
  assumes "length xs < 2 ^ 32"
  shows "unat (count32 P xs) = length (filter P xs)"
proof -
  have "length (filter P xs) < 2 ^ 32"
    using assms le_less_trans length_filter_le by blast
  then show ?thesis by (simp add: count32_def unat_of_nat)
qed

section \<open>First match in a vector\<close>

text \<open>
  \<open>find\<close> is the library's first match. \<open>update_first\<close> writes through the pointer or reference
  that such a search returned.
\<close>

fun update_first :: "('a \<Rightarrow> bool) \<Rightarrow> ('a \<Rightarrow> 'a) \<Rightarrow> 'a list \<Rightarrow> 'a list" where
  "update_first P f [] = []"
| "update_first P f (x # xs) = (if P x then f x # xs else x # update_first P f xs)"

lemma length_update_first [simp]: "length (update_first P f xs) = length xs"
  by (induction xs) auto

lemma update_first_eq_Nil [simp]: "update_first P f xs = [] \<longleftrightarrow> xs = []"
  by (cases xs) auto

lemma map_update_first:
  "(\<And>x. g (f x) = g x) \<Longrightarrow> map g (update_first P f xs) = map g xs"
  by (induction xs) auto

lemma find_update_first:
  "(\<And>x. P (f x) = P x) \<Longrightarrow> find P (update_first P f xs) = map_option f (find P xs)"
  by (induction xs) auto

lemma find_update_first_other:
  assumes "\<And>x. Q (f x) = Q x" and "\<And>x. P x \<Longrightarrow> \<not> Q x"
  shows "find Q (update_first P f xs) = find Q xs"
  using assms by (induction xs) auto

lemma in_set_update_first:
  "y \<in> set (update_first P f xs) \<Longrightarrow> y \<in> set xs \<or> (\<exists>x \<in> set xs. P x \<and> y = f x)"
  by (induction xs) (auto split: if_splits)

lemma update_first_unmatched: "find P xs = None \<Longrightarrow> update_first P f xs = xs"
  by (induction xs) (auto split: if_splits)

lemma find_SomeD: "find P xs = Some x \<Longrightarrow> x \<in> set xs \<and> P x"
  by (metis find_Some_iff nth_mem)

lemma find_NoneD: "find P xs = None \<Longrightarrow> x \<in> set xs \<Longrightarrow> \<not> P x"
  by (simp add: find_None_iff)

lemma find_append:
  "find P (xs @ ys) = (case find P xs of None \<Rightarrow> find P ys | Some x \<Rightarrow> Some x)"
  by (induction xs) auto

lemma find_unique_key:
  "distinct (map f xs) \<Longrightarrow> x \<in> set xs \<Longrightarrow> find (\<lambda>e. f e = f x) xs = Some x"
proof (induction xs)
  case (Cons y ys)
  then have "x \<in> set ys \<Longrightarrow> f y \<noteq> f x" by force
  with Cons show ?case by auto
qed simp

text \<open>
  \<open>find_last\<close> is a loop that overwrites a pointer at every match and so keeps the last one.
\<close>

definition find_last :: "('a \<Rightarrow> bool) \<Rightarrow> 'a list \<Rightarrow> 'a option" where
  "find_last P xs = find P (rev xs)"

lemma find_last_SomeD: "find_last P xs = Some x \<Longrightarrow> x \<in> set xs \<and> P x"
  unfolding find_last_def by (drule find_SomeD) simp

section \<open>Results and stable sorting\<close>

text \<open>\<open>std::stable_sort\<close> by a comparison: stable insertion sort.\<close>

fun insert_by :: "('a \<Rightarrow> 'a \<Rightarrow> bool) \<Rightarrow> 'a \<Rightarrow> 'a list \<Rightarrow> 'a list" where
  "insert_by lt x [] = [x]"
| "insert_by lt x (y # ys) = (if lt y x then y # insert_by lt x ys else x # y # ys)"

fun sort_by :: "('a \<Rightarrow> 'a \<Rightarrow> bool) \<Rightarrow> 'a list \<Rightarrow> 'a list" where
  "sort_by lt [] = []"
| "sort_by lt (x # xs) = insert_by lt x (sort_by lt xs)"

lemma set_insert_by [simp]: "set (insert_by lt x xs) = insert x (set xs)"
  by (induction xs) auto

lemma set_sort_by [simp]: "set (sort_by lt xs) = set xs"
  by (induction xs) auto

lemma length_insert_by [simp]: "length (insert_by lt x xs) = Suc (length xs)"
  by (induction xs) auto

lemma length_sort_by [simp]: "length (sort_by lt xs) = length xs"
  by (induction xs) auto

lemma sort_by_eq_Nil [simp]: "sort_by lt xs = [] \<longleftrightarrow> xs = []"
  by (metis length_0_conv length_sort_by)

lemma distinct_insert_by: "distinct (map f (insert_by lt x xs)) = distinct (map f (x # xs))"
  by (induction xs) auto

lemma distinct_sort_by [simp]: "distinct (map f (sort_by lt xs)) = distinct (map f xs)"
proof (induction xs)
  case (Cons x xs)
  have "f ` set (sort_by lt xs) = f ` set xs" by simp
  with Cons show ?case by (simp add: distinct_insert_by del: set_sort_by)
qed simp

text \<open>The comparisons handed to the sorts are strict weak orders.\<close>

definition weak_order :: "('a \<Rightarrow> 'a \<Rightarrow> bool) \<Rightarrow> bool" where
  "weak_order lt \<longleftrightarrow> (\<forall>x y z. \<not> lt y x \<longrightarrow> \<not> lt z y \<longrightarrow> \<not> lt z x) \<and> (\<forall>x y. lt x y \<longrightarrow> \<not> lt y x)"

lemma weak_order_key: "weak_order (\<lambda>x y. (f x :: 'b::linorder) < f y)"
  by (auto simp: weak_order_def)

lemma sorted_wrt_insert_by:
  assumes "weak_order lt" and "sorted_wrt (\<lambda>x y. \<not> lt y x) xs"
  shows "sorted_wrt (\<lambda>x y. \<not> lt y x) (insert_by lt x xs)"
  using assms(2)
proof (induction xs)
  case (Cons y ys)
  have trans: "\<not> lt y x \<Longrightarrow> \<not> lt z y \<Longrightarrow> \<not> lt z x" and asym: "lt y x \<Longrightarrow> \<not> lt x y" for z
    using assms(1) unfolding weak_order_def by blast+
  from Cons show ?case by (auto dest: trans asym)
qed simp

lemma sorted_wrt_sort_by: "weak_order lt \<Longrightarrow> sorted_wrt (\<lambda>x y. \<not> lt y x) (sort_by lt xs)"
  by (induction xs) (auto intro: sorted_wrt_insert_by)

end
