(* ===== verification/OrderedMap.thy ===== *)
theory OrderedMap
  imports Prelude
begin

text \<open>
  \<^verbatim>\<open>std::map\<close>: an association list in strictly increasing key order, so that iteration visits
  the keys in the container's order. The interface locale states what a client of
  \<^verbatim>\<open>find\<close>, \<^verbatim>\<open>emplace\<close>, \<^verbatim>\<open>operator[]\<close> assignment and \<^verbatim>\<open>erase\<close> relies on, and is
  interpreted on the association lists.
\<close>

section \<open>The container\<close>

type_synonym ('k, 'v) omap = "('k \<times> 'v) list"

fun omap_put :: "'k::linorder \<Rightarrow> 'v \<Rightarrow> ('k, 'v) omap \<Rightarrow> ('k, 'v) omap" where
  "omap_put k v [] = [(k, v)]"
| "omap_put k v ((k', v') # m) =
     (if k < k' then (k, v) # (k', v') # m
      else if k = k' then (k, v) # m
      else (k', v') # omap_put k v m)"

definition omap_erase :: "'k \<Rightarrow> ('k, 'v) omap \<Rightarrow> ('k, 'v) omap" where
  "omap_erase k m = filter (\<lambda>e. fst e \<noteq> k) m"

text \<open>\<^verbatim>\<open>emplace\<close> does not overwrite an element that is already there.\<close>

definition omap_emplace :: "'k::linorder \<Rightarrow> 'v \<Rightarrow> ('k, 'v) omap \<Rightarrow> ('k, 'v) omap" where
  "omap_emplace k v m = (case map_of m k of None \<Rightarrow> omap_put k v m | Some _ \<Rightarrow> m)"

text \<open>Writing through a reference to the element stored under a key.\<close>

definition omap_modify :: "'k::linorder \<Rightarrow> ('v \<Rightarrow> 'v) \<Rightarrow> ('k, 'v) omap \<Rightarrow> ('k, 'v) omap" where
  "omap_modify k f m = (case map_of m k of None \<Rightarrow> m | Some v \<Rightarrow> omap_put k (f v) m)"

text \<open>A loop over all elements that updates the mapped values in place.\<close>

definition omap_map :: "('v \<Rightarrow> 'w) \<Rightarrow> ('k, 'v) omap \<Rightarrow> ('k, 'w) omap" where
  "omap_map f m = map (\<lambda>(k, v). (k, f v)) m"

definition omap_values :: "('k, 'v) omap \<Rightarrow> 'v list" where
  "omap_values m = map snd m"

abbreviation omap_ordered :: "('k::linorder, 'v) omap \<Rightarrow> bool" where
  "omap_ordered m \<equiv> sorted_wrt (<) (map fst m)"

section \<open>Lookup laws\<close>

lemma map_of_omap_put [simp]:
  "map_of (omap_put k v m) = (map_of m)(k \<mapsto> v)"
  by (induction k v m rule: omap_put.induct) (auto simp: fun_eq_iff)

lemma map_of_omap_erase [simp]: "map_of (omap_erase k m) = (map_of m)(k := None)"
  unfolding omap_erase_def by (induction m) (auto simp: fun_eq_iff)

lemma map_of_omap_map [simp]: "map_of (omap_map f m) k = map_option f (map_of m k)"
  unfolding omap_map_def by (simp add: map_of_map)

lemma map_of_omap_modify:
  "map_of (omap_modify k f m) k' = (if k' = k then map_option f (map_of m k) else map_of m k')"
  by (auto simp: omap_modify_def split: option.splits)

lemma map_of_omap_modify_same [simp]: "map_of (omap_modify k f m) k = map_option f (map_of m k)"
  by (simp add: map_of_omap_modify)

lemma map_of_omap_emplace:
  "map_of (omap_emplace k v m) k' =
     (if k' = k \<and> map_of m k = None then Some v else map_of m k')"
  by (auto simp: omap_emplace_def split: option.splits)

section \<open>Order and size\<close>

lemma fst_set_omap_put [simp]: "fst ` set (omap_put k v m) = insert k (fst ` set m)"
  by (induction k v m rule: omap_put.induct) auto

lemma omap_ordered_put: "omap_ordered m \<Longrightarrow> omap_ordered (omap_put k v m)"
proof (induction k v m rule: omap_put.induct)
  case (2 k v k' v' m)
  have "\<And>e. e \<in> set (omap_put k v m) \<Longrightarrow> fst e = k \<or> fst e \<in> fst ` set m"
    by (metis fst_set_omap_put image_eqI insert_iff)
  with 2 show ?case by (fastforce split: if_splits)
qed simp

lemma omap_ordered_erase: "omap_ordered m \<Longrightarrow> omap_ordered (omap_erase k m)"
  unfolding omap_erase_def by (induction m) auto

lemma map_fst_omap_map [simp]: "map fst (omap_map f m) = map fst m"
  by (induction m) (auto simp: omap_map_def)

lemma length_omap_map [simp]: "length (omap_map f m) = length m"
  by (simp add: omap_map_def)

lemma omap_ordered_modify: "omap_ordered m \<Longrightarrow> omap_ordered (omap_modify k f m)"
  by (auto simp: omap_modify_def omap_ordered_put split: option.splits)

lemma omap_ordered_emplace: "omap_ordered m \<Longrightarrow> omap_ordered (omap_emplace k v m)"
  by (auto simp: omap_emplace_def omap_ordered_put split: option.splits)

lemma omap_ordered_distinct: "omap_ordered m \<Longrightarrow> distinct (map fst m)"
  using strict_sorted_iff by blast

lemma map_of_in_values: "map_of m k = Some v \<Longrightarrow> v \<in> set (omap_values m)"
  by (auto simp: omap_values_def dest: map_of_SomeD intro: rev_image_eqI)

lemma omap_values_lookup:
  "omap_ordered m \<Longrightarrow> v \<in> set (omap_values m) \<Longrightarrow> \<exists>k. map_of m k = Some v"
  by (auto simp: omap_values_def dest!: omap_ordered_distinct intro!: map_of_is_SomeI)

lemma omap_entry_lookup: "omap_ordered m \<Longrightarrow> (k, v) \<in> set m \<Longrightarrow> map_of m k = Some v"
  by (simp add: omap_ordered_distinct)

section \<open>The interface\<close>

locale ordered_map =
  fixes find :: "'m \<Rightarrow> 'k::linorder \<Rightarrow> 'v option"
    and put :: "'k \<Rightarrow> 'v \<Rightarrow> 'm \<Rightarrow> 'm"
    and erase :: "'k \<Rightarrow> 'm \<Rightarrow> 'm"
    and entries :: "'m \<Rightarrow> ('k \<times> 'v) list"
    and invar :: "'m \<Rightarrow> bool"
  assumes find_put: "invar m \<Longrightarrow> find (put k v m) = (find m)(k \<mapsto> v)"
    and find_erase: "invar m \<Longrightarrow> find (erase k m) = (find m)(k := None)"
    and entries_sorted: "invar m \<Longrightarrow> sorted_wrt (<) (map fst (entries m))"
    and entries_find: "invar m \<Longrightarrow> (k, v) \<in> set (entries m) \<longleftrightarrow> find m k = Some v"
    and invar_put: "invar m \<Longrightarrow> invar (put k v m)"
    and invar_erase: "invar m \<Longrightarrow> invar (erase k m)"
begin

lemma entries_unique:
  "invar m \<Longrightarrow> (k, v) \<in> set (entries m) \<Longrightarrow> (k, w) \<in> set (entries m) \<Longrightarrow> v = w"
  by (simp add: entries_find)

lemma put_twice: "invar m \<Longrightarrow> find (put k w (put k v m)) = find (put k w m)"
  by (simp add: find_put invar_put)

lemma erase_put: "invar m \<Longrightarrow> find m k = None \<Longrightarrow> find (erase k (put k v m)) = find m"
  by (simp add: find_put find_erase invar_put fun_upd_idem)

lemma equal_entries:
  assumes "invar m" and "invar m'" and "find m = find m'"
  shows "entries m = entries m'"
proof -
  have rebuild: "entries m = map (\<lambda>k. (k, the (find m k))) (map fst (entries m))" if "invar m" for m
    using that by (auto simp: entries_find intro!: map_idI [symmetric])
  have "set (map fst (entries m)) = set (map fst (entries m'))"
    using assms by (force simp: entries_find)
  then have "map fst (entries m) = map fst (entries m')"
    using assms(1,2) by (intro strict_sorted_equal) (auto simp: entries_sorted)
  then show ?thesis using rebuild [OF assms(1)] rebuild [OF assms(2)] assms(3) by simp
qed

end

interpretation om: ordered_map "map_of" "omap_put" "omap_erase" "\<lambda>m. m" "omap_ordered"
proof unfold_locales
  fix m :: "('a \<times> 'b) list" and k v
  assume "omap_ordered m"
  then show "(k, v) \<in> set m \<longleftrightarrow> map_of m k = Some v"
    by (simp add: omap_ordered_distinct)
qed (auto simp: omap_ordered_put omap_ordered_erase)

end
