(* ===== verification/Identity.thy ===== *)
theory Identity
  imports OrderedMap
begin

text \<open>
  \<^verbatim>\<open>include/experiment_fabric/identity.hpp\<close>: strongly typed 64-bit identities and generation
  counters, their canonical decimal text, and the identity allocator. The lemmas give the
  round trip of the text form in both directions and the freshness of allocated identities.
\<close>

section \<open>Strong identities\<close>

text \<open>
  The tag is a phantom type parameter, as it is a template parameter in the source: a branch
  identity and a trial identity have different types.
\<close>

datatype (dead 'tag) strong_id = StrongId (id_value: u64)

typedecl ExperimentIdTag
typedecl HypothesisIdTag
typedecl BranchIdTag
typedecl TrialIdTag
typedecl TrialAttemptIdTag
typedecl MetricIdTag
typedecl ObservationIdTag
typedecl ArtifactIdTag
typedecl InputSetIdTag
typedecl EnvironmentIdTag
typedecl WorkerIdTag
typedecl WorkerBootIdTag
typedecl CoordinatorEpochTag
typedecl ProducerIdTag
typedecl PolicyIdTag
typedecl DecisionIdTag
typedecl RollbackPointIdTag
typedecl ExperimentGenerationTag
typedecl HypothesisRevisionTag
typedecl BranchGenerationTag
typedecl PolicyGenerationTag
typedecl TrialAttemptNumberTag

type_synonym experiment_id = "ExperimentIdTag strong_id"
type_synonym hypothesis_id = "HypothesisIdTag strong_id"
type_synonym branch_id = "BranchIdTag strong_id"
type_synonym trial_id = "TrialIdTag strong_id"
type_synonym trial_attempt_id = "TrialAttemptIdTag strong_id"
type_synonym metric_id = "MetricIdTag strong_id"
type_synonym observation_id = "ObservationIdTag strong_id"
type_synonym artifact_id = "ArtifactIdTag strong_id"
type_synonym input_set_id = "InputSetIdTag strong_id"
type_synonym environment_id = "EnvironmentIdTag strong_id"
type_synonym worker_id = "WorkerIdTag strong_id"
type_synonym worker_boot_id = "WorkerBootIdTag strong_id"
type_synonym coordinator_epoch = "CoordinatorEpochTag strong_id"
type_synonym producer_id = "ProducerIdTag strong_id"
type_synonym policy_id = "PolicyIdTag strong_id"
type_synonym decision_id = "DecisionIdTag strong_id"
type_synonym rollback_point_id = "RollbackPointIdTag strong_id"
type_synonym experiment_generation = "ExperimentGenerationTag strong_id"
type_synonym hypothesis_revision = "HypothesisRevisionTag strong_id"
type_synonym branch_generation = "BranchGenerationTag strong_id"
type_synonym policy_generation = "PolicyGenerationTag strong_id"
type_synonym trial_attempt_number = "TrialAttemptNumberTag strong_id"

text \<open>The default member \<^verbatim>\<open>operator<=>\<close> orders identities by value.\<close>

instantiation strong_id :: (type) linorder
begin

definition less_eq_strong_id :: "'a strong_id \<Rightarrow> 'a strong_id \<Rightarrow> bool" where
  "less_eq_strong_id x y \<longleftrightarrow> id_value x \<le> id_value y"

definition less_strong_id :: "'a strong_id \<Rightarrow> 'a strong_id \<Rightarrow> bool" where
  "less_strong_id x y \<longleftrightarrow> id_value x < id_value y"

instance
  by intro_classes
    (auto simp: less_eq_strong_id_def less_strong_id_def intro: strong_id.expand)

end

definition from_value :: "u64 \<Rightarrow> 'tag strong_id" where
  "from_value v = StrongId v"

definition null_id :: "'tag strong_id" where
  "null_id = StrongId 0"

definition is_null :: "'tag strong_id \<Rightarrow> bool" where
  "is_null x \<longleftrightarrow> id_value x = 0"

definition valid :: "'tag strong_id \<Rightarrow> bool" where
  "valid x \<longleftrightarrow> id_value x \<noteq> 0"

lemma id_value_from_value [simp]: "id_value (from_value v) = v"
  by (simp add: from_value_def)

lemma from_value_inject [simp]: "from_value v = from_value w \<longleftrightarrow> v = w"
  by (simp add: from_value_def)

lemma null_eq_from_value [simp]: "null_id = from_value v \<longleftrightarrow> v = 0" "from_value v = null_id \<longleftrightarrow> v = 0"
  by (auto simp: null_id_def from_value_def)

lemma valid_from_value [simp]: "valid (from_value v) \<longleftrightarrow> v \<noteq> 0"
  by (simp add: valid_def)

lemma not_valid_null [simp]: "\<not> valid null_id"
  by (simp add: valid_def null_id_def)

lemma id_value_null [simp]: "id_value null_id = 0"
  by (simp add: null_id_def)

lemma valid_iff_not_null: "valid x \<longleftrightarrow> x \<noteq> null_id"
  by (cases x) (simp add: valid_def null_id_def)

section \<open>Decimal text\<close>

text \<open>
  \<open>id_to_string\<close>: the digits are written backwards into the end of a buffer. The accumulator is
  the part of the buffer already written. \<open>id_digits_loop\<close> is the loop of \<^verbatim>\<open>to_string\<close>.
\<close>

function id_digits_loop :: "u64 \<Rightarrow> string \<Rightarrow> string" where
  "id_digits_loop remaining buffer =
     (if remaining = 0 then buffer
      else id_digits_loop (remaining div 10) (char_of (48 + unat (remaining mod 10)) # buffer))"
  by pat_completeness auto
termination
proof (relation "measure (\<lambda>(r, b). unat r)")
  fix r :: u64 and b :: string
  assume "r \<noteq> 0"
  then have "0 < unat r" by (simp add: unat_gt_0)
  then show "((r div 10, char_of (48 + unat (r mod 10)) # b), r, b) \<in> measure (\<lambda>(r, b). unat r)"
    by (simp add: unat_div)
qed simp

declare id_digits_loop.simps [simp del]

definition id_to_string :: "'tag strong_id \<Rightarrow> string" where
  "id_to_string x = (if id_value x = 0 then ''0'' else id_digits_loop (id_value x) [])"

text \<open>\<open>id_parse_loop\<close> is the loop of \<^verbatim>\<open>parse\<close>, with its overflow test before each multiplication.\<close>

fun id_parse_loop :: "u64 \<Rightarrow> string \<Rightarrow> u64 option" where
  "id_parse_loop v [] = Some v"
| "id_parse_loop v (c # cs) =
     (if of_char c < (48::nat) \<or> of_char c > (57::nat) then None
      else let digit = (of_nat (of_char c - 48) :: u64)
        in if v > (0xFFFFFFFFFFFFFFFF - digit) div 10 then None
           else id_parse_loop (v * 10 + digit) cs)"

definition id_parse :: "string \<Rightarrow> 'tag strong_id option" where
  "id_parse s =
     (if s = [] \<or> length s > 20 then None
      else if length s > 1 \<and> hd s = CHR ''0'' then None
      else map_option from_value (id_parse_loop 0 s))"

subsection \<open>The decimal value of a digit string\<close>

definition digit_char :: "char \<Rightarrow> bool" where
  "digit_char c \<longleftrightarrow> 48 \<le> (of_char c :: nat) \<and> (of_char c :: nat) \<le> 57"

definition digit_of :: "char \<Rightarrow> nat" where
  "digit_of c = of_char c - 48"

definition dec_value :: "string \<Rightarrow> nat" where
  "dec_value s = foldl (\<lambda>n c. 10 * n + digit_of c) 0 s"

lemma digit_of_char_of [simp]: "d < (10::nat) \<Longrightarrow> digit_of (char_of (48 + d)) = d"
  by (simp add: digit_of_def of_char_of)

lemma digit_char_char_of [simp]: "d < (10::nat) \<Longrightarrow> digit_char (char_of (48 + d))"
  by (simp add: digit_char_def of_char_of)

lemma digit_of_less: "digit_char c \<Longrightarrow> digit_of c < 10"
  by (auto simp: digit_char_def digit_of_def)

lemma char_of_digit: "digit_char c \<Longrightarrow> char_of (48 + digit_of c) = c"
  by (simp add: digit_char_def digit_of_def)

lemma foldl_dec: "foldl (\<lambda>n c. 10 * n + digit_of c) a s = a * 10 ^ length s + dec_value s"
proof (induction s arbitrary: a)
  case (Cons c s)
  have "foldl (\<lambda>n c. 10 * n + digit_of c) a (c # s) = (10 * a + digit_of c) * 10 ^ length s + dec_value s"
    using Cons [of "10 * a + digit_of c"] by simp
  moreover have "dec_value (c # s) = digit_of c * 10 ^ length s + dec_value s"
    using Cons [of "digit_of c"] by (simp add: dec_value_def)
  ultimately show ?case by (simp add: algebra_simps)
qed (simp add: dec_value_def)

lemma dec_value_Cons: "dec_value (c # s) = digit_of c * 10 ^ length s + dec_value s"
  using foldl_dec [of "digit_of c" s] by (simp add: dec_value_def)

lemma dec_value_Nil [simp]: "dec_value [] = 0"
  by (simp add: dec_value_def)

lemma dec_value_snoc: "dec_value (s @ [c]) = 10 * dec_value s + digit_of c"
  by (simp add: dec_value_def)

text \<open>
  A canonical numeral: decimal digits without a leading zero.
\<close>

definition canonical_digits :: "string \<Rightarrow> bool" where
  "canonical_digits s \<longleftrightarrow> list_all digit_char s \<and> s \<noteq> [] \<and> hd s \<noteq> CHR ''0''"

lemma digit_of_pos: "digit_char c \<Longrightarrow> c \<noteq> CHR ''0'' \<Longrightarrow> 0 < digit_of c"
proof (rule ccontr)
  assume "digit_char c" and "c \<noteq> CHR ''0''" and "\<not> 0 < digit_of c"
  then have "of_char c = (48::nat)" by (auto simp: digit_char_def digit_of_def)
  then have "c = char_of (48::nat)" by (metis char_of_char)
  moreover have "char_of (48::nat) = CHR ''0''" by code_simp
  ultimately show False using \<open>c \<noteq> CHR ''0''\<close> by simp
qed

lemma canonical_digits_bound: "canonical_digits s \<Longrightarrow> 10 ^ (length s - 1) \<le> dec_value s"
proof (cases s)
  case (Cons c cs)
  moreover assume "canonical_digits s"
  ultimately have "0 < digit_of c" by (auto simp: canonical_digits_def intro: digit_of_pos)
  then have "1 * 10 ^ length cs \<le> digit_of c * 10 ^ length cs" by (intro mult_right_mono) auto
  with Cons show ?thesis by (simp add: dec_value_Cons trans_le_add1)
qed (simp add: canonical_digits_def)

lemma canonical_digits_length:
  assumes "canonical_digits s" and "dec_value s < 2 ^ 64"
  shows "length s \<le> 20"
proof (rule ccontr)
  assume "\<not> length s \<le> 20"
  then have "(10::nat) ^ 20 \<le> 10 ^ (length s - 1)" by (intro power_increasing) auto
  also have "\<dots> \<le> dec_value s" using assms(1) by (rule canonical_digits_bound)
  finally show False using assms(2) by simp
qed

lemma unat_mod_10_less: "unat ((r::u64) mod 10) < 10"
  by (simp add: unat_mod)

lemma unat_split_10: "unat (r::u64) = 10 * unat (r div 10) + unat (r mod 10)"
  by (simp add: unat_div unat_mod)

lemma hd_char_of_digit: "0 < d \<Longrightarrow> d < (10::nat) \<Longrightarrow> char_of (48 + d) \<noteq> CHR ''0''"
proof
  assume "0 < d" "d < 10" "char_of (48 + d) = CHR ''0''"
  then have "(of_char (char_of (48 + d)) :: nat) = of_char CHR ''0''" by simp
  with \<open>0 < d\<close> \<open>d < 10\<close> show False by (simp add: of_char_of)
qed

lemma id_digits_loop_digits:
  assumes "r \<noteq> 0"
  shows "\<exists>s. id_digits_loop r b = s @ b \<and> canonical_digits s \<and> dec_value s = unat r"
  using assms
proof (induction r b rule: id_digits_loop.induct)
  case (1 r b)
  let ?c = "char_of (48 + unat (r mod 10))"
  show ?case
  proof (cases "r div 10 = 0")
    case True
    then have m: "unat (r mod 10) = unat r" using unat_split_10 [of r] by simp
    moreover have "0 < unat r" using \<open>r \<noteq> 0\<close> by (simp add: unat_gt_0)
    ultimately have "canonical_digits [?c]" and "dec_value [?c] = unat r"
      using unat_mod_10_less [of r] by (auto simp: canonical_digits_def dec_value_Cons hd_char_of_digit)
    then show ?thesis using True \<open>r \<noteq> 0\<close>
      by (intro exI [of _ "[?c]"])
        (simp add: id_digits_loop.simps [of r] id_digits_loop.simps [of 0])
  next
    case False
    with 1 obtain s where s: "id_digits_loop (r div 10) (?c # b) = s @ ?c # b"
      and c: "canonical_digits s" and v: "dec_value s = unat (r div 10)"
      by blast
    have "canonical_digits (s @ [?c])"
      using c unat_mod_10_less [of r] by (auto simp: canonical_digits_def hd_append)
    moreover have "dec_value (s @ [?c]) = unat r"
      using v unat_mod_10_less [of r] unat_split_10 [of r] by (simp add: dec_value_snoc)
    ultimately show ?thesis using s \<open>r \<noteq> 0\<close>
      by (intro exI [of _ "s @ [?c]"]) (simp add: id_digits_loop.simps [of r])
  qed
qed

lemma id_digits_loop_of_digits:
  assumes "canonical_digits s" and "dec_value s < 2 ^ 64"
  shows "id_digits_loop (of_nat (dec_value s)) b = s @ b"
  using assms
proof (induction s arbitrary: b rule: rev_induct)
  case (snoc c s)
  let ?n = "dec_value (s @ [c])" and ?r = "of_nat (dec_value (s @ [c])) :: u64"
  have c: "digit_char c" using snoc.prems by (simp add: canonical_digits_def)
  then have n: "?n div 10 = dec_value s" "?n mod 10 = digit_of c"
    using digit_of_less [of c] by (auto simp: dec_value_snoc)
  have r: "unat ?r = ?n" using snoc.prems(2) by (simp add: unat_of_nat)
  have "?n \<noteq> 0" using canonical_digits_bound [OF snoc.prems(1)] by (metis le_zero_eq power_not_zero zero_neq_numeral)
  then have "?r \<noteq> 0" using r by auto
  moreover have "?r div 10 = of_nat (dec_value s)"
    using n r snoc.prems(2)
    by (intro word_eqI_unat) (simp add: unat_div unat_of_nat dec_value_snoc)
  moreover have "unat (?r mod 10) = digit_of c"
    using n r by (simp add: unat_mod)
  ultimately have step: "id_digits_loop ?r b = id_digits_loop (of_nat (dec_value s)) (c # b)"
    using c by (simp add: id_digits_loop.simps [of ?r] char_of_digit)
  show ?case
  proof (cases "s = []")
    case True
    then show ?thesis using step by (simp add: id_digits_loop.simps [of 0])
  next
    case False
    then have "canonical_digits s" using snoc.prems(1) by (auto simp: canonical_digits_def)
    moreover have "dec_value s < 2 ^ 64" using snoc.prems(2) by (simp add: dec_value_snoc)
    ultimately show ?thesis using snoc.IH [of "c # b"] step by simp
  qed
qed (simp add: canonical_digits_def)

subsection \<open>What the parser accepts\<close>

lemma parse_step_bound:
  assumes "d < 10"
  shows "(v::u64) > (0xFFFFFFFFFFFFFFFF - of_nat d) div 10 \<longleftrightarrow> 2 ^ 64 \<le> unat v * 10 + d"
proof -
  have "unat ((of_nat d) :: u64) = d" using assms by (simp add: unat_of_nat)
  then have "unat ((0xFFFFFFFFFFFFFFFF :: u64) - of_nat d) = 2 ^ 64 - 1 - d"
    using assms by (subst unat_sub) (auto simp: word_le_nat_alt)
  then have "unat ((0xFFFFFFFFFFFFFFFF - of_nat d) div 10 :: u64) = (2 ^ 64 - 1 - d) div 10"
    by (simp add: unat_div)
  then show ?thesis using assms by (simp add: word_less_nat_alt) linarith
qed

lemma unat_parse_step:
  assumes "d < 10" and "unat (v::u64) * 10 + d < 2 ^ 64"
  shows "unat (v * 10 + of_nat d) = unat v * 10 + d"
proof -
  have "unat (v * 10 + of_nat d) = (unat v * 10 + d) mod 2 ^ 64"
    by (simp add: unat_word_ariths unat_of_nat mod_simps)
  then show ?thesis using assms(2) by simp
qed

lemma id_parse_loop_Cons:
  assumes "digit_char c"
  shows "id_parse_loop v (c # cs) =
    (if 2 ^ 64 \<le> unat v * 10 + digit_of c then None else id_parse_loop (v * 10 + of_nat (digit_of c)) cs)"
  using assms parse_step_bound [OF digit_of_less [OF assms], of v]
  by (simp add: digit_char_def digit_of_def Let_def del: of_nat_diff)

lemma id_parse_loop_complete:
  assumes "list_all digit_char s" and "unat v * 10 ^ length s + dec_value s < 2 ^ 64"
  shows "id_parse_loop v s = Some (of_nat (unat v * 10 ^ length s + dec_value s))"
  using assms
proof (induction s arbitrary: v)
  case (Cons c cs)
  let ?v = "v * 10 + of_nat (digit_of c)"
  from Cons.prems have c: "digit_char c" and d: "digit_of c < 10" by (auto intro: digit_of_less)
  have total: "unat v * 10 ^ length (c # cs) + dec_value (c # cs)
      = (unat v * 10 + digit_of c) * 10 ^ length cs + dec_value cs"
    by (simp add: dec_value_Cons algebra_simps)
  have "unat v * 10 + digit_of c \<le> (unat v * 10 + digit_of c) * 10 ^ length cs"
    by simp
  also have "\<dots> < 2 ^ 64" using total Cons.prems(2) by linarith
  finally have bound: "unat v * 10 + digit_of c < 2 ^ 64" .
  then have u: "unat ?v = unat v * 10 + digit_of c" using d by (intro unat_parse_step)
  have "id_parse_loop ?v cs = Some (of_nat (unat ?v * 10 ^ length cs + dec_value cs))"
    using Cons.prems total u by (intro Cons.IH) auto
  then show ?case using bound total u by (simp add: id_parse_loop_Cons [OF c] del: id_parse_loop.simps of_nat_add of_nat_mult)
qed simp

lemma id_parse_loop_sound:
  assumes "id_parse_loop v s = Some w"
  shows "list_all digit_char s \<and> unat w = unat v * 10 ^ length s + dec_value s"
  using assms
proof (induction s arbitrary: v)
  case (Cons c cs)
  have c: "digit_char c"
    using Cons.prems by (auto simp: digit_char_def split: if_splits)
  let ?v = "v * 10 + of_nat (digit_of c)"
  have bound: "unat v * 10 + digit_of c < 2 ^ 64" and rest: "id_parse_loop ?v cs = Some w"
    using Cons.prems by (auto simp: id_parse_loop_Cons [OF c] simp del: id_parse_loop.simps split: if_splits)
  have "unat ?v = unat v * 10 + digit_of c" using bound c by (intro unat_parse_step) (auto intro: digit_of_less)
  with Cons.IH [OF rest] c show ?case by (simp add: dec_value_Cons algebra_simps)
qed simp

lemma id_to_string_nonzero:
  assumes "id_value x \<noteq> 0"
  shows "canonical_digits (id_to_string x) \<and> dec_value (id_to_string x) = unat (id_value x)"
  using id_digits_loop_digits [OF assms, of "[]"] assms by (auto simp: id_to_string_def)

lemma id_to_string_length: "length (id_to_string x) \<le> 20"
proof (cases "id_value x = 0")
  case False
  then show ?thesis using id_to_string_nonzero [OF False] unat_lt_64 [of "id_value x"]
    by (intro canonical_digits_length) auto
qed (simp add: id_to_string_def)

lemma id_parse_zero: "id_parse_loop 0 ''0'' = Some 0"
  by code_simp

lemma id_parse_to_string: "id_parse (id_to_string x) = Some x"
proof (cases "id_value x = 0")
  case True
  then have "id_parse (id_to_string x) = Some (from_value 0)"
    by (simp add: id_parse_def id_to_string_def id_parse_zero del: id_parse_loop.simps)
  moreover have "x = from_value 0" using True by (intro strong_id.expand) simp
  ultimately show ?thesis by simp
next
  case False
  note cd = id_to_string_nonzero [OF False]
  have "id_parse_loop 0 (id_to_string x) = Some (of_nat (unat (id_value x)))"
    using cd unat_lt_64 [of "id_value x"]
    by (subst id_parse_loop_complete) (auto simp: canonical_digits_def)
  then show ?thesis using cd id_to_string_length [of x]
    by (cases x) (auto simp: id_parse_def canonical_digits_def from_value_def)
qed

lemma id_parse_canonical:
  assumes "id_parse s = Some x"
  shows "id_to_string x = s"
proof -
  from assms have s: "s \<noteq> []" "\<not> (length s > 1 \<and> hd s = CHR ''0'')"
    and loop: "id_parse_loop 0 s = Some (id_value x)"
    by (auto simp: id_parse_def split: if_splits)
  have digits: "list_all digit_char s" and v: "unat (id_value x) = dec_value s"
    using id_parse_loop_sound [OF loop] by auto
  show ?thesis
  proof (cases "hd s = CHR ''0''")
    case True
    then have "s = ''0''" using s by (cases s) auto
    moreover have "id_value x = 0" using loop calculation id_parse_zero by simp
    ultimately show ?thesis by (simp add: id_to_string_def)
  next
    case False
    then have cd: "canonical_digits s" using s digits by (simp add: canonical_digits_def)
    have "0 < dec_value s" using canonical_digits_bound [OF cd] by (rule less_le_trans [rotated]) simp
    then have "id_value x \<noteq> 0" using v by (metis unat_0 less_irrefl)
    moreover have "id_digits_loop (of_nat (dec_value s)) [] = s @ []"
      using v unat_lt_64 [of "id_value x"] by (intro id_digits_loop_of_digits cd) simp
    moreover have "of_nat (dec_value s) = id_value x" using v by (metis of_nat_unat ucast_id)
    ultimately show ?thesis by (simp add: id_to_string_def)
  qed
qed

section \<open>Identity allocation\<close>

text \<open>The allocator keeps the highest value issued or observed.\<close>

record id_allocator =
  al_counter :: u64

definition al_next :: "id_allocator \<Rightarrow> 'tag strong_id \<times> id_allocator" where
  "al_next a =
     (let c = al_counter a + 1; c' = (if c = 0 then c + 1 else c)
      in (from_value c', a\<lparr>al_counter := c'\<rparr>))"

definition al_observe :: "'tag strong_id \<Rightarrow> id_allocator \<Rightarrow> id_allocator" where
  "al_observe x a = (if id_value x > al_counter a then a\<lparr>al_counter := id_value x\<rparr> else a)"

definition al_watermark :: "id_allocator \<Rightarrow> u64" where
  "al_watermark a = al_counter a"

definition al_reset :: "u64 \<Rightarrow> id_allocator \<Rightarrow> id_allocator" where
  "al_reset w a = a\<lparr>al_counter := w\<rparr>"

text \<open>
  What a client of an identity source relies on: an issued identity is not null, lies strictly
  above everything issued or observed before while the counter has room, and the mark never goes
  down.
\<close>

locale identity_source =
  fixes issue :: "'s \<Rightarrow> 'tag strong_id \<times> 's"
    and mark :: "'s \<Rightarrow> u64"
    and has_room :: "'s \<Rightarrow> bool"
  assumes issue_above: "has_room s \<Longrightarrow> mark s < id_value (fst (issue s))"
    and issue_mark: "has_room s \<Longrightarrow> mark (snd (issue s)) = id_value (fst (issue s))"
begin

lemma issue_valid: "has_room s \<Longrightarrow> valid (fst (issue s))"
  using issue_above [of s] by (auto simp: valid_def)

lemma issue_fresh:
  assumes "has_room s" and "\<forall>x \<in> used. id_value x \<le> mark s"
  shows "fst (issue s) \<notin> used \<and> (\<forall>x \<in> insert (fst (issue s)) used. id_value x \<le> mark (snd (issue s)))"
  using assms issue_above [of s] issue_mark [of s] by fastforce

end

interpretation allocator: identity_source al_next al_watermark "\<lambda>a. al_counter a < -1"
proof unfold_locales
  fix a :: id_allocator
  assume room: "al_counter a < -1"
  then have up: "al_counter a < al_counter a + 1" by (rule word_plus_one_above)
  then have "al_counter a + 1 \<noteq> 0" by auto
  with up show "al_watermark a < id_value (fst (al_next a))"
    and "al_watermark (snd (al_next a)) = id_value (fst (al_next a))"
    by (auto simp: al_next_def al_watermark_def Let_def)
qed

lemma al_observe_dominates: "id_value x \<le> al_watermark (al_observe x a) \<and> al_watermark a \<le> al_watermark (al_observe x a)"
  by (auto simp: al_observe_def al_watermark_def)

section \<open>Properties\<close>

text \<open>
  C40: The text of an identity is its only name. The parser accepts a text as an identity exactly when
  it is the canonical text that the identity prints: every identity can be read back, and no
  two texts name the same one.
\<close>

theorem id_parse_iff_canonical: "id_parse s = Some x \<longleftrightarrow> s = id_to_string x"
  using id_parse_to_string id_parse_canonical by blast

end
