(* ===== verification/ErrorModel.thy ===== *)
theory ErrorModel
  imports Identity
begin

text \<open>
  \<^verbatim>\<open>include/experiment_fabric/error.hpp\<close> and \<^verbatim>\<open>src/error.cpp\<close>: error codes and stages with their
  stable names, and the typed status. A \<^verbatim>\<open>Result<T>\<close> is a sum with the status on the left.
  The name tables here and in the domain theory share one interface, stated as a locale: a
  table that names every value once, by pairwise different names, prints and parses back.
\<close>

section \<open>Codes and stages\<close>

datatype error_code =
    EC_OK
  | EC_INVALID_ARGUMENT
  | EC_NOT_FOUND
  | EC_ALREADY_EXISTS
  | EC_STALE_EPOCH
  | EC_STALE_WORKER
  | EC_STALE_GENERATION
  | EC_STALE_HYPOTHESIS
  | EC_STALE_BRANCH
  | EC_STALE_ATTEMPT
  | EC_UNAUTHORIZED
  | EC_INVALID_TRANSITION
  | EC_CANCELLED
  | EC_INSUFFICIENT_EVIDENCE
  | EC_INVALID_OBSERVATION
  | EC_CORRUPT_PERSISTENCE
  | EC_PROTOCOL_ERROR
  | EC_RESOURCE_EXHAUSTED
  | EC_UNSUPPORTED
  | EC_PERSISTENCE_FAILURE
  | EC_TRANSPORT_FAILURE
  | EC_SHUTTING_DOWN
  | EC_INTERNAL

datatype error_stage =
    EG_NONE
  | EG_VALIDATION
  | EG_IDENTITY
  | EG_DEFINITION
  | EG_AUTHORITY
  | EG_LIFECYCLE
  | EG_OBSERVATION
  | EG_COMPARISON
  | EG_DECISION
  | EG_PERSISTENCE
  | EG_TRANSPORT
  | EG_RECOVERY
  | EG_SHUTDOWN
  | EG_LIMITS

text \<open>The enumerators are numbered from zero in declaration order.\<close>

primrec error_code_code :: "error_code \<Rightarrow> u8" where
    "error_code_code EC_OK = 0"
  | "error_code_code EC_INVALID_ARGUMENT = 1"
  | "error_code_code EC_NOT_FOUND = 2"
  | "error_code_code EC_ALREADY_EXISTS = 3"
  | "error_code_code EC_STALE_EPOCH = 4"
  | "error_code_code EC_STALE_WORKER = 5"
  | "error_code_code EC_STALE_GENERATION = 6"
  | "error_code_code EC_STALE_HYPOTHESIS = 7"
  | "error_code_code EC_STALE_BRANCH = 8"
  | "error_code_code EC_STALE_ATTEMPT = 9"
  | "error_code_code EC_UNAUTHORIZED = 10"
  | "error_code_code EC_INVALID_TRANSITION = 11"
  | "error_code_code EC_CANCELLED = 12"
  | "error_code_code EC_INSUFFICIENT_EVIDENCE = 13"
  | "error_code_code EC_INVALID_OBSERVATION = 14"
  | "error_code_code EC_CORRUPT_PERSISTENCE = 15"
  | "error_code_code EC_PROTOCOL_ERROR = 16"
  | "error_code_code EC_RESOURCE_EXHAUSTED = 17"
  | "error_code_code EC_UNSUPPORTED = 18"
  | "error_code_code EC_PERSISTENCE_FAILURE = 19"
  | "error_code_code EC_TRANSPORT_FAILURE = 20"
  | "error_code_code EC_SHUTTING_DOWN = 21"
  | "error_code_code EC_INTERNAL = 22"

primrec error_stage_code :: "error_stage \<Rightarrow> u8" where
    "error_stage_code EG_NONE = 0"
  | "error_stage_code EG_VALIDATION = 1"
  | "error_stage_code EG_IDENTITY = 2"
  | "error_stage_code EG_DEFINITION = 3"
  | "error_stage_code EG_AUTHORITY = 4"
  | "error_stage_code EG_LIFECYCLE = 5"
  | "error_stage_code EG_OBSERVATION = 6"
  | "error_stage_code EG_COMPARISON = 7"
  | "error_stage_code EG_DECISION = 8"
  | "error_stage_code EG_PERSISTENCE = 9"
  | "error_stage_code EG_TRANSPORT = 10"
  | "error_stage_code EG_RECOVERY = 11"
  | "error_stage_code EG_SHUTDOWN = 12"
  | "error_stage_code EG_LIMITS = 13"

section \<open>Name tables\<close>

text \<open>The linear searches through a table of values and names, in both directions.\<close>

definition table_find :: "('e \<times> string) list \<Rightarrow> 'e \<Rightarrow> string option" where
  "table_find t x = map_option snd (find (\<lambda>e. fst e = x) t)"

definition table_reverse :: "('e \<times> string) list \<Rightarrow> string \<Rightarrow> 'e option" where
  "table_reverse t n = map_option fst (find (\<lambda>e. snd e = n) t)"

text \<open>\<^verbatim>\<open>NameTable::lookup\<close> answers UNKNOWN for a value outside the table.\<close>

definition table_lookup :: "('e \<times> string) list \<Rightarrow> 'e \<Rightarrow> string" where
  "table_lookup t x = (case table_find t x of Some n \<Rightarrow> n | None \<Rightarrow> ''UNKNOWN'')"

locale name_table =
  fixes entries :: "('e \<times> string) list"
  assumes entries_total: "\<exists>n. (x, n) \<in> set entries"
    and values_distinct: "distinct (map fst entries)"
    and names_distinct: "distinct (map snd entries)"
begin

lemma find_by_value: "(x, n) \<in> set entries \<Longrightarrow> find (\<lambda>e. fst e = x) entries = Some (x, n)"
  using find_unique_key [OF values_distinct] by fastforce

lemma find_by_name: "(x, n) \<in> set entries \<Longrightarrow> find (\<lambda>e. snd e = n) entries = Some (x, n)"
  using find_unique_key [OF names_distinct] by fastforce

lemma table_find_eq: "table_find entries x = Some (table_lookup entries x)"
  using entries_total [of x] by (auto simp: table_find_def table_lookup_def find_by_value)

lemma print_parse: "table_reverse entries (table_lookup entries x) = Some x"
  using entries_total [of x]
  by (auto simp: table_lookup_def table_find_def table_reverse_def find_by_value find_by_name)

lemma parse_print: "table_reverse entries n = Some x \<Longrightarrow> table_lookup entries x = n"
proof -
  assume "table_reverse entries n = Some x"
  then obtain e where "find (\<lambda>e. snd e = n) entries = Some e" and e: "fst e = x"
    by (auto simp: table_reverse_def)
  then have "(x, n) \<in> set entries" using find_SomeD by fastforce
  then show ?thesis by (simp add: table_lookup_def table_find_def find_by_value)
qed

lemma lookup_inj: "table_lookup entries x = table_lookup entries y \<Longrightarrow> x = y"
  by (metis option.inject print_parse)

end

definition kErrorCodeNames :: "(error_code \<times> string) list" where
  "kErrorCodeNames =
    [(EC_OK, ''OK''),
     (EC_INVALID_ARGUMENT, ''INVALID_ARGUMENT''),
     (EC_NOT_FOUND, ''NOT_FOUND''),
     (EC_ALREADY_EXISTS, ''ALREADY_EXISTS''),
     (EC_STALE_EPOCH, ''STALE_EPOCH''),
     (EC_STALE_WORKER, ''STALE_WORKER''),
     (EC_STALE_GENERATION, ''STALE_GENERATION''),
     (EC_STALE_HYPOTHESIS, ''STALE_HYPOTHESIS''),
     (EC_STALE_BRANCH, ''STALE_BRANCH''),
     (EC_STALE_ATTEMPT, ''STALE_ATTEMPT''),
     (EC_UNAUTHORIZED, ''UNAUTHORIZED''),
     (EC_INVALID_TRANSITION, ''INVALID_TRANSITION''),
     (EC_CANCELLED, ''CANCELLED''),
     (EC_INSUFFICIENT_EVIDENCE, ''INSUFFICIENT_EVIDENCE''),
     (EC_INVALID_OBSERVATION, ''INVALID_OBSERVATION''),
     (EC_CORRUPT_PERSISTENCE, ''CORRUPT_PERSISTENCE''),
     (EC_PROTOCOL_ERROR, ''PROTOCOL_ERROR''),
     (EC_RESOURCE_EXHAUSTED, ''RESOURCE_EXHAUSTED''),
     (EC_UNSUPPORTED, ''UNSUPPORTED''),
     (EC_PERSISTENCE_FAILURE, ''PERSISTENCE_FAILURE''),
     (EC_TRANSPORT_FAILURE, ''TRANSPORT_FAILURE''),
     (EC_SHUTTING_DOWN, ''SHUTTING_DOWN''),
     (EC_INTERNAL, ''INTERNAL'')]"

definition kErrorStageNames :: "(error_stage \<times> string) list" where
  "kErrorStageNames =
    [(EG_NONE, ''NONE''),
     (EG_VALIDATION, ''VALIDATION''),
     (EG_IDENTITY, ''IDENTITY''),
     (EG_DEFINITION, ''DEFINITION''),
     (EG_AUTHORITY, ''AUTHORITY''),
     (EG_LIFECYCLE, ''LIFECYCLE''),
     (EG_OBSERVATION, ''OBSERVATION''),
     (EG_COMPARISON, ''COMPARISON''),
     (EG_DECISION, ''DECISION''),
     (EG_PERSISTENCE, ''PERSISTENCE''),
     (EG_TRANSPORT, ''TRANSPORT''),
     (EG_RECOVERY, ''RECOVERY''),
     (EG_SHUTDOWN, ''SHUTDOWN''),
     (EG_LIMITS, ''LIMITS'')]"

definition error_code_to_string :: "error_code \<Rightarrow> string" where
  "error_code_to_string c =
     (case table_find kErrorCodeNames c of Some n \<Rightarrow> n | None \<Rightarrow> ''UNKNOWN_ERROR'')"

definition error_stage_to_string :: "error_stage \<Rightarrow> string" where
  "error_stage_to_string g =
     (case table_find kErrorStageNames g of Some n \<Rightarrow> n | None \<Rightarrow> ''UNKNOWN_STAGE'')"

definition parse_error_code :: "string \<Rightarrow> error_code option" where
  "parse_error_code n = table_reverse kErrorCodeNames n"

section \<open>Status\<close>

record status =
  st_code :: error_code
  st_stage :: error_stage
  st_reason :: string

definition success :: status where
  "success = \<lparr>st_code = EC_OK, st_stage = EG_NONE, st_reason = []\<rparr>"

definition make_error :: "error_code \<Rightarrow> error_stage \<Rightarrow> string \<Rightarrow> status" where
  "make_error c g r = \<lparr>st_code = c, st_stage = g, st_reason = r\<rparr>"

definition st_ok :: "status \<Rightarrow> bool" where
  "st_ok s \<longleftrightarrow> st_code s = EC_OK"

definition st_failed :: "status \<Rightarrow> bool" where
  "st_failed s \<longleftrightarrow> st_code s \<noteq> EC_OK"

definition is_stale :: "status \<Rightarrow> bool" where
  "is_stale s \<longleftrightarrow>
     (case st_code s of
        EC_STALE_EPOCH \<Rightarrow> True | EC_STALE_WORKER \<Rightarrow> True | EC_STALE_GENERATION \<Rightarrow> True
      | EC_STALE_HYPOTHESIS \<Rightarrow> True | EC_STALE_BRANCH \<Rightarrow> True | EC_STALE_ATTEMPT \<Rightarrow> True
      | EC_UNAUTHORIZED \<Rightarrow> True | _ \<Rightarrow> False)"

definition status_to_string :: "status \<Rightarrow> string" where
  "status_to_string s =
     error_code_to_string (st_code s) @ '' stage='' @ error_stage_to_string (st_stage s) @
     (if st_reason s \<noteq> [] then '' reason='' @ st_reason s else [])"

type_synonym 'a result = "status + 'a"

lemma st_ok_success [simp]: "st_ok success"
  by (simp add: st_ok_def success_def)

lemma st_code_success [simp]: "st_code success = EC_OK"
  by (simp add: success_def)

lemma make_error_sel [simp]:
  "st_code (make_error c g r) = c" "st_stage (make_error c g r) = g" "st_reason (make_error c g r) = r"
  by (simp_all add: make_error_def)

lemma st_ok_make_error [simp]: "st_ok (make_error c g r) \<longleftrightarrow> c = EC_OK"
  by (simp add: st_ok_def)

lemma st_failed_iff: "st_failed s \<longleftrightarrow> \<not> st_ok s"
  by (simp add: st_failed_def st_ok_def)

interpretation error_code_names: name_table kErrorCodeNames
proof
  show "\<exists>n. (x, n) \<in> set kErrorCodeNames" for x
    by (cases x) (simp_all add: kErrorCodeNames_def)
qed (simp_all add: kErrorCodeNames_def)

interpretation error_stage_names: name_table kErrorStageNames
proof
  show "\<exists>n. (x, n) \<in> set kErrorStageNames" for x
    by (cases x) (simp_all add: kErrorStageNames_def)
qed (simp_all add: kErrorStageNames_def)

lemma error_code_to_string_lookup: "error_code_to_string c = table_lookup kErrorCodeNames c"
  by (simp add: error_code_to_string_def error_code_names.table_find_eq)

lemma parse_error_code_to_string: "parse_error_code (error_code_to_string c) = Some c"
  by (simp add: parse_error_code_def error_code_to_string_lookup error_code_names.print_parse)

lemma error_code_to_string_parse: "parse_error_code n = Some c \<Longrightarrow> error_code_to_string c = n"
  by (simp add: parse_error_code_def error_code_to_string_lookup error_code_names.parse_print)

end
