(* ===== verification/Domain.thy ===== *)
theory Domain
  imports ErrorModel
begin

text \<open>
  \<^verbatim>\<open>include/experiment_fabric/domain.hpp\<close> and \<^verbatim>\<open>src/domain.cpp\<close>: the enumerations with their stable
  numbers and names, and the lifecycle state machines of trials, attempts, experiments and
  branches as the transition predicates the source declares.
\<close>

section \<open>Enumerations\<close>

datatype parameter_kind =
    PK_TEXT
  | PK_INTEGER
  | PK_REAL
  | PK_BOOLEAN

datatype trial_state =
    TS_CREATED
  | TS_READY
  | TS_ASSIGNED
  | TS_RUNNING
  | TS_OBSERVING
  | TS_COMPLETED
  | TS_FAILED
  | TS_CANCELLED
  | TS_INVALID
  | TS_SUPERSEDED
  | TS_REVALIDATION_REQUIRED

datatype experiment_state =
    ES_OPEN
  | ES_FINALIZED
  | ES_CANCELLED
  | ES_SUPERSEDED
  | ES_RECOVERING

datatype branch_state =
    BS_ACTIVE
  | BS_RETIRED
  | BS_INVALID
  | BS_SUPERSEDED

datatype branch_role =
    BR_BASELINE
  | BR_CANDIDATE

datatype attempt_state =
    AS_ISSUED
  | AS_RUNNING
  | AS_PUBLISHED
  | AS_COMPLETED
  | AS_FAILED
  | AS_CANCELLED
  | AS_ABANDONED
  | AS_REVALIDATION_REQUIRED

datatype metric_kind =
    MK_REAL
  | MK_INTEGER
  | MK_BOOLEAN
  | MK_CATEGORICAL

datatype metric_direction =
    MD_MINIMIZE
  | MD_MAXIMIZE
  | MD_TARGET
  | MD_INFORMATIONAL

datatype aggregation_rule =
    AR_NONE
  | AR_MEAN
  | AR_MEDIAN
  | AR_MIN
  | AR_MAX
  | AR_SUM
  | AR_MAJORITY

datatype observation_validity =
    OV_VALID
  | OV_INVALID
  | OV_MISSING
  | OV_UNSUPPORTED

datatype comparison_op =
    CO_GREATER_THAN
  | CO_LESS_THAN
  | CO_MIN_IMPROVEMENT
  | CO_MAX_REGRESSION_TOLERANCE
  | CO_TARGET_RANGE
  | CO_MAJORITY_WINS
  | CO_REPORT_ONLY

datatype decision_outcome =
    DO_ACCEPT
  | DO_REJECT
  | DO_INCONCLUSIVE
  | DO_INSUFFICIENT_EVIDENCE
  | DO_INVALID
  | DO_CANCELLED
  | DO_SUPERSEDED

datatype failure_kind =
    FK_NONE
  | FK_EXECUTION_FAILURE
  | FK_INVALID_OBSERVATION
  | FK_PRODUCER_LOSS
  | FK_TRANSPORT_FAILURE
  | FK_CANCELLATION
  | FK_POLICY_REJECTION
  | FK_INSUFFICIENT_EVIDENCE
  | FK_PERSISTENCE_FAILURE
  | FK_EXPERIMENT_INVALIDATION
  | FK_LIMIT_EXCEEDED

datatype reproducibility_status =
    RS_REPRODUCIBLE
  | RS_PARTIALLY_REPRODUCIBLE
  | RS_NOT_REPRODUCIBLE
  | RS_UNKNOWN

datatype seed_policy =
    SP_FIXED
  | SP_DERIVED_PER_TRIAL
  | SP_PRODUCER_SUPPLIED
  | SP_NONE

datatype retry_policy =
    RP_FRESH_ATTEMPT_SAME_TRIAL
  | RP_NEW_TRIAL_IDENTITY
  | RP_NO_RETRY

datatype partial_failure_policy =
    PF_TOLERATE_IF_EVIDENCE_SUFFICIENT
  | PF_INVALIDATE_BRANCH
  | PF_RETRY_ALLOWED

datatype late_evidence_policy =
    LE_REJECT_AND_RECORD
  | LE_RETAIN_HISTORICAL

datatype provenance_label =
    PV_REAL
  | PV_SYNTHETIC
  | PV_UNSUPPORTED

section \<open>Stable numbers\<close>

text \<open>The explicit enumerator values, which cross persistence and transport.\<close>

primrec parameter_kind_code :: "parameter_kind \<Rightarrow> u8" where
    "parameter_kind_code PK_TEXT = 0"
  | "parameter_kind_code PK_INTEGER = 1"
  | "parameter_kind_code PK_REAL = 2"
  | "parameter_kind_code PK_BOOLEAN = 3"

primrec trial_state_code :: "trial_state \<Rightarrow> u8" where
    "trial_state_code TS_CREATED = 0"
  | "trial_state_code TS_READY = 1"
  | "trial_state_code TS_ASSIGNED = 2"
  | "trial_state_code TS_RUNNING = 3"
  | "trial_state_code TS_OBSERVING = 4"
  | "trial_state_code TS_COMPLETED = 5"
  | "trial_state_code TS_FAILED = 6"
  | "trial_state_code TS_CANCELLED = 7"
  | "trial_state_code TS_INVALID = 8"
  | "trial_state_code TS_SUPERSEDED = 9"
  | "trial_state_code TS_REVALIDATION_REQUIRED = 10"

primrec experiment_state_code :: "experiment_state \<Rightarrow> u8" where
    "experiment_state_code ES_OPEN = 0"
  | "experiment_state_code ES_FINALIZED = 1"
  | "experiment_state_code ES_CANCELLED = 2"
  | "experiment_state_code ES_SUPERSEDED = 3"
  | "experiment_state_code ES_RECOVERING = 4"

primrec branch_state_code :: "branch_state \<Rightarrow> u8" where
    "branch_state_code BS_ACTIVE = 0"
  | "branch_state_code BS_RETIRED = 1"
  | "branch_state_code BS_INVALID = 2"
  | "branch_state_code BS_SUPERSEDED = 3"

primrec branch_role_code :: "branch_role \<Rightarrow> u8" where
    "branch_role_code BR_BASELINE = 0"
  | "branch_role_code BR_CANDIDATE = 1"

primrec attempt_state_code :: "attempt_state \<Rightarrow> u8" where
    "attempt_state_code AS_ISSUED = 0"
  | "attempt_state_code AS_RUNNING = 1"
  | "attempt_state_code AS_PUBLISHED = 2"
  | "attempt_state_code AS_COMPLETED = 3"
  | "attempt_state_code AS_FAILED = 4"
  | "attempt_state_code AS_CANCELLED = 5"
  | "attempt_state_code AS_ABANDONED = 6"
  | "attempt_state_code AS_REVALIDATION_REQUIRED = 7"

primrec metric_kind_code :: "metric_kind \<Rightarrow> u8" where
    "metric_kind_code MK_REAL = 0"
  | "metric_kind_code MK_INTEGER = 1"
  | "metric_kind_code MK_BOOLEAN = 2"
  | "metric_kind_code MK_CATEGORICAL = 3"

primrec metric_direction_code :: "metric_direction \<Rightarrow> u8" where
    "metric_direction_code MD_MINIMIZE = 0"
  | "metric_direction_code MD_MAXIMIZE = 1"
  | "metric_direction_code MD_TARGET = 2"
  | "metric_direction_code MD_INFORMATIONAL = 3"

primrec aggregation_rule_code :: "aggregation_rule \<Rightarrow> u8" where
    "aggregation_rule_code AR_NONE = 0"
  | "aggregation_rule_code AR_MEAN = 1"
  | "aggregation_rule_code AR_MEDIAN = 2"
  | "aggregation_rule_code AR_MIN = 3"
  | "aggregation_rule_code AR_MAX = 4"
  | "aggregation_rule_code AR_SUM = 5"
  | "aggregation_rule_code AR_MAJORITY = 6"

primrec observation_validity_code :: "observation_validity \<Rightarrow> u8" where
    "observation_validity_code OV_VALID = 0"
  | "observation_validity_code OV_INVALID = 1"
  | "observation_validity_code OV_MISSING = 2"
  | "observation_validity_code OV_UNSUPPORTED = 3"

primrec comparison_op_code :: "comparison_op \<Rightarrow> u8" where
    "comparison_op_code CO_GREATER_THAN = 0"
  | "comparison_op_code CO_LESS_THAN = 1"
  | "comparison_op_code CO_MIN_IMPROVEMENT = 2"
  | "comparison_op_code CO_MAX_REGRESSION_TOLERANCE = 3"
  | "comparison_op_code CO_TARGET_RANGE = 4"
  | "comparison_op_code CO_MAJORITY_WINS = 5"
  | "comparison_op_code CO_REPORT_ONLY = 6"

primrec decision_outcome_code :: "decision_outcome \<Rightarrow> u8" where
    "decision_outcome_code DO_ACCEPT = 0"
  | "decision_outcome_code DO_REJECT = 1"
  | "decision_outcome_code DO_INCONCLUSIVE = 2"
  | "decision_outcome_code DO_INSUFFICIENT_EVIDENCE = 3"
  | "decision_outcome_code DO_INVALID = 4"
  | "decision_outcome_code DO_CANCELLED = 5"
  | "decision_outcome_code DO_SUPERSEDED = 6"

primrec failure_kind_code :: "failure_kind \<Rightarrow> u8" where
    "failure_kind_code FK_NONE = 0"
  | "failure_kind_code FK_EXECUTION_FAILURE = 1"
  | "failure_kind_code FK_INVALID_OBSERVATION = 2"
  | "failure_kind_code FK_PRODUCER_LOSS = 3"
  | "failure_kind_code FK_TRANSPORT_FAILURE = 4"
  | "failure_kind_code FK_CANCELLATION = 5"
  | "failure_kind_code FK_POLICY_REJECTION = 6"
  | "failure_kind_code FK_INSUFFICIENT_EVIDENCE = 7"
  | "failure_kind_code FK_PERSISTENCE_FAILURE = 8"
  | "failure_kind_code FK_EXPERIMENT_INVALIDATION = 9"
  | "failure_kind_code FK_LIMIT_EXCEEDED = 10"

primrec reproducibility_status_code :: "reproducibility_status \<Rightarrow> u8" where
    "reproducibility_status_code RS_REPRODUCIBLE = 0"
  | "reproducibility_status_code RS_PARTIALLY_REPRODUCIBLE = 1"
  | "reproducibility_status_code RS_NOT_REPRODUCIBLE = 2"
  | "reproducibility_status_code RS_UNKNOWN = 3"

primrec seed_policy_code :: "seed_policy \<Rightarrow> u8" where
    "seed_policy_code SP_FIXED = 0"
  | "seed_policy_code SP_DERIVED_PER_TRIAL = 1"
  | "seed_policy_code SP_PRODUCER_SUPPLIED = 2"
  | "seed_policy_code SP_NONE = 3"

primrec retry_policy_code :: "retry_policy \<Rightarrow> u8" where
    "retry_policy_code RP_FRESH_ATTEMPT_SAME_TRIAL = 0"
  | "retry_policy_code RP_NEW_TRIAL_IDENTITY = 1"
  | "retry_policy_code RP_NO_RETRY = 2"

primrec partial_failure_policy_code :: "partial_failure_policy \<Rightarrow> u8" where
    "partial_failure_policy_code PF_TOLERATE_IF_EVIDENCE_SUFFICIENT = 0"
  | "partial_failure_policy_code PF_INVALIDATE_BRANCH = 1"
  | "partial_failure_policy_code PF_RETRY_ALLOWED = 2"

primrec late_evidence_policy_code :: "late_evidence_policy \<Rightarrow> u8" where
    "late_evidence_policy_code LE_REJECT_AND_RECORD = 0"
  | "late_evidence_policy_code LE_RETAIN_HISTORICAL = 1"

primrec provenance_label_code :: "provenance_label \<Rightarrow> u8" where
    "provenance_label_code PV_REAL = 0"
  | "provenance_label_code PV_SYNTHETIC = 1"
  | "provenance_label_code PV_UNSUPPORTED = 2"

section \<open>Name tables\<close>

definition kParameterKinds :: "(parameter_kind \<times> string) list" where
  "kParameterKinds =
    [(PK_TEXT, ''TEXT''),
     (PK_INTEGER, ''INTEGER''),
     (PK_REAL, ''REAL''),
     (PK_BOOLEAN, ''BOOLEAN'')]"

definition kTrialStates :: "(trial_state \<times> string) list" where
  "kTrialStates =
    [(TS_CREATED, ''CREATED''),
     (TS_READY, ''READY''),
     (TS_ASSIGNED, ''ASSIGNED''),
     (TS_RUNNING, ''RUNNING''),
     (TS_OBSERVING, ''OBSERVING''),
     (TS_COMPLETED, ''COMPLETED''),
     (TS_FAILED, ''FAILED''),
     (TS_CANCELLED, ''CANCELLED''),
     (TS_INVALID, ''INVALID''),
     (TS_SUPERSEDED, ''SUPERSEDED''),
     (TS_REVALIDATION_REQUIRED, ''REVALIDATION_REQUIRED'')]"

definition kExperimentStates :: "(experiment_state \<times> string) list" where
  "kExperimentStates =
    [(ES_OPEN, ''OPEN''),
     (ES_FINALIZED, ''FINALIZED''),
     (ES_CANCELLED, ''CANCELLED''),
     (ES_SUPERSEDED, ''SUPERSEDED''),
     (ES_RECOVERING, ''RECOVERING'')]"

definition kBranchStates :: "(branch_state \<times> string) list" where
  "kBranchStates =
    [(BS_ACTIVE, ''ACTIVE''),
     (BS_RETIRED, ''RETIRED''),
     (BS_INVALID, ''INVALID''),
     (BS_SUPERSEDED, ''SUPERSEDED'')]"

definition kBranchRoles :: "(branch_role \<times> string) list" where
  "kBranchRoles =
    [(BR_BASELINE, ''BASELINE''),
     (BR_CANDIDATE, ''CANDIDATE'')]"

definition kAttemptStates :: "(attempt_state \<times> string) list" where
  "kAttemptStates =
    [(AS_ISSUED, ''ISSUED''),
     (AS_RUNNING, ''RUNNING''),
     (AS_PUBLISHED, ''PUBLISHED''),
     (AS_COMPLETED, ''COMPLETED''),
     (AS_FAILED, ''FAILED''),
     (AS_CANCELLED, ''CANCELLED''),
     (AS_ABANDONED, ''ABANDONED''),
     (AS_REVALIDATION_REQUIRED, ''REVALIDATION_REQUIRED'')]"

definition kMetricKinds :: "(metric_kind \<times> string) list" where
  "kMetricKinds =
    [(MK_REAL, ''REAL''),
     (MK_INTEGER, ''INTEGER''),
     (MK_BOOLEAN, ''BOOLEAN''),
     (MK_CATEGORICAL, ''CATEGORICAL'')]"

definition kMetricDirections :: "(metric_direction \<times> string) list" where
  "kMetricDirections =
    [(MD_MINIMIZE, ''MINIMIZE''),
     (MD_MAXIMIZE, ''MAXIMIZE''),
     (MD_TARGET, ''TARGET''),
     (MD_INFORMATIONAL, ''INFORMATIONAL'')]"

definition kAggregationRules :: "(aggregation_rule \<times> string) list" where
  "kAggregationRules =
    [(AR_NONE, ''NONE''),
     (AR_MEAN, ''MEAN''),
     (AR_MEDIAN, ''MEDIAN''),
     (AR_MIN, ''MIN''),
     (AR_MAX, ''MAX''),
     (AR_SUM, ''SUM''),
     (AR_MAJORITY, ''MAJORITY'')]"

definition kObservationValidities :: "(observation_validity \<times> string) list" where
  "kObservationValidities =
    [(OV_VALID, ''VALID''),
     (OV_INVALID, ''INVALID''),
     (OV_MISSING, ''MISSING''),
     (OV_UNSUPPORTED, ''UNSUPPORTED'')]"

definition kComparisonOps :: "(comparison_op \<times> string) list" where
  "kComparisonOps =
    [(CO_GREATER_THAN, ''GREATER_THAN''),
     (CO_LESS_THAN, ''LESS_THAN''),
     (CO_MIN_IMPROVEMENT, ''MIN_IMPROVEMENT''),
     (CO_MAX_REGRESSION_TOLERANCE, ''MAX_REGRESSION_TOLERANCE''),
     (CO_TARGET_RANGE, ''TARGET_RANGE''),
     (CO_MAJORITY_WINS, ''MAJORITY_WINS''),
     (CO_REPORT_ONLY, ''REPORT_ONLY'')]"

definition kDecisionOutcomes :: "(decision_outcome \<times> string) list" where
  "kDecisionOutcomes =
    [(DO_ACCEPT, ''ACCEPT''),
     (DO_REJECT, ''REJECT''),
     (DO_INCONCLUSIVE, ''INCONCLUSIVE''),
     (DO_INSUFFICIENT_EVIDENCE, ''INSUFFICIENT_EVIDENCE''),
     (DO_INVALID, ''INVALID''),
     (DO_CANCELLED, ''CANCELLED''),
     (DO_SUPERSEDED, ''SUPERSEDED'')]"

definition kFailureKinds :: "(failure_kind \<times> string) list" where
  "kFailureKinds =
    [(FK_NONE, ''NONE''),
     (FK_EXECUTION_FAILURE, ''EXECUTION_FAILURE''),
     (FK_INVALID_OBSERVATION, ''INVALID_OBSERVATION''),
     (FK_PRODUCER_LOSS, ''PRODUCER_LOSS''),
     (FK_TRANSPORT_FAILURE, ''TRANSPORT_FAILURE''),
     (FK_CANCELLATION, ''CANCELLATION''),
     (FK_POLICY_REJECTION, ''POLICY_REJECTION''),
     (FK_INSUFFICIENT_EVIDENCE, ''INSUFFICIENT_EVIDENCE''),
     (FK_PERSISTENCE_FAILURE, ''PERSISTENCE_FAILURE''),
     (FK_EXPERIMENT_INVALIDATION, ''EXPERIMENT_INVALIDATION''),
     (FK_LIMIT_EXCEEDED, ''LIMIT_EXCEEDED'')]"

definition kReproducibilityStatuses :: "(reproducibility_status \<times> string) list" where
  "kReproducibilityStatuses =
    [(RS_REPRODUCIBLE, ''REPRODUCIBLE''),
     (RS_PARTIALLY_REPRODUCIBLE, ''PARTIALLY_REPRODUCIBLE''),
     (RS_NOT_REPRODUCIBLE, ''NOT_REPRODUCIBLE''),
     (RS_UNKNOWN, ''UNKNOWN'')]"

definition kSeedPolicies :: "(seed_policy \<times> string) list" where
  "kSeedPolicies =
    [(SP_FIXED, ''FIXED''),
     (SP_DERIVED_PER_TRIAL, ''DERIVED_PER_TRIAL''),
     (SP_PRODUCER_SUPPLIED, ''PRODUCER_SUPPLIED''),
     (SP_NONE, ''NONE'')]"

definition kRetryPolicies :: "(retry_policy \<times> string) list" where
  "kRetryPolicies =
    [(RP_FRESH_ATTEMPT_SAME_TRIAL, ''FRESH_ATTEMPT_SAME_TRIAL''),
     (RP_NEW_TRIAL_IDENTITY, ''NEW_TRIAL_IDENTITY''),
     (RP_NO_RETRY, ''NO_RETRY'')]"

definition kPartialFailurePolicies :: "(partial_failure_policy \<times> string) list" where
  "kPartialFailurePolicies =
    [(PF_TOLERATE_IF_EVIDENCE_SUFFICIENT, ''TOLERATE_IF_EVIDENCE_SUFFICIENT''),
     (PF_INVALIDATE_BRANCH, ''INVALIDATE_BRANCH''),
     (PF_RETRY_ALLOWED, ''RETRY_ALLOWED'')]"

definition kLateEvidencePolicies :: "(late_evidence_policy \<times> string) list" where
  "kLateEvidencePolicies =
    [(LE_REJECT_AND_RECORD, ''REJECT_AND_RECORD''),
     (LE_RETAIN_HISTORICAL, ''RETAIN_HISTORICAL'')]"

definition kProvenances :: "(provenance_label \<times> string) list" where
  "kProvenances =
    [(PV_REAL, ''REAL''),
     (PV_SYNTHETIC, ''SYNTHETIC''),
     (PV_UNSUPPORTED, ''UNSUPPORTED'')]"

section \<open>Printing and parsing\<close>

definition parameter_kind_to_string :: "parameter_kind \<Rightarrow> string" where
  "parameter_kind_to_string = table_lookup kParameterKinds"

definition trial_state_to_string :: "trial_state \<Rightarrow> string" where
  "trial_state_to_string = table_lookup kTrialStates"

definition experiment_state_to_string :: "experiment_state \<Rightarrow> string" where
  "experiment_state_to_string = table_lookup kExperimentStates"

definition branch_state_to_string :: "branch_state \<Rightarrow> string" where
  "branch_state_to_string = table_lookup kBranchStates"

definition branch_role_to_string :: "branch_role \<Rightarrow> string" where
  "branch_role_to_string = table_lookup kBranchRoles"

definition attempt_state_to_string :: "attempt_state \<Rightarrow> string" where
  "attempt_state_to_string = table_lookup kAttemptStates"

definition metric_kind_to_string :: "metric_kind \<Rightarrow> string" where
  "metric_kind_to_string = table_lookup kMetricKinds"

definition metric_direction_to_string :: "metric_direction \<Rightarrow> string" where
  "metric_direction_to_string = table_lookup kMetricDirections"

definition aggregation_rule_to_string :: "aggregation_rule \<Rightarrow> string" where
  "aggregation_rule_to_string = table_lookup kAggregationRules"

definition observation_validity_to_string :: "observation_validity \<Rightarrow> string" where
  "observation_validity_to_string = table_lookup kObservationValidities"

definition comparison_op_to_string :: "comparison_op \<Rightarrow> string" where
  "comparison_op_to_string = table_lookup kComparisonOps"

definition decision_outcome_to_string :: "decision_outcome \<Rightarrow> string" where
  "decision_outcome_to_string = table_lookup kDecisionOutcomes"

definition failure_kind_to_string :: "failure_kind \<Rightarrow> string" where
  "failure_kind_to_string = table_lookup kFailureKinds"

definition reproducibility_status_to_string :: "reproducibility_status \<Rightarrow> string" where
  "reproducibility_status_to_string = table_lookup kReproducibilityStatuses"

definition seed_policy_to_string :: "seed_policy \<Rightarrow> string" where
  "seed_policy_to_string = table_lookup kSeedPolicies"

definition retry_policy_to_string :: "retry_policy \<Rightarrow> string" where
  "retry_policy_to_string = table_lookup kRetryPolicies"

definition partial_failure_policy_to_string :: "partial_failure_policy \<Rightarrow> string" where
  "partial_failure_policy_to_string = table_lookup kPartialFailurePolicies"

definition late_evidence_policy_to_string :: "late_evidence_policy \<Rightarrow> string" where
  "late_evidence_policy_to_string = table_lookup kLateEvidencePolicies"

definition provenance_label_to_string :: "provenance_label \<Rightarrow> string" where
  "provenance_label_to_string = table_lookup kProvenances"

definition parse_parameter_kind :: "string \<Rightarrow> parameter_kind option" where
  "parse_parameter_kind = table_reverse kParameterKinds"

definition parse_trial_state :: "string \<Rightarrow> trial_state option" where
  "parse_trial_state = table_reverse kTrialStates"

definition parse_experiment_state :: "string \<Rightarrow> experiment_state option" where
  "parse_experiment_state = table_reverse kExperimentStates"

definition parse_branch_state :: "string \<Rightarrow> branch_state option" where
  "parse_branch_state = table_reverse kBranchStates"

definition parse_branch_role :: "string \<Rightarrow> branch_role option" where
  "parse_branch_role = table_reverse kBranchRoles"

definition parse_attempt_state :: "string \<Rightarrow> attempt_state option" where
  "parse_attempt_state = table_reverse kAttemptStates"

definition parse_metric_kind :: "string \<Rightarrow> metric_kind option" where
  "parse_metric_kind = table_reverse kMetricKinds"

definition parse_metric_direction :: "string \<Rightarrow> metric_direction option" where
  "parse_metric_direction = table_reverse kMetricDirections"

definition parse_aggregation_rule :: "string \<Rightarrow> aggregation_rule option" where
  "parse_aggregation_rule = table_reverse kAggregationRules"

definition parse_observation_validity :: "string \<Rightarrow> observation_validity option" where
  "parse_observation_validity = table_reverse kObservationValidities"

definition parse_comparison_op :: "string \<Rightarrow> comparison_op option" where
  "parse_comparison_op = table_reverse kComparisonOps"

definition parse_decision_outcome :: "string \<Rightarrow> decision_outcome option" where
  "parse_decision_outcome = table_reverse kDecisionOutcomes"

definition parse_failure_kind :: "string \<Rightarrow> failure_kind option" where
  "parse_failure_kind = table_reverse kFailureKinds"

definition parse_reproducibility_status :: "string \<Rightarrow> reproducibility_status option" where
  "parse_reproducibility_status = table_reverse kReproducibilityStatuses"

definition parse_seed_policy :: "string \<Rightarrow> seed_policy option" where
  "parse_seed_policy = table_reverse kSeedPolicies"

definition parse_retry_policy :: "string \<Rightarrow> retry_policy option" where
  "parse_retry_policy = table_reverse kRetryPolicies"

definition parse_partial_failure_policy :: "string \<Rightarrow> partial_failure_policy option" where
  "parse_partial_failure_policy = table_reverse kPartialFailurePolicies"

definition parse_late_evidence_policy :: "string \<Rightarrow> late_evidence_policy option" where
  "parse_late_evidence_policy = table_reverse kLateEvidencePolicies"

definition parse_provenance_label :: "string \<Rightarrow> provenance_label option" where
  "parse_provenance_label = table_reverse kProvenances"

section \<open>State machine helpers\<close>

fun is_terminal :: "trial_state \<Rightarrow> bool" where
  "is_terminal TS_COMPLETED = True"
| "is_terminal TS_FAILED = True"
| "is_terminal TS_CANCELLED = True"
| "is_terminal TS_INVALID = True"
| "is_terminal TS_SUPERSEDED = True"
| "is_terminal TS_CREATED = False"
| "is_terminal TS_READY = False"
| "is_terminal TS_ASSIGNED = False"
| "is_terminal TS_RUNNING = False"
| "is_terminal TS_OBSERVING = False"
| "is_terminal TS_REVALIDATION_REQUIRED = False"

definition is_trial_closed :: "trial_state \<Rightarrow> bool" where
  "is_trial_closed s = is_terminal s"

definition is_experiment_mutable :: "experiment_state \<Rightarrow> bool" where
  "is_experiment_mutable s \<longleftrightarrow> s = ES_OPEN"

fun is_attempt_terminal :: "attempt_state \<Rightarrow> bool" where
  "is_attempt_terminal AS_COMPLETED = True"
| "is_attempt_terminal AS_FAILED = True"
| "is_attempt_terminal AS_CANCELLED = True"
| "is_attempt_terminal AS_ABANDONED = True"
| "is_attempt_terminal AS_ISSUED = False"
| "is_attempt_terminal AS_RUNNING = False"
| "is_attempt_terminal AS_PUBLISHED = False"
| "is_attempt_terminal AS_REVALIDATION_REQUIRED = False"

definition is_branch_eligible :: "branch_state \<Rightarrow> bool" where
  "is_branch_eligible s \<longleftrightarrow> s = BS_ACTIVE"

definition trial_transition :: "trial_state \<Rightarrow> trial_state \<Rightarrow> bool" where
  "trial_transition from_s to_s =
     (if from_s = to_s then False
      else if is_terminal from_s then to_s = TS_SUPERSEDED \<and> from_s \<noteq> TS_SUPERSEDED
      else (case from_s of
          TS_CREATED \<Rightarrow> to_s \<in> {TS_READY, TS_CANCELLED, TS_INVALID, TS_SUPERSEDED, TS_REVALIDATION_REQUIRED}
        | TS_READY \<Rightarrow> to_s \<in> {TS_ASSIGNED, TS_CANCELLED, TS_INVALID, TS_SUPERSEDED, TS_REVALIDATION_REQUIRED}
        | TS_ASSIGNED \<Rightarrow> to_s \<in> {TS_RUNNING, TS_OBSERVING, TS_READY, TS_FAILED, TS_CANCELLED, TS_INVALID,
            TS_SUPERSEDED, TS_REVALIDATION_REQUIRED}
        | TS_RUNNING \<Rightarrow> to_s \<in> {TS_OBSERVING, TS_FAILED, TS_CANCELLED, TS_INVALID, TS_SUPERSEDED,
            TS_REVALIDATION_REQUIRED}
        | TS_OBSERVING \<Rightarrow> to_s \<in> {TS_COMPLETED, TS_FAILED, TS_CANCELLED, TS_INVALID, TS_SUPERSEDED,
            TS_REVALIDATION_REQUIRED}
        | TS_REVALIDATION_REQUIRED \<Rightarrow> to_s \<in> {TS_READY, TS_FAILED, TS_CANCELLED, TS_INVALID, TS_SUPERSEDED}
        | _ \<Rightarrow> False))"

definition attempt_transition :: "attempt_state \<Rightarrow> attempt_state \<Rightarrow> bool" where
  "attempt_transition from_s to_s =
     (if from_s = to_s then False
      else if is_attempt_terminal from_s then False
      else (case from_s of
          AS_ISSUED \<Rightarrow> to_s \<in> {AS_RUNNING, AS_PUBLISHED, AS_COMPLETED, AS_FAILED, AS_CANCELLED, AS_ABANDONED,
            AS_REVALIDATION_REQUIRED}
        | AS_RUNNING \<Rightarrow> to_s \<in> {AS_PUBLISHED, AS_COMPLETED, AS_FAILED, AS_CANCELLED, AS_ABANDONED,
            AS_REVALIDATION_REQUIRED}
        | AS_PUBLISHED \<Rightarrow> to_s \<in> {AS_COMPLETED, AS_FAILED, AS_CANCELLED, AS_ABANDONED, AS_REVALIDATION_REQUIRED}
        | AS_REVALIDATION_REQUIRED \<Rightarrow> to_s \<in> {AS_FAILED, AS_CANCELLED, AS_ABANDONED}
        | _ \<Rightarrow> False))"

definition experiment_transition :: "experiment_state \<Rightarrow> experiment_state \<Rightarrow> bool" where
  "experiment_transition from_s to_s =
     (if from_s = to_s then False
      else (case from_s of
          ES_OPEN \<Rightarrow> to_s \<in> {ES_FINALIZED, ES_CANCELLED, ES_SUPERSEDED, ES_RECOVERING}
        | ES_RECOVERING \<Rightarrow> to_s \<in> {ES_OPEN, ES_CANCELLED, ES_SUPERSEDED}
        | _ \<Rightarrow> to_s = ES_SUPERSEDED \<and> from_s \<noteq> ES_SUPERSEDED))"

definition branch_transition :: "branch_state \<Rightarrow> branch_state \<Rightarrow> bool" where
  "branch_transition from_s to_s =
     (if from_s = to_s then False
      else (case from_s of
          BS_ACTIVE \<Rightarrow> to_s \<in> {BS_RETIRED, BS_INVALID, BS_SUPERSEDED}
        | BS_RETIRED \<Rightarrow> to_s \<in> {BS_ACTIVE, BS_SUPERSEDED}
        | BS_INVALID \<Rightarrow> to_s = BS_SUPERSEDED
        | BS_SUPERSEDED \<Rightarrow> False))"

definition invalid_transition_status :: "string \<Rightarrow> string \<Rightarrow> string \<Rightarrow> status" where
  "invalid_transition_status what from_s to_s =
     make_error EC_INVALID_TRANSITION EG_LIFECYCLE
       (what @ lit '': invalid transition '' @ from_s @ lit '' -> '' @ to_s)"

lemma invalid_transition_status_code [simp]:
  "st_code (invalid_transition_status w f t) = EC_INVALID_TRANSITION"
  by (simp add: invalid_transition_status_def)

section \<open>Laws of the state machines\<close>

text \<open>
  A lifecycle: states, a transition predicate and the states that accept no further work. The
  laws are those the header promises: no state moves to itself, and a closed state is left only
  for an audit marker that is itself closed and final.
\<close>

locale lifecycle =
  fixes transition :: "'s \<Rightarrow> 's \<Rightarrow> bool"
    and closed :: "'s \<Rightarrow> bool"
    and audit :: "'s \<Rightarrow> bool"
  assumes no_self_loop: "\<not> transition s s"
    and closed_only_audit: "closed s \<Longrightarrow> transition s t \<Longrightarrow> audit t \<and> \<not> audit s"
    and audit_closed: "audit s \<Longrightarrow> closed s"
begin

inductive runs :: "'s \<Rightarrow> 's \<Rightarrow> bool" where
  runs_refl: "runs s s"
| runs_step: "runs s t \<Longrightarrow> transition t u \<Longrightarrow> runs s u"

lemma closed_stays_closed: "runs s t \<Longrightarrow> closed s \<Longrightarrow> closed t \<and> (t = s \<or> audit t)"
  by (induction rule: runs.induct) (auto dest: closed_only_audit intro: audit_closed)

lemma audit_final: "runs s t \<Longrightarrow> audit s \<Longrightarrow> t = s"
  by (induction rule: runs.induct) (auto dest: closed_only_audit audit_closed)

lemma at_most_one_step_after_closing:
  assumes "runs s t" and "closed s" and "transition t u"
  shows "t = s"
proof (rule ccontr)
  assume "t \<noteq> s"
  then have "audit t" using closed_stays_closed [OF assms(1,2)] by simp
  then show False using closed_only_audit [OF audit_closed assms(3)] by simp
qed

end

interpretation trial_life: lifecycle trial_transition is_terminal "\<lambda>s. s = TS_SUPERSEDED"
  by unfold_locales (auto simp: trial_transition_def split: if_splits)

interpretation attempt_life: lifecycle attempt_transition is_attempt_terminal "\<lambda>s. False"
  by unfold_locales (auto simp: attempt_transition_def split: if_splits)

interpretation experiment_life: lifecycle experiment_transition
  "\<lambda>s. s \<in> {ES_FINALIZED, ES_CANCELLED, ES_SUPERSEDED}" "\<lambda>s. s = ES_SUPERSEDED"
  by unfold_locales (auto simp: experiment_transition_def split: if_splits)

interpretation branch_life: lifecycle branch_transition "\<lambda>s. s = BS_SUPERSEDED" "\<lambda>s. s = BS_SUPERSEDED"
  by unfold_locales (auto simp: branch_transition_def split: if_splits)

interpretation parameter_kind_names: name_table kParameterKinds
proof
  show "\<exists>n. (x, n) \<in> set kParameterKinds" for x
    by (cases x) (simp_all add: kParameterKinds_def)
qed (simp_all add: kParameterKinds_def)

interpretation trial_state_names: name_table kTrialStates
proof
  show "\<exists>n. (x, n) \<in> set kTrialStates" for x
    by (cases x) (simp_all add: kTrialStates_def)
qed (simp_all add: kTrialStates_def)

interpretation experiment_state_names: name_table kExperimentStates
proof
  show "\<exists>n. (x, n) \<in> set kExperimentStates" for x
    by (cases x) (simp_all add: kExperimentStates_def)
qed (simp_all add: kExperimentStates_def)

interpretation branch_state_names: name_table kBranchStates
proof
  show "\<exists>n. (x, n) \<in> set kBranchStates" for x
    by (cases x) (simp_all add: kBranchStates_def)
qed (simp_all add: kBranchStates_def)

interpretation branch_role_names: name_table kBranchRoles
proof
  show "\<exists>n. (x, n) \<in> set kBranchRoles" for x
    by (cases x) (simp_all add: kBranchRoles_def)
qed (simp_all add: kBranchRoles_def)

interpretation attempt_state_names: name_table kAttemptStates
proof
  show "\<exists>n. (x, n) \<in> set kAttemptStates" for x
    by (cases x) (simp_all add: kAttemptStates_def)
qed (simp_all add: kAttemptStates_def)

interpretation metric_kind_names: name_table kMetricKinds
proof
  show "\<exists>n. (x, n) \<in> set kMetricKinds" for x
    by (cases x) (simp_all add: kMetricKinds_def)
qed (simp_all add: kMetricKinds_def)

interpretation metric_direction_names: name_table kMetricDirections
proof
  show "\<exists>n. (x, n) \<in> set kMetricDirections" for x
    by (cases x) (simp_all add: kMetricDirections_def)
qed (simp_all add: kMetricDirections_def)

interpretation aggregation_rule_names: name_table kAggregationRules
proof
  show "\<exists>n. (x, n) \<in> set kAggregationRules" for x
    by (cases x) (simp_all add: kAggregationRules_def)
qed (simp_all add: kAggregationRules_def)

interpretation observation_validity_names: name_table kObservationValidities
proof
  show "\<exists>n. (x, n) \<in> set kObservationValidities" for x
    by (cases x) (simp_all add: kObservationValidities_def)
qed (simp_all add: kObservationValidities_def)

interpretation comparison_op_names: name_table kComparisonOps
proof
  show "\<exists>n. (x, n) \<in> set kComparisonOps" for x
    by (cases x) (simp_all add: kComparisonOps_def)
qed (simp_all add: kComparisonOps_def)

interpretation decision_outcome_names: name_table kDecisionOutcomes
proof
  show "\<exists>n. (x, n) \<in> set kDecisionOutcomes" for x
    by (cases x) (simp_all add: kDecisionOutcomes_def)
qed (simp_all add: kDecisionOutcomes_def)

interpretation failure_kind_names: name_table kFailureKinds
proof
  show "\<exists>n. (x, n) \<in> set kFailureKinds" for x
    by (cases x) (simp_all add: kFailureKinds_def)
qed (simp_all add: kFailureKinds_def)

interpretation reproducibility_status_names: name_table kReproducibilityStatuses
proof
  show "\<exists>n. (x, n) \<in> set kReproducibilityStatuses" for x
    by (cases x) (simp_all add: kReproducibilityStatuses_def)
qed (simp_all add: kReproducibilityStatuses_def)

interpretation seed_policy_names: name_table kSeedPolicies
proof
  show "\<exists>n. (x, n) \<in> set kSeedPolicies" for x
    by (cases x) (simp_all add: kSeedPolicies_def)
qed (simp_all add: kSeedPolicies_def)

interpretation retry_policy_names: name_table kRetryPolicies
proof
  show "\<exists>n. (x, n) \<in> set kRetryPolicies" for x
    by (cases x) (simp_all add: kRetryPolicies_def)
qed (simp_all add: kRetryPolicies_def)

interpretation partial_failure_policy_names: name_table kPartialFailurePolicies
proof
  show "\<exists>n. (x, n) \<in> set kPartialFailurePolicies" for x
    by (cases x) (simp_all add: kPartialFailurePolicies_def)
qed (simp_all add: kPartialFailurePolicies_def)

interpretation late_evidence_policy_names: name_table kLateEvidencePolicies
proof
  show "\<exists>n. (x, n) \<in> set kLateEvidencePolicies" for x
    by (cases x) (simp_all add: kLateEvidencePolicies_def)
qed (simp_all add: kLateEvidencePolicies_def)

interpretation provenance_label_names: name_table kProvenances
proof
  show "\<exists>n. (x, n) \<in> set kProvenances" for x
    by (cases x) (simp_all add: kProvenances_def)
qed (simp_all add: kProvenances_def)

lemmas fence_predicates [fence_simps] =
  is_experiment_mutable_def is_branch_eligible_def is_trial_closed_def

section \<open>Properties\<close>

text \<open>
  A trial that has reached a terminal state stays terminal along every sequence of declared
  transitions, and the only other state it can ever be in is the audit marker SUPERSEDED.
\<close>

theorem terminal_trials_stay_terminal:
  assumes "trial_life.runs s t" and "is_terminal s"
  shows "is_terminal t \<and> (t = s \<or> t = TS_SUPERSEDED)"
  using assms by (rule trial_life.closed_stays_closed)

theorem terminal_trials_stay_terminal_witness:
  "trial_life.runs TS_COMPLETED TS_SUPERSEDED \<and> is_terminal TS_SUPERSEDED"
proof -
  have h: "trial_life.runs TS_COMPLETED TS_SUPERSEDED"
    by (rule trial_life.runs_step [OF trial_life.runs_refl]) (simp add: trial_transition_def)
  show ?thesis using h terminal_trials_stay_terminal [OF h] by simp
qed

text \<open>
  Recovered state is resolved conservatively. From REVALIDATION_REQUIRED no declared
  transition of a trial leads into execution or to completion, and none of an attempt leads back
  to a state that can still publish or to completion.
\<close>

theorem revalidation_is_conservative:
  "(trial_transition TS_REVALIDATION_REQUIRED t \<longrightarrow>
      t \<notin> {TS_ASSIGNED, TS_RUNNING, TS_OBSERVING, TS_COMPLETED}) \<and>
   (attempt_transition AS_REVALIDATION_REQUIRED a \<longrightarrow>
      is_attempt_terminal a \<and> a \<noteq> AS_COMPLETED)"
  by (auto simp: trial_transition_def attempt_transition_def split: if_splits)

end
