(* ===== verification/Binary64.thy ===== *)
theory Binary64
  imports Prelude
begin

unbundle bit_operations_syntax

text \<open>
  The C++ type \<^verbatim>\<open>double\<close> as the source uses it: IEEE 754 binary64 in its bit pattern, with round to
  nearest, ties to even. Every finite value is an integral multiple of \<open>2 ^ -1074\<close>, so the exact
  value is the integer \<open>d_val\<close> in that unit, comparisons are comparisons of integers, and each
  operation is the exact result rounded once. An invalid operation gives one quiet NaN: the sign
  and payload of a NaN are not specified by the language, and nothing in the program reads them.
\<close>

section \<open>Representation\<close>

type_synonym double = u64

definition d_sign :: "double \<Rightarrow> bool" where
  "d_sign d = bit d 63"

definition d_exp :: "double \<Rightarrow> int" where
  "d_exp d = uint (drop_bit 52 d AND 0x7FF)"

definition d_frac :: "double \<Rightarrow> int" where
  "d_frac d = uint (d AND 0xFFFFFFFFFFFFF)"

definition isnan :: "double \<Rightarrow> bool" where
  "isnan d \<longleftrightarrow> d_exp d = 2047 \<and> d_frac d \<noteq> 0"

definition isinf :: "double \<Rightarrow> bool" where
  "isinf d \<longleftrightarrow> d_exp d = 2047 \<and> d_frac d = 0"

definition isfinite :: "double \<Rightarrow> bool" where
  "isfinite d \<longleftrightarrow> d_exp d \<noteq> 2047"

text \<open>
  The magnitude in units of \<open>2 ^ -1074\<close>. On an infinity the same formula gives \<open>2 ^ 2098\<close>, above
  every finite magnitude, so that comparisons need no special case.
\<close>

definition d_mag :: "double \<Rightarrow> int" where
  "d_mag d = (if d_exp d = 0 then d_frac d else (2 ^ 52 + d_frac d) * 2 ^ nat (d_exp d - 1))"

definition d_val :: "double \<Rightarrow> int" where
  "d_val d = (if d_sign d then - d_mag d else d_mag d)"

definition d_zero :: double where "d_zero = 0"
definition d_one :: double where "d_one = 0x3FF0000000000000"
definition d_two :: double where "d_two = 0x4000000000000000"
definition d_1e_12 :: double where "d_1e_12 = 0x3D719799812DEA11"
definition d_nan :: double where "d_nan = 0x7FF8000000000000"

definition d_inf :: "bool \<Rightarrow> double" where
  "d_inf s = (if s then 0xFFF0000000000000 else 0x7FF0000000000000)"

section \<open>Rounding\<close>

function bit_length :: "int \<Rightarrow> nat" where
  "bit_length n = (if n \<le> 0 then 0 else Suc (bit_length (n div 2)))"
  by pat_completeness auto
termination
  by (relation "measure nat") auto

declare bit_length.simps [simp del]

definition round_half_even :: "int \<Rightarrow> int \<Rightarrow> int" where
  "round_half_even num den =
     (let q = num div den; r = num mod den
      in if 2 * r > den \<or> (2 * r = den \<and> odd q) then q + 1 else q)"

text \<open>
  \<open>d_round s num den\<close> is the double nearest to \<open>num / den\<close> units, with sign \<open>s\<close>. The number of
  bits beyond 53 is dropped; adding it above the significand produces the exponent field, also
  for subnormal results and when rounding carries into the next binade. Too large a magnitude
  becomes an infinity.
\<close>

definition d_round :: "bool \<Rightarrow> int \<Rightarrow> int \<Rightarrow> double" where
  "d_round s num den =
     (let k = bit_length (num div den) - 53;
          m = min (round_half_even num (den * 2 ^ k) + int k * 2 ^ 52) (2047 * 2 ^ 52)
      in (if s then 0x8000000000000000 else 0) OR word_of_int m)"

section \<open>Arithmetic\<close>

definition d_neg :: "double \<Rightarrow> double" where
  "d_neg d = d XOR 0x8000000000000000"

definition d_abs :: "double \<Rightarrow> double" where
  "d_abs d = d AND 0x7FFFFFFFFFFFFFFF"

definition d_add :: "double \<Rightarrow> double \<Rightarrow> double" where
  "d_add a b =
     (if isnan a \<or> isnan b then d_nan
      else if isinf a then (if isinf b \<and> d_sign a \<noteq> d_sign b then d_nan else a)
      else if isinf b then b
      else let v = d_val a + d_val b
        in if v = 0 then (if d_sign a \<and> d_sign b then d_neg d_zero else d_zero)
           else d_round (v < 0) \<bar>v\<bar> 1)"

definition d_sub :: "double \<Rightarrow> double \<Rightarrow> double" where
  "d_sub a b = d_add a (d_neg b)"

definition d_mul :: "double \<Rightarrow> double \<Rightarrow> double" where
  "d_mul a b =
     (let s = (d_sign a \<noteq> d_sign b)
      in if isnan a \<or> isnan b then d_nan
         else if isinf a then (if d_mag b = 0 then d_nan else d_inf s)
         else if isinf b then (if d_mag a = 0 then d_nan else d_inf s)
         else d_round s (d_mag a * d_mag b) (2 ^ 1074))"

definition d_div :: "double \<Rightarrow> double \<Rightarrow> double" where
  "d_div a b =
     (let s = (d_sign a \<noteq> d_sign b)
      in if isnan a \<or> isnan b then d_nan
         else if isinf a then (if isinf b then d_nan else d_inf s)
         else if isinf b then (if s then d_neg d_zero else d_zero)
         else if d_mag b = 0 then (if d_mag a = 0 then d_nan else d_inf s)
         else d_round s (d_mag a * 2 ^ 1074) (d_mag b))"

text \<open>\<^verbatim>\<open>static_cast<double>\<close> from a signed 64-bit integer and from an unsigned count.\<close>

definition d_of_int :: "int \<Rightarrow> double" where
  "d_of_int i = (if i = 0 then d_zero else d_round (i < 0) (\<bar>i\<bar> * 2 ^ 1074) 1)"

definition d_of_nat :: "nat \<Rightarrow> double" where
  "d_of_nat n = d_of_int (int n)"

section \<open>Comparison\<close>

definition d_lt :: "double \<Rightarrow> double \<Rightarrow> bool" where
  "d_lt a b \<longleftrightarrow> \<not> isnan a \<and> \<not> isnan b \<and> d_val a < d_val b"

definition d_le :: "double \<Rightarrow> double \<Rightarrow> bool" where
  "d_le a b \<longleftrightarrow> \<not> isnan a \<and> \<not> isnan b \<and> d_val a \<le> d_val b"

definition d_eq :: "double \<Rightarrow> double \<Rightarrow> bool" where
  "d_eq a b \<longleftrightarrow> \<not> isnan a \<and> \<not> isnan b \<and> d_val a = d_val b"

abbreviation d_gt :: "double \<Rightarrow> double \<Rightarrow> bool" where
  "d_gt a b \<equiv> d_lt b a"

abbreviation d_ge :: "double \<Rightarrow> double \<Rightarrow> bool" where
  "d_ge a b \<equiv> d_le b a"

abbreviation d_ne :: "double \<Rightarrow> double \<Rightarrow> bool" where
  "d_ne a b \<equiv> \<not> d_eq a b"

section \<open>Text\<close>

text \<open>\<^verbatim>\<open>std::to_string\<close> of a non-negative integer.\<close>

function int_to_string :: "int \<Rightarrow> string" where
  "int_to_string n =
     (if n < 10 then [char_of (48 + nat n)] else int_to_string (n div 10) @ [char_of (48 + nat (n mod 10))])"
  by pat_completeness auto
termination
  by (relation "measure nat") auto

declare int_to_string.simps [simp del]

text \<open>\<^verbatim>\<open>std::to_string(double)\<close> is \<^verbatim>\<open>printf\<close> with the format \<^verbatim>\<open>%f\<close>: six decimals, correctly rounded.\<close>

definition d_to_string :: "double \<Rightarrow> string" where
  "d_to_string d =
     (if d_sign d then ''-'' else []) @
     (if isnan d then ''nan'' else if isinf d then ''inf''
      else let n = round_half_even (d_mag d * 10 ^ 6) (2 ^ 1074);
               f = int_to_string (n mod 10 ^ 6)
        in int_to_string (n div 10 ^ 6) @ ''.'' @ replicate (6 - length f) CHR ''0'' @ f)"

section \<open>Laws\<close>

text \<open>Comparison is a strict weak order on the values that are not NaN; NaN compares false.\<close>

lemma d_lt_irrefl [simp]: "\<not> d_lt a a"
  by (simp add: d_lt_def)

lemma d_lt_trans: "d_lt a b \<Longrightarrow> d_lt b c \<Longrightarrow> d_lt a c"
  by (auto simp: d_lt_def)

lemma d_lt_asym: "d_lt a b \<Longrightarrow> \<not> d_lt b a"
  by (auto simp: d_lt_def)

lemma d_total: "\<not> isnan a \<Longrightarrow> \<not> isnan b \<Longrightarrow> d_lt a b \<or> d_eq a b \<or> d_lt b a"
  by (auto simp: d_lt_def d_eq_def)

lemma d_le_iff: "d_le a b \<longleftrightarrow> d_lt a b \<or> d_eq a b"
  by (auto simp: d_lt_def d_le_def d_eq_def)

lemma nan_compares_false: "isnan a \<Longrightarrow> \<not> d_lt a b \<and> \<not> d_lt b a \<and> \<not> d_eq a b \<and> \<not> d_le a b \<and> \<not> d_le b a"
  by (simp add: d_lt_def d_le_def d_eq_def)

lemma finite_not_nan: "isfinite a \<Longrightarrow> \<not> isnan a \<and> \<not> isinf a"
  by (simp add: isfinite_def isnan_def isinf_def)

lemma d_add_commute:
  assumes "isfinite a \<or> isfinite b"
  shows "d_add a b = d_add b a"
  using assms by (auto simp: d_add_def isfinite_def isnan_def isinf_def add.commute)

lemma d_exp_neg [simp]: "d_exp (d_neg d) = d_exp d"
proof -
  have "drop_bit 52 (d XOR 0x8000000000000000) AND 0x7FF = drop_bit 52 d AND (0x7FF :: u64)"
    by (simp add: drop_bit_xor and.left_commute bit.conj_xor_distrib2)
  then show ?thesis by (simp add: d_exp_def d_neg_def)
qed

lemma d_frac_neg [simp]: "d_frac (d_neg d) = d_frac d"
proof -
  have "(d XOR 0x8000000000000000) AND 0xFFFFFFFFFFFFF = d AND (0xFFFFFFFFFFFFF :: u64)"
    by (simp add: bit.conj_xor_distrib2)
  then show ?thesis by (simp add: d_frac_def d_neg_def)
qed

lemma d_sign_neg [simp]: "d_sign (d_neg d) \<longleftrightarrow> \<not> d_sign d"
  by (simp add: d_sign_def d_neg_def bit_xor_iff)

lemma d_mag_neg [simp]: "d_mag (d_neg d) = d_mag d"
  by (simp add: d_mag_def)

lemma d_sub_self: "isfinite a \<Longrightarrow> d_sub a a = d_zero"
  by (auto simp: d_sub_def d_add_def isfinite_def isnan_def isinf_def d_val_def)

lemma d_zero_facts [simp]: "\<not> isnan d_zero" "d_val d_zero = 0" "isfinite d_zero"
  by (simp_all add: isnan_def isfinite_def d_val_def d_mag_def d_exp_def d_frac_def d_zero_def)

lemma d_sub_self_eq_zero: "isfinite a \<Longrightarrow> d_eq (d_sub a a) d_zero"
  by (simp add: d_sub_self d_eq_def)

end
