(* ===== verification/Hash.thy ===== *)
theory Hash
  imports Prelude
begin

unbundle bit_operations_syntax

text \<open>
  \<^verbatim>\<open>include/experiment_fabric/hash.hpp\<close> and \<^verbatim>\<open>src/hash.cpp\<close>: incremental SHA-256, CRC-32, FNV-1a
  and the seeded generator. The lemmas relate the incremental hash to hashing a padded message
  block by block, the table-driven CRC to the bit-serial one, hexadecimal text to digests, and
  show that the generator's output function is injective.
\<close>

section \<open>Bytes\<close>

definition char_byte :: "char \<Rightarrow> u8" where
  "char_byte c = of_nat (of_char c)"

definition text_bytes :: "string \<Rightarrow> u8 list" where
  "text_bytes s = map char_byte s"

text \<open>Little-endian and big-endian bytes of an integer.\<close>

definition le_bytes :: "nat \<Rightarrow> u64 \<Rightarrow> u8 list" where
  "le_bytes n v = map (\<lambda>i. ucast (drop_bit (8 * i) v)) [0..<n]"

definition be_bytes64 :: "u64 \<Rightarrow> u8 list" where
  "be_bytes64 v = map (\<lambda>i. ucast (drop_bit (56 - 8 * i) v)) [0..<8]"

section \<open>SHA-256\<close>

type_synonym digest = "u8 list"

definition kSha256Constants :: "u32 list" where
  "kSha256Constants = concat
    [[0x428a2f98, 0x71374491, 0xb5c0fbcf, 0xe9b5dba5], [0x3956c25b, 0x59f111f1, 0x923f82a4, 0xab1c5ed5],
     [0xd807aa98, 0x12835b01, 0x243185be, 0x550c7dc3], [0x72be5d74, 0x80deb1fe, 0x9bdc06a7, 0xc19bf174],
     [0xe49b69c1, 0xefbe4786, 0x0fc19dc6, 0x240ca1cc], [0x2de92c6f, 0x4a7484aa, 0x5cb0a9dc, 0x76f988da],
     [0x983e5152, 0xa831c66d, 0xb00327c8, 0xbf597fc7], [0xc6e00bf3, 0xd5a79147, 0x06ca6351, 0x14292967],
     [0x27b70a85, 0x2e1b2138, 0x4d2c6dfc, 0x53380d13], [0x650a7354, 0x766a0abb, 0x81c2c92e, 0x92722c85],
     [0xa2bfe8a1, 0xa81a664b, 0xc24b8b70, 0xc76c51a3], [0xd192e819, 0xd6990624, 0xf40e3585, 0x106aa070],
     [0x19a4c116, 0x1e376c08, 0x2748774c, 0x34b0bcb5], [0x391c0cb3, 0x4ed8aa4a, 0x5b9cca4f, 0x682e6ff3],
     [0x748f82ee, 0x78a5636f, 0x84c87814, 0x8cc70208], [0x90befffa, 0xa4506ceb, 0xbef9a3f7, 0xc67178f2]]"

definition rotr32 :: "u32 \<Rightarrow> nat \<Rightarrow> u32" where
  "rotr32 v n = drop_bit n v OR push_bit (32 - n) v"

record sha256 =
  sh_state :: "u32 list"
  sh_buffer :: "u8 list"
  sh_total :: u64

definition sha_initial :: "u32 list" where
  "sha_initial =
    [0x6a09e667, 0xbb67ae85, 0x3c6ef372, 0xa54ff53a, 0x510e527f, 0x9b05688c, 0x1f83d9ab, 0x5be0cd19]"

definition sha_reset :: sha256 where
  "sha_reset = \<lparr>sh_state = sha_initial, sh_buffer = [], sh_total = 0\<rparr>"

text \<open>The sixteen big-endian words of a 64-byte buffer, and the message schedule.\<close>

definition block_words :: "u8 list \<Rightarrow> u32 list" where
  "block_words buf = map (\<lambda>i.
     push_bit 24 (ucast (buf ! (4 * i))) OR push_bit 16 (ucast (buf ! (4 * i + 1))) OR
     push_bit 8 (ucast (buf ! (4 * i + 2))) OR ucast (buf ! (4 * i + 3))) [0..<16]"

definition schedule :: "u32 list \<Rightarrow> u32 list" where
  "schedule ws = foldl (\<lambda>w i.
     let a = w ! (i - 15); b = w ! (i - 2);
         s0 = rotr32 a 7 XOR rotr32 a 18 XOR drop_bit 3 a;
         s1 = rotr32 b 17 XOR rotr32 b 19 XOR drop_bit 10 b
     in w @ [w ! (i - 16) + s0 + w ! (i - 7) + s1]) ws [16..<64]"

fun sha_round :: "u32 \<times> u32 \<times> u32 \<times> u32 \<times> u32 \<times> u32 \<times> u32 \<times> u32 \<Rightarrow> u32 \<times> u32 \<Rightarrow>
    u32 \<times> u32 \<times> u32 \<times> u32 \<times> u32 \<times> u32 \<times> u32 \<times> u32" where
  "sha_round (a, b, c, d, e, f, g, h) (k, w) =
     (let big_s1 = rotr32 e 6 XOR rotr32 e 11 XOR rotr32 e 25;
          choice = (e AND f) XOR (NOT e AND g);
          temp1 = h + big_s1 + choice + k + w;
          big_s0 = rotr32 a 2 XOR rotr32 a 13 XOR rotr32 a 22;
          majority = (a AND b) XOR (a AND c) XOR (b AND c);
          temp2 = big_s0 + majority
      in (temp1 + temp2, a, b, c, d + temp1, e, f, g))"

definition compress :: "u32 list \<Rightarrow> u8 list \<Rightarrow> u32 list" where
  "compress st buf =
     (let (a, b, c, d, e, f, g, h) =
            foldl sha_round (st ! 0, st ! 1, st ! 2, st ! 3, st ! 4, st ! 5, st ! 6, st ! 7)
              (zip kSha256Constants (schedule (block_words buf)))
      in [st ! 0 + a, st ! 1 + b, st ! 2 + c, st ! 3 + d, st ! 4 + e, st ! 5 + f, st ! 6 + g, st ! 7 + h])"

definition update_byte :: "u8 \<Rightarrow> sha256 \<Rightarrow> sha256" where
  "update_byte v s =
     (let buf = sh_buffer s @ [v]; s' = s\<lparr>sh_total := sh_total s + 1\<rparr>
      in if length buf = 64
         then s'\<lparr>sh_state := compress (sh_state s) buf, sh_buffer := []\<rparr>
         else s'\<lparr>sh_buffer := buf\<rparr>)"

definition sha_update :: "u8 list \<Rightarrow> sha256 \<Rightarrow> sha256" where
  "sha_update bs s = fold update_byte bs s"

text \<open>The loop that pads with zero bytes up to position 56. Sixty-four steps are always enough.\<close>

fun sha_pad :: "nat \<Rightarrow> sha256 \<Rightarrow> sha256" where
  "sha_pad 0 s = s"
| "sha_pad (Suc n) s = (if length (sh_buffer s) \<noteq> 56 then sha_pad n (update_byte 0 s) else s)"

definition be_bytes32 :: "u32 \<Rightarrow> u8 list" where
  "be_bytes32 w = [ucast (drop_bit 24 w), ucast (drop_bit 16 w), ucast (drop_bit 8 w), ucast w]"

definition sha_finalize :: "sha256 \<Rightarrow> digest" where
  "sha_finalize s =
     (let bit_length = sh_total s * 8;
          s1 = sha_pad 64 (update_byte 0x80 s)
      in concat (map be_bytes32 (compress (sh_state s1) (sh_buffer s1 @ be_bytes64 bit_length))))"

definition digest_of :: "u8 list \<Rightarrow> digest" where
  "digest_of bs = sha_finalize (sha_update bs sha_reset)"

subsection \<open>The block-wise reference\<close>

text \<open>
  FIPS 180-4: append the byte 128, the least number of zero bytes that leaves eight bytes of room
  in the last block, and the bit length; then fold the compression function over the 64-byte
  blocks.
\<close>

definition sha_padding :: "nat \<Rightarrow> u8 list" where
  "sha_padding n = 0x80 # replicate ((119 - n mod 64) mod 64) 0 @ be_bytes64 (of_nat n * 8)"

function fold_blocks :: "u32 list \<Rightarrow> u8 list \<Rightarrow> u32 list" where
  "fold_blocks st bs =
     (if length bs < 64 then st else fold_blocks (compress st (take 64 bs)) (drop 64 bs))"
  by pat_completeness auto
termination
  by (relation "measure (\<lambda>(st, bs). length bs)") auto

declare fold_blocks.simps [simp del]

definition sha256_reference :: "u8 list \<Rightarrow> digest" where
  "sha256_reference msg =
     concat (map be_bytes32 (fold_blocks sha_initial (msg @ sha_padding (length msg))))"

text \<open>What a hasher that has absorbed some bytes looks like.\<close>

definition sha_absorbed :: "u8 list \<Rightarrow> sha256 \<Rightarrow> bool" where
  "sha_absorbed bs s \<longleftrightarrow>
     sh_state s = fold_blocks sha_initial bs \<and>
     sh_buffer s = drop (length bs - length bs mod 64) bs \<and>
     sh_total s = of_nat (length bs)"

lemma fold_blocks_append:
  assumes "length xs mod 64 = 0"
  shows "fold_blocks st (xs @ ys) = fold_blocks (fold_blocks st xs) ys"
  using assms
proof (induction st xs rule: fold_blocks.induct)
  case (1 st bs)
  show ?case
  proof (cases "length bs < 64")
    case True
    with 1 have "bs = []" by simp
    then show ?thesis by (simp add: fold_blocks.simps [of st "[]"])
  next
    case False
    moreover have "length (drop 64 bs) mod 64 = 0"
      using 1(2) False by (simp add: mod_if le_mod_geq)
    ultimately have "fold_blocks (compress st (take 64 bs)) (drop 64 bs @ ys) =
        fold_blocks (fold_blocks (compress st (take 64 bs)) (drop 64 bs)) ys"
      by (intro 1(1)) auto
    with False show ?thesis
      by (simp add: fold_blocks.simps [of st "bs @ ys"] fold_blocks.simps [of st bs])
  qed
qed

lemma fold_blocks_one: "length b = 64 \<Longrightarrow> fold_blocks st b = compress st b"
  by (simp add: fold_blocks.simps [of st b] fold_blocks.simps [of "compress st b"])

lemma fold_blocks_short: "length b < 64 \<Longrightarrow> fold_blocks st b = st"
  by (simp add: fold_blocks.simps)

text \<open>Only complete blocks count.\<close>

lemma fold_blocks_prefix:
  "fold_blocks st bs = fold_blocks st (take (length bs - length bs mod 64) bs)"
proof -
  let ?n = "length bs - length bs mod 64"
  have "length (take ?n bs) mod 64 = 0" by (simp add: minus_mod_eq_mult_div)
  then have "fold_blocks st (take ?n bs @ drop ?n bs) = fold_blocks (fold_blocks st (take ?n bs)) (drop ?n bs)"
    by (rule fold_blocks_append)
  moreover have "length (drop ?n bs) < 64" by (simp add: minus_mod_eq_mult_div)
  ultimately show ?thesis by (simp add: fold_blocks_short)
qed

lemma sha_absorbed_reset: "sha_absorbed [] sha_reset"
  by (simp add: sha_absorbed_def sha_reset_def fold_blocks_short)

lemma sha_absorbed_byte:
  assumes "sha_absorbed bs s"
  shows "sha_absorbed (bs @ [v]) (update_byte v s)"
proof -
  let ?n = "length bs - length bs mod 64"
  have tail: "sh_buffer s = drop ?n bs" and len: "length (sh_buffer s) = length bs mod 64"
    and st: "sh_state s = fold_blocks sha_initial bs" and total: "sh_total s = of_nat (length bs)"
    using assms by (auto simp: sha_absorbed_def)
  show ?thesis
  proof (cases "length bs mod 64 = 63")
    case True
    then have full: "length (sh_buffer s @ [v]) = 64" using len by simp
    have "bs @ [v] = take ?n bs @ (sh_buffer s @ [v])" using tail by simp
    then have "fold_blocks sha_initial (bs @ [v]) = fold_blocks sha_initial (take ?n bs @ (sh_buffer s @ [v]))"
      by (rule arg_cong)
    also have "\<dots> = fold_blocks (fold_blocks sha_initial (take ?n bs)) (sh_buffer s @ [v])"
      by (rule fold_blocks_append) (simp add: minus_mod_eq_mult_div)
    also have "\<dots> = compress (sh_state s) (sh_buffer s @ [v])"
      using full fold_blocks_prefix [of sha_initial bs] by (simp add: fold_blocks_one st)
    finally have "fold_blocks sha_initial (bs @ [v]) = compress (sh_state s) (sh_buffer s @ [v])" .
    moreover have "Suc (length bs) mod 64 = 0" using True by (simp add: mod_Suc)
    ultimately show ?thesis using full total
      by (simp add: sha_absorbed_def update_byte_def Let_def)
  next
    case False
    then have nxt: "Suc (length bs) mod 64 = Suc (length bs mod 64)" by (simp add: mod_Suc)
    have "take ?n (bs @ [v]) = take ?n bs" by simp
    moreover have "length (bs @ [v]) - length (bs @ [v]) mod 64 = ?n" using nxt by simp
    ultimately have "fold_blocks sha_initial (bs @ [v]) = fold_blocks sha_initial bs"
      using fold_blocks_prefix [of sha_initial "bs @ [v]"] fold_blocks_prefix [of sha_initial bs] by simp
    with False show ?thesis using tail len st total nxt
      by (simp add: sha_absorbed_def update_byte_def Let_def)
  qed
qed

lemma sha_absorbed_update: "sha_absorbed bs s \<Longrightarrow> sha_absorbed (bs @ xs) (sha_update xs s)"
proof (induction xs arbitrary: bs s)
  case (Cons x xs)
  from Cons.IH [OF sha_absorbed_byte [OF Cons.prems]] show ?case by (simp add: sha_update_def)
qed (simp add: sha_update_def)

lemma sha_absorbed_buffer: "sha_absorbed bs s \<Longrightarrow> length (sh_buffer s) = length bs mod 64"
  by (auto simp: sha_absorbed_def)

lemma pad_step:
  assumes "m < 64" and "m \<noteq> 56" and "m \<noteq> 63"
  shows "(120 - m) mod 64 = Suc ((120 - Suc m) mod (64::nat))"
proof (cases "m < 56")
  case True
  then have "120 - m = 64 + Suc (55 - m)" and "120 - Suc m = 64 + (55 - m)" by linarith+
  with True show ?thesis by (simp only: mod_add_self1) simp
next
  case False
  with assms show ?thesis by (simp add: Suc_diff_Suc)
qed

lemma pad_total:
  assumes "m < 64"
  shows "(m + 1 + (119 - m) mod 64) mod 64 = (56::nat)"
proof (cases "m < 56")
  case True
  then have "119 - m = 64 + (55 - m)" by linarith
  with True show ?thesis by (simp only: mod_add_self1) simp
qed (use assms in simp)

lemma sha_pad_zeros:
  assumes "sha_absorbed bs s" and "(120 - length bs mod 64) mod 64 \<le> n"
  shows "sha_absorbed (bs @ replicate ((120 - length bs mod 64) mod 64) 0) (sha_pad n s)"
  using assms
proof (induction n arbitrary: bs s)
  case 0
  then show ?case by simp
next
  case (Suc n)
  have lt: "length bs mod 64 < 64" by simp
  show ?case
  proof (cases "length bs mod 64 = 56")
    case True
    then show ?thesis using Suc.prems by (simp add: sha_absorbed_buffer)
  next
    case False
    let ?k = "(120 - length bs mod 64) mod 64" and ?k' = "(120 - length (bs @ [0]) mod 64) mod 64"
    have k: "?k = Suc ?k'"
    proof (cases "length bs mod 64 = 63")
      case True
      moreover from True have "Suc (length bs) mod 64 = 0" by (simp add: mod_Suc)
      ultimately show ?thesis by simp
    next
      case not63: False
      then have "Suc (length bs) mod 64 = Suc (length bs mod 64)" by (simp add: mod_Suc)
      then show ?thesis using pad_step [OF lt False not63] by simp
    qed
    have "sha_absorbed (bs @ [0] @ replicate ?k' 0) (sha_pad n (update_byte 0 s))"
      using Suc.IH [OF sha_absorbed_byte [OF Suc.prems(1)], of 0] Suc.prems(2) k by simp
    moreover have "replicate ?k (0::u8) = [0] @ replicate ?k' 0" using k by simp
    ultimately show ?thesis using False Suc.prems(1) by (simp add: sha_absorbed_buffer)
  qed
qed

lemma length_be_bytes64 [simp]: "length (be_bytes64 v) = 8"
  by (simp add: be_bytes64_def)

lemma sha_finalize_reference:
  assumes "sha_absorbed msg s"
  shows "sha_finalize s = sha256_reference msg"
proof -
  let ?z = "(119 - length msg mod 64) mod 64"
  let ?s1 = "sha_pad 64 (update_byte 0x80 s)"
  let ?m1 = "msg @ [0x80]"
  have z: "(120 - length ?m1 mod 64) mod 64 = ?z"
  proof (cases "length msg mod 64 = 63")
    case True
    moreover from True have "Suc (length msg) mod 64 = 0" by (simp add: mod_Suc)
    ultimately show ?thesis by simp
  next
    case False
    then show ?thesis by (simp add: mod_Suc)
  qed
  define p where "p = ?m1 @ replicate ?z (0::u8)"
  have padded: "sha_absorbed p ?s1"
    using sha_pad_zeros [OF sha_absorbed_byte [OF assms], of "0x80" 64] unfolding z p_def
    by (simp add: less_imp_le)
  have len: "length p mod 64 = 56"
  proof -
    have "length msg mod 64 < 64" by simp
    moreover have "length p mod 64 = (length msg mod 64 + 1 + ?z) mod 64"
      using mod_add_left_eq [of "length msg" 64 "1 + ?z"] by (simp add: p_def add.assoc)
    ultimately show ?thesis by (simp only: pad_total)
  qed
  then have buf: "length (sh_buffer ?s1) = 56" using sha_absorbed_buffer [OF padded] by simp
  let ?n = "length p - length p mod 64"
  let ?len = "be_bytes64 (of_nat (length msg) * 8)"
  have "p @ ?len = take ?n p @ (sh_buffer ?s1 @ ?len)"
    using padded by (simp add: sha_absorbed_def)
  then have "fold_blocks sha_initial (p @ ?len) = fold_blocks sha_initial (take ?n p @ (sh_buffer ?s1 @ ?len))"
    by (rule arg_cong)
  also have "\<dots> = fold_blocks (fold_blocks sha_initial (take ?n p)) (sh_buffer ?s1 @ ?len)"
    by (rule fold_blocks_append) (simp add: minus_mod_eq_mult_div)
  also have "\<dots> = compress (sh_state ?s1) (sh_buffer ?s1 @ ?len)"
    using buf padded fold_blocks_prefix [of sha_initial p]
    by (simp add: fold_blocks_one sha_absorbed_def)
  finally have "fold_blocks sha_initial (p @ ?len) = compress (sh_state ?s1) (sh_buffer ?s1 @ ?len)" .
  moreover have "sh_total s = of_nat (length msg)" using assms by (simp add: sha_absorbed_def)
  ultimately show ?thesis
    by (simp add: sha_finalize_def sha256_reference_def sha_padding_def Let_def p_def)
qed

lemma digest_of_reference: "digest_of bs = sha256_reference bs"
  unfolding digest_of_def using sha_absorbed_update [OF sha_absorbed_reset, of bs]
  by (intro sha_finalize_reference) simp

lemma length_digest_of: "length (digest_of bs) = 32"
  by (simp add: digest_of_def sha_finalize_def Let_def compress_def be_bytes32_def split: prod.splits)

section \<open>Hexadecimal digests\<close>

definition kHex :: string where
  "kHex = ''0123456789abcdef''"

definition to_hex :: "digest \<Rightarrow> string" where
  "to_hex d = concat (map (\<lambda>b. [kHex ! unat (drop_bit 4 b AND 0x0F), kHex ! unat (b AND 0x0F)]) d)"

text \<open>The nibble of a hexadecimal character; the source returns -1 for any other character.\<close>

definition nibble :: "char \<Rightarrow> nat option" where
  "nibble c =
     (let n = of_char c :: nat
      in if 48 \<le> n \<and> n \<le> 57 then Some (n - 48)
         else if 97 \<le> n \<and> n \<le> 102 then Some (n - 97 + 10)
         else if 65 \<le> n \<and> n \<le> 70 then Some (n - 65 + 10)
         else None)"

fun parse_nibbles :: "string \<Rightarrow> digest option" where
  "parse_nibbles [] = Some []"
| "parse_nibbles [c] = None"
| "parse_nibbles (c # c' # cs) =
     (case (nibble c, nibble c') of
        (Some high, Some low) \<Rightarrow> map_option ((#) (push_bit 4 (of_nat high) OR of_nat low)) (parse_nibbles cs)
      | _ \<Rightarrow> None)"

definition parse_digest :: "string \<Rightarrow> digest option" where
  "parse_digest hex = (if length hex \<noteq> 64 then None else parse_nibbles hex)"

lemma nibble_kHex: "n < 16 \<Longrightarrow> nibble (kHex ! n) = Some n"
proof -
  have "\<forall>n \<in> set [0..<16]. nibble (kHex ! n) = Some n" by code_simp
  then show "n < 16 \<Longrightarrow> ?thesis" by simp
qed

lemma nibble_bounds: "unat ((b::u8) AND 0x0F) < 16"
proof -
  have "unat (b AND 0x0F) \<le> unat (0x0F :: u8)"
    by (rule word_and_le1 [THEN word_le_nat_alt [THEN iffD1]])
  then show ?thesis by simp
qed

lemma byte_of_nibbles: "push_bit 4 (drop_bit 4 b) AND 0xF0 OR b AND 0x0F = (b :: u8)"
proof (rule bit_word_eqI)
  fix n assume "n < LENGTH(8)"
  then have "n \<in> {0, 1, 2, 3, 4, 5, 6, 7}" by auto
  then show "bit (push_bit 4 (drop_bit 4 b) AND 0xF0 OR b AND 0x0F) n = bit b n"
    by (elim insertE emptyE) (simp_all add: bit_simps)
qed

lemma parse_nibbles_to_hex: "parse_nibbles (to_hex d) = Some d"
  by (induction d) (simp_all add: to_hex_def nibble_kHex nibble_bounds byte_of_nibbles)

lemma length_to_hex: "length (to_hex d) = 2 * length d"
  by (induction d) (simp_all add: to_hex_def)

lemma parse_digest_to_hex: "length d = 32 \<Longrightarrow> parse_digest (to_hex d) = Some d"
  by (simp add: parse_digest_def parse_nibbles_to_hex length_to_hex)

section \<open>CRC-32\<close>

definition crc_step :: "u32 \<Rightarrow> u32" where
  "crc_step v = (if bit v 0 then 0xEDB88320 XOR drop_bit 1 v else drop_bit 1 v)"

definition make_crc_table :: "u32 list" where
  "make_crc_table = map (\<lambda>i. (crc_step ^^ 8) (of_nat i)) [0..<256]"

definition kCrcTable :: "u32 list" where
  "kCrcTable = make_crc_table"

definition crc_byte :: "u8 \<Rightarrow> u32 \<Rightarrow> u32" where
  "crc_byte b st = kCrcTable ! unat ((st XOR ucast b) AND 0xFF) XOR drop_bit 8 st"

definition crc_update :: "u8 list \<Rightarrow> u32 \<Rightarrow> u32" where
  "crc_update bs st = fold crc_byte bs st"

definition crc32 :: "u8 list \<Rightarrow> u32" where
  "crc32 bs = crc_update bs 0xFFFFFFFF XOR 0xFFFFFFFF"

text \<open>The bit-serial definition of the same checksum.\<close>

definition crc_byte_serial :: "u8 \<Rightarrow> u32 \<Rightarrow> u32" where
  "crc_byte_serial b st = (crc_step ^^ 8) (st XOR ucast b)"

definition crc32_serial :: "u8 list \<Rightarrow> u32" where
  "crc32_serial bs = fold crc_byte_serial bs 0xFFFFFFFF XOR 0xFFFFFFFF"

lemma crc_step_xor: "crc_step (x XOR y) = crc_step x XOR crc_step y"
  by (auto simp: crc_step_def bit_xor_iff drop_bit_xor ac_simps)

lemma crc_steps_xor: "(crc_step ^^ n) (x XOR y) = (crc_step ^^ n) x XOR (crc_step ^^ n) y"
  by (induction n) (simp_all add: crc_step_xor)

lemma crc_steps_high: "(\<forall>i < n. \<not> bit x i) \<Longrightarrow> (crc_step ^^ n) x = drop_bit n x"
proof (induction n arbitrary: x)
  case (Suc n)
  have "crc_step x = drop_bit 1 x" using Suc.prems by (simp add: crc_step_def)
  moreover have "\<forall>i < n. \<not> bit (drop_bit 1 x) i" using Suc.prems by (auto simp: bit_simps)
  ultimately show ?case using Suc.IH [of "drop_bit 1 x"] by (simp add: funpow_Suc_right del: funpow.simps)
qed simp

lemma crc_table_nth: "n < 256 \<Longrightarrow> kCrcTable ! n = (crc_step ^^ 8) (of_nat n)"
  by (simp add: kCrcTable_def make_crc_table_def)

lemma crc_byte_serial: "crc_byte b st = crc_byte_serial b st"
proof -
  let ?x = "st XOR ucast b :: u32" and ?low = "mask 8 :: u32"
  have low: "(0xFF :: u32) = ?low" by (simp add: mask_eq_exp_minus_1)
  have split: "?x = (?x AND ?low) XOR (?x AND NOT ?low)"
    by (rule bit_word_eqI) (auto simp: bit_simps)
  have "unat (?x AND 0xFF) \<le> unat (0xFF :: u32)"
    by (rule word_and_le1 [THEN word_le_nat_alt [THEN iffD1]])
  then have "unat (?x AND ?low) < 256" by (simp add: low [symmetric])
  then have table: "kCrcTable ! unat (?x AND ?low) = (crc_step ^^ 8) (?x AND ?low)"
    by (simp add: crc_table_nth)
  have "(crc_step ^^ 8) (?x AND NOT ?low) = drop_bit 8 (?x AND NOT ?low)"
    by (intro crc_steps_high) (auto simp: bit_simps)
  also have "\<dots> = drop_bit 8 st"
    by (rule bit_word_eqI) (auto simp: bit_simps dest: bit_imp_le_length)
  finally have high: "(crc_step ^^ 8) (?x AND NOT ?low) = drop_bit 8 st" .
  have "(crc_step ^^ 8) ?x = (crc_step ^^ 8) ((?x AND ?low) XOR (?x AND NOT ?low))"
    using split by (rule arg_cong)
  also have "\<dots> = kCrcTable ! unat (?x AND ?low) XOR drop_bit 8 st"
    by (simp only: crc_steps_xor high table)
  finally show ?thesis by (simp add: crc_byte_def crc_byte_serial_def low)
qed

lemma crc32_eq_serial: "crc32 bs = crc32_serial bs"
  by (simp add: crc32_def crc32_serial_def crc_update_def crc_byte_serial [abs_def])

section \<open>FNV-1a and the seeded generator\<close>

definition fnv1a64 :: "string \<Rightarrow> u64" where
  "fnv1a64 s = foldl (\<lambda>v c. (v XOR ucast (char_byte c)) * 0x100000001B3) 0xCBF29CE484222325 s"

record rng =
  rg_state :: u64

definition rng_init :: "u64 \<Rightarrow> rng" where
  "rng_init seed = \<lparr>rg_state = seed XOR 0x9E3779B97F4A7C15\<rparr>"

definition rng_mix :: "u64 \<Rightarrow> u64" where
  "rng_mix v =
     (let v1 = (v XOR drop_bit 30 v) * 0xBF58476D1CE4E5B9;
          v2 = (v1 XOR drop_bit 27 v1) * 0x94D049BB133111EB
      in v2 XOR drop_bit 31 v2)"

definition next_u64 :: "rng \<Rightarrow> u64 \<times> rng" where
  "next_u64 r =
     (let s = rg_state r + 0x9E3779B97F4A7C15 in (rng_mix s, r\<lparr>rg_state := s\<rparr>))"

definition next_u32 :: "rng \<Rightarrow> u32 \<times> rng" where
  "next_u32 r = (let (v, r') = next_u64 r in (ucast (drop_bit 32 v), r'))"

definition next_bounded :: "u64 \<Rightarrow> rng \<Rightarrow> u64 \<times> rng" where
  "next_bounded bound r = (if bound = 0 then (0, r) else let (v, r') = next_u64 r in (v mod bound, r'))"

text \<open>\<^verbatim>\<open>derive_trial_seed\<close> of \<^verbatim>\<open>src/coordinator.cpp\<close>.\<close>

definition derive_trial_seed :: "u64 \<Rightarrow> u64 \<Rightarrow> u64" where
  "derive_trial_seed experiment_seed ordinal =
     fst (next_u64 (rng_init (experiment_seed XOR (ordinal * 0x9E3779B97F4A7C15))))"

lemma xor_shift_inj:
  fixes x y :: u64
  assumes "0 < k" and "x XOR drop_bit k x = y XOR drop_bit k y"
  shows "x = y"
proof (rule bit_word_eqI)
  fix n assume "n < LENGTH(64)"
  then show "bit x n = bit y n"
  proof (induction "64 - n" arbitrary: n rule: less_induct)
    case less
    have "bit (x XOR drop_bit k x) n = bit (y XOR drop_bit k y) n" using assms(2) by simp
    then have eq: "(bit x n \<noteq> bit x (n + k)) = (bit y n \<noteq> bit y (n + k))"
      by (simp add: bit_simps add.commute)
    show ?case
    proof (cases "n + k < 64")
      case True
      then have "bit x (n + k) = bit y (n + k)" using less assms(1) by (intro less(1)) auto
      with eq show ?thesis by blast
    next
      case False
      then have "\<not> bit x (n + k)" and "\<not> bit y (n + k)" using bit_imp_le_length by fastforce+
      with eq show ?thesis by simp
    qed
  qed
qed

lemma unit_mult_inj:
  fixes c :: u64
  assumes "c * d = 1" and "x * c = y * c"
  shows "x = y"
proof -
  have "x * c * d = y * c * d" using assms(2) by simp
  then show ?thesis using assms(1) by (simp add: mult.assoc)
qed

lemma mult_const_inj:
  "x * (0x9E3779B97F4A7C15 :: u64) = y * 0x9E3779B97F4A7C15 \<Longrightarrow> x = y"
  "x * (0xBF58476D1CE4E5B9 :: u64) = y * 0xBF58476D1CE4E5B9 \<Longrightarrow> x = y"
  "x * (0x94D049BB133111EB :: u64) = y * 0x94D049BB133111EB \<Longrightarrow> x = y"
  by (erule unit_mult_inj [rotated, where d = "0xf1de83e19937733d"], simp)
    (erule unit_mult_inj [rotated, where d = "0x96de1b173f119089"], simp,
     erule unit_mult_inj [rotated, where d = "0x319642b2d24d8ec3"], simp)

lemma rng_mix_inj: "rng_mix x = rng_mix y \<Longrightarrow> x = y"
  unfolding rng_mix_def Let_def
  by (drule xor_shift_inj [rotated], simp, drule mult_const_inj(3), drule xor_shift_inj [rotated], simp,
      drule mult_const_inj(2), erule xor_shift_inj [rotated], simp)

lemma xor_left_cancel: "(a :: 'a::len word) XOR x = a XOR y \<Longrightarrow> x = y"
proof -
  assume "a XOR x = a XOR y"
  then have "a XOR (a XOR x) = a XOR (a XOR y)" by (rule arg_cong)
  then show "x = y" by (simp add: xor.assoc [symmetric])
qed

lemma derive_trial_seed_inj: "derive_trial_seed s i = derive_trial_seed s j \<Longrightarrow> i = j"
proof -
  let ?c = "0x9E3779B97F4A7C15 :: u64"
  assume "derive_trial_seed s i = derive_trial_seed s j"
  then have "rng_mix (((s XOR (i * ?c)) XOR ?c) + ?c) = rng_mix (((s XOR (j * ?c)) XOR ?c) + ?c)"
    by (simp only: derive_trial_seed_def next_u64_def rng_init_def Let_def fst_conv rng.select_convs)
  then have "((s XOR (i * ?c)) XOR ?c) + ?c = ((s XOR (j * ?c)) XOR ?c) + ?c" by (rule rng_mix_inj)
  then have "?c XOR (s XOR (i * ?c)) = ?c XOR (s XOR (j * ?c))"
    by (metis add_right_cancel xor.commute)
  then have "s XOR (i * ?c) = s XOR (j * ?c)" by (rule xor_left_cancel)
  then have "i * ?c = j * ?c" by (rule xor_left_cancel)
  then show "i = j" by (rule mult_const_inj(1))
qed

section \<open>Properties\<close>

text \<open>
  C37: hashing a message through the incremental interface, however the bytes are split over
  calls of \<^verbatim>\<open>update\<close>, gives the SHA-256 digest of the padded message folded block by block.
\<close>

theorem sha256_incremental_correct:
  "sha_finalize (fold sha_update chunks sha_reset) = sha256_reference (concat chunks)"
proof -
  have "sha_absorbed bs s \<Longrightarrow> sha_absorbed (bs @ concat chunks) (fold sha_update chunks s)" for bs s
    by (induction chunks arbitrary: bs s) (simp_all, metis append.assoc sha_absorbed_update)
  then show ?thesis using sha_absorbed_reset sha_finalize_reference by (metis append_Nil)
qed

text \<open>
  C38: the table-driven CRC-32 of every byte sequence equals the bit-serial division that defines
  the checksum.
\<close>

theorem crc32_table_correct: "crc32 bs = crc32_serial bs"
  by (rule crc32_eq_serial)

text \<open>
  C39: seeds derived for different trials of one experiment are different: for a fixed experiment
  seed the derivation is injective in the trial ordinal.
\<close>

theorem trial_seeds_distinct:
  assumes "i \<noteq> j"
  shows "derive_trial_seed s i \<noteq> derive_trial_seed s j"
  using assms derive_trial_seed_inj by blast

theorem trial_seeds_distinct_witness: "derive_trial_seed 7 1 \<noteq> derive_trial_seed 7 2"
proof -
  have h: "(1 :: u64) \<noteq> 2" by simp
  show ?thesis using trial_seeds_distinct [OF h] .
qed

end
