(* ===== verification/Model.thy ===== *)
theory Model
  imports Domain Binary64 Hash
begin

text \<open>
  \<^verbatim>\<open>include/experiment_fabric/limits.hpp\<close>, \<^verbatim>\<open>src/limits.cpp\<close>, \<^verbatim>\<open>include/experiment_fabric/model.hpp\<close> and
  \<^verbatim>\<open>src/model.cpp\<close>: the runtime bounds and the governed object model, one record per structure with
  the source's fields. An \<^verbatim>\<open>std::int64_t\<close> is kept as its 64-bit pattern and read with \<open>sint\<close>.
\<close>

section \<open>Limits\<close>

record limits =
  lm_max_experiments :: u32
  lm_max_branches_per_experiment :: u32
  lm_max_metrics_per_experiment :: u32
  lm_max_trials_per_branch :: u32
  lm_max_attempts_per_trial :: u32
  lm_max_observations_per_trial :: u32
  lm_max_artifacts_per_attempt :: u32
  lm_max_observations_per_experiment :: u32
  lm_max_artifacts_per_experiment :: u32
  lm_max_decisions_per_experiment :: u32
  lm_max_parameters_per_branch :: u32
  lm_max_comparison_rules :: u32
  lm_max_lineage_depth :: u32
  lm_max_name_length :: u32
  lm_max_unit_length :: u32
  lm_max_statement_length :: u32
  lm_max_payload_text_length :: u32
  lm_max_locator_length :: u32
  lm_max_provenance_length :: u32
  lm_max_explanation_lines :: u32
  lm_max_explanation_bytes :: u32
  lm_max_state_file_bytes :: u64
  lm_max_persisted_records :: u32
  lm_max_persisted_string_bytes :: u32
  lm_max_frame_payload_bytes :: u32
  lm_max_connections :: u32
  lm_max_inflight_frames_per_connection :: u32
  lm_max_batch_items :: u32
  lm_max_registered_workers :: u32
  lm_max_concurrent_assignments_per_worker :: u32
  lm_max_worker_threads :: u32

definition limits_defaults :: limits where
  "limits_defaults =
    \<lparr>lm_max_experiments = 4096, lm_max_branches_per_experiment = 256,
     lm_max_metrics_per_experiment = 128, lm_max_trials_per_branch = 4096,
     lm_max_attempts_per_trial = 8, lm_max_observations_per_trial = 1024,
     lm_max_artifacts_per_attempt = 256, lm_max_observations_per_experiment = 2 ^ 20,
     lm_max_artifacts_per_experiment = 2 ^ 16, lm_max_decisions_per_experiment = 1024,
     lm_max_parameters_per_branch = 256, lm_max_comparison_rules = 256, lm_max_lineage_depth = 1024,
     lm_max_name_length = 128, lm_max_unit_length = 32, lm_max_statement_length = 4096,
     lm_max_payload_text_length = 4096, lm_max_locator_length = 1024, lm_max_provenance_length = 1024,
     lm_max_explanation_lines = 4096, lm_max_explanation_bytes = 2 ^ 20,
     lm_max_state_file_bytes = 2 ^ 30, lm_max_persisted_records = 2 ^ 22,
     lm_max_persisted_string_bytes = 2 ^ 20, lm_max_frame_payload_bytes = 2 ^ 20,
     lm_max_connections = 128, lm_max_inflight_frames_per_connection = 64, lm_max_batch_items = 4096,
     lm_max_registered_workers = 256, lm_max_concurrent_assignments_per_worker = 64,
     lm_max_worker_threads = 64\<rparr>"

definition is_coherent :: "limits \<Rightarrow> bool" where
  "is_coherent l =
     (if lm_max_experiments l = 0 \<or> lm_max_branches_per_experiment l = 0 \<or>
         lm_max_metrics_per_experiment l = 0 \<or> lm_max_trials_per_branch l = 0 \<or>
         lm_max_attempts_per_trial l = 0 \<or> lm_max_observations_per_trial l = 0 then False
      else if lm_max_frame_payload_bytes l < 64 then False
      else if lm_max_name_length l = 0 \<or> lm_max_name_length l > 2 ^ 20 then False
      else if lm_max_explanation_lines l = 0 \<or> lm_max_explanation_bytes l = 0 then False
      else if lm_max_state_file_bytes l = 0 \<or> lm_max_persisted_records l = 0 then False
      else if lm_max_lineage_depth l = 0 \<or> lm_max_lineage_depth l > 2 ^ 20 then False
      else if lm_max_comparison_rules l = 0 \<or> lm_max_comparison_rules l > 2 ^ 16 then False
      else True)"

lemma limits_defaults_coherent: "is_coherent limits_defaults"
  by (simp add: is_coherent_def limits_defaults_def)

section \<open>Parameters\<close>

record parameter_assignment =
  pa_key :: string
  pa_kind :: parameter_kind
  pa_value :: string

text \<open>\<^verbatim>\<open>std::to_chars\<close> of a signed 64-bit integer.\<close>

definition format_integer :: "u64 \<Rightarrow> string" where
  "format_integer v = (if sint v < 0 then ''-'' @ int_to_string (- sint v) else int_to_string (sint v))"

definition make_text_parameter :: "string \<Rightarrow> string \<Rightarrow> parameter_assignment" where
  "make_text_parameter key v = \<lparr>pa_key = key, pa_kind = PK_TEXT, pa_value = v\<rparr>"

definition make_integer_parameter :: "string \<Rightarrow> u64 \<Rightarrow> parameter_assignment" where
  "make_integer_parameter key v = \<lparr>pa_key = key, pa_kind = PK_INTEGER, pa_value = format_integer v\<rparr>"

definition make_boolean_parameter :: "string \<Rightarrow> bool \<Rightarrow> parameter_assignment" where
  "make_boolean_parameter key v =
     \<lparr>pa_key = key, pa_kind = PK_BOOLEAN, pa_value = (if v then ''true'' else ''false'')\<rparr>"

definition parameter_less :: "parameter_assignment \<Rightarrow> parameter_assignment \<Rightarrow> bool" where
  "parameter_less lhs rhs =
     (if pa_key lhs \<noteq> pa_key rhs then pa_key lhs < pa_key rhs
      else if pa_kind lhs \<noteq> pa_kind rhs
        then parameter_kind_code (pa_kind lhs) < parameter_kind_code (pa_kind rhs)
      else pa_value lhs < pa_value rhs)"

section \<open>Hypotheses and metrics\<close>

record hypothesis =
  hy_id :: hypothesis_id
  hy_revision :: hypothesis_revision
  hy_statement :: string
  hy_expected_direction :: "metric_direction option"
  hy_expected_metric :: metric_id
  hy_parent :: hypothesis_id
  hy_parent_revision :: hypothesis_revision
  hy_superseded :: bool
  hy_superseded_by_revision :: hypothesis_revision
  hy_provenance :: string
  hy_created_sequence :: u64

record metric_definition =
  md_id :: metric_id
  md_name :: string
  md_unit :: string
  md_kind :: metric_kind
  md_direction :: metric_direction
  md_aggregation :: aggregation_rule
  md_required :: bool
  md_accepts_non_finite :: bool
  md_lower_bound :: "double option"
  md_upper_bound :: "double option"
  md_target_low :: "double option"
  md_target_high :: "double option"
  md_weight :: u32
  md_priority :: u32
  md_categories :: "string list"

record metric_value =
  mv_kind :: metric_kind
  mv_real :: double
  mv_integer :: u64
  mv_boolean :: bool
  mv_category :: string

definition is_finite_value :: "metric_value \<Rightarrow> bool" where
  "is_finite_value v =
     (case mv_kind v of
        MK_REAL \<Rightarrow> isfinite (mv_real v)
      | MK_INTEGER \<Rightarrow> True | MK_BOOLEAN \<Rightarrow> True | MK_CATEGORICAL \<Rightarrow> True)"

section \<open>Comparison policy\<close>

record comparison_rule =
  cr_metric :: metric_id
  cr_op :: comparison_op
  cr_threshold :: double
  cr_target_low :: double
  cr_target_high :: double
  cr_priority :: u32

record comparison_policy =
  cp_id :: policy_id
  cp_generation :: policy_generation
  cp_require_baseline :: bool
  cp_min_completed_trials_per_branch :: u32
  cp_min_valid_observations_per_required_metric :: u32
  cp_reject_on_any_invalid_observation :: bool
  cp_require_environment_match :: bool
  cp_majority_wins_min_basis_points :: u32
  cp_use_weighted_score :: bool
  cp_accept_score_threshold :: double
  cp_rules :: "comparison_rule list"

section \<open>Branches and experiments\<close>

record branch_definition =
  bd_id :: branch_id
  bd_name :: string
  bd_role :: branch_role
  bd_parent :: branch_id
  bd_generation :: branch_generation
  bd_state :: branch_state
  bd_parameters :: "parameter_assignment list"
  bd_input_set :: input_set_id
  bd_input_set_present :: bool
  bd_environment :: environment_id
  bd_environment_present :: bool
  bd_environment_fingerprint :: string
  bd_seed :: "u64 option"
  bd_planned_trials :: u32
  bd_created_sequence :: u64
  bd_forked :: bool

record experiment_definition =
  ed_id :: experiment_id
  ed_generation :: experiment_generation
  ed_hypothesis :: hypothesis_id
  ed_hypothesis_revision :: hypothesis_revision
  ed_name :: string
  ed_branches :: "branch_definition list"
  ed_metrics :: "metric_definition list"
  ed_policy :: comparison_policy
  ed_seed_policy :: seed_policy
  ed_experiment_seed :: "u64 option"
  ed_retry_policy :: retry_policy
  ed_max_attempts_per_trial :: u32
  ed_partial_failure_policy :: partial_failure_policy
  ed_late_evidence_policy :: late_evidence_policy
  ed_parameters :: "parameter_assignment list"
  ed_provenance :: string
  ed_created_sequence :: u64

section \<open>Trials and attempts\<close>

record trial_record =
  tr_id :: trial_id
  tr_experiment :: experiment_id
  tr_generation :: experiment_generation
  tr_branch :: branch_id
  tr_branch_generation :: branch_generation
  tr_hypothesis :: hypothesis_id
  tr_hypothesis_revision :: hypothesis_revision
  tr_policy :: policy_id
  tr_policy_generation :: policy_generation
  tr_state :: trial_state
  tr_authoritative_attempt :: trial_attempt_id
  tr_next_attempt_number :: trial_attempt_number
  tr_attempt_count :: u32
  tr_committed_attempts :: u32
  tr_failure_kind :: failure_kind
  tr_failure_detail :: string
  tr_seed :: "u64 option"
  tr_input_set :: input_set_id
  tr_input_set_present :: bool
  tr_environment :: environment_id
  tr_environment_present :: bool
  tr_environment_fingerprint :: string
  tr_artifacts :: "artifact_id list"
  tr_payload :: string
  tr_created_sequence :: u64
  tr_updated_sequence :: u64

record attempt_record =
  at_id :: trial_attempt_id
  at_number :: trial_attempt_number
  at_trial :: trial_id
  at_experiment :: experiment_id
  at_generation :: experiment_generation
  at_branch :: branch_id
  at_branch_generation :: branch_generation
  at_worker :: worker_id
  at_boot :: worker_boot_id
  at_epoch :: coordinator_epoch
  at_producer :: producer_id
  at_state :: attempt_state
  at_failure_kind :: failure_kind
  at_failure_detail :: string
  at_committed :: bool
  at_issued_sequence :: u64
  at_updated_sequence :: u64

section \<open>Observations and artifacts\<close>

record observation =
  ob_id :: observation_id
  ob_experiment :: experiment_id
  ob_generation :: experiment_generation
  ob_branch :: branch_id
  ob_branch_generation :: branch_generation
  ob_trial :: trial_id
  ob_attempt :: trial_attempt_id
  ob_metric :: metric_id
  ob_producer :: producer_id
  ob_worker :: worker_id
  ob_boot :: worker_boot_id
  ob_epoch :: coordinator_epoch
  ob_validity :: observation_validity
  ob_value :: metric_value
  ob_detail :: string
  ob_sequence :: u64

record artifact_record =
  ar_id :: artifact_id
  ar_experiment :: experiment_id
  ar_generation :: experiment_generation
  ar_branch :: branch_id
  ar_trial :: trial_id
  ar_attempt :: trial_attempt_id
  ar_category :: string
  ar_locator :: string
  ar_content_digest :: digest
  ar_digest_present :: bool
  ar_size_present :: bool
  ar_size_bytes :: u64
  ar_provenance :: string
  ar_current :: bool
  ar_sequence :: u64

section \<open>Evidence views and decisions\<close>

record metric_aggregate =
  ma_metric :: metric_id
  ma_rule :: aggregation_rule
  ma_present :: bool
  ma_value :: double
  ma_category :: string
  ma_valid_count :: u32
  ma_invalid_count :: u32
  ma_missing_count :: u32
  ma_unsupported_count :: u32
  ma_raw_values :: "double list"
  ma_trial_order :: "string list"

record branch_evidence =
  be_branch :: branch_id
  be_generation :: branch_generation
  be_role :: branch_role
  be_state :: branch_state
  be_planned_trials :: u32
  be_completed_trials :: u32
  be_failed_trials :: u32
  be_cancelled_trials :: u32
  be_invalid_trials :: u32
  be_superseded_trials :: u32
  be_open_trials :: u32
  be_aggregates :: "metric_aggregate list"

text \<open>
  The reason of a rejection is an \<^verbatim>\<open>ErrorCode\<close>, whose underlying type is a byte. The readers of the
  wire format keep whatever byte they find, so the field is the byte itself.
\<close>

record rejected_evidence =
  re_kind :: string
  re_identifier :: u64
  re_reason :: u8
  re_detail :: string

record comparison_factor =
  cf_metric :: metric_id
  cf_op :: comparison_op
  cf_priority :: u32
  cf_threshold :: double
  cf_has_values :: bool
  cf_baseline_value :: double
  cf_candidate_value :: double
  cf_delta :: double
  cf_satisfied :: bool
  cf_decisive :: bool
  cf_detail :: string

record constraint_result =
  cn_name :: string
  cn_passed :: bool
  cn_detail :: string

record decision =
  de_id :: decision_id
  de_experiment :: experiment_id
  de_generation :: experiment_generation
  de_hypothesis :: hypothesis_id
  de_hypothesis_revision :: hypothesis_revision
  de_policy :: policy_id
  de_policy_generation :: policy_generation
  de_compared_branches :: "branch_id list"
  de_baseline :: branch_id
  de_baseline_present :: bool
  de_candidate :: branch_id
  de_outcome :: decision_outcome
  de_reason_kind :: failure_kind
  de_reason :: string
  de_constraints :: "constraint_result list"
  de_factors :: "comparison_factor list"
  de_evidence :: "branch_evidence list"
  de_rejected_evidence :: "rejected_evidence list"
  de_tie_break_rule :: string
  de_tied :: bool
  de_canonical_state_digest :: digest
  de_sequence :: u64

record branch_authority_snapshot =
  ba_branch :: branch_id
  ba_generation :: branch_generation
  ba_state :: branch_state

record rollback_point =
  rb_id :: rollback_point_id
  rb_experiment :: experiment_id
  rb_generation :: experiment_generation
  rb_restored_from :: experiment_generation
  rb_decision :: decision_id
  rb_decision_present :: bool
  rb_state_digest :: digest
  rb_authority :: "branch_authority_snapshot list"
  rb_sequence :: u64

section \<open>The parameter order is a strict weak order\<close>

lemma parameter_kind_code_inj: "parameter_kind_code x = parameter_kind_code y \<longleftrightarrow> x = y"
  by (cases x; cases y) simp_all

lemma parameter_less_key:
  "parameter_less x y \<longleftrightarrow>
     (pa_key x, parameter_kind_code (pa_kind x), pa_value x) <
     (pa_key y, parameter_kind_code (pa_kind y), pa_value y)"
  by (auto simp: parameter_less_def less_prod_simp parameter_kind_code_inj order_less_le)

lemma weak_order_parameter_less: "weak_order parameter_less"
  unfolding parameter_less_key [abs_def]
  by (rule weak_order_key)

end
