(* ===== verification/Canonical.thy ===== *)
theory Canonical
  imports Model "HOL-Library.Multiset"
begin

text \<open>
  \<^verbatim>\<open>src/canonical.cpp\<close>: the canonical encodings behind every digest. A \<^verbatim>\<open>write\<close> feeds bytes to the
  hasher it is given; here it is the list of those bytes, and a digest is \<open>digest_of\<close> of the bytes
  in the order written. The lemmas show that the digests do not depend on the order in which a
  definition lists its branches, metrics and parameters, and that the encoding of a parameter
  list can be read back, so that different lists never share an encoding.
\<close>

section \<open>Scalars\<close>

definition update_u32 :: "u32 \<Rightarrow> u8 list" where
  "update_u32 v = le_bytes 4 (ucast v)"

definition update_u64 :: "u64 \<Rightarrow> u8 list" where
  "update_u64 v = le_bytes 8 v"

definition update_bool :: "bool \<Rightarrow> u8 list" where
  "update_bool b = [if b then 1 else 0]"

definition update_length_prefixed :: "string \<Rightarrow> u8 list" where
  "update_length_prefixed s = update_u64 (of_nat (length s)) @ text_bytes s"

definition write_tag :: "string \<Rightarrow> u8 list" where
  "write_tag tag = update_u32 (of_nat (length tag)) @ text_bytes tag"

definition write_text :: "string \<Rightarrow> u8 list" where
  "write_text s = update_length_prefixed s"

section \<open>Real numbers\<close>

text \<open>
  \<^verbatim>\<open>std::to_chars\<close> with \<^verbatim>\<open>chars_format::general\<close>: the shortest decimal digits that convert back to the
  same double, the nearest of those, in fixed notation for a decimal exponent from -4 to 5 and in
  scientific notation otherwise. \<open>decimal_exponent\<close> is the exponent of the leading digit of a
  magnitude in units of \<open>2 ^ -1074\<close>; 17 digits always suffice.
\<close>

definition pow10 :: "int \<Rightarrow> int" where
  "pow10 e = 10 ^ nat e"

definition decimal_exponent :: "int \<Rightarrow> int" where
  "decimal_exponent mag =
     (case find (\<lambda>e. pow10 e * 2 ^ 1074 \<le> mag * pow10 (- e)) (map (\<lambda>i. 308 - int i) [0..<633]) of
        Some e \<Rightarrow> e | None \<Rightarrow> - 324)"

definition round_trips :: "double \<Rightarrow> int \<Rightarrow> int \<Rightarrow> bool" where
  "round_trips v m s \<longleftrightarrow> d_round (d_sign v) (m * 2 ^ 1074 * pow10 (- s)) (pow10 s) = v"

definition shortest_at :: "double \<Rightarrow> int \<Rightarrow> nat \<Rightarrow> int option" where
  "shortest_at v e n =
     (let s = int n - 1 - e;
          num = d_mag v * pow10 s;
          den = 2 ^ 1074 * pow10 (- s);
          lo = num div den;
          below = round_trips v lo s;
          above = round_trips v (lo + 1) s
      in if below \<and> above then Some (round_half_even num den)
         else if below then Some lo
         else if above then Some (lo + 1)
         else None)"

definition shortest_digits :: "double \<Rightarrow> string \<times> int" where
  "shortest_digits v =
     (let e = decimal_exponent (d_mag v)
      in case find (\<lambda>n. shortest_at v e n \<noteq> None) [1..<18] of
           None \<Rightarrow> ([], e)
         | Some n \<Rightarrow>
             (let ds = int_to_string (the (shortest_at v e n))
              in if length ds > n then (take n ds, e + 1) else (ds, e)))"

definition exponent_text :: "int \<Rightarrow> string" where
  "exponent_text e =
     ''e'' @ (if e < 0 then ''-'' else ''+'') @
     (if \<bar>e\<bar> < 10 then ''0'' else []) @ int_to_string \<bar>e\<bar>"

definition general_text :: "string \<Rightarrow> int \<Rightarrow> string" where
  "general_text ds e =
     (if -4 \<le> e \<and> e < 6 then
        (if e < 0 then ''0.'' @ replicate (nat (- e) - 1) CHR ''0'' @ ds
         else if int (length ds) \<le> e + 1 then ds @ replicate (nat (e + 1) - length ds) CHR ''0''
         else take (nat (e + 1)) ds @ ''.'' @ drop (nat (e + 1)) ds)
      else
        take 1 ds @ (if length ds > 1 then ''.'' @ drop 1 ds else []) @ exponent_text e)"

definition encode_real :: "double \<Rightarrow> string" where
  "encode_real v =
     (if isnan v then ''nan''
      else if isinf v then (if d_gt v d_zero then ''inf'' else ''-inf'')
      else if d_eq v d_zero then ''0''
      else (if d_sign v then ''-'' else []) @ (case shortest_digits v of (ds, e) \<Rightarrow> general_text ds e))"

definition write_real :: "double \<Rightarrow> u8 list" where
  "write_real v = write_text (encode_real v)"

definition write_optional_real :: "double option \<Rightarrow> u8 list" where
  "write_optional_real v = update_bool (v \<noteq> None) @ (case v of None \<Rightarrow> [] | Some r \<Rightarrow> write_real r)"

definition write_optional_u64 :: "u64 option \<Rightarrow> u8 list" where
  "write_optional_u64 v = update_bool (v \<noteq> None) @ (case v of None \<Rightarrow> [] | Some r \<Rightarrow> update_u64 r)"

definition write_metric_value :: "metric_value \<Rightarrow> u8 list" where
  "write_metric_value v =
     [metric_kind_code (mv_kind v)] @
     (case mv_kind v of
        MK_REAL \<Rightarrow> write_real (mv_real v)
      | MK_INTEGER \<Rightarrow> update_u64 (mv_integer v)
      | MK_BOOLEAN \<Rightarrow> update_bool (mv_boolean v)
      | MK_CATEGORICAL \<Rightarrow> write_text (mv_category v))"

section \<open>Parameters\<close>

fun duplicate_from :: "string set \<Rightarrow> parameter_assignment list \<Rightarrow> bool" where
  "duplicate_from keys [] = False"
| "duplicate_from keys (p # ps) = (if pa_key p \<in> keys then True else duplicate_from (insert (pa_key p) keys) ps)"

definition has_duplicate_parameter_key :: "parameter_assignment list \<Rightarrow> bool" where
  "has_duplicate_parameter_key ps = duplicate_from {} ps"

definition normalize_parameters :: "parameter_assignment list \<Rightarrow> parameter_assignment list" where
  "normalize_parameters ps = sort_by parameter_less ps"

definition write_parameter :: "string \<Rightarrow> parameter_assignment \<Rightarrow> u8 list" where
  "write_parameter tag v =
     write_tag tag @ write_text (pa_key v) @ [parameter_kind_code (pa_kind v)] @ write_text (pa_value v)"

definition write_parameters :: "parameter_assignment list \<Rightarrow> u8 list" where
  "write_parameters ps =
     update_u32 (of_nat (length ps)) @ concat (map (write_parameter (lit ''parameter'')) ps)"

section \<open>Definitions\<close>

definition write_metric_definition :: "string \<Rightarrow> metric_definition \<Rightarrow> u8 list" where
  "write_metric_definition tag v =
     write_tag tag @ update_u64 (id_value (md_id v)) @ write_text (md_name v) @ write_text (md_unit v) @
     [metric_kind_code (md_kind v), metric_direction_code (md_direction v),
      aggregation_rule_code (md_aggregation v)] @
     update_bool (md_required v) @ update_bool (md_accepts_non_finite v) @
     write_optional_real (md_lower_bound v) @ write_optional_real (md_upper_bound v) @
     write_optional_real (md_target_low v) @ write_optional_real (md_target_high v) @
     update_u32 (md_weight v) @ update_u32 (md_priority v) @
     (let categories = sort_by (<) (md_categories v)
      in update_u32 (of_nat (length categories)) @ concat (map write_text categories))"

definition write_rule :: "string \<Rightarrow> comparison_rule \<Rightarrow> u8 list" where
  "write_rule tag v =
     write_tag tag @ update_u64 (id_value (cr_metric v)) @ [comparison_op_code (cr_op v)] @
     write_real (cr_threshold v) @ write_real (cr_target_low v) @ write_real (cr_target_high v) @
     update_u32 (cr_priority v)"

definition rule_less :: "comparison_rule \<Rightarrow> comparison_rule \<Rightarrow> bool" where
  "rule_less lhs rhs =
     (if cr_priority lhs \<noteq> cr_priority rhs then cr_priority lhs < cr_priority rhs
      else cr_metric lhs < cr_metric rhs)"

definition write_policy :: "string \<Rightarrow> comparison_policy \<Rightarrow> u8 list" where
  "write_policy tag v =
     write_tag tag @ update_u64 (id_value (cp_id v)) @ update_u64 (id_value (cp_generation v)) @
     update_bool (cp_require_baseline v) @ update_u32 (cp_min_completed_trials_per_branch v) @
     update_u32 (cp_min_valid_observations_per_required_metric v) @
     update_bool (cp_reject_on_any_invalid_observation v) @ update_bool (cp_require_environment_match v) @
     update_u32 (cp_majority_wins_min_basis_points v) @ update_bool (cp_use_weighted_score v) @
     write_real (cp_accept_score_threshold v) @
     (let rules = sort_by rule_less (cp_rules v)
      in update_u32 (of_nat (length rules)) @ concat (map (write_rule (lit ''rule'')) rules))"

definition write_branch :: "string \<Rightarrow> branch_definition \<Rightarrow> u8 list" where
  "write_branch tag v =
     write_tag tag @ update_u64 (id_value (bd_id v)) @ write_text (bd_name v) @
     [branch_role_code (bd_role v)] @ update_u64 (id_value (bd_parent v)) @
     update_u64 (id_value (bd_generation v)) @ [branch_state_code (bd_state v)] @
     write_parameters (normalize_parameters (bd_parameters v)) @
     update_bool (bd_input_set_present v) @
     (if bd_input_set_present v then update_u64 (id_value (bd_input_set v)) else []) @
     update_bool (bd_environment_present v) @
     (if bd_environment_present v then update_u64 (id_value (bd_environment v)) else []) @
     write_text (bd_environment_fingerprint v) @ write_optional_u64 (bd_seed v) @
     update_u32 (bd_planned_trials v) @ update_bool (bd_forked v)"

section \<open>Evidence, observations, trials, decisions\<close>

definition write_aggregate :: "metric_aggregate \<Rightarrow> u8 list" where
  "write_aggregate a =
     update_u64 (id_value (ma_metric a)) @ [aggregation_rule_code (ma_rule a)] @
     update_bool (ma_present a) @ write_real (ma_value a) @ write_text (ma_category a) @
     update_u32 (ma_valid_count a) @ update_u32 (ma_invalid_count a) @
     update_u32 (ma_missing_count a) @ update_u32 (ma_unsupported_count a) @
     update_u32 (of_nat (length (ma_raw_values a))) @ concat (map write_real (ma_raw_values a))"

definition write_evidence :: "string \<Rightarrow> branch_evidence \<Rightarrow> u8 list" where
  "write_evidence tag v =
     write_tag tag @ update_u64 (id_value (be_branch v)) @ update_u64 (id_value (be_generation v)) @
     [branch_role_code (be_role v), branch_state_code (be_state v)] @
     update_u32 (be_planned_trials v) @ update_u32 (be_completed_trials v) @
     update_u32 (be_failed_trials v) @ update_u32 (be_cancelled_trials v) @
     update_u32 (be_invalid_trials v) @ update_u32 (be_superseded_trials v) @
     update_u32 (be_open_trials v) @ update_u32 (of_nat (length (be_aggregates v))) @
     concat (map write_aggregate (be_aggregates v))"

definition write_observation :: "string \<Rightarrow> observation \<Rightarrow> u8 list" where
  "write_observation tag v =
     write_tag tag @ update_u64 (id_value (ob_id v)) @ update_u64 (id_value (ob_experiment v)) @
     update_u64 (id_value (ob_generation v)) @ update_u64 (id_value (ob_branch v)) @
     update_u64 (id_value (ob_branch_generation v)) @ update_u64 (id_value (ob_trial v)) @
     update_u64 (id_value (ob_attempt v)) @ update_u64 (id_value (ob_metric v)) @
     update_u64 (id_value (ob_producer v)) @ [observation_validity_code (ob_validity v)] @
     write_metric_value (ob_value v) @ write_text (ob_detail v)"

definition write_trial :: "string \<Rightarrow> trial_record \<Rightarrow> u8 list" where
  "write_trial tag v =
     write_tag tag @ update_u64 (id_value (tr_id v)) @ update_u64 (id_value (tr_branch v)) @
     update_u64 (id_value (tr_branch_generation v)) @ update_u64 (id_value (tr_generation v)) @
     [trial_state_code (tr_state v)] @ update_u64 (id_value (tr_authoritative_attempt v)) @
     update_u32 (tr_committed_attempts v) @ [failure_kind_code (tr_failure_kind v)]"

definition write_constraint :: "constraint_result \<Rightarrow> u8 list" where
  "write_constraint c = write_text (cn_name c) @ update_bool (cn_passed c) @ write_text (cn_detail c)"

definition write_factor :: "comparison_factor \<Rightarrow> u8 list" where
  "write_factor f =
     update_u64 (id_value (cf_metric f)) @ [comparison_op_code (cf_op f)] @ update_u32 (cf_priority f) @
     write_real (cf_threshold f) @ update_bool (cf_has_values f) @ write_real (cf_baseline_value f) @
     write_real (cf_candidate_value f) @ write_real (cf_delta f) @ update_bool (cf_satisfied f) @
     update_bool (cf_decisive f)"

definition write_decision :: "string \<Rightarrow> decision \<Rightarrow> u8 list" where
  "write_decision tag v =
     write_tag tag @ update_u64 (id_value (de_id v)) @ update_u64 (id_value (de_experiment v)) @
     update_u64 (id_value (de_generation v)) @ update_u64 (id_value (de_candidate v)) @
     [decision_outcome_code (de_outcome v)] @ write_text (de_reason v) @
     concat (map write_constraint (de_constraints v)) @ concat (map write_factor (de_factors v))"

section \<open>Digests\<close>

definition write_branches :: "branch_definition list \<Rightarrow> u8 list" where
  "write_branches bs =
     (let branches = sort_by (\<lambda>lhs rhs. bd_id lhs < bd_id rhs) bs
      in update_u32 (of_nat (length branches)) @ concat (map (write_branch (lit ''branch'')) branches))"

definition write_metrics :: "metric_definition list \<Rightarrow> u8 list" where
  "write_metrics ms =
     (let metrics = sort_by (\<lambda>lhs rhs. md_id lhs < md_id rhs) ms
      in update_u32 (of_nat (length metrics)) @ concat (map (write_metric_definition (lit ''metric'')) metrics))"

definition definition_digest :: "experiment_definition \<Rightarrow> digest" where
  "definition_digest d = digest_of
     (write_tag (lit ''experiment-definition'') @ update_u32 1 @
      update_u64 (id_value (ed_id d)) @ update_u64 (id_value (ed_generation d)) @
      update_u64 (id_value (ed_hypothesis d)) @ update_u64 (id_value (ed_hypothesis_revision d)) @
      write_text (ed_name d) @ write_branches (ed_branches d) @ write_metrics (ed_metrics d) @
      write_policy (lit ''policy'') (ed_policy d) @ [seed_policy_code (ed_seed_policy d)] @
      write_optional_u64 (ed_experiment_seed d) @ [retry_policy_code (ed_retry_policy d)] @
      update_u32 (ed_max_attempts_per_trial d) @
      [partial_failure_policy_code (ed_partial_failure_policy d),
       late_evidence_policy_code (ed_late_evidence_policy d)] @
      write_parameters (normalize_parameters (ed_parameters d)) @ write_text (ed_provenance d))"

definition branch_digest :: "branch_definition \<Rightarrow> digest" where
  "branch_digest b = digest_of (write_branch (lit ''branch-definition'') b)"

definition policy_digest :: "comparison_policy \<Rightarrow> digest" where
  "policy_digest p = digest_of (write_policy (lit ''comparison-policy'') p)"

definition hypothesis_digest :: "hypothesis \<Rightarrow> digest" where
  "hypothesis_digest h = digest_of
     (write_tag (lit ''hypothesis'') @ update_u64 (id_value (hy_id h)) @
      update_u64 (id_value (hy_revision h)) @ write_text (hy_statement h) @
      update_bool (hy_expected_direction h \<noteq> None) @
      (case hy_expected_direction h of None \<Rightarrow> [] | Some d \<Rightarrow> [metric_direction_code d]) @
      update_u64 (id_value (hy_expected_metric h)) @ update_u64 (id_value (hy_parent h)) @
      update_u64 (id_value (hy_parent_revision h)) @ write_text (hy_provenance h))"

definition evidence_digest :: "branch_evidence list \<Rightarrow> experiment_definition \<Rightarrow> digest" where
  "evidence_digest evidence d = digest_of
     (write_tag (lit ''experiment-evidence'') @ update_u64 (id_value (ed_id d)) @
      update_u64 (id_value (ed_generation d)) @ update_u64 (id_value (ed_hypothesis_revision d)) @
      concat (map (write_evidence (lit ''branch-evidence'')) evidence))"

section \<open>Order does not matter\<close>

lemma mset_insert_by [simp]: "mset (insert_by lt x xs) = add_mset x (mset xs)"
  by (induction xs) auto

lemma mset_sort_by [simp]: "mset (sort_by lt xs) = mset xs"
  by (induction xs) auto

lemma sort_by_key_unique:
  fixes f :: "'a \<Rightarrow> 'b::linorder"
  assumes "mset xs = mset ys" and "inj_on f (set xs)"
  shows "sort_by (\<lambda>x y. f x < f y) xs = sort_by (\<lambda>x y. f x < f y) ys"
proof -
  have sorted: "sorted (map f (sort_by (\<lambda>x y. f x < f y) zs))" for zs
    using sorted_wrt_sort_by [OF weak_order_key, of f zs] by (simp add: sorted_wrt_map not_less)
  have "map f (sort_by (\<lambda>x y. f x < f y) xs) = map f (sort_by (\<lambda>x y. f x < f y) ys)"
  proof -
    have "mset (map f (sort_by (\<lambda>x y. f x < f y) xs)) = mset (map f (sort_by (\<lambda>x y. f x < f y) ys))"
      using assms(1) by simp
    then show ?thesis using sorted properties_for_sort sorted_sort_id by metis
  qed
  moreover have "set ys = set xs" using assms(1) by (metis set_mset_mset)
  ultimately show ?thesis using assms(2) map_inj_on [of f] by (metis Un_absorb set_sort_by)
qed

lemma parameter_key_inj:
  "inj_on (\<lambda>p. (pa_key p, parameter_kind_code (pa_kind p), pa_value p)) (A :: parameter_assignment set)"
  by (rule inj_onI) (simp add: parameter_kind_code_inj parameter_assignment.equality)

lemma normalize_parameters_unique:
  "mset ps = mset qs \<Longrightarrow> normalize_parameters ps = normalize_parameters qs"
  unfolding normalize_parameters_def parameter_less_key [abs_def]
  by (erule sort_by_key_unique) (rule parameter_key_inj)

lemma write_branches_unique:
  "mset bs = mset cs \<Longrightarrow> distinct (map bd_id bs) \<Longrightarrow> write_branches bs = write_branches cs"
  by (simp add: write_branches_def sort_by_key_unique distinct_map)

lemma write_metrics_unique:
  "mset ms = mset ns \<Longrightarrow> distinct (map md_id ms) \<Longrightarrow> write_metrics ms = write_metrics ns"
  by (simp add: write_metrics_def sort_by_key_unique distinct_map)

lemma duplicate_from_iff:
  "duplicate_from keys ps \<longleftrightarrow> \<not> distinct (map pa_key ps) \<or> pa_key ` set ps \<inter> keys \<noteq> {}"
  by (induction ps arbitrary: keys) auto

lemma has_duplicate_parameter_key_iff:
  "has_duplicate_parameter_key ps \<longleftrightarrow> \<not> distinct (map pa_key ps)"
  by (simp add: has_duplicate_parameter_key_def duplicate_from_iff)

section \<open>Encodings that can be read back\<close>

text \<open>
  The interface of an encoder: inside its domain, an encoding followed by anything is followed
  by that same thing in every way of reading it.
\<close>

locale prefix_code =
  fixes enc :: "'a \<Rightarrow> u8 list" and fits :: "'a \<Rightarrow> bool"
  assumes unique: "fits x \<Longrightarrow> fits y \<Longrightarrow> enc x @ r = enc y @ s \<Longrightarrow> x = y \<and> r = s"
begin

lemma injective: "fits x \<Longrightarrow> fits y \<Longrightarrow> enc x = enc y \<Longrightarrow> x = y"
  using unique [of x y "[]" "[]"] by simp

lemma concat_unique:
  "list_all fits xs \<Longrightarrow> list_all fits ys \<Longrightarrow> length xs = length ys \<Longrightarrow>
     concat (map enc xs) @ r = concat (map enc ys) @ s \<Longrightarrow> xs = ys \<and> r = s"
proof (induction xs arbitrary: ys)
  case (Cons x xs)
  then obtain y ys' where ys: "ys = y # ys'" by (cases ys) auto
  with Cons.prems have "enc x @ concat (map enc xs) @ r = enc y @ concat (map enc ys') @ s" by simp
  moreover have "fits x" "fits y" using Cons.prems ys by auto
  ultimately have "x = y" "concat (map enc xs) @ r = concat (map enc ys') @ s"
    by (blast dest: unique)+
  with Cons ys show ?case by auto
qed simp

end

lemma length_le_bytes [simp]: "length (le_bytes n v) = n"
  by (simp add: le_bytes_def)

lemma le_bytes_inj:
  assumes "le_bytes n v = le_bytes n w" and "\<And>i. bit v i \<or> bit w i \<Longrightarrow> i < 8 * n"
  shows "v = w"
proof (rule bit_word_eqI)
  fix i assume "i < LENGTH(64)"
  have byte: "(ucast (drop_bit (8 * j) v) :: u8) = ucast (drop_bit (8 * j) w)" if "j < n" for j
    using arg_cong [OF assms(1), of "\<lambda>bs. bs ! j"] that by (simp add: le_bytes_def)
  show "bit v i = bit w i"
  proof (cases "i < 8 * n")
    case True
    then have "bit (ucast (drop_bit (8 * (i div 8)) v) :: u8) (i mod 8) =
        bit (ucast (drop_bit (8 * (i div 8)) w) :: u8) (i mod 8)"
      using byte [of "i div 8"] by auto
    then show ?thesis by (simp add: bit_ucast_iff bit_drop_bit_eq)
  qed (use assms(2) in blast)
qed

lemma update_u64_inj: "update_u64 v = update_u64 w \<Longrightarrow> v = w"
  unfolding update_u64_def by (rule le_bytes_inj) (auto dest: bit_imp_le_length)

lemma update_u32_inj: "update_u32 v = update_u32 w \<Longrightarrow> v = w"
proof -
  assume "update_u32 v = update_u32 w"
  then have "(ucast v :: u64) = ucast w"
    unfolding update_u32_def by (rule le_bytes_inj) (auto simp: bit_ucast_iff dest: bit_imp_le_length)
  then have "unat (ucast v :: u64) = unat (ucast w :: u64)" by simp
  moreover have "take_bit 64 (unat x) = unat x" for x :: u32
    using unat_lt_32 [of x] by (simp add: take_bit_nat_eq_self)
  ultimately show ?thesis by (simp add: unsigned_ucast_eq word_eqI_unat)
qed

lemma char_byte_inj: "char_byte c = char_byte d \<Longrightarrow> c = d"
  unfolding char_byte_def
  by (drule arg_cong [of _ _ unat]) (simp add: unat_of_nat)

lemma text_bytes_inj: "text_bytes s = text_bytes t \<Longrightarrow> s = t"
  unfolding text_bytes_def by (metis char_byte_inj injI inj_map_eq_map)



definition text_fits :: "string \<Rightarrow> bool" where
  "text_fits s \<longleftrightarrow> length s < 2 ^ 64"

definition parameter_fits :: "parameter_assignment \<Rightarrow> bool" where
  "parameter_fits p \<longleftrightarrow> text_fits (pa_key p) \<and> text_fits (pa_value p)"

interpretation text_code: prefix_code write_text text_fits
proof unfold_locales
  fix x y r s
  assume fits: "text_fits x" "text_fits y" and eq: "write_text x @ r = write_text y @ s"
  have "update_u64 (of_nat (length x)) = update_u64 (of_nat (length y))"
    and rest: "text_bytes x @ r = text_bytes y @ s"
    using eq by (auto simp: write_text_def update_length_prefixed_def update_u64_def)
  then have "(of_nat (length x) :: u64) = of_nat (length y)" by (blast dest: update_u64_inj)
  then have "length x = length y"
    using fits by (simp add: text_fits_def word_of_nat_eq_iff take_bit_nat_eq_self)
  then show "x = y \<and> r = s" using rest text_bytes_inj by (auto simp: text_bytes_def)
qed

interpretation parameter_code: prefix_code "write_parameter tag" parameter_fits
proof unfold_locales
  fix x y :: parameter_assignment and r s
  assume fits: "parameter_fits x" "parameter_fits y"
    and eq: "write_parameter tag x @ r = write_parameter tag y @ s"
  have ok: "text_fits (pa_key x)" "text_fits (pa_key y)" "text_fits (pa_value x)" "text_fits (pa_value y)"
    using fits by (auto simp: parameter_fits_def)
  have "write_text (pa_key x) @ [parameter_kind_code (pa_kind x)] @ write_text (pa_value x) @ r =
      write_text (pa_key y) @ [parameter_kind_code (pa_kind y)] @ write_text (pa_value y) @ s"
    using eq by (simp add: write_parameter_def)
  note key = text_code.unique [OF ok(1,2) this]
  then have kind: "pa_kind x = pa_kind y" and "write_text (pa_value x) @ r = write_text (pa_value y) @ s"
    by (simp_all add: parameter_kind_code_inj)
  then show "x = y \<and> r = s" using text_code.unique [OF ok(3,4)] key by auto
qed

lemma write_parameters_unique:
  assumes "list_all parameter_fits ps" and "list_all parameter_fits qs"
    and "length ps < 2 ^ 32" and "length qs < 2 ^ 32"
    and "write_parameters ps @ r = write_parameters qs @ s"
  shows "ps = qs \<and> r = s"
proof -
  have "update_u32 (of_nat (length ps)) = update_u32 (of_nat (length qs))"
    and rest: "concat (map (write_parameter (lit ''parameter'')) ps) @ r =
        concat (map (write_parameter (lit ''parameter'')) qs) @ s"
    using assms(5) by (auto simp: write_parameters_def update_u32_def)
  then have "(of_nat (length ps) :: u32) = of_nat (length qs)" by (blast dest: update_u32_inj)
  then have "length ps = length qs"
    using assms(3,4) by (simp add: word_of_nat_eq_iff take_bit_nat_eq_self)
  then show ?thesis using parameter_code.concat_unique [OF assms(1,2) _ rest] by blast
qed

section \<open>Properties\<close>

text \<open>
  C35: logically equal definitions have one digest. Listing the branches, the metrics and the
  parameters of an experiment in another order does not change its definition digest, because
  each collection is sorted by an identity that is unique in it before it is encoded.
\<close>

theorem definition_digest_order_independent:
  assumes "mset bs = mset (ed_branches d)" and "distinct (map bd_id (ed_branches d))"
    and "mset ms = mset (ed_metrics d)" and "distinct (map md_id (ed_metrics d))"
    and "mset ps = mset (ed_parameters d)"
  shows "definition_digest (d\<lparr>ed_branches := bs, ed_metrics := ms, ed_parameters := ps\<rparr>) =
    definition_digest d"
  using write_branches_unique [OF assms(1) [symmetric] assms(2)]
    write_metrics_unique [OF assms(3) [symmetric] assms(4)] normalize_parameters_unique [OF assms(5)]
  by (simp add: definition_digest_def)

definition sample_parameter :: "string \<Rightarrow> parameter_assignment" where
  "sample_parameter k = make_text_parameter k ''v''"

definition sample_policy :: comparison_policy where
  "sample_policy =
     \<lparr>cp_id = from_value 1, cp_generation = from_value 1, cp_require_baseline = True,
      cp_min_completed_trials_per_branch = 1, cp_min_valid_observations_per_required_metric = 1,
      cp_reject_on_any_invalid_observation = False, cp_require_environment_match = True,
      cp_majority_wins_min_basis_points = 5000, cp_use_weighted_score = False,
      cp_accept_score_threshold = d_zero, cp_rules = []\<rparr>"

definition sample_branch :: "u64 \<Rightarrow> branch_definition" where
  "sample_branch n =
     \<lparr>bd_id = from_value n, bd_name = ''b'', bd_role = (if n = 1 then BR_BASELINE else BR_CANDIDATE),
      bd_parent = null_id, bd_generation = from_value 1, bd_state = BS_ACTIVE, bd_parameters = [],
      bd_input_set = null_id, bd_input_set_present = False, bd_environment = null_id,
      bd_environment_present = False, bd_environment_fingerprint = [], bd_seed = None,
      bd_planned_trials = 2, bd_created_sequence = 1, bd_forked = False\<rparr>"

definition sample_metric :: "u64 \<Rightarrow> metric_definition" where
  "sample_metric n =
     \<lparr>md_id = from_value n, md_name = ''m'', md_unit = [], md_kind = MK_REAL, md_direction = MD_MINIMIZE,
      md_aggregation = AR_MEAN, md_required = True, md_accepts_non_finite = False,
      md_lower_bound = None, md_upper_bound = None, md_target_low = None, md_target_high = None,
      md_weight = 1, md_priority = 0, md_categories = []\<rparr>"

definition sample_definition :: experiment_definition where
  "sample_definition =
     \<lparr>ed_id = from_value 1, ed_generation = from_value 1, ed_hypothesis = from_value 1,
      ed_hypothesis_revision = from_value 1, ed_name = ''e'',
      ed_branches = [sample_branch 1, sample_branch 2], ed_metrics = [sample_metric 1],
      ed_policy = sample_policy, ed_seed_policy = SP_NONE, ed_experiment_seed = None,
      ed_retry_policy = RP_FRESH_ATTEMPT_SAME_TRIAL, ed_max_attempts_per_trial = 2,
      ed_partial_failure_policy = PF_TOLERATE_IF_EVIDENCE_SUFFICIENT,
      ed_late_evidence_policy = LE_REJECT_AND_RECORD,
      ed_parameters = [sample_parameter ''a'', sample_parameter ''b''], ed_provenance = [],
      ed_created_sequence = 1\<rparr>"

theorem definition_digest_order_independent_witness:
  "definition_digest (sample_definition\<lparr>ed_branches := [sample_branch 2, sample_branch 1],
      ed_metrics := [sample_metric 1], ed_parameters := [sample_parameter ''b'', sample_parameter ''a'']\<rparr>) =
    definition_digest sample_definition"
  by (rule definition_digest_order_independent)
    (simp_all add: sample_definition_def sample_branch_def sample_metric_def)

text \<open>
  C36: the encoding of a parameter list determines the list. Two lists whose encodings are prefixes
  of one byte stream are equal, and so is what follows them: no key, kind, value or count can be
  traded against a neighbouring byte.
\<close>

theorem parameter_encoding_unambiguous:
  assumes "list_all parameter_fits ps" and "list_all parameter_fits qs"
    and "length ps < 2 ^ 32" and "length qs < 2 ^ 32"
    and "write_parameters ps @ r = write_parameters qs @ s"
  shows "ps = qs \<and> r = s"
  using assms by (rule write_parameters_unique)

theorem parameter_encoding_unambiguous_witness:
  "list_all parameter_fits [sample_parameter ''a''] \<and>
   ([sample_parameter ''a''] = [sample_parameter ''a''] \<and> ([] :: u8 list) = [])"
proof -
  have fits: "list_all parameter_fits [sample_parameter ''a'']"
    by (simp add: parameter_fits_def text_fits_def sample_parameter_def make_text_parameter_def)
  then show ?thesis
    using parameter_encoding_unambiguous [OF fits fits _ _ refl, of "[]"] by simp
qed

end
