(* ===== verification/State.thy ===== *)
theory State
  imports Canonical
begin

text \<open>
  \<^verbatim>\<open>include/experiment_fabric/state.hpp\<close> and \<^verbatim>\<open>src/state.cpp\<close>: the durable state of the coordinator,
  the validation of one experiment record and of the whole state, the record count and the
  experiment digest. The lemmas characterise what an accepted record guarantees: unique
  identities, resolved references, an acyclic branch lineage and at most one authoritative
  completion per trial.
\<close>

section \<open>Durable records\<close>

record worker_incarnation =
  wi_worker :: worker_id
  wi_boot :: worker_boot_id
  wi_epoch :: coordinator_epoch
  wi_producer :: producer_id
  wi_endpoint :: string
  wi_fingerprint :: string
  wi_registered_sequence :: u64
  wi_revoked :: bool
  wi_revocation_kind :: failure_kind
  wi_revoked_sequence :: u64

record experiment_record =
  er_definition :: experiment_definition
  er_hypothesis :: hypothesis
  er_hypothesis_history :: "hypothesis list"
  er_state :: experiment_state
  er_revision_sequence :: u64
  er_created_sequence :: u64
  er_trials :: "(trial_id, trial_record) omap"
  er_attempts :: "(trial_attempt_id, attempt_record) omap"
  er_observations :: "observation list"
  er_artifacts :: "artifact_record list"
  er_decisions :: "decision list"
  er_rollback_points :: "rollback_point list"
  er_rejected_evidence :: "rejected_evidence list"
  er_lifecycle_log :: "string list"

record coordinator_state =
  cs_format_version :: u32
  cs_last_epoch :: u64
  cs_last_sequence :: u64
  cs_experiments :: "(experiment_id, experiment_record) omap"
  cs_workers :: "worker_incarnation list"
  cs_next_worker_registration_sequence :: u64
  cs_id_watermark_experiment :: u64
  cs_id_watermark_hypothesis :: u64
  cs_id_watermark_branch :: u64
  cs_id_watermark_metric :: u64
  cs_id_watermark_policy :: u64
  cs_id_watermark_trial :: u64
  cs_id_watermark_attempt :: u64
  cs_id_watermark_observation :: u64
  cs_id_watermark_artifact :: u64
  cs_id_watermark_decision :: u64
  cs_id_watermark_rollback :: u64

definition kPersistenceFormatVersion :: u32 where
  "kPersistenceFormatVersion = 1"

definition coordinator_state_init :: coordinator_state where
  "coordinator_state_init =
     \<lparr>cs_format_version = 0, cs_last_epoch = 0, cs_last_sequence = 0, cs_experiments = [],
      cs_workers = [], cs_next_worker_registration_sequence = 0, cs_id_watermark_experiment = 0,
      cs_id_watermark_hypothesis = 0, cs_id_watermark_branch = 0, cs_id_watermark_metric = 0,
      cs_id_watermark_policy = 0, cs_id_watermark_trial = 0, cs_id_watermark_attempt = 0,
      cs_id_watermark_observation = 0, cs_id_watermark_artifact = 0, cs_id_watermark_decision = 0,
      cs_id_watermark_rollback = 0\<rparr>"

section \<open>Errors and loops with early return\<close>

definition corrupt :: "string \<Rightarrow> status" where
  "corrupt reason = make_error EC_CORRUPT_PERSISTENCE EG_PERSISTENCE reason"

definition invalid :: "string \<Rightarrow> status" where
  "invalid reason = make_error EC_INVALID_ARGUMENT EG_VALIDATION reason"

definition limits_error :: "string \<Rightarrow> status" where
  "limits_error reason = make_error EC_RESOURCE_EXHAUSTED EG_LIMITS reason"

definition kMaxGeneration :: u64 where
  "kMaxGeneration = 2 ^ 32"

text \<open>A loop that returns the first failing status, and statements in sequence.\<close>

fun check_each :: "('a \<Rightarrow> status) \<Rightarrow> 'a list \<Rightarrow> status" where
  "check_each f [] = success"
| "check_each f (x # xs) = (let s = f x in if st_ok s then check_each f xs else s)"

definition and_then :: "status \<Rightarrow> status \<Rightarrow> status" where
  "and_then s t = (if st_ok s then t else s)"

text \<open>A loop that inserts a key into a set at every element and stops at the first repetition.\<close>

fun check_distinct :: "'k set \<Rightarrow> ('a \<Rightarrow> 'k) \<Rightarrow> ('a \<Rightarrow> status) \<Rightarrow> status \<Rightarrow> ('a \<Rightarrow> status) \<Rightarrow> 'a list \<Rightarrow> status" where
  "check_distinct seen key pre dup post [] = success"
| "check_distinct seen key pre dup post (x # xs) =
     and_then (pre x)
       (if key x \<in> seen then dup
        else and_then (post x) (check_distinct (insert (key x) seen) key pre dup post xs))"

section \<open>Branch lineage\<close>

function lineage_walk :: "string \<Rightarrow> branch_definition list \<Rightarrow> branch_id set \<Rightarrow> nat \<Rightarrow> branch_id \<Rightarrow> status" where
  "lineage_walk context branches seen depth cursor =
     (if \<not> valid cursor then success
      else if cursor \<in> seen then corrupt (context @ lit '': branch lineage contains a cycle'')
      else if depth + 1 > 4096 then corrupt (context @ lit '': branch lineage exceeds depth bound'')
      else case find (\<lambda>candidate. bd_id candidate = cursor) branches of
             None \<Rightarrow> success
           | Some b \<Rightarrow> lineage_walk context branches (insert cursor seen) (depth + 1) (bd_parent b))"
  by pat_completeness auto
termination
  by (relation "measure (\<lambda>(c, b, s, depth, x). 4096 - depth)") auto

declare lineage_walk.simps [simp del]

definition validate_branch_lineage :: "experiment_definition \<Rightarrow> string \<Rightarrow> status" where
  "validate_branch_lineage d context =
     (let branches = ed_branches d;
          known = set (map bd_id branches);
          baseline_seen = set (map bd_id (filter (\<lambda>b. bd_role b = BR_BASELINE) branches))
      in and_then
           (check_distinct {} bd_id
              (\<lambda>b. if \<not> valid (bd_id b) then corrupt (context @ lit '': null branch identity'') else success)
              (corrupt (context @ lit '': duplicate branch identity''))
              (\<lambda>b. success) branches)
        (and_then
           (check_each (\<lambda>b.
              if valid (bd_parent b) \<and> bd_parent b \<notin> known
                then corrupt (context @ lit '': branch parent does not exist'')
              else if bd_parent b = bd_id b then corrupt (context @ lit '': branch is its own parent'')
              else success) branches)
        (if cp_require_baseline (ed_policy d) \<and> baseline_seen = {}
           then corrupt (context @ lit '': policy requires a baseline branch but none is designated'')
         else check_each (\<lambda>b. lineage_walk context branches {} 0 (bd_id b)) branches)))"

section \<open>Metrics and comparison rules\<close>

definition check_metric :: "string \<Rightarrow> metric_definition \<Rightarrow> status" where
  "check_metric context m =
     (if md_kind m = MK_CATEGORICAL \<and> md_aggregation m \<noteq> AR_MAJORITY \<and> md_aggregation m \<noteq> AR_NONE
        then invalid (context @ lit '': categorical metric requires MAJORITY or NONE aggregation'')
      else if (md_kind m = MK_REAL \<or> md_kind m = MK_INTEGER) \<and> md_aggregation m = AR_MAJORITY
        then invalid (context @ lit '': numeric metric cannot use MAJORITY aggregation'')
      else if (case (md_lower_bound m, md_upper_bound m) of (Some lo, Some hi) \<Rightarrow> d_gt lo hi | _ \<Rightarrow> False)
        then invalid (context @ lit '': metric validity bounds are inverted'')
      else if (case (md_target_low m, md_target_high m) of (Some lo, Some hi) \<Rightarrow> d_gt lo hi | _ \<Rightarrow> False)
        then invalid (context @ lit '': metric target range is inverted'')
      else success)"

text \<open>The loop over the metrics carries the set of identities and the set of names.\<close>

fun metrics_loop :: "limits \<Rightarrow> string \<Rightarrow> metric_id set \<Rightarrow> string set \<Rightarrow> metric_definition list \<Rightarrow> status" where
  "metrics_loop l context ids names [] = success"
| "metrics_loop l context ids names (m # ms) =
     (if \<not> valid (md_id m) then corrupt (context @ lit '': null metric identity'')
      else if md_id m \<in> ids then corrupt (context @ lit '': duplicate metric identity'')
      else if md_name m = [] \<or> length (md_name m) > unat (lm_max_name_length l)
        then invalid (context @ lit '': metric name is empty or too long'')
      else if md_name m \<in> names then invalid (context @ lit '': duplicate metric name'')
      else and_then (check_metric context m)
        (metrics_loop l context (insert (md_id m) ids) (insert (md_name m) names) ms))"

definition check_rule :: "string \<Rightarrow> metric_id set \<Rightarrow> comparison_rule \<Rightarrow> status" where
  "check_rule context ids r =
     (if cr_metric r \<notin> ids then corrupt (context @ lit '': comparison rule references an unknown metric'')
      else if cr_op r = CO_TARGET_RANGE \<and> d_gt (cr_target_low r) (cr_target_high r)
        then invalid (context @ lit '': comparison target range is inverted'')
      else if cr_op r = CO_MAJORITY_WINS \<and> (d_lt (cr_threshold r) d_zero \<or> d_gt (cr_threshold r) d_one)
        then invalid (context @ lit '': majority-wins threshold must be a fraction in [0,1]'')
      else success)"

definition validate_metrics :: "experiment_definition \<Rightarrow> limits \<Rightarrow> string \<Rightarrow> status" where
  "validate_metrics d l context =
     (let policy = ed_policy d; ids = set (map md_id (ed_metrics d))
      in if length (ed_metrics d) > unat (lm_max_metrics_per_experiment l)
           then limits_error (context @ lit '': too many metric definitions'')
         else and_then (metrics_loop l context {} {} (ed_metrics d))
         (if length (cp_rules policy) > unat (lm_max_comparison_rules l)
            then limits_error (context @ lit '': too many comparison rules'')
          else and_then (check_each (check_rule context ids) (cp_rules policy))
          (if cp_use_weighted_score policy \<and>
              list_ex (\<lambda>m. md_required m \<and> md_direction m = MD_INFORMATIONAL) (ed_metrics d)
             then invalid (context @ lit '': weighted scoring requires a directional required metric'')
           else if cp_majority_wins_min_basis_points policy > 10000
             then invalid (context @ lit '': majority-wins basis points out of range'')
           else success)))"

section \<open>One experiment record\<close>

definition check_header :: "string \<Rightarrow> experiment_record \<Rightarrow> limits \<Rightarrow> experiment_id \<Rightarrow> status" where
  "check_header context r l key =
     (let d = er_definition r; h = er_hypothesis r
      in if ed_id d \<noteq> key
           then corrupt (context @ lit '': definition identity does not match its record key'')
         else if \<not> valid (ed_generation d) \<or> id_value (ed_generation d) > kMaxGeneration
           then corrupt (context @ lit '': experiment generation is out of range'')
         else if \<not> valid (hy_id h) \<or> \<not> valid (hy_revision h)
           then corrupt (context @ lit '': hypothesis identity or revision is null'')
         else if hy_id h \<noteq> ed_hypothesis d
           then corrupt (context @ lit '': definition hypothesis does not match the current hypothesis'')
         else if hy_revision h \<noteq> ed_hypothesis_revision d
           then corrupt (context @ lit '': definition hypothesis revision does not match the current hypothesis'')
         else if length (ed_branches d) > unat (lm_max_branches_per_experiment l)
           then limits_error (context @ lit '': too many branch definitions'')
         else if ed_branches d = [] then invalid (context @ lit '': experiment has no branches'')
         else success)"

definition check_branch :: "string \<Rightarrow> limits \<Rightarrow> branch_definition \<Rightarrow> status" where
  "check_branch context l b =
     (if has_duplicate_parameter_key (bd_parameters b)
        then invalid (context @ lit '': duplicate branch parameter key'')
      else if bd_planned_trials b = 0 \<or> bd_planned_trials b > lm_max_trials_per_branch l
        then limits_error (context @ lit '': branch planned trial count is out of range'')
      else success)"

definition check_trial ::
    "string \<Rightarrow> limits \<Rightarrow> experiment_definition \<Rightarrow> branch_id set \<Rightarrow> trial_id \<times> trial_record \<Rightarrow> status" where
  "check_trial context l d branches e =
     (let trial = snd e
      in if tr_id trial \<noteq> fst e then corrupt (context @ lit '': trial key does not match its identity'')
         else if tr_branch trial \<notin> branches
           then corrupt (context @ lit '': trial references an unknown branch'')
         else if id_value (tr_generation trial) = 0 \<or> id_value (tr_generation trial) > kMaxGeneration
           then corrupt (context @ lit '': trial references an out-of-range experiment generation'')
         else if tr_hypothesis trial \<noteq> ed_hypothesis d
           then corrupt (context @ lit '': trial references an unknown hypothesis'')
         else if tr_attempt_count trial > lm_max_attempts_per_trial l
           then limits_error (context @ lit '': trial attempt count exceeds the bound'')
         else if tr_committed_attempts trial > 1
           then corrupt (context @ lit '': trial records more than one authoritative completion'')
         else success)"

definition check_attempt ::
    "string \<Rightarrow> limits \<Rightarrow> (trial_id, trial_record) omap \<Rightarrow> trial_attempt_id \<times> attempt_record \<Rightarrow> status" where
  "check_attempt context l trials e =
     (let attempt = snd e
      in if at_id attempt \<noteq> fst e then corrupt (context @ lit '': attempt key does not match its identity'')
         else if map_of trials (at_trial attempt) = None
           then corrupt (context @ lit '': attempt references an unknown trial'')
         else if \<not> valid (at_number attempt)
           then corrupt (context @ lit '': attempt number must be non-zero'')
         else if unat (id_value (at_number attempt)) > unat (lm_max_attempts_per_trial l)
           then limits_error (context @ lit '': attempt number exceeds the configured bound'')
         else success)"

definition check_observation :: "string \<Rightarrow> experiment_record \<Rightarrow> observation \<Rightarrow> status" where
  "check_observation context r ob =
     (if map_of (er_trials r) (ob_trial ob) = None
        then corrupt (context @ lit '': observation references an unknown trial'')
      else if map_of (er_attempts r) (ob_attempt ob) = None
        then corrupt (context @ lit '': observation references an unknown attempt'')
      else if ob_metric ob \<notin> set (map md_id (ed_metrics (er_definition r)))
        then corrupt (context @ lit '': observation references an unknown metric'')
      else if \<not> valid (ob_producer ob)
        then corrupt (context @ lit '': observation has a null producer identity'')
      else if id_value (ob_generation ob) = 0 \<or> id_value (ob_generation ob) > kMaxGeneration
        then corrupt (context @ lit '': observation references an out-of-range experiment generation'')
      else success)"

text \<open>The counters of \<^verbatim>\<open>valid_per_trial_metric\<close>: some trial and metric has a counter above one.\<close>

definition repeated_valid_observation :: "observation list \<Rightarrow> bool" where
  "repeated_valid_observation obs =
     list_ex (\<lambda>o1. ob_validity o1 = OV_VALID \<and>
        count32 (\<lambda>o2. ob_validity o2 = OV_VALID \<and> ob_trial o2 = ob_trial o1 \<and> ob_metric o2 = ob_metric o1) obs > 1)
      obs"

definition check_artifact :: "string \<Rightarrow> limits \<Rightarrow> experiment_record \<Rightarrow> artifact_record \<Rightarrow> status" where
  "check_artifact context l r a =
     (if map_of (er_trials r) (ar_trial a) = None
        then corrupt (context @ lit '': artifact references an unknown trial'')
      else if map_of (er_attempts r) (ar_attempt a) = None
        then corrupt (context @ lit '': artifact references an unknown attempt'')
      else if ar_locator a = [] \<or> length (ar_locator a) > unat (lm_max_locator_length l)
        then invalid (context @ lit '': artifact locator is empty or too long'')
      else success)"

definition check_decision :: "string \<Rightarrow> branch_id set \<Rightarrow> decision \<Rightarrow> status" where
  "check_decision context branches dec =
     (if id_value (de_generation dec) = 0 \<or> id_value (de_generation dec) > kMaxGeneration
        then corrupt (context @ lit '': decision references an out-of-range experiment generation'')
      else if de_candidate dec \<notin> branches
        then corrupt (context @ lit '': decision references an unknown candidate branch'')
      else if de_baseline_present dec \<and> de_baseline dec \<notin> branches
        then corrupt (context @ lit '': decision references an unknown baseline branch'')
      else success)"

definition check_snapshot :: "string \<Rightarrow> branch_id set \<Rightarrow> branch_authority_snapshot \<Rightarrow> status" where
  "check_snapshot context branches b =
     (if \<not> valid (ba_branch b) \<or> \<not> valid (ba_generation b)
        then corrupt (context @ lit '': rollback point carries a null branch authority snapshot'')
      else if ba_branch b \<notin> branches
        then corrupt (context @ lit '': rollback point references an unknown branch'')
      else success)"

fun rollback_loop ::
    "string \<Rightarrow> branch_id set \<Rightarrow> decision_id set \<Rightarrow> rollback_point_id set \<Rightarrow> u64 \<Rightarrow> rollback_point list \<Rightarrow> status" where
  "rollback_loop context branches decisions ids previous [] = success"
| "rollback_loop context branches decisions ids previous (p # ps) =
     (if \<not> valid (rb_id p) then corrupt (context @ lit '': null rollback point identity'')
      else if rb_id p \<in> ids then corrupt (context @ lit '': duplicate rollback point identity'')
      else if id_value (rb_generation p) = 0 \<or> id_value (rb_generation p) > kMaxGeneration
        then corrupt (context @ lit '': rollback point references an out-of-range experiment generation'')
      else if rb_sequence p \<le> previous
        then corrupt (context @ lit '': rollback points are not ordered by sequence'')
      else if rb_decision_present p \<and> rb_decision p \<notin> decisions
        then corrupt (context @ lit '': rollback point references an unknown decision'')
      else and_then (check_each (check_snapshot context branches) (rb_authority p))
        (rollback_loop context branches decisions (insert (rb_id p) ids) (rb_sequence p) ps))"

text \<open>The parts of \<^verbatim>\<open>validate_record\<close> in their order.\<close>

definition validate_trials :: "string \<Rightarrow> limits \<Rightarrow> experiment_record \<Rightarrow> status" where
  "validate_trials context l r =
     (let d = er_definition r; trials = er_trials r; attempts = er_attempts r;
          branches = set (map bd_id (ed_branches d))
      in if length trials > length (remdups (map bd_id (ed_branches d))) * unat (lm_max_trials_per_branch l)
           then limits_error (context @ lit '': too many trials'')
         else and_then (check_each (check_trial context l d branches) trials)
         (if length attempts > length trials * unat (lm_max_attempts_per_trial l)
            then limits_error (context @ lit '': too many attempts'')
          else and_then (check_each (check_attempt context l trials) attempts)
          (if (of_nat (length (filter (\<lambda>e. at_committed (snd e)) attempts)) :: u64) \<noteq>
               sum_list (map (\<lambda>e. ucast (tr_committed_attempts (snd e))) trials)
             then corrupt (context @ lit '': committed attempt count disagrees with trial completion count'')
           else check_each (\<lambda>e.
             if valid (tr_authoritative_attempt (snd e)) \<and>
                map_of attempts (tr_authoritative_attempt (snd e)) = None
               then corrupt (context @ lit '': trial authority references an unknown attempt'')
             else success) trials)))"

definition validate_evidence :: "string \<Rightarrow> limits \<Rightarrow> experiment_record \<Rightarrow> status" where
  "validate_evidence context l r =
     (if length (er_observations r) > unat (lm_max_observations_per_experiment l)
        then limits_error (context @ lit '': too many observations'')
      else if length (er_artifacts r) > unat (lm_max_artifacts_per_experiment l)
        then limits_error (context @ lit '': too many artifacts'')
      else if length (er_decisions r) > unat (lm_max_decisions_per_experiment l)
        then limits_error (context @ lit '': too many decisions'')
      else if length (er_rollback_points r) > unat (lm_max_decisions_per_experiment l)
        then limits_error (context @ lit '': too many rollback points'')
      else and_then
        (check_distinct {} ob_id
           (\<lambda>ob. if \<not> valid (ob_id ob) then corrupt (context @ lit '': null observation identity'') else success)
           (corrupt (context @ lit '': duplicate observation identity''))
           (check_observation context r) (er_observations r))
        (if repeated_valid_observation (er_observations r)
           then corrupt (context @ lit '': duplicate valid observation for one metric on one trial'')
         else and_then
           (check_distinct {} ar_id
              (\<lambda>a. if \<not> valid (ar_id a) then corrupt (context @ lit '': null artifact identity'') else success)
              (corrupt (context @ lit '': duplicate artifact identity''))
              (check_artifact context l r) (er_artifacts r))
           (check_each (\<lambda>e. check_each (\<lambda>a.
              if a \<notin> set (map ar_id (er_artifacts r))
                then corrupt (context @ lit '': trial references an unknown artifact'')
              else success) (tr_artifacts (snd e))) (er_trials r))))"

definition validate_decisions :: "string \<Rightarrow> experiment_record \<Rightarrow> status" where
  "validate_decisions context r =
     (let branches = set (map bd_id (ed_branches (er_definition r)))
      in and_then
           (check_distinct {} de_id
              (\<lambda>d. if \<not> valid (de_id d) then corrupt (context @ lit '': null decision identity'') else success)
              (corrupt (context @ lit '': duplicate decision identity''))
              (check_decision context branches) (er_decisions r))
           (rollback_loop context branches (set (map de_id (er_decisions r))) {} 0 (er_rollback_points r)))"

definition validate_record :: "experiment_record \<Rightarrow> limits \<Rightarrow> experiment_id \<Rightarrow> status" where
  "validate_record r l key =
     (let context = lit ''experiment '' @ id_to_string key; d = er_definition r
      in and_then (check_header context r l key)
        (and_then (validate_branch_lineage d context)
        (and_then (validate_metrics d l context)
        (if has_duplicate_parameter_key (ed_parameters d)
           then invalid (context @ lit '': duplicate experiment parameter key'')
         else and_then (check_each (check_branch context l) (ed_branches d))
           (and_then (validate_trials context l r)
           (and_then (validate_evidence context l r)
              (validate_decisions context r)))))))"

definition validate_experiment_record :: "experiment_record \<Rightarrow> limits \<Rightarrow> experiment_id \<Rightarrow> status" where
  "validate_experiment_record r l key = validate_record r l key"

section \<open>The whole state\<close>

definition record_count :: "experiment_record \<Rightarrow> nat" where
  "record_count r =
     1 + length (er_trials r) + length (er_attempts r) + length (er_observations r) +
     length (er_artifacts r) + length (er_decisions r) + length (er_rollback_points r) +
     length (er_rejected_evidence r) + length (er_hypothesis_history r) + length (er_lifecycle_log r)"

definition total_record_count :: "coordinator_state \<Rightarrow> u64" where
  "total_record_count s =
     of_nat (length (cs_workers s) + sum_list (map (record_count \<circ> snd) (cs_experiments s)))"

definition max_of :: "u64 list \<Rightarrow> u64" where
  "max_of vs = foldl max 0 vs"

definition watermarks_dominate :: "coordinator_state \<Rightarrow> bool" where
  "watermarks_dominate s =
     (let es = cs_experiments s; rs = map snd es
      in \<not> (cs_id_watermark_experiment s < max_of (map (id_value \<circ> fst) es) \<or>
            cs_id_watermark_hypothesis s < max_of (concat (map (\<lambda>r.
               id_value (hy_id (er_hypothesis r)) # id_value (ed_hypothesis (er_definition r)) #
               map (id_value \<circ> hy_id) (er_hypothesis_history r)) rs)) \<or>
            cs_id_watermark_branch s <
              max_of (concat (map (\<lambda>r. map (id_value \<circ> bd_id) (ed_branches (er_definition r))) rs)) \<or>
            cs_id_watermark_trial s < max_of (concat (map (\<lambda>r. map (id_value \<circ> fst) (er_trials r)) rs)) \<or>
            cs_id_watermark_attempt s < max_of (concat (map (\<lambda>r. map (id_value \<circ> fst) (er_attempts r)) rs)) \<or>
            cs_id_watermark_observation s <
              max_of (concat (map (\<lambda>r. map (id_value \<circ> ob_id) (er_observations r)) rs)) \<or>
            cs_id_watermark_artifact s < max_of (concat (map (\<lambda>r. map (id_value \<circ> ar_id) (er_artifacts r)) rs)) \<or>
            cs_id_watermark_decision s < max_of (concat (map (\<lambda>r. map (id_value \<circ> de_id) (er_decisions r)) rs)) \<or>
            cs_id_watermark_rollback s <
              max_of (concat (map (\<lambda>r. map (id_value \<circ> rb_id) (er_rollback_points r)) rs))))"

definition validate :: "coordinator_state \<Rightarrow> limits \<Rightarrow> status" where
  "validate s l =
     (if cs_format_version s \<noteq> kPersistenceFormatVersion
        then corrupt (lit ''state format version mismatch'')
      else if length (cs_experiments s) > unat (lm_max_experiments l)
        then limits_error (lit ''state holds more experiments than the configured bound'')
      else if unat (total_record_count s) > unat (lm_max_persisted_records l)
        then limits_error (lit ''state holds more records than the configured bound'')
      else and_then
        (check_distinct {} (\<lambda>w. (id_value (wi_worker w), id_value (wi_boot w)))
           (\<lambda>w. if \<not> valid (wi_worker w) \<or> \<not> valid (wi_boot w) \<or> \<not> valid (wi_epoch w)
              then corrupt (lit ''worker incarnation contains a null identity'') else success)
           (corrupt (lit ''duplicate worker boot incarnation''))
           (\<lambda>w. success) (cs_workers s))
        (and_then
          (check_each (\<lambda>e.
             if \<not> valid (fst e) then corrupt (lit ''null experiment record key'')
             else validate_record (snd e) l (fst e)) (cs_experiments s))
          (if \<not> watermarks_dominate s
             then corrupt (lit ''identity watermark does not dominate persisted identities'')
           else success)))"

definition experiment_digest :: "coordinator_state \<Rightarrow> experiment_id \<Rightarrow> digest" where
  "experiment_digest s key = digest_of
     (update_length_prefixed (lit ''experiment-state-v1'') @
      (case map_of (cs_experiments s) key of
         None \<Rightarrow> update_length_prefixed (lit ''absent'')
       | Some r \<Rightarrow>
           definition_digest (er_definition r) @ hypothesis_digest (er_hypothesis r) @
           update_u64 (ucast (experiment_state_code (er_state r))) @
           concat (map (\<lambda>e. write_trial (lit ''trial'') (snd e)) (er_trials r)) @
           concat (map (\<lambda>e. update_u64 (id_value (fst e)) @ [attempt_state_code (at_state (snd e))] @
             update_bool (at_committed (snd e))) (er_attempts r)) @
           concat (map (write_observation (lit ''observation'')) (er_observations r)) @
           concat (map (\<lambda>a. update_u64 (id_value (ar_id a)) @ update_bool (ar_current a) @ ar_content_digest a)
             (er_artifacts r)) @
           concat (map (\<lambda>dec. update_u64 (id_value (de_id dec)) @ [decision_outcome_code (de_outcome dec)] @
             de_canonical_state_digest dec) (er_decisions r))))"

section \<open>What acceptance means\<close>

lemma not_ok_errors [simp]:
  "\<not> st_ok (corrupt m)" "\<not> st_ok (invalid m)" "\<not> st_ok (limits_error m)"
  by (simp_all add: corrupt_def invalid_def limits_error_def)

lemma and_then_ok [simp]: "st_ok (and_then s t) \<longleftrightarrow> st_ok s \<and> st_ok t"
  by (simp add: and_then_def)

lemma check_each_ok [simp]: "st_ok (check_each f xs) \<longleftrightarrow> (\<forall>x \<in> set xs. st_ok (f x))"
  by (induction xs) (auto simp: Let_def)

lemma check_distinct_ok:
  assumes "\<not> st_ok dup"
  shows "st_ok (check_distinct seen key pre dup post xs) \<longleftrightarrow>
    distinct (map key xs) \<and> key ` set xs \<inter> seen = {} \<and> (\<forall>x \<in> set xs. st_ok (pre x) \<and> st_ok (post x))"
  using assms by (induction xs arbitrary: seen) auto

lemma metrics_loop_ok:
  "st_ok (metrics_loop l c ids names ms) \<Longrightarrow>
     distinct (map md_id ms) \<and> md_id ` set ms \<inter> ids = {} \<and>
     distinct (map md_name ms) \<and> md_name ` set ms \<inter> names = {} \<and> (\<forall>m \<in> set ms. valid (md_id m))"
proof (induction ms arbitrary: ids names)
  case (Cons m ms)
  then have "st_ok (metrics_loop l c (insert (md_id m) ids) (insert (md_name m) names) ms)"
    and "valid (md_id m)" "md_id m \<notin> ids" "md_name m \<notin> names"
    by (simp_all split: if_splits)
  with Cons.IH [OF this(1)] show ?case by auto
qed simp

lemma rollback_loop_ok:
  "st_ok (rollback_loop c branches decisions ids prev ps) \<Longrightarrow>
     distinct (map rb_id ps) \<and> rb_id ` set ps \<inter> ids = {} \<and>
     sorted_wrt (<) (map rb_sequence ps) \<and> (\<forall>p \<in> set ps. prev < rb_sequence p \<and>
       (rb_decision_present p \<longrightarrow> rb_decision p \<in> decisions) \<and>
       (\<forall>b \<in> set (rb_authority p). ba_branch b \<in> branches))"
proof (induction ps arbitrary: ids prev)
  case (Cons p ps)
  then have "\<forall>b \<in> set (rb_authority p). ba_branch b \<in> branches"
    by (auto simp: check_snapshot_def split: if_splits)
  moreover have "st_ok (rollback_loop c branches decisions (insert (rb_id p) ids) (rb_sequence p) ps)"
    and "rb_id p \<notin> ids" "prev < rb_sequence p" "rb_decision_present p \<longrightarrow> rb_decision p \<in> decisions"
    using Cons.prems by (auto split: if_splits)
  moreover note Cons.IH [OF this(1)]
  ultimately show ?case by (auto dest: less_trans)
qed simp

subsection \<open>Lineage\<close>

definition parent_of :: "branch_definition list \<Rightarrow> (branch_id \<times> branch_id) set" where
  "parent_of bs = {(bd_id b, bd_parent b) | b. b \<in> set bs \<and> valid (bd_parent b)}"

lemma lineage_walk_avoids_seen:
  assumes "distinct (map bd_id bs)" and "\<forall>b \<in> set bs. valid (bd_id b)"
    and "(cursor, x) \<in> (parent_of bs)\<^sup>*" and "valid x"
    and "st_ok (lineage_walk c bs seen depth cursor)"
  shows "x \<notin> seen"
  using assms(3,5)
proof (induction arbitrary: seen depth rule: converse_rtrancl_induct)
  case base
  then show ?case using assms(4) by (simp add: lineage_walk.simps [of c bs seen depth x] split: if_splits)
next
  case (step y z)
  then obtain b where b: "b \<in> set bs" "y = bd_id b" "z = bd_parent b" by (auto simp: parent_of_def)
  then have "find (\<lambda>candidate. bd_id candidate = y) bs = Some b" "valid y"
    using assms(1,2) by (simp_all add: find_unique_key)
  then have "st_ok (lineage_walk c bs (insert y seen) (depth + 1) z)"
    using step.prems b(3) by (simp add: lineage_walk.simps [of c bs seen depth y] split: if_splits)
  then show ?case using step.IH by blast
qed

lemma validated_lineage:
  assumes "st_ok (validate_branch_lineage d c)"
  shows "distinct (map bd_id (ed_branches d))" and "\<forall>b \<in> set (ed_branches d). valid (bd_id b)"
    and "\<forall>b \<in> set (ed_branches d). valid (bd_parent b) \<longrightarrow> bd_parent b \<in> set (map bd_id (ed_branches d))"
    and "cp_require_baseline (ed_policy d) \<longrightarrow> (\<exists>b \<in> set (ed_branches d). bd_role b = BR_BASELINE)"
    and "acyclic (parent_of (ed_branches d))"
proof -
  let ?bs = "ed_branches d"
  show ids: "distinct (map bd_id ?bs)" "\<forall>b \<in> set ?bs. valid (bd_id b)"
    and "\<forall>b \<in> set ?bs. valid (bd_parent b) \<longrightarrow> bd_parent b \<in> set (map bd_id ?bs)"
    and "cp_require_baseline (ed_policy d) \<longrightarrow> (\<exists>b \<in> set ?bs. bd_role b = BR_BASELINE)"
    using assms
    by (auto simp: validate_branch_lineage_def Let_def check_distinct_ok filter_empty_conv split: if_splits)
  have walk: "\<forall>b \<in> set ?bs. st_ok (lineage_walk c ?bs {} 0 (bd_id b))"
    using assms by (auto simp: validate_branch_lineage_def Let_def split: if_splits)
  show "acyclic (parent_of ?bs)"
  proof (rule acyclicI, rule allI, rule notI)
    fix x assume "(x, x) \<in> (parent_of ?bs)\<^sup>+"
    then obtain y where y: "(x, y) \<in> parent_of ?bs" "(y, x) \<in> (parent_of ?bs)\<^sup>*"
      by (metis tranclD)
    then obtain b where b: "b \<in> set ?bs" "x = bd_id b" "y = bd_parent b" by (auto simp: parent_of_def)
    have "st_ok (lineage_walk c ?bs {} 0 x)" using walk b by blast
    moreover have "find (\<lambda>candidate. bd_id candidate = x) ?bs = Some b" "valid x"
      using ids b by (simp_all add: find_unique_key)
    ultimately have "st_ok (lineage_walk c ?bs (insert x {}) 1 y)"
      using b(3) by (simp add: lineage_walk.simps [of c ?bs "{}" 0 x])
    then have "x \<notin> insert x {}" by (rule lineage_walk_avoids_seen [OF ids y(2) \<open>valid x\<close>])
    then show False by simp
  qed
qed

subsection \<open>References\<close>

definition record_wf :: "experiment_record \<Rightarrow> experiment_id \<Rightarrow> bool" where
  "record_wf r key \<longleftrightarrow>
     ed_id (er_definition r) = key \<and>
     (\<forall>(k, t) \<in> set (er_trials r). tr_id t = k \<and> tr_branch t \<in> bd_id ` set (ed_branches (er_definition r)) \<and>
        tr_committed_attempts t \<le> 1 \<and>
        (valid (tr_authoritative_attempt t) \<longrightarrow> tr_authoritative_attempt t \<in> fst ` set (er_attempts r)) \<and>
        set (tr_artifacts t) \<subseteq> ar_id ` set (er_artifacts r)) \<and>
     (\<forall>(k, a) \<in> set (er_attempts r). at_id a = k \<and> at_trial a \<in> fst ` set (er_trials r)) \<and>
     distinct (map ob_id (er_observations r)) \<and>
     (\<forall>ob \<in> set (er_observations r). ob_trial ob \<in> fst ` set (er_trials r) \<and>
        ob_attempt ob \<in> fst ` set (er_attempts r) \<and> ob_metric ob \<in> md_id ` set (ed_metrics (er_definition r))) \<and>
     \<not> repeated_valid_observation (er_observations r) \<and>
     distinct (map ar_id (er_artifacts r)) \<and>
     (\<forall>a \<in> set (er_artifacts r). ar_trial a \<in> fst ` set (er_trials r) \<and> ar_attempt a \<in> fst ` set (er_attempts r)) \<and>
     distinct (map de_id (er_decisions r)) \<and>
     (\<forall>dec \<in> set (er_decisions r). de_candidate dec \<in> bd_id ` set (ed_branches (er_definition r))) \<and>
     distinct (map rb_id (er_rollback_points r)) \<and> sorted_wrt (<) (map rb_sequence (er_rollback_points r))"

lemma map_of_not_None: "map_of m k \<noteq> None \<longleftrightarrow> k \<in> fst ` set m"
  by (simp add: map_of_eq_None_iff)

lemma check_trial_ok:
  "st_ok (check_trial c l d branches (k, t)) \<Longrightarrow>
     tr_id t = k \<and> tr_branch t \<in> branches \<and> tr_committed_attempts t \<le> 1 \<and> tr_hypothesis t = ed_hypothesis d"
  by (auto simp: check_trial_def Let_def not_less split: if_splits)

lemma check_attempt_ok:
  "st_ok (check_attempt c l trials (k, a)) \<Longrightarrow> at_id a = k \<and> at_trial a \<in> fst ` set trials"
  by (auto simp: check_attempt_def Let_def map_of_not_None [symmetric] split: if_splits)

lemma check_observation_ok:
  "st_ok (check_observation c r ob) \<Longrightarrow>
     ob_trial ob \<in> fst ` set (er_trials r) \<and> ob_attempt ob \<in> fst ` set (er_attempts r) \<and>
     ob_metric ob \<in> md_id ` set (ed_metrics (er_definition r))"
  by (auto simp: check_observation_def map_of_not_None [symmetric] split: if_splits)

lemma check_artifact_ok:
  "st_ok (check_artifact c l r a) \<Longrightarrow>
     ar_trial a \<in> fst ` set (er_trials r) \<and> ar_attempt a \<in> fst ` set (er_attempts r)"
  by (auto simp: check_artifact_def map_of_not_None [symmetric] split: if_splits)

lemma validate_trials_ok:
  assumes "st_ok (validate_trials c l r)"
  shows "(k, t) \<in> set (er_trials r) \<Longrightarrow>
      tr_id t = k \<and> tr_branch t \<in> bd_id ` set (ed_branches (er_definition r)) \<and> tr_committed_attempts t \<le> 1"
    and "(k, t) \<in> set (er_trials r) \<Longrightarrow> valid (tr_authoritative_attempt t) \<Longrightarrow>
      tr_authoritative_attempt t \<in> fst ` set (er_attempts r)"
    and "(j, a) \<in> set (er_attempts r) \<Longrightarrow> at_id a = j \<and> at_trial a \<in> fst ` set (er_trials r)"
proof -
  have parts: "\<forall>e \<in> set (er_trials r). st_ok (check_trial c l (er_definition r)
        (set (map bd_id (ed_branches (er_definition r)))) e)"
    "\<forall>e \<in> set (er_attempts r). st_ok (check_attempt c l (er_trials r) e)"
    "\<forall>e \<in> set (er_trials r). valid (tr_authoritative_attempt (snd e)) \<longrightarrow>
        map_of (er_attempts r) (tr_authoritative_attempt (snd e)) \<noteq> None"
    using assms by (simp_all add: validate_trials_def Let_def split: if_splits)
  show "(k, t) \<in> set (er_trials r) \<Longrightarrow>
      tr_id t = k \<and> tr_branch t \<in> bd_id ` set (ed_branches (er_definition r)) \<and> tr_committed_attempts t \<le> 1"
    using parts(1) check_trial_ok by fastforce
  show "(k, t) \<in> set (er_trials r) \<Longrightarrow> valid (tr_authoritative_attempt t) \<Longrightarrow>
      tr_authoritative_attempt t \<in> fst ` set (er_attempts r)"
    using bspec [OF parts(3), of "(k, t)"] unfolding map_of_not_None by simp
  show "(j, a) \<in> set (er_attempts r) \<Longrightarrow> at_id a = j \<and> at_trial a \<in> fst ` set (er_trials r)"
    using parts(2) check_attempt_ok by blast
qed

lemma validate_evidence_ok:
  assumes "st_ok (validate_evidence c l r)"
  shows "distinct (map ob_id (er_observations r))"
    and "\<forall>ob \<in> set (er_observations r). st_ok (check_observation c r ob)"
    and "\<not> repeated_valid_observation (er_observations r)"
    and "distinct (map ar_id (er_artifacts r))"
    and "\<forall>a \<in> set (er_artifacts r). st_ok (check_artifact c l r a)"
    and "\<forall>e \<in> set (er_trials r). set (tr_artifacts (snd e)) \<subseteq> ar_id ` set (er_artifacts r)"
  using assms by (simp_all add: validate_evidence_def check_distinct_ok subset_iff split: if_splits)

lemma validate_decisions_ok:
  assumes "st_ok (validate_decisions c r)"
  shows "distinct (map de_id (er_decisions r))"
    and "\<forall>dec \<in> set (er_decisions r). de_candidate dec \<in> bd_id ` set (ed_branches (er_definition r))"
    and "distinct (map rb_id (er_rollback_points r))"
    and "sorted_wrt (<) (map rb_sequence (er_rollback_points r))"
  using assms
  by (auto simp: validate_decisions_def Let_def check_distinct_ok check_decision_def
      dest: rollback_loop_ok split: if_splits)

lemma validate_record_parts:
  assumes "st_ok (validate_record r l key)"
  obtains c where "st_ok (check_header c r l key)" and "st_ok (validate_branch_lineage (er_definition r) c)"
    and "st_ok (validate_metrics (er_definition r) l c)" and "st_ok (validate_trials c l r)"
    and "st_ok (validate_evidence c l r)" and "st_ok (validate_decisions c r)"
  using assms by (auto simp: validate_record_def Let_def split: if_splits)

lemma validate_record_wf:
  assumes "st_ok (validate_record r l key)"
  shows "record_wf r key"
proof -
  obtain c where parts: "st_ok (check_header c r l key)" "st_ok (validate_trials c l r)"
    "st_ok (validate_evidence c l r)" "st_ok (validate_decisions c r)"
    using assms by (rule validate_record_parts)
  have "ed_id (er_definition r) = key"
    using parts(1) by (auto simp: check_header_def Let_def split: if_splits)
  moreover note trials = validate_trials_ok [OF parts(2)]
    and evidence = validate_evidence_ok [OF parts(3)] and decisions = validate_decisions_ok [OF parts(4)]
  moreover have "\<forall>(k, t) \<in> set (er_trials r). tr_id t = k \<and>
      tr_branch t \<in> bd_id ` set (ed_branches (er_definition r)) \<and> tr_committed_attempts t \<le> 1 \<and>
      (valid (tr_authoritative_attempt t) \<longrightarrow> tr_authoritative_attempt t \<in> fst ` set (er_attempts r)) \<and>
      set (tr_artifacts t) \<subseteq> ar_id ` set (er_artifacts r)"
    using trials(1,2) evidence(6) by (auto dest!: bspec)
  ultimately show ?thesis
    unfolding record_wf_def by (auto dest: check_observation_ok check_artifact_ok)
qed

section \<open>Properties\<close>

text \<open>
  C32: branch lineage is acyclic in every accepted definition. When \<^verbatim>\<open>validate_branch_lineage\<close>
  succeeds, branch identities are unique and not null, every parent exists, the parent relation
  has no cycle, and a required baseline is designated.
\<close>

theorem accepted_lineage_is_acyclic:
  assumes "st_ok (validate_branch_lineage d context)"
  shows "acyclic (parent_of (ed_branches d)) \<and> distinct (map bd_id (ed_branches d)) \<and>
    (\<forall>b \<in> set (ed_branches d). valid (bd_id b) \<and>
       (valid (bd_parent b) \<longrightarrow> bd_parent b \<in> set (map bd_id (ed_branches d)))) \<and>
    (cp_require_baseline (ed_policy d) \<longrightarrow> (\<exists>b \<in> set (ed_branches d). bd_role b = BR_BASELINE))"
  using validated_lineage [OF assms] by blast

lemma sample_lineage_ok:
  "st_ok (validate_branch_lineage (sample_definition\<lparr>ed_branches :=
     [sample_branch 1, sample_branch 2\<lparr>bd_parent := from_value 1\<rparr>]\<rparr>) ''x'')"
  by code_simp

theorem accepted_lineage_is_acyclic_witness:
  "acyclic (parent_of [sample_branch 1, sample_branch 2\<lparr>bd_parent := from_value 1\<rparr>])"
  using accepted_lineage_is_acyclic [OF sample_lineage_ok] by (simp add: sample_definition_def)

text \<open>
  C31: an accepted record is referentially sound. When \<^verbatim>\<open>validate_experiment_record\<close> succeeds, trials,
  attempts, observations, artifacts, decisions and rollback points carry the identities they are
  stored under, each is unique, every reference between them resolves, no trial records more than
  one completion, and rollback points are in sequence order.
\<close>

theorem accepted_record_is_well_formed:
  assumes "st_ok (validate_experiment_record r l key)"
  shows "record_wf r key"
  using assms unfolding validate_experiment_record_def by (rule validate_record_wf)

definition sample_hypothesis :: hypothesis where
  "sample_hypothesis =
     \<lparr>hy_id = from_value 1, hy_revision = from_value 1, hy_statement = ''h'', hy_expected_direction = None,
      hy_expected_metric = null_id, hy_parent = null_id, hy_parent_revision = null_id,
      hy_superseded = False, hy_superseded_by_revision = null_id, hy_provenance = [],
      hy_created_sequence = 1\<rparr>"

definition sample_trial :: "u64 \<Rightarrow> u64 \<Rightarrow> trial_record" where
  "sample_trial n b =
     \<lparr>tr_id = from_value n, tr_experiment = from_value 1, tr_generation = from_value 1,
      tr_branch = from_value b, tr_branch_generation = from_value 1, tr_hypothesis = from_value 1,
      tr_hypothesis_revision = from_value 1, tr_policy = from_value 1, tr_policy_generation = from_value 1,
      tr_state = TS_READY, tr_authoritative_attempt = null_id, tr_next_attempt_number = from_value 1,
      tr_attempt_count = 0, tr_committed_attempts = 0, tr_failure_kind = FK_NONE, tr_failure_detail = [],
      tr_seed = None, tr_input_set = null_id, tr_input_set_present = False, tr_environment = null_id,
      tr_environment_present = False, tr_environment_fingerprint = [], tr_artifacts = [], tr_payload = [],
      tr_created_sequence = 2, tr_updated_sequence = 2\<rparr>"

definition sample_record :: experiment_record where
  "sample_record =
     \<lparr>er_definition = sample_definition, er_hypothesis = sample_hypothesis, er_hypothesis_history = [],
      er_state = ES_OPEN, er_revision_sequence = 1, er_created_sequence = 1,
      er_trials = [(from_value 1, sample_trial 1 1), (from_value 2, sample_trial 2 2)],
      er_attempts = [], er_observations = [], er_artifacts = [], er_decisions = [],
      er_rollback_points = [], er_rejected_evidence = [], er_lifecycle_log = []\<rparr>"

lemmas sample_defs = sample_record_def sample_definition_def sample_branch_def sample_metric_def sample_policy_def
  sample_hypothesis_def sample_trial_def sample_parameter_def make_text_parameter_def limits_defaults_def

lemma sample_record_ok: "st_ok (validate_experiment_record sample_record limits_defaults (from_value 1))"
  by (simp add: sample_defs Let_def validate_experiment_record_def validate_record_def check_header_def kMaxGeneration_def
      validate_branch_lineage_def lineage_walk.simps validate_metrics_def check_metric_def
      has_duplicate_parameter_key_iff check_branch_def validate_trials_def check_trial_def
      validate_evidence_def repeated_valid_observation_def validate_decisions_def)

theorem accepted_record_is_well_formed_witness: "record_wf sample_record (from_value 1)"
  by (rule accepted_record_is_well_formed [OF sample_record_ok])

end
