(* ===== verification/Impl.thy ===== *)
theory Impl
  imports State
begin

text \<open>
  \<^verbatim>\<open>src/coordinator_internal.hpp\<close> and the first part of \<^verbatim>\<open>src/coordinator.cpp\<close>: the state of one
  coordinator process, identity allocation, lookups, the indexes, the lifecycle log, the commit of
  a mutation to disk and the notification of observers. Every operation of the coordinator runs
  under one lock from its first read to its commit, so an operation is a function from the
  coordinator to its result and the next coordinator.
\<close>

section \<open>The coordinator process\<close>

record live_worker =
  lw_worker :: worker_id
  lw_boot :: worker_boot_id
  lw_producer :: producer_id
  lw_endpoint :: string
  lw_fingerprint :: string
  lw_active_assignments :: u32
  lw_total_assignments :: u32
  lw_max_concurrent_assignments :: u32
  lw_revoked :: bool
  lw_revocation_kind :: failure_kind
  lw_registered_sequence :: u64

record config =
  cg_limits :: limits
  cg_state_path :: string
  cg_persist_on_mutation :: bool
  cg_epoch_seed :: u64
  cg_observer :: bool

text \<open>What can go wrong in the file system while a state image is replaced.\<close>

datatype save_fault =
    CREATE_DIRECTORY_FAILS
  | OPEN_FAILS
  | WRITE_FAILS
  | CLOSE_FAILS
  | RENAME_FAILS

datatype notification =
    OnEvent string
  | OnDecision decision

text \<open>
  \<open>im_server\<close> is the running server, known by the port it listens on. \<open>im_disk\<close> is the state whose image the live file holds, \<open>im_faults\<close> what the file system does to
  the following commits, one entry each (no entry: the commit succeeds), and \<open>im_notified\<close> the
  calls made to the configured observer, in order.
\<close>

record impl =
  im_config :: config
  im_limits :: limits
  im_state :: coordinator_state
  im_epoch :: coordinator_epoch
  im_admitting_work :: bool
  im_persistence_degraded :: bool
  im_live_workers :: "(u64 \<times> u64, live_worker) omap"
  im_observation_index :: "(experiment_id, (observation_id, nat) omap) omap"
  im_artifact_index :: "(experiment_id, (artifact_id, nat) omap) omap"
  im_server :: "u16 option"
  im_server_active :: bool
  im_shutdown_flagged :: bool
  im_disk :: "coordinator_state option"
  im_faults :: "save_fault option list"
  im_notified :: "notification list"

section \<open>Identity allocation\<close>

definition next_sequence :: "impl \<Rightarrow> u64 \<times> impl" where
  "next_sequence im =
     (let v = cs_last_sequence (im_state im) + 1
      in (v, im\<lparr>im_state := im_state im\<lparr>cs_last_sequence := v\<rparr>\<rparr>))"

definition current_sequence :: "impl \<Rightarrow> u64" where
  "current_sequence im = cs_last_sequence (im_state im)"

definition alloc_experiment_id :: "impl \<Rightarrow> experiment_id \<times> impl" where
  "alloc_experiment_id im =
     (let v = cs_id_watermark_experiment (im_state im) + 1
      in (from_value v, im\<lparr>im_state := im_state im\<lparr>cs_id_watermark_experiment := v\<rparr>\<rparr>))"

definition alloc_hypothesis_id :: "impl \<Rightarrow> hypothesis_id \<times> impl" where
  "alloc_hypothesis_id im =
     (let v = cs_id_watermark_hypothesis (im_state im) + 1
      in (from_value v, im\<lparr>im_state := im_state im\<lparr>cs_id_watermark_hypothesis := v\<rparr>\<rparr>))"

definition alloc_branch_id :: "impl \<Rightarrow> branch_id \<times> impl" where
  "alloc_branch_id im =
     (let v = cs_id_watermark_branch (im_state im) + 1
      in (from_value v, im\<lparr>im_state := im_state im\<lparr>cs_id_watermark_branch := v\<rparr>\<rparr>))"

definition alloc_metric_id :: "impl \<Rightarrow> metric_id \<times> impl" where
  "alloc_metric_id im =
     (let v = cs_id_watermark_metric (im_state im) + 1
      in (from_value v, im\<lparr>im_state := im_state im\<lparr>cs_id_watermark_metric := v\<rparr>\<rparr>))"

definition alloc_policy_id :: "impl \<Rightarrow> policy_id \<times> impl" where
  "alloc_policy_id im =
     (let v = cs_id_watermark_policy (im_state im) + 1
      in (from_value v, im\<lparr>im_state := im_state im\<lparr>cs_id_watermark_policy := v\<rparr>\<rparr>))"

definition alloc_trial_id :: "impl \<Rightarrow> trial_id \<times> impl" where
  "alloc_trial_id im =
     (let v = cs_id_watermark_trial (im_state im) + 1
      in (from_value v, im\<lparr>im_state := im_state im\<lparr>cs_id_watermark_trial := v\<rparr>\<rparr>))"

definition alloc_attempt_id :: "impl \<Rightarrow> trial_attempt_id \<times> impl" where
  "alloc_attempt_id im =
     (let v = cs_id_watermark_attempt (im_state im) + 1
      in (from_value v, im\<lparr>im_state := im_state im\<lparr>cs_id_watermark_attempt := v\<rparr>\<rparr>))"

definition alloc_observation_id :: "impl \<Rightarrow> observation_id \<times> impl" where
  "alloc_observation_id im =
     (let v = cs_id_watermark_observation (im_state im) + 1
      in (from_value v, im\<lparr>im_state := im_state im\<lparr>cs_id_watermark_observation := v\<rparr>\<rparr>))"

definition alloc_artifact_id :: "impl \<Rightarrow> artifact_id \<times> impl" where
  "alloc_artifact_id im =
     (let v = cs_id_watermark_artifact (im_state im) + 1
      in (from_value v, im\<lparr>im_state := im_state im\<lparr>cs_id_watermark_artifact := v\<rparr>\<rparr>))"

definition alloc_decision_id :: "impl \<Rightarrow> decision_id \<times> impl" where
  "alloc_decision_id im =
     (let v = cs_id_watermark_decision (im_state im) + 1
      in (from_value v, im\<lparr>im_state := im_state im\<lparr>cs_id_watermark_decision := v\<rparr>\<rparr>))"

definition alloc_rollback_id :: "impl \<Rightarrow> rollback_point_id \<times> impl" where
  "alloc_rollback_id im =
     (let v = cs_id_watermark_rollback (im_state im) + 1
      in (from_value v, im\<lparr>im_state := im_state im\<lparr>cs_id_watermark_rollback := v\<rparr>\<rparr>))"

definition alloc_producer_id :: "impl \<Rightarrow> producer_id \<times> impl" where
  "alloc_producer_id im =
     (let v = cs_next_worker_registration_sequence (im_state im) + 1
      in (from_value v, im\<lparr>im_state := im_state im\<lparr>cs_next_worker_registration_sequence := v\<rparr>\<rparr>))"

section \<open>Lookups and writes\<close>

definition find_experiment :: "impl \<Rightarrow> experiment_id \<Rightarrow> experiment_record option" where
  "find_experiment im key = map_of (cs_experiments (im_state im)) key"

text \<open>\<open>put_experiment\<close> is a write through a reference to the record stored under a key.\<close>

definition put_experiment :: "experiment_id \<Rightarrow> experiment_record \<Rightarrow> impl \<Rightarrow> impl" where
  "put_experiment key r im =
     im\<lparr>im_state := im_state im\<lparr>cs_experiments := omap_put key r (cs_experiments (im_state im))\<rparr>\<rparr>"

definition erase_experiment :: "experiment_id \<Rightarrow> impl \<Rightarrow> impl" where
  "erase_experiment key im =
     im\<lparr>im_state := im_state im\<lparr>cs_experiments := omap_erase key (cs_experiments (im_state im))\<rparr>\<rparr>"

definition find_branch :: "experiment_record \<Rightarrow> branch_id \<Rightarrow> branch_definition option" where
  "find_branch r key = find (\<lambda>b. bd_id b = key) (ed_branches (er_definition r))"

definition put_branch :: "branch_id \<Rightarrow> (branch_definition \<Rightarrow> branch_definition) \<Rightarrow> experiment_record \<Rightarrow> experiment_record" where
  "put_branch key f r =
     r\<lparr>er_definition := (er_definition r)\<lparr>ed_branches :=
        update_first (\<lambda>b. bd_id b = key) f (ed_branches (er_definition r))\<rparr>\<rparr>"

definition find_metric :: "experiment_record \<Rightarrow> metric_id \<Rightarrow> metric_definition option" where
  "find_metric r key = find (\<lambda>m. md_id m = key) (ed_metrics (er_definition r))"

definition find_live_worker :: "impl \<Rightarrow> worker_id \<Rightarrow> worker_boot_id \<Rightarrow> live_worker option" where
  "find_live_worker im w b = map_of (im_live_workers im) (id_value w, id_value b)"

text \<open>\<^verbatim>\<open>operator[]\<close> on the index of an experiment creates an empty map when there is none.\<close>

definition observation_index_of :: "impl \<Rightarrow> experiment_id \<Rightarrow> (observation_id, nat) omap" where
  "observation_index_of im key = (case map_of (im_observation_index im) key of None \<Rightarrow> [] | Some m \<Rightarrow> m)"

definition artifact_index_of :: "impl \<Rightarrow> experiment_id \<Rightarrow> (artifact_id, nat) omap" where
  "artifact_index_of im key = (case map_of (im_artifact_index im) key of None \<Rightarrow> [] | Some m \<Rightarrow> m)"

definition index_observation :: "experiment_id \<Rightarrow> observation_id \<Rightarrow> nat \<Rightarrow> impl \<Rightarrow> impl" where
  "index_observation key ob i im =
     im\<lparr>im_observation_index := omap_put key (omap_put ob i (observation_index_of im key)) (im_observation_index im)\<rparr>"

definition unindex_observation :: "experiment_id \<Rightarrow> observation_id \<Rightarrow> impl \<Rightarrow> impl" where
  "unindex_observation key ob im =
     im\<lparr>im_observation_index := omap_put key (omap_erase ob (observation_index_of im key)) (im_observation_index im)\<rparr>"

definition index_artifact :: "experiment_id \<Rightarrow> artifact_id \<Rightarrow> nat \<Rightarrow> impl \<Rightarrow> impl" where
  "index_artifact key a i im =
     im\<lparr>im_artifact_index := omap_put key (omap_put a i (artifact_index_of im key)) (im_artifact_index im)\<rparr>"

definition unindex_artifact :: "experiment_id \<Rightarrow> artifact_id \<Rightarrow> impl \<Rightarrow> impl" where
  "unindex_artifact key a im =
     im\<lparr>im_artifact_index := omap_put key (omap_erase a (artifact_index_of im key)) (im_artifact_index im)\<rparr>"

definition index_of :: "('a \<Rightarrow> 'k::linorder) \<Rightarrow> 'a list \<Rightarrow> ('k, nat) omap" where
  "index_of key xs = foldl (\<lambda>m (i, x). omap_put (key x) i m) [] (enumerate 0 xs)"

definition rebuild_indexes :: "impl \<Rightarrow> impl" where
  "rebuild_indexes im =
     im\<lparr>im_observation_index := omap_map (\<lambda>r. index_of ob_id (er_observations r)) (cs_experiments (im_state im)),
        im_artifact_index := omap_map (\<lambda>r. index_of ar_id (er_artifacts r)) (cs_experiments (im_state im))\<rparr>"

definition log_line :: "string \<Rightarrow> experiment_record \<Rightarrow> experiment_record" where
  "log_line line r =
     (let lines = er_lifecycle_log r; kept = (if length lines \<ge> 65536 then tl lines else lines)
      in r\<lparr>er_lifecycle_log := kept @ [line]\<rparr>)"

section \<open>Commit to disk\<close>

definition io_failure :: "string \<Rightarrow> status" where
  "io_failure reason = make_error EC_PERSISTENCE_FAILURE EG_PERSISTENCE reason"

text \<open>The refusals of \<^verbatim>\<open>persistence::serialize\<close>; past them an image is always produced.\<close>

definition serialize_check :: "coordinator_state \<Rightarrow> limits \<Rightarrow> status" where
  "serialize_check s l =
     (if cs_format_version s \<noteq> kPersistenceFormatVersion
        then io_failure (lit ''refusing to serialize state with a mismatched format version'')
      else if unat (total_record_count s) > unat (lm_max_persisted_records l)
        then make_error EC_RESOURCE_EXHAUSTED EG_LIMITS (lit ''state holds more records than the configured bound'')
      else success)"

definition fault_status :: "save_fault \<Rightarrow> status" where
  "fault_status f = io_failure (case f of
      CREATE_DIRECTORY_FAILS \<Rightarrow> lit ''cannot create the state directory''
    | OPEN_FAILS \<Rightarrow> lit ''cannot open the temporary state image for writing''
    | WRITE_FAILS \<Rightarrow> lit ''failed while writing the temporary state image''
    | CLOSE_FAILS \<Rightarrow> lit ''failed while closing the temporary state image''
    | RENAME_FAILS \<Rightarrow> lit ''atomic replacement of the state image failed'')"

text \<open>
  \<^verbatim>\<open>persistence::save\<close>: the image is written to a temporary file and renamed over the live file, so
  every failure leaves the live file as it was.
\<close>

definition persistence_save :: "impl \<Rightarrow> status \<times> impl" where
  "persistence_save im =
     (let checked = serialize_check (im_state im) (im_limits im)
      in if \<not> st_ok checked then (checked, im)
         else case im_faults im of
             Some f # rest \<Rightarrow> (fault_status f, im\<lparr>im_faults := rest\<rparr>)
           | None # rest \<Rightarrow> (success, im\<lparr>im_faults := rest, im_disk := Some (im_state im)\<rparr>)
           | [] \<Rightarrow> (success, im\<lparr>im_disk := Some (im_state im)\<rparr>))"

definition persist_locked_if :: "bool \<Rightarrow> impl \<Rightarrow> status \<times> impl" where
  "persist_locked_if required im =
     (if cg_state_path (im_config im) = [] then (success, im)
      else if \<not> required \<and> \<not> cg_persist_on_mutation (im_config im) then (success, im)
      else let image = serialize_check (im_state im) (im_limits im)
        in if \<not> st_ok image then (image, im\<lparr>im_persistence_degraded := True\<rparr>)
           else case persistence_save im of (written, im') \<Rightarrow>
             if \<not> st_ok written then (written, im'\<lparr>im_persistence_degraded := True\<rparr>)
             else (success, im'\<lparr>im_persistence_degraded := False\<rparr>))"

definition persist_locked :: "impl \<Rightarrow> status \<times> impl" where
  "persist_locked im = persist_locked_if True im"

definition notify_event :: "string \<Rightarrow> impl \<Rightarrow> impl" where
  "notify_event e im =
     (if cg_observer (im_config im) then im\<lparr>im_notified := im_notified im @ [OnEvent e]\<rparr> else im)"

definition notify_decision :: "decision \<Rightarrow> impl \<Rightarrow> impl" where
  "notify_decision d im =
     (if cg_observer (im_config im) then im\<lparr>im_notified := im_notified im @ [OnDecision d]\<rparr> else im)"

definition request_shutdown :: "impl \<Rightarrow> impl" where
  "request_shutdown im = im\<lparr>im_admitting_work := False, im_shutdown_flagged := True\<rparr>"

section \<open>Errors\<close>

definition invalid_argument :: "string \<Rightarrow> status" where
  "invalid_argument reason = make_error EC_INVALID_ARGUMENT EG_VALIDATION reason"

definition definition_error :: "string \<Rightarrow> status" where
  "definition_error reason = make_error EC_INVALID_ARGUMENT EG_DEFINITION reason"

definition not_found :: "string \<Rightarrow> status" where
  "not_found reason = make_error EC_NOT_FOUND EG_LIFECYCLE reason"

definition lifecycle_error :: "error_code \<Rightarrow> string \<Rightarrow> status" where
  "lifecycle_error c reason = make_error c EG_LIFECYCLE reason"

definition shutting_down :: status where
  "shutting_down = make_error EC_SHUTTING_DOWN EG_SHUTDOWN (lit ''coordinator is shutting down'')"

section \<open>The end of a mutation\<close>

text \<open>
  Most operations end alike: commit the mutated state to disk; when that fails run the operation's
  own undo and return the failure, otherwise notify and return the result.
\<close>

definition commit_result ::
    "(impl \<Rightarrow> impl) \<Rightarrow> (impl \<Rightarrow> impl) \<Rightarrow> 'a \<Rightarrow> impl \<Rightarrow> 'a result \<times> impl" where
  "commit_result undo note v im =
     (case persist_locked im of (persisted, im') \<Rightarrow>
        if \<not> st_ok persisted then (Inl persisted, undo im') else (Inr v, note im'))"

definition commit_status :: "(impl \<Rightarrow> impl) \<Rightarrow> (impl \<Rightarrow> impl) \<Rightarrow> impl \<Rightarrow> status \<times> impl" where
  "commit_status undo note im =
     (case persist_locked im of (persisted, im') \<Rightarrow>
        if \<not> st_ok persisted then (persisted, undo im') else (success, note im'))"

section \<open>Frame lemmas\<close>

text \<open>
  Committing and notifying touch only the disk and the bookkeeping around it. \<open>same_core\<close> is
  agreement on everything an operation reads.
\<close>

definition same_core :: "impl \<Rightarrow> impl \<Rightarrow> bool" where
  "same_core im im' \<longleftrightarrow>
     im_config im' = im_config im \<and> im_limits im' = im_limits im \<and> im_state im' = im_state im \<and>
     im_epoch im' = im_epoch im \<and> im_admitting_work im' = im_admitting_work im \<and>
     im_live_workers im' = im_live_workers im \<and> im_observation_index im' = im_observation_index im \<and>
     im_artifact_index im' = im_artifact_index im"

lemma same_core_refl [simp]: "same_core im im"
  by (simp add: same_core_def)

lemma same_core_trans: "same_core a b \<Longrightarrow> same_core b c \<Longrightarrow> same_core a c"
  by (simp add: same_core_def)

lemma persistence_save_core: "same_core im (snd (persistence_save im))"
  by (simp add: persistence_save_def same_core_def Let_def split: list.split option.split)

lemma persist_locked_core: "same_core im (snd (persist_locked im))"
  using persistence_save_core [of im]
  by (simp add: persist_locked_def persist_locked_if_def same_core_def Let_def case_prod_beta)

lemma notify_core: "same_core im (notify_event e im)" "same_core im (notify_decision d im)"
  by (simp_all add: notify_event_def notify_decision_def same_core_def)

lemma persist_locked_frame [simp, frame_simps]:
  "im_config (snd (persist_locked im)) = im_config im"
  "im_limits (snd (persist_locked im)) = im_limits im"
  "im_state (snd (persist_locked im)) = im_state im"
  "im_epoch (snd (persist_locked im)) = im_epoch im"
  "im_admitting_work (snd (persist_locked im)) = im_admitting_work im"
  "im_live_workers (snd (persist_locked im)) = im_live_workers im"
  "im_observation_index (snd (persist_locked im)) = im_observation_index im"
  "im_artifact_index (snd (persist_locked im)) = im_artifact_index im"
  using persist_locked_core [of im] by (simp_all add: same_core_def)

lemma notify_frame [simp, frame_simps]:
  "im_config (notify_event e im) = im_config im" "im_config (notify_decision d im) = im_config im"
  "im_limits (notify_event e im) = im_limits im" "im_limits (notify_decision d im) = im_limits im"
  "im_state (notify_event e im) = im_state im" "im_state (notify_decision d im) = im_state im"
  "im_epoch (notify_event e im) = im_epoch im" "im_epoch (notify_decision d im) = im_epoch im"
  "im_admitting_work (notify_event e im) = im_admitting_work im"
  "im_admitting_work (notify_decision d im) = im_admitting_work im"
  "im_live_workers (notify_event e im) = im_live_workers im"
  "im_live_workers (notify_decision d im) = im_live_workers im"
  "im_disk (notify_event e im) = im_disk im" "im_disk (notify_decision d im) = im_disk im"
  by (simp_all add: notify_event_def notify_decision_def)

text \<open>A commit leaves on disk either what was there or the state being committed.\<close>

lemma persist_locked_disk:
  "im_disk (snd (persist_locked im)) = im_disk im \<or>
   im_disk (snd (persist_locked im)) = Some (im_state im)"
  by (auto simp: persist_locked_def persist_locked_if_def persistence_save_def Let_def
      split: prod.splits list.splits option.splits if_splits)

lemma persist_locked_durable:
  assumes "st_ok (fst (persist_locked im))" and "cg_state_path (im_config im) \<noteq> []"
  shows "im_disk (snd (persist_locked im)) = Some (im_state im)"
  using assms
  by (auto simp: persist_locked_def persist_locked_if_def persistence_save_def Let_def fault_status_def
      io_failure_def split: prod.splits list.splits option.splits if_splits)

lemma persist_locked_failure:
  assumes "\<not> st_ok (fst (persist_locked im))"
  shows "im_disk (snd (persist_locked im)) = im_disk im \<and> im_persistence_degraded (snd (persist_locked im))"
  using assms
  by (auto simp: persist_locked_def persist_locked_if_def persistence_save_def Let_def fault_status_def
      io_failure_def split: prod.splits list.splits option.splits if_splits)

lemma next_sequence_simps [simp]:
  "fst (next_sequence im) = cs_last_sequence (im_state im) + 1"
  "snd (next_sequence im) = im\<lparr>im_state := im_state im\<lparr>cs_last_sequence := cs_last_sequence (im_state im) + 1\<rparr>\<rparr>"
  by (simp_all add: next_sequence_def Let_def)

lemma find_put_experiment [simp]:
  "find_experiment (put_experiment k r im) k' = (if k' = k then Some r else find_experiment im k')"
  by (simp add: find_experiment_def put_experiment_def)

lemma find_erase_experiment [simp]:
  "find_experiment (erase_experiment k im) k' = (if k' = k then None else find_experiment im k')"
  by (simp add: find_experiment_def erase_experiment_def)

lemma find_experiment_cong: "cs_experiments (im_state im') = cs_experiments (im_state im) \<Longrightarrow>
    find_experiment im' k = find_experiment im k"
  by (simp add: find_experiment_def)

lemma log_line_frame [simp, frame_simps]:
  "er_definition (log_line s r) = er_definition r" "er_hypothesis (log_line s r) = er_hypothesis r"
  "er_hypothesis_history (log_line s r) = er_hypothesis_history r" "er_state (log_line s r) = er_state r"
  "er_trials (log_line s r) = er_trials r" "er_attempts (log_line s r) = er_attempts r"
  "er_observations (log_line s r) = er_observations r" "er_artifacts (log_line s r) = er_artifacts r"
  "er_decisions (log_line s r) = er_decisions r" "er_rollback_points (log_line s r) = er_rollback_points r"
  "er_rejected_evidence (log_line s r) = er_rejected_evidence r"
  by (simp_all add: log_line_def Let_def)

lemma log_line_bounded: "length (er_lifecycle_log r) \<le> 65536 \<Longrightarrow> length (er_lifecycle_log (log_line s r)) \<le> 65536"
  by (auto simp: log_line_def Let_def)

lemma put_branch_frame [simp, frame_simps]:
  "er_hypothesis (put_branch k f r) = er_hypothesis r"
  "er_hypothesis_history (put_branch k f r) = er_hypothesis_history r" "er_state (put_branch k f r) = er_state r"
  "er_trials (put_branch k f r) = er_trials r" "er_attempts (put_branch k f r) = er_attempts r"
  "er_observations (put_branch k f r) = er_observations r" "er_artifacts (put_branch k f r) = er_artifacts r"
  "er_decisions (put_branch k f r) = er_decisions r" "er_rollback_points (put_branch k f r) = er_rollback_points r"
  "ed_id (er_definition (put_branch k f r)) = ed_id (er_definition r)"
  "ed_generation (er_definition (put_branch k f r)) = ed_generation (er_definition r)"
  by (simp_all add: put_branch_def)

end
