(* ===== verification/Evidence.thy ===== *)
theory Evidence
  imports Impl
begin

text \<open>
  \<^verbatim>\<open>authoritative_trials\<close> and \<^verbatim>\<open>compute_evidence\<close> of \<^verbatim>\<open>src/coordinator.cpp\<close>: which trials count as current
  evidence of a branch, and the per-metric aggregates over their observations. \<open>DecisionSafety\<close> shows what
  they depend on.
\<close>

section \<open>Authoritative trials\<close>

definition is_authoritative :: "experiment_record \<Rightarrow> branch_definition \<Rightarrow> branch_id \<Rightarrow> trial_record \<Rightarrow> bool" where
  "is_authoritative r b branch t \<longleftrightarrow>
     \<not> (tr_branch t \<noteq> branch \<or> tr_state t \<noteq> TS_COMPLETED \<or> tr_committed_attempts t \<noteq> 1) \<and>
     tr_generation t = ed_generation (er_definition r) \<and>
     tr_branch_generation t = bd_generation b \<and>
     tr_hypothesis_revision t = ed_hypothesis_revision (er_definition r) \<and>
     \<not> (tr_policy t \<noteq> cp_id (ed_policy (er_definition r)) \<or>
        tr_policy_generation t \<noteq> cp_generation (ed_policy (er_definition r)))"

definition authoritative_trials :: "experiment_record \<Rightarrow> branch_id \<Rightarrow> trial_record list" where
  "authoritative_trials r branch =
     (case find_branch r branch of
        None \<Rightarrow> []
      | Some b \<Rightarrow>
          sort_by (\<lambda>lhs rhs. tr_id lhs < tr_id rhs)
            (filter (is_authoritative r b branch) (omap_values (er_trials r))))"

section \<open>Observation summaries\<close>

text \<open>
  The entry of the \<^verbatim>\<open>index\<close> map for a trial and a metric is built from the observations that name
  them and come from the authoritative attempt of the trial; there is no entry when there is none.
\<close>

record observation_summary =
  os_valid :: "observation option"
  os_invalid :: u32
  os_missing :: u32
  os_unsupported :: u32

definition counts_for :: "experiment_record \<Rightarrow> trial_id \<Rightarrow> metric_id \<Rightarrow> observation \<Rightarrow> bool" where
  "counts_for r tid mid ob \<longleftrightarrow>
     (case map_of (er_trials r) (ob_trial ob) of
        None \<Rightarrow> False
      | Some t \<Rightarrow> ob_attempt ob = tr_authoritative_attempt t) \<and>
     id_value (ob_trial ob) = id_value tid \<and> id_value (ob_metric ob) = id_value mid"

definition index_entry :: "experiment_record \<Rightarrow> trial_id \<Rightarrow> metric_id \<Rightarrow> observation_summary option" where
  "index_entry r tid mid =
     (let obs = filter (counts_for r tid mid) (er_observations r)
      in if obs = [] then None
         else Some \<lparr>os_valid = find (\<lambda>ob. ob_validity ob = OV_VALID) obs,
                    os_invalid = count32 (\<lambda>ob. ob_validity ob = OV_INVALID) obs,
                    os_missing = count32 (\<lambda>ob. ob_validity ob = OV_MISSING) obs,
                    os_unsupported = count32 (\<lambda>ob. ob_validity ob = OV_UNSUPPORTED) obs\<rparr>)"

section \<open>Aggregation\<close>

record tally =
  ta_valid :: u32
  ta_invalid :: u32
  ta_missing :: u32
  ta_unsupported :: u32
  ta_values :: "double list"
  ta_order :: "string list"
  ta_categories :: "(string, u32) omap"

definition tally_value :: "metric_value \<Rightarrow> tally \<Rightarrow> tally" where
  "tally_value v a =
     (case mv_kind v of
        MK_REAL \<Rightarrow> a\<lparr>ta_values := ta_values a @ [mv_real v]\<rparr>
      | MK_INTEGER \<Rightarrow> a\<lparr>ta_values := ta_values a @ [d_of_int (sint (mv_integer v))]\<rparr>
      | MK_BOOLEAN \<Rightarrow> a\<lparr>ta_values := ta_values a @ [if mv_boolean v then d_one else d_zero]\<rparr>
      | MK_CATEGORICAL \<Rightarrow>
          a\<lparr>ta_categories := omap_put (mv_category v)
              ((case map_of (ta_categories a) (mv_category v) of None \<Rightarrow> 0 | Some n \<Rightarrow> n) + 1) (ta_categories a)\<rparr>)"

definition tally_trial :: "experiment_record \<Rightarrow> metric_definition \<Rightarrow> trial_record \<Rightarrow> tally \<Rightarrow> tally" where
  "tally_trial r m t a =
     (let a1 = a\<lparr>ta_order := ta_order a @ [id_to_string (tr_id t)]\<rparr>
      in case index_entry r (tr_id t) (md_id m) of
           None \<Rightarrow> a1\<lparr>ta_missing := ta_missing a1 + 1\<rparr>
         | Some entry \<Rightarrow>
             (let a2 = a1\<lparr>ta_invalid := ta_invalid a1 + os_invalid entry,
                          ta_missing := ta_missing a1 + os_missing entry,
                          ta_unsupported := ta_unsupported a1 + os_unsupported entry\<rparr>
              in case os_valid entry of
                   None \<Rightarrow> a2\<lparr>ta_missing := ta_missing a2 + 1\<rparr>
                 | Some ob \<Rightarrow> tally_value (ob_value ob) (a2\<lparr>ta_valid := ta_valid a2 + 1\<rparr>)))"

definition tally_start :: tally where
  "tally_start = \<lparr>ta_valid = 0, ta_invalid = 0, ta_missing = 0, ta_unsupported = 0, ta_values = [],
     ta_order = [], ta_categories = []\<rparr>"

definition tally_trials :: "experiment_record \<Rightarrow> metric_definition \<Rightarrow> trial_record list \<Rightarrow> tally" where
  "tally_trials r m ts = fold (tally_trial r m) ts tally_start"

text \<open>The most frequent category, the smallest of those in case of a tie.\<close>

definition best_category :: "(string, u32) omap \<Rightarrow> string \<times> u32" where
  "best_category cs =
     foldl (\<lambda>(best, best_count) (c, n).
        if n > best_count \<or> (n = best_count \<and> c < best) then (c, n) else (best, best_count)) ([], 0) cs"

definition sum_values :: "double list \<Rightarrow> double" where
  "sum_values vs = foldl d_add d_zero vs"

definition median_value :: "double list \<Rightarrow> double" where
  "median_value vs =
     (let sorted = sort_by d_lt vs; middle = length sorted div 2
      in if length sorted mod 2 = 0 then d_div (d_add (sorted ! (middle - 1)) (sorted ! middle)) d_two
         else sorted ! middle)"

definition min_element :: "double list \<Rightarrow> double" where
  "min_element vs = foldl (\<lambda>best v. if d_lt v best then v else best) (hd vs) (tl vs)"

definition max_element :: "double list \<Rightarrow> double" where
  "max_element vs = foldl (\<lambda>best v. if d_lt best v then v else best) (hd vs) (tl vs)"

definition aggregate_value :: "aggregation_rule \<Rightarrow> double list \<Rightarrow> double" where
  "aggregate_value rule vs =
     (case rule of
        AR_MEAN \<Rightarrow> d_div (sum_values vs) (d_of_nat (length vs))
      | AR_MEDIAN \<Rightarrow> median_value vs
      | AR_MIN \<Rightarrow> min_element vs
      | AR_MAX \<Rightarrow> max_element vs
      | AR_SUM \<Rightarrow> sum_values vs
      | AR_NONE \<Rightarrow> hd vs
      | AR_MAJORITY \<Rightarrow> hd vs)"

definition aggregate_metric :: "experiment_record \<Rightarrow> trial_record list \<Rightarrow> metric_definition \<Rightarrow> metric_aggregate" where
  "aggregate_metric r ts m =
     (let a = tally_trials r m ts;
          base = \<lparr>ma_metric = md_id m, ma_rule = md_aggregation m, ma_present = False, ma_value = d_zero,
            ma_category = [], ma_valid_count = ta_valid a, ma_invalid_count = ta_invalid a,
            ma_missing_count = ta_missing a, ma_unsupported_count = ta_unsupported a,
            ma_raw_values = ta_values a, ma_trial_order = ta_order a\<rparr>
      in if md_kind m = MK_CATEGORICAL \<or> md_aggregation m = AR_MAJORITY then
           (case best_category (ta_categories a) of (best, best_count) \<Rightarrow>
              if best_count > 0 then base\<lparr>ma_present := True, ma_category := best\<rparr> else base)
         else if ta_values a \<noteq> [] then
           base\<lparr>ma_present := True, ma_value := aggregate_value (md_aggregation m) (ta_values a)\<rparr>
         else base)"

section \<open>Branch evidence\<close>

definition in_state :: "branch_id \<Rightarrow> (trial_state \<Rightarrow> bool) \<Rightarrow> trial_record \<Rightarrow> bool" where
  "in_state branch P t \<longleftrightarrow> tr_branch t = branch \<and> P (tr_state t)"

definition branch_summary :: "experiment_record \<Rightarrow> metric_definition list \<Rightarrow> branch_definition \<Rightarrow> branch_evidence" where
  "branch_summary r metrics b =
     (let ts = omap_values (er_trials r);
          counted = authoritative_trials r (bd_id b);
          count = (\<lambda>P. count32 (in_state (bd_id b) P) ts)
      in \<lparr>be_branch = bd_id b, be_generation = bd_generation b, be_role = bd_role b, be_state = bd_state b,
          be_planned_trials = bd_planned_trials b,
          be_completed_trials = of_nat (length counted),
          be_failed_trials = count (\<lambda>s. s = TS_FAILED),
          be_cancelled_trials = count (\<lambda>s. s = TS_CANCELLED),
          be_invalid_trials = count (\<lambda>s. s = TS_INVALID),
          be_superseded_trials = count (\<lambda>s. s = TS_SUPERSEDED),
          be_open_trials = count (\<lambda>s. s \<notin> {TS_COMPLETED, TS_FAILED, TS_CANCELLED, TS_INVALID, TS_SUPERSEDED}),
          be_aggregates = map (aggregate_metric r counted) metrics\<rparr>)"

definition compute_evidence :: "experiment_record \<Rightarrow> branch_evidence list" where
  "compute_evidence r =
     (let d = er_definition r;
          branches = sort_by (\<lambda>lhs rhs. bd_id lhs < bd_id rhs) (ed_branches d);
          metrics = sort_by (\<lambda>lhs rhs. md_id lhs < md_id rhs) (ed_metrics d)
      in map (branch_summary r metrics) branches)"

end
