(* ===== verification/Coordinator.thy ===== *)
theory Coordinator
  imports Impl
begin

text \<open>
  \<^verbatim>\<open>include/experiment_fabric/coordinator.hpp\<close> and \<^verbatim>\<open>src/coordinator.cpp\<close>: the specification objects, the
  creation of a coordinator with the reconciliation of recovered state, and the operations that
  define experiments, hypothesis revisions, branches and trials.
\<close>

section \<open>Specification objects\<close>

record metric_spec =
  xm_name :: string
  xm_unit :: string
  xm_kind :: metric_kind
  xm_direction :: metric_direction
  xm_aggregation :: aggregation_rule
  xm_required :: bool
  xm_accepts_non_finite :: bool
  xm_lower_bound :: "double option"
  xm_upper_bound :: "double option"
  xm_target_low :: "double option"
  xm_target_high :: "double option"
  xm_weight :: u32
  xm_priority :: u32
  xm_categories :: "string list"

record branch_spec =
  xb_name :: string
  xb_role :: branch_role
  xb_fork_from :: "string option"
  xb_parameters :: "parameter_assignment list"
  xb_input_set :: "string option"
  xb_environment :: "string option"
  xb_environment_fingerprint :: string
  xb_seed :: "u64 option"
  xb_planned_trials :: u32

record comparison_rule_spec =
  xr_metric :: string
  xr_op :: comparison_op
  xr_threshold :: double
  xr_target_low :: double
  xr_target_high :: double
  xr_priority :: u32

record experiment_spec =
  xs_name :: string
  xs_hypothesis_statement :: string
  xs_expected_direction :: "metric_direction option"
  xs_expected_metric :: "string option"
  xs_provenance :: string
  xs_branches :: "branch_spec list"
  xs_metrics :: "metric_spec list"
  xs_require_baseline :: bool
  xs_min_completed_trials_per_branch :: u32
  xs_min_valid_observations_per_required_metric :: u32
  xs_reject_on_any_invalid_observation :: bool
  xs_require_environment_match :: bool
  xs_majority_wins_min_basis_points :: u32
  xs_use_weighted_score :: bool
  xs_accept_score_threshold :: double
  xs_rules :: "comparison_rule_spec list"
  xs_seed_policy :: seed_policy
  xs_experiment_seed :: "u64 option"
  xs_retry_policy :: retry_policy
  xs_max_attempts_per_trial :: u32
  xs_partial_failure_policy :: partial_failure_policy
  xs_late_evidence_policy :: late_evidence_policy
  xs_parameters :: "parameter_assignment list"

record hypothesis_revision_spec =
  xh_statement :: string
  xh_expected_direction :: "metric_direction option"
  xh_expected_metric :: metric_id
  xh_provenance :: string

section \<open>Validation of a specification\<close>

definition spec_text_check :: "experiment_spec \<Rightarrow> limits \<Rightarrow> status" where
  "spec_text_check spec l =
     (if xs_name spec = [] \<or> length (xs_name spec) > unat (lm_max_name_length l)
        then definition_error (lit ''experiment name is empty or too long'')
      else if length (xs_provenance spec) > unat (lm_max_provenance_length l)
        then definition_error (lit ''experiment provenance text is too long'')
      else if xs_hypothesis_statement spec = [] \<or>
          length (xs_hypothesis_statement spec) > unat (lm_max_statement_length l)
        then definition_error (lit ''hypothesis statement is empty or too long'')
      else if xs_metrics spec = [] then definition_error (lit ''experiment must declare at least one metric'')
      else if length (xs_metrics spec) > unat (lm_max_metrics_per_experiment l)
        then limits_error (lit ''experiment declares more metrics than the configured bound'')
      else if xs_branches spec = [] then definition_error (lit ''experiment must declare at least one branch'')
      else if length (xs_branches spec) > unat (lm_max_branches_per_experiment l)
        then limits_error (lit ''experiment declares more branches than the configured bound'')
      else success)"

definition metric_spec_pre :: "limits \<Rightarrow> metric_spec \<Rightarrow> status" where
  "metric_spec_pre l m =
     (if xm_name m = [] \<or> length (xm_name m) > unat (lm_max_name_length l)
        then definition_error (lit ''metric name is empty or too long'')
      else if length (xm_unit m) > unat (lm_max_unit_length l)
        then definition_error (lit ''metric unit is too long'')
      else success)"

definition metric_spec_post :: "metric_spec \<Rightarrow> status" where
  "metric_spec_post m =
     (if xm_kind m = MK_CATEGORICAL \<and> xm_aggregation m \<noteq> AR_MAJORITY \<and> xm_aggregation m \<noteq> AR_NONE
        then definition_error (lit ''categorical metric requires MAJORITY or NONE aggregation'')
      else if (xm_kind m = MK_REAL \<or> xm_kind m = MK_INTEGER) \<and> xm_aggregation m = AR_MAJORITY
        then definition_error (lit ''numeric metric cannot use MAJORITY aggregation'')
      else if (case (xm_lower_bound m, xm_upper_bound m) of (Some lo, Some hi) \<Rightarrow> d_gt lo hi | _ \<Rightarrow> False)
        then definition_error (lit ''metric validity bounds are inverted'')
      else if (case (xm_target_low m, xm_target_high m) of (Some lo, Some hi) \<Rightarrow> d_gt lo hi | _ \<Rightarrow> False)
        then definition_error (lit ''metric target range is inverted'')
      else success)"

text \<open>
  The loop over the branch specifications; \<open>earlier\<close> holds the names of the branches before the
  current one, which are both the set \<^verbatim>\<open>branch_names\<close> and what the inner loop searches.
\<close>

fun branch_specs_check :: "limits \<Rightarrow> string list \<Rightarrow> branch_spec list \<Rightarrow> status" where
  "branch_specs_check l earlier [] = success"
| "branch_specs_check l earlier (b # bs) =
     (if xb_name b = [] \<or> length (xb_name b) > unat (lm_max_name_length l)
        then definition_error (lit ''branch name is empty or too long'')
      else if xb_name b \<in> set earlier then definition_error (lit ''duplicate branch name'')
      else if (case xb_fork_from b of None \<Rightarrow> False | Some p \<Rightarrow> p \<notin> set earlier)
        then definition_error (lit ''branch fork parent must be declared earlier in the specification'')
      else if xb_planned_trials b = 0 \<or> xb_planned_trials b > lm_max_trials_per_branch l
        then limits_error (lit ''branch planned trial count is out of range'')
      else if has_duplicate_parameter_key (xb_parameters b)
        then definition_error (lit ''duplicate branch parameter key'')
      else branch_specs_check l (earlier @ [xb_name b]) bs)"

definition rule_spec_check :: "string set \<Rightarrow> comparison_rule_spec \<Rightarrow> status" where
  "rule_spec_check names r =
     (if xr_metric r \<notin> names then definition_error (lit ''comparison rule references an unknown metric name'')
      else if xr_op r = CO_TARGET_RANGE \<and> d_gt (xr_target_low r) (xr_target_high r)
        then definition_error (lit ''comparison target range is inverted'')
      else if xr_op r = CO_MAJORITY_WINS \<and> (d_lt (xr_threshold r) d_zero \<or> d_gt (xr_threshold r) d_one)
        then definition_error (lit ''majority-wins threshold must be a fraction in [0,1]'')
      else success)"

definition validate_spec :: "experiment_spec \<Rightarrow> limits \<Rightarrow> status" where
  "validate_spec spec l =
     and_then (spec_text_check spec l)
     (and_then
       (check_distinct {} xm_name (metric_spec_pre l) (definition_error (lit ''duplicate metric name''))
          metric_spec_post (xs_metrics spec))
     (and_then (branch_specs_check l [] (xs_branches spec))
     (if xs_require_baseline spec \<and> count32 (\<lambda>b. xb_role b = BR_BASELINE) (xs_branches spec) = 0
        then definition_error (lit ''policy requires a baseline branch but none is designated'')
      else if length (xs_rules spec) > unat (lm_max_comparison_rules l)
        then limits_error (lit ''too many comparison rules'')
      else and_then (check_each (rule_spec_check (set (map xm_name (xs_metrics spec)))) (xs_rules spec))
      (if has_duplicate_parameter_key (xs_parameters spec)
         then definition_error (lit ''duplicate experiment parameter key'')
       else if xs_majority_wins_min_basis_points spec > 10000
         then definition_error (lit ''majority-wins basis points out of range'')
       else if xs_max_attempts_per_trial spec = 0 \<or>
           xs_max_attempts_per_trial spec > lm_max_attempts_per_trial l
         then limits_error (lit ''max attempts per trial is out of range'')
       else if xs_require_baseline spec \<and> length (xs_branches spec) < 2
         then definition_error (lit ''baseline comparison requires a baseline and at least one candidate branch'')
       else success))))"

section \<open>Creating an experiment\<close>

fun build_metrics :: "metric_spec list \<Rightarrow> impl \<Rightarrow> metric_definition list \<times> impl" where
  "build_metrics [] im = ([], im)"
| "build_metrics (m # ms) im =
     (case alloc_metric_id im of (mid, im1) \<Rightarrow>
      case build_metrics ms im1 of (rest, im2) \<Rightarrow>
        (\<lparr>md_id = mid, md_name = xm_name m, md_unit = xm_unit m, md_kind = xm_kind m,
          md_direction = xm_direction m, md_aggregation = xm_aggregation m, md_required = xm_required m,
          md_accepts_non_finite = xm_accepts_non_finite m, md_lower_bound = xm_lower_bound m,
          md_upper_bound = xm_upper_bound m, md_target_low = xm_target_low m,
          md_target_high = xm_target_high m, md_weight = xm_weight m, md_priority = xm_priority m,
          md_categories = xm_categories m\<rparr> # rest, im2))"

text \<open>
  \<open>metric_ids\<close> is the map from names to identities. \<^verbatim>\<open>metric_ids.at\<close> is applied to names that
  \<^verbatim>\<open>validate_spec\<close> has found in it; the null identity stands for the exception otherwise.
\<close>

definition metric_ids :: "metric_definition list \<Rightarrow> (string \<times> metric_id) list" where
  "metric_ids ms = map (\<lambda>m. (md_name m, md_id m)) ms"

definition build_rule :: "(string \<times> metric_id) list \<Rightarrow> comparison_rule_spec \<Rightarrow> comparison_rule" where
  "build_rule ids r =
     \<lparr>cr_metric = (case map_of ids (xr_metric r) of Some m \<Rightarrow> m | None \<Rightarrow> null_id), cr_op = xr_op r,
      cr_threshold = xr_threshold r, cr_target_low = xr_target_low r, cr_target_high = xr_target_high r,
      cr_priority = xr_priority r\<rparr>"

text \<open>Overlaying parameters: each assignment replaces the one with its key.\<close>

definition merge_parameters :: "parameter_assignment list \<Rightarrow> parameter_assignment list \<Rightarrow> parameter_assignment list" where
  "merge_parameters base overrides =
     normalize_parameters
       (foldl (\<lambda>acc a. filter (\<lambda>c. pa_key c \<noteq> pa_key a) acc @ [a]) (normalize_parameters base) overrides)"

definition root_branch :: "branch_id \<Rightarrow> u64 \<Rightarrow> branch_spec \<Rightarrow> branch_definition" where
  "root_branch bid sequence b =
     \<lparr>bd_id = bid, bd_name = xb_name b, bd_role = xb_role b, bd_parent = null_id,
      bd_generation = from_value 1, bd_state = BS_ACTIVE,
      bd_parameters = normalize_parameters (xb_parameters b),
      bd_input_set = (case xb_input_set b of None \<Rightarrow> null_id | Some s \<Rightarrow> from_value (fnv1a64 s)),
      bd_input_set_present = (xb_input_set b \<noteq> None),
      bd_environment = (case xb_environment b of None \<Rightarrow> null_id | Some s \<Rightarrow> from_value (fnv1a64 s)),
      bd_environment_present = (xb_environment b \<noteq> None),
      bd_environment_fingerprint = xb_environment_fingerprint b, bd_seed = xb_seed b,
      bd_planned_trials = xb_planned_trials b, bd_created_sequence = sequence, bd_forked = False\<rparr>"

definition inherit_from :: "branch_id \<Rightarrow> branch_spec \<Rightarrow> branch_definition \<Rightarrow> branch_definition" where
  "inherit_from parent p b =
     b\<lparr>bd_parent := parent, bd_forked := True,
       bd_parameters := merge_parameters (xb_parameters p) (bd_parameters b),
       bd_input_set := (if \<not> bd_input_set_present b \<and> xb_input_set p \<noteq> None
          then from_value (fnv1a64 (the (xb_input_set p))) else bd_input_set b),
       bd_input_set_present := (bd_input_set_present b \<or> xb_input_set p \<noteq> None),
       bd_environment := (if \<not> bd_environment_present b \<and> xb_environment p \<noteq> None
          then from_value (fnv1a64 (the (xb_environment p))) else bd_environment b),
       bd_environment_present := (bd_environment_present b \<or> xb_environment p \<noteq> None),
       bd_environment_fingerprint := (if bd_environment_fingerprint b = []
          then xb_environment_fingerprint p else bd_environment_fingerprint b)\<rparr>"

text \<open>The branch loop; \<open>earlier\<close> is \<^verbatim>\<open>branch_ids\<close> and \<^verbatim>\<open>branch_specs\<close> together.\<close>

fun build_branches ::
    "u64 \<Rightarrow> (string \<times> branch_id \<times> branch_spec) list \<Rightarrow> branch_spec list \<Rightarrow> impl \<Rightarrow>
     branch_definition list result \<times> impl" where
  "build_branches sequence earlier [] im = (Inr [], im)"
| "build_branches sequence earlier (b # bs) im =
     (case alloc_branch_id im of (bid, im1) \<Rightarrow>
      let built =
        (case xb_fork_from b of
           None \<Rightarrow> Some (root_branch bid sequence b)
         | Some name \<Rightarrow> map_option (\<lambda>(parent, p). inherit_from parent p (root_branch bid sequence b))
             (map_of earlier name))
      in case built of
           None \<Rightarrow> (Inl (definition_error
             (lit ''branch fork parent must be declared earlier in the specification'')), im1)
         | Some branch \<Rightarrow>
             (case build_branches sequence (earlier @ [(bd_name branch, bd_id branch, b)]) bs im1 of
                (Inl e, im2) \<Rightarrow> (Inl e, im2)
              | (Inr rest, im2) \<Rightarrow> (Inr (branch # rest), im2)))"

definition build_policy :: "experiment_spec \<Rightarrow> policy_id \<Rightarrow> (string \<times> metric_id) list \<Rightarrow> comparison_policy" where
  "build_policy spec pid ids =
     \<lparr>cp_id = pid, cp_generation = from_value 1, cp_require_baseline = xs_require_baseline spec,
      cp_min_completed_trials_per_branch = xs_min_completed_trials_per_branch spec,
      cp_min_valid_observations_per_required_metric = xs_min_valid_observations_per_required_metric spec,
      cp_reject_on_any_invalid_observation = xs_reject_on_any_invalid_observation spec,
      cp_require_environment_match = xs_require_environment_match spec,
      cp_majority_wins_min_basis_points = xs_majority_wins_min_basis_points spec,
      cp_use_weighted_score = xs_use_weighted_score spec,
      cp_accept_score_threshold = xs_accept_score_threshold spec,
      cp_rules = map (build_rule ids) (xs_rules spec)\<rparr>"

definition build_hypothesis :: "experiment_spec \<Rightarrow> hypothesis_id \<Rightarrow> metric_id \<Rightarrow> u64 \<Rightarrow> hypothesis" where
  "build_hypothesis spec hid expected sequence =
     \<lparr>hy_id = hid, hy_revision = from_value 1, hy_statement = xs_hypothesis_statement spec,
      hy_expected_direction = xs_expected_direction spec, hy_expected_metric = expected,
      hy_parent = null_id, hy_parent_revision = null_id, hy_superseded = False,
      hy_superseded_by_revision = null_id, hy_provenance = xs_provenance spec,
      hy_created_sequence = sequence\<rparr>"

definition build_record ::
    "experiment_spec \<Rightarrow> experiment_id \<Rightarrow> u64 \<Rightarrow> hypothesis \<Rightarrow> metric_definition list \<Rightarrow> comparison_policy \<Rightarrow>
     branch_definition list \<Rightarrow> experiment_record" where
  "build_record spec eid sequence h metrics policy branches =
     \<lparr>er_definition =
        \<lparr>ed_id = eid, ed_generation = from_value 1, ed_hypothesis = hy_id h,
         ed_hypothesis_revision = from_value 1, ed_name = xs_name spec, ed_branches = branches,
         ed_metrics = metrics, ed_policy = policy, ed_seed_policy = xs_seed_policy spec,
         ed_experiment_seed = xs_experiment_seed spec, ed_retry_policy = xs_retry_policy spec,
         ed_max_attempts_per_trial = xs_max_attempts_per_trial spec,
         ed_partial_failure_policy = xs_partial_failure_policy spec,
         ed_late_evidence_policy = xs_late_evidence_policy spec,
         ed_parameters = normalize_parameters (xs_parameters spec),
         ed_provenance = xs_provenance spec, ed_created_sequence = sequence\<rparr>,
      er_hypothesis = h, er_hypothesis_history = [], er_state = ES_OPEN,
      er_revision_sequence = sequence, er_created_sequence = sequence, er_trials = [],
      er_attempts = [], er_observations = [], er_artifacts = [], er_decisions = [],
      er_rollback_points = [], er_rejected_evidence = [], er_lifecycle_log = []\<rparr>"

text \<open>The last part of \<^verbatim>\<open>create_experiment\<close>: store, validate, commit, or take the record out again.\<close>

definition store_experiment :: "experiment_id \<Rightarrow> experiment_record \<Rightarrow> impl \<Rightarrow> experiment_id result \<times> impl" where
  "store_experiment eid r im =
     (let r' = log_line (lit ''experiment-created generation='' @
                 id_to_string (ed_generation (er_definition r))) r;
          im1 = im\<lparr>im_state := (im_state im)\<lparr>cs_experiments := omap_emplace eid r' (cs_experiments (im_state im))\<rparr>\<rparr>;
          validated = (case find_experiment im1 eid of
              None \<Rightarrow> make_error EC_INTERNAL EG_IDENTITY (lit ''the new experiment record was not stored'')
            | Some stored \<Rightarrow> validate_experiment_record stored (im_limits im1) eid)
      in if \<not> st_ok validated then (Inl validated, erase_experiment eid im1)
         else commit_result (erase_experiment eid)
           (notify_event (lit ''experiment-created:'' @ id_to_string eid)) eid im1)"

definition create_experiment :: "experiment_spec \<Rightarrow> impl \<Rightarrow> experiment_id result \<times> impl" where
  "create_experiment spec im =
     (let checked = validate_spec spec (im_limits im)
      in if \<not> st_ok checked then (Inl checked, im)
         else if \<not> im_admitting_work im then (Inl shutting_down, im)
         else if length (cs_experiments (im_state im)) \<ge> unat (lm_max_experiments (im_limits im))
           then (Inl (limits_error (lit ''too many experiments'')), im)
         else case alloc_experiment_id im of (eid, im1) \<Rightarrow>
           if find_experiment im1 eid \<noteq> None
             then (Inl (make_error EC_ALREADY_EXISTS EG_IDENTITY (lit ''experiment identity collision'')), im1)
           else case next_sequence im1 of (sequence, im2) \<Rightarrow>
             case alloc_hypothesis_id im2 of (hid, im3) \<Rightarrow>
             case build_metrics (xs_metrics spec) im3 of (metrics, im4) \<Rightarrow>
             let ids = metric_ids metrics;
                 expected = (case xs_expected_metric spec of None \<Rightarrow> Some null_id | Some name \<Rightarrow> map_of ids name)
             in case expected of
                  None \<Rightarrow> (Inl (definition_error
                    (lit ''hypothesis references an unknown expected metric name'')), im4)
                | Some expected_metric \<Rightarrow>
                    case alloc_policy_id im4 of (pid, im5) \<Rightarrow>
                    case build_branches sequence [] (xs_branches spec) im5 of
                      (Inl e, im6) \<Rightarrow> (Inl e, im6)
                    | (Inr branches, im6) \<Rightarrow>
                        store_experiment eid
                          (build_record spec eid sequence (build_hypothesis spec hid expected_metric sequence)
                             metrics (build_policy spec pid ids) branches) im6)"

section \<open>Closing live work\<close>

text \<open>
  The loops that close every live trial or attempt satisfying a condition. Terminal ones are
  skipped, as in every such loop of the source.
\<close>

definition close_trials ::
    "(trial_record \<Rightarrow> bool) \<Rightarrow> trial_state \<Rightarrow> failure_kind \<Rightarrow> string \<Rightarrow> u64 \<Rightarrow>
     (trial_id, trial_record) omap \<Rightarrow> (trial_id, trial_record) omap" where
  "close_trials P st kind detail sequence =
     omap_map (\<lambda>t. if \<not> P t \<or> is_terminal (tr_state t) then t
       else t\<lparr>tr_state := st, tr_failure_kind := kind, tr_failure_detail := detail,
              tr_updated_sequence := sequence\<rparr>)"

definition close_attempts ::
    "(attempt_record \<Rightarrow> bool) \<Rightarrow> attempt_state \<Rightarrow> failure_kind \<Rightarrow> string \<Rightarrow> u64 \<Rightarrow>
     (trial_attempt_id, attempt_record) omap \<Rightarrow> (trial_attempt_id, attempt_record) omap" where
  "close_attempts P st kind detail sequence =
     omap_map (\<lambda>a. if \<not> P a \<or> is_attempt_terminal (at_state a) then a
       else a\<lparr>at_state := st, at_failure_kind := kind, at_failure_detail := detail,
              at_updated_sequence := sequence\<rparr>)"

definition abandon_stale_live_work :: "u64 \<Rightarrow> experiment_record \<Rightarrow> experiment_record" where
  "abandon_stale_live_work sequence r =
     r\<lparr>er_attempts := close_attempts (\<lambda>a. True) AS_ABANDONED FK_EXPERIMENT_INVALIDATION
          (lit ''superseded by an experiment generation change'') sequence (er_attempts r),
       er_trials := close_trials (\<lambda>t. True) TS_SUPERSEDED FK_EXPERIMENT_INVALIDATION
          (lit ''superseded by an experiment generation change'') sequence (er_trials r)\<rparr>"

section \<open>Hypothesis revision\<close>

definition supersede_hypothesis :: "hypothesis_revision_spec \<Rightarrow> u64 \<Rightarrow> experiment_record \<Rightarrow> experiment_record" where
  "supersede_hypothesis spec sequence r =
     (let h = er_hypothesis r; d = er_definition r;
          revision = from_value (id_value (hy_revision h) + 1);
          superseded = h\<lparr>hy_superseded := True, hy_superseded_by_revision := revision\<rparr>
      in r\<lparr>er_hypothesis_history := er_hypothesis_history r @ [superseded],
           er_hypothesis := h\<lparr>hy_revision := revision, hy_statement := xh_statement spec,
             hy_expected_direction := xh_expected_direction spec, hy_expected_metric := xh_expected_metric spec,
             hy_provenance := xh_provenance spec, hy_created_sequence := sequence,
             hy_superseded := False, hy_superseded_by_revision := null_id\<rparr>,
           er_definition := d\<lparr>ed_hypothesis_revision := revision,
             ed_generation := from_value (id_value (ed_generation d) + 1)\<rparr>,
           er_revision_sequence := sequence\<rparr>)"

definition revise_record :: "hypothesis_revision_spec \<Rightarrow> u64 \<Rightarrow> experiment_record \<Rightarrow> experiment_record" where
  "revise_record spec sequence r =
     (let r1 = abandon_stale_live_work sequence (supersede_hypothesis spec sequence r)
      in log_line (lit ''hypothesis-revised revision='' @ id_to_string (hy_revision (er_hypothesis r1)) @
           lit '' generation='' @ id_to_string (ed_generation (er_definition r1))) r1)"

definition revise_hypothesis ::
    "experiment_id \<Rightarrow> hypothesis_revision_spec \<Rightarrow> impl \<Rightarrow> hypothesis_revision result \<times> impl" where
  "revise_hypothesis experiment spec im =
     (case find_experiment im experiment of
        None \<Rightarrow> (Inl (not_found (lit ''experiment does not exist'')), im)
      | Some r \<Rightarrow>
          if \<not> is_experiment_mutable (er_state r)
            then (Inl (lifecycle_error EC_INVALID_TRANSITION
              (lit ''experiment does not accept new hypothesis revisions'')), im)
          else if xh_statement spec = [] \<or> length (xh_statement spec) > unat (lm_max_statement_length (im_limits im))
            then (Inl (definition_error (lit ''hypothesis statement is empty or too long'')), im)
          else if valid (xh_expected_metric spec) \<and> find_metric r (xh_expected_metric spec) = None
            then (Inl (definition_error (lit ''hypothesis references an unknown metric'')), im)
          else case next_sequence im of (sequence, im1) \<Rightarrow>
            let r' = revise_record spec sequence r
            in commit_result (\<lambda>i. i) (notify_event (lit ''hypothesis-revised:'' @ id_to_string experiment))
                 (hy_revision (er_hypothesis r')) (put_experiment experiment r' im1))"

section \<open>Branches\<close>

definition forked_branch :: "branch_id \<Rightarrow> u64 \<Rightarrow> branch_definition \<Rightarrow> branch_spec \<Rightarrow> branch_definition" where
  "forked_branch bid sequence parent spec =
     \<lparr>bd_id = bid, bd_name = xb_name spec, bd_role = xb_role spec, bd_parent = bd_id parent,
      bd_generation = from_value 1, bd_state = BS_ACTIVE,
      bd_parameters = merge_parameters (bd_parameters parent) (normalize_parameters (xb_parameters spec)),
      bd_input_set = bd_input_set parent, bd_input_set_present = bd_input_set_present parent,
      bd_environment = bd_environment parent, bd_environment_present = bd_environment_present parent,
      bd_environment_fingerprint = bd_environment_fingerprint parent,
      bd_seed = (case xb_seed spec of Some s \<Rightarrow> Some s | None \<Rightarrow> bd_seed parent),
      bd_planned_trials = xb_planned_trials spec, bd_created_sequence = sequence, bd_forked = True\<rparr>"

definition add_branch :: "branch_definition \<Rightarrow> experiment_record \<Rightarrow> experiment_record" where
  "add_branch b r =
     r\<lparr>er_definition := (er_definition r)\<lparr>ed_branches := ed_branches (er_definition r) @ [b]\<rparr>\<rparr>"

definition pop_branch :: "experiment_record \<Rightarrow> experiment_record" where
  "pop_branch r =
     r\<lparr>er_definition := (er_definition r)\<lparr>ed_branches := butlast (ed_branches (er_definition r))\<rparr>\<rparr>"

definition fork_check :: "experiment_record \<Rightarrow> branch_id \<Rightarrow> branch_spec \<Rightarrow> limits \<Rightarrow> branch_definition result" where
  "fork_check r parent spec l =
     (if \<not> is_experiment_mutable (er_state r)
        then Inl (lifecycle_error EC_INVALID_TRANSITION (lit ''experiment does not accept new branches''))
      else case find_branch r parent of
          None \<Rightarrow> Inl (not_found (lit ''parent branch does not exist''))
        | Some p \<Rightarrow>
            if bd_state p = BS_INVALID \<or> bd_state p = BS_SUPERSEDED
              then Inl (lifecycle_error EC_STALE_BRANCH (lit ''parent branch is not eligible for forking''))
            else if length (ed_branches (er_definition r)) \<ge> unat (lm_max_branches_per_experiment l)
              then Inl (limits_error (lit ''too many branches''))
            else if xb_name spec = [] \<or> length (xb_name spec) > unat (lm_max_name_length l)
              then Inl (definition_error (lit ''branch name is empty or too long''))
            else if list_ex (\<lambda>b. bd_name b = xb_name spec) (ed_branches (er_definition r))
              then Inl (make_error EC_ALREADY_EXISTS EG_DEFINITION (lit ''branch name already exists''))
            else if xb_planned_trials spec = 0 \<or> xb_planned_trials spec > lm_max_trials_per_branch l
              then Inl (limits_error (lit ''branch planned trial count is out of range''))
            else if has_duplicate_parameter_key (xb_parameters spec)
              then Inl (definition_error (lit ''duplicate branch parameter key''))
            else if list_ex (\<lambda>b. bd_role b = BR_BASELINE \<and> xb_role spec = BR_BASELINE) (ed_branches (er_definition r))
              then Inl (definition_error
                (lit ''an experiment generation may designate only one baseline branch''))
            else Inr p)"

definition fork_branch :: "experiment_id \<Rightarrow> branch_id \<Rightarrow> branch_spec \<Rightarrow> impl \<Rightarrow> branch_id result \<times> impl" where
  "fork_branch experiment parent spec im =
     (case find_experiment im experiment of
        None \<Rightarrow> (Inl (not_found (lit ''experiment does not exist'')), im)
      | Some r \<Rightarrow>
          (case fork_check r parent spec (im_limits im) of
             Inl e \<Rightarrow> (Inl e, im)
           | Inr p \<Rightarrow>
               case next_sequence im of (sequence, im1) \<Rightarrow>
               case alloc_branch_id im1 of (bid, im2) \<Rightarrow>
               let branch = (forked_branch bid sequence p spec)\<lparr>bd_parent := parent\<rparr>;
                   r1 = log_line (lit ''branch-forked branch='' @ id_to_string bid @ lit '' parent='' @
                     id_to_string parent) ((add_branch branch r)\<lparr>er_revision_sequence := sequence\<rparr>);
                   im3 = put_experiment experiment r1 im2;
                   undo = put_experiment experiment (pop_branch r1);
                   validated = validate_experiment_record r1 (im_limits im) experiment
               in if \<not> st_ok validated then (Inl validated, undo im3)
                  else commit_result undo (notify_event (lit ''branch-forked:'' @ id_to_string bid)) bid im3))"

definition retire_record :: "branch_id \<Rightarrow> string \<Rightarrow> u64 \<Rightarrow> experiment_record \<Rightarrow> experiment_record" where
  "retire_record branch reason sequence r =
     (let r1 = put_branch branch (\<lambda>b. b\<lparr>bd_state := BS_RETIRED,
            bd_generation := from_value (id_value (bd_generation b) + 1)\<rparr>) r;
          detail = lit ''branch retired: '' @ reason
      in log_line (lit ''branch-retired branch='' @ id_to_string branch @ lit '' reason='' @ reason)
           (r1\<lparr>er_trials := close_trials (\<lambda>t. tr_branch t = branch) TS_SUPERSEDED FK_EXPERIMENT_INVALIDATION
                 detail sequence (er_trials r1),
               er_attempts := close_attempts (\<lambda>a. at_branch a = branch) AS_ABANDONED FK_EXPERIMENT_INVALIDATION
                 detail sequence (er_attempts r1),
               er_revision_sequence := sequence\<rparr>))"

definition retire_branch :: "experiment_id \<Rightarrow> branch_id \<Rightarrow> string \<Rightarrow> impl \<Rightarrow> branch_id result \<times> impl" where
  "retire_branch experiment branch reason im =
     (case find_experiment im experiment of
        None \<Rightarrow> (Inl (not_found (lit ''experiment does not exist'')), im)
      | Some r \<Rightarrow>
          (case find_branch r branch of
             None \<Rightarrow> (Inl (not_found (lit ''branch does not exist'')), im)
           | Some b \<Rightarrow>
               if \<not> branch_transition (bd_state b) BS_RETIRED
                 then (Inl (invalid_transition_status (lit ''branch'') (branch_state_to_string (bd_state b))
                   (lit ''RETIRED'')), im)
               else case next_sequence im of (sequence, im1) \<Rightarrow>
                 commit_result (\<lambda>i. i) (notify_event (lit ''branch-retired:'' @ id_to_string branch)) branch
                   (put_experiment experiment (retire_record branch reason sequence r) im1)))"

section \<open>Trials\<close>

definition trial_seed :: "experiment_definition \<Rightarrow> trial_id \<Rightarrow> u64 option" where
  "trial_seed d tid =
     (case ed_seed_policy d of
        SP_FIXED \<Rightarrow> ed_experiment_seed d
      | SP_DERIVED_PER_TRIAL \<Rightarrow>
          Some (derive_trial_seed (case ed_experiment_seed d of None \<Rightarrow> 0 | Some s \<Rightarrow> s) (id_value tid))
      | SP_PRODUCER_SUPPLIED \<Rightarrow> None
      | SP_NONE \<Rightarrow> None)"

definition new_trial ::
    "experiment_id \<Rightarrow> experiment_record \<Rightarrow> branch_definition \<Rightarrow> string \<Rightarrow> trial_id \<Rightarrow> u64 \<Rightarrow> trial_record" where
  "new_trial experiment r b payload tid sequence =
     (let d = er_definition r
      in \<lparr>tr_id = tid, tr_experiment = experiment, tr_generation = ed_generation d, tr_branch = bd_id b,
          tr_branch_generation = bd_generation b, tr_hypothesis = ed_hypothesis d,
          tr_hypothesis_revision = ed_hypothesis_revision d, tr_policy = cp_id (ed_policy d),
          tr_policy_generation = cp_generation (ed_policy d), tr_state = TS_READY,
          tr_authoritative_attempt = null_id, tr_next_attempt_number = from_value 1,
          tr_attempt_count = 0, tr_committed_attempts = 0, tr_failure_kind = FK_NONE,
          tr_failure_detail = [], tr_seed = trial_seed d tid, tr_input_set = bd_input_set b,
          tr_input_set_present = bd_input_set_present b, tr_environment = bd_environment b,
          tr_environment_present = bd_environment_present b,
          tr_environment_fingerprint = bd_environment_fingerprint b, tr_artifacts = [],
          tr_payload = payload, tr_created_sequence = sequence, tr_updated_sequence = sequence\<rparr>)"

definition create_trial_check ::
    "experiment_record \<Rightarrow> branch_id \<Rightarrow> string \<Rightarrow> limits \<Rightarrow> branch_definition result" where
  "create_trial_check r branch payload l =
     (if \<not> is_experiment_mutable (er_state r)
        then Inl (lifecycle_error EC_INVALID_TRANSITION (lit ''experiment does not accept new trials''))
      else case find_branch r branch of
          None \<Rightarrow> Inl (not_found (lit ''branch does not exist''))
        | Some b \<Rightarrow>
            if \<not> is_branch_eligible (bd_state b)
              then Inl (lifecycle_error EC_STALE_BRANCH (lit ''branch is not eligible for new trials''))
            else if length payload > unat (lm_max_payload_text_length l)
              then Inl (limits_error (lit ''trial payload exceeds the configured bound''))
            else if count32 (\<lambda>t. tr_branch t = branch \<and> tr_generation t = ed_generation (er_definition r))
                (omap_values (er_trials r)) \<ge> bd_planned_trials b
              then Inl (limits_error (lit ''branch already holds its planned number of trials''))
            else if length (er_trials r) \<ge> length (ed_branches (er_definition r)) * unat (lm_max_trials_per_branch l)
              then Inl (limits_error (lit ''experiment holds too many trials''))
            else Inr b)"

definition erase_trial :: "trial_id \<Rightarrow> experiment_record \<Rightarrow> experiment_record" where
  "erase_trial tid r = r\<lparr>er_trials := omap_erase tid (er_trials r)\<rparr>"

definition create_trial :: "experiment_id \<Rightarrow> branch_id \<Rightarrow> string \<Rightarrow> impl \<Rightarrow> trial_id result \<times> impl" where
  "create_trial experiment branch payload im =
     (case find_experiment im experiment of
        None \<Rightarrow> (Inl (not_found (lit ''experiment does not exist'')), im)
      | Some r \<Rightarrow>
          (case create_trial_check r branch payload (im_limits im) of
             Inl e \<Rightarrow> (Inl e, im)
           | Inr b \<Rightarrow>
               case next_sequence im of (sequence, im1) \<Rightarrow>
               case alloc_trial_id im1 of (tid, im2) \<Rightarrow>
               let trial = (new_trial experiment r b payload tid sequence)\<lparr>tr_branch := branch\<rparr>;
                   r1 = log_line (lit ''trial-created trial='' @ id_to_string tid @ lit '' branch='' @
                     id_to_string branch) (r\<lparr>er_trials := omap_emplace tid trial (er_trials r)\<rparr>);
                   im3 = put_experiment experiment r1 im2;
                   undo = put_experiment experiment (erase_trial tid r1);
                   validated = validate_experiment_record r1 (im_limits im) experiment
               in if \<not> st_ok validated then (Inl validated, undo im3)
                  else commit_result undo (notify_event (lit ''trial-created:'' @ id_to_string tid)) tid im3))"

end
