(* ===== verification/Recovery.thy ===== *)
theory Recovery
  imports Coordinator
begin

text \<open>
  The start of a coordinator process in \<^verbatim>\<open>src/coordinator.cpp\<close>: loading the durable state, minting a
  fresh epoch and reconciling recovered state. The recovered trials and attempts first go to the
  durable intermediate state REVALIDATION_REQUIRED and are then resolved, so that nothing live is
  inherited from the process that is gone.
\<close>

section \<open>First phase: everything live requires revalidation\<close>

text \<open>A loop that stamps every matching element with a sequence number of its own.\<close>

fun map_stamp :: "('v \<Rightarrow> bool) \<Rightarrow> (u64 \<Rightarrow> 'v \<Rightarrow> 'v) \<Rightarrow> ('k, 'v) omap \<Rightarrow> u64 \<Rightarrow> ('k, 'v) omap \<times> u64" where
  "map_stamp P f [] sequence = ([], sequence)"
| "map_stamp P f ((k, v) # m) sequence =
     (if P v then (case map_stamp P f m (sequence + 1) of (m', s') \<Rightarrow> ((k, f (sequence + 1) v) # m', s'))
      else (case map_stamp P f m sequence of (m', s') \<Rightarrow> ((k, v) # m', s')))"

definition revalidate_attempt :: "u64 \<Rightarrow> attempt_record \<Rightarrow> attempt_record" where
  "revalidate_attempt sequence a =
     a\<lparr>at_state := AS_REVALIDATION_REQUIRED, at_failure_kind := FK_PRODUCER_LOSS,
       at_failure_detail := lit ''coordinator restart: live process authority was not inherited'',
       at_updated_sequence := sequence\<rparr>"

definition revalidate_trial :: "u64 \<Rightarrow> trial_record \<Rightarrow> trial_record" where
  "revalidate_trial sequence t = t\<lparr>tr_state := TS_REVALIDATION_REQUIRED, tr_updated_sequence := sequence\<rparr>"

definition live_attempt :: "attempt_record \<Rightarrow> bool" where
  "live_attempt a \<longleftrightarrow> \<not> is_attempt_terminal (at_state a)"

definition live_trial :: "trial_record \<Rightarrow> bool" where
  "live_trial t \<longleftrightarrow> \<not> is_terminal (tr_state t)"

definition stage_log :: "trial_record \<Rightarrow> string" where
  "stage_log t =
     lit ''recovery:trial '' @ id_to_string (tr_id t) @ lit '' moved from '' @
     trial_state_to_string (tr_state t) @ lit '' to REVALIDATION_REQUIRED''"

definition stage_record :: "experiment_record \<Rightarrow> u64 \<Rightarrow> experiment_record \<times> u64" where
  "stage_record r sequence =
     (let r0 = (if er_state r = ES_RECOVERING then r\<lparr>er_state := ES_OPEN\<rparr> else r)
      in case map_stamp live_attempt revalidate_attempt (er_attempts r0) sequence of (attempts, s1) \<Rightarrow>
         case map_stamp live_trial revalidate_trial (er_trials r0) s1 of (trials, s2) \<Rightarrow>
           (fold (\<lambda>t. log_line (stage_log t)) (filter live_trial (omap_values (er_trials r0)))
              (r0\<lparr>er_attempts := attempts, er_trials := trials\<rparr>), s2))"

definition stage_touched :: "experiment_record \<Rightarrow> bool" where
  "stage_touched r \<longleftrightarrow>
     list_ex live_attempt (omap_values (er_attempts r)) \<or> list_ex live_trial (omap_values (er_trials r))"

fun stage_loop :: "experiment_id list \<Rightarrow> bool \<Rightarrow> impl \<Rightarrow> status \<times> bool \<times> impl" where
  "stage_loop [] changed im = (success, changed, im)"
| "stage_loop (key # keys) changed im =
     (case find_experiment im key of
        None \<Rightarrow> stage_loop keys changed im
      | Some r \<Rightarrow>
          (case stage_record r (cs_last_sequence (im_state im)) of (r', s') \<Rightarrow>
           let im1 = put_experiment key r' (im\<lparr>im_state := (im_state im)\<lparr>cs_last_sequence := s'\<rparr>\<rparr>);
               touched = stage_touched r;
               changed' = (changed \<or> er_state r = ES_RECOVERING \<or> touched)
           in if touched
              then (case persist_locked im1 of (staged, im2) \<Rightarrow>
                      if \<not> st_ok staged then (staged, changed', im2) else stage_loop keys changed' im2)
              else stage_loop keys changed' im1))"

section \<open>Second phase: resolution\<close>

definition resolves_to_ready :: "experiment_record \<Rightarrow> trial_record \<Rightarrow> bool" where
  "resolves_to_ready r t \<longleftrightarrow>
     tr_attempt_count t < ed_max_attempts_per_trial (er_definition r) \<and>
     (case find_branch r (tr_branch t) of
        None \<Rightarrow> False
      | Some b \<Rightarrow> is_branch_eligible (bd_state b) \<and> bd_generation b = tr_branch_generation t) \<and>
     is_experiment_mutable (er_state r) \<and> tr_generation t = ed_generation (er_definition r)"

definition resolve_trial_record :: "bool \<Rightarrow> trial_record \<Rightarrow> trial_record" where
  "resolve_trial_record ready t =
     (if ready then
        t\<lparr>tr_state := TS_READY, tr_authoritative_attempt := null_id,
          tr_next_attempt_number := from_value (ucast (tr_attempt_count t + 1)),
          tr_failure_kind := FK_PRODUCER_LOSS,
          tr_failure_detail := lit ''recovered: fresh attempt required before the trial can complete''\<rparr>
      else
        t\<lparr>tr_state := TS_FAILED, tr_failure_kind := FK_PRODUCER_LOSS,
          tr_failure_detail := lit ''recovered: no authoritative completion and no retry budget remains''\<rparr>)"

definition abandon_recovered :: "u64 \<Rightarrow> attempt_record \<Rightarrow> attempt_record" where
  "abandon_recovered sequence a =
     a\<lparr>at_state := AS_ABANDONED, at_failure_kind := FK_PRODUCER_LOSS,
       at_failure_detail := lit ''recovered: the previous process incarnation holds no authority'',
       at_updated_sequence := sequence\<rparr>"

definition resolve_trial :: "trial_id \<Rightarrow> experiment_record \<times> u64 \<Rightarrow> experiment_record \<times> u64" where
  "resolve_trial tid = (\<lambda>(r, sequence).
     (case map_of (er_trials r) tid of
        None \<Rightarrow> (r, sequence)
      | Some t \<Rightarrow>
          if tr_state t \<noteq> TS_REVALIDATION_REQUIRED then (r, sequence)
          else
            let ready = resolves_to_ready r t;
                line = lit ''recovery:trial '' @ id_to_string (tr_id t) @
                  pick ready (lit '' resolved to READY'') (lit '' resolved to FAILED'')
            in case map_stamp (\<lambda>a. at_trial a = tr_id t \<and> live_attempt a) abandon_recovered (er_attempts r) sequence of
                 (attempts, s1) \<Rightarrow>
                   ((log_line line r)\<lparr>er_attempts := attempts,
                      er_trials := omap_put tid ((resolve_trial_record ready t)\<lparr>tr_updated_sequence := s1 + 1\<rparr>)
                        (er_trials r)\<rparr>, s1 + 1)))"

definition resolve_record :: "experiment_record \<Rightarrow> u64 \<Rightarrow> experiment_record \<times> u64" where
  "resolve_record r sequence = fold resolve_trial (map fst (er_trials r)) (r, sequence)"

definition resolve_experiment :: "experiment_id \<Rightarrow> impl \<Rightarrow> impl" where
  "resolve_experiment key im =
     (case find_experiment im key of
        None \<Rightarrow> im
      | Some r \<Rightarrow>
          (case resolve_record r (cs_last_sequence (im_state im)) of (r', s') \<Rightarrow>
             put_experiment key r' (im\<lparr>im_state := (im_state im)\<lparr>cs_last_sequence := s'\<rparr>\<rparr>)))"

definition experiment_keys :: "impl \<Rightarrow> experiment_id list" where
  "experiment_keys im = map fst (cs_experiments (im_state im))"

definition reconcile_recovered_state :: "impl \<Rightarrow> status \<times> impl" where
  "reconcile_recovered_state im =
     (case stage_loop (experiment_keys im) False im of (staged, changed, im1) \<Rightarrow>
        if \<not> st_ok staged then (staged, im1)
        else if changed then persist_locked (fold resolve_experiment (experiment_keys im1) im1)
        else (success, im1))"

section \<open>Process start\<close>

text \<open>
  \<open>found\<close> is what the state path holds: no file, or a file that loads to a state or fails with a
  status. The directory scan for leftover temporary images can fail too.
\<close>

datatype found_image =
    ScanFails status
  | NoImage
  | Image "coordinator_state result"

definition new_impl :: "config \<Rightarrow> save_fault option list \<Rightarrow> impl" where
  "new_impl cfg faults =
     \<lparr>im_config = cfg, im_limits = cg_limits cfg,
      im_state = coordinator_state_init\<lparr>cs_format_version := kPersistenceFormatVersion\<rparr>,
      im_epoch = null_id, im_admitting_work = True, im_persistence_degraded = False,
      im_live_workers = [], im_observation_index = [], im_artifact_index = [],
      im_server = None, im_server_active = False, im_shutdown_flagged = False,
      im_disk = None, im_faults = faults, im_notified = []\<rparr>"

definition load_state :: "config \<Rightarrow> found_image \<Rightarrow> coordinator_state \<Rightarrow> coordinator_state result" where
  "load_state cfg found fresh =
     (if cg_state_path cfg = [] then Inr fresh
      else case found of ScanFails e \<Rightarrow> Inl e | NoImage \<Rightarrow> Inr fresh | Image loaded \<Rightarrow> loaded)"

definition mint_epoch :: "u64 \<Rightarrow> u64 \<Rightarrow> u64" where
  "mint_epoch last_epoch epoch_seed =
     (let e1 = last_epoch + 1;
          e2 = (if epoch_seed \<noteq> 0 \<and> epoch_seed > e1 then epoch_seed else e1)
      in if e2 = 0 then 1 else e2)"

definition create :: "config \<Rightarrow> found_image \<Rightarrow> save_fault option list \<Rightarrow> impl result" where
  "create cfg found faults =
     (if \<not> is_coherent (cg_limits cfg) then Inl (invalid_argument (lit ''limits configuration is not coherent''))
      else let im0 = new_impl cfg faults
        in case load_state cfg found (im_state im0) of
             Inl e \<Rightarrow> Inl e
           | Inr s \<Rightarrow>
               let e = mint_epoch (cs_last_epoch s) (cg_epoch_seed cfg);
                   im1 = rebuild_indexes (im0\<lparr>im_state := s\<lparr>cs_last_epoch := e\<rparr>, im_epoch := from_value e,
                     im_disk := (case found of Image (Inr d) \<Rightarrow> Some d | _ \<Rightarrow> None)\<rparr>)
               in case reconcile_recovered_state im1 of (recovered, im2) \<Rightarrow>
                    if \<not> st_ok recovered then Inl recovered else Inr im2)"

section \<open>Saving and the control plane switch\<close>

definition save :: "impl \<Rightarrow> status \<times> impl" where
  "save im = persist_locked im"

definition validate_state :: "impl \<Rightarrow> status" where
  "validate_state im = validate (im_state im) (im_limits im)"

definition state_digest_hex :: "impl \<Rightarrow> string" where
  "state_digest_hex im = to_hex (digest_of
     (update_length_prefixed (lit ''coordinator-state-v1'') @ update_u64 (cs_last_sequence (im_state im)) @
      concat (map (\<lambda>e. experiment_digest (im_state im) (fst e)) (cs_experiments (im_state im)))))"

text \<open>
  \<open>bound\<close> is what the operating system makes of opening the listening socket: the port that was
  bound, or the failure.
\<close>

definition start_server :: "u16 result \<Rightarrow> impl \<Rightarrow> status \<times> impl" where
  "start_server bound im =
     (if im_server_active im
        then (make_error EC_ALREADY_EXISTS EG_TRANSPORT (lit ''the control plane is already running''), im)
      else case bound of
          Inl e \<Rightarrow> (e, im)
        | Inr p \<Rightarrow> (success, im\<lparr>im_admitting_work := True, im_server_active := True, im_server := Some p\<rparr>))"

definition stop_server :: "impl \<Rightarrow> status \<times> impl" where
  "stop_server im =
     (if im_server im = None then (success, im)
      else case save (im\<lparr>im_admitting_work := False, im_server := None, im_server_active := False\<rparr>) of
        (persisted, im1) \<Rightarrow>
          if \<not> st_ok persisted then (persisted, im1)
          else (success, notify_event (lit ''server-stopped'') im1))"

definition port :: "impl \<Rightarrow> u16" where
  "port im = (case im_server im of None \<Rightarrow> 0 | Some p \<Rightarrow> p)"

end
