(* ===== verification/Authority.thy ===== *)
theory Authority
  imports Recovery
begin

text \<open>
  \<^verbatim>\<open>include/experiment_fabric/authority.hpp\<close>, \<^verbatim>\<open>src/authority.cpp\<close>, the request structures of
  \<^verbatim>\<open>protocol.hpp\<close> and \<^verbatim>\<open>src/coordinator_authority.cpp\<close>: the authority envelope and its check against
  live state, the worker lifecycle, the issue of attempts, the publication of evidence, completion,
  failure and cancellation.
\<close>

section \<open>The authority envelope\<close>

record authority_envelope =
  ae_epoch :: coordinator_epoch
  ae_experiment :: experiment_id
  ae_generation :: experiment_generation
  ae_hypothesis :: hypothesis_id
  ae_hypothesis_revision :: hypothesis_revision
  ae_policy :: policy_id
  ae_policy_generation :: policy_generation
  ae_branch :: branch_id
  ae_branch_generation :: branch_generation
  ae_trial :: trial_id
  ae_attempt :: trial_attempt_id
  ae_worker :: worker_id
  ae_boot :: worker_boot_id
  ae_producer :: producer_id

record authority_verdict =
  av_accepted :: bool
  av_code :: error_code
  av_stage :: error_stage
  av_detail :: string

definition verdict_accept :: authority_verdict where
  "verdict_accept = \<lparr>av_accepted = True, av_code = EC_OK, av_stage = EG_NONE, av_detail = []\<rparr>"

definition verdict_reject :: "error_code \<Rightarrow> error_stage \<Rightarrow> string \<Rightarrow> authority_verdict" where
  "verdict_reject c g detail = \<lparr>av_accepted = False, av_code = c, av_stage = g, av_detail = detail\<rparr>"

definition null_field :: "string \<Rightarrow> authority_verdict" where
  "null_field detail = verdict_reject EC_INVALID_ARGUMENT EG_AUTHORITY detail"

definition validate_envelope_structure :: "authority_envelope \<Rightarrow> authority_verdict" where
  "validate_envelope_structure e =
     (if \<not> valid (ae_epoch e) then null_field (lit ''envelope carries a null coordinator epoch'')
      else if \<not> valid (ae_experiment e) then null_field (lit ''envelope carries a null experiment identity'')
      else if \<not> valid (ae_generation e) then null_field (lit ''envelope carries a null experiment generation'')
      else if \<not> valid (ae_hypothesis e) then null_field (lit ''envelope carries a null hypothesis identity'')
      else if \<not> valid (ae_hypothesis_revision e) then null_field (lit ''envelope carries a null hypothesis revision'')
      else if \<not> valid (ae_policy e) then null_field (lit ''envelope carries a null policy identity'')
      else if \<not> valid (ae_policy_generation e) then null_field (lit ''envelope carries a null policy generation'')
      else if \<not> valid (ae_branch e) then null_field (lit ''envelope carries a null branch identity'')
      else if \<not> valid (ae_branch_generation e) then null_field (lit ''envelope carries a null branch generation'')
      else if \<not> valid (ae_trial e) then null_field (lit ''envelope carries a null trial identity'')
      else if \<not> valid (ae_attempt e) then null_field (lit ''envelope carries a null attempt identity'')
      else if \<not> valid (ae_worker e) then null_field (lit ''envelope carries a null worker identity'')
      else if \<not> valid (ae_boot e) then null_field (lit ''envelope carries a null worker boot identity'')
      else if \<not> valid (ae_producer e) then null_field (lit ''envelope carries a null producer identity'')
      else verdict_accept)"

definition authority_error :: "error_code \<Rightarrow> string \<Rightarrow> status" where
  "authority_error c reason = make_error c EG_AUTHORITY reason"

definition observation_error :: "string \<Rightarrow> status" where
  "observation_error reason = make_error EC_INVALID_OBSERVATION EG_OBSERVATION reason"

definition protocol_error :: "string \<Rightarrow> status" where
  "protocol_error reason = make_error EC_PROTOCOL_ERROR EG_TRANSPORT reason"

definition reject :: "error_code \<Rightarrow> string \<Rightarrow> authority_verdict" where
  "reject c detail = verdict_reject c EG_AUTHORITY detail"

definition describe_epoch :: "coordinator_epoch \<Rightarrow> coordinator_epoch \<Rightarrow> string" where
  "describe_epoch expected actual =
     lit ''stale coordinator epoch: envelope='' @ id_to_string actual @ lit '' current='' @ id_to_string expected"

section \<open>Checking an envelope\<close>

text \<open>
  \<open>check_envelope\<close> returns the verdict; when it accepts, the record, trial, attempt and branch it
  points to are the ones stored under the identities of the envelope. The checks are grouped by
  what they look at, in the order of the source.
\<close>

definition check_worker :: "impl \<Rightarrow> authority_envelope \<Rightarrow> authority_verdict option" where
  "check_worker im e =
     (if \<not> im_admitting_work im
        then Some (reject EC_SHUTTING_DOWN (lit ''coordinator is no longer admitting authority''))
      else if ae_epoch e \<noteq> im_epoch im
        then Some (reject EC_STALE_EPOCH (describe_epoch (im_epoch im) (ae_epoch e)))
      else case find_live_worker im (ae_worker e) (ae_boot e) of
          None \<Rightarrow> Some (reject EC_STALE_WORKER
            (lit ''worker boot identity is not registered under the current epoch''))
        | Some live \<Rightarrow>
            if lw_revoked live
              then Some (reject EC_STALE_WORKER (lit ''worker incarnation authority has been revoked''))
            else if lw_producer live \<noteq> ae_producer e
              then Some (reject EC_UNAUTHORIZED
                (lit ''producer identity does not match the registered incarnation''))
            else None)"

definition check_experiment :: "experiment_record \<Rightarrow> authority_envelope \<Rightarrow> authority_verdict option" where
  "check_experiment r e =
     (let d = er_definition r
      in if er_state r = ES_CANCELLED
           then Some (reject EC_CANCELLED
             (lit ''experiment was cancelled: late evidence is never current authority''))
         else if er_state r = ES_SUPERSEDED
           then Some (reject EC_STALE_GENERATION (lit ''experiment has been superseded''))
         else if \<not> is_experiment_mutable (er_state r)
           then Some (reject EC_INVALID_TRANSITION
             (lit ''experiment no longer accepts authoritative evidence''))
         else if ae_generation e \<noteq> ed_generation d
           then Some (reject EC_STALE_GENERATION
             (lit ''stale experiment generation: envelope='' @ id_to_string (ae_generation e) @
              lit '' current='' @ id_to_string (ed_generation d)))
         else if ae_hypothesis e \<noteq> ed_hypothesis d \<or> ae_hypothesis_revision e \<noteq> ed_hypothesis_revision d
           then Some (reject EC_STALE_HYPOTHESIS (lit ''stale hypothesis revision''))
         else if ae_policy e \<noteq> cp_id (ed_policy d) \<or> ae_policy_generation e \<noteq> cp_generation (ed_policy d)
           then Some (reject EC_STALE_GENERATION
             (lit ''stale comparison policy identity or generation''))
         else None)"

definition check_envelope_branch :: "experiment_record \<Rightarrow> authority_envelope \<Rightarrow> authority_verdict option" where
  "check_envelope_branch r e =
     (case find_branch r (ae_branch e) of
        None \<Rightarrow> Some (reject EC_STALE_BRANCH
          (lit ''branch does not exist in the current experiment generation''))
      | Some b \<Rightarrow>
          if bd_generation b \<noteq> ae_branch_generation e
            then Some (reject EC_STALE_BRANCH
              (lit ''stale branch generation: envelope='' @ id_to_string (ae_branch_generation e) @
               lit '' current='' @ id_to_string (bd_generation b)))
          else if \<not> is_branch_eligible (bd_state b)
            then Some (reject EC_STALE_BRANCH
              (lit ''branch is not eligible for evidence: '' @ branch_state_to_string (bd_state b)))
          else None)"

definition check_envelope_trial :: "trial_record \<Rightarrow> authority_envelope \<Rightarrow> authority_verdict option" where
  "check_envelope_trial t e =
     (if tr_branch t \<noteq> ae_branch e
        then Some (reject EC_STALE_BRANCH (lit ''trial does not belong to the presented branch''))
      else if tr_generation t \<noteq> ae_generation e
        then Some (reject EC_STALE_GENERATION
          (lit ''trial was created under a different experiment generation''))
      else if tr_branch_generation t \<noteq> ae_branch_generation e
        then Some (reject EC_STALE_BRANCH (lit ''trial was created under a different branch generation''))
      else if tr_hypothesis_revision t \<noteq> ae_hypothesis_revision e
        then Some (reject EC_STALE_HYPOTHESIS
          (lit ''trial was created under a different hypothesis revision''))
      else if tr_policy t \<noteq> ae_policy e \<or> tr_policy_generation t \<noteq> ae_policy_generation e
        then Some (reject EC_STALE_GENERATION
          (lit ''trial was created under a different comparison policy''))
      else if tr_state t = TS_CANCELLED
        then Some (reject EC_CANCELLED (lit ''trial was cancelled: late evidence is never current authority''))
      else if is_terminal (tr_state t)
        then Some (reject EC_STALE_ATTEMPT
          (lit ''trial is already terminal: '' @ trial_state_to_string (tr_state t)))
      else if tr_authoritative_attempt t \<noteq> ae_attempt e
        then Some (reject EC_STALE_ATTEMPT
          (lit ''attempt is not the authoritative attempt of this trial''))
      else None)"

definition check_envelope_attempt :: "attempt_record \<Rightarrow> authority_envelope \<Rightarrow> authority_verdict option" where
  "check_envelope_attempt a e =
     (if at_worker a \<noteq> ae_worker e \<or> at_boot a \<noteq> ae_boot e
        then Some (reject EC_STALE_WORKER (lit ''attempt was issued to a different worker incarnation''))
      else if at_epoch a \<noteq> ae_epoch e
        then Some (reject EC_STALE_EPOCH (lit ''attempt was issued under a different coordinator epoch''))
      else if is_attempt_terminal (at_state a)
        then Some (reject EC_STALE_ATTEMPT
          (lit ''attempt is already terminal: '' @ attempt_state_to_string (at_state a)))
      else None)"

definition check_record :: "experiment_record \<Rightarrow> authority_envelope \<Rightarrow> authority_verdict" where
  "check_record r e =
     (case check_experiment r e of Some v \<Rightarrow> v | None \<Rightarrow>
      case check_envelope_branch r e of Some v \<Rightarrow> v | None \<Rightarrow>
      case map_of (er_trials r) (ae_trial e) of
        None \<Rightarrow> reject EC_STALE_ATTEMPT (lit ''trial does not exist in the current experiment generation'')
      | Some t \<Rightarrow>
          case check_envelope_trial t e of Some v \<Rightarrow> v | None \<Rightarrow>
          case map_of (er_attempts r) (ae_attempt e) of
            None \<Rightarrow> reject EC_STALE_ATTEMPT (lit ''attempt identity is not recorded'')
          | Some a \<Rightarrow>
              case check_envelope_attempt a e of Some v \<Rightarrow> v | None \<Rightarrow> verdict_accept)"

definition check_envelope :: "impl \<Rightarrow> authority_envelope \<Rightarrow> authority_verdict" where
  "check_envelope im e =
     (let structural = validate_envelope_structure e
      in if \<not> av_accepted structural then structural
         else case check_worker im e of Some v \<Rightarrow> v | None \<Rightarrow>
           case find_experiment im (ae_experiment e) of
             None \<Rightarrow> reject EC_NOT_FOUND (lit ''experiment does not exist'')
           | Some r \<Rightarrow> check_record r e)"

section \<open>Requests\<close>

record register_worker_request =
  rq_claimed_epoch :: coordinator_epoch
  rq_worker :: worker_id
  rq_boot :: worker_boot_id
  rq_producer :: producer_id
  rq_endpoint :: string
  rq_max_concurrent_assignments :: u32
  rq_fingerprint :: string

record register_worker_reply =
  rr_epoch :: coordinator_epoch
  rr_boot :: worker_boot_id
  rr_producer :: producer_id
  rr_accepted :: bool
  rr_status :: status

record claim_trial_request =
  ct_epoch :: coordinator_epoch
  ct_worker :: worker_id
  ct_boot :: worker_boot_id
  ct_max_claims :: u32

record assigned_metric =
  am_metric :: metric_id
  am_observation_id :: observation_id
  am_name :: string
  am_kind :: metric_kind
  am_direction :: metric_direction
  am_required :: bool

record trial_assignment =
  ta_envelope :: authority_envelope
  ta_attempt_number :: trial_attempt_number
  ta_trial_payload :: string
  ta_parameters :: "parameter_assignment list"
  ta_metrics :: "assigned_metric list"
  ta_artifact_ids :: "artifact_id list"
  ta_planned_observations :: u32

record claim_trial_reply =
  cl_status :: status
  cl_assignments :: "trial_assignment list"

record publish_observation_request =
  po_epoch :: coordinator_epoch
  po_worker :: worker_id
  po_boot :: worker_boot_id
  po_observation :: observation

record publish_artifact_request =
  pb_epoch :: coordinator_epoch
  pb_worker :: worker_id
  pb_boot :: worker_boot_id
  pb_artifact :: artifact_record

record commit_trial_request =
  cm_epoch :: coordinator_epoch
  cm_worker :: worker_id
  cm_boot :: worker_boot_id
  cm_envelope :: authority_envelope
  cm_artifacts :: "artifact_record list"
  cm_result_payload :: string

record fail_trial_request =
  fl_epoch :: coordinator_epoch
  fl_worker :: worker_id
  fl_boot :: worker_boot_id
  fl_envelope :: authority_envelope
  fl_kind :: failure_kind
  fl_detail :: string
  fl_retryable :: bool

record heartbeat_request =
  hb_epoch :: coordinator_epoch
  hb_worker :: worker_id
  hb_boot :: worker_boot_id
  hb_active_assignments :: u32

section \<open>Worker lifecycle\<close>

text \<open>
  One round of the loop over the attempts that a lost worker incarnation held. The loops of
  \<^verbatim>\<open>register_worker\<close> and \<^verbatim>\<open>revoke_worker\<close> are the same but for the kind and texts recorded.
\<close>

definition lose_trial ::
    "experiment_definition \<Rightarrow> failure_kind \<Rightarrow> string \<Rightarrow> u64 \<Rightarrow> trial_record \<Rightarrow> trial_record" where
  "lose_trial d kind detail sequence t =
     (let retryable = (ed_retry_policy d \<noteq> RP_NO_RETRY \<and> tr_attempt_count t < ed_max_attempts_per_trial d);
          t1 = (if retryable
            then t\<lparr>tr_state := TS_READY, tr_authoritative_attempt := null_id,
                   tr_next_attempt_number := from_value (ucast (tr_attempt_count t + 1))\<rparr>
            else t\<lparr>tr_state := TS_FAILED\<rparr>)
      in t1\<lparr>tr_failure_kind := kind, tr_failure_detail := detail, tr_updated_sequence := sequence\<rparr>)"

definition held_by :: "worker_id \<Rightarrow> worker_boot_id \<Rightarrow> attempt_record \<Rightarrow> bool" where
  "held_by w b a \<longleftrightarrow> \<not> (at_worker a \<noteq> w \<or> at_boot a \<noteq> b \<or> is_attempt_terminal (at_state a))"

definition lose_attempt ::
    "worker_id \<Rightarrow> worker_boot_id \<Rightarrow> failure_kind \<Rightarrow> string \<Rightarrow> string \<Rightarrow> u64 \<Rightarrow> trial_attempt_id \<Rightarrow>
     experiment_record \<Rightarrow> experiment_record" where
  "lose_attempt w b kind attempt_detail trial_detail sequence j r =
     (case map_of (er_attempts r) j of
        None \<Rightarrow> r
      | Some a \<Rightarrow>
          if \<not> held_by w b a then r
          else
            let a' = a\<lparr>at_state := AS_ABANDONED, at_failure_kind := kind,
                       at_failure_detail := attempt_detail, at_updated_sequence := sequence\<rparr>;
                r1 = r\<lparr>er_attempts := omap_put j a' (er_attempts r)\<rparr>
            in case map_of (er_trials r) (at_trial a) of
                 None \<Rightarrow> r1
               | Some t \<Rightarrow>
                   if is_terminal (tr_state t) \<or> tr_authoritative_attempt t \<noteq> at_id a then r1
                   else r1\<lparr>er_trials := omap_put (at_trial a)
                     (lose_trial (er_definition r) kind trial_detail sequence t) (er_trials r)\<rparr>)"

definition lose_worker ::
    "worker_id \<Rightarrow> worker_boot_id \<Rightarrow> failure_kind \<Rightarrow> string \<Rightarrow> string \<Rightarrow> string \<Rightarrow> u64 \<Rightarrow>
     experiment_record \<Rightarrow> experiment_record" where
  "lose_worker w b kind attempt_detail trial_detail line sequence r =
     (let r1 = fold (lose_attempt w b kind attempt_detail trial_detail sequence) (map fst (er_attempts r)) r
      in if list_ex (held_by w b) (omap_values (er_attempts r)) then log_line line r1 else r1)"

definition revoke_incarnations ::
    "worker_id \<Rightarrow> worker_boot_id \<Rightarrow> failure_kind \<Rightarrow> u64 \<Rightarrow> worker_incarnation list \<Rightarrow> worker_incarnation list" where
  "revoke_incarnations w b kind sequence =
     map (\<lambda>i. if wi_worker i = w \<and> wi_boot i = b \<and> \<not> wi_revoked i
        then i\<lparr>wi_revoked := True, wi_revocation_kind := kind, wi_revoked_sequence := sequence\<rparr> else i)"

definition map_experiments :: "(experiment_record \<Rightarrow> experiment_record) \<Rightarrow> impl \<Rightarrow> impl" where
  "map_experiments f im =
     im\<lparr>im_state := (im_state im)\<lparr>cs_experiments := omap_map f (cs_experiments (im_state im))\<rparr>\<rparr>"

definition map_workers :: "(worker_incarnation list \<Rightarrow> worker_incarnation list) \<Rightarrow> impl \<Rightarrow> impl" where
  "map_workers f im = im\<lparr>im_state := (im_state im)\<lparr>cs_workers := f (cs_workers (im_state im))\<rparr>\<rparr>"

text \<open>A fresh boot identity replaces the live incarnations of the same logical worker.\<close>

definition replace_incarnation :: "u64 \<Rightarrow> live_worker \<Rightarrow> impl \<Rightarrow> impl" where
  "replace_incarnation sequence live im =
     map_experiments
       (lose_worker (lw_worker live) (lw_boot live) FK_PRODUCER_LOSS
          (lit ''worker process incarnation replaced by a fresh boot identity'')
          (lit ''producer lost; assignment transitioned conservatively'')
          (lit ''worker-incarnation-replaced worker='' @ id_to_string (lw_worker live)) sequence)
       (map_workers (revoke_incarnations (lw_worker live) (lw_boot live) FK_PRODUCER_LOSS sequence) im)"

definition replaced_by :: "register_worker_request \<Rightarrow> live_worker \<Rightarrow> bool" where
  "replaced_by q live \<longleftrightarrow>
     \<not> (lw_worker live \<noteq> rq_worker q \<or> lw_boot live = rq_boot q \<or> lw_revoked live)"

definition replace_incarnations :: "register_worker_request \<Rightarrow> u64 \<Rightarrow> impl \<Rightarrow> impl" where
  "replace_incarnations q sequence im =
     (let im1 = fold (replace_incarnation sequence) (filter (replaced_by q) (omap_values (im_live_workers im))) im
      in im1\<lparr>im_live_workers := omap_map (\<lambda>live. if replaced_by q live
           then live\<lparr>lw_revoked := True, lw_revocation_kind := FK_PRODUCER_LOSS\<rparr> else live) (im_live_workers im)\<rparr>)"

definition refused :: "status \<Rightarrow> register_worker_reply" where
  "refused s = \<lparr>rr_epoch = null_id, rr_boot = null_id, rr_producer = null_id, rr_accepted = False, rr_status = s\<rparr>"

definition registration :: "coordinator_epoch \<Rightarrow> worker_boot_id \<Rightarrow> producer_id \<Rightarrow> register_worker_reply" where
  "registration e b p = \<lparr>rr_epoch = e, rr_boot = b, rr_producer = p, rr_accepted = True, rr_status = success\<rparr>"

text \<open>The loop over the recorded incarnations that refuses a boot identity of the past.\<close>

definition past_incarnation :: "impl \<Rightarrow> register_worker_request \<Rightarrow> status" where
  "past_incarnation im q =
     check_each (\<lambda>i.
       if wi_worker i \<noteq> rq_worker q \<or> wi_boot i \<noteq> rq_boot q then success
       else if wi_revoked i
         then authority_error EC_STALE_WORKER (lit ''worker incarnation was previously revoked'')
       else if wi_epoch i \<noteq> im_epoch im
         then authority_error EC_STALE_EPOCH (lit ''worker boot identity belongs to a previous coordinator epoch'')
       else success) (cs_workers (im_state im))"

definition admit_worker :: "register_worker_request \<Rightarrow> impl \<Rightarrow> register_worker_reply \<times> impl" where
  "admit_worker q im =
     (case next_sequence im of (sequence, im1) \<Rightarrow>
      case alloc_producer_id im1 of (producer, im2) \<Rightarrow>
      let live = \<lparr>lw_worker = rq_worker q, lw_boot = rq_boot q, lw_producer = producer,
            lw_endpoint = rq_endpoint q, lw_fingerprint = rq_fingerprint q, lw_active_assignments = 0,
            lw_total_assignments = 0, lw_max_concurrent_assignments = rq_max_concurrent_assignments q,
            lw_revoked = False, lw_revocation_kind = FK_NONE, lw_registered_sequence = sequence\<rparr>;
          incarnation = \<lparr>wi_worker = rq_worker q, wi_boot = rq_boot q, wi_epoch = im_epoch im,
            wi_producer = producer, wi_endpoint = rq_endpoint q, wi_fingerprint = rq_fingerprint q,
            wi_registered_sequence = sequence, wi_revoked = False, wi_revocation_kind = FK_NONE,
            wi_revoked_sequence = 0\<rparr>;
          im3 = im2\<lparr>im_live_workers :=
                omap_emplace (id_value (rq_worker q), id_value (rq_boot q)) live (im_live_workers im2)\<rparr>;
          im4 = map_workers (\<lambda>ws. ws @ [incarnation]) im3
      in case persist_locked im4 of (persisted, im5) \<Rightarrow>
           if \<not> st_ok persisted then (refused persisted, im5)
           else (registration (im_epoch im) (rq_boot q) producer,
                 notify_event (lit ''worker-registered:'' @ id_to_string (rq_worker q)) im5))"

definition register_worker :: "register_worker_request \<Rightarrow> impl \<Rightarrow> register_worker_reply \<times> impl" where
  "register_worker q im =
     (if \<not> im_admitting_work im then (refused shutting_down, im)
      else if \<not> valid (rq_worker q) \<or> \<not> valid (rq_boot q)
        then (refused (authority_error EC_INVALID_ARGUMENT
          (lit ''worker and boot identities must be non-null'')), im)
      else if valid (rq_claimed_epoch q) \<and> rq_claimed_epoch q \<noteq> im_epoch im
        then (refused (authority_error EC_STALE_EPOCH (describe_epoch (im_epoch im) (rq_claimed_epoch q))), im)
      else if rq_max_concurrent_assignments q = 0 \<or>
          rq_max_concurrent_assignments q > lm_max_concurrent_assignments_per_worker (im_limits im)
        then (refused (limits_error (lit ''worker concurrency request is out of range'')), im)
      else case find_live_worker im (rq_worker q) (rq_boot q) of
          Some existing \<Rightarrow>
            if lw_revoked existing
              then (refused (authority_error EC_STALE_WORKER (lit ''worker incarnation was revoked'')), im)
            else (registration (im_epoch im) (rq_boot q) (lw_producer existing), im)
        | None \<Rightarrow>
            (case next_sequence im of (sequence, im1) \<Rightarrow>
             let im2 = replace_incarnations q sequence im1;
                 past = past_incarnation im2 q
             in if \<not> st_ok past then (refused past, im2)
                else if length (cs_workers (im_state im2)) \<ge> unat (lm_max_registered_workers (im_limits im2))
                  then (refused (limits_error (lit ''too many registered worker incarnations'')), im2)
                else admit_worker q im2))"

definition revoke_worker ::
    "worker_id \<Rightarrow> worker_boot_id \<Rightarrow> failure_kind \<Rightarrow> string \<Rightarrow> impl \<Rightarrow> status \<times> impl" where
  "revoke_worker w b kind reason im =
     (case find_live_worker im w b of
        None \<Rightarrow> (authority_error EC_STALE_WORKER (lit ''worker incarnation is not registered''), im)
      | Some live \<Rightarrow>
          let im1 = im\<lparr>im_live_workers := omap_put (id_value w, id_value b)
                (live\<lparr>lw_revoked := True, lw_revocation_kind := kind\<rparr>) (im_live_workers im)\<rparr>
          in case next_sequence im1 of (sequence, im2) \<Rightarrow>
            commit_status (\<lambda>i. i) (notify_event (lit ''worker-revoked:'' @ id_to_string w))
              (map_workers (revoke_incarnations w b kind sequence)
                (map_experiments (lose_worker w b kind reason reason
                   (lit ''worker-revoked worker='' @ id_to_string w @ lit '' reason='' @ reason) sequence) im2)))"

definition heartbeat :: "heartbeat_request \<Rightarrow> impl \<Rightarrow> status \<times> impl" where
  "heartbeat q im =
     (if \<not> im_admitting_work im then (shutting_down, im)
      else if hb_epoch q \<noteq> im_epoch im
        then (authority_error EC_STALE_EPOCH (describe_epoch (im_epoch im) (hb_epoch q)), im)
      else case find_live_worker im (hb_worker q) (hb_boot q) of
          None \<Rightarrow> (authority_error EC_STALE_WORKER
            (lit ''worker incarnation is not live under the current epoch''), im)
        | Some live \<Rightarrow>
            if lw_revoked live
              then (authority_error EC_STALE_WORKER
                (lit ''worker incarnation is not live under the current epoch''), im)
            else (success, im\<lparr>im_live_workers := omap_put (id_value (hb_worker q), id_value (hb_boot q))
                   (live\<lparr>lw_active_assignments := hb_active_assignments q\<rparr>) (im_live_workers im)\<rparr>))"

section \<open>Issuing attempts\<close>

definition claimable :: "limits \<Rightarrow> experiment_record \<Rightarrow> trial_record \<Rightarrow> bool" where
  "claimable l r t \<longleftrightarrow>
     (let d = er_definition r
      in \<not> (tr_state t \<noteq> TS_READY \<or> tr_generation t \<noteq> ed_generation d \<or>
            tr_hypothesis_revision t \<noteq> ed_hypothesis_revision d) \<and>
         \<not> tr_attempt_count t \<ge> ed_max_attempts_per_trial d \<and>
         \<not> (ed_retry_policy d = RP_NO_RETRY \<and> tr_attempt_count t > 0) \<and>
         (case find_branch r (tr_branch t) of
            None \<Rightarrow> False
          | Some b \<Rightarrow> is_branch_eligible (bd_state b) \<and> bd_generation b = tr_branch_generation t) \<and>
         \<not> length (er_attempts r) \<ge> length (er_trials r) * unat (lm_max_attempts_per_trial l) + 16)"

definition issue_attempt ::
    "claim_trial_request \<Rightarrow> coordinator_epoch \<Rightarrow> producer_id \<Rightarrow> experiment_record \<Rightarrow> trial_record \<Rightarrow>
     trial_attempt_id \<Rightarrow> u64 \<Rightarrow> attempt_record" where
  "issue_attempt q e producer r t aid sequence =
     \<lparr>at_id = aid,
      at_number = (if valid (tr_next_attempt_number t) then tr_next_attempt_number t
         else from_value (ucast (tr_attempt_count t + 1))),
      at_trial = tr_id t, at_experiment = ed_id (er_definition r),
      at_generation = ed_generation (er_definition r), at_branch = tr_branch t,
      at_branch_generation = tr_branch_generation t, at_worker = ct_worker q, at_boot = ct_boot q,
      at_epoch = e, at_producer = producer, at_state = AS_ISSUED, at_failure_kind = FK_NONE,
      at_failure_detail = [], at_committed = False, at_issued_sequence = sequence,
      at_updated_sequence = sequence\<rparr>"

definition assign_trial :: "attempt_record \<Rightarrow> u64 \<Rightarrow> trial_record \<Rightarrow> trial_record" where
  "assign_trial a sequence t =
     t\<lparr>tr_attempt_count := tr_attempt_count t + 1,
       tr_next_attempt_number := from_value (id_value (at_number a) + 1),
       tr_authoritative_attempt := at_id a, tr_state := TS_ASSIGNED, tr_updated_sequence := sequence\<rparr>"

definition issued_envelope ::
    "claim_trial_request \<Rightarrow> coordinator_epoch \<Rightarrow> producer_id \<Rightarrow> experiment_record \<Rightarrow> trial_record \<Rightarrow>
     trial_attempt_id \<Rightarrow> authority_envelope" where
  "issued_envelope q e producer r t aid =
     (let d = er_definition r
      in \<lparr>ae_epoch = e, ae_experiment = ed_id d, ae_generation = ed_generation d,
          ae_hypothesis = ed_hypothesis d, ae_hypothesis_revision = ed_hypothesis_revision d,
          ae_policy = cp_id (ed_policy d), ae_policy_generation = cp_generation (ed_policy d),
          ae_branch = tr_branch t, ae_branch_generation = tr_branch_generation t, ae_trial = tr_id t,
          ae_attempt = aid, ae_worker = ct_worker q, ae_boot = ct_boot q, ae_producer = producer\<rparr>)"

fun reserve_metrics :: "metric_definition list \<Rightarrow> impl \<Rightarrow> assigned_metric list \<times> impl" where
  "reserve_metrics [] im = ([], im)"
| "reserve_metrics (m # ms) im =
     (case alloc_observation_id im of (oid, im1) \<Rightarrow>
      case reserve_metrics ms im1 of (rest, im2) \<Rightarrow>
        (\<lparr>am_metric = md_id m, am_observation_id = oid, am_name = md_name m, am_kind = md_kind m,
          am_direction = md_direction m, am_required = md_required m\<rparr> # rest, im2))"

fun reserve_artifacts :: "nat \<Rightarrow> impl \<Rightarrow> artifact_id list \<times> impl" where
  "reserve_artifacts 0 im = ([], im)"
| "reserve_artifacts (Suc n) im =
     (case alloc_artifact_id im of (aid, im1) \<Rightarrow>
      case reserve_artifacts n im1 of (rest, im2) \<Rightarrow> (aid # rest, im2))"

definition artifact_budget :: "limits \<Rightarrow> experiment_record \<Rightarrow> u32" where
  "artifact_budget l r =
     min (lm_max_artifacts_per_attempt l)
       (ucast (ucast (lm_max_artifacts_per_experiment l) - of_nat (length (er_artifacts r)) :: u64))"

text \<open>The body of the inner loop, for a trial that passes its guards.\<close>

definition issue_trial ::
    "claim_trial_request \<Rightarrow> producer_id \<Rightarrow> experiment_id \<Rightarrow> experiment_record \<Rightarrow> trial_id \<Rightarrow> trial_record \<Rightarrow>
     impl \<Rightarrow> trial_assignment \<times> impl" where
  "issue_trial q producer key r tid t im =
     (case next_sequence im of (sequence, im1) \<Rightarrow>
      case alloc_attempt_id im1 of (aid, im2) \<Rightarrow>
      let a = issue_attempt q (im_epoch im) producer r t aid sequence;
          t' = assign_trial a sequence t
      in case reserve_metrics (ed_metrics (er_definition r)) im2 of (metrics, im3) \<Rightarrow>
         case reserve_artifacts (unat (artifact_budget (im_limits im) r)) im3 of (artifacts, im4) \<Rightarrow>
         let r' = r\<lparr>er_trials := omap_put tid t' (er_trials r), er_attempts := omap_emplace aid a (er_attempts r)\<rparr>;
             bump = (\<lambda>live. live\<lparr>lw_active_assignments := lw_active_assignments live + 1,
                lw_total_assignments := lw_total_assignments live + 1\<rparr>);
             im5 = put_experiment key r' im4
         in (\<lparr>ta_envelope = issued_envelope q (im_epoch im) producer r t aid,
              ta_attempt_number = at_number a, ta_trial_payload = tr_payload t,
              ta_parameters = (case find_branch r (tr_branch t) of None \<Rightarrow> [] | Some b \<Rightarrow> bd_parameters b),
              ta_metrics = metrics, ta_artifact_ids = artifacts,
              ta_planned_observations = of_nat (length metrics)\<rparr>,
             im5\<lparr>im_live_workers := omap_modify (id_value (ct_worker q), id_value (ct_boot q)) bump
                (im_live_workers im5)\<rparr>))"

definition claim_one ::
    "claim_trial_request \<Rightarrow> producer_id \<Rightarrow> experiment_id \<Rightarrow> trial_id \<Rightarrow>
     impl \<times> trial_assignment list \<times> u32 \<Rightarrow> impl \<times> trial_assignment list \<times> u32" where
  "claim_one q producer key tid = (\<lambda>(im, assignments, budget).
     if budget = 0 then (im, assignments, budget)
     else case find_experiment im key of
         None \<Rightarrow> (im, assignments, budget)
       | Some r \<Rightarrow>
           if \<not> is_experiment_mutable (er_state r) then (im, assignments, budget)
           else case map_of (er_trials r) tid of
               None \<Rightarrow> (im, assignments, budget)
             | Some t \<Rightarrow>
                 if \<not> claimable (im_limits im) r t then (im, assignments, budget)
                 else case issue_trial q producer key r tid t im of (assignment, im') \<Rightarrow>
                   (im', assignments @ [assignment], budget - 1))"

text \<open>All pairs of an experiment and a trial in the order in which the two loops visit them.\<close>

definition claim_order :: "impl \<Rightarrow> (experiment_id \<times> trial_id) list" where
  "claim_order im =
     concat (map (\<lambda>(key, r). map (\<lambda>e. (key, fst e)) (er_trials r)) (cs_experiments (im_state im)))"

definition active_attempts :: "claim_trial_request \<Rightarrow> impl \<Rightarrow> u32" where
  "active_attempts q im =
     count32 (held_by (ct_worker q) (ct_boot q))
       (concat (map (\<lambda>(key, r). omap_values (er_attempts r)) (cs_experiments (im_state im))))"

definition claim_failed :: "status \<Rightarrow> claim_trial_reply" where
  "claim_failed s = \<lparr>cl_status = s, cl_assignments = []\<rparr>"

definition claim_trials :: "claim_trial_request \<Rightarrow> impl \<Rightarrow> claim_trial_reply \<times> impl" where
  "claim_trials q im =
     (if \<not> im_admitting_work im then (claim_failed shutting_down, im)
      else if ct_epoch q \<noteq> im_epoch im
        then (claim_failed (authority_error EC_STALE_EPOCH (describe_epoch (im_epoch im) (ct_epoch q))), im)
      else case find_live_worker im (ct_worker q) (ct_boot q) of
          None \<Rightarrow> (claim_failed (authority_error EC_STALE_WORKER
            (lit ''worker incarnation is not live under the current epoch'')), im)
        | Some live \<Rightarrow>
            if lw_revoked live
              then (claim_failed (authority_error EC_STALE_WORKER
                (lit ''worker incarnation is not live under the current epoch'')), im)
            else if ct_max_claims q = 0 \<or> ct_max_claims q > lm_max_batch_items (im_limits im)
              then (claim_failed (limits_error (lit ''claim batch size is out of range'')), im)
            else
              let active = active_attempts q im;
                  im1 = im\<lparr>im_live_workers := omap_put (id_value (ct_worker q), id_value (ct_boot q))
                    (live\<lparr>lw_active_assignments := active\<rparr>) (im_live_workers im)\<rparr>;
                  available = (if lw_max_concurrent_assignments live > active
                    then lw_max_concurrent_assignments live - active else 0);
                  budget = min (ct_max_claims q) available
              in case fold (\<lambda>(key, tid). claim_one q (lw_producer live) key tid) (claim_order im1) (im1, [], budget) of
                   (im2, assignments, rest) \<Rightarrow>
                     if assignments = [] then (\<lparr>cl_status = success, cl_assignments = assignments\<rparr>, im2)
                     else case persist_locked im2 of (persisted, im3) \<Rightarrow>
                       (\<lparr>cl_status = (if \<not> st_ok persisted then persisted else success),
                         cl_assignments = assignments\<rparr>, im3))"

section \<open>Publishing evidence\<close>

text \<open>Equality of doubles in \<^verbatim>\<open>same_metric_value\<close> is the operator of the language: a NaN differs from itself.\<close>

definition same_metric_value :: "metric_value \<Rightarrow> metric_value \<Rightarrow> bool" where
  "same_metric_value lhs rhs \<longleftrightarrow>
     mv_kind lhs = mv_kind rhs \<and> d_eq (mv_real lhs) (mv_real rhs) \<and> mv_integer lhs = mv_integer rhs \<and>
     mv_boolean lhs = mv_boolean rhs \<and> mv_category lhs = mv_category rhs"

definition same_observation :: "observation \<Rightarrow> observation \<Rightarrow> bool" where
  "same_observation lhs rhs \<longleftrightarrow>
     ob_id lhs = ob_id rhs \<and> ob_experiment lhs = ob_experiment rhs \<and> ob_generation lhs = ob_generation rhs \<and>
     ob_branch lhs = ob_branch rhs \<and> ob_branch_generation lhs = ob_branch_generation rhs \<and>
     ob_trial lhs = ob_trial rhs \<and> ob_attempt lhs = ob_attempt rhs \<and> ob_metric lhs = ob_metric rhs \<and>
     ob_producer lhs = ob_producer rhs \<and> ob_validity lhs = ob_validity rhs \<and>
     same_metric_value (ob_value lhs) (ob_value rhs) \<and> ob_detail lhs = ob_detail rhs"

definition same_artifact :: "artifact_record \<Rightarrow> artifact_record \<Rightarrow> bool" where
  "same_artifact lhs rhs \<longleftrightarrow>
     ar_id lhs = ar_id rhs \<and> ar_experiment lhs = ar_experiment rhs \<and> ar_generation lhs = ar_generation rhs \<and>
     ar_branch lhs = ar_branch rhs \<and> ar_trial lhs = ar_trial rhs \<and> ar_attempt lhs = ar_attempt rhs \<and>
     ar_category lhs = ar_category rhs \<and> ar_locator lhs = ar_locator rhs \<and>
     ar_content_digest lhs = ar_content_digest rhs \<and> ar_digest_present lhs = ar_digest_present rhs \<and>
     ar_size_present lhs = ar_size_present rhs \<and> ar_size_bytes lhs = ar_size_bytes rhs \<and>
     ar_provenance lhs = ar_provenance rhs"

definition envelope_from ::
    "observation \<Rightarrow> coordinator_epoch \<Rightarrow> worker_id \<Rightarrow> worker_boot_id \<Rightarrow> experiment_record \<Rightarrow> authority_envelope" where
  "envelope_from ob e w b r =
     (let d = er_definition r
      in \<lparr>ae_epoch = e, ae_experiment = ob_experiment ob, ae_generation = ob_generation ob,
          ae_hypothesis = ed_hypothesis d, ae_hypothesis_revision = ed_hypothesis_revision d,
          ae_policy = cp_id (ed_policy d), ae_policy_generation = cp_generation (ed_policy d),
          ae_branch = ob_branch ob, ae_branch_generation = ob_branch_generation ob,
          ae_trial = ob_trial ob, ae_attempt = ob_attempt ob, ae_worker = w, ae_boot = b,
          ae_producer = ob_producer ob\<rparr>)"

definition note_rejection :: "string \<Rightarrow> u64 \<Rightarrow> authority_verdict \<Rightarrow> experiment_record \<Rightarrow> experiment_record" where
  "note_rejection kind identifier v r =
     (if length (er_rejected_evidence r) < 65536
      then r\<lparr>er_rejected_evidence := er_rejected_evidence r @
        [\<lparr>re_kind = kind, re_identifier = identifier, re_reason = error_code_code (av_code v), re_detail = av_detail v\<rparr>]\<rparr>
      else r)"

definition reject_observation :: "publish_observation_request \<Rightarrow> authority_verdict \<Rightarrow> impl \<Rightarrow> status \<times> impl" where
  "reject_observation q v im =
     (let ob = po_observation q; key = ob_experiment ob
      in case find_experiment im key of
           None \<Rightarrow> (authority_error (av_code v) (av_detail v), im)
         | Some r \<Rightarrow>
             let r1 = note_rejection (lit ''observation'') (id_value (ob_id ob)) v r;
                 retained = (ed_late_evidence_policy (er_definition r1) = LE_RETAIN_HISTORICAL \<and>
                   length (er_observations r1) < unat (lm_max_observations_per_experiment (im_limits im)));
                 im1 = (if \<not> retained then put_experiment key r1 im
                   else case next_sequence im of (sequence, i1) \<Rightarrow>
                     let historical = ob\<lparr>ob_validity := OV_INVALID,
                           ob_detail := lit ''rejected as non-authoritative: '' @ av_detail v,
                           ob_sequence := sequence\<rparr>;
                         r2 = r1\<lparr>er_observations := er_observations r1 @ [historical]\<rparr>
                     in index_observation (ed_id (er_definition r2)) (ob_id ob) (length (er_observations r1))
                          (put_experiment key r2 i1))
             in case persist_locked im1 of (persisted, im2) \<Rightarrow>
                  if \<not> st_ok persisted then (persisted, im2)
                  else (authority_error (av_code v) (av_detail v), im2))"

definition below_bound :: "double \<Rightarrow> double option \<Rightarrow> bool" where
  "below_bound v bound = (case bound of None \<Rightarrow> False | Some b \<Rightarrow> d_lt v b)"

definition above_bound :: "double \<Rightarrow> double option \<Rightarrow> bool" where
  "above_bound v bound = (case bound of None \<Rightarrow> False | Some b \<Rightarrow> d_gt v b)"

definition bounds_check :: "double \<Rightarrow> metric_definition \<Rightarrow> status" where
  "bounds_check v m =
     (if below_bound v (md_lower_bound m)
        then observation_error (lit ''observation is below the configured validity bound'')
      else if above_bound v (md_upper_bound m)
        then observation_error (lit ''observation is above the configured validity bound'')
      else success)"

definition value_check :: "metric_value \<Rightarrow> metric_definition \<Rightarrow> status" where
  "value_check v m =
     (if mv_kind v \<noteq> md_kind m
        then observation_error (lit ''observation value kind does not match the metric definition'')
      else if \<not> is_finite_value v then
        (if \<not> md_accepts_non_finite m
           then observation_error (lit ''non-finite observation rejected: the metric does not accept NaN or infinity'')
         else success)
      else if mv_kind v = MK_REAL then bounds_check (mv_real v) m
      else if mv_kind v = MK_INTEGER then bounds_check (d_of_int (sint (mv_integer v))) m
      else if mv_kind v = MK_CATEGORICAL \<and> md_categories m \<noteq> [] \<and> mv_category v \<notin> set (md_categories m)
        then observation_error (lit ''categorical observation is not one of the declared categories'')
      else success)"

definition admit_observation_check :: "impl \<Rightarrow> experiment_record \<Rightarrow> observation \<Rightarrow> status option" where
  "admit_observation_check im r ob =
     (case find_metric r (ob_metric ob) of
        None \<Rightarrow> Some (observation_error
          (lit ''observation references a metric that is not defined by this experiment''))
      | Some m \<Rightarrow>
          (case map_of (observation_index_of im (ed_id (er_definition r))) (ob_id ob) of
             Some i \<Rightarrow>
               Some (if same_observation (er_observations r ! i) ob then success
                 else make_error EC_ALREADY_EXISTS EG_IDENTITY
                   (lit ''observation identity already exists with different content''))
           | None \<Rightarrow>
               if length (er_observations r) \<ge> unat (lm_max_observations_per_experiment (im_limits im))
                 then Some (limits_error (lit ''experiment holds too many observations''))
               else if length (er_observations r) \<ge>
                   unat (lm_max_observations_per_trial (im_limits im)) * max 1 (length (er_trials r))
                 then Some (limits_error (lit ''observation budget for this experiment is exhausted''))
               else if ob_validity ob = OV_VALID \<and> \<not> st_ok (value_check (ob_value ob) m)
                 then Some (value_check (ob_value ob) m)
               else if ob_validity ob = OV_VALID \<and>
                   list_ex (\<lambda>other. ob_trial other = ob_trial ob \<and> ob_metric other = ob_metric ob \<and>
                     ob_attempt other = ob_attempt ob \<and> ob_validity other = OV_VALID) (er_observations r)
                 then Some (make_error EC_ALREADY_EXISTS EG_OBSERVATION
                   (lit ''a valid observation for this metric already exists on this attempt''))
               else None))"

text \<open>
  Storing an accepted observation stamps it, moves an assigned or running trial to OBSERVING and
  an issued attempt to RUNNING, each with a sequence number of its own.
\<close>

definition store_observation ::
    "experiment_record \<Rightarrow> trial_record \<Rightarrow> attempt_record \<Rightarrow> observation \<Rightarrow> u64 \<Rightarrow> experiment_record \<times> u64" where
  "store_observation r t a ob sequence =
     (let s1 = sequence + 1;
          r1 = r\<lparr>er_observations := er_observations r @ [ob\<lparr>ob_sequence := s1\<rparr>]\<rparr>;
          moves = ((tr_state t = TS_ASSIGNED \<or> tr_state t = TS_RUNNING) \<and>
            trial_transition (tr_state t) TS_OBSERVING);
          s2 = (if moves then s1 + 1 else s1);
          r2 = (if moves then r1\<lparr>er_trials := omap_put (tr_id t)
            (t\<lparr>tr_state := TS_OBSERVING, tr_updated_sequence := s2\<rparr>) (er_trials r1)\<rparr> else r1);
          starts = (at_state a = AS_ISSUED);
          s3 = (if starts then s2 + 1 else s2);
          r3 = (if starts then r2\<lparr>er_attempts := omap_put (at_id a)
            (a\<lparr>at_state := AS_RUNNING, at_updated_sequence := s3\<rparr>) (er_attempts r2)\<rparr> else r2)
      in (r3, s3))"

definition pop_observation :: "experiment_record \<Rightarrow> experiment_record" where
  "pop_observation r = r\<lparr>er_observations := butlast (er_observations r)\<rparr>"

definition publish_observation :: "publish_observation_request \<Rightarrow> impl \<Rightarrow> status \<times> impl" where
  "publish_observation q im =
     (let ob = po_observation q
      in case find_experiment im (ob_experiment ob) of
           None \<Rightarrow> (authority_error EC_NOT_FOUND (lit ''experiment does not exist''), im)
         | Some r \<Rightarrow>
             let e = envelope_from ob (po_epoch q) (po_worker q) (po_boot q) r;
                 v = check_envelope im e
             in if \<not> av_accepted v then reject_observation q v im
                else case admit_observation_check im r ob of
                    Some s \<Rightarrow> (s, im)
                  | None \<Rightarrow>
                      (case (map_of (er_trials r) (ob_trial ob), map_of (er_attempts r) (ob_attempt ob)) of
                         (Some t, Some a) \<Rightarrow>
                           (case store_observation r t a ob (cs_last_sequence (im_state im)) of (r', s') \<Rightarrow>
                            let key = ob_experiment ob; xkey = ed_id (er_definition r);
                                im1 = index_observation xkey (ob_id ob) (length (er_observations r))
                                  (put_experiment key r' (im\<lparr>im_state := (im_state im)\<lparr>cs_last_sequence := s'\<rparr>\<rparr>))
                            in commit_status
                                 (\<lambda>i. unindex_observation xkey (ob_id ob) (put_experiment key (pop_observation r') i))
                                 (\<lambda>i. i) im1)
                       | _ \<Rightarrow> (success, im)))"

section \<open>Artifacts\<close>

definition shim_observation :: "artifact_record \<Rightarrow> observation" where
  "shim_observation a =
     \<lparr>ob_id = null_id, ob_experiment = ar_experiment a, ob_generation = ar_generation a,
      ob_branch = ar_branch a, ob_branch_generation = null_id, ob_trial = ar_trial a,
      ob_attempt = ar_attempt a, ob_metric = null_id, ob_producer = null_id, ob_worker = null_id,
      ob_boot = null_id, ob_epoch = null_id, ob_validity = OV_VALID,
      ob_value = \<lparr>mv_kind = MK_REAL, mv_real = d_zero, mv_integer = 0, mv_boolean = False, mv_category = []\<rparr>,
      ob_detail = [], ob_sequence = 0\<rparr>"

definition reject_artifact :: "publish_artifact_request \<Rightarrow> authority_verdict \<Rightarrow> impl \<Rightarrow> status \<times> impl" where
  "reject_artifact q v im =
     (let key = ar_experiment (pb_artifact q)
      in case find_experiment im key of
           None \<Rightarrow> (authority_error (av_code v) (av_detail v), im)
         | Some r \<Rightarrow>
             case persist_locked (put_experiment key
               (note_rejection (lit ''artifact'') (id_value (ar_id (pb_artifact q))) v r) im) of (persisted, im1) \<Rightarrow>
               if \<not> st_ok persisted then (persisted, im1)
               else (authority_error (av_code v) (av_detail v), im1))"

definition locator_check :: "limits \<Rightarrow> artifact_record \<Rightarrow> status" where
  "locator_check l a =
     (if ar_locator a = [] \<or> length (ar_locator a) > unat (lm_max_locator_length l)
        then make_error EC_INVALID_ARGUMENT EG_OBSERVATION (lit ''artifact locator is empty or too long'')
      else success)"

definition artifact_room :: "limits \<Rightarrow> experiment_record \<Rightarrow> trial_record \<Rightarrow> status" where
  "artifact_room l r t =
     (if length (er_artifacts r) \<ge> unat (lm_max_artifacts_per_experiment l)
        then limits_error (lit ''experiment holds too many artifact references'')
      else if length (tr_artifacts t) \<ge> unat (lm_max_artifacts_per_attempt l)
        then limits_error (lit ''attempt holds too many artifact references'')
      else success)"

definition admit_artifact_check :: "impl \<Rightarrow> experiment_record \<Rightarrow> trial_record \<Rightarrow> artifact_record \<Rightarrow> status option" where
  "admit_artifact_check im r t a =
     (let room = artifact_room (im_limits im) r t; located = locator_check (im_limits im) a
      in if \<not> st_ok room then Some room
         else if \<not> st_ok located then Some located
         else if length (ar_provenance a) > unat (lm_max_provenance_length (im_limits im))
           then Some (make_error EC_INVALID_ARGUMENT EG_OBSERVATION
             (lit ''artifact provenance text is too long''))
         else case map_of (artifact_index_of im (ed_id (er_definition r))) (ar_id a) of
             Some i \<Rightarrow>
               Some (if same_artifact (er_artifacts r ! i) a then success
                 else make_error EC_ALREADY_EXISTS EG_IDENTITY
                   (lit ''artifact identity already exists with different content''))
           | None \<Rightarrow> None)"

definition add_artifact :: "trial_id \<Rightarrow> artifact_record \<Rightarrow> experiment_record \<Rightarrow> experiment_record" where
  "add_artifact tid a r =
     r\<lparr>er_artifacts := er_artifacts r @ [a],
       er_trials := omap_modify tid (\<lambda>t. t\<lparr>tr_artifacts := tr_artifacts t @ [ar_id a]\<rparr>) (er_trials r)\<rparr>"

definition pop_artifact :: "trial_id \<Rightarrow> experiment_record \<Rightarrow> experiment_record" where
  "pop_artifact tid r =
     r\<lparr>er_artifacts := butlast (er_artifacts r),
       er_trials := omap_modify tid (\<lambda>t. t\<lparr>tr_artifacts := butlast (tr_artifacts t)\<rparr>) (er_trials r)\<rparr>"

definition touch_trial :: "trial_id \<Rightarrow> u64 \<Rightarrow> experiment_record \<Rightarrow> experiment_record" where
  "touch_trial tid sequence r =
     r\<lparr>er_trials := omap_modify tid (\<lambda>t. t\<lparr>tr_updated_sequence := sequence\<rparr>) (er_trials r)\<rparr>"

definition publish_artifact :: "publish_artifact_request \<Rightarrow> impl \<Rightarrow> status \<times> impl" where
  "publish_artifact q im =
     (let art = pb_artifact q; key = ar_experiment art
      in case find_experiment im key of
           None \<Rightarrow> (authority_error EC_NOT_FOUND (lit ''experiment does not exist''), im)
         | Some r \<Rightarrow>
             case find (\<lambda>b. bd_id b = ar_branch art) (ed_branches (er_definition r)) of
               None \<Rightarrow> (authority_error EC_STALE_BRANCH (lit ''artifact references an unknown branch''), im)
             | Some b \<Rightarrow>
                 case map_of (er_attempts r) (ar_attempt art) of
                   None \<Rightarrow> (authority_error EC_STALE_ATTEMPT (lit ''artifact references an unknown attempt''), im)
                 | Some attempt \<Rightarrow>
                     let e = (envelope_from (shim_observation art) (pb_epoch q) (pb_worker q) (pb_boot q) r)
                           \<lparr>ae_branch_generation := bd_generation b, ae_producer := at_producer attempt\<rparr>;
                         v = check_envelope im e
                     in if \<not> av_accepted v then reject_artifact q v im
                        else case map_of (er_trials r) (ar_trial art) of
                            None \<Rightarrow> (success, im)
                          | Some t \<Rightarrow>
                              (case admit_artifact_check im r t art of
                                 Some s \<Rightarrow> (s, im)
                               | None \<Rightarrow>
                                   let s1 = cs_last_sequence (im_state im) + 1;
                                       xkey = ed_id (er_definition r);
                                       r1 = touch_trial (ar_trial art) (s1 + 1)
                                         (add_artifact (ar_trial art)
                                            (art\<lparr>ar_sequence := s1, ar_current := True\<rparr>) r);
                                       im1 = index_artifact xkey (ar_id art) (length (er_artifacts r))
                                         (put_experiment key r1
                                           (im\<lparr>im_state := (im_state im)\<lparr>cs_last_sequence := s1 + 1\<rparr>\<rparr>))
                                   in commit_status
                                        (\<lambda>i. unindex_artifact xkey (ar_id art)
                                          (put_experiment key (pop_artifact (ar_trial art) r1) i))
                                        (\<lambda>i. i) im1))"

section \<open>Completion\<close>

definition presented :: "coordinator_epoch \<Rightarrow> worker_id \<Rightarrow> worker_boot_id \<Rightarrow> authority_envelope \<Rightarrow> bool" where
  "presented e w b env \<longleftrightarrow> \<not> (e \<noteq> ae_epoch env \<or> w \<noteq> ae_worker env \<or> b \<noteq> ae_boot env)"

text \<open>
  The loop that registers the artifacts submitted with a completion. It stops at the first one it
  refuses and leaves those before it registered; on success it returns the registered identities.
\<close>

fun register_artifacts ::
    "experiment_id \<Rightarrow> trial_id \<Rightarrow> attempt_record \<Rightarrow> artifact_record list \<Rightarrow> impl \<Rightarrow> artifact_id list result \<times> impl" where
  "register_artifacts key tid a [] im = (Inr [], im)"
| "register_artifacts key tid a (submitted # rest) im =
     (case find_experiment im key of
        None \<Rightarrow> (Inr [], im)
      | Some r \<Rightarrow>
          (case map_of (er_trials r) tid of
             None \<Rightarrow> (Inr [], im)
           | Some t \<Rightarrow>
               let room = artifact_room (im_limits im) r t; located = locator_check (im_limits im) submitted
               in if \<not> st_ok room then (Inl room, im)
                  else if \<not> st_ok located then (Inl located, im)
                  else case next_sequence im of (sequence, im1) \<Rightarrow>
                    let xkey = ed_id (er_definition r);
                        artifact = submitted\<lparr>ar_experiment := xkey,
                          ar_generation := ed_generation (er_definition r), ar_branch := tr_branch t,
                          ar_trial := tr_id t, ar_attempt := at_id a, ar_sequence := sequence,
                          ar_current := True\<rparr>
                    in if map_of (artifact_index_of im1 xkey) (ar_id submitted) \<noteq> None
                         then (Inl (make_error EC_ALREADY_EXISTS EG_IDENTITY
                           (lit ''artifact identity already exists in this experiment'')), im1)
                       else
                         (case register_artifacts key tid a rest
                            (index_artifact xkey (ar_id submitted) (length (er_artifacts r))
                              (put_experiment key (add_artifact tid artifact r) im1)) of
                            (Inl e, im2) \<Rightarrow> (Inl e, im2)
                          | (Inr ids, im2) \<Rightarrow> (Inr (ar_id submitted # ids), im2))))"

definition unregister_artifacts :: "experiment_id \<Rightarrow> experiment_id \<Rightarrow> trial_id \<Rightarrow> artifact_id list \<Rightarrow> impl \<Rightarrow> impl" where
  "unregister_artifacts key xkey tid ids im =
     (let im1 = fold (unindex_artifact xkey) ids im
      in case find_experiment im1 key of
           None \<Rightarrow> im1
         | Some r \<Rightarrow> put_experiment key ((pop_artifact tid ^^ length ids) r) im1)"

definition complete_trial ::
    "trial_id \<Rightarrow> trial_attempt_id \<Rightarrow> u64 \<Rightarrow> experiment_record \<Rightarrow> experiment_record" where
  "complete_trial tid aid sequence r =
     log_line (lit ''trial-committed trial='' @ id_to_string tid @ lit '' attempt='' @ id_to_string aid)
       (r\<lparr>er_attempts := omap_modify aid (\<lambda>a. a\<lparr>at_state := AS_COMPLETED, at_committed := True,
             at_updated_sequence := sequence\<rparr>) (er_attempts r),
          er_trials := omap_modify tid (\<lambda>t. t\<lparr>tr_state := TS_COMPLETED, tr_committed_attempts := 1,
             tr_failure_kind := FK_NONE, tr_failure_detail := [], tr_updated_sequence := sequence\<rparr>)
            (er_trials r)\<rparr>)"

definition attempt_observations :: "experiment_record \<Rightarrow> trial_id \<Rightarrow> trial_attempt_id \<Rightarrow> u32" where
  "attempt_observations r tid aid =
     count32 (\<lambda>ob. ob_trial ob = tid \<and> ob_attempt ob = aid) (er_observations r)"

definition commit_checked ::
    "experiment_id \<Rightarrow> experiment_record \<Rightarrow> trial_record \<Rightarrow> attempt_record \<Rightarrow> artifact_record list \<Rightarrow> impl \<Rightarrow>
     status \<times> impl" where
  "commit_checked key r t a artifacts im =
     (if tr_state t = TS_COMPLETED \<and> at_committed a then (success, im)
      else if attempt_observations r (tr_id t) (at_id a) = 0
        then (make_error EC_INSUFFICIENT_EVIDENCE EG_OBSERVATION
          (lit ''trial completion requires at least one observation''), im)
      else case next_sequence im of (sequence, im1) \<Rightarrow>
        case register_artifacts key (tr_id t) a artifacts im1 of
          (Inl e, im2) \<Rightarrow> (e, im2)
        | (Inr registered, im2) \<Rightarrow>
            if \<not> attempt_transition (at_state a) AS_COMPLETED
              then (invalid_transition_status (lit ''attempt'') (attempt_state_to_string (at_state a))
                      (lit ''COMPLETED''),
                    unregister_artifacts key (ed_id (er_definition r)) (tr_id t) registered im2)
            else case find_experiment im2 key of
                None \<Rightarrow> (success, im2)
              | Some r2 \<Rightarrow>
                  commit_status (\<lambda>i. i) (\<lambda>i. i)
                    (put_experiment key (complete_trial (tr_id t) (at_id a) sequence r2) im2))"

definition commit_trial :: "commit_trial_request \<Rightarrow> impl \<Rightarrow> status \<times> impl" where
  "commit_trial q im =
     (let e = cm_envelope q
      in if \<not> presented (cm_epoch q) (cm_worker q) (cm_boot q) e
           then (protocol_error (lit ''commit envelope does not match the presenting transport identity''), im)
         else let v = check_envelope im e
           in if \<not> av_accepted v then (authority_error (av_code v) (av_detail v), im)
              else case find_experiment im (ae_experiment e) of
                  None \<Rightarrow> (success, im)
                | Some r \<Rightarrow>
                    (case (map_of (er_trials r) (ae_trial e), map_of (er_attempts r) (ae_attempt e)) of
                       (Some t, Some a) \<Rightarrow> commit_checked (ae_experiment e) r t a (cm_artifacts q) im
                     | _ \<Rightarrow> (success, im)))"

section \<open>Failure\<close>

definition fail_trial_record :: "bool \<Rightarrow> failure_kind \<Rightarrow> string \<Rightarrow> u64 \<Rightarrow> trial_record \<Rightarrow> trial_record" where
  "fail_trial_record retry kind detail sequence t =
     (let t1 = (if retry
            then t\<lparr>tr_state := TS_READY, tr_authoritative_attempt := null_id,
                   tr_next_attempt_number := from_value (ucast (tr_attempt_count t + 1))\<rparr>
            else t\<lparr>tr_state := TS_FAILED\<rparr>)
      in t1\<lparr>tr_failure_kind := kind, tr_failure_detail := detail, tr_updated_sequence := sequence\<rparr>)"

definition invalidate_branch :: "branch_id \<Rightarrow> string \<Rightarrow> experiment_record \<Rightarrow> experiment_record" where
  "invalidate_branch branch detail r =
     (case find_branch r branch of
        None \<Rightarrow> r
      | Some b \<Rightarrow>
          if branch_transition (bd_state b) BS_INVALID
          then log_line (lit ''branch-invalidated branch='' @ id_to_string branch @ lit '' reason='' @ detail)
                 (put_branch branch (\<lambda>x. x\<lparr>bd_state := BS_INVALID\<rparr>) r)
          else r)"

definition fail_record ::
    "fail_trial_request \<Rightarrow> trial_record \<Rightarrow> attempt_record \<Rightarrow> u64 \<Rightarrow> experiment_record \<Rightarrow> experiment_record" where
  "fail_record q t a sequence r =
     (let d = er_definition r;
          retry = (fl_retryable q \<and> ed_retry_policy d \<noteq> RP_NO_RETRY \<and>
            tr_attempt_count t < ed_max_attempts_per_trial d);
          r1 = r\<lparr>er_attempts := omap_put (at_id a) (a\<lparr>at_state := AS_FAILED, at_failure_kind := fl_kind q,
                  at_failure_detail := fl_detail q, at_updated_sequence := sequence\<rparr>) (er_attempts r),
                er_trials := omap_put (tr_id t) (fail_trial_record retry (fl_kind q) (fl_detail q) sequence t)
                  (er_trials r)\<rparr>;
          r2 = (if ed_partial_failure_policy d = PF_INVALIDATE_BRANCH
            then invalidate_branch (tr_branch t) (fl_detail q) r1 else r1)
      in log_line (lit ''trial-failed trial='' @ id_to_string (tr_id t) @ lit '' kind='' @
           failure_kind_to_string (fl_kind q)) r2)"

definition fail_trial :: "fail_trial_request \<Rightarrow> impl \<Rightarrow> status \<times> impl" where
  "fail_trial q im =
     (let e = fl_envelope q
      in if \<not> presented (fl_epoch q) (fl_worker q) (fl_boot q) e
           then (protocol_error (lit ''failure envelope does not match the presenting transport identity''), im)
         else let v = check_envelope im e
           in if \<not> av_accepted v then (authority_error (av_code v) (av_detail v), im)
              else case find_experiment im (ae_experiment e) of
                  None \<Rightarrow> (success, im)
                | Some r \<Rightarrow>
                    (case (map_of (er_trials r) (ae_trial e), map_of (er_attempts r) (ae_attempt e)) of
                       (Some t, Some a) \<Rightarrow>
                         if fl_kind q = FK_NONE
                           then (make_error EC_INVALID_ARGUMENT EG_LIFECYCLE
                             (lit ''a failure must name a non-NONE failure kind''), im)
                         else case next_sequence im of (sequence, im1) \<Rightarrow>
                           commit_status (\<lambda>i. i) (\<lambda>i. i)
                             (put_experiment (ae_experiment e) (fail_record q t a sequence r) im1)
                     | _ \<Rightarrow> (success, im)))"

section \<open>Cancellation\<close>

definition cancel_trial_record :: "trial_id \<Rightarrow> string \<Rightarrow> u64 \<Rightarrow> experiment_record \<Rightarrow> experiment_record" where
  "cancel_trial_record tid reason sequence r =
     log_line (lit ''trial-cancelled trial='' @ id_to_string tid @ lit '' reason='' @ reason)
       (r\<lparr>er_trials := omap_modify tid (\<lambda>t. t\<lparr>tr_state := TS_CANCELLED, tr_failure_kind := FK_CANCELLATION,
             tr_failure_detail := reason, tr_updated_sequence := sequence\<rparr>) (er_trials r),
          er_attempts := close_attempts (\<lambda>a. at_trial a = tid) AS_CANCELLED FK_CANCELLATION reason sequence
             (er_attempts r),
          er_revision_sequence := sequence\<rparr>)"

definition cancel_trial :: "trial_id \<Rightarrow> string \<Rightarrow> impl \<Rightarrow> status \<times> impl" where
  "cancel_trial tid reason im =
     (case find (\<lambda>e. map_of (er_trials (snd e)) tid \<noteq> None) (cs_experiments (im_state im)) of
        None \<Rightarrow> (make_error EC_NOT_FOUND EG_LIFECYCLE (lit ''trial does not exist''), im)
      | Some (key, r) \<Rightarrow>
          (case map_of (er_trials r) tid of
             None \<Rightarrow> (make_error EC_NOT_FOUND EG_LIFECYCLE (lit ''trial does not exist''), im)
           | Some t \<Rightarrow>
               if is_terminal (tr_state t) then
                 (if tr_state t = TS_CANCELLED then (success, im)
                  else (invalid_transition_status (lit ''trial'') (trial_state_to_string (tr_state t))
                    (lit ''CANCELLED''), im))
               else case next_sequence im of (sequence, im1) \<Rightarrow>
                 commit_status (\<lambda>i. i) (notify_event (lit ''trial-cancelled:'' @ id_to_string tid))
                   (put_experiment key (cancel_trial_record tid reason sequence r) im1)))"

definition cancel_experiment_record :: "string \<Rightarrow> u64 \<Rightarrow> experiment_record \<Rightarrow> experiment_record" where
  "cancel_experiment_record reason sequence r =
     log_line (lit ''experiment-cancelled reason='' @ reason)
       (r\<lparr>er_state := ES_CANCELLED,
          er_trials := close_trials (\<lambda>t. True) TS_CANCELLED FK_CANCELLATION reason sequence (er_trials r),
          er_attempts := close_attempts (\<lambda>a. True) AS_CANCELLED FK_CANCELLATION reason sequence (er_attempts r),
          er_revision_sequence := sequence\<rparr>)"

definition cancel_experiment :: "experiment_id \<Rightarrow> string \<Rightarrow> impl \<Rightarrow> status \<times> impl" where
  "cancel_experiment experiment reason im =
     (case find_experiment im experiment of
        None \<Rightarrow> (make_error EC_NOT_FOUND EG_LIFECYCLE (lit ''experiment does not exist''), im)
      | Some r \<Rightarrow>
          if er_state r = ES_CANCELLED then (success, im)
          else if \<not> experiment_transition (er_state r) ES_CANCELLED
            then (invalid_transition_status (lit ''experiment'') (experiment_state_to_string (er_state r))
              (lit ''CANCELLED''), im)
          else case next_sequence im of (sequence, im1) \<Rightarrow>
            commit_status (\<lambda>i. i) (notify_event (lit ''experiment-cancelled:'' @ id_to_string experiment))
              (put_experiment experiment (cancel_experiment_record reason sequence r) im1))"

section \<open>What an accepted envelope means\<close>

definition complete_envelope :: "authority_envelope \<Rightarrow> bool" where
  "complete_envelope e \<longleftrightarrow>
     valid (ae_epoch e) \<and> valid (ae_experiment e) \<and> valid (ae_generation e) \<and> valid (ae_hypothesis e) \<and>
     valid (ae_hypothesis_revision e) \<and> valid (ae_policy e) \<and> valid (ae_policy_generation e) \<and>
     valid (ae_branch e) \<and> valid (ae_branch_generation e) \<and> valid (ae_trial e) \<and> valid (ae_attempt e) \<and>
     valid (ae_worker e) \<and> valid (ae_boot e) \<and> valid (ae_producer e)"

definition live_process :: "impl \<Rightarrow> authority_envelope \<Rightarrow> bool" where
  "live_process im e \<longleftrightarrow>
     im_admitting_work im \<and> ae_epoch e = im_epoch im \<and>
     (\<exists>live. find_live_worker im (ae_worker e) (ae_boot e) = Some live \<and>
        \<not> lw_revoked live \<and> lw_producer live = ae_producer e)"

definition current_definition :: "experiment_record \<Rightarrow> authority_envelope \<Rightarrow> bool" where
  "current_definition r e \<longleftrightarrow>
     is_experiment_mutable (er_state r) \<and> ae_generation e = ed_generation (er_definition r) \<and>
     ae_hypothesis e = ed_hypothesis (er_definition r) \<and>
     ae_hypothesis_revision e = ed_hypothesis_revision (er_definition r) \<and>
     ae_policy e = cp_id (ed_policy (er_definition r)) \<and>
     ae_policy_generation e = cp_generation (ed_policy (er_definition r)) \<and>
     (\<exists>b. find_branch r (ae_branch e) = Some b \<and> bd_generation b = ae_branch_generation e \<and>
        is_branch_eligible (bd_state b))"

definition authoritative_trial :: "trial_record \<Rightarrow> authority_envelope \<Rightarrow> bool" where
  "authoritative_trial t e \<longleftrightarrow>
     tr_branch t = ae_branch e \<and> tr_generation t = ae_generation e \<and>
     tr_branch_generation t = ae_branch_generation e \<and>
     tr_hypothesis_revision t = ae_hypothesis_revision e \<and> tr_policy t = ae_policy e \<and>
     tr_policy_generation t = ae_policy_generation e \<and> \<not> is_terminal (tr_state t) \<and>
     tr_authoritative_attempt t = ae_attempt e"

definition authoritative_attempt :: "attempt_record \<Rightarrow> authority_envelope \<Rightarrow> bool" where
  "authoritative_attempt a e \<longleftrightarrow>
     at_worker a = ae_worker e \<and> at_boot a = ae_boot e \<and> at_epoch a = ae_epoch e \<and>
     \<not> is_attempt_terminal (at_state a)"

text \<open>
  The specification of authority: a complete envelope from a live, unrevoked incarnation of the
  current epoch, for the current definition of a mutable experiment, naming a live trial of it
  and that trial's authoritative, live attempt, issued to this incarnation in this epoch.
\<close>

definition holds_authority ::
    "impl \<Rightarrow> authority_envelope \<Rightarrow> experiment_record \<Rightarrow> trial_record \<Rightarrow> attempt_record \<Rightarrow> bool" where
  "holds_authority im e r t a \<longleftrightarrow>
     complete_envelope e \<and> live_process im e \<and> find_experiment im (ae_experiment e) = Some r \<and>
     current_definition r e \<and> map_of (er_trials r) (ae_trial e) = Some t \<and> authoritative_trial t e \<and>
     map_of (er_attempts r) (ae_attempt e) = Some a \<and> authoritative_attempt a e"

lemma av_accepted_simps [simp]:
  "av_accepted verdict_accept" "\<not> av_accepted (reject c m)" "\<not> av_accepted (null_field m)"
  by (simp_all add: verdict_accept_def reject_def null_field_def verdict_reject_def)

lemma structure_accepts: "av_accepted (validate_envelope_structure e) \<longleftrightarrow> complete_envelope e"
  by (simp add: validate_envelope_structure_def complete_envelope_def)

lemma check_worker_passes: "check_worker im e = None \<longleftrightarrow> live_process im e"
  by (auto simp: check_worker_def live_process_def split: option.splits)

lemma check_definition_passes:
  "check_experiment r e = None \<and> check_envelope_branch r e = None \<longleftrightarrow> current_definition r e"
  by (auto simp: check_experiment_def check_envelope_branch_def current_definition_def Let_def fence_simps
      split: option.splits)

lemma check_trial_passes: "check_envelope_trial t e = None \<longleftrightarrow> authoritative_trial t e"
  by (auto simp: check_envelope_trial_def authoritative_trial_def fence_simps)

lemma check_attempt_passes: "check_envelope_attempt a e = None \<longleftrightarrow> authoritative_attempt a e"
  by (auto simp: check_envelope_attempt_def authoritative_attempt_def)

lemma check_verdicts_reject:
  "check_worker im e = Some v \<Longrightarrow> \<not> av_accepted v"
  "check_experiment r e = Some v \<Longrightarrow> \<not> av_accepted v"
  "check_envelope_branch r e = Some v \<Longrightarrow> \<not> av_accepted v"
  "check_envelope_trial t e = Some v \<Longrightarrow> \<not> av_accepted v"
  "check_envelope_attempt a e = Some v \<Longrightarrow> \<not> av_accepted v"
  by (auto simp: check_worker_def check_experiment_def check_envelope_branch_def check_envelope_trial_def
      check_envelope_attempt_def Let_def split: option.splits if_splits)

lemma check_record_accepts:
  "av_accepted (check_record r e) \<longleftrightarrow>
     current_definition r e \<and>
     (\<exists>t a. map_of (er_trials r) (ae_trial e) = Some t \<and> authoritative_trial t e \<and>
        map_of (er_attempts r) (ae_attempt e) = Some a \<and> authoritative_attempt a e)"
  by (simp add: check_record_def check_definition_passes [symmetric] check_trial_passes [symmetric]
      check_attempt_passes [symmetric] check_verdicts_reject split: option.split)

lemma check_envelope_accepts:
  "av_accepted (check_envelope im e) \<longleftrightarrow> (\<exists>r t a. holds_authority im e r t a)"
  using check_worker_passes [of im e]
  by (auto simp: check_envelope_def Let_def structure_accepts check_record_accepts
      check_verdicts_reject holds_authority_def split: option.splits)

end
