(* ===== verification/Decision.thy ===== *)
theory Decision
  imports Evidence Authority
begin

text \<open>
  \<^verbatim>\<open>src/coordinator_decision.cpp\<close>: hard evidence constraints, comparison factors, the decision they
  build, finalization of an experiment and rollback to a recorded point.
\<close>

section \<open>Helpers\<close>

definition metric_name :: "experiment_record \<Rightarrow> metric_id \<Rightarrow> string" where
  "metric_name r mid =
     (case find_metric r mid of Some m \<Rightarrow> md_name m | None \<Rightarrow> lit ''metric#'' @ id_to_string mid)"

definition improvement :: "metric_direction \<Rightarrow> double \<Rightarrow> double \<Rightarrow> double" where
  "improvement direction baseline candidate =
     (case direction of
        MD_MINIMIZE \<Rightarrow> d_sub baseline candidate
      | MD_MAXIMIZE \<Rightarrow> d_sub candidate baseline
      | MD_TARGET \<Rightarrow> d_sub candidate baseline
      | MD_INFORMATIONAL \<Rightarrow> d_sub candidate baseline)"

text \<open>\<^verbatim>\<open>branch_has_metric\<close> and its out parameter: the first aggregate of the metric, if there is one.\<close>

definition branch_metric :: "branch_evidence \<Rightarrow> metric_id \<Rightarrow> metric_aggregate option" where
  "branch_metric ev mid = find (\<lambda>a. ma_metric a = mid) (be_aggregates ev)"

definition present_aggregate :: "branch_evidence option \<Rightarrow> metric_id \<Rightarrow> metric_aggregate option" where
  "present_aggregate ev mid =
     (case ev of
        None \<Rightarrow> None
      | Some e \<Rightarrow>
          (case branch_metric e mid of
             None \<Rightarrow> None
           | Some a \<Rightarrow> if ma_present a then Some a else None))"

definition evidence_of :: "branch_evidence list \<Rightarrow> branch_id \<Rightarrow> branch_evidence option" where
  "evidence_of evidence branch = find_last (\<lambda>e. be_branch e = branch) evidence"

definition u32_text :: "u32 \<Rightarrow> string" where
  "u32_text v = int_to_string (uint v)"

section \<open>Hard constraints\<close>

text \<open>
  The running verdict of \<^verbatim>\<open>apply_constraints\<close>. \<open>add\<close> records a constraint; \<open>fail\<close> takes effect only
  while the outcome is still ACCEPT, so the first failure decides outcome and reason.
\<close>

record verdict =
  vd_constraints :: "constraint_result list"
  vd_outcome :: decision_outcome
  vd_reason_kind :: failure_kind
  vd_reason :: string

definition verdict_start :: verdict where
  "verdict_start =
     \<lparr>vd_constraints = [], vd_outcome = DO_ACCEPT, vd_reason_kind = FK_NONE,
      vd_reason = lit ''all hard evidence constraints passed and every decisive comparison factor was satisfied''\<rparr>"

definition add :: "string \<Rightarrow> bool \<Rightarrow> string \<Rightarrow> verdict \<Rightarrow> verdict" where
  "add name passed detail v =
     v\<lparr>vd_constraints := vd_constraints v @ [\<lparr>cn_name = name, cn_passed = passed, cn_detail = detail\<rparr>]\<rparr>"

definition fail :: "decision_outcome \<Rightarrow> failure_kind \<Rightarrow> string \<Rightarrow> verdict \<Rightarrow> verdict" where
  "fail outcome kind reason v =
     (if vd_outcome v = DO_ACCEPT
      then v\<lparr>vd_outcome := outcome, vd_reason_kind := kind, vd_reason := reason\<rparr> else v)"

definition fail_if :: "bool \<Rightarrow> decision_outcome \<Rightarrow> failure_kind \<Rightarrow> string \<Rightarrow> verdict \<Rightarrow> verdict" where
  "fail_if b outcome kind reason v = (if b then fail outcome kind reason v else v)"

definition insufficient_if :: "bool \<Rightarrow> string \<Rightarrow> verdict \<Rightarrow> verdict" where
  "insufficient_if b reason = fail_if b DO_INSUFFICIENT_EVIDENCE FK_INSUFFICIENT_EVIDENCE reason"

definition constrain_open :: "experiment_record \<Rightarrow> verdict \<Rightarrow> verdict" where
  "constrain_open r v =
     (let v1 = add (lit ''experiment_open'') (er_state r = ES_OPEN)
            (lit ''experiment state is '' @ experiment_state_to_string (er_state r)) v
      in case er_state r of
           ES_OPEN \<Rightarrow> v1
         | ES_CANCELLED \<Rightarrow> fail DO_CANCELLED FK_CANCELLATION (lit ''the experiment was cancelled'') v1
         | ES_SUPERSEDED \<Rightarrow> fail DO_SUPERSEDED FK_EXPERIMENT_INVALIDATION (lit ''the experiment was superseded'') v1
         | ES_RECOVERING \<Rightarrow> fail DO_INSUFFICIENT_EVIDENCE FK_PRODUCER_LOSS
             (lit ''the experiment is recovering and has not reconciled its live authority'') v1
         | ES_FINALIZED \<Rightarrow> fail DO_INVALID FK_POLICY_REJECTION
             (lit ''the experiment already holds an authoritative decision'') v1)"

definition constrain_candidate :: "branch_definition \<Rightarrow> branch_evidence option \<Rightarrow> verdict \<Rightarrow> verdict" where
  "constrain_candidate c ev v =
     (let v1 = add (lit ''candidate_branch_eligible'')
            (case ev of None \<Rightarrow> False
               | Some e \<Rightarrow> is_branch_eligible (bd_state c) \<and> be_generation e = bd_generation c)
            (lit ''candidate branch state is '' @ branch_state_to_string (bd_state c)) v
      in if ev = None \<or> \<not> is_branch_eligible (bd_state c) then
           (if bd_state c = BS_INVALID
              then fail DO_INVALID FK_POLICY_REJECTION (lit ''the candidate branch is invalid'') v1
            else if bd_state c = BS_SUPERSEDED
              then fail DO_SUPERSEDED FK_EXPERIMENT_INVALIDATION (lit ''the candidate branch was superseded'') v1
            else fail DO_INSUFFICIENT_EVIDENCE FK_INSUFFICIENT_EVIDENCE
              (lit ''the candidate branch is not eligible for a decision'') v1)
         else v1)"

definition constrain_baseline ::
    "comparison_policy \<Rightarrow> branch_definition option \<Rightarrow> branch_evidence option \<Rightarrow> verdict \<Rightarrow> verdict" where
  "constrain_baseline p baseline ev v =
     (let v1 = add (lit ''baseline_present'') (\<not> cp_require_baseline p \<or> baseline \<noteq> None)
            (pick (baseline = None) (lit ''no baseline branch is designated'') (lit ''baseline designated'')) v
      in case baseline of
           None \<Rightarrow>
             insufficient_if (cp_require_baseline p)
               (lit ''the policy requires a baseline branch and none is designated'') v1
         | Some b \<Rightarrow>
             insufficient_if (ev = None \<or> \<not> is_branch_eligible (bd_state b))
               (lit ''the baseline branch is not eligible for a decision'')
               (add (lit ''baseline_branch_eligible'') (ev \<noteq> None \<and> is_branch_eligible (bd_state b))
                 (lit ''baseline branch state is '' @ branch_state_to_string (bd_state b)) v1))"

definition constrain_completed ::
    "comparison_policy \<Rightarrow> string \<Rightarrow> string \<Rightarrow> branch_evidence option \<Rightarrow> verdict \<Rightarrow> verdict" where
  "constrain_completed p name reason ev v =
     (case ev of
        None \<Rightarrow> v
      | Some e \<Rightarrow>
          let enough = (be_completed_trials e \<ge> cp_min_completed_trials_per_branch p)
          in insufficient_if (\<not> enough) reason
               (add name enough (lit ''completed='' @ u32_text (be_completed_trials e) @
                  lit '' required='' @ u32_text (cp_min_completed_trials_per_branch p)) v))"

text \<open>The checks of one required metric on one branch.\<close>

definition constrain_metric_on ::
    "comparison_policy \<Rightarrow> metric_definition \<Rightarrow> string \<Rightarrow> string \<Rightarrow> string \<Rightarrow> string \<Rightarrow> string \<Rightarrow>
     branch_evidence option \<Rightarrow> verdict \<Rightarrow> verdict" where
  "constrain_metric_on p m required_name valid_name absent missing few ev v =
     (let aggregate = present_aggregate ev (md_id m);
          v1 = add (required_name @ md_name m) (aggregate \<noteq> None)
            (pick (aggregate \<noteq> None) (lit ''present'') absent) v
      in case aggregate of
           None \<Rightarrow> insufficient_if True missing v1
         | Some a \<Rightarrow>
             if ma_valid_count a < cp_min_valid_observations_per_required_metric p
             then insufficient_if True few
               (add (valid_name @ md_name m) False
                 (lit ''valid='' @ u32_text (ma_valid_count a) @
                  lit '' required='' @ u32_text (cp_min_valid_observations_per_required_metric p)) v1)
             else v1)"

definition invalid_of :: "branch_evidence option \<Rightarrow> metric_id \<Rightarrow> u32" where
  "invalid_of ev mid =
     (case ev of None \<Rightarrow> 0
      | Some e \<Rightarrow> (case branch_metric e mid of None \<Rightarrow> 0 | Some a \<Rightarrow> ma_invalid_count a))"

definition constrain_invalid ::
    "comparison_policy \<Rightarrow> metric_definition \<Rightarrow> branch_evidence option \<Rightarrow> branch_evidence option \<Rightarrow> verdict \<Rightarrow> verdict" where
  "constrain_invalid p m candidate_ev baseline_ev v =
     (if cp_reject_on_any_invalid_observation p then
        let invalid = invalid_of candidate_ev (md_id m) + invalid_of baseline_ev (md_id m)
        in fail_if (invalid \<noteq> 0) DO_INVALID FK_INVALID_OBSERVATION
             (lit ''the policy rejects any decision supported by unresolved invalid observations'')
             (add (lit ''no_invalid_observations:'' @ md_name m) (invalid = 0)
               (lit ''invalid='' @ u32_text invalid) v)
      else v)"

definition constrain_metric ::
    "comparison_policy \<Rightarrow> branch_evidence option \<Rightarrow> branch_evidence option \<Rightarrow> metric_definition \<Rightarrow> verdict \<Rightarrow> verdict" where
  "constrain_metric p candidate_ev baseline_ev m v =
     (if \<not> md_required m then v
      else
        let v1 = constrain_metric_on p m (lit ''candidate_required_metric:'') (lit ''candidate_valid_observations:'')
              (lit ''required metric has no authoritative aggregate on the candidate branch'')
              (lit ''a required metric has no authoritative aggregate on the candidate branch'')
              (lit ''a required metric holds fewer valid observations than the policy requires'') candidate_ev v;
            v2 = (if baseline_ev = None then v1
              else constrain_metric_on p m (lit ''baseline_required_metric:'') (lit ''baseline_valid_observations:'')
                (lit ''required metric has no authoritative aggregate on the baseline branch'')
                (lit ''a required metric has no authoritative aggregate on the baseline branch'')
                (lit ''a required metric holds fewer valid observations than the policy requires on the baseline branch'')
                baseline_ev v1)
        in constrain_invalid p m candidate_ev baseline_ev v2)"

definition compared_trials :: "experiment_record \<Rightarrow> branch_definition \<Rightarrow> branch_definition option \<Rightarrow> trial_record list" where
  "compared_trials r c baseline =
     filter (\<lambda>t. tr_state t = TS_COMPLETED \<and>
        (tr_branch t = bd_id c \<or> (case baseline of None \<Rightarrow> False | Some b \<Rightarrow> tr_branch t = bd_id b)))
      (omap_values (er_trials r))"

text \<open>The set of fingerprints in its order: \<open>sort\<close> without duplicates, whose head is \<^verbatim>\<open>*begin()\<close>.\<close>

definition constrain_environment ::
    "experiment_record \<Rightarrow> branch_definition \<Rightarrow> branch_definition option \<Rightarrow> verdict \<Rightarrow> verdict" where
  "constrain_environment r c baseline v =
     (if cp_require_environment_match (ed_policy (er_definition r)) then
        let ts = compared_trials r c baseline;
            prints = sort (remdups (filter (\<lambda>f. f \<noteq> []) (map tr_environment_fingerprint ts)));
            missing = count32 (\<lambda>t. tr_environment_fingerprint t = []) ts;
            matched = (length prints \<le> 1);
            v1 = add (lit ''environment_match'') matched
              (if matched then (if prints = [] then lit ''no environment fingerprint declared'' else hd prints)
               else lit ''compared branches were produced under different environment fingerprints'') v;
            v2 = fail_if (\<not> matched) DO_INVALID FK_POLICY_REJECTION
              (lit ''the compared branches were produced under different environment fingerprints'') v1
        in if missing \<noteq> 0 \<and> \<not> matched
           then v2\<lparr>vd_reason := vd_reason v2 @ lit ''; '' @ u32_text missing @
              lit '' compared trials declared no environment fingerprint''\<rparr>
           else v2
      else v)"

definition apply_constraints ::
    "experiment_record \<Rightarrow> branch_definition \<Rightarrow> branch_definition option \<Rightarrow> branch_evidence list \<Rightarrow> verdict" where
  "apply_constraints r c baseline evidence =
     (let p = ed_policy (er_definition r);
          candidate_ev = evidence_of evidence (bd_id c);
          baseline_ev = (case baseline of None \<Rightarrow> None | Some b \<Rightarrow> evidence_of evidence (bd_id b));
          v1 = constrain_open r verdict_start;
          v2 = constrain_candidate c candidate_ev v1;
          v3 = constrain_baseline p baseline baseline_ev v2;
          v4 = constrain_completed p (lit ''candidate_completed_trials'')
            (lit ''the candidate branch holds fewer authoritative completed trials than the policy requires'')
            candidate_ev v3;
          v5 = constrain_completed p (lit ''baseline_completed_trials'')
            (lit ''the baseline branch holds fewer authoritative completed trials than the policy requires'')
            baseline_ev v4;
          v6 = fold (constrain_metric p candidate_ev baseline_ev) (ed_metrics (er_definition r)) v5
      in constrain_environment r c baseline v6)"

section \<open>Comparison factors\<close>

record comparison =
  cx_factors :: "comparison_factor list"
  cx_any_decisive :: bool
  cx_any_decisive_failed :: bool
  cx_any_nonzero_delta :: bool
  cx_first_failed_metric :: string

definition comparison_start :: comparison where
  "comparison_start =
     \<lparr>cx_factors = [], cx_any_decisive = False, cx_any_decisive_failed = False,
      cx_any_nonzero_delta = False, cx_first_failed_metric = []\<rparr>"

definition factor_start :: "comparison_rule \<Rightarrow> comparison_factor" where
  "factor_start rule =
     \<lparr>cf_metric = cr_metric rule, cf_op = cr_op rule, cf_priority = cr_priority rule,
      cf_threshold = cr_threshold rule, cf_has_values = False, cf_baseline_value = d_zero,
      cf_candidate_value = d_zero, cf_delta = d_zero, cf_satisfied = False, cf_decisive = False,
      cf_detail = []\<rparr>"

definition record_failure :: "string \<Rightarrow> comparison \<Rightarrow> comparison" where
  "record_failure name x =
     x\<lparr>cx_any_decisive_failed := True,
       cx_first_failed_metric := (if cx_first_failed_metric x = [] then name else cx_first_failed_metric x)\<rparr>"

definition push_factor :: "comparison_factor \<Rightarrow> comparison \<Rightarrow> comparison" where
  "push_factor f x = x\<lparr>cx_factors := cx_factors x @ [f]\<rparr>"

definition rule_direction :: "experiment_record \<Rightarrow> metric_id \<Rightarrow> metric_direction" where
  "rule_direction r mid =
     (case find_last (\<lambda>m. md_id m = mid) (ed_metrics (er_definition r)) of
        None \<Rightarrow> MD_MINIMIZE | Some m \<Rightarrow> md_direction m)"

definition majority_fraction :: "metric_direction \<Rightarrow> double list \<Rightarrow> double list \<Rightarrow> double" where
  "majority_fraction direction candidates baselines =
     (let pairs = zip candidates baselines;
          wins = length (filter (\<lambda>(c, b). d_gt (improvement direction b c) d_zero) pairs)
      in d_div (d_of_nat wins) (d_of_nat (length pairs)))"

definition rule_satisfied ::
    "comparison_rule \<Rightarrow> metric_direction \<Rightarrow> metric_aggregate \<Rightarrow> metric_aggregate \<Rightarrow> bool" where
  "rule_satisfied rule direction candidate baseline =
     (let c = ma_value candidate; b = ma_value baseline
      in case cr_op rule of
           CO_GREATER_THAN \<Rightarrow> d_gt c (d_add b (cr_threshold rule))
         | CO_LESS_THAN \<Rightarrow> d_lt c (d_sub b (cr_threshold rule))
         | CO_MIN_IMPROVEMENT \<Rightarrow> d_ge (improvement direction b c) (cr_threshold rule)
         | CO_MAX_REGRESSION_TOLERANCE \<Rightarrow> d_le (d_neg (improvement direction b c)) (cr_threshold rule)
         | CO_TARGET_RANGE \<Rightarrow> d_ge c (cr_target_low rule) \<and> d_le c (cr_target_high rule)
         | CO_MAJORITY_WINS \<Rightarrow>
             ma_raw_values candidate \<noteq> [] \<and> ma_raw_values baseline \<noteq> [] \<and>
             d_ge (majority_fraction direction (ma_raw_values candidate) (ma_raw_values baseline)) (cr_threshold rule)
         | CO_REPORT_ONLY \<Rightarrow> True)"

definition rule_delta ::
    "comparison_rule \<Rightarrow> metric_direction \<Rightarrow> metric_aggregate \<Rightarrow> metric_aggregate \<Rightarrow> double" where
  "rule_delta rule direction candidate baseline =
     (if cr_op rule = CO_MAJORITY_WINS \<and> ma_raw_values candidate \<noteq> [] \<and> ma_raw_values baseline \<noteq> []
      then majority_fraction direction (ma_raw_values candidate) (ma_raw_values baseline)
      else d_sub (ma_value candidate) (ma_value baseline))"

text \<open>One round of the loop over the rules. The tie test looks at the difference of the aggregates.\<close>

definition compare_rule ::
    "experiment_record \<Rightarrow> branch_evidence option \<Rightarrow> branch_evidence option \<Rightarrow> comparison_rule \<Rightarrow> comparison \<Rightarrow> comparison" where
  "compare_rule r candidate_ev baseline_ev rule x0 =
     (if cr_op rule = CO_REPORT_ONLY then x0
      else
        let x = x0\<lparr>cx_any_decisive := True\<rparr>;
            name = metric_name r (cr_metric rule)
        in case (present_aggregate candidate_ev (cr_metric rule), present_aggregate baseline_ev (cr_metric rule)) of
             (Some c, Some b) \<Rightarrow>
               let direction = rule_direction r (cr_metric rule);
                   satisfied = rule_satisfied rule direction c b;
                   f = (factor_start rule)\<lparr>cf_has_values := True, cf_baseline_value := ma_value b,
                     cf_candidate_value := ma_value c, cf_delta := rule_delta rule direction c b,
                     cf_satisfied := satisfied, cf_decisive := True,
                     cf_detail := lit ''metric '' @ name @ lit '' baseline='' @ d_to_string (ma_value b) @
                       lit '' candidate='' @ d_to_string (ma_value c) @
                       lit '' threshold='' @ d_to_string (cr_threshold rule)\<rparr>;
                   x1 = (if d_ne (d_sub (ma_value c) (ma_value b)) d_zero
                     then x\<lparr>cx_any_nonzero_delta := True\<rparr> else x)
               in push_factor f (if satisfied then x1 else record_failure name x1)
           | _ \<Rightarrow>
               push_factor ((factor_start rule)\<lparr>cf_satisfied := False, cf_decisive := True,
                 cf_detail := lit ''comparison factor '' @ name @
                   lit '' could not be evaluated: authoritative aggregate missing''\<rparr>)
                 (record_failure name x))"

section \<open>Weighted score\<close>

definition score_metric ::
    "branch_evidence option \<Rightarrow> branch_evidence option \<Rightarrow> metric_definition \<Rightarrow> double \<times> bool \<Rightarrow> double \<times> bool" where
  "score_metric candidate_ev baseline_ev m = (\<lambda>(score, evaluated).
     if \<not> md_required m \<or> md_weight m = 0 \<or> md_direction m = MD_INFORMATIONAL then (score, evaluated)
     else case (present_aggregate candidate_ev (md_id m), present_aggregate baseline_ev (md_id m)) of
         (Some c, Some b) \<Rightarrow>
           let reference = (if d_gt (d_abs (ma_value b)) d_1e_12 then d_abs (ma_value b) else d_one)
           in (d_add score (d_mul (d_of_nat (unat (md_weight m)))
                 (d_div (improvement (md_direction m) (ma_value b) (ma_value c)) reference)), True)
       | _ \<Rightarrow> (score, evaluated))"

definition weighted_score ::
    "experiment_record \<Rightarrow> branch_evidence option \<Rightarrow> branch_evidence option \<Rightarrow> comparison \<Rightarrow> comparison" where
  "weighted_score r candidate_ev baseline_ev x =
     (let p = ed_policy (er_definition r)
      in if \<not> cp_use_weighted_score p then x
         else case fold (score_metric candidate_ev baseline_ev) (ed_metrics (er_definition r)) (d_zero, False) of
             (score, evaluated) \<Rightarrow>
               if \<not> evaluated then x
               else
                 let satisfied = d_ge score (cp_accept_score_threshold p);
                     f = \<lparr>cf_metric = null_id, cf_op = CO_REPORT_ONLY, cf_priority = 0, cf_threshold = d_zero,
                       cf_has_values = True, cf_baseline_value = d_zero, cf_candidate_value = d_zero,
                       cf_delta = score, cf_satisfied = satisfied, cf_decisive = True,
                       cf_detail = lit ''explicit weighted score='' @ d_to_string score @
                         lit '' threshold='' @ d_to_string (cp_accept_score_threshold p)\<rparr>
                 in push_factor f (if satisfied then x else record_failure (lit ''weighted-score'') x))"

definition compare_branches ::
    "experiment_record \<Rightarrow> branch_evidence option \<Rightarrow> branch_evidence option \<Rightarrow> comparison" where
  "compare_branches r candidate_ev baseline_ev =
     weighted_score r candidate_ev baseline_ev
       (fold (compare_rule r candidate_ev baseline_ev)
          (sort_by rule_less (cp_rules (ed_policy (er_definition r)))) comparison_start)"

section \<open>Building a decision\<close>

definition decision_start :: "experiment_record \<Rightarrow> branch_id \<Rightarrow> decision_id \<Rightarrow> u64 \<Rightarrow> decision" where
  "decision_start r candidate did sequence =
     (let d = er_definition r
      in \<lparr>de_id = did, de_experiment = ed_id d, de_generation = ed_generation d,
          de_hypothesis = ed_hypothesis d, de_hypothesis_revision = ed_hypothesis_revision d,
          de_policy = cp_id (ed_policy d), de_policy_generation = cp_generation (ed_policy d),
          de_compared_branches = sort (map bd_id (ed_branches d)), de_baseline = null_id,
          de_baseline_present = False, de_candidate = candidate,
          de_outcome = DO_INSUFFICIENT_EVIDENCE, de_reason_kind = FK_INSUFFICIENT_EVIDENCE,
          de_reason = [], de_constraints = [], de_factors = [], de_evidence = compute_evidence r,
          de_rejected_evidence = er_rejected_evidence r, de_tie_break_rule = [], de_tied = False,
          de_canonical_state_digest = evidence_digest (compute_evidence r) d, de_sequence = sequence\<rparr>)"

definition refuse_decision :: "string \<Rightarrow> string \<Rightarrow> decision \<Rightarrow> decision" where
  "refuse_decision name reason dec =
     dec\<lparr>de_outcome := DO_INVALID, de_reason_kind := FK_POLICY_REJECTION, de_reason := reason,
         de_constraints := de_constraints dec @ [\<lparr>cn_name = name, cn_passed = False, cn_detail = reason\<rparr>]\<rparr>"

definition settle :: "verdict \<Rightarrow> comparison \<Rightarrow> decision \<Rightarrow> decision" where
  "settle v x dec0 =
     (let dec = dec0\<lparr>de_constraints := vd_constraints v, de_outcome := vd_outcome v,
            de_reason_kind := vd_reason_kind v, de_reason := vd_reason v, de_factors := cx_factors x\<rparr>
      in if vd_outcome v \<noteq> DO_ACCEPT then dec
         else if \<not> cx_any_decisive x then
           dec\<lparr>de_outcome := DO_INCONCLUSIVE, de_reason_kind := FK_INSUFFICIENT_EVIDENCE,
               de_reason := lit ''the policy declares no decisive comparison factor; the result is reported but not decided''\<rparr>
         else if cx_any_decisive_failed x then
           dec\<lparr>de_outcome := DO_REJECT, de_reason_kind := FK_POLICY_REJECTION,
               de_reason := lit ''comparison factor failed for metric '' @ cx_first_failed_metric x\<rparr>
         else if \<not> cx_any_nonzero_delta x then
           dec\<lparr>de_outcome := DO_INCONCLUSIVE, de_reason_kind := FK_INSUFFICIENT_EVIDENCE,
               de_reason := lit ''every decisive comparison factor is exactly equal; a tie is not an acceptance'',
               de_tied := True, de_tie_break_rule := lit ''exact-equality-on-all-decisive-metrics''\<rparr>
         else dec)"

text \<open>The candidate is the last branch with its identity, the baseline the first with its role.\<close>

definition candidate_branch :: "experiment_record \<Rightarrow> branch_id \<Rightarrow> branch_definition option" where
  "candidate_branch r candidate = find_last (\<lambda>b. bd_id b = candidate) (ed_branches (er_definition r))"

definition baseline_branch :: "experiment_record \<Rightarrow> branch_definition option" where
  "baseline_branch r = find (\<lambda>b. bd_role b = BR_BASELINE) (ed_branches (er_definition r))"

definition build_decision :: "experiment_record \<Rightarrow> branch_id \<Rightarrow> decision_id \<Rightarrow> u64 \<Rightarrow> decision" where
  "build_decision r candidate did sequence =
     (let dec = decision_start r candidate did sequence;
          evidence = compute_evidence r;
          baseline = baseline_branch r
      in case candidate_branch r candidate of
           None \<Rightarrow> refuse_decision (lit ''candidate_exists'')
             (lit ''the candidate branch does not exist in this experiment generation'') dec
         | Some c \<Rightarrow>
             let dec1 = (case baseline of None \<Rightarrow> dec
                  | Some b \<Rightarrow> dec\<lparr>de_baseline := bd_id b, de_baseline_present := True\<rparr>);
                 baseline_ev = (case baseline of None \<Rightarrow> None | Some b \<Rightarrow> evidence_of evidence (bd_id b))
             in if (case baseline of None \<Rightarrow> False | Some b \<Rightarrow> bd_id b = bd_id c)
                then refuse_decision (lit ''candidate_is_not_baseline'')
                  (lit ''the candidate branch is the designated baseline'') dec1
                else settle (apply_constraints r c baseline evidence)
                  (compare_branches r (evidence_of evidence (bd_id c)) baseline_ev) dec1)"

definition evaluate :: "experiment_id \<Rightarrow> branch_id \<Rightarrow> impl \<Rightarrow> decision result" where
  "evaluate experiment candidate im =
     (case find_experiment im experiment of
        None \<Rightarrow> Inl (make_error EC_NOT_FOUND EG_DECISION (lit ''experiment does not exist''))
      | Some r \<Rightarrow> Inr (build_decision r candidate null_id (current_sequence im)))"

section \<open>Finalization\<close>

definition decided_state :: "decision_outcome \<Rightarrow> experiment_state \<Rightarrow> experiment_state" where
  "decided_state outcome s =
     (case outcome of
        DO_ACCEPT \<Rightarrow> ES_FINALIZED
      | DO_REJECT \<Rightarrow> ES_FINALIZED
      | DO_INVALID \<Rightarrow> ES_FINALIZED
      | DO_CANCELLED \<Rightarrow> ES_CANCELLED
      | DO_SUPERSEDED \<Rightarrow> ES_SUPERSEDED
      | DO_INCONCLUSIVE \<Rightarrow> s
      | DO_INSUFFICIENT_EVIDENCE \<Rightarrow> s)"

definition authority_snapshot :: "branch_definition \<Rightarrow> branch_authority_snapshot" where
  "authority_snapshot b = \<lparr>ba_branch = bd_id b, ba_generation = bd_generation b, ba_state = bd_state b\<rparr>"

definition decision_point ::
    "experiment_id \<Rightarrow> experiment_record \<Rightarrow> decision \<Rightarrow> rollback_point_id \<Rightarrow> u64 \<Rightarrow> rollback_point" where
  "decision_point experiment r dec rid sequence =
     \<lparr>rb_id = rid, rb_experiment = experiment, rb_generation = ed_generation (er_definition r),
      rb_restored_from = null_id, rb_decision = de_id dec, rb_decision_present = True,
      rb_state_digest = definition_digest (er_definition r),
      rb_authority = map authority_snapshot (ed_branches (er_definition r)), rb_sequence = sequence\<rparr>"

definition records_point :: "decision_outcome \<Rightarrow> bool" where
  "records_point outcome \<longleftrightarrow> outcome = DO_ACCEPT \<or> outcome = DO_REJECT \<or> outcome = DO_INVALID"

definition finalize_record ::
    "decision \<Rightarrow> rollback_point list \<Rightarrow> u64 \<Rightarrow> experiment_record \<Rightarrow> experiment_record" where
  "finalize_record dec points sequence r =
     log_line (lit ''experiment-finalized outcome='' @ decision_outcome_to_string (de_outcome dec) @
        lit '' decision='' @ id_to_string (de_id dec))
       (r\<lparr>er_decisions := er_decisions r @ [dec], er_state := decided_state (de_outcome dec) (er_state r),
          er_rollback_points := er_rollback_points r @ points, er_revision_sequence := sequence\<rparr>)"

definition finalize_experiment ::
    "experiment_id \<Rightarrow> branch_id \<Rightarrow> string \<Rightarrow> impl \<Rightarrow> decision result \<times> impl" where
  "finalize_experiment experiment candidate reason im =
     (case find_experiment im experiment of
        None \<Rightarrow> (Inl (make_error EC_NOT_FOUND EG_DECISION (lit ''experiment does not exist'')), im)
      | Some r \<Rightarrow>
          if er_state r = ES_FINALIZED
            then (Inl (lifecycle_error EC_INVALID_TRANSITION
              (lit ''the experiment already holds an authoritative decision'')), im)
          else if length (er_decisions r) \<ge> unat (lm_max_decisions_per_experiment (im_limits im))
            then (Inl (make_error EC_RESOURCE_EXHAUSTED EG_LIMITS (lit ''too many decisions'')), im)
          else case next_sequence im of (sequence, im1) \<Rightarrow>
            case alloc_decision_id im1 of (did, im2) \<Rightarrow>
            let built0 = build_decision r candidate did sequence;
                built = (if reason \<noteq> []
                  then built0\<lparr>de_reason := de_reason built0 @ lit ''; caller reason: '' @ reason\<rparr> else built0)
            in case (if records_point (de_outcome built)
                     then (case alloc_rollback_id im2 of (rid, i) \<Rightarrow>
                       ([decision_point experiment r built rid sequence], i))
                     else ([], im2)) of (points, im3) \<Rightarrow>
                 commit_result (\<lambda>i. i) (notify_decision built) built
                   (put_experiment experiment (finalize_record built points sequence r) im3))"

section \<open>Rollback\<close>

definition restore_branch :: "branch_authority_snapshot \<Rightarrow> experiment_record \<Rightarrow> experiment_record" where
  "restore_branch s r =
     put_branch (ba_branch s) (\<lambda>b. b\<lparr>bd_state := ba_state s, bd_generation := ba_generation s\<rparr>) r"

definition restored_branches :: "experiment_record \<Rightarrow> branch_authority_snapshot list \<Rightarrow> branch_id set" where
  "restored_branches r snapshots =
     set (map ba_branch (filter (\<lambda>s. find_branch r (ba_branch s) \<noteq> None) snapshots))"

definition retire_unrestored :: "branch_id set \<Rightarrow> experiment_record \<Rightarrow> experiment_record" where
  "retire_unrestored restored r =
     r\<lparr>er_definition := (er_definition r)\<lparr>ed_branches := map (\<lambda>b.
        if bd_id b \<in> restored then b
        else if bd_state b = BS_ACTIVE then b\<lparr>bd_state := BS_RETIRED\<rparr>
        else if bd_state b \<noteq> BS_SUPERSEDED then b\<lparr>bd_state := BS_SUPERSEDED\<rparr>
        else b) (ed_branches (er_definition r))\<rparr>\<rparr>"

definition restore_authority :: "rollback_point \<Rightarrow> u64 \<Rightarrow> experiment_record \<Rightarrow> experiment_record" where
  "restore_authority chosen sequence r =
     (let r1 = abandon_stale_live_work sequence r;
          r2 = r1\<lparr>er_definition := (er_definition r1)\<lparr>ed_generation := rb_generation chosen\<rparr>\<rparr>;
          r3 = fold restore_branch (rb_authority chosen) r2
      in retire_unrestored (restored_branches r2 (rb_authority chosen)) r3)"

definition rollback_record ::
    "experiment_id \<Rightarrow> rollback_point \<Rightarrow> string \<Rightarrow> rollback_point_id \<Rightarrow> u64 \<Rightarrow> experiment_record \<Rightarrow> experiment_record" where
  "rollback_record experiment chosen reason rid sequence r =
     (let previous = ed_generation (er_definition r);
          r1 = restore_authority chosen sequence r;
          point = \<lparr>rb_id = rid, rb_experiment = experiment, rb_generation = rb_generation chosen,
            rb_restored_from = previous, rb_decision = null_id, rb_decision_present = False,
            rb_state_digest = definition_digest (er_definition r1), rb_authority = rb_authority chosen,
            rb_sequence = sequence\<rparr>
      in log_line (lit ''rollback restored-generation='' @ id_to_string (rb_generation chosen) @
           lit '' from-generation='' @ id_to_string previous @ lit '' reason='' @ reason)
         (r1\<lparr>er_rollback_points := er_rollback_points r1 @ [point],
             er_state := (if er_state r1 = ES_FINALIZED \<or> er_state r1 = ES_SUPERSEDED then ES_OPEN else er_state r1),
             er_revision_sequence := sequence\<rparr>))"

definition rollback :: "experiment_id \<Rightarrow> experiment_generation \<Rightarrow> string \<Rightarrow> impl \<Rightarrow> status \<times> impl" where
  "rollback experiment target reason im =
     (case find_experiment im experiment of
        None \<Rightarrow> (make_error EC_NOT_FOUND EG_LIFECYCLE (lit ''experiment does not exist''), im)
      | Some r \<Rightarrow>
          if er_state r = ES_CANCELLED
            then (lifecycle_error EC_INVALID_TRANSITION (lit ''a cancelled experiment cannot be rolled back''), im)
          else if \<not> valid target
            then (make_error EC_INVALID_ARGUMENT EG_LIFECYCLE
              (lit ''rollback target generation must be non-null''), im)
          else case find_last (\<lambda>p. rb_generation p = target) (er_rollback_points r) of
              None \<Rightarrow> (make_error EC_NOT_FOUND EG_LIFECYCLE
                (lit ''no authoritative rollback point exists for the requested generation''), im)
            | Some chosen \<Rightarrow>
                if rb_generation chosen = ed_generation (er_definition r) \<and> er_state r = ES_OPEN
                  then (lifecycle_error EC_INVALID_TRANSITION
                    (lit ''the experiment is already at the requested authoritative generation''), im)
                else case next_sequence im of (sequence, im1) \<Rightarrow>
                  case alloc_rollback_id im1 of (rid, im2) \<Rightarrow>
                  let r' = rollback_record experiment chosen reason rid sequence r;
                      im3 = put_experiment experiment r' im2;
                      validated = validate_experiment_record r' (im_limits im) experiment
                  in if \<not> st_ok validated then (validated, im3)
                     else commit_status (\<lambda>i. i) (notify_event (lit ''rollback:'' @ id_to_string experiment)) im3)"

end
