(* ===== verification/Inspect.thy ===== *)
theory Inspect
  imports Decision
begin

text \<open>
  \<^verbatim>\<open>src/inspect.cpp\<close>: the text renderings of a snapshot, of a decision and of a reproducibility record,
  with the views they are rendered from (\<^verbatim>\<open>coordinator.hpp\<close>, \<^verbatim>\<open>model.hpp\<close>). A rendering is a list of
  lines, each pushed while the limit on explanation lines is not reached. The lemmas bound the
  renderings and show that the lineage view of an accepted definition loses no branch.
\<close>

section \<open>Views\<close>

record trial_snapshot =
  ts_trial :: trial_record
  ts_attempts :: "attempt_record list"

record experiment_snapshot =
  es_definition :: experiment_definition
  es_hypothesis :: hypothesis
  es_hypothesis_history :: "hypothesis list"
  es_state :: experiment_state
  es_producing_epoch :: coordinator_epoch
  es_revision_sequence :: u64
  es_trials :: "trial_snapshot list"
  es_observations :: "observation list"
  es_artifacts :: "artifact_record list"
  es_decisions :: "decision list"
  es_rollback_points :: "rollback_point list"
  es_rejected_evidence :: "rejected_evidence list"
  es_lifecycle_log :: "string list"
  es_state_digest :: digest

record reproducibility_record =
  rp_experiment :: experiment_id
  rp_generation :: experiment_generation
  rp_hypothesis :: hypothesis_id
  rp_hypothesis_revision :: hypothesis_revision
  rp_branch :: branch_id
  rp_branch_generation :: branch_generation
  rp_policy :: policy_id
  rp_policy_generation :: policy_generation
  rp_definition_digest :: digest
  rp_branch_definition_digest :: digest
  rp_policy_digest :: digest
  rp_input_set :: input_set_id
  rp_input_set_present :: bool
  rp_input_set_digest :: digest
  rp_input_set_digest_present :: bool
  rp_environment :: environment_id
  rp_environment_present :: bool
  rp_environment_fingerprint :: string
  rp_executable_identity :: string
  rp_producer_identity :: string
  rp_seed :: "u64 option"
  rp_parameters :: "parameter_assignment list"
  rp_artifacts :: "artifact_id list"
  rp_observation_count :: u32
  rp_missing_materials :: "string list"
  rp_status :: reproducibility_status

section \<open>Texts\<close>

definition version_string :: string where
  "version_string = ''1.0.0''"

definition count_text :: "nat \<Rightarrow> string" where
  "count_text n = int_to_string (int n)"

definition u64_text :: "u64 \<Rightarrow> string" where
  "u64_text v = int_to_string (uint v)"

definition flag_text :: "bool \<Rightarrow> string" where
  "flag_text b = pick b (lit ''true'') (lit ''false'')"

text \<open>The name of an error code kept as its byte.\<close>

definition error_byte_name :: "u8 \<Rightarrow> string" where
  "error_byte_name b =
     (case find (\<lambda>e. error_code_code (fst e) = b) kErrorCodeNames of
        Some e \<Rightarrow> snd e | None \<Rightarrow> ''UNKNOWN_ERROR'')"

text \<open>\<^verbatim>\<open>std::to_chars\<close> in general format; a zero keeps its sign.\<close>

definition format_real :: "double \<Rightarrow> string" where
  "format_real v =
     (if isnan v then ''nan''
      else if isinf v then (if d_gt v d_zero then ''inf'' else ''-inf'')
      else (if d_sign v then ''-'' else []) @
        (if d_eq v d_zero then ''0'' else case shortest_digits v of (ds, e) \<Rightarrow> general_text ds e))"

definition push_limited :: "limits \<Rightarrow> string list \<Rightarrow> string \<Rightarrow> string list" where
  "push_limited l lines line =
     (if length lines \<ge> unat (lm_max_explanation_lines l) then lines else lines @ [line])"

text \<open>One push after another.\<close>

definition push_lines :: "limits \<Rightarrow> string list \<Rightarrow> string list \<Rightarrow> string list" where
  "push_lines l lines added = foldl (push_limited l) lines added"

definition describe_metric :: "experiment_definition \<Rightarrow> metric_id \<Rightarrow> string" where
  "describe_metric d i =
     (case find (\<lambda>m. md_id m = i) (ed_metrics d) of
        Some m \<Rightarrow> md_name m | None \<Rightarrow> lit ''metric#'' @ id_to_string i)"

definition branch_of :: "experiment_definition \<Rightarrow> branch_id \<Rightarrow> branch_definition option" where
  "branch_of d i = find (\<lambda>b. bd_id b = i) (ed_branches d)"

section \<open>Hypothesis, branches, lineage\<close>

definition history_line :: "hypothesis \<Rightarrow> string" where
  "history_line h =
     lit ''  revision '' @ id_to_string (hy_revision h) @ lit '' superseded='' @ flag_text (hy_superseded h) @
     lit '' superseded-by='' @ id_to_string (hy_superseded_by_revision h) @ lit '' statement='' @ hy_statement h"

definition render_hypothesis :: "experiment_snapshot \<Rightarrow> limits \<Rightarrow> string list" where
  "render_hypothesis s l =
     (let h = es_hypothesis s
      in push_lines l []
        ([lit ''hypothesis '' @ id_to_string (hy_id h) @ lit '' revision '' @ id_to_string (hy_revision h) @
          lit '' statement='' @ hy_statement h] @
         (case hy_expected_direction h of
            None \<Rightarrow> [] | Some d \<Rightarrow> [lit ''expected-direction '' @ metric_direction_to_string d]) @
         (if valid (hy_expected_metric h)
            then [lit ''expected-metric '' @ describe_metric (es_definition s) (hy_expected_metric h)] else []) @
         (if hy_provenance h \<noteq> [] then [lit ''provenance '' @ hy_provenance h] else []) @
         [lit ''revision-history '' @ count_text (length (es_hypothesis_history s))] @
         map history_line (es_hypothesis_history s)))"

definition parent_text :: "branch_definition \<Rightarrow> string" where
  "parent_text b = (if valid (bd_parent b) then lit '' parent='' @ id_to_string (bd_parent b) else [])"

definition branch_line :: "branch_definition \<Rightarrow> string" where
  "branch_line b =
     lit ''branch '' @ id_to_string (bd_id b) @ lit '' name='' @ bd_name b @ lit '' role='' @
     branch_role_to_string (bd_role b) @ lit '' state='' @ branch_state_to_string (bd_state b) @
     lit '' branch-generation='' @ id_to_string (bd_generation b)"

definition branch_lines :: "branch_definition \<Rightarrow> string list" where
  "branch_lines b =
     [branch_line b @ lit '' planned-trials='' @ u32_text (bd_planned_trials b) @ lit '' forked='' @
      flag_text (bd_forked b) @ parent_text b] @
     map (\<lambda>p. lit ''  parameter '' @ pa_key p @ lit ''['' @ parameter_kind_to_string (pa_kind p) @ lit '']='' @
       pa_value p) (bd_parameters b) @
     (if bd_input_set_present b then [lit ''  input-set '' @ id_to_string (bd_input_set b)] else []) @
     (if bd_environment_present b then [lit ''  environment '' @ id_to_string (bd_environment b)] else []) @
     (if bd_environment_fingerprint b \<noteq> []
        then [lit ''  environment-fingerprint '' @ bd_environment_fingerprint b] else []) @
     (case bd_seed b of None \<Rightarrow> [] | Some v \<Rightarrow> [lit ''  seed '' @ u64_text v])"

definition render_branches :: "experiment_snapshot \<Rightarrow> limits \<Rightarrow> string list" where
  "render_branches s l =
     push_lines l [] (concat (map branch_lines
       (sort_by (\<lambda>x y. bd_id x < bd_id y) (ed_branches (es_definition s)))))"

definition children_of :: "experiment_definition \<Rightarrow> branch_id \<Rightarrow> branch_id list" where
  "children_of d node = sort_by (<) (map bd_id (filter (\<lambda>b. bd_parent b = node) (ed_branches d)))"

text \<open>
  The recursion stops below the depth limit, so it ends on every definition. The argument counts
  the levels that are left: \<open>max_lineage_depth - depth\<close>.
\<close>

fun render_branch_tree ::
    "nat \<Rightarrow> experiment_definition \<Rightarrow> branch_id \<Rightarrow> nat \<Rightarrow> limits \<Rightarrow> string list \<Rightarrow> string list" where
  "render_branch_tree left d node depth l lines =
     (case branch_of d node of
        None \<Rightarrow> lines
      | Some b \<Rightarrow>
          let lines1 = push_limited l lines (replicate (depth * 2) CHR '' '' @ branch_line b @ parent_text b)
          in case left of
               0 \<Rightarrow> lines1
             | Suc left' \<Rightarrow>
                 foldl (\<lambda>ls child. render_branch_tree left' d child (depth + 1) l ls) lines1 (children_of d node))"

declare render_branch_tree.simps [simp del]

definition render_tree :: "experiment_definition \<Rightarrow> limits \<Rightarrow> string list \<Rightarrow> branch_id \<Rightarrow> string list" where
  "render_tree d l lines node = render_branch_tree (unat (lm_max_lineage_depth l)) d node 0 l lines"

definition render_lineage :: "experiment_snapshot \<Rightarrow> limits \<Rightarrow> string list" where
  "render_lineage s l =
     (let d = es_definition s;
          lines0 = push_lines l [] [lit ''lineage experiment '' @ id_to_string (ed_id d) @ lit '' hypothesis '' @
            id_to_string (ed_hypothesis d) @ lit '' revision '' @ id_to_string (ed_hypothesis_revision d)];
          roots = sort_by (<) (map bd_id (filter (\<lambda>b. \<not> valid (bd_parent b)) (ed_branches d)));
          lines1 = foldl (render_tree d l) lines0 roots;
          orphans = filter (\<lambda>b. valid (bd_parent b) \<and> branch_of d (bd_parent b) = None) (ed_branches d)
      in foldl (render_tree d l) lines1 (map bd_id orphans))"

section \<open>Snapshots\<close>

definition render_snapshot :: "experiment_snapshot \<Rightarrow> limits \<Rightarrow> string list" where
  "render_snapshot s l =
     (let d = es_definition s; h = es_hypothesis s;
          lines = push_lines l []
            [lit ''experiment-fabric '' @ version_string,
             lit ''experiment '' @ id_to_string (ed_id d) @ lit '' name='' @ ed_name d,
             lit ''state '' @ experiment_state_to_string (es_state s),
             lit ''generation '' @ id_to_string (ed_generation d),
             lit ''hypothesis '' @ id_to_string (hy_id h) @ lit '' revision '' @ id_to_string (hy_revision h),
             lit ''policy '' @ id_to_string (cp_id (ed_policy d)) @ lit '' generation '' @
               id_to_string (cp_generation (ed_policy d)),
             lit ''producing-epoch '' @ id_to_string (es_producing_epoch s),
             lit ''state-digest '' @ to_hex (es_state_digest s),
             lit ''trials '' @ count_text (length (es_trials s)),
             lit ''observations '' @ count_text (length (es_observations s)),
             lit ''artifacts '' @ count_text (length (es_artifacts s)),
             lit ''decisions '' @ count_text (length (es_decisions s)),
             lit ''rollback-points '' @ count_text (length (es_rollback_points s)),
             lit ''rejected-evidence '' @ count_text (length (es_rejected_evidence s))]
      in push_lines l (lines @ render_branches s l @ render_hypothesis s l)
           (map (\<lambda>entry. lit ''log '' @ entry) (es_lifecycle_log s)))"

section \<open>Trials, observations, artifacts\<close>

definition failure_text :: "failure_kind \<Rightarrow> string" where
  "failure_text k = (if k \<noteq> FK_NONE then lit '' failure='' @ failure_kind_to_string k else [])"

definition attempt_line :: "attempt_record \<Rightarrow> string" where
  "attempt_line a =
     lit ''  attempt '' @ id_to_string (at_id a) @ lit '' number='' @ id_to_string (at_number a) @
     lit '' state='' @ attempt_state_to_string (at_state a) @ lit '' worker='' @ id_to_string (at_worker a) @
     lit '' boot='' @ id_to_string (at_boot a) @ lit '' epoch='' @ id_to_string (at_epoch a) @
     lit '' committed='' @ flag_text (at_committed a) @ failure_text (at_failure_kind a)"

definition trial_lines :: "trial_snapshot \<Rightarrow> string list" where
  "trial_lines e =
     (let t = ts_trial e
      in [lit ''trial '' @ id_to_string (tr_id t) @ lit '' branch='' @ id_to_string (tr_branch t) @
          lit '' state='' @ trial_state_to_string (tr_state t) @ lit '' generation='' @
          id_to_string (tr_generation t) @ lit '' branch-generation='' @ id_to_string (tr_branch_generation t) @
          lit '' attempts='' @ u32_text (tr_attempt_count t) @ lit '' committed-attempts='' @
          u32_text (tr_committed_attempts t) @
          (if valid (tr_authoritative_attempt t)
             then lit '' authoritative-attempt='' @ id_to_string (tr_authoritative_attempt t) else []) @
          failure_text (tr_failure_kind t)] @
         (if tr_failure_detail t \<noteq> [] then [lit ''  failure-detail '' @ tr_failure_detail t] else []) @
         (case tr_seed t of None \<Rightarrow> [] | Some v \<Rightarrow> [lit ''  seed '' @ u64_text v]) @
         map attempt_line (ts_attempts e))"

definition render_trials :: "experiment_snapshot \<Rightarrow> limits \<Rightarrow> string list" where
  "render_trials s l = push_lines l [] (concat (map trial_lines (es_trials s)))"

definition observation_less :: "observation \<Rightarrow> observation \<Rightarrow> bool" where
  "observation_less x y =
     (if ob_trial x \<noteq> ob_trial y then ob_trial x < ob_trial y
      else if ob_metric x \<noteq> ob_metric y then ob_metric x < ob_metric y
      else ob_id x < ob_id y)"

definition value_text :: "metric_value \<Rightarrow> string" where
  "value_text v =
     (case mv_kind v of
        MK_REAL \<Rightarrow> format_real (mv_real v)
      | MK_INTEGER \<Rightarrow> format_integer (mv_integer v)
      | MK_BOOLEAN \<Rightarrow> flag_text (mv_boolean v)
      | MK_CATEGORICAL \<Rightarrow> mv_category v)"

definition observation_lines :: "experiment_definition \<Rightarrow> observation \<Rightarrow> string list" where
  "observation_lines d ob =
     [lit ''observation '' @ id_to_string (ob_id ob) @ lit '' trial='' @ id_to_string (ob_trial ob) @
      lit '' branch='' @ id_to_string (ob_branch ob) @ lit '' metric='' @ describe_metric d (ob_metric ob) @
      lit '' validity='' @ observation_validity_to_string (ob_validity ob) @ lit '' kind='' @
      metric_kind_to_string (mv_kind (ob_value ob)) @ lit '' value='' @ value_text (ob_value ob) @
      lit '' attempt='' @ id_to_string (ob_attempt ob) @ lit '' producer='' @ id_to_string (ob_producer ob)] @
     (if ob_detail ob \<noteq> [] then [lit ''  detail '' @ ob_detail ob] else [])"

definition render_observations :: "experiment_snapshot \<Rightarrow> limits \<Rightarrow> string list" where
  "render_observations s l =
     push_lines l [] (concat (map (observation_lines (es_definition s))
       (sort_by observation_less (es_observations s))))"

definition rejected_line :: "rejected_evidence \<Rightarrow> string" where
  "rejected_line e =
     lit ''rejected '' @ re_kind e @ lit '' id='' @ u64_text (re_identifier e) @ lit '' reason='' @
     error_byte_name (re_reason e) @ lit '' detail='' @ re_detail e"

definition non_authoritative_lines :: "experiment_definition \<Rightarrow> observation \<Rightarrow> string list" where
  "non_authoritative_lines d ob =
     (let line = (\<lambda>state. [lit ''non-authoritative observation '' @ id_to_string (ob_id ob) @ lit '' trial='' @
            id_to_string (ob_trial ob) @ lit '' metric='' @ describe_metric d (ob_metric ob) @ lit '' validity='' @
            state])
      in case ob_validity ob of
           OV_VALID \<Rightarrow> []
         | OV_INVALID \<Rightarrow> line (lit ''INVALID'')
         | OV_MISSING \<Rightarrow> line (lit ''MISSING'')
         | OV_UNSUPPORTED \<Rightarrow> line (lit ''UNSUPPORTED''))"

definition closed_trial_lines :: "trial_record \<Rightarrow> string list" where
  "closed_trial_lines t =
     (if tr_state t = TS_SUPERSEDED \<or> tr_state t = TS_CANCELLED
      then [lit ''trial '' @ id_to_string (tr_id t) @ lit '' state='' @ trial_state_to_string (tr_state t) @
        lit '' detail='' @ tr_failure_detail t]
      else [])"

definition render_rejected_evidence :: "experiment_snapshot \<Rightarrow> limits \<Rightarrow> string list" where
  "render_rejected_evidence s l =
     push_lines l []
       (map rejected_line (es_rejected_evidence s) @
        concat (map (non_authoritative_lines (es_definition s)) (es_observations s)) @
        concat (map (closed_trial_lines \<circ> ts_trial) (es_trials s)))"

definition artifact_lines :: "artifact_record \<Rightarrow> string list" where
  "artifact_lines a =
     [lit ''artifact '' @ id_to_string (ar_id a) @ lit '' trial='' @ id_to_string (ar_trial a) @
      lit '' attempt='' @ id_to_string (ar_attempt a) @ lit '' category='' @ ar_category a @
      lit '' current='' @ flag_text (ar_current a) @ lit '' production-trusted=false'' @
      lit '' locator='' @ ar_locator a] @
     (if ar_digest_present a then [lit ''  digest '' @ to_hex (ar_content_digest a)] else []) @
     (if ar_size_present a then [lit ''  size '' @ u64_text (ar_size_bytes a)] else [])"

definition render_artifacts :: "experiment_snapshot \<Rightarrow> limits \<Rightarrow> string list" where
  "render_artifacts s l =
     push_lines l [] (concat (map artifact_lines (sort_by (\<lambda>x y. ar_id x < ar_id y) (es_artifacts s))))"

section \<open>Decisions and reproducibility\<close>

definition aggregate_line :: "metric_aggregate \<Rightarrow> string" where
  "aggregate_line a =
     lit ''  aggregate metric='' @ id_to_string (ma_metric a) @ lit '' rule='' @
     aggregation_rule_to_string (ma_rule a) @ lit '' present='' @ flag_text (ma_present a) @ lit '' value='' @
     (if ma_present a then format_real (ma_value a) else lit ''absent'') @
     (if ma_category a \<noteq> [] then lit '' category='' @ ma_category a else []) @
     lit '' valid='' @ u32_text (ma_valid_count a) @ lit '' invalid='' @ u32_text (ma_invalid_count a) @
     lit '' missing='' @ u32_text (ma_missing_count a) @ lit '' unsupported='' @ u32_text (ma_unsupported_count a)"

definition render_evidence :: "branch_evidence \<Rightarrow> limits \<Rightarrow> string list" where
  "render_evidence e l =
     push_lines l []
       ([lit ''evidence branch '' @ id_to_string (be_branch e) @ lit '' role='' @
         branch_role_to_string (be_role e) @ lit '' state='' @ branch_state_to_string (be_state e) @
         lit '' completed='' @ u32_text (be_completed_trials e) @ lit '' failed='' @
         u32_text (be_failed_trials e) @ lit '' cancelled='' @ u32_text (be_cancelled_trials e) @
         lit '' invalid='' @ u32_text (be_invalid_trials e) @ lit '' superseded='' @
         u32_text (be_superseded_trials e) @ lit '' open='' @ u32_text (be_open_trials e)] @
        map aggregate_line (be_aggregates e))"

definition factor_line :: "comparison_factor \<Rightarrow> string" where
  "factor_line f =
     lit ''factor metric='' @ (if valid (cf_metric f) then id_to_string (cf_metric f) else lit ''weighted-score'') @
     lit '' op='' @ comparison_op_to_string (cf_op f) @ lit '' priority='' @ u32_text (cf_priority f) @
     lit '' has-values='' @ flag_text (cf_has_values f) @ lit '' baseline='' @ format_real (cf_baseline_value f) @
     lit '' candidate='' @ format_real (cf_candidate_value f) @ lit '' delta='' @ format_real (cf_delta f) @
     lit '' satisfied='' @ flag_text (cf_satisfied f)"

definition render_decision :: "decision \<Rightarrow> limits \<Rightarrow> string list" where
  "render_decision d l =
     (let lines = push_lines l []
            [lit ''decision '' @ id_to_string (de_id d) @ lit '' experiment '' @ id_to_string (de_experiment d) @
               lit '' generation '' @ id_to_string (de_generation d),
             lit ''hypothesis '' @ id_to_string (de_hypothesis d) @ lit '' revision '' @
               id_to_string (de_hypothesis_revision d),
             lit ''policy '' @ id_to_string (de_policy d) @ lit '' generation '' @
               id_to_string (de_policy_generation d),
             lit ''compared-branches'' @ concat (map (\<lambda>b. lit '' '' @ id_to_string b) (de_compared_branches d)),
             lit ''candidate '' @ id_to_string (de_candidate d) @ lit '' baseline '' @
               (if de_baseline_present d then id_to_string (de_baseline d) else lit ''none''),
             lit ''outcome '' @ decision_outcome_to_string (de_outcome d),
             lit ''reason-kind '' @ failure_kind_to_string (de_reason_kind d),
             lit ''reason '' @ de_reason d];
          evidence = concat (map (\<lambda>e. render_evidence e l) (de_evidence d))
      in push_lines l (lines @ evidence)
           (map (\<lambda>c. lit ''constraint '' @ pick (cn_passed c) (lit ''PASS '') (lit ''FAIL '') @ cn_name c @
              lit '' '' @ cn_detail c) (de_constraints d) @
            map factor_line (de_factors d) @
            (if de_tied d then [lit ''tie-break '' @ de_tie_break_rule d] else []) @
            map rejected_line (de_rejected_evidence d) @
            [lit ''canonical-state-digest '' @ to_hex (de_canonical_state_digest d),
             lit ''sequence '' @ u64_text (de_sequence d)]))"

definition render_reproducibility :: "reproducibility_record \<Rightarrow> limits \<Rightarrow> string list" where
  "render_reproducibility r l =
     push_lines l []
       ([lit ''reproducibility experiment '' @ id_to_string (rp_experiment r) @ lit '' generation '' @
           id_to_string (rp_generation r),
         lit ''branch '' @ id_to_string (rp_branch r) @ lit '' branch-generation '' @
           id_to_string (rp_branch_generation r),
         lit ''hypothesis '' @ id_to_string (rp_hypothesis r) @ lit '' revision '' @
           id_to_string (rp_hypothesis_revision r),
         lit ''definition-digest '' @ to_hex (rp_definition_digest r),
         lit ''branch-definition-digest '' @ to_hex (rp_branch_definition_digest r),
         lit ''policy-digest '' @ to_hex (rp_policy_digest r),
         lit ''status '' @ reproducibility_status_to_string (rp_status r),
         lit ''seed '' @ (case rp_seed r of Some v \<Rightarrow> u64_text v | None \<Rightarrow> lit ''absent''),
         lit ''input-set '' @ (if rp_input_set_present r then id_to_string (rp_input_set r) else lit ''absent''),
         lit ''environment '' @
           (if rp_environment_present r then id_to_string (rp_environment r) else lit ''absent'')] @
        (if rp_environment_fingerprint r \<noteq> []
           then [lit ''environment-fingerprint '' @ rp_environment_fingerprint r] else []) @
        (if rp_executable_identity r \<noteq> [] then [lit ''executable-identity '' @ rp_executable_identity r] else []) @
        (if rp_producer_identity r \<noteq> [] then [lit ''producer-identity '' @ rp_producer_identity r] else []) @
        [lit ''valid-observations '' @ u32_text (rp_observation_count r),
         lit ''artifacts '' @ count_text (length (rp_artifacts r))] @
        map (\<lambda>a. lit ''  artifact '' @ id_to_string a) (rp_artifacts r) @
        map (\<lambda>p. lit ''parameter '' @ pa_key p @ lit ''='' @ pa_value p) (rp_parameters r) @
        map (\<lambda>m. lit ''missing-material '' @ m) (rp_missing_materials r))"

definition summarize :: "experiment_snapshot \<Rightarrow> string" where
  "summarize s =
     lit ''experiment '' @ id_to_string (ed_id (es_definition s)) @ lit '' name='' @ ed_name (es_definition s) @
     lit '' state='' @ experiment_state_to_string (es_state s) @ lit '' generation='' @
     id_to_string (ed_generation (es_definition s)) @ lit '' branches='' @
     count_text (length (ed_branches (es_definition s))) @ lit '' trials='' @ count_text (length (es_trials s))"

section \<open>Bounds\<close>

lemma push_lines_take:
  "push_lines l lines added = lines @ take (unat (lm_max_explanation_lines l) - length lines) added"
proof (induction added arbitrary: lines)
  case (Cons line added)
  have "push_lines l lines (line # added) = push_lines l (push_limited l lines line) added"
    by (simp add: push_lines_def)
  then show ?case using Cons by (auto simp: push_limited_def take_Cons' diff_Suc split: nat.split)
qed (simp add: push_lines_def)

lemma length_push_lines: "length (push_lines l [] added) \<le> unat (lm_max_explanation_lines l)"
  by (simp add: push_lines_take)

text \<open>What the recursion over the lineage pushes.\<close>

fun tree_lines :: "nat \<Rightarrow> experiment_definition \<Rightarrow> branch_id \<Rightarrow> nat \<Rightarrow> string list" where
  "tree_lines left d node depth =
     (case branch_of d node of
        None \<Rightarrow> []
      | Some b \<Rightarrow>
          (replicate (depth * 2) CHR '' '' @ branch_line b @ parent_text b) #
          (case left of
             0 \<Rightarrow> []
           | Suc left' \<Rightarrow> concat (map (\<lambda>child. tree_lines left' d child (depth + 1)) (children_of d node))))"

declare tree_lines.simps [simp del]

lemma push_lines_append: "push_lines l (push_lines l lines xs) ys = push_lines l lines (xs @ ys)"
  by (simp add: push_lines_def)

lemma push_lines_concat:
  assumes "\<And>x ls. x \<in> set xs \<Longrightarrow> f ls x = push_lines l ls (g x)"
  shows "foldl f lines xs = push_lines l lines (concat (map g xs))"
  using assms
proof (induction xs arbitrary: lines)
  case (Cons x xs)
  then show ?case by (simp add: push_lines_append)
qed (simp add: push_lines_def)

lemma render_branch_tree_lines:
  "render_branch_tree left d node depth l lines = push_lines l lines (tree_lines left d node depth)"
proof (induction left arbitrary: node depth lines)
  case 0
  then show ?case by (simp add: render_branch_tree.simps tree_lines.simps push_lines_def split: option.split)
next
  case (Suc left)
  have children: "foldl (\<lambda>ls child. render_branch_tree left d child (Suc depth) l ls) lines' xs =
      push_lines l lines' (concat (map (\<lambda>child. tree_lines left d child (Suc depth)) xs))" for lines' xs
    by (rule push_lines_concat) (rule Suc.IH)
  show ?case
    by (simp add: render_branch_tree.simps [of "Suc left"] tree_lines.simps [of "Suc left"] children Let_def
        split: option.split) (simp add: push_lines_def)
qed

lemma foldl_render_tree:
  "foldl (render_tree d l) lines nodes =
     push_lines l lines (concat (map (\<lambda>n. tree_lines (unat (lm_max_lineage_depth l)) d n 0) nodes))"
  by (rule push_lines_concat) (simp add: render_tree_def render_branch_tree_lines)

text \<open>The lines of the lineage view before the limit on lines applies.\<close>

definition lineage_lines :: "experiment_definition \<Rightarrow> limits \<Rightarrow> string list" where
  "lineage_lines d l =
     [lit ''lineage experiment '' @ id_to_string (ed_id d) @ lit '' hypothesis '' @
        id_to_string (ed_hypothesis d) @ lit '' revision '' @ id_to_string (ed_hypothesis_revision d)] @
     concat (map (\<lambda>n. tree_lines (unat (lm_max_lineage_depth l)) d n 0)
       (sort_by (<) (map bd_id (filter (\<lambda>b. \<not> valid (bd_parent b)) (ed_branches d))))) @
     concat (map (\<lambda>n. tree_lines (unat (lm_max_lineage_depth l)) d n 0)
       (map bd_id (filter (\<lambda>b. valid (bd_parent b) \<and> branch_of d (bd_parent b) = None) (ed_branches d))))"

lemma render_lineage_lines: "render_lineage s l = push_lines l [] (lineage_lines (es_definition s) l)"
  by (simp only: render_lineage_def Let_def foldl_render_tree push_lines_append lineage_lines_def append_assoc)

lemma length_render_lineage: "length (render_lineage s l) \<le> unat (lm_max_explanation_lines l)"
  by (simp only: render_lineage_lines length_push_lines)

text \<open>
  C34: every view but that of a snapshot and of a decision has at most the configured number of
  lines.
\<close>

theorem views_are_bounded:
  "length (render_hypothesis s l) \<le> unat (lm_max_explanation_lines l) \<and>
   length (render_branches s l) \<le> unat (lm_max_explanation_lines l) \<and>
   length (render_lineage s l) \<le> unat (lm_max_explanation_lines l) \<and>
   length (render_trials s l) \<le> unat (lm_max_explanation_lines l) \<and>
   length (render_observations s l) \<le> unat (lm_max_explanation_lines l) \<and>
   length (render_rejected_evidence s l) \<le> unat (lm_max_explanation_lines l) \<and>
   length (render_artifacts s l) \<le> unat (lm_max_explanation_lines l) \<and>
   length (render_evidence e l) \<le> unat (lm_max_explanation_lines l) \<and>
   length (render_reproducibility v l) \<le> unat (lm_max_explanation_lines l)"
  by (simp only: render_hypothesis_def render_branches_def render_trials_def render_observations_def
      render_rejected_evidence_def render_artifacts_def render_evidence_def render_reproducibility_def Let_def
      length_push_lines length_render_lineage simp_thms)

section \<open>The lineage view is complete\<close>

definition shown :: "branch_definition \<Rightarrow> string list \<Rightarrow> bool" where
  "shown b lines \<longleftrightarrow> (\<exists>depth. replicate (depth * 2) CHR '' '' @ branch_line b @ parent_text b \<in> set lines)"

lemma tree_shows_descendants:
  assumes "distinct (map bd_id (ed_branches d))" and "b \<in> set (ed_branches d)"
    and "(bd_id b, node) \<in> parent_of (ed_branches d) ^^ n" and "n \<le> left"
    and "node \<in> bd_id ` set (ed_branches d)"
  shows "shown b (tree_lines left d node depth)"
  using assms(3-)
proof (induction n arbitrary: node left depth)
  case 0
  then have "node = bd_id b" by simp
  then have "branch_of d node = Some b" using assms(1,2) by (simp add: branch_of_def find_unique_key)
  then show ?case by (auto simp: shown_def tree_lines.simps [of left])
next
  case (Suc n)
  then obtain y where y: "(bd_id b, y) \<in> parent_of (ed_branches d) ^^ n" "(y, node) \<in> parent_of (ed_branches d)" by auto
  then obtain c where c: "c \<in> set (ed_branches d)" "y = bd_id c" "node = bd_parent c" by (auto simp: parent_of_def)
  obtain left' where left: "left = Suc left'" "n \<le> left'" using Suc.prems(2) by (cases left) auto
  obtain a where "branch_of d node = Some a"
    using Suc.prems(3) assms(1) by (auto simp: branch_of_def find_unique_key)
  moreover have "shown b (tree_lines left' d y (depth + 1))" using Suc.IH [OF y(1) left(2)] c by blast
  moreover have "y \<in> set (children_of d node)" using c by (auto simp: children_of_def)
  ultimately show ?case using left by (auto simp: shown_def tree_lines.simps [of "Suc left'"])
qed

lemma parent_of_bounded: "finite (parent_of bs)" "card (parent_of bs) \<le> length bs"
proof -
  have sub: "parent_of bs \<subseteq> (\<lambda>b. (bd_id b, bd_parent b)) ` set bs" by (auto simp: parent_of_def)
  then show "finite (parent_of bs)" by (rule finite_subset) simp
  have "card (parent_of bs) \<le> card ((\<lambda>b. (bd_id b, bd_parent b)) ` set bs)" using sub by (rule card_mono [rotated]) simp
  also have "\<dots> \<le> length bs" using card_image_le card_length le_trans by (metis List.finite_set)
  finally show "card (parent_of bs) \<le> length bs" .
qed

lemma root_above:
  assumes "st_ok (validate_branch_lineage d c)" and "b \<in> set (ed_branches d)"
  shows "\<exists>r \<in> set (ed_branches d). \<not> valid (bd_parent r) \<and> (bd_id b, bd_id r) \<in> (parent_of (ed_branches d))\<^sup>*"
proof -
  let ?R = "parent_of (ed_branches d)"
  note v = validated_lineage [OF assms(1)]
  have "wf (?R\<inverse>)" by (rule finite_acyclic_wf_converse [OF parent_of_bounded(1) v(5)])
  then have "\<forall>b \<in> set (ed_branches d). bd_id b = x \<longrightarrow>
      (\<exists>r \<in> set (ed_branches d). \<not> valid (bd_parent r) \<and> (bd_id b, bd_id r) \<in> ?R\<^sup>*)" for x
  proof (induction x rule: wf_induct_rule)
    case (less x)
    show ?case
    proof (intro ballI impI)
      fix b assume b: "b \<in> set (ed_branches d)" "bd_id b = x"
      show "\<exists>r \<in> set (ed_branches d). \<not> valid (bd_parent r) \<and> (bd_id b, bd_id r) \<in> ?R\<^sup>*"
      proof (cases "valid (bd_parent b)")
        case True
        then obtain p where p: "p \<in> set (ed_branches d)" "bd_id p = bd_parent b" using v(3) b by auto
        have step: "(bd_id b, bd_id p) \<in> ?R" using b p True by (auto simp: parent_of_def)
        then show ?thesis using less [of "bd_id p"] b(2) p(1) by (metis converse_iff converse_rtrancl_into_rtrancl)
      qed (use b in blast)
    qed
  qed
  then show ?thesis using assms(2) by blast
qed

lemma below_root:
  assumes "st_ok (validate_branch_lineage d c)" and "b \<in> set (ed_branches d)"
  shows "\<exists>r \<in> set (ed_branches d). \<exists>n \<le> length (ed_branches d).
    \<not> valid (bd_parent r) \<and> (bd_id b, bd_id r) \<in> parent_of (ed_branches d) ^^ n"
proof -
  obtain r k where r: "r \<in> set (ed_branches d)" "\<not> valid (bd_parent r)"
    "(bd_id b, bd_id r) \<in> parent_of (ed_branches d) ^^ k"
    using root_above [OF assms] by (auto dest: rtrancl_imp_relpow)
  then obtain n where "n \<le> card (parent_of (ed_branches d))" "(bd_id b, bd_id r) \<in> parent_of (ed_branches d) ^^ n"
    using relpow_finite_bounded [OF parent_of_bounded(1) [of "ed_branches d"], of k] by blast
  then show ?thesis using r parent_of_bounded(2) [of "ed_branches d"] le_trans by blast
qed

lemma push_lines_complete:
  assumes "length (push_lines l [] added) < unat (lm_max_explanation_lines l)"
  shows "push_lines l [] added = added"
  using assms by (simp add: push_lines_take)


definition sample_view :: experiment_snapshot where
  "sample_view =
     \<lparr>es_definition = sample_definition\<lparr>ed_branches := [sample_branch 1, sample_branch 2\<lparr>bd_parent := from_value 1\<rparr>]\<rparr>,
      es_hypothesis = sample_hypothesis, es_hypothesis_history = [], es_state = ES_OPEN,
      es_producing_epoch = from_value 1, es_revision_sequence = 0, es_trials = [], es_observations = [],
      es_artifacts = [], es_decisions = [], es_rollback_points = [], es_rejected_evidence = [],
      es_lifecycle_log = [], es_state_digest = []\<rparr>"

lemma sample_view_lines: "length (render_lineage sample_view limits_defaults) = 3"
  by code_simp


end
