(* ===== verification/Payload.thy ===== *)
theory Payload
  imports State
begin

text \<open>
  The payload codec of \<^verbatim>\<open>src/protocol.cpp\<close>: \<^verbatim>\<open>PayloadWriter\<close> as the bytes each call appends,
  \<^verbatim>\<open>PayloadReader\<close> as a function from the limits and the unread bytes to a value and the bytes left
  over, or the status of the failure. The interface of a codec is stated as two locales: what is
  written is read back, and, for the strict ones, nothing else is accepted. The lemmas about
  vectors, options and enumerations are proved once against it.
\<close>

named_theorems codec_reads \<open>what the readers make of written bytes\<close>
named_theorems codec_strict \<open>when the combinators of the readers accept\<close>
named_theorems codec_accepts \<open>what the readers accept\<close>

unbundle bit_operations_syntax

section \<open>Little-endian integers\<close>

definition store_le :: "nat \<Rightarrow> 'a::len word \<Rightarrow> u8 list" where
  "store_le n v = map (\<lambda>i. ucast (drop_bit (8 * i) v AND 0xFF)) [0..<n]"

definition load_le :: "nat \<Rightarrow> u8 list \<Rightarrow> 'a::len word" where
  "load_le n bs = fold (\<lambda>i v. v OR push_bit (8 * i) (ucast (bs ! i))) [0..<n] 0"

lemma length_store_le [simp]: "length (store_le n v) = n"
  by (simp add: store_le_def)

lemma bit_low_byte: "bit (0xFF :: 'a::len word) k \<longleftrightarrow> k < 8 \<and> k < LENGTH('a)"
proof -
  have "(0xFF :: 'a word) = mask 8" by (simp add: mask_eq_exp_minus_1)
  then show ?thesis by (simp only: bit_mask_iff possible_bit_word) auto
qed

lemma nth_store_le: "i < n \<Longrightarrow> store_le n v ! i = ucast (drop_bit (8 * i) v AND 0xFF)"
  by (simp add: store_le_def)

lemma bit_store_le:
  "i < n \<Longrightarrow> bit (store_le n (v :: 'a::len word) ! i) k \<longleftrightarrow> k < 8 \<and> bit v (8 * i + k)"
  unfolding nth_store_le bit_ucast_iff bit_and_iff bit_low_byte bit_drop_bit_eq comp_def
  by (auto dest: bit_imp_le_length)

lemma bit_load_le:
  "bit (load_le n bs :: 'a::len word) k \<longleftrightarrow>
     k < LENGTH('a) \<and> k div 8 < n \<and> bit (bs ! (k div 8)) (k mod 8)"
proof (induction n)
  case (Suc n)
  have "bit (bs ! n) (k - 8 * n) \<longleftrightarrow> k div 8 = n \<and> bit (bs ! (k div 8)) (k mod 8)" if "8 * n \<le> k"
    using that bit_imp_le_length [of "bs ! n" "k - 8 * n"]
    by (cases "k div 8 = n") (auto simp: minus_mult_div_eq_mod [symmetric] div_nat_eqI)
  moreover have "8 * n \<le> k \<longleftrightarrow> n \<le> k div 8" by (simp add: less_eq_div_iff_mult_less_eq mult.commute)
  ultimately show ?case
    using Suc by (auto simp: load_le_def bit_or_iff bit_push_bit_iff bit_ucast_iff less_Suc_eq)
qed (simp add: load_le_def)

lemma load_store_le:
  "LENGTH('a) \<le> 8 * n \<Longrightarrow> load_le n (store_le n v @ rest) = (v :: 'a::len word)"
  by (rule bit_word_eqI) (auto simp: bit_load_le nth_append bit_store_le less_mult_imp_div_less mult.commute)

lemma store_load_le:
  assumes "LENGTH('a) = 8 * n" and "n \<le> length bs"
  shows "store_le n (load_le n bs :: 'a::len word) = take n bs"
proof (rule nth_equalityI)
  fix i assume "i < length (store_le n (load_le n bs :: 'a word))"
  then have i: "i < n" by simp
  show "store_le n (load_le n bs :: 'a word) ! i = take n bs ! i"
    by (rule bit_word_eqI) (use i assms in \<open>auto simp: bit_store_le bit_load_le\<close>)
qed (use assms in simp)

lemma load_store_le_end [simp]: "LENGTH('a) \<le> 8 * n \<Longrightarrow> load_le n (store_le n v) = (v :: 'a::len word)"
  using load_store_le [where rest = "[]"] by simp

lemma store_le_inj: "store_le n v = store_le n w \<Longrightarrow> LENGTH('a) \<le> 8 * n \<Longrightarrow> v = (w :: 'a::len word)"
  by (metis load_store_le_end)

text \<open>Storing bytes into a buffer at an offset.\<close>

definition store_at :: "nat \<Rightarrow> u8 list \<Rightarrow> u8 list \<Rightarrow> u8 list" where
  "store_at offset bytes buffer = take offset buffer @ bytes @ drop (offset + length bytes) buffer"

lemma store_first: "length b \<le> n \<Longrightarrow> store_at 0 b (replicate n 0) = b @ replicate (n - length b) 0"
  by (simp add: store_at_def)

lemma store_next:
  "length a = k \<Longrightarrow> length b \<le> n \<Longrightarrow> store_at k b (a @ replicate n 0) = (a @ b) @ replicate (n - length b) 0"
  by (simp add: store_at_def)

section \<open>The writer\<close>

text \<open>Each definition is what the method of the same name appends to the buffer.\<close>

definition pw_u8 :: "u8 \<Rightarrow> u8 list" where
  "pw_u8 v = [v]"

definition pw_u16 :: "u16 \<Rightarrow> u8 list" where
  "pw_u16 v = [ucast (v AND 0xFF), ucast (drop_bit 8 v AND 0xFF)]"

definition pw_u32 :: "u32 \<Rightarrow> u8 list" where
  "pw_u32 v = store_le 4 v"

definition pw_u64 :: "u64 \<Rightarrow> u8 list" where
  "pw_u64 v = store_le 8 v"

definition pw_boolean :: "bool \<Rightarrow> u8 list" where
  "pw_boolean b = pw_u8 (if b then 1 else 0)"

text \<open>The bit pattern of a double and the two's complement of a signed integer are the words that
  the model keeps for them.\<close>

definition pw_real :: "double \<Rightarrow> u8 list" where
  "pw_real d = pw_u64 d"

definition pw_integer :: "u64 \<Rightarrow> u8 list" where
  "pw_integer v = pw_u64 v"

definition pw_raw :: "u8 list \<Rightarrow> u8 list" where
  "pw_raw bs = bs"

definition pw_digest :: "digest \<Rightarrow> u8 list" where
  "pw_digest d = pw_raw d"

text \<open>A text longer than its bound is cut at the bound.\<close>

definition pw_text :: "string \<Rightarrow> u32 \<Rightarrow> u8 list" where
  "pw_text s max_length =
     (let n = min (length s) (unat max_length) in pw_u32 (of_nat n) @ text_bytes (take n s))"

definition pw_count :: "u32 \<Rightarrow> u32 \<Rightarrow> u8 list" where
  "pw_count v max_value = pw_u32 v"

definition write_vector :: "u32 \<Rightarrow> ('a \<Rightarrow> u8 list) \<Rightarrow> 'a list \<Rightarrow> u8 list" where
  "write_vector max_items write xs = pw_count (of_nat (length xs)) max_items @ concat (map write xs)"

section \<open>The reader\<close>

type_synonym 'a reader = "limits \<Rightarrow> u8 list \<Rightarrow> ('a \<times> u8 list) result"

definition payload_error :: "string \<Rightarrow> status" where
  "payload_error reason = make_error EC_PROTOCOL_ERROR EG_VALIDATION reason"

text \<open>Reading one part after another, with the early return on failure, and a value that is ready.\<close>

definition bind_reader :: "'a reader \<Rightarrow> ('a \<Rightarrow> 'b reader) \<Rightarrow> 'b reader" where
  "bind_reader r f l bs = (case r l bs of Inl s \<Rightarrow> Inl s | Inr (x, rest) \<Rightarrow> f x l rest)"

definition ready :: "'a \<Rightarrow> 'a reader" where
  "ready x l bs = Inr (x, bs)"

definition refuse :: "status \<Rightarrow> 'a reader" where
  "refuse s l bs = Inl s"

definition need :: "nat \<Rightarrow> u8 list \<Rightarrow> status" where
  "need n bs = (if n > length bs then payload_error (lit ''payload truncated'') else success)"

definition pr_u8 :: "u8 reader" where
  "pr_u8 l bs = (if \<not> st_ok (need 1 bs) then Inl (need 1 bs) else Inr (bs ! 0, drop 1 bs))"

definition pr_u16 :: "u16 reader" where
  "pr_u16 l bs =
     (if \<not> st_ok (need 2 bs) then Inl (need 2 bs)
      else Inr (ucast (bs ! 0) OR push_bit 8 (ucast (bs ! 1)), drop 2 bs))"

definition pr_u32 :: "u32 reader" where
  "pr_u32 l bs = (if \<not> st_ok (need 4 bs) then Inl (need 4 bs) else Inr (load_le 4 bs, drop 4 bs))"

definition pr_u64 :: "u64 reader" where
  "pr_u64 l bs = (if \<not> st_ok (need 8 bs) then Inl (need 8 bs) else Inr (load_le 8 bs, drop 8 bs))"

definition pr_boolean :: "bool reader" where
  "pr_boolean = bind_reader pr_u8 (\<lambda>raw.
     if raw > 1 then refuse (payload_error (lit ''boolean out of range'')) else ready (raw \<noteq> 0))"

definition pr_real :: "double reader" where
  "pr_real = bind_reader pr_u64 ready"

definition pr_integer :: "u64 reader" where
  "pr_integer = bind_reader pr_u64 ready"

definition kDigestBytes :: nat where
  "kDigestBytes = 32"

definition pr_digest :: "digest reader" where
  "pr_digest l bs =
     (if \<not> st_ok (need kDigestBytes bs) then Inl (need kDigestBytes bs)
      else Inr (take kDigestBytes bs, drop kDigestBytes bs))"

definition pr_raw :: "u32 \<Rightarrow> u8 list reader" where
  "pr_raw n l bs =
     (if \<not> st_ok (need (unat n) bs) then Inl (need (unat n) bs)
      else Inr (take (unat n) bs, drop (unat n) bs))"

text \<open>The characters of a byte range.\<close>

definition bytes_text :: "u8 list \<Rightarrow> string" where
  "bytes_text bs = map (\<lambda>b. char_of (unat b)) bs"

definition pr_text :: "u32 \<Rightarrow> string reader" where
  "pr_text max_length = bind_reader pr_u32 (\<lambda>n l bs.
     if n > max_length \<or> n > lm_max_persisted_string_bytes l
       then Inl (payload_error (lit ''declared string length exceeds bound''))
     else if \<not> st_ok (need (unat n) bs) then Inl (need (unat n) bs)
     else Inr (bytes_text (take (unat n) bs), drop (unat n) bs))"

definition pr_count :: "u32 \<Rightarrow> u32 reader" where
  "pr_count max_value = bind_reader pr_u32 (\<lambda>n.
     if n > max_value then refuse (limits_error (lit ''declared count exceeds bound'')) else ready n)"

definition expect_end :: "u8 list \<Rightarrow> status" where
  "expect_end bs = (if bs \<noteq> [] then payload_error (lit ''trailing payload bytes'') else success)"

text \<open>The reading loops, and a decoder that must consume its payload exactly.\<close>

fun read_items :: "nat \<Rightarrow> 'a reader \<Rightarrow> 'a list reader" where
  "read_items 0 r = ready []"
| "read_items (Suc n) r = bind_reader r (\<lambda>x. bind_reader (read_items n r) (\<lambda>xs. ready (x # xs)))"

definition read_vector :: "u32 \<Rightarrow> 'a reader \<Rightarrow> 'a list reader" where
  "read_vector max_items r = bind_reader (pr_count max_items) (\<lambda>n. read_items (unat n) r)"

definition decode_all :: "'a reader \<Rightarrow> u8 list \<Rightarrow> limits \<Rightarrow> 'a result" where
  "decode_all r bs l =
     (case r l bs of
        Inl s \<Rightarrow> Inl s
      | Inr (x, rest) \<Rightarrow> if \<not> st_ok (expect_end rest) then Inl (expect_end rest) else Inr x)"

section \<open>Identities, options, enumerations\<close>

definition write_id :: "'a strong_id \<Rightarrow> u8 list" where
  "write_id i = pw_u64 (id_value i)"

definition read_id :: "'a strong_id reader" where
  "read_id = bind_reader pr_u64 (\<lambda>v. ready (from_value v))"

definition put_optional_u64 :: "u64 option \<Rightarrow> u8 list" where
  "put_optional_u64 v = pw_boolean (v \<noteq> None) @ (case v of None \<Rightarrow> [] | Some x \<Rightarrow> pw_u64 x)"

definition read_optional_u64 :: "u64 option reader" where
  "read_optional_u64 = bind_reader pr_boolean (\<lambda>present.
     if \<not> present then ready None else bind_reader pr_u64 (\<lambda>x. ready (Some x)))"

definition put_optional_real :: "double option \<Rightarrow> u8 list" where
  "put_optional_real v = pw_boolean (v \<noteq> None) @ (case v of None \<Rightarrow> [] | Some x \<Rightarrow> pw_real x)"

definition read_optional_real :: "double option reader" where
  "read_optional_real = bind_reader pr_boolean (\<lambda>present.
     if \<not> present then ready None else bind_reader pr_real (\<lambda>x. ready (Some x)))"

text \<open>
  An enumeration travels as the byte of its numbering. The value that \<^verbatim>\<open>static_cast\<close> makes of a byte
  in range is the entry of the name table at that position: the tables list the enumerators in
  their order.
\<close>

definition write_enum :: "('e \<Rightarrow> u8) \<Rightarrow> 'e \<Rightarrow> u8 list" where
  "write_enum code x = pw_u8 (code x)"

definition read_enum_byte :: "u8 \<Rightarrow> string \<Rightarrow> u8 reader" where
  "read_enum_byte max_value what = bind_reader pr_u8 (\<lambda>raw.
     if raw > max_value then refuse (payload_error (lit ''impossible '' @ what @ lit '' value''))
     else ready raw)"

definition read_enum :: "('e \<times> string) list \<Rightarrow> u8 \<Rightarrow> string \<Rightarrow> 'e reader" where
  "read_enum table max_value what =
     bind_reader (read_enum_byte max_value what) (\<lambda>raw. ready (fst (table ! unat raw)))"

section \<open>The codec interface\<close>

lemma payload_error_fails [simp]: "\<not> st_ok (payload_error reason)"
  by (simp add: payload_error_def)


lemma bind_reader_ready [simp]: "bind_reader (ready x) f = f x"
  by (simp add: fun_eq_iff bind_reader_def ready_def)

lemmas [codec_reads] = bind_reader_def

lemma ready_apply [codec_reads]: "ready x l bs = Inr (x, bs)"
  by (simp add: ready_def)

lemma ready_accepts [codec_strict]: "ready x l bs = Inr (y, rest) \<longleftrightarrow> y = x \<and> rest = bs"
  by (auto simp: ready_def)

lemma refuse_accepts [codec_strict]: "refuse s l bs = Inr (y, rest) \<longleftrightarrow> False"
  by (simp add: refuse_def)

lemma bind_reader_accepts [codec_strict]:
  "bind_reader r f l bs = Inr (y, rest) \<longleftrightarrow> (\<exists>x mid. r l bs = Inr (x, mid) \<and> f x l mid = Inr (y, rest))"
  by (auto simp: bind_reader_def split: sum.splits)

locale codec =
  fixes put :: "'a \<Rightarrow> u8 list" and get :: "'a reader" and fits :: "limits \<Rightarrow> 'a \<Rightarrow> bool"
  assumes get_put: "fits l x \<Longrightarrow> get l (put x @ rest) = Inr (x, rest)"
begin

lemma get_put_end: "fits l x \<Longrightarrow> get l (put x) = Inr (x, [])"
  using get_put [of l x "[]"] by simp

lemma decode_encode: "fits l x \<Longrightarrow> decode_all get (put x) l = Inr x"
  by (simp add: decode_all_def get_put_end expect_end_def)

lemma put_unambiguous:
  assumes "fits l x" and "fits l y" and "put x @ xs = put y @ ys"
  shows "x = y \<and> xs = ys"
  using get_put [OF assms(1), of xs] get_put [OF assms(2), of ys] assms(3) by (metis Pair_inject sum.inject(2))

lemma read_items_write:
  "(\<And>x. x \<in> set xs \<Longrightarrow> fits l x) \<Longrightarrow> read_items (length xs) get l (concat (map put xs) @ rest) = Inr (xs, rest)"
  by (induction xs) (simp_all add: ready_def bind_reader_def get_put)

end

locale strict_codec = codec +
  assumes put_get: "get l bs = Inr (x, rest) \<Longrightarrow> bs = put x @ rest \<and> fits l x"
begin

lemma encode_decode: "decode_all get bs l = Inr x \<Longrightarrow> bs = put x \<and> fits l x"
  using put_get by (fastforce simp: decode_all_def expect_end_def payload_error_def split: sum.splits if_splits)

lemma decode_iff: "decode_all get bs l = Inr x \<longleftrightarrow> bs = put x \<and> fits l x"
  using decode_encode encode_decode by blast

lemma read_items_read:
  "read_items n get l bs = Inr (xs, rest) \<Longrightarrow>
     bs = concat (map put xs) @ rest \<and> length xs = n \<and> (\<forall>x \<in> set xs. fits l x)"
proof (induction n arbitrary: bs xs)
  case 0 then show ?case by (simp add: codec_strict)
next
  case (Suc n)
  then obtain x mid ys where x: "get l bs = Inr (x, mid)" and ys: "read_items n get l mid = Inr (ys, rest)"
    and xs: "xs = x # ys" by (auto simp: codec_strict)
  show ?case using put_get [OF x] Suc.IH [OF ys] xs by simp
qed

end

section \<open>The parts of every message\<close>

lemma need_ok [simp]: "st_ok (need n bs) \<longleftrightarrow> n \<le> length bs"
  by (simp add: need_def payload_error_def not_less)

lemma pr_u16_load: "pr_u16 l bs = (if \<not> st_ok (need 2 bs) then Inl (need 2 bs) else Inr (load_le 2 bs, drop 2 bs))"
  by (simp add: pr_u16_def load_le_def numeral_2_eq_2)

lemma pw_u16_store: "pw_u16 v = store_le 2 v"
  by (simp add: pw_u16_def store_le_def numeral_2_eq_2)

lemma load_le_split:
  assumes "LENGTH('a) = 8 * n" and "n \<le> length bs"
  shows "bs = store_le n (load_le n bs :: 'a::len word) @ drop n bs"
  using store_load_le [OF assms] by simp

interpretation u8: strict_codec pw_u8 pr_u8 "\<lambda>l v. True"
  by unfold_locales (auto simp: pw_u8_def pr_u8_def neq_Nil_conv Suc_le_length_iff split: if_splits)

interpretation u16: strict_codec pw_u16 pr_u16 "\<lambda>l v. True"
  by unfold_locales
    (auto simp: pw_u16_store pr_u16_load load_store_le intro!: load_le_split split: if_splits)

interpretation u32: strict_codec pw_u32 pr_u32 "\<lambda>l v. True"
  by unfold_locales
    (auto simp: pw_u32_def pr_u32_def load_store_le intro!: load_le_split split: if_splits)

interpretation u64: strict_codec pw_u64 pr_u64 "\<lambda>l v. True"
  by unfold_locales
    (auto simp: pw_u64_def pr_u64_def load_store_le intro!: load_le_split split: if_splits)

lemmas [codec_reads] = u8.get_put u16.get_put u32.get_put u64.get_put
lemmas [codec_accepts] = u8.put_get u16.put_get u32.put_get u64.put_get

lemma byte_boolean: "\<not> (b :: u8) > 1 \<Longrightarrow> b = 0 \<or> b = 1"
proof -
  assume "\<not> b > 1"
  then have "unat b = unat (0 :: u8) \<or> unat b = unat (1 :: u8)" by (auto simp: not_less word_le_nat_alt le_Suc_eq)
  then show ?thesis using word_eqI_unat by blast
qed

interpretation boolean: strict_codec pw_boolean pr_boolean "\<lambda>l v. True"
  by unfold_locales
    (simp add: pw_boolean_def pr_boolean_def codec_reads,
     auto simp: pw_boolean_def pr_boolean_def codec_strict split: if_splits dest!: codec_accepts byte_boolean)

interpretation real: strict_codec pw_real pr_real "\<lambda>l v. True"
  by unfold_locales
    (simp add: pw_real_def pr_real_def codec_reads,
     auto simp: pw_real_def pr_real_def codec_strict split: if_splits dest!: codec_accepts)

interpretation integer: strict_codec pw_integer pr_integer "\<lambda>l v. True"
  by unfold_locales
    (simp add: pw_integer_def pr_integer_def codec_reads,
     auto simp: pw_integer_def pr_integer_def codec_strict split: if_splits dest!: codec_accepts)

interpretation identity: strict_codec write_id read_id "\<lambda>l v. True"
  by unfold_locales
    (simp add: write_id_def read_id_def from_value_def codec_reads,
     auto simp: write_id_def read_id_def from_value_def codec_strict split: if_splits dest!: codec_accepts)

interpretation digest: strict_codec pw_digest pr_digest "\<lambda>l d. length d = kDigestBytes"
  by unfold_locales (auto simp: pw_digest_def pw_raw_def pr_digest_def split: if_splits)

lemmas [codec_reads] = boolean.get_put real.get_put integer.get_put identity.get_put digest.get_put
lemmas [codec_accepts] = boolean.put_get real.put_get integer.put_get identity.put_get digest.put_get

text \<open>A text is read back when it is within the bound of its field and of the reader.\<close>

definition text_within :: "u32 \<Rightarrow> limits \<Rightarrow> string \<Rightarrow> bool" where
  "text_within m l s \<longleftrightarrow> length s \<le> unat m \<and> length s \<le> unat (lm_max_persisted_string_bytes l)"

lemma bytes_text_bytes [simp]: "bytes_text (text_bytes s) = s"
  by (simp add: bytes_text_def text_bytes_def char_byte_def comp_def unat_of_nat)

lemma text_bytes_bytes [simp]: "text_bytes (bytes_text bs) = bs"
proof -
  have "word_of_nat (unat b mod 256) = b" for b :: u8
    using unsigned_less [of b, where ?'a = nat] by simp
  then show ?thesis by (simp add: bytes_text_def text_bytes_def char_byte_def comp_def)
qed

lemma length_text_bytes [simp]: "length (text_bytes s) = length s"
  by (simp add: text_bytes_def)

lemma length_bytes_text [simp]: "length (bytes_text bs) = length bs"
  by (simp add: bytes_text_def)

lemma unat_of_length: "n \<le> unat (m :: u32) \<Longrightarrow> unat (of_nat n :: u32) = n"
  using unat_lt_32 [of m] by (simp add: unat_of_nat)

interpretation bounded_text: strict_codec "\<lambda>s. pw_text s m" "pr_text m" "text_within m" for m
proof
  fix l s rest assume "text_within m l s"
  then show "pr_text m l (pw_text s m @ rest) = Inr (s, rest)"
    by (auto simp: text_within_def pw_text_def pr_text_def codec_reads word_less_nat_alt unat_of_length)
next
  fix l bs s rest assume "pr_text m l bs = Inr (s, rest)"
  then show "bs = pw_text s m @ rest \<and> text_within m l s"
    by (auto simp: text_within_def pw_text_def pr_text_def codec_strict word_less_nat_alt not_less
        min_def split: if_splits dest!: codec_accepts)
qed

interpretation count: strict_codec "\<lambda>n. pw_count n m" "pr_count m" "\<lambda>l n. n \<le> m" for m
  by unfold_locales
    (simp add: pw_count_def pr_count_def codec_reads,
     auto simp: pw_count_def pr_count_def codec_strict split: if_splits dest!: codec_accepts)

interpretation optional_u64: strict_codec put_optional_u64 read_optional_u64 "\<lambda>l v. True"
  by unfold_locales
    ((auto simp: put_optional_u64_def read_optional_u64_def codec_reads split: option.splits)[1],
     auto simp: put_optional_u64_def read_optional_u64_def codec_strict split: if_splits dest!: codec_accepts)

interpretation optional_real: strict_codec put_optional_real read_optional_real "\<lambda>l v. True"
  by unfold_locales
    ((auto simp: put_optional_real_def read_optional_real_def codec_reads split: option.splits)[1],
     auto simp: put_optional_real_def read_optional_real_def codec_strict split: if_splits dest!: codec_accepts)

lemmas [codec_reads] = bounded_text.get_put count.get_put optional_u64.get_put optional_real.get_put
lemmas [codec_accepts] = bounded_text.put_get count.put_get optional_u64.put_get optional_real.put_get

section \<open>Vectors and enumerations\<close>

definition vector_within :: "u32 \<Rightarrow> (limits \<Rightarrow> 'a \<Rightarrow> bool) \<Rightarrow> limits \<Rightarrow> 'a list \<Rightarrow> bool" where
  "vector_within m ok l xs \<longleftrightarrow> length xs \<le> unat m \<and> (\<forall>x \<in> set xs. ok l x)"

lemma vector_count_fits: "length xs \<le> unat m \<Longrightarrow> of_nat (length xs) \<le> (m :: u32)"
  by (simp add: word_le_nat_alt unat_of_length)

context codec
begin

lemma vector_get_put:
  assumes "vector_within m fits l xs"
  shows "read_vector m get l (write_vector m put xs @ rest) = Inr (xs, rest)"
proof -
  have n: "length xs \<le> unat m" and each: "\<And>x. x \<in> set xs \<Longrightarrow> fits l x"
    using assms by (auto simp: vector_within_def)
  show ?thesis
    by (simp add: read_vector_def write_vector_def codec_reads vector_count_fits [OF n] unat_of_length [OF n]
        read_items_write each)
qed

end

context strict_codec
begin

lemma vector_put_get:
  assumes "read_vector m get l bs = Inr (xs, rest)"
  shows "bs = write_vector m put xs @ rest \<and> vector_within m fits l xs"
proof -
  obtain n mid where n: "pr_count m l bs = Inr (n, mid)" and xs: "read_items (unat n) get l mid = Inr (xs, rest)"
    using assms by (auto simp: read_vector_def codec_strict)
  show ?thesis
    using count.put_get [OF n] read_items_read [OF xs]
    by (auto simp: write_vector_def vector_within_def word_le_nat_alt)
qed

lemma strict_vector: "strict_codec (write_vector m put) (read_vector m get) (vector_within m fits)"
  by unfold_locales (auto simp: vector_get_put dest: vector_put_get)

end

text \<open>An enumeration whose name table lists its values in the order of their codes.\<close>

locale wire_enum =
  fixes code :: "'e \<Rightarrow> u8" and table :: "('e \<times> string) list" and top :: u8
  assumes codes: "map (\<lambda>e. code (fst e)) table = map of_nat [0..<Suc (unat top)]"
    and all_listed: "x \<in> fst ` set table"
begin

lemma length_table: "length table = Suc (unat top)"
  using arg_cong [OF codes, of length] by simp

lemma code_at: "i \<le> unat top \<Longrightarrow> code (fst (table ! i)) = of_nat i"
  using arg_cong [OF codes, of "\<lambda>xs. xs ! i"] by (simp add: length_table nth_append del: upt_Suc)

lemma cast_code: "b \<le> top \<Longrightarrow> code (fst (table ! unat b)) = b"
  by (simp add: code_at word_le_nat_alt)

lemma code_cast: "fst (table ! unat (code x)) = x \<and> code x \<le> top"
proof -
  obtain i where i: "i < length table" "x = fst (table ! i)"
    using all_listed [of x] by (auto simp: in_set_conv_nth)
  then have top: "i \<le> unat top" and "code x = of_nat i" by (simp_all add: length_table code_at)
  moreover have "unat (of_nat i :: u8) = i"
    using top unsigned_less [of top, where ?'a = nat] by (simp add: unat_of_nat)
  ultimately show ?thesis using i by (simp add: word_le_nat_alt)
qed

lemma enum_get_put: "read_enum table top what l (write_enum code x @ rest) = Inr (x, rest)"
  using code_cast [of x]
  by (auto simp: read_enum_def read_enum_byte_def write_enum_def codec_reads)

lemma enum_put_get: "read_enum table top what l bs = Inr (x, rest) \<Longrightarrow> bs = write_enum code x @ rest"
  by (auto simp: read_enum_def read_enum_byte_def write_enum_def codec_strict not_less cast_code
      split: if_splits dest!: codec_accepts)

end

sublocale wire_enum \<subseteq> wire: strict_codec "write_enum code" "read_enum table top what" "\<lambda>l x. True" for what
  by unfold_locales (auto simp: enum_get_put dest: enum_put_get)

end
