(* ===== verification/ModelCodec.thy ===== *)
theory ModelCodec
  imports Payload
begin

text \<open>
  The model codecs of \<^verbatim>\<open>src/protocol.cpp\<close>, shared by the transport and by the state image: for each
  record of the model what the writer appends and what the reader makes of it. Every reader names
  the fields in the order the code reads them; the predicates ending in \<open>bounded\<close> collect the
  bounds of the texts and vectors. All of them are strict codecs but the two that fill maps, which
  accept the entries in any order.
\<close>

section \<open>Enumerations\<close>

definition kMaxParameterKind :: u8 where
  "kMaxParameterKind = parameter_kind_code PK_BOOLEAN"

definition kMaxTrialState :: u8 where
  "kMaxTrialState = trial_state_code TS_REVALIDATION_REQUIRED"

definition kMaxExperimentState :: u8 where
  "kMaxExperimentState = experiment_state_code ES_RECOVERING"

definition kMaxBranchState :: u8 where
  "kMaxBranchState = branch_state_code BS_SUPERSEDED"

definition kMaxAttemptState :: u8 where
  "kMaxAttemptState = attempt_state_code AS_REVALIDATION_REQUIRED"

definition kMaxBranchRole :: u8 where
  "kMaxBranchRole = branch_role_code BR_CANDIDATE"

definition kMaxMetricKind :: u8 where
  "kMaxMetricKind = metric_kind_code MK_CATEGORICAL"

definition kMaxMetricDirection :: u8 where
  "kMaxMetricDirection = metric_direction_code MD_INFORMATIONAL"

definition kMaxAggregationRule :: u8 where
  "kMaxAggregationRule = aggregation_rule_code AR_MAJORITY"

definition kMaxObservationValidity :: u8 where
  "kMaxObservationValidity = observation_validity_code OV_UNSUPPORTED"

definition kMaxComparisonOp :: u8 where
  "kMaxComparisonOp = comparison_op_code CO_REPORT_ONLY"

definition kMaxDecisionOutcome :: u8 where
  "kMaxDecisionOutcome = decision_outcome_code DO_SUPERSEDED"

definition kMaxFailureKind :: u8 where
  "kMaxFailureKind = failure_kind_code FK_LIMIT_EXCEEDED"

definition kMaxSeedPolicy :: u8 where
  "kMaxSeedPolicy = seed_policy_code SP_NONE"

definition kMaxRetryPolicy :: u8 where
  "kMaxRetryPolicy = retry_policy_code RP_NO_RETRY"

definition kMaxPartialFailurePolicy :: u8 where
  "kMaxPartialFailurePolicy = partial_failure_policy_code PF_RETRY_ALLOWED"

definition kMaxLateEvidencePolicy :: u8 where
  "kMaxLateEvidencePolicy = late_evidence_policy_code LE_RETAIN_HISTORICAL"

interpretation wire_parameter_kind: wire_enum parameter_kind_code kParameterKinds kMaxParameterKind
proof
  show "x \<in> fst ` set kParameterKinds" for x by (cases x) (simp_all add: kParameterKinds_def)
qed (simp add: kParameterKinds_def kMaxParameterKind_def upt_rec)

interpretation wire_trial_state: wire_enum trial_state_code kTrialStates kMaxTrialState
proof
  show "x \<in> fst ` set kTrialStates" for x by (cases x) (simp_all add: kTrialStates_def)
qed (simp add: kTrialStates_def kMaxTrialState_def upt_rec)

interpretation wire_experiment_state: wire_enum experiment_state_code kExperimentStates kMaxExperimentState
proof
  show "x \<in> fst ` set kExperimentStates" for x by (cases x) (simp_all add: kExperimentStates_def)
qed (simp add: kExperimentStates_def kMaxExperimentState_def upt_rec)

interpretation wire_branch_state: wire_enum branch_state_code kBranchStates kMaxBranchState
proof
  show "x \<in> fst ` set kBranchStates" for x by (cases x) (simp_all add: kBranchStates_def)
qed (simp add: kBranchStates_def kMaxBranchState_def upt_rec)

interpretation wire_attempt_state: wire_enum attempt_state_code kAttemptStates kMaxAttemptState
proof
  show "x \<in> fst ` set kAttemptStates" for x by (cases x) (simp_all add: kAttemptStates_def)
qed (simp add: kAttemptStates_def kMaxAttemptState_def upt_rec)

interpretation wire_branch_role: wire_enum branch_role_code kBranchRoles kMaxBranchRole
proof
  show "x \<in> fst ` set kBranchRoles" for x by (cases x) (simp_all add: kBranchRoles_def)
qed (simp add: kBranchRoles_def kMaxBranchRole_def upt_rec)

interpretation wire_metric_kind: wire_enum metric_kind_code kMetricKinds kMaxMetricKind
proof
  show "x \<in> fst ` set kMetricKinds" for x by (cases x) (simp_all add: kMetricKinds_def)
qed (simp add: kMetricKinds_def kMaxMetricKind_def upt_rec)

interpretation wire_metric_direction: wire_enum metric_direction_code kMetricDirections kMaxMetricDirection
proof
  show "x \<in> fst ` set kMetricDirections" for x by (cases x) (simp_all add: kMetricDirections_def)
qed (simp add: kMetricDirections_def kMaxMetricDirection_def upt_rec)

interpretation wire_aggregation_rule: wire_enum aggregation_rule_code kAggregationRules kMaxAggregationRule
proof
  show "x \<in> fst ` set kAggregationRules" for x by (cases x) (simp_all add: kAggregationRules_def)
qed (simp add: kAggregationRules_def kMaxAggregationRule_def upt_rec)

interpretation wire_observation_validity: wire_enum observation_validity_code kObservationValidities kMaxObservationValidity
proof
  show "x \<in> fst ` set kObservationValidities" for x by (cases x) (simp_all add: kObservationValidities_def)
qed (simp add: kObservationValidities_def kMaxObservationValidity_def upt_rec)

interpretation wire_comparison_op: wire_enum comparison_op_code kComparisonOps kMaxComparisonOp
proof
  show "x \<in> fst ` set kComparisonOps" for x by (cases x) (simp_all add: kComparisonOps_def)
qed (simp add: kComparisonOps_def kMaxComparisonOp_def upt_rec)

interpretation wire_decision_outcome: wire_enum decision_outcome_code kDecisionOutcomes kMaxDecisionOutcome
proof
  show "x \<in> fst ` set kDecisionOutcomes" for x by (cases x) (simp_all add: kDecisionOutcomes_def)
qed (simp add: kDecisionOutcomes_def kMaxDecisionOutcome_def upt_rec)

interpretation wire_failure_kind: wire_enum failure_kind_code kFailureKinds kMaxFailureKind
proof
  show "x \<in> fst ` set kFailureKinds" for x by (cases x) (simp_all add: kFailureKinds_def)
qed (simp add: kFailureKinds_def kMaxFailureKind_def upt_rec)

interpretation wire_seed_policy: wire_enum seed_policy_code kSeedPolicies kMaxSeedPolicy
proof
  show "x \<in> fst ` set kSeedPolicies" for x by (cases x) (simp_all add: kSeedPolicies_def)
qed (simp add: kSeedPolicies_def kMaxSeedPolicy_def upt_rec)

interpretation wire_retry_policy: wire_enum retry_policy_code kRetryPolicies kMaxRetryPolicy
proof
  show "x \<in> fst ` set kRetryPolicies" for x by (cases x) (simp_all add: kRetryPolicies_def)
qed (simp add: kRetryPolicies_def kMaxRetryPolicy_def upt_rec)

interpretation wire_partial_failure_policy: wire_enum partial_failure_policy_code kPartialFailurePolicies kMaxPartialFailurePolicy
proof
  show "x \<in> fst ` set kPartialFailurePolicies" for x by (cases x) (simp_all add: kPartialFailurePolicies_def)
qed (simp add: kPartialFailurePolicies_def kMaxPartialFailurePolicy_def upt_rec)

interpretation wire_late_evidence_policy: wire_enum late_evidence_policy_code kLateEvidencePolicies kMaxLateEvidencePolicy
proof
  show "x \<in> fst ` set kLateEvidencePolicies" for x by (cases x) (simp_all add: kLateEvidencePolicies_def)
qed (simp add: kLateEvidencePolicies_def kMaxLateEvidencePolicy_def upt_rec)

lemmas [codec_reads] =
  wire_parameter_kind.enum_get_put wire_trial_state.enum_get_put wire_experiment_state.enum_get_put
  wire_branch_state.enum_get_put wire_attempt_state.enum_get_put wire_branch_role.enum_get_put
  wire_metric_kind.enum_get_put wire_metric_direction.enum_get_put wire_aggregation_rule.enum_get_put
  wire_observation_validity.enum_get_put wire_comparison_op.enum_get_put
  wire_decision_outcome.enum_get_put wire_failure_kind.enum_get_put wire_seed_policy.enum_get_put
  wire_retry_policy.enum_get_put wire_partial_failure_policy.enum_get_put
  wire_late_evidence_policy.enum_get_put

lemmas [codec_accepts] =
  wire_parameter_kind.enum_put_get wire_trial_state.enum_put_get wire_experiment_state.enum_put_get
  wire_branch_state.enum_put_get wire_attempt_state.enum_put_get wire_branch_role.enum_put_get
  wire_metric_kind.enum_put_get wire_metric_direction.enum_put_get wire_aggregation_rule.enum_put_get
  wire_observation_validity.enum_put_get wire_comparison_op.enum_put_get
  wire_decision_outcome.enum_put_get wire_failure_kind.enum_put_get wire_seed_policy.enum_put_get
  wire_retry_policy.enum_put_get wire_partial_failure_policy.enum_put_get
  wire_late_evidence_policy.enum_put_get

section \<open>Parameters and metrics\<close>

lemmas [codec_reads] =
  identity.vector_get_put bounded_text.vector_get_put real.vector_get_put

lemmas [codec_accepts] =
  identity.vector_put_get bounded_text.vector_put_get real.vector_put_get

definition put_parameter :: "parameter_assignment \<Rightarrow> u8 list" where
  "put_parameter x =
     pw_text (pa_key x) 128 @ write_enum parameter_kind_code (pa_kind x) @ pw_text (pa_value x) 4096"

definition read_parameter :: "parameter_assignment reader" where
  "read_parameter =
     bind_reader (pr_text 128) (\<lambda>key.
     bind_reader (read_enum kParameterKinds kMaxParameterKind (lit ''parameter kind'')) (\<lambda>kind.
     bind_reader (pr_text 4096) (\<lambda>v.
     ready \<lparr>pa_key = key, pa_kind = kind, pa_value = v\<rparr>)))"

definition parameter_bounded :: "limits \<Rightarrow> parameter_assignment \<Rightarrow> bool" where
  "parameter_bounded l x \<longleftrightarrow>
     text_within 128 l (pa_key x) \<and> text_within 4096 l (pa_value x)"

interpretation parameter_codec: strict_codec put_parameter read_parameter parameter_bounded
  by unfold_locales
    (simp add: put_parameter_def read_parameter_def parameter_bounded_def codec_reads, auto simp: put_parameter_def read_parameter_def parameter_bounded_def codec_strict dest!: codec_accepts)

lemmas [codec_reads] =
  parameter_codec.get_put parameter_codec.vector_get_put

lemmas [codec_accepts] =
  parameter_codec.put_get parameter_codec.vector_put_get

definition put_parameters :: "parameter_assignment list \<Rightarrow> u8 list" where
  "put_parameters parameters = write_vector 4096 put_parameter parameters"

definition read_parameters :: "parameter_assignment list reader" where
  "read_parameters = read_vector 4096 read_parameter"

definition parameters_bounded :: "limits \<Rightarrow> parameter_assignment list \<Rightarrow> bool" where
  "parameters_bounded l parameters \<longleftrightarrow> vector_within 4096 parameter_bounded l parameters"

interpretation parameters_codec: strict_codec put_parameters read_parameters parameters_bounded
  by unfold_locales
    (simp add: put_parameters_def read_parameters_def parameters_bounded_def codec_reads,
     auto simp: put_parameters_def read_parameters_def parameters_bounded_def dest!: codec_accepts)

lemmas [codec_reads] = parameters_codec.get_put
lemmas [codec_accepts] = parameters_codec.put_get

definition put_metric_value :: "metric_value \<Rightarrow> u8 list" where
  "put_metric_value x =
     write_enum metric_kind_code (mv_kind x) @ pw_real (mv_real x) @ pw_integer (mv_integer x) @
     pw_boolean (mv_boolean x) @ pw_text (mv_category x) 128"

definition read_metric_value :: "metric_value reader" where
  "read_metric_value =
     bind_reader (read_enum kMetricKinds kMaxMetricKind (lit ''metric kind'')) (\<lambda>kind.
     bind_reader pr_real (\<lambda>r. bind_reader pr_integer (\<lambda>n. bind_reader pr_boolean (\<lambda>b.
     bind_reader (pr_text 128) (\<lambda>category.
     ready \<lparr>mv_kind = kind, mv_real = r, mv_integer = n, mv_boolean = b, mv_category = category\<rparr>)))))"

definition metric_value_bounded :: "limits \<Rightarrow> metric_value \<Rightarrow> bool" where
  "metric_value_bounded l x \<longleftrightarrow>
     text_within 128 l (mv_category x)"

interpretation metric_value_codec: strict_codec put_metric_value read_metric_value metric_value_bounded
  by unfold_locales
    (simp add: put_metric_value_def read_metric_value_def metric_value_bounded_def codec_reads, auto simp: put_metric_value_def read_metric_value_def metric_value_bounded_def codec_strict dest!: codec_accepts)

lemmas [codec_reads] =
  metric_value_codec.get_put metric_value_codec.vector_get_put

lemmas [codec_accepts] =
  metric_value_codec.put_get metric_value_codec.vector_put_get

section \<open>Observations and artifacts\<close>

definition put_observation :: "observation \<Rightarrow> u8 list" where
  "put_observation x =
     write_id (ob_id x) @ write_id (ob_experiment x) @ write_id (ob_generation x) @
     write_id (ob_branch x) @ write_id (ob_branch_generation x) @ write_id (ob_trial x) @
     write_id (ob_attempt x) @ write_id (ob_metric x) @ write_id (ob_producer x) @
     write_id (ob_worker x) @ write_id (ob_boot x) @ write_id (ob_epoch x) @
     write_enum observation_validity_code (ob_validity x) @ put_metric_value (ob_value x) @
     pw_text (ob_detail x) 512 @ pw_u64 (ob_sequence x)"

definition read_observation :: "observation reader" where
  "read_observation =
     bind_reader read_id (\<lambda>i. bind_reader read_id (\<lambda>experiment.
     bind_reader read_id (\<lambda>generation. bind_reader read_id (\<lambda>branch.
     bind_reader read_id (\<lambda>branch_generation. bind_reader read_id (\<lambda>trial.
     bind_reader read_id (\<lambda>attempt. bind_reader read_id (\<lambda>metric.
     bind_reader read_id (\<lambda>producer. bind_reader read_id (\<lambda>worker.
     bind_reader read_id (\<lambda>boot. bind_reader read_id (\<lambda>epoch.
     bind_reader (read_enum kObservationValidities kMaxObservationValidity (lit ''observation validity'')) (\<lambda>validity.
     bind_reader read_metric_value (\<lambda>v. bind_reader (pr_text 512) (\<lambda>detail.
     bind_reader pr_u64 (\<lambda>sequence.
     ready \<lparr>ob_id = i, ob_experiment = experiment, ob_generation = generation, ob_branch = branch,
       ob_branch_generation = branch_generation, ob_trial = trial, ob_attempt = attempt,
       ob_metric = metric, ob_producer = producer, ob_worker = worker, ob_boot = boot, ob_epoch = epoch,
       ob_validity = validity, ob_value = v, ob_detail = detail, ob_sequence = sequence\<rparr>))))))))))))))))"

definition observation_bounded :: "limits \<Rightarrow> observation \<Rightarrow> bool" where
  "observation_bounded l x \<longleftrightarrow>
     metric_value_bounded l (ob_value x) \<and> text_within 512 l (ob_detail x)"

interpretation observation_codec: strict_codec put_observation read_observation observation_bounded
  by unfold_locales
    (simp add: put_observation_def read_observation_def observation_bounded_def codec_reads, auto simp: put_observation_def read_observation_def observation_bounded_def codec_strict dest!: codec_accepts)

lemmas [codec_reads] =
  observation_codec.get_put observation_codec.vector_get_put

lemmas [codec_accepts] =
  observation_codec.put_get observation_codec.vector_put_get

definition put_artifact :: "artifact_record \<Rightarrow> u8 list" where
  "put_artifact x =
     write_id (ar_id x) @ write_id (ar_experiment x) @ write_id (ar_generation x) @
     write_id (ar_branch x) @ write_id (ar_trial x) @ write_id (ar_attempt x) @
     pw_text (ar_category x) 128 @ pw_text (ar_locator x) 1024 @ pw_digest (ar_content_digest x) @
     pw_boolean (ar_digest_present x) @ pw_boolean (ar_size_present x) @ pw_u64 (ar_size_bytes x) @
     pw_text (ar_provenance x) 512 @ pw_boolean (ar_current x) @ pw_u64 (ar_sequence x)"

definition read_artifact :: "artifact_record reader" where
  "read_artifact =
     bind_reader read_id (\<lambda>i. bind_reader read_id (\<lambda>experiment.
     bind_reader read_id (\<lambda>generation. bind_reader read_id (\<lambda>branch.
     bind_reader read_id (\<lambda>trial. bind_reader read_id (\<lambda>attempt.
     bind_reader (pr_text 128) (\<lambda>category. bind_reader (pr_text 1024) (\<lambda>locator.
     bind_reader pr_digest (\<lambda>content_digest. bind_reader pr_boolean (\<lambda>digest_present.
     bind_reader pr_boolean (\<lambda>size_present. bind_reader pr_u64 (\<lambda>size_bytes.
     bind_reader (pr_text 512) (\<lambda>provenance. bind_reader pr_boolean (\<lambda>cur.
     bind_reader pr_u64 (\<lambda>sequence.
     ready \<lparr>ar_id = i, ar_experiment = experiment, ar_generation = generation, ar_branch = branch,
       ar_trial = trial, ar_attempt = attempt, ar_category = category, ar_locator = locator,
       ar_content_digest = content_digest, ar_digest_present = digest_present,
       ar_size_present = size_present, ar_size_bytes = size_bytes, ar_provenance = provenance,
       ar_current = cur, ar_sequence = sequence\<rparr>)))))))))))))))"

definition artifact_bounded :: "limits \<Rightarrow> artifact_record \<Rightarrow> bool" where
  "artifact_bounded l x \<longleftrightarrow>
     text_within 128 l (ar_category x) \<and> text_within 1024 l (ar_locator x) \<and>
     length (ar_content_digest x) = kDigestBytes \<and> text_within 512 l (ar_provenance x)"

interpretation artifact_codec: strict_codec put_artifact read_artifact artifact_bounded
  by unfold_locales
    (simp add: put_artifact_def read_artifact_def artifact_bounded_def codec_reads, auto simp: put_artifact_def read_artifact_def artifact_bounded_def codec_strict dest!: codec_accepts)

lemmas [codec_reads] =
  artifact_codec.get_put artifact_codec.vector_get_put

lemmas [codec_accepts] =
  artifact_codec.put_get artifact_codec.vector_put_get

section \<open>Definitions\<close>

definition put_metric_definition :: "metric_definition \<Rightarrow> u8 list" where
  "put_metric_definition x =
     write_id (md_id x) @ pw_text (md_name x) 128 @ pw_text (md_unit x) 32 @
     write_enum metric_kind_code (md_kind x) @ write_enum metric_direction_code (md_direction x) @
     write_enum aggregation_rule_code (md_aggregation x) @ pw_boolean (md_required x) @
     pw_boolean (md_accepts_non_finite x) @ put_optional_real (md_lower_bound x) @
     put_optional_real (md_upper_bound x) @ put_optional_real (md_target_low x) @
     put_optional_real (md_target_high x) @ pw_u32 (md_weight x) @ pw_u32 (md_priority x) @
     write_vector 256 (\<lambda>s. pw_text s 128) (md_categories x)"

definition read_metric_definition :: "metric_definition reader" where
  "read_metric_definition =
     bind_reader read_id (\<lambda>i. bind_reader (pr_text 128) (\<lambda>name.
     bind_reader (pr_text 32) (\<lambda>unit.
     bind_reader (read_enum kMetricKinds kMaxMetricKind (lit ''metric kind'')) (\<lambda>kind.
     bind_reader (read_enum kMetricDirections kMaxMetricDirection (lit ''metric direction'')) (\<lambda>direction.
     bind_reader (read_enum kAggregationRules kMaxAggregationRule (lit ''aggregation rule'')) (\<lambda>aggregation.
     bind_reader pr_boolean (\<lambda>required. bind_reader pr_boolean (\<lambda>accepts_non_finite.
     bind_reader read_optional_real (\<lambda>lower_bound. bind_reader read_optional_real (\<lambda>upper_bound.
     bind_reader read_optional_real (\<lambda>target_low. bind_reader read_optional_real (\<lambda>target_high.
     bind_reader pr_u32 (\<lambda>weight. bind_reader pr_u32 (\<lambda>priority.
     bind_reader (read_vector 256 (pr_text 128)) (\<lambda>categories.
     ready \<lparr>md_id = i, md_name = name, md_unit = unit, md_kind = kind, md_direction = direction,
       md_aggregation = aggregation, md_required = required, md_accepts_non_finite = accepts_non_finite,
       md_lower_bound = lower_bound, md_upper_bound = upper_bound, md_target_low = target_low,
       md_target_high = target_high, md_weight = weight, md_priority = priority,
       md_categories = categories\<rparr>)))))))))))))))"

definition metric_definition_bounded :: "limits \<Rightarrow> metric_definition \<Rightarrow> bool" where
  "metric_definition_bounded l x \<longleftrightarrow>
     text_within 128 l (md_name x) \<and> text_within 32 l (md_unit x) \<and>
     vector_within 256 (text_within 128) l (md_categories x)"

interpretation metric_definition_codec: strict_codec put_metric_definition read_metric_definition metric_definition_bounded
  by unfold_locales
    (simp add: put_metric_definition_def read_metric_definition_def metric_definition_bounded_def codec_reads, auto simp: put_metric_definition_def read_metric_definition_def metric_definition_bounded_def codec_strict dest!: codec_accepts)

lemmas [codec_reads] =
  metric_definition_codec.get_put metric_definition_codec.vector_get_put

lemmas [codec_accepts] =
  metric_definition_codec.put_get metric_definition_codec.vector_put_get

definition put_comparison_rule :: "comparison_rule \<Rightarrow> u8 list" where
  "put_comparison_rule x =
     write_id (cr_metric x) @ write_enum comparison_op_code (cr_op x) @ pw_real (cr_threshold x) @
     pw_real (cr_target_low x) @ pw_real (cr_target_high x) @ pw_u32 (cr_priority x)"

definition read_comparison_rule :: "comparison_rule reader" where
  "read_comparison_rule =
     bind_reader read_id (\<lambda>metric.
     bind_reader (read_enum kComparisonOps kMaxComparisonOp (lit ''comparison op'')) (\<lambda>oper.
     bind_reader pr_real (\<lambda>threshold. bind_reader pr_real (\<lambda>target_low.
     bind_reader pr_real (\<lambda>target_high. bind_reader pr_u32 (\<lambda>priority.
     ready \<lparr>cr_metric = metric, cr_op = oper, cr_threshold = threshold, cr_target_low = target_low,
       cr_target_high = target_high, cr_priority = priority\<rparr>))))))"

interpretation comparison_rule_codec: strict_codec put_comparison_rule read_comparison_rule "\<lambda>l x. True"
  by unfold_locales
    (simp add: put_comparison_rule_def read_comparison_rule_def codec_reads, auto simp: put_comparison_rule_def read_comparison_rule_def codec_strict dest!: codec_accepts)

lemmas [codec_reads] =
  comparison_rule_codec.get_put comparison_rule_codec.vector_get_put

lemmas [codec_accepts] =
  comparison_rule_codec.put_get comparison_rule_codec.vector_put_get

definition put_comparison_policy :: "comparison_policy \<Rightarrow> u8 list" where
  "put_comparison_policy x =
     write_id (cp_id x) @ write_id (cp_generation x) @ pw_boolean (cp_require_baseline x) @
     pw_u32 (cp_min_completed_trials_per_branch x) @
     pw_u32 (cp_min_valid_observations_per_required_metric x) @
     pw_boolean (cp_reject_on_any_invalid_observation x) @ pw_boolean (cp_require_environment_match x) @
     pw_u32 (cp_majority_wins_min_basis_points x) @ pw_boolean (cp_use_weighted_score x) @
     pw_real (cp_accept_score_threshold x) @ write_vector 256 put_comparison_rule (cp_rules x)"

definition read_comparison_policy :: "comparison_policy reader" where
  "read_comparison_policy =
     bind_reader read_id (\<lambda>i. bind_reader read_id (\<lambda>generation.
     bind_reader pr_boolean (\<lambda>require_baseline.
     bind_reader pr_u32 (\<lambda>min_completed_trials_per_branch.
     bind_reader pr_u32 (\<lambda>min_valid_observations_per_required_metric.
     bind_reader pr_boolean (\<lambda>reject_on_any_invalid_observation.
     bind_reader pr_boolean (\<lambda>require_environment_match.
     bind_reader pr_u32 (\<lambda>majority_wins_min_basis_points.
     bind_reader pr_boolean (\<lambda>use_weighted_score. bind_reader pr_real (\<lambda>accept_score_threshold.
     bind_reader (read_vector 256 read_comparison_rule) (\<lambda>rules.
     ready \<lparr>cp_id = i, cp_generation = generation, cp_require_baseline = require_baseline,
       cp_min_completed_trials_per_branch = min_completed_trials_per_branch,
       cp_min_valid_observations_per_required_metric = min_valid_observations_per_required_metric,
       cp_reject_on_any_invalid_observation = reject_on_any_invalid_observation,
       cp_require_environment_match = require_environment_match,
       cp_majority_wins_min_basis_points = majority_wins_min_basis_points,
       cp_use_weighted_score = use_weighted_score, cp_accept_score_threshold = accept_score_threshold,
       cp_rules = rules\<rparr>)))))))))))"

definition comparison_policy_bounded :: "limits \<Rightarrow> comparison_policy \<Rightarrow> bool" where
  "comparison_policy_bounded l x \<longleftrightarrow>
     vector_within 256 (\<lambda>l x. True) l (cp_rules x)"

interpretation comparison_policy_codec: strict_codec put_comparison_policy read_comparison_policy comparison_policy_bounded
  by unfold_locales
    (simp add: put_comparison_policy_def read_comparison_policy_def comparison_policy_bounded_def codec_reads, auto simp: put_comparison_policy_def read_comparison_policy_def comparison_policy_bounded_def codec_strict dest!: codec_accepts)

lemmas [codec_reads] =
  comparison_policy_codec.get_put comparison_policy_codec.vector_get_put

lemmas [codec_accepts] =
  comparison_policy_codec.put_get comparison_policy_codec.vector_put_get

definition put_branch_definition :: "branch_definition \<Rightarrow> u8 list" where
  "put_branch_definition x =
     write_id (bd_id x) @ pw_text (bd_name x) 128 @ write_enum branch_role_code (bd_role x) @
     write_id (bd_parent x) @ write_id (bd_generation x) @ write_enum branch_state_code (bd_state x) @
     put_parameters (bd_parameters x) @ write_id (bd_input_set x) @
     pw_boolean (bd_input_set_present x) @ write_id (bd_environment x) @
     pw_boolean (bd_environment_present x) @ pw_text (bd_environment_fingerprint x) 512 @
     put_optional_u64 (bd_seed x) @ pw_u32 (bd_planned_trials x) @ pw_u64 (bd_created_sequence x) @
     pw_boolean (bd_forked x)"

definition read_branch_definition :: "branch_definition reader" where
  "read_branch_definition =
     bind_reader read_id (\<lambda>i. bind_reader (pr_text 128) (\<lambda>name.
     bind_reader (read_enum kBranchRoles kMaxBranchRole (lit ''branch role'')) (\<lambda>role.
     bind_reader read_id (\<lambda>parent. bind_reader read_id (\<lambda>generation.
     bind_reader (read_enum kBranchStates kMaxBranchState (lit ''branch state'')) (\<lambda>state.
     bind_reader read_parameters (\<lambda>parameters. bind_reader read_id (\<lambda>input_set.
     bind_reader pr_boolean (\<lambda>input_set_present. bind_reader read_id (\<lambda>environment.
     bind_reader pr_boolean (\<lambda>environment_present.
     bind_reader (pr_text 512) (\<lambda>environment_fingerprint. bind_reader read_optional_u64 (\<lambda>seed.
     bind_reader pr_u32 (\<lambda>planned_trials. bind_reader pr_u64 (\<lambda>created_sequence.
     bind_reader pr_boolean (\<lambda>forked.
     ready \<lparr>bd_id = i, bd_name = name, bd_role = role, bd_parent = parent, bd_generation = generation,
       bd_state = state, bd_parameters = parameters, bd_input_set = input_set,
       bd_input_set_present = input_set_present, bd_environment = environment,
       bd_environment_present = environment_present,
       bd_environment_fingerprint = environment_fingerprint, bd_seed = seed,
       bd_planned_trials = planned_trials, bd_created_sequence = created_sequence, bd_forked = forked\<rparr>))))))))))))))))"

definition branch_definition_bounded :: "limits \<Rightarrow> branch_definition \<Rightarrow> bool" where
  "branch_definition_bounded l x \<longleftrightarrow>
     text_within 128 l (bd_name x) \<and> parameters_bounded l (bd_parameters x) \<and>
     text_within 512 l (bd_environment_fingerprint x)"

interpretation branch_definition_codec: strict_codec put_branch_definition read_branch_definition branch_definition_bounded
  by unfold_locales
    (simp add: put_branch_definition_def read_branch_definition_def branch_definition_bounded_def codec_reads, auto simp: put_branch_definition_def read_branch_definition_def branch_definition_bounded_def codec_strict dest!: codec_accepts)

lemmas [codec_reads] =
  branch_definition_codec.get_put branch_definition_codec.vector_get_put

lemmas [codec_accepts] =
  branch_definition_codec.put_get branch_definition_codec.vector_put_get

definition put_experiment_definition :: "experiment_definition \<Rightarrow> u8 list" where
  "put_experiment_definition x =
     write_id (ed_id x) @ write_id (ed_generation x) @ write_id (ed_hypothesis x) @
     write_id (ed_hypothesis_revision x) @ pw_text (ed_name x) 128 @
     write_vector 256 put_branch_definition (ed_branches x) @
     write_vector 128 put_metric_definition (ed_metrics x) @ put_comparison_policy (ed_policy x) @
     write_enum seed_policy_code (ed_seed_policy x) @ put_optional_u64 (ed_experiment_seed x) @
     write_enum retry_policy_code (ed_retry_policy x) @ pw_u32 (ed_max_attempts_per_trial x) @
     write_enum partial_failure_policy_code (ed_partial_failure_policy x) @
     write_enum late_evidence_policy_code (ed_late_evidence_policy x) @
     put_parameters (ed_parameters x) @ pw_text (ed_provenance x) 1024 @ pw_u64 (ed_created_sequence x)"

definition read_experiment_definition :: "experiment_definition reader" where
  "read_experiment_definition =
     bind_reader read_id (\<lambda>i. bind_reader read_id (\<lambda>generation.
     bind_reader read_id (\<lambda>hypothesis. bind_reader read_id (\<lambda>revision.
     bind_reader (pr_text 128) (\<lambda>name.
     bind_reader (read_vector 256 read_branch_definition) (\<lambda>branches.
     bind_reader (read_vector 128 read_metric_definition) (\<lambda>metrics.
     bind_reader read_comparison_policy (\<lambda>policy.
     bind_reader (read_enum kSeedPolicies kMaxSeedPolicy (lit ''seed policy'')) (\<lambda>seed_policy.
     bind_reader read_optional_u64 (\<lambda>experiment_seed.
     bind_reader (read_enum kRetryPolicies kMaxRetryPolicy (lit ''retry policy'')) (\<lambda>retry_policy.
     bind_reader pr_u32 (\<lambda>max_attempts_per_trial.
     bind_reader (read_enum kPartialFailurePolicies kMaxPartialFailurePolicy (lit ''partial failure policy'')) (\<lambda>partial_failure_policy.
     bind_reader (read_enum kLateEvidencePolicies kMaxLateEvidencePolicy (lit ''late evidence policy'')) (\<lambda>late_evidence_policy.
     bind_reader read_parameters (\<lambda>parameters. bind_reader (pr_text 1024) (\<lambda>provenance.
     bind_reader pr_u64 (\<lambda>created_sequence.
     ready \<lparr>ed_id = i, ed_generation = generation, ed_hypothesis = hypothesis,
       ed_hypothesis_revision = revision, ed_name = name, ed_branches = branches, ed_metrics = metrics,
       ed_policy = policy, ed_seed_policy = seed_policy, ed_experiment_seed = experiment_seed,
       ed_retry_policy = retry_policy, ed_max_attempts_per_trial = max_attempts_per_trial,
       ed_partial_failure_policy = partial_failure_policy,
       ed_late_evidence_policy = late_evidence_policy, ed_parameters = parameters,
       ed_provenance = provenance, ed_created_sequence = created_sequence\<rparr>)))))))))))))))))"

definition experiment_definition_bounded :: "limits \<Rightarrow> experiment_definition \<Rightarrow> bool" where
  "experiment_definition_bounded l x \<longleftrightarrow>
     text_within 128 l (ed_name x) \<and>
     vector_within 256 branch_definition_bounded l (ed_branches x) \<and>
     vector_within 128 metric_definition_bounded l (ed_metrics x) \<and>
     comparison_policy_bounded l (ed_policy x) \<and> parameters_bounded l (ed_parameters x) \<and>
     text_within 1024 l (ed_provenance x)"

interpretation experiment_definition_codec: strict_codec put_experiment_definition read_experiment_definition experiment_definition_bounded
  by unfold_locales
    (simp add: put_experiment_definition_def read_experiment_definition_def experiment_definition_bounded_def codec_reads, auto simp: put_experiment_definition_def read_experiment_definition_def experiment_definition_bounded_def codec_strict dest!: codec_accepts)

lemmas [codec_reads] =
  experiment_definition_codec.get_put experiment_definition_codec.vector_get_put

lemmas [codec_accepts] =
  experiment_definition_codec.put_get experiment_definition_codec.vector_put_get

text \<open>The optional direction of a hypothesis: a presence flag, then the byte when it is present.\<close>

definition put_expected_direction :: "metric_direction option \<Rightarrow> u8 list" where
  "put_expected_direction d =
     pw_boolean (d \<noteq> None) @ (case d of None \<Rightarrow> [] | Some x \<Rightarrow> write_enum metric_direction_code x)"

definition read_expected_direction :: "metric_direction option reader" where
  "read_expected_direction = bind_reader pr_boolean (\<lambda>has_direction.
     if has_direction
     then bind_reader (read_enum kMetricDirections kMaxMetricDirection (lit ''metric direction''))
       (\<lambda>direction. ready (Some direction))
     else ready None)"

interpretation expected_direction_codec: strict_codec put_expected_direction read_expected_direction "\<lambda>l d. True"
  by unfold_locales
    ((auto simp: put_expected_direction_def read_expected_direction_def codec_reads split: option.splits)[1],
     auto simp: put_expected_direction_def read_expected_direction_def codec_strict split: if_splits
       dest!: codec_accepts)

lemmas [codec_reads] = expected_direction_codec.get_put
lemmas [codec_accepts] = expected_direction_codec.put_get

definition put_hypothesis :: "hypothesis \<Rightarrow> u8 list" where
  "put_hypothesis x =
     write_id (hy_id x) @ write_id (hy_revision x) @ pw_text (hy_statement x) 4096 @
     put_expected_direction (hy_expected_direction x) @ write_id (hy_expected_metric x) @
     write_id (hy_parent x) @ write_id (hy_parent_revision x) @ pw_boolean (hy_superseded x) @
     write_id (hy_superseded_by_revision x) @ pw_text (hy_provenance x) 1024 @
     pw_u64 (hy_created_sequence x)"

definition read_hypothesis :: "hypothesis reader" where
  "read_hypothesis =
     bind_reader read_id (\<lambda>i. bind_reader read_id (\<lambda>revision.
     bind_reader (pr_text 4096) (\<lambda>statement.
     bind_reader read_expected_direction (\<lambda>expected_direction.
     bind_reader read_id (\<lambda>expected_metric. bind_reader read_id (\<lambda>parent.
     bind_reader read_id (\<lambda>parent_revision. bind_reader pr_boolean (\<lambda>superseded.
     bind_reader read_id (\<lambda>superseded_by_revision. bind_reader (pr_text 1024) (\<lambda>provenance.
     bind_reader pr_u64 (\<lambda>created_sequence.
     ready \<lparr>hy_id = i, hy_revision = revision, hy_statement = statement,
       hy_expected_direction = expected_direction, hy_expected_metric = expected_metric,
       hy_parent = parent, hy_parent_revision = parent_revision, hy_superseded = superseded,
       hy_superseded_by_revision = superseded_by_revision, hy_provenance = provenance,
       hy_created_sequence = created_sequence\<rparr>)))))))))))"

definition hypothesis_bounded :: "limits \<Rightarrow> hypothesis \<Rightarrow> bool" where
  "hypothesis_bounded l x \<longleftrightarrow>
     text_within 4096 l (hy_statement x) \<and> text_within 1024 l (hy_provenance x)"

interpretation hypothesis_codec: strict_codec put_hypothesis read_hypothesis hypothesis_bounded
  by unfold_locales
    (simp add: put_hypothesis_def read_hypothesis_def hypothesis_bounded_def codec_reads, auto simp: put_hypothesis_def read_hypothesis_def hypothesis_bounded_def codec_strict dest!: codec_accepts)

lemmas [codec_reads] =
  hypothesis_codec.get_put hypothesis_codec.vector_get_put

lemmas [codec_accepts] =
  hypothesis_codec.put_get hypothesis_codec.vector_put_get

section \<open>Trials and attempts\<close>

definition put_trial :: "trial_record \<Rightarrow> u8 list" where
  "put_trial x =
     write_id (tr_id x) @ write_id (tr_experiment x) @ write_id (tr_generation x) @
     write_id (tr_branch x) @ write_id (tr_branch_generation x) @ write_id (tr_hypothesis x) @
     write_id (tr_hypothesis_revision x) @ write_id (tr_policy x) @ write_id (tr_policy_generation x) @
     write_enum trial_state_code (tr_state x) @ write_id (tr_authoritative_attempt x) @
     write_id (tr_next_attempt_number x) @ pw_u32 (tr_attempt_count x) @
     pw_u32 (tr_committed_attempts x) @ write_enum failure_kind_code (tr_failure_kind x) @
     pw_text (tr_failure_detail x) 512 @ put_optional_u64 (tr_seed x) @ write_id (tr_input_set x) @
     pw_boolean (tr_input_set_present x) @ write_id (tr_environment x) @
     pw_boolean (tr_environment_present x) @ pw_text (tr_environment_fingerprint x) 512 @
     write_vector 256 write_id (tr_artifacts x) @ pw_text (tr_payload x) 4096 @
     pw_u64 (tr_created_sequence x) @ pw_u64 (tr_updated_sequence x)"

definition read_trial :: "trial_record reader" where
  "read_trial =
     bind_reader read_id (\<lambda>i. bind_reader read_id (\<lambda>experiment.
     bind_reader read_id (\<lambda>generation. bind_reader read_id (\<lambda>branch.
     bind_reader read_id (\<lambda>branch_generation. bind_reader read_id (\<lambda>hypothesis.
     bind_reader read_id (\<lambda>revision. bind_reader read_id (\<lambda>policy.
     bind_reader read_id (\<lambda>policy_generation.
     bind_reader (read_enum kTrialStates kMaxTrialState (lit ''trial state'')) (\<lambda>state.
     bind_reader read_id (\<lambda>authoritative_attempt. bind_reader read_id (\<lambda>next_attempt_number.
     bind_reader pr_u32 (\<lambda>attempt_count. bind_reader pr_u32 (\<lambda>committed_attempts.
     bind_reader (read_enum kFailureKinds kMaxFailureKind (lit ''failure kind'')) (\<lambda>failure_kind.
     bind_reader (pr_text 512) (\<lambda>failure_detail. bind_reader read_optional_u64 (\<lambda>seed.
     bind_reader read_id (\<lambda>input_set. bind_reader pr_boolean (\<lambda>input_set_present.
     bind_reader read_id (\<lambda>environment. bind_reader pr_boolean (\<lambda>environment_present.
     bind_reader (pr_text 512) (\<lambda>environment_fingerprint.
     bind_reader (read_vector 256 read_id) (\<lambda>artifacts. bind_reader (pr_text 4096) (\<lambda>payload.
     bind_reader pr_u64 (\<lambda>created_sequence. bind_reader pr_u64 (\<lambda>updated_sequence.
     ready \<lparr>tr_id = i, tr_experiment = experiment, tr_generation = generation, tr_branch = branch,
       tr_branch_generation = branch_generation, tr_hypothesis = hypothesis,
       tr_hypothesis_revision = revision, tr_policy = policy, tr_policy_generation = policy_generation,
       tr_state = state, tr_authoritative_attempt = authoritative_attempt,
       tr_next_attempt_number = next_attempt_number, tr_attempt_count = attempt_count,
       tr_committed_attempts = committed_attempts, tr_failure_kind = failure_kind,
       tr_failure_detail = failure_detail, tr_seed = seed, tr_input_set = input_set,
       tr_input_set_present = input_set_present, tr_environment = environment,
       tr_environment_present = environment_present,
       tr_environment_fingerprint = environment_fingerprint, tr_artifacts = artifacts,
       tr_payload = payload, tr_created_sequence = created_sequence,
       tr_updated_sequence = updated_sequence\<rparr>))))))))))))))))))))))))))"

definition trial_bounded :: "limits \<Rightarrow> trial_record \<Rightarrow> bool" where
  "trial_bounded l x \<longleftrightarrow>
     text_within 512 l (tr_failure_detail x) \<and> text_within 512 l (tr_environment_fingerprint x) \<and>
     vector_within 256 (\<lambda>l x. True) l (tr_artifacts x) \<and> text_within 4096 l (tr_payload x)"

interpretation trial_codec: strict_codec put_trial read_trial trial_bounded
  by unfold_locales
    (simp add: put_trial_def read_trial_def trial_bounded_def codec_reads, auto simp: put_trial_def read_trial_def trial_bounded_def codec_strict dest!: codec_accepts)

lemmas [codec_reads] =
  trial_codec.get_put trial_codec.vector_get_put

lemmas [codec_accepts] =
  trial_codec.put_get trial_codec.vector_put_get

definition put_attempt :: "attempt_record \<Rightarrow> u8 list" where
  "put_attempt x =
     write_id (at_id x) @ write_id (at_number x) @ write_id (at_trial x) @ write_id (at_experiment x) @
     write_id (at_generation x) @ write_id (at_branch x) @ write_id (at_branch_generation x) @
     write_id (at_worker x) @ write_id (at_boot x) @ write_id (at_epoch x) @ write_id (at_producer x) @
     write_enum attempt_state_code (at_state x) @ write_enum failure_kind_code (at_failure_kind x) @
     pw_text (at_failure_detail x) 512 @ pw_boolean (at_committed x) @ pw_u64 (at_issued_sequence x) @
     pw_u64 (at_updated_sequence x)"

definition read_attempt :: "attempt_record reader" where
  "read_attempt =
     bind_reader read_id (\<lambda>i. bind_reader read_id (\<lambda>number. bind_reader read_id (\<lambda>trial.
     bind_reader read_id (\<lambda>experiment. bind_reader read_id (\<lambda>generation.
     bind_reader read_id (\<lambda>branch. bind_reader read_id (\<lambda>branch_generation.
     bind_reader read_id (\<lambda>worker. bind_reader read_id (\<lambda>boot.
     bind_reader read_id (\<lambda>epoch. bind_reader read_id (\<lambda>producer.
     bind_reader (read_enum kAttemptStates kMaxAttemptState (lit ''attempt state'')) (\<lambda>state.
     bind_reader (read_enum kFailureKinds kMaxFailureKind (lit ''failure kind'')) (\<lambda>failure_kind.
     bind_reader (pr_text 512) (\<lambda>failure_detail. bind_reader pr_boolean (\<lambda>committed.
     bind_reader pr_u64 (\<lambda>issued_sequence. bind_reader pr_u64 (\<lambda>updated_sequence.
     ready \<lparr>at_id = i, at_number = number, at_trial = trial, at_experiment = experiment,
       at_generation = generation, at_branch = branch, at_branch_generation = branch_generation,
       at_worker = worker, at_boot = boot, at_epoch = epoch, at_producer = producer, at_state = state,
       at_failure_kind = failure_kind, at_failure_detail = failure_detail, at_committed = committed,
       at_issued_sequence = issued_sequence, at_updated_sequence = updated_sequence\<rparr>)))))))))))))))))"

definition attempt_bounded :: "limits \<Rightarrow> attempt_record \<Rightarrow> bool" where
  "attempt_bounded l x \<longleftrightarrow>
     text_within 512 l (at_failure_detail x)"

interpretation attempt_codec: strict_codec put_attempt read_attempt attempt_bounded
  by unfold_locales
    (simp add: put_attempt_def read_attempt_def attempt_bounded_def codec_reads, auto simp: put_attempt_def read_attempt_def attempt_bounded_def codec_strict dest!: codec_accepts)

lemmas [codec_reads] =
  attempt_codec.get_put attempt_codec.vector_get_put

lemmas [codec_accepts] =
  attempt_codec.put_get attempt_codec.vector_put_get

section \<open>Decisions and rollback points\<close>

definition put_constraint :: "constraint_result \<Rightarrow> u8 list" where
  "put_constraint x =
     pw_text (cn_name x) 128 @ pw_boolean (cn_passed x) @ pw_text (cn_detail x) 512"

definition read_constraint :: "constraint_result reader" where
  "read_constraint =
     bind_reader (pr_text 128) (\<lambda>name. bind_reader pr_boolean (\<lambda>passed.
     bind_reader (pr_text 512) (\<lambda>detail.
     ready \<lparr>cn_name = name, cn_passed = passed, cn_detail = detail\<rparr>)))"

definition constraint_bounded :: "limits \<Rightarrow> constraint_result \<Rightarrow> bool" where
  "constraint_bounded l x \<longleftrightarrow>
     text_within 128 l (cn_name x) \<and> text_within 512 l (cn_detail x)"

interpretation constraint_codec: strict_codec put_constraint read_constraint constraint_bounded
  by unfold_locales
    (simp add: put_constraint_def read_constraint_def constraint_bounded_def codec_reads, auto simp: put_constraint_def read_constraint_def constraint_bounded_def codec_strict dest!: codec_accepts)

lemmas [codec_reads] =
  constraint_codec.get_put constraint_codec.vector_get_put

lemmas [codec_accepts] =
  constraint_codec.put_get constraint_codec.vector_put_get

definition put_factor :: "comparison_factor \<Rightarrow> u8 list" where
  "put_factor x =
     write_id (cf_metric x) @ write_enum comparison_op_code (cf_op x) @ pw_u32 (cf_priority x) @
     pw_real (cf_threshold x) @ pw_boolean (cf_has_values x) @ pw_real (cf_baseline_value x) @
     pw_real (cf_candidate_value x) @ pw_real (cf_delta x) @ pw_boolean (cf_satisfied x) @
     pw_boolean (cf_decisive x) @ pw_text (cf_detail x) 512"

definition read_factor :: "comparison_factor reader" where
  "read_factor =
     bind_reader read_id (\<lambda>metric.
     bind_reader (read_enum kComparisonOps kMaxComparisonOp (lit ''comparison op'')) (\<lambda>oper.
     bind_reader pr_u32 (\<lambda>priority. bind_reader pr_real (\<lambda>threshold.
     bind_reader pr_boolean (\<lambda>has_values. bind_reader pr_real (\<lambda>baseline_value.
     bind_reader pr_real (\<lambda>candidate_value. bind_reader pr_real (\<lambda>delta.
     bind_reader pr_boolean (\<lambda>satisfied. bind_reader pr_boolean (\<lambda>decisive.
     bind_reader (pr_text 512) (\<lambda>detail.
     ready \<lparr>cf_metric = metric, cf_op = oper, cf_priority = priority, cf_threshold = threshold,
       cf_has_values = has_values, cf_baseline_value = baseline_value,
       cf_candidate_value = candidate_value, cf_delta = delta, cf_satisfied = satisfied,
       cf_decisive = decisive, cf_detail = detail\<rparr>)))))))))))"

definition factor_bounded :: "limits \<Rightarrow> comparison_factor \<Rightarrow> bool" where
  "factor_bounded l x \<longleftrightarrow>
     text_within 512 l (cf_detail x)"

interpretation factor_codec: strict_codec put_factor read_factor factor_bounded
  by unfold_locales
    (simp add: put_factor_def read_factor_def factor_bounded_def codec_reads, auto simp: put_factor_def read_factor_def factor_bounded_def codec_strict dest!: codec_accepts)

lemmas [codec_reads] =
  factor_codec.get_put factor_codec.vector_get_put

lemmas [codec_accepts] =
  factor_codec.put_get factor_codec.vector_put_get

definition put_aggregate :: "metric_aggregate \<Rightarrow> u8 list" where
  "put_aggregate x =
     write_id (ma_metric x) @ write_enum aggregation_rule_code (ma_rule x) @ pw_boolean (ma_present x) @
     pw_real (ma_value x) @ pw_text (ma_category x) 128 @ pw_u32 (ma_valid_count x) @
     pw_u32 (ma_invalid_count x) @ pw_u32 (ma_missing_count x) @ pw_u32 (ma_unsupported_count x) @
     write_vector 4096 pw_real (ma_raw_values x) @
     write_vector 4096 (\<lambda>s. pw_text s 64) (ma_trial_order x)"

definition read_aggregate :: "metric_aggregate reader" where
  "read_aggregate =
     bind_reader read_id (\<lambda>metric.
     bind_reader (read_enum kAggregationRules kMaxAggregationRule (lit ''aggregation rule'')) (\<lambda>rule.
     bind_reader pr_boolean (\<lambda>present. bind_reader pr_real (\<lambda>v.
     bind_reader (pr_text 128) (\<lambda>category. bind_reader pr_u32 (\<lambda>valid_count.
     bind_reader pr_u32 (\<lambda>invalid_count. bind_reader pr_u32 (\<lambda>missing_count.
     bind_reader pr_u32 (\<lambda>unsupported_count.
     bind_reader (read_vector 4096 pr_real) (\<lambda>raw_values.
     bind_reader (read_vector 4096 (pr_text 64)) (\<lambda>trial_order.
     ready \<lparr>ma_metric = metric, ma_rule = rule, ma_present = present, ma_value = v, ma_category = category,
       ma_valid_count = valid_count, ma_invalid_count = invalid_count, ma_missing_count = missing_count,
       ma_unsupported_count = unsupported_count, ma_raw_values = raw_values,
       ma_trial_order = trial_order\<rparr>)))))))))))"

definition aggregate_bounded :: "limits \<Rightarrow> metric_aggregate \<Rightarrow> bool" where
  "aggregate_bounded l x \<longleftrightarrow>
     text_within 128 l (ma_category x) \<and> vector_within 4096 (\<lambda>l x. True) l (ma_raw_values x) \<and>
     vector_within 4096 (text_within 64) l (ma_trial_order x)"

interpretation aggregate_codec: strict_codec put_aggregate read_aggregate aggregate_bounded
  by unfold_locales
    (simp add: put_aggregate_def read_aggregate_def aggregate_bounded_def codec_reads, auto simp: put_aggregate_def read_aggregate_def aggregate_bounded_def codec_strict dest!: codec_accepts)

lemmas [codec_reads] =
  aggregate_codec.get_put aggregate_codec.vector_get_put

lemmas [codec_accepts] =
  aggregate_codec.put_get aggregate_codec.vector_put_get

definition put_evidence :: "branch_evidence \<Rightarrow> u8 list" where
  "put_evidence x =
     write_id (be_branch x) @ write_id (be_generation x) @ write_enum branch_role_code (be_role x) @
     write_enum branch_state_code (be_state x) @ pw_u32 (be_planned_trials x) @
     pw_u32 (be_completed_trials x) @ pw_u32 (be_failed_trials x) @ pw_u32 (be_cancelled_trials x) @
     pw_u32 (be_invalid_trials x) @ pw_u32 (be_superseded_trials x) @ pw_u32 (be_open_trials x) @
     write_vector 128 put_aggregate (be_aggregates x)"

definition read_evidence :: "branch_evidence reader" where
  "read_evidence =
     bind_reader read_id (\<lambda>branch. bind_reader read_id (\<lambda>generation.
     bind_reader (read_enum kBranchRoles kMaxBranchRole (lit ''branch role'')) (\<lambda>role.
     bind_reader (read_enum kBranchStates kMaxBranchState (lit ''branch state'')) (\<lambda>state.
     bind_reader pr_u32 (\<lambda>planned_trials. bind_reader pr_u32 (\<lambda>completed_trials.
     bind_reader pr_u32 (\<lambda>failed_trials. bind_reader pr_u32 (\<lambda>cancelled_trials.
     bind_reader pr_u32 (\<lambda>invalid_trials. bind_reader pr_u32 (\<lambda>superseded_trials.
     bind_reader pr_u32 (\<lambda>open_trials.
     bind_reader (read_vector 128 read_aggregate) (\<lambda>aggregates.
     ready \<lparr>be_branch = branch, be_generation = generation, be_role = role, be_state = state,
       be_planned_trials = planned_trials, be_completed_trials = completed_trials,
       be_failed_trials = failed_trials, be_cancelled_trials = cancelled_trials,
       be_invalid_trials = invalid_trials, be_superseded_trials = superseded_trials,
       be_open_trials = open_trials, be_aggregates = aggregates\<rparr>))))))))))))"

definition evidence_bounded :: "limits \<Rightarrow> branch_evidence \<Rightarrow> bool" where
  "evidence_bounded l x \<longleftrightarrow>
     vector_within 128 aggregate_bounded l (be_aggregates x)"

interpretation evidence_codec: strict_codec put_evidence read_evidence evidence_bounded
  by unfold_locales
    (simp add: put_evidence_def read_evidence_def evidence_bounded_def codec_reads, auto simp: put_evidence_def read_evidence_def evidence_bounded_def codec_strict dest!: codec_accepts)

lemmas [codec_reads] =
  evidence_codec.get_put evidence_codec.vector_get_put

lemmas [codec_accepts] =
  evidence_codec.put_get evidence_codec.vector_put_get

definition put_rejected_evidence :: "rejected_evidence \<Rightarrow> u8 list" where
  "put_rejected_evidence x =
     pw_text (re_kind x) 64 @ pw_u64 (re_identifier x) @ pw_u8 (re_reason x) @ pw_text (re_detail x) 512"

definition read_rejected_evidence :: "rejected_evidence reader" where
  "read_rejected_evidence =
     bind_reader (pr_text 64) (\<lambda>kind. bind_reader pr_u64 (\<lambda>identifier.
     bind_reader pr_u8 (\<lambda>reason. bind_reader (pr_text 512) (\<lambda>detail.
     ready \<lparr>re_kind = kind, re_identifier = identifier, re_reason = reason, re_detail = detail\<rparr>))))"

definition rejected_evidence_bounded :: "limits \<Rightarrow> rejected_evidence \<Rightarrow> bool" where
  "rejected_evidence_bounded l x \<longleftrightarrow>
     text_within 64 l (re_kind x) \<and> text_within 512 l (re_detail x)"

interpretation rejected_evidence_codec: strict_codec put_rejected_evidence read_rejected_evidence rejected_evidence_bounded
  by unfold_locales
    (simp add: put_rejected_evidence_def read_rejected_evidence_def rejected_evidence_bounded_def codec_reads, auto simp: put_rejected_evidence_def read_rejected_evidence_def rejected_evidence_bounded_def codec_strict dest!: codec_accepts)

lemmas [codec_reads] =
  rejected_evidence_codec.get_put rejected_evidence_codec.vector_get_put

lemmas [codec_accepts] =
  rejected_evidence_codec.put_get rejected_evidence_codec.vector_put_get

definition put_decision :: "decision \<Rightarrow> u8 list" where
  "put_decision x =
     write_id (de_id x) @ write_id (de_experiment x) @ write_id (de_generation x) @
     write_id (de_hypothesis x) @ write_id (de_hypothesis_revision x) @ write_id (de_policy x) @
     write_id (de_policy_generation x) @ write_vector 256 write_id (de_compared_branches x) @
     write_id (de_baseline x) @ pw_boolean (de_baseline_present x) @ write_id (de_candidate x) @
     write_enum decision_outcome_code (de_outcome x) @ write_enum failure_kind_code (de_reason_kind x) @
     pw_text (de_reason x) 4096 @ write_vector 512 put_constraint (de_constraints x) @
     write_vector 512 put_factor (de_factors x) @ write_vector 256 put_evidence (de_evidence x) @
     write_vector 4096 put_rejected_evidence (de_rejected_evidence x) @
     pw_text (de_tie_break_rule x) 256 @ pw_boolean (de_tied x) @
     pw_digest (de_canonical_state_digest x) @ pw_u64 (de_sequence x)"

definition read_decision :: "decision reader" where
  "read_decision =
     bind_reader read_id (\<lambda>i. bind_reader read_id (\<lambda>experiment.
     bind_reader read_id (\<lambda>generation. bind_reader read_id (\<lambda>hypothesis.
     bind_reader read_id (\<lambda>revision. bind_reader read_id (\<lambda>policy.
     bind_reader read_id (\<lambda>policy_generation.
     bind_reader (read_vector 256 read_id) (\<lambda>compared_branches. bind_reader read_id (\<lambda>baseline.
     bind_reader pr_boolean (\<lambda>baseline_present. bind_reader read_id (\<lambda>candidate.
     bind_reader (read_enum kDecisionOutcomes kMaxDecisionOutcome (lit ''decision outcome'')) (\<lambda>outcome.
     bind_reader (read_enum kFailureKinds kMaxFailureKind (lit ''failure kind'')) (\<lambda>reason_kind.
     bind_reader (pr_text 4096) (\<lambda>reason.
     bind_reader (read_vector 512 read_constraint) (\<lambda>constraints.
     bind_reader (read_vector 512 read_factor) (\<lambda>factors.
     bind_reader (read_vector 256 read_evidence) (\<lambda>evidence.
     bind_reader (read_vector 4096 read_rejected_evidence) (\<lambda>rejected_evidence.
     bind_reader (pr_text 256) (\<lambda>tie_break_rule. bind_reader pr_boolean (\<lambda>tied.
     bind_reader pr_digest (\<lambda>canonical_state_digest. bind_reader pr_u64 (\<lambda>sequence.
     ready \<lparr>de_id = i, de_experiment = experiment, de_generation = generation, de_hypothesis = hypothesis,
       de_hypothesis_revision = revision, de_policy = policy, de_policy_generation = policy_generation,
       de_compared_branches = compared_branches, de_baseline = baseline,
       de_baseline_present = baseline_present, de_candidate = candidate, de_outcome = outcome,
       de_reason_kind = reason_kind, de_reason = reason, de_constraints = constraints,
       de_factors = factors, de_evidence = evidence, de_rejected_evidence = rejected_evidence,
       de_tie_break_rule = tie_break_rule, de_tied = tied,
       de_canonical_state_digest = canonical_state_digest, de_sequence = sequence\<rparr>))))))))))))))))))))))"

definition decision_bounded :: "limits \<Rightarrow> decision \<Rightarrow> bool" where
  "decision_bounded l x \<longleftrightarrow>
     vector_within 256 (\<lambda>l x. True) l (de_compared_branches x) \<and>
     text_within 4096 l (de_reason x) \<and> vector_within 512 constraint_bounded l (de_constraints x) \<and>
     vector_within 512 factor_bounded l (de_factors x) \<and>
     vector_within 256 evidence_bounded l (de_evidence x) \<and>
     vector_within 4096 rejected_evidence_bounded l (de_rejected_evidence x) \<and>
     text_within 256 l (de_tie_break_rule x) \<and> length (de_canonical_state_digest x) = kDigestBytes"

interpretation decision_codec: strict_codec put_decision read_decision decision_bounded
  by unfold_locales
    (simp add: put_decision_def read_decision_def decision_bounded_def codec_reads, auto simp: put_decision_def read_decision_def decision_bounded_def codec_strict dest!: codec_accepts)

lemmas [codec_reads] =
  decision_codec.get_put decision_codec.vector_get_put

lemmas [codec_accepts] =
  decision_codec.put_get decision_codec.vector_put_get

definition put_snapshot :: "branch_authority_snapshot \<Rightarrow> u8 list" where
  "put_snapshot x =
     write_id (ba_branch x) @ write_id (ba_generation x) @ write_enum branch_state_code (ba_state x)"

definition read_snapshot :: "branch_authority_snapshot reader" where
  "read_snapshot =
     bind_reader read_id (\<lambda>branch. bind_reader read_id (\<lambda>generation.
     bind_reader (read_enum kBranchStates kMaxBranchState (lit ''branch state'')) (\<lambda>state.
     ready \<lparr>ba_branch = branch, ba_generation = generation, ba_state = state\<rparr>)))"

interpretation snapshot_codec: strict_codec put_snapshot read_snapshot "\<lambda>l x. True"
  by unfold_locales
    (simp add: put_snapshot_def read_snapshot_def codec_reads, auto simp: put_snapshot_def read_snapshot_def codec_strict dest!: codec_accepts)

lemmas [codec_reads] =
  snapshot_codec.get_put snapshot_codec.vector_get_put

lemmas [codec_accepts] =
  snapshot_codec.put_get snapshot_codec.vector_put_get

definition put_rollback_point :: "rollback_point \<Rightarrow> u8 list" where
  "put_rollback_point x =
     write_id (rb_id x) @ write_id (rb_experiment x) @ write_id (rb_generation x) @
     write_id (rb_restored_from x) @ write_id (rb_decision x) @ pw_boolean (rb_decision_present x) @
     pw_digest (rb_state_digest x) @ write_vector 256 put_snapshot (rb_authority x) @
     pw_u64 (rb_sequence x)"

definition read_rollback_point :: "rollback_point reader" where
  "read_rollback_point =
     bind_reader read_id (\<lambda>i. bind_reader read_id (\<lambda>experiment.
     bind_reader read_id (\<lambda>generation. bind_reader read_id (\<lambda>restored_from.
     bind_reader read_id (\<lambda>decision. bind_reader pr_boolean (\<lambda>decision_present.
     bind_reader pr_digest (\<lambda>state_digest.
     bind_reader (read_vector 256 read_snapshot) (\<lambda>authority. bind_reader pr_u64 (\<lambda>sequence.
     ready \<lparr>rb_id = i, rb_experiment = experiment, rb_generation = generation,
       rb_restored_from = restored_from, rb_decision = decision, rb_decision_present = decision_present,
       rb_state_digest = state_digest, rb_authority = authority, rb_sequence = sequence\<rparr>)))))))))"

definition rollback_point_bounded :: "limits \<Rightarrow> rollback_point \<Rightarrow> bool" where
  "rollback_point_bounded l x \<longleftrightarrow>
     length (rb_state_digest x) = kDigestBytes \<and> vector_within 256 (\<lambda>l x. True) l (rb_authority x)"

interpretation rollback_point_codec: strict_codec put_rollback_point read_rollback_point rollback_point_bounded
  by unfold_locales
    (simp add: put_rollback_point_def read_rollback_point_def rollback_point_bounded_def codec_reads, auto simp: put_rollback_point_def read_rollback_point_def rollback_point_bounded_def codec_strict dest!: codec_accepts)

lemmas [codec_reads] =
  rollback_point_codec.get_put rollback_point_codec.vector_get_put

lemmas [codec_accepts] =
  rollback_point_codec.put_get rollback_point_codec.vector_put_get

definition put_worker_incarnation :: "worker_incarnation \<Rightarrow> u8 list" where
  "put_worker_incarnation x =
     write_id (wi_worker x) @ write_id (wi_boot x) @ write_id (wi_epoch x) @ write_id (wi_producer x) @
     pw_text (wi_endpoint x) 256 @ pw_text (wi_fingerprint x) 512 @ pw_u64 (wi_registered_sequence x) @
     pw_boolean (wi_revoked x) @ write_enum failure_kind_code (wi_revocation_kind x) @
     pw_u64 (wi_revoked_sequence x)"

definition read_worker_incarnation :: "worker_incarnation reader" where
  "read_worker_incarnation =
     bind_reader read_id (\<lambda>worker. bind_reader read_id (\<lambda>boot.
     bind_reader read_id (\<lambda>epoch. bind_reader read_id (\<lambda>producer.
     bind_reader (pr_text 256) (\<lambda>endpoint. bind_reader (pr_text 512) (\<lambda>fingerprint.
     bind_reader pr_u64 (\<lambda>registered_sequence. bind_reader pr_boolean (\<lambda>revoked.
     bind_reader (read_enum kFailureKinds kMaxFailureKind (lit ''failure kind'')) (\<lambda>revocation_kind.
     bind_reader pr_u64 (\<lambda>revoked_sequence.
     ready \<lparr>wi_worker = worker, wi_boot = boot, wi_epoch = epoch, wi_producer = producer,
       wi_endpoint = endpoint, wi_fingerprint = fingerprint,
       wi_registered_sequence = registered_sequence, wi_revoked = revoked,
       wi_revocation_kind = revocation_kind, wi_revoked_sequence = revoked_sequence\<rparr>))))))))))"

definition worker_incarnation_bounded :: "limits \<Rightarrow> worker_incarnation \<Rightarrow> bool" where
  "worker_incarnation_bounded l x \<longleftrightarrow>
     text_within 256 l (wi_endpoint x) \<and> text_within 512 l (wi_fingerprint x)"

interpretation worker_incarnation_codec: strict_codec put_worker_incarnation read_worker_incarnation worker_incarnation_bounded
  by unfold_locales
    (simp add: put_worker_incarnation_def read_worker_incarnation_def worker_incarnation_bounded_def codec_reads, auto simp: put_worker_incarnation_def read_worker_incarnation_def worker_incarnation_bounded_def codec_strict dest!: codec_accepts)

lemmas [codec_reads] =
  worker_incarnation_codec.get_put worker_incarnation_codec.vector_get_put

lemmas [codec_accepts] =
  worker_incarnation_codec.put_get worker_incarnation_codec.vector_put_get

end
