(* ===== verification/RecordCodec.thy ===== *)
theory RecordCodec
  imports ModelCodec
begin

text \<open>
  The codecs of the durable records in \<^verbatim>\<open>src/protocol.cpp\<close>: an experiment record and the coordinator
  state. The maps of trials, attempts and experiments are written as their values in key order;
  the readers fill the maps again, refusing a null and a repeated identity.
\<close>

section \<open>Filling a map\<close>

text \<open>
  The loop that reads entries into a map. The key of an entry is computed from what was read, and
  the two texts are the reasons for refusing it.
\<close>

fun read_keyed ::
    "nat \<Rightarrow> 'v reader \<Rightarrow> ('v \<Rightarrow> 'k strong_id) \<Rightarrow> string \<Rightarrow> string \<Rightarrow> ('k strong_id, 'v) omap \<Rightarrow>
     ('k strong_id, 'v) omap reader" where
  "read_keyed 0 r key null duplicate m = ready m"
| "read_keyed (Suc n) r key null duplicate m = bind_reader r (\<lambda>v.
     if \<not> valid (key v) then refuse (corrupt null)
     else if map_of m (key v) \<noteq> None then refuse (corrupt duplicate)
     else read_keyed n r key null duplicate (omap_emplace (key v) v m))"

definition keyed_by :: "('v \<Rightarrow> 'k strong_id) \<Rightarrow> ('k strong_id, 'v) omap \<Rightarrow> bool" where
  "keyed_by key m \<longleftrightarrow> omap_ordered m \<and> (\<forall>(k, v) \<in> set m. k = key v \<and> valid k)"

lemma omap_put_last: "(\<And>e. e \<in> set m \<Longrightarrow> fst e < k) \<Longrightarrow> omap_put k v m = m @ [(k, v)]"
  by (induction k v m rule: omap_put.induct) force+

lemma omap_emplace_last:
  assumes "\<And>e. e \<in> set m \<Longrightarrow> fst e < k"
  shows "omap_emplace k v m = m @ [(k, v)]"
proof -
  have "k \<notin> fst ` set m" using assms by fastforce
  then have "map_of m k = None" by (simp add: map_of_eq_None_iff)
  then show ?thesis using omap_put_last [of m k v] assms by (simp add: omap_emplace_def)
qed

context codec
begin

lemma read_keyed_append:
  assumes "keyed_by key (acc @ m)" and "\<And>v. v \<in> set (omap_values m) \<Longrightarrow> fits l v"
  shows "read_keyed (length m) get key null duplicate acc l (concat (map put (omap_values m)) @ rest) =
    Inr (acc @ m, rest)"
  using assms
proof (induction m arbitrary: acc)
  case Nil then show ?case by (simp add: ready_def omap_values_def)
next
  case (Cons e m)
  obtain v where e: "e = (key v, v)" and ok: "valid (key v)"
    using Cons.prems(1) by (cases e) (auto simp: keyed_by_def)
  have below: "\<And>x. x \<in> set acc \<Longrightarrow> fst x < key v"
    using Cons.prems(1) e by (auto simp: keyed_by_def sorted_wrt_append)
  then have fresh: "map_of acc (key v) = None" by (force simp: map_of_eq_None_iff)
  have "fits l v" using Cons.prems(2) e by (simp add: omap_values_def)
  moreover have "keyed_by key ((acc @ [(key v, v)]) @ m)" using Cons.prems(1) e by simp
  ultimately show ?case
    using Cons.IH [of "acc @ [(key v, v)]"] Cons.prems(2) e ok fresh
    by (simp add: omap_values_def bind_reader_def get_put omap_emplace_last [OF below])
qed

lemma read_keyed_put:
  assumes "keyed_by key m" and "\<And>v. v \<in> set (omap_values m) \<Longrightarrow> fits l v"
  shows "read_keyed (length m) get key null duplicate [] l (concat (map put (omap_values m)) @ rest) = Inr (m, rest)"
  using read_keyed_append [of key "[]" m] assms by simp

end

definition read_map ::
    "u32 \<Rightarrow> 'v reader \<Rightarrow> ('v \<Rightarrow> 'k strong_id) \<Rightarrow> string \<Rightarrow> string \<Rightarrow> ('k strong_id, 'v) omap reader" where
  "read_map max_items r key null duplicate =
     bind_reader (pr_count max_items) (\<lambda>n. read_keyed (unat n) r key null duplicate [])"

definition map_bounded ::
    "u32 \<Rightarrow> ('v \<Rightarrow> 'k strong_id) \<Rightarrow> (limits \<Rightarrow> 'v \<Rightarrow> bool) \<Rightarrow> limits \<Rightarrow> ('k strong_id, 'v) omap \<Rightarrow> bool" where
  "map_bounded m key ok l entries \<longleftrightarrow>
     keyed_by key entries \<and> length entries \<le> unat m \<and> (\<forall>v \<in> set (omap_values entries). ok l v)"

context codec
begin

lemma map_get_put:
  assumes "map_bounded m key fits l entries"
  shows "read_map m get key null duplicate l (write_vector m put (omap_values entries) @ rest) = Inr (entries, rest)"
proof -
  have n: "length entries \<le> unat m" using assms by (simp add: map_bounded_def)
  have len: "length (omap_values entries) = length entries" by (simp add: omap_values_def)
  show ?thesis
    using assms read_keyed_put [of key entries l null duplicate rest]
    by (simp add: read_map_def write_vector_def codec_reads len vector_count_fits [OF n, folded len]
        vector_count_fits [OF n] unat_of_length [OF n] map_bounded_def)
qed

end

section \<open>Experiment records\<close>

definition put_experiment_record :: "experiment_record \<Rightarrow> u8 list" where
  "put_experiment_record x =
     put_experiment_definition (er_definition x) @ put_hypothesis (er_hypothesis x) @
     write_vector 4096 put_hypothesis (er_hypothesis_history x) @
     write_enum experiment_state_code (er_state x) @ pw_u64 (er_revision_sequence x) @
     pw_u64 (er_created_sequence x) @
     write_vector 4096 put_trial (omap_values (er_trials x)) @
     write_vector 32768 put_attempt (omap_values (er_attempts x)) @
     write_vector (2 ^ 20) put_observation (er_observations x) @
     write_vector 65536 put_artifact (er_artifacts x) @
     write_vector 1024 put_decision (er_decisions x) @
     write_vector 1024 put_rollback_point (er_rollback_points x) @
     write_vector 65536 put_rejected_evidence (er_rejected_evidence x) @
     write_vector 65536 (\<lambda>s. pw_text s 512) (er_lifecycle_log x)"

definition read_experiment_record :: "experiment_record reader" where
  "read_experiment_record =
     bind_reader read_experiment_definition (\<lambda>definition. bind_reader read_hypothesis (\<lambda>hypothesis.
     bind_reader (read_vector 4096 read_hypothesis) (\<lambda>history.
     bind_reader (read_enum kExperimentStates kMaxExperimentState (lit ''experiment state'')) (\<lambda>state.
     bind_reader pr_u64 (\<lambda>revision_sequence. bind_reader pr_u64 (\<lambda>created_sequence.
     bind_reader (read_map 4096 read_trial tr_id (lit ''null trial identity'')
       (lit ''duplicate trial identity'')) (\<lambda>trials.
     bind_reader (read_map 32768 read_attempt at_id (lit ''null attempt identity'')
       (lit ''duplicate attempt identity'')) (\<lambda>attempts.
     bind_reader (read_vector (2 ^ 20) read_observation) (\<lambda>observations.
     bind_reader (read_vector 65536 read_artifact) (\<lambda>artifacts.
     bind_reader (read_vector 1024 read_decision) (\<lambda>decisions.
     bind_reader (read_vector 1024 read_rollback_point) (\<lambda>rollback_points.
     bind_reader (read_vector 65536 read_rejected_evidence) (\<lambda>rejected_evidence.
     bind_reader (read_vector 65536 (pr_text 512)) (\<lambda>lifecycle_log.
     ready \<lparr>er_definition = definition, er_hypothesis = hypothesis, er_hypothesis_history = history,
       er_state = state, er_revision_sequence = revision_sequence, er_created_sequence = created_sequence,
       er_trials = trials, er_attempts = attempts, er_observations = observations,
       er_artifacts = artifacts, er_decisions = decisions, er_rollback_points = rollback_points,
       er_rejected_evidence = rejected_evidence, er_lifecycle_log = lifecycle_log\<rparr>))))))))))))))"

definition experiment_record_bounded :: "limits \<Rightarrow> experiment_record \<Rightarrow> bool" where
  "experiment_record_bounded l x \<longleftrightarrow>
     experiment_definition_bounded l (er_definition x) \<and> hypothesis_bounded l (er_hypothesis x) \<and>
     vector_within 4096 hypothesis_bounded l (er_hypothesis_history x) \<and>
     map_bounded 4096 tr_id trial_bounded l (er_trials x) \<and>
     map_bounded 32768 at_id attempt_bounded l (er_attempts x) \<and>
     vector_within (2 ^ 20) observation_bounded l (er_observations x) \<and>
     vector_within 65536 artifact_bounded l (er_artifacts x) \<and>
     vector_within 1024 decision_bounded l (er_decisions x) \<and>
     vector_within 1024 rollback_point_bounded l (er_rollback_points x) \<and>
     vector_within 65536 rejected_evidence_bounded l (er_rejected_evidence x) \<and>
     vector_within 65536 (text_within 512) l (er_lifecycle_log x)"

lemmas [codec_reads] = trial_codec.map_get_put attempt_codec.map_get_put

interpretation experiment_record_codec: codec put_experiment_record read_experiment_record experiment_record_bounded
  by unfold_locales
    (simp add: put_experiment_record_def read_experiment_record_def experiment_record_bounded_def codec_reads)

lemmas [codec_reads] = experiment_record_codec.get_put

section \<open>The coordinator state\<close>

text \<open>The eleven identity watermarks, in the order both formats write them.\<close>

definition put_watermarks :: "coordinator_state \<Rightarrow> u8 list" where
  "put_watermarks x =
     pw_u64 (cs_id_watermark_experiment x) @ pw_u64 (cs_id_watermark_hypothesis x) @
     pw_u64 (cs_id_watermark_branch x) @ pw_u64 (cs_id_watermark_metric x) @
     pw_u64 (cs_id_watermark_policy x) @ pw_u64 (cs_id_watermark_trial x) @
     pw_u64 (cs_id_watermark_attempt x) @ pw_u64 (cs_id_watermark_observation x) @
     pw_u64 (cs_id_watermark_artifact x) @ pw_u64 (cs_id_watermark_decision x) @
     pw_u64 (cs_id_watermark_rollback x)"

definition read_watermarks :: "coordinator_state \<Rightarrow> coordinator_state reader" where
  "read_watermarks x =
     bind_reader pr_u64 (\<lambda>experiment. bind_reader pr_u64 (\<lambda>hypothesis. bind_reader pr_u64 (\<lambda>branch.
     bind_reader pr_u64 (\<lambda>metric. bind_reader pr_u64 (\<lambda>policy. bind_reader pr_u64 (\<lambda>trial.
     bind_reader pr_u64 (\<lambda>attempt. bind_reader pr_u64 (\<lambda>observation. bind_reader pr_u64 (\<lambda>artifact.
     bind_reader pr_u64 (\<lambda>decision. bind_reader pr_u64 (\<lambda>rollback.
     ready (x\<lparr>cs_id_watermark_experiment := experiment, cs_id_watermark_hypothesis := hypothesis,
       cs_id_watermark_branch := branch, cs_id_watermark_metric := metric,
       cs_id_watermark_policy := policy, cs_id_watermark_trial := trial,
       cs_id_watermark_attempt := attempt, cs_id_watermark_observation := observation,
       cs_id_watermark_artifact := artifact, cs_id_watermark_decision := decision,
       cs_id_watermark_rollback := rollback\<rparr>))))))))))))"

text \<open>An experiment travels with the identity it is stored under.\<close>

definition put_experiment_entry :: "experiment_id \<times> experiment_record \<Rightarrow> u8 list" where
  "put_experiment_entry entry = write_id (fst entry) @ put_experiment_record (snd entry)"

fun read_experiment_entries ::
    "nat \<Rightarrow> (experiment_id, experiment_record) omap \<Rightarrow> (experiment_id, experiment_record) omap reader" where
  "read_experiment_entries 0 m = ready m"
| "read_experiment_entries (Suc n) m = bind_reader read_id (\<lambda>key.
     if \<not> valid key then refuse (corrupt (lit ''null experiment identity''))
     else bind_reader read_experiment_record (\<lambda>record.
       if map_of m key \<noteq> None then refuse (corrupt (lit ''duplicate experiment identity''))
       else read_experiment_entries n (omap_emplace key record m)))"

definition put_coordinator_state :: "coordinator_state \<Rightarrow> u8 list" where
  "put_coordinator_state x =
     pw_u32 (cs_format_version x) @ pw_u64 (cs_last_epoch x) @ pw_u64 (cs_last_sequence x) @
     write_vector 4096 put_worker_incarnation (cs_workers x) @
     pw_u64 (cs_next_worker_registration_sequence x) @ put_watermarks x @
     pw_count (of_nat (length (cs_experiments x))) (2 ^ 22) @
     concat (map put_experiment_entry (cs_experiments x))"

definition read_coordinator_state :: "coordinator_state reader" where
  "read_coordinator_state =
     bind_reader pr_u32 (\<lambda>version. bind_reader pr_u64 (\<lambda>last_epoch. bind_reader pr_u64 (\<lambda>last_sequence.
     bind_reader (read_vector 4096 read_worker_incarnation) (\<lambda>workers.
     bind_reader pr_u64 (\<lambda>registration_sequence.
     bind_reader (read_watermarks (coordinator_state_init
       \<lparr>cs_format_version := version, cs_last_epoch := last_epoch, cs_last_sequence := last_sequence,
        cs_workers := workers, cs_next_worker_registration_sequence := registration_sequence\<rparr>)) (\<lambda>state.
     bind_reader (pr_count (2 ^ 22)) (\<lambda>experiment_count.
     bind_reader (read_experiment_entries (unat experiment_count) []) (\<lambda>experiments.
     ready (state\<lparr>cs_experiments := experiments\<rparr>)))))))))"

definition coordinator_state_bounded :: "limits \<Rightarrow> coordinator_state \<Rightarrow> bool" where
  "coordinator_state_bounded l x \<longleftrightarrow>
     vector_within 4096 worker_incarnation_bounded l (cs_workers x) \<and> length (cs_experiments x) \<le> 2 ^ 22 \<and>
     omap_ordered (cs_experiments x) \<and>
     (\<forall>(k, r) \<in> set (cs_experiments x). valid k \<and> experiment_record_bounded l r)"

lemma read_experiment_entries_append:
  assumes "omap_ordered (acc @ m)" and "\<And>k r. (k, r) \<in> set m \<Longrightarrow> valid k \<and> experiment_record_bounded l r"
  shows "read_experiment_entries (length m) acc l (concat (map put_experiment_entry m) @ rest) = Inr (acc @ m, rest)"
  using assms
proof (induction m arbitrary: acc)
  case Nil then show ?case by (simp add: ready_def)
next
  case (Cons e m)
  obtain k r where e: "e = (k, r)" by (cases e)
  have below: "\<And>x. x \<in> set acc \<Longrightarrow> fst x < k" using Cons.prems(1) e by (auto simp: sorted_wrt_append)
  then have fresh: "map_of acc k = None" by (force simp: map_of_eq_None_iff)
  have ok: "valid k" "experiment_record_bounded l r" using Cons.prems(2) [of k r] e by auto
  have "omap_ordered ((acc @ [(k, r)]) @ m)" using Cons.prems(1) e by simp
  then have "read_experiment_entries (length m) (acc @ [(k, r)]) l (concat (map put_experiment_entry m) @ rest) =
      Inr (acc @ [(k, r)] @ m, rest)"
    using Cons.IH [of "acc @ [(k, r)]"] Cons.prems(2) by auto
  then show ?case
    using ok e fresh by (simp add: put_experiment_entry_def [of "(k, r)"] codec_reads omap_emplace_last [OF below])
qed

lemma watermarks_get_put [codec_reads]:
  "read_watermarks y l (put_watermarks x @ rest) =
     Inr (y\<lparr>cs_id_watermark_experiment := cs_id_watermark_experiment x,
       cs_id_watermark_hypothesis := cs_id_watermark_hypothesis x,
       cs_id_watermark_branch := cs_id_watermark_branch x, cs_id_watermark_metric := cs_id_watermark_metric x,
       cs_id_watermark_policy := cs_id_watermark_policy x, cs_id_watermark_trial := cs_id_watermark_trial x,
       cs_id_watermark_attempt := cs_id_watermark_attempt x,
       cs_id_watermark_observation := cs_id_watermark_observation x,
       cs_id_watermark_artifact := cs_id_watermark_artifact x,
       cs_id_watermark_decision := cs_id_watermark_decision x,
       cs_id_watermark_rollback := cs_id_watermark_rollback x\<rparr>, rest)"
  by (simp add: read_watermarks_def put_watermarks_def codec_reads)

interpretation coordinator_state_codec: codec put_coordinator_state read_coordinator_state coordinator_state_bounded
proof
  fix l x rest assume b: "coordinator_state_bounded l x"
  have n: "length (cs_experiments x) \<le> unat (2 ^ 22 :: u32)" using b by (simp add: coordinator_state_bounded_def)
  have "read_experiment_entries (length (cs_experiments x)) [] l
      (concat (map put_experiment_entry (cs_experiments x)) @ rest) = Inr (cs_experiments x, rest)"
    using read_experiment_entries_append [of "[]"] b by (fastforce simp: coordinator_state_bounded_def)
  then show "read_coordinator_state l (put_coordinator_state x @ rest) = Inr (x, rest)"
    using b vector_count_fits [OF n] unat_of_length [OF n]
    by (simp add: put_coordinator_state_def read_coordinator_state_def codec_reads
        coordinator_state_bounded_def coordinator_state_init_def)
qed

end
