(* ===== verification/Message.thy ===== *)
theory Message
  imports RecordCodec Authority
begin

text \<open>
  The typed messages of \<^verbatim>\<open>src/protocol.cpp\<close>: for every request and reply what \<^verbatim>\<open>encode\<close> produces and what
  its decoder accepts. A decoder reads the parts in order and then insists that nothing is left.
  Each message is a strict codec: the decoder inverts the encoder on values within the bounds, and
  accepts nothing but encodings of such values.
\<close>

section \<open>Requests and replies\<close>

record cancel_trial_request =
  xt_trial :: trial_id
  xt_reason :: string

record cancel_experiment_request =
  xe_experiment :: experiment_id
  xe_reason :: string

record finalize_experiment_request =
  fe_experiment :: experiment_id
  fe_candidate :: branch_id
  fe_reason :: string

record rollback_request =
  rk_experiment :: experiment_id
  rk_target_generation :: experiment_generation
  rk_reason :: string

record error_reply =
  ey_status :: status
  ey_detail :: string

record query_result =
  qr_status :: status
  qr_lines :: "string list"

record value_reply =
  vr_status :: status
  vr_value :: u64

record create_trial_request =
  cq_experiment :: experiment_id
  cq_branch :: branch_id
  cq_payload :: string

record fork_branch_request =
  fb_experiment :: experiment_id
  fb_parent :: branch_id
  fb_name :: string
  fb_role :: branch_role
  fb_parameters :: "parameter_assignment list"
  fb_seed :: "u64 option"
  fb_planned_trials :: u32

record revise_hypothesis_request =
  rh_experiment :: experiment_id
  rh_statement :: string
  rh_has_direction :: bool
  rh_direction :: metric_direction
  rh_metric :: metric_id
  rh_provenance :: string

section \<open>Envelope and status\<close>

definition put_envelope :: "authority_envelope \<Rightarrow> u8 list" where
  "put_envelope x =
     write_id (ae_epoch x) @ write_id (ae_experiment x) @ write_id (ae_generation x) @
     write_id (ae_hypothesis x) @ write_id (ae_hypothesis_revision x) @ write_id (ae_policy x) @
     write_id (ae_policy_generation x) @ write_id (ae_branch x) @ write_id (ae_branch_generation x) @
     write_id (ae_trial x) @ write_id (ae_attempt x) @ write_id (ae_worker x) @ write_id (ae_boot x) @
     write_id (ae_producer x)"

definition read_envelope :: "authority_envelope reader" where
  "read_envelope =
     bind_reader read_id (\<lambda>epoch. bind_reader read_id (\<lambda>experiment.
     bind_reader read_id (\<lambda>generation. bind_reader read_id (\<lambda>hypothesis.
     bind_reader read_id (\<lambda>revision. bind_reader read_id (\<lambda>policy.
     bind_reader read_id (\<lambda>policy_generation. bind_reader read_id (\<lambda>branch.
     bind_reader read_id (\<lambda>branch_generation. bind_reader read_id (\<lambda>trial.
     bind_reader read_id (\<lambda>attempt. bind_reader read_id (\<lambda>worker.
     bind_reader read_id (\<lambda>boot. bind_reader read_id (\<lambda>producer.
     ready \<lparr>ae_epoch = epoch, ae_experiment = experiment, ae_generation = generation,
       ae_hypothesis = hypothesis, ae_hypothesis_revision = revision, ae_policy = policy,
       ae_policy_generation = policy_generation, ae_branch = branch,
       ae_branch_generation = branch_generation, ae_trial = trial, ae_attempt = attempt,
       ae_worker = worker, ae_boot = boot, ae_producer = producer\<rparr>))))))))))))))"

interpretation envelope_codec: strict_codec put_envelope read_envelope "\<lambda>l x. True"
  by unfold_locales
    (simp add: put_envelope_def read_envelope_def codec_reads, auto simp: put_envelope_def read_envelope_def codec_strict dest!: codec_accepts)

lemmas [codec_reads] =
  envelope_codec.get_put

lemmas [codec_accepts] =
  envelope_codec.put_get

definition encode_status :: "status \<Rightarrow> u8 list" where
  "encode_status s =
     pw_u8 (error_code_code (st_code s)) @ pw_u8 (error_stage_code (st_stage s)) @ pw_text (st_reason s) 1024"

text \<open>The code is checked last, after the end of the payload.\<close>

definition decode_status :: "u8 list \<Rightarrow> limits \<Rightarrow> status result" where
  "decode_status payload l =
     (case bind_reader pr_u8 (\<lambda>code. bind_reader pr_u8 (\<lambda>stage.
        if stage > error_stage_code EG_LIMITS
          then refuse (payload_error (lit ''impossible error stage value''))
        else bind_reader (pr_text 1024) (\<lambda>reason. ready (code, stage, reason)))) l payload of
        Inl s \<Rightarrow> Inl s
      | Inr ((code, stage, reason), rest) \<Rightarrow>
          if \<not> st_ok (expect_end rest) then Inl (expect_end rest)
          else if code > error_code_code EC_INTERNAL
            then Inl (payload_error (lit ''impossible error code value''))
          else Inr \<lparr>st_code = fst (kErrorCodeNames ! unat code),
            st_stage = fst (kErrorStageNames ! unat stage), st_reason = reason\<rparr>)"

interpretation wire_error_code: wire_enum error_code_code kErrorCodeNames "error_code_code EC_INTERNAL"
proof
  show "x \<in> fst ` set kErrorCodeNames" for x by (cases x) (simp_all add: kErrorCodeNames_def)
qed (simp add: kErrorCodeNames_def upt_rec)

interpretation wire_error_stage: wire_enum error_stage_code kErrorStageNames "error_stage_code EG_LIMITS"
proof
  show "x \<in> fst ` set kErrorStageNames" for x by (cases x) (simp_all add: kErrorStageNames_def)
qed (simp add: kErrorStageNames_def upt_rec)

lemma decode_encode_status: "text_within 1024 l (st_reason s) \<Longrightarrow> decode_status (encode_status s) l = Inr s"
  using wire_error_code.code_cast [of "st_code s"] wire_error_stage.code_cast [of "st_stage s"]
    bounded_text.get_put_end [of 1024 l "st_reason s"]
  by (simp add: decode_status_def encode_status_def codec_reads expect_end_def leD del: error_code_code.simps error_stage_code.simps)

lemma encode_decode_status:
  "decode_status bs l = Inr s \<Longrightarrow> bs = encode_status s \<and> text_within 1024 l (st_reason s)"
  by (auto simp: decode_status_def encode_status_def codec_strict expect_end_def not_less wire_error_code.cast_code
      wire_error_stage.cast_code split: sum.splits if_splits dest!: codec_accepts
      simp del: error_code_code.simps error_stage_code.simps)

text \<open>A status inside a reply: the length of its encoding, then the encoding.\<close>

definition put_status_block :: "status \<Rightarrow> u8 list" where
  "put_status_block s = pw_u32 (of_nat (length (encode_status s))) @ pw_raw (encode_status s)"

definition read_status_bytes :: "u8 list \<Rightarrow> status reader" where
  "read_status_bytes bytes l bs = (case decode_status bytes l of Inl s \<Rightarrow> Inl s | Inr s \<Rightarrow> Inr (s, bs))"

definition read_status_block :: "status reader" where
  "read_status_block =
     bind_reader (\<lambda>l. pr_count (lm_max_frame_payload_bytes l) l) (\<lambda>n.
     bind_reader (pr_raw n) read_status_bytes)"

lemma read_status_bytes_accepts [codec_strict]:
  "read_status_bytes bytes l bs = Inr (s, rest) \<longleftrightarrow> decode_status bytes l = Inr s \<and> rest = bs"
  by (auto simp: read_status_bytes_def split: sum.splits)

definition status_block_bounded :: "limits \<Rightarrow> status \<Rightarrow> bool" where
  "status_block_bounded l s \<longleftrightarrow>
     text_within 1024 l (st_reason s) \<and> length (encode_status s) \<le> unat (lm_max_frame_payload_bytes l)"

interpretation status_block_codec: strict_codec put_status_block read_status_block status_block_bounded
proof
  fix l s rest assume b: "status_block_bounded l s"
  then have n: "length (encode_status s) \<le> unat (lm_max_frame_payload_bytes l)" by (simp add: status_block_bounded_def)
  show "read_status_block l (put_status_block s @ rest) = Inr (s, rest)"
    using b vector_count_fits [OF n] unat_of_length [OF n]
    by (simp add: read_status_block_def put_status_block_def pr_raw_def pr_count_def pw_raw_def codec_reads
        read_status_bytes_def decode_encode_status status_block_bounded_def leD)
next
  fix l bs s rest assume "read_status_block l bs = Inr (s, rest)"
  then obtain n mid where n: "pr_count (lm_max_frame_payload_bytes l) l bs = Inr (n, mid)" "unat n \<le> length mid"
    and s: "decode_status (take (unat n) mid) l = Inr s" and rest: "rest = drop (unat n) mid"
    by (auto simp: read_status_block_def pr_raw_def codec_strict split: if_splits)
  have enc: "take (unat n) mid = encode_status s" "text_within 1024 l (st_reason s)" using encode_decode_status [OF s] by auto
  then have "length (encode_status s) = unat n" using n(2) by (metis length_take min.absorb2)
  then show "bs = put_status_block s @ rest \<and> status_block_bounded l s"
    using count.put_get [OF n(1)] enc append_take_drop_id [of "unat n" mid] rest
    by (auto simp: put_status_block_def pw_raw_def pw_count_def status_block_bounded_def word_le_nat_alt)
qed

lemmas [codec_reads] = status_block_codec.get_put
lemmas [codec_accepts] = status_block_codec.put_get

section \<open>Worker messages\<close>

definition encode_register_worker :: "register_worker_request \<Rightarrow> u8 list" where
  "encode_register_worker x =
     write_id (rq_claimed_epoch x) @ write_id (rq_worker x) @ write_id (rq_boot x) @
     write_id (rq_producer x) @ pw_text (rq_endpoint x) 256 @ pw_u32 (rq_max_concurrent_assignments x) @
     pw_text (rq_fingerprint x) 512"

definition read_register_worker :: "register_worker_request reader" where
  "read_register_worker =
     bind_reader read_id (\<lambda>claimed_epoch. bind_reader read_id (\<lambda>worker.
     bind_reader read_id (\<lambda>boot. bind_reader read_id (\<lambda>producer.
     bind_reader (pr_text 256) (\<lambda>endpoint. bind_reader pr_u32 (\<lambda>max_concurrent_assignments.
     bind_reader (pr_text 512) (\<lambda>fingerprint.
     ready \<lparr>rq_claimed_epoch = claimed_epoch, rq_worker = worker, rq_boot = boot, rq_producer = producer,
       rq_endpoint = endpoint, rq_max_concurrent_assignments = max_concurrent_assignments,
       rq_fingerprint = fingerprint\<rparr>)))))))"

definition register_worker_bounded :: "limits \<Rightarrow> register_worker_request \<Rightarrow> bool" where
  "register_worker_bounded l x \<longleftrightarrow>
     text_within 256 l (rq_endpoint x) \<and> text_within 512 l (rq_fingerprint x)"

definition decode_register_worker :: "u8 list \<Rightarrow> limits \<Rightarrow> register_worker_request result" where
  "decode_register_worker payload l = decode_all read_register_worker payload l"

interpretation register_worker_codec: strict_codec encode_register_worker read_register_worker register_worker_bounded
  by unfold_locales
    (simp add: encode_register_worker_def read_register_worker_def register_worker_bounded_def codec_reads, auto simp: encode_register_worker_def read_register_worker_def register_worker_bounded_def codec_strict dest!: codec_accepts)

definition encode_register_reply :: "register_worker_reply \<Rightarrow> u8 list" where
  "encode_register_reply x =
     write_id (rr_epoch x) @ write_id (rr_boot x) @ write_id (rr_producer x) @
     pw_boolean (rr_accepted x) @ put_status_block (rr_status x)"

definition read_register_reply :: "register_worker_reply reader" where
  "read_register_reply =
     bind_reader read_id (\<lambda>epoch. bind_reader read_id (\<lambda>boot.
     bind_reader read_id (\<lambda>producer. bind_reader pr_boolean (\<lambda>accepted.
     bind_reader read_status_block (\<lambda>status.
     ready \<lparr>rr_epoch = epoch, rr_boot = boot, rr_producer = producer, rr_accepted = accepted,
       rr_status = status\<rparr>)))))"

definition register_reply_bounded :: "limits \<Rightarrow> register_worker_reply \<Rightarrow> bool" where
  "register_reply_bounded l x \<longleftrightarrow>
     status_block_bounded l (rr_status x)"

definition decode_register_reply :: "u8 list \<Rightarrow> limits \<Rightarrow> register_worker_reply result" where
  "decode_register_reply payload l = decode_all read_register_reply payload l"

interpretation register_reply_codec: strict_codec encode_register_reply read_register_reply register_reply_bounded
  by unfold_locales
    (simp add: encode_register_reply_def read_register_reply_def register_reply_bounded_def codec_reads, auto simp: encode_register_reply_def read_register_reply_def register_reply_bounded_def codec_strict dest!: codec_accepts)

definition encode_claim_trial :: "claim_trial_request \<Rightarrow> u8 list" where
  "encode_claim_trial x =
     write_id (ct_epoch x) @ write_id (ct_worker x) @ write_id (ct_boot x) @ pw_u32 (ct_max_claims x)"

definition read_claim_trial :: "claim_trial_request reader" where
  "read_claim_trial =
     bind_reader read_id (\<lambda>epoch. bind_reader read_id (\<lambda>worker.
     bind_reader read_id (\<lambda>boot. bind_reader pr_u32 (\<lambda>max_claims.
     ready \<lparr>ct_epoch = epoch, ct_worker = worker, ct_boot = boot, ct_max_claims = max_claims\<rparr>))))"

definition decode_claim_trial :: "u8 list \<Rightarrow> limits \<Rightarrow> claim_trial_request result" where
  "decode_claim_trial payload l = decode_all read_claim_trial payload l"

interpretation claim_trial_codec: strict_codec encode_claim_trial read_claim_trial "\<lambda>l x. True"
  by unfold_locales
    (simp add: encode_claim_trial_def read_claim_trial_def codec_reads, auto simp: encode_claim_trial_def read_claim_trial_def codec_strict dest!: codec_accepts)

definition put_assigned_metric :: "assigned_metric \<Rightarrow> u8 list" where
  "put_assigned_metric x =
     write_id (am_metric x) @ write_id (am_observation_id x) @ pw_text (am_name x) 128 @
     write_enum metric_kind_code (am_kind x) @ write_enum metric_direction_code (am_direction x) @
     pw_boolean (am_required x)"

definition read_assigned_metric :: "assigned_metric reader" where
  "read_assigned_metric =
     bind_reader read_id (\<lambda>metric. bind_reader read_id (\<lambda>observation_id.
     bind_reader (pr_text 128) (\<lambda>name.
     bind_reader (read_enum kMetricKinds kMaxMetricKind (lit ''metric kind'')) (\<lambda>kind.
     bind_reader (read_enum kMetricDirections kMaxMetricDirection (lit ''metric direction'')) (\<lambda>direction.
     bind_reader pr_boolean (\<lambda>required.
     ready \<lparr>am_metric = metric, am_observation_id = observation_id, am_name = name, am_kind = kind,
       am_direction = direction, am_required = required\<rparr>))))))"

definition assigned_metric_bounded :: "limits \<Rightarrow> assigned_metric \<Rightarrow> bool" where
  "assigned_metric_bounded l x \<longleftrightarrow>
     text_within 128 l (am_name x)"

interpretation assigned_metric_codec: strict_codec put_assigned_metric read_assigned_metric assigned_metric_bounded
  by unfold_locales
    (simp add: put_assigned_metric_def read_assigned_metric_def assigned_metric_bounded_def codec_reads, auto simp: put_assigned_metric_def read_assigned_metric_def assigned_metric_bounded_def codec_strict dest!: codec_accepts)

lemmas [codec_reads] =
  assigned_metric_codec.get_put assigned_metric_codec.vector_get_put

lemmas [codec_accepts] =
  assigned_metric_codec.put_get assigned_metric_codec.vector_put_get

definition put_assignment :: "trial_assignment \<Rightarrow> u8 list" where
  "put_assignment x =
     put_envelope (ta_envelope x) @ pw_text (ta_trial_payload x) 4096 @
     put_parameters (ta_parameters x) @ write_id (ta_attempt_number x) @
     write_vector 128 put_assigned_metric (ta_metrics x) @
     write_vector 256 write_id (ta_artifact_ids x) @ pw_u32 (ta_planned_observations x)"

definition read_assignment :: "trial_assignment reader" where
  "read_assignment =
     bind_reader read_envelope (\<lambda>envelope. bind_reader (pr_text 4096) (\<lambda>trial_payload.
     bind_reader read_parameters (\<lambda>parameters. bind_reader read_id (\<lambda>attempt_number.
     bind_reader (read_vector 128 read_assigned_metric) (\<lambda>metrics.
     bind_reader (read_vector 256 read_id) (\<lambda>artifact_ids.
     bind_reader pr_u32 (\<lambda>planned_observations.
     ready \<lparr>ta_envelope = envelope, ta_attempt_number = attempt_number, ta_trial_payload = trial_payload,
       ta_parameters = parameters, ta_metrics = metrics, ta_artifact_ids = artifact_ids,
       ta_planned_observations = planned_observations\<rparr>)))))))"

definition assignment_bounded :: "limits \<Rightarrow> trial_assignment \<Rightarrow> bool" where
  "assignment_bounded l x \<longleftrightarrow>
     text_within 4096 l (ta_trial_payload x) \<and> parameters_bounded l (ta_parameters x) \<and>
     vector_within 128 assigned_metric_bounded l (ta_metrics x) \<and>
     vector_within 256 (\<lambda>l x. True) l (ta_artifact_ids x)"

interpretation assignment_codec: strict_codec put_assignment read_assignment assignment_bounded
  by unfold_locales
    (simp add: put_assignment_def read_assignment_def assignment_bounded_def codec_reads, auto simp: put_assignment_def read_assignment_def assignment_bounded_def codec_strict dest!: codec_accepts)

lemmas [codec_reads] =
  assignment_codec.get_put assignment_codec.vector_get_put

lemmas [codec_accepts] =
  assignment_codec.put_get assignment_codec.vector_put_get

text \<open>The number of assignments is bounded by the batch limit of the reader.\<close>

definition encode_claim_reply :: "claim_trial_reply \<Rightarrow> u8 list" where
  "encode_claim_reply x =
     put_status_block (cl_status x) @ pw_u32 (of_nat (length (cl_assignments x))) @
     concat (map put_assignment (cl_assignments x))"

definition read_claim_reply :: "claim_trial_reply reader" where
  "read_claim_reply =
     bind_reader read_status_block (\<lambda>status.
     bind_reader (\<lambda>l. read_vector (lm_max_batch_items l) read_assignment l) (\<lambda>assignments.
     ready \<lparr>cl_status = status, cl_assignments = assignments\<rparr>))"

definition claim_reply_bounded :: "limits \<Rightarrow> claim_trial_reply \<Rightarrow> bool" where
  "claim_reply_bounded l x \<longleftrightarrow>
     status_block_bounded l (cl_status x) \<and>
     vector_within (lm_max_batch_items l) assignment_bounded l (cl_assignments x)"

definition decode_claim_reply :: "u8 list \<Rightarrow> limits \<Rightarrow> claim_trial_reply result" where
  "decode_claim_reply payload l = decode_all read_claim_reply payload l"

lemma assignments_written:
  "pw_u32 (of_nat (length xs)) @ concat (map put_assignment xs) @ rest = write_vector m put_assignment xs @ rest"
  by (simp add: write_vector_def pw_count_def)

interpretation claim_reply_codec: strict_codec encode_claim_reply read_claim_reply claim_reply_bounded
proof
  fix l x rest assume "claim_reply_bounded l x"
  then show "read_claim_reply l (encode_claim_reply x @ rest) = Inr (x, rest)"
    using assignments_written [of "cl_assignments x" rest "lm_max_batch_items l"]
    by (simp add: read_claim_reply_def encode_claim_reply_def claim_reply_bounded_def codec_reads)
next
  fix l bs x rest assume "read_claim_reply l bs = Inr (x, rest)"
  then show "bs = encode_claim_reply x @ rest \<and> claim_reply_bounded l x"
    using assignments_written [of _ rest "lm_max_batch_items l", symmetric]
    by (auto simp: read_claim_reply_def encode_claim_reply_def claim_reply_bounded_def codec_strict
        dest!: codec_accepts)
qed

definition encode_publish_observation :: "publish_observation_request \<Rightarrow> u8 list" where
  "encode_publish_observation x =
     write_id (po_epoch x) @ write_id (po_worker x) @ write_id (po_boot x) @
     put_observation (po_observation x)"

definition read_publish_observation :: "publish_observation_request reader" where
  "read_publish_observation =
     bind_reader read_id (\<lambda>epoch. bind_reader read_id (\<lambda>worker.
     bind_reader read_id (\<lambda>boot. bind_reader read_observation (\<lambda>observation.
     ready \<lparr>po_epoch = epoch, po_worker = worker, po_boot = boot, po_observation = observation\<rparr>))))"

definition publish_observation_bounded :: "limits \<Rightarrow> publish_observation_request \<Rightarrow> bool" where
  "publish_observation_bounded l x \<longleftrightarrow>
     observation_bounded l (po_observation x)"

definition decode_publish_observation :: "u8 list \<Rightarrow> limits \<Rightarrow> publish_observation_request result" where
  "decode_publish_observation payload l = decode_all read_publish_observation payload l"

interpretation publish_observation_codec: strict_codec encode_publish_observation read_publish_observation publish_observation_bounded
  by unfold_locales
    (simp add: encode_publish_observation_def read_publish_observation_def publish_observation_bounded_def codec_reads, auto simp: encode_publish_observation_def read_publish_observation_def publish_observation_bounded_def codec_strict dest!: codec_accepts)

definition encode_publish_artifact :: "publish_artifact_request \<Rightarrow> u8 list" where
  "encode_publish_artifact x =
     write_id (pb_epoch x) @ write_id (pb_worker x) @ write_id (pb_boot x) @
     put_artifact (pb_artifact x)"

definition read_publish_artifact :: "publish_artifact_request reader" where
  "read_publish_artifact =
     bind_reader read_id (\<lambda>epoch. bind_reader read_id (\<lambda>worker.
     bind_reader read_id (\<lambda>boot. bind_reader read_artifact (\<lambda>artifact.
     ready \<lparr>pb_epoch = epoch, pb_worker = worker, pb_boot = boot, pb_artifact = artifact\<rparr>))))"

definition publish_artifact_bounded :: "limits \<Rightarrow> publish_artifact_request \<Rightarrow> bool" where
  "publish_artifact_bounded l x \<longleftrightarrow>
     artifact_bounded l (pb_artifact x)"

definition decode_publish_artifact :: "u8 list \<Rightarrow> limits \<Rightarrow> publish_artifact_request result" where
  "decode_publish_artifact payload l = decode_all read_publish_artifact payload l"

interpretation publish_artifact_codec: strict_codec encode_publish_artifact read_publish_artifact publish_artifact_bounded
  by unfold_locales
    (simp add: encode_publish_artifact_def read_publish_artifact_def publish_artifact_bounded_def codec_reads, auto simp: encode_publish_artifact_def read_publish_artifact_def publish_artifact_bounded_def codec_strict dest!: codec_accepts)

definition encode_commit_trial :: "commit_trial_request \<Rightarrow> u8 list" where
  "encode_commit_trial x =
     write_id (cm_epoch x) @ write_id (cm_worker x) @ write_id (cm_boot x) @
     put_envelope (cm_envelope x) @ write_vector 256 put_artifact (cm_artifacts x) @
     pw_text (cm_result_payload x) 4096"

definition read_commit_trial :: "commit_trial_request reader" where
  "read_commit_trial =
     bind_reader read_id (\<lambda>epoch. bind_reader read_id (\<lambda>worker.
     bind_reader read_id (\<lambda>boot. bind_reader read_envelope (\<lambda>envelope.
     bind_reader (read_vector 256 read_artifact) (\<lambda>artifacts.
     bind_reader (pr_text 4096) (\<lambda>result_payload.
     ready \<lparr>cm_epoch = epoch, cm_worker = worker, cm_boot = boot, cm_envelope = envelope,
       cm_artifacts = artifacts, cm_result_payload = result_payload\<rparr>))))))"

definition commit_trial_bounded :: "limits \<Rightarrow> commit_trial_request \<Rightarrow> bool" where
  "commit_trial_bounded l x \<longleftrightarrow>
     vector_within 256 artifact_bounded l (cm_artifacts x) \<and>
     text_within 4096 l (cm_result_payload x)"

definition decode_commit_trial :: "u8 list \<Rightarrow> limits \<Rightarrow> commit_trial_request result" where
  "decode_commit_trial payload l = decode_all read_commit_trial payload l"

interpretation commit_trial_codec: strict_codec encode_commit_trial read_commit_trial commit_trial_bounded
  by unfold_locales
    (simp add: encode_commit_trial_def read_commit_trial_def commit_trial_bounded_def codec_reads, auto simp: encode_commit_trial_def read_commit_trial_def commit_trial_bounded_def codec_strict dest!: codec_accepts)

definition encode_fail_trial :: "fail_trial_request \<Rightarrow> u8 list" where
  "encode_fail_trial x =
     write_id (fl_epoch x) @ write_id (fl_worker x) @ write_id (fl_boot x) @
     put_envelope (fl_envelope x) @ write_enum failure_kind_code (fl_kind x) @
     pw_text (fl_detail x) 512 @ pw_boolean (fl_retryable x)"

definition read_fail_trial :: "fail_trial_request reader" where
  "read_fail_trial =
     bind_reader read_id (\<lambda>epoch. bind_reader read_id (\<lambda>worker.
     bind_reader read_id (\<lambda>boot. bind_reader read_envelope (\<lambda>envelope.
     bind_reader (read_enum kFailureKinds kMaxFailureKind (lit ''failure kind'')) (\<lambda>kind.
     bind_reader (pr_text 512) (\<lambda>detail. bind_reader pr_boolean (\<lambda>retryable.
     ready \<lparr>fl_epoch = epoch, fl_worker = worker, fl_boot = boot, fl_envelope = envelope, fl_kind = kind,
       fl_detail = detail, fl_retryable = retryable\<rparr>)))))))"

definition fail_trial_bounded :: "limits \<Rightarrow> fail_trial_request \<Rightarrow> bool" where
  "fail_trial_bounded l x \<longleftrightarrow>
     text_within 512 l (fl_detail x)"

definition decode_fail_trial :: "u8 list \<Rightarrow> limits \<Rightarrow> fail_trial_request result" where
  "decode_fail_trial payload l = decode_all read_fail_trial payload l"

interpretation fail_trial_codec: strict_codec encode_fail_trial read_fail_trial fail_trial_bounded
  by unfold_locales
    (simp add: encode_fail_trial_def read_fail_trial_def fail_trial_bounded_def codec_reads, auto simp: encode_fail_trial_def read_fail_trial_def fail_trial_bounded_def codec_strict dest!: codec_accepts)

definition encode_heartbeat :: "heartbeat_request \<Rightarrow> u8 list" where
  "encode_heartbeat x =
     write_id (hb_epoch x) @ write_id (hb_worker x) @ write_id (hb_boot x) @
     pw_u32 (hb_active_assignments x)"

definition read_heartbeat :: "heartbeat_request reader" where
  "read_heartbeat =
     bind_reader read_id (\<lambda>epoch. bind_reader read_id (\<lambda>worker.
     bind_reader read_id (\<lambda>boot. bind_reader pr_u32 (\<lambda>active_assignments.
     ready \<lparr>hb_epoch = epoch, hb_worker = worker, hb_boot = boot, hb_active_assignments = active_assignments\<rparr>))))"

definition decode_heartbeat :: "u8 list \<Rightarrow> limits \<Rightarrow> heartbeat_request result" where
  "decode_heartbeat payload l = decode_all read_heartbeat payload l"

interpretation heartbeat_codec: strict_codec encode_heartbeat read_heartbeat "\<lambda>l x. True"
  by unfold_locales
    (simp add: encode_heartbeat_def read_heartbeat_def codec_reads, auto simp: encode_heartbeat_def read_heartbeat_def codec_strict dest!: codec_accepts)

section \<open>Control messages\<close>

definition encode_cancel_trial :: "cancel_trial_request \<Rightarrow> u8 list" where
  "encode_cancel_trial x =
     write_id (xt_trial x) @ pw_text (xt_reason x) 512"

definition read_cancel_trial :: "cancel_trial_request reader" where
  "read_cancel_trial =
     bind_reader read_id (\<lambda>trial. bind_reader (pr_text 512) (\<lambda>reason.
     ready \<lparr>xt_trial = trial, xt_reason = reason\<rparr>))"

definition cancel_trial_bounded :: "limits \<Rightarrow> cancel_trial_request \<Rightarrow> bool" where
  "cancel_trial_bounded l x \<longleftrightarrow>
     text_within 512 l (xt_reason x)"

definition decode_cancel_trial :: "u8 list \<Rightarrow> limits \<Rightarrow> cancel_trial_request result" where
  "decode_cancel_trial payload l = decode_all read_cancel_trial payload l"

interpretation cancel_trial_codec: strict_codec encode_cancel_trial read_cancel_trial cancel_trial_bounded
  by unfold_locales
    (simp add: encode_cancel_trial_def read_cancel_trial_def cancel_trial_bounded_def codec_reads, auto simp: encode_cancel_trial_def read_cancel_trial_def cancel_trial_bounded_def codec_strict dest!: codec_accepts)

definition encode_cancel_experiment :: "cancel_experiment_request \<Rightarrow> u8 list" where
  "encode_cancel_experiment x =
     write_id (xe_experiment x) @ pw_text (xe_reason x) 512"

definition read_cancel_experiment :: "cancel_experiment_request reader" where
  "read_cancel_experiment =
     bind_reader read_id (\<lambda>experiment. bind_reader (pr_text 512) (\<lambda>reason.
     ready \<lparr>xe_experiment = experiment, xe_reason = reason\<rparr>))"

definition cancel_experiment_bounded :: "limits \<Rightarrow> cancel_experiment_request \<Rightarrow> bool" where
  "cancel_experiment_bounded l x \<longleftrightarrow>
     text_within 512 l (xe_reason x)"

definition decode_cancel_experiment :: "u8 list \<Rightarrow> limits \<Rightarrow> cancel_experiment_request result" where
  "decode_cancel_experiment payload l = decode_all read_cancel_experiment payload l"

interpretation cancel_experiment_codec: strict_codec encode_cancel_experiment read_cancel_experiment cancel_experiment_bounded
  by unfold_locales
    (simp add: encode_cancel_experiment_def read_cancel_experiment_def cancel_experiment_bounded_def codec_reads, auto simp: encode_cancel_experiment_def read_cancel_experiment_def cancel_experiment_bounded_def codec_strict dest!: codec_accepts)

definition encode_finalize_experiment :: "finalize_experiment_request \<Rightarrow> u8 list" where
  "encode_finalize_experiment x =
     write_id (fe_experiment x) @ write_id (fe_candidate x) @ pw_text (fe_reason x) 512"

definition read_finalize_experiment :: "finalize_experiment_request reader" where
  "read_finalize_experiment =
     bind_reader read_id (\<lambda>experiment. bind_reader read_id (\<lambda>candidate.
     bind_reader (pr_text 512) (\<lambda>reason.
     ready \<lparr>fe_experiment = experiment, fe_candidate = candidate, fe_reason = reason\<rparr>)))"

definition finalize_experiment_bounded :: "limits \<Rightarrow> finalize_experiment_request \<Rightarrow> bool" where
  "finalize_experiment_bounded l x \<longleftrightarrow>
     text_within 512 l (fe_reason x)"

definition decode_finalize_experiment :: "u8 list \<Rightarrow> limits \<Rightarrow> finalize_experiment_request result" where
  "decode_finalize_experiment payload l = decode_all read_finalize_experiment payload l"

interpretation finalize_experiment_codec: strict_codec encode_finalize_experiment read_finalize_experiment finalize_experiment_bounded
  by unfold_locales
    (simp add: encode_finalize_experiment_def read_finalize_experiment_def finalize_experiment_bounded_def codec_reads, auto simp: encode_finalize_experiment_def read_finalize_experiment_def finalize_experiment_bounded_def codec_strict dest!: codec_accepts)

definition encode_rollback :: "rollback_request \<Rightarrow> u8 list" where
  "encode_rollback x =
     write_id (rk_experiment x) @ write_id (rk_target_generation x) @ pw_text (rk_reason x) 512"

definition read_rollback :: "rollback_request reader" where
  "read_rollback =
     bind_reader read_id (\<lambda>experiment. bind_reader read_id (\<lambda>target_generation.
     bind_reader (pr_text 512) (\<lambda>reason.
     ready \<lparr>rk_experiment = experiment, rk_target_generation = target_generation, rk_reason = reason\<rparr>)))"

definition rollback_bounded :: "limits \<Rightarrow> rollback_request \<Rightarrow> bool" where
  "rollback_bounded l x \<longleftrightarrow>
     text_within 512 l (rk_reason x)"

definition decode_rollback :: "u8 list \<Rightarrow> limits \<Rightarrow> rollback_request result" where
  "decode_rollback payload l = decode_all read_rollback payload l"

interpretation rollback_codec: strict_codec encode_rollback read_rollback rollback_bounded
  by unfold_locales
    (simp add: encode_rollback_def read_rollback_def rollback_bounded_def codec_reads, auto simp: encode_rollback_def read_rollback_def rollback_bounded_def codec_strict dest!: codec_accepts)

definition encode_create_trial :: "create_trial_request \<Rightarrow> u8 list" where
  "encode_create_trial x =
     write_id (cq_experiment x) @ write_id (cq_branch x) @ pw_text (cq_payload x) 4096"

definition read_create_trial :: "create_trial_request reader" where
  "read_create_trial =
     bind_reader read_id (\<lambda>experiment. bind_reader read_id (\<lambda>branch.
     bind_reader (pr_text 4096) (\<lambda>payload.
     ready \<lparr>cq_experiment = experiment, cq_branch = branch, cq_payload = payload\<rparr>)))"

definition create_trial_bounded :: "limits \<Rightarrow> create_trial_request \<Rightarrow> bool" where
  "create_trial_bounded l x \<longleftrightarrow>
     text_within 4096 l (cq_payload x)"

definition decode_create_trial :: "u8 list \<Rightarrow> limits \<Rightarrow> create_trial_request result" where
  "decode_create_trial payload l = decode_all read_create_trial payload l"

interpretation create_trial_codec: strict_codec encode_create_trial read_create_trial create_trial_bounded
  by unfold_locales
    (simp add: encode_create_trial_def read_create_trial_def create_trial_bounded_def codec_reads, auto simp: encode_create_trial_def read_create_trial_def create_trial_bounded_def codec_strict dest!: codec_accepts)

definition encode_fork_branch :: "fork_branch_request \<Rightarrow> u8 list" where
  "encode_fork_branch x =
     write_id (fb_experiment x) @ write_id (fb_parent x) @ pw_text (fb_name x) 128 @
     write_enum branch_role_code (fb_role x) @ put_parameters (fb_parameters x) @
     put_optional_u64 (fb_seed x) @ pw_u32 (fb_planned_trials x)"

definition read_fork_branch :: "fork_branch_request reader" where
  "read_fork_branch =
     bind_reader read_id (\<lambda>experiment. bind_reader read_id (\<lambda>parent.
     bind_reader (pr_text 128) (\<lambda>name.
     bind_reader (read_enum kBranchRoles kMaxBranchRole (lit ''branch role'')) (\<lambda>role.
     bind_reader read_parameters (\<lambda>parameters. bind_reader read_optional_u64 (\<lambda>seed.
     bind_reader pr_u32 (\<lambda>planned_trials.
     ready \<lparr>fb_experiment = experiment, fb_parent = parent, fb_name = name, fb_role = role,
       fb_parameters = parameters, fb_seed = seed, fb_planned_trials = planned_trials\<rparr>)))))))"

definition fork_branch_bounded :: "limits \<Rightarrow> fork_branch_request \<Rightarrow> bool" where
  "fork_branch_bounded l x \<longleftrightarrow>
     text_within 128 l (fb_name x) \<and> parameters_bounded l (fb_parameters x)"

definition decode_fork_branch :: "u8 list \<Rightarrow> limits \<Rightarrow> fork_branch_request result" where
  "decode_fork_branch payload l = decode_all read_fork_branch payload l"

interpretation fork_branch_codec: strict_codec encode_fork_branch read_fork_branch fork_branch_bounded
  by unfold_locales
    (simp add: encode_fork_branch_def read_fork_branch_def fork_branch_bounded_def codec_reads, auto simp: encode_fork_branch_def read_fork_branch_def fork_branch_bounded_def codec_strict dest!: codec_accepts)

definition encode_revise_hypothesis :: "revise_hypothesis_request \<Rightarrow> u8 list" where
  "encode_revise_hypothesis x =
     write_id (rh_experiment x) @ pw_text (rh_statement x) 4096 @ pw_boolean (rh_has_direction x) @
     write_enum metric_direction_code (rh_direction x) @ write_id (rh_metric x) @
     pw_text (rh_provenance x) 1024"

definition read_revise_hypothesis :: "revise_hypothesis_request reader" where
  "read_revise_hypothesis =
     bind_reader read_id (\<lambda>experiment. bind_reader (pr_text 4096) (\<lambda>statement.
     bind_reader pr_boolean (\<lambda>has_direction.
     bind_reader (read_enum kMetricDirections kMaxMetricDirection (lit ''metric direction'')) (\<lambda>direction.
     bind_reader read_id (\<lambda>metric. bind_reader (pr_text 1024) (\<lambda>provenance.
     ready \<lparr>rh_experiment = experiment, rh_statement = statement, rh_has_direction = has_direction,
       rh_direction = direction, rh_metric = metric, rh_provenance = provenance\<rparr>))))))"

definition revise_hypothesis_bounded :: "limits \<Rightarrow> revise_hypothesis_request \<Rightarrow> bool" where
  "revise_hypothesis_bounded l x \<longleftrightarrow>
     text_within 4096 l (rh_statement x) \<and> text_within 1024 l (rh_provenance x)"

definition decode_revise_hypothesis :: "u8 list \<Rightarrow> limits \<Rightarrow> revise_hypothesis_request result" where
  "decode_revise_hypothesis payload l = decode_all read_revise_hypothesis payload l"

interpretation revise_hypothesis_codec: strict_codec encode_revise_hypothesis read_revise_hypothesis revise_hypothesis_bounded
  by unfold_locales
    (simp add: encode_revise_hypothesis_def read_revise_hypothesis_def revise_hypothesis_bounded_def codec_reads, auto simp: encode_revise_hypothesis_def read_revise_hypothesis_def revise_hypothesis_bounded_def codec_strict dest!: codec_accepts)

section \<open>Replies\<close>

definition encode_error_reply :: "error_reply \<Rightarrow> u8 list" where
  "encode_error_reply x =
     put_status_block (ey_status x) @ pw_text (ey_detail x) 1024"

definition read_error_reply :: "error_reply reader" where
  "read_error_reply =
     bind_reader read_status_block (\<lambda>status. bind_reader (pr_text 1024) (\<lambda>detail.
     ready \<lparr>ey_status = status, ey_detail = detail\<rparr>))"

definition error_reply_bounded :: "limits \<Rightarrow> error_reply \<Rightarrow> bool" where
  "error_reply_bounded l x \<longleftrightarrow>
     status_block_bounded l (ey_status x) \<and> text_within 1024 l (ey_detail x)"

definition decode_error_reply :: "u8 list \<Rightarrow> limits \<Rightarrow> error_reply result" where
  "decode_error_reply payload l = decode_all read_error_reply payload l"

interpretation error_reply_codec: strict_codec encode_error_reply read_error_reply error_reply_bounded
  by unfold_locales
    (simp add: encode_error_reply_def read_error_reply_def error_reply_bounded_def codec_reads, auto simp: encode_error_reply_def read_error_reply_def error_reply_bounded_def codec_strict dest!: codec_accepts)

definition encode_query_result :: "query_result \<Rightarrow> u8 list" where
  "encode_query_result x =
     put_status_block (qr_status x) @ write_vector 65536 (\<lambda>s. pw_text s 512) (qr_lines x)"

definition read_query_result :: "query_result reader" where
  "read_query_result =
     bind_reader read_status_block (\<lambda>status.
     bind_reader (read_vector 65536 (pr_text 512)) (\<lambda>lines.
     ready \<lparr>qr_status = status, qr_lines = lines\<rparr>))"

definition query_result_bounded :: "limits \<Rightarrow> query_result \<Rightarrow> bool" where
  "query_result_bounded l x \<longleftrightarrow>
     status_block_bounded l (qr_status x) \<and> vector_within 65536 (text_within 512) l (qr_lines x)"

definition decode_query_result :: "u8 list \<Rightarrow> limits \<Rightarrow> query_result result" where
  "decode_query_result payload l = decode_all read_query_result payload l"

interpretation query_result_codec: strict_codec encode_query_result read_query_result query_result_bounded
  by unfold_locales
    (simp add: encode_query_result_def read_query_result_def query_result_bounded_def codec_reads, auto simp: encode_query_result_def read_query_result_def query_result_bounded_def codec_strict dest!: codec_accepts)

definition encode_value_reply :: "value_reply \<Rightarrow> u8 list" where
  "encode_value_reply x =
     put_status_block (vr_status x) @ pw_u64 (vr_value x)"

definition read_value_reply :: "value_reply reader" where
  "read_value_reply =
     bind_reader read_status_block (\<lambda>status. bind_reader pr_u64 (\<lambda>v.
     ready \<lparr>vr_status = status, vr_value = v\<rparr>))"

definition value_reply_bounded :: "limits \<Rightarrow> value_reply \<Rightarrow> bool" where
  "value_reply_bounded l x \<longleftrightarrow>
     status_block_bounded l (vr_status x)"

definition decode_value_reply :: "u8 list \<Rightarrow> limits \<Rightarrow> value_reply result" where
  "decode_value_reply payload l = decode_all read_value_reply payload l"

interpretation value_reply_codec: strict_codec encode_value_reply read_value_reply value_reply_bounded
  by unfold_locales
    (simp add: encode_value_reply_def read_value_reply_def value_reply_bounded_def codec_reads, auto simp: encode_value_reply_def read_value_reply_def value_reply_bounded_def codec_strict dest!: codec_accepts)

definition encode_ack :: "status \<Rightarrow> u8 list" where
  "encode_ack s = encode_status s"

definition decode_ack :: "u8 list \<Rightarrow> limits \<Rightarrow> status result" where
  "decode_ack payload l = decode_status payload l"

definition encode_decision_reply :: "status \<times> decision \<Rightarrow> u8 list" where
  "encode_decision_reply x = put_status_block (fst x) @ put_decision (snd x)"

definition read_decision_reply :: "(status \<times> decision) reader" where
  "read_decision_reply =
     bind_reader read_status_block (\<lambda>status. bind_reader read_decision (\<lambda>decision. ready (status, decision)))"

definition decode_decision_reply :: "u8 list \<Rightarrow> limits \<Rightarrow> (status \<times> decision) result" where
  "decode_decision_reply payload l = decode_all read_decision_reply payload l"

interpretation decision_reply_codec: strict_codec encode_decision_reply read_decision_reply
  "\<lambda>l x. status_block_bounded l (fst x) \<and> decision_bounded l (snd x)"
  by unfold_locales
    (simp add: encode_decision_reply_def read_decision_reply_def codec_reads,
     auto simp: encode_decision_reply_def read_decision_reply_def codec_strict dest!: codec_accepts)

section \<open>Queries\<close>

datatype query_kind =
    QK_INVALID
  | QK_STATUS
  | QK_LIST_EXPERIMENTS
  | QK_EXPERIMENT_SNAPSHOT
  | QK_BRANCH_LINEAGE
  | QK_TRIALS
  | QK_OBSERVATIONS
  | QK_REJECTED_EVIDENCE
  | QK_ARTIFACTS
  | QK_EXPLAIN_DECISION
  | QK_REPRODUCIBILITY
  | QK_VALIDATE_STATE
  | QK_HYPOTHESIS
  | QK_WORKERS

primrec query_kind_code :: "query_kind \<Rightarrow> u16" where
    "query_kind_code QK_INVALID = 0"
  | "query_kind_code QK_STATUS = 1"
  | "query_kind_code QK_LIST_EXPERIMENTS = 2"
  | "query_kind_code QK_EXPERIMENT_SNAPSHOT = 3"
  | "query_kind_code QK_BRANCH_LINEAGE = 4"
  | "query_kind_code QK_TRIALS = 5"
  | "query_kind_code QK_OBSERVATIONS = 6"
  | "query_kind_code QK_REJECTED_EVIDENCE = 7"
  | "query_kind_code QK_ARTIFACTS = 8"
  | "query_kind_code QK_EXPLAIN_DECISION = 9"
  | "query_kind_code QK_REPRODUCIBILITY = 10"
  | "query_kind_code QK_VALIDATE_STATE = 11"
  | "query_kind_code QK_HYPOTHESIS = 12"
  | "query_kind_code QK_WORKERS = 13"

definition query_kinds :: "query_kind list" where
  "query_kinds =
    [QK_INVALID, QK_STATUS, QK_LIST_EXPERIMENTS, QK_EXPERIMENT_SNAPSHOT, QK_BRANCH_LINEAGE, QK_TRIALS,
     QK_OBSERVATIONS, QK_REJECTED_EVIDENCE, QK_ARTIFACTS, QK_EXPLAIN_DECISION, QK_REPRODUCIBILITY,
     QK_VALIDATE_STATE, QK_HYPOTHESIS, QK_WORKERS]"

definition encode_query_request :: "query_kind \<times> string \<Rightarrow> u8 list" where
  "encode_query_request x = pw_u16 (query_kind_code (fst x)) @ pw_text (snd x) 128"

definition read_query_request :: "(query_kind \<times> string) reader" where
  "read_query_request =
     bind_reader pr_u16 (\<lambda>kind.
     if kind = 0 \<or> kind > query_kind_code QK_WORKERS then refuse (payload_error (lit ''unknown query kind''))
     else bind_reader (pr_text 128) (\<lambda>argument. ready (query_kinds ! unat kind, argument)))"

definition decode_query_request :: "u8 list \<Rightarrow> limits \<Rightarrow> (query_kind \<times> string) result" where
  "decode_query_request payload l = decode_all read_query_request payload l"

lemma query_kind_cast: "query_kinds ! unat (query_kind_code k) = k" "\<not> query_kind_code k > query_kind_code QK_WORKERS"
    "query_kind_code k = 0 \<longleftrightarrow> k = QK_INVALID"
  by (cases k; simp add: query_kinds_def)+

lemma query_kind_at:
  assumes "\<not> (w :: u16) > query_kind_code QK_WORKERS"
  shows "query_kind_code (query_kinds ! unat w) = w"
proof -
  have codes: "map query_kind_code query_kinds = map of_nat [0..<14]" by (simp add: query_kinds_def upt_rec)
  have "unat w < 14" "length query_kinds = 14" using assms by (simp_all add: not_less word_le_nat_alt query_kinds_def)
  then show ?thesis using arg_cong [OF codes, of "\<lambda>xs. xs ! unat w"] by (simp del: upt_Suc)
qed

lemma query_kind_valid: "w \<noteq> 0 \<Longrightarrow> \<not> w > query_kind_code QK_WORKERS \<Longrightarrow> query_kinds ! unat w \<noteq> QK_INVALID"
  using query_kind_at [of w] by auto

interpretation query_request_codec: strict_codec encode_query_request read_query_request
  "\<lambda>l x. fst x \<noteq> QK_INVALID \<and> text_within 128 l (snd x)"
  by unfold_locales
    (simp add: encode_query_request_def read_query_request_def codec_reads query_kind_cast del: query_kind_code.simps,
     auto simp: encode_query_request_def read_query_request_def codec_strict query_kind_at query_kind_cast
       query_kind_valid split: if_splits dest!: codec_accepts simp del: query_kind_code.simps)

definition unwrap_query_lines :: "query_result \<Rightarrow> string list result" where
  "unwrap_query_lines reply =
     (if st_failed (qr_status reply) then Inl (qr_status reply)
      else if length (qr_lines reply) > unat (lm_max_explanation_lines limits_defaults)
        then Inl (limits_error (lit ''query reply returns too many lines''))
      else Inr (qr_lines reply))"

section \<open>Exactness\<close>

text \<open>
  C24: for every kind of request, the bytes that its decoder accepts are exactly the encodings of the
  requests within its bounds, and it returns the request that was encoded.
\<close>

theorem request_decoders_are_exact:
  "(\<forall>q. decode_register_worker p l = Inr q \<longleftrightarrow> p = encode_register_worker q \<and> register_worker_bounded l q) \<and>
   (\<forall>q. decode_claim_trial p l = Inr q \<longleftrightarrow> p = encode_claim_trial q) \<and>
   (\<forall>q. decode_publish_observation p l = Inr q \<longleftrightarrow> p = encode_publish_observation q \<and>
       publish_observation_bounded l q) \<and>
   (\<forall>q. decode_publish_artifact p l = Inr q \<longleftrightarrow> p = encode_publish_artifact q \<and> publish_artifact_bounded l q) \<and>
   (\<forall>q. decode_commit_trial p l = Inr q \<longleftrightarrow> p = encode_commit_trial q \<and> commit_trial_bounded l q) \<and>
   (\<forall>q. decode_fail_trial p l = Inr q \<longleftrightarrow> p = encode_fail_trial q \<and> fail_trial_bounded l q) \<and>
   (\<forall>q. decode_heartbeat p l = Inr q \<longleftrightarrow> p = encode_heartbeat q) \<and>
   (\<forall>q. decode_cancel_trial p l = Inr q \<longleftrightarrow> p = encode_cancel_trial q \<and> cancel_trial_bounded l q) \<and>
   (\<forall>q. decode_cancel_experiment p l = Inr q \<longleftrightarrow> p = encode_cancel_experiment q \<and>
       cancel_experiment_bounded l q) \<and>
   (\<forall>q. decode_finalize_experiment p l = Inr q \<longleftrightarrow> p = encode_finalize_experiment q \<and>
       finalize_experiment_bounded l q) \<and>
   (\<forall>q. decode_rollback p l = Inr q \<longleftrightarrow> p = encode_rollback q \<and> rollback_bounded l q) \<and>
   (\<forall>q. decode_create_trial p l = Inr q \<longleftrightarrow> p = encode_create_trial q \<and> create_trial_bounded l q) \<and>
   (\<forall>q. decode_fork_branch p l = Inr q \<longleftrightarrow> p = encode_fork_branch q \<and> fork_branch_bounded l q) \<and>
   (\<forall>q. decode_revise_hypothesis p l = Inr q \<longleftrightarrow> p = encode_revise_hypothesis q \<and>
       revise_hypothesis_bounded l q)"
  by (simp add:
      decode_register_worker_def decode_claim_trial_def decode_publish_observation_def
      decode_publish_artifact_def decode_commit_trial_def decode_fail_trial_def decode_heartbeat_def
      decode_cancel_trial_def decode_cancel_experiment_def decode_finalize_experiment_def
      decode_rollback_def decode_create_trial_def decode_fork_branch_def
      decode_revise_hypothesis_def register_worker_codec.decode_iff claim_trial_codec.decode_iff
      publish_observation_codec.decode_iff publish_artifact_codec.decode_iff
      commit_trial_codec.decode_iff fail_trial_codec.decode_iff heartbeat_codec.decode_iff
      cancel_trial_codec.decode_iff cancel_experiment_codec.decode_iff
      finalize_experiment_codec.decode_iff rollback_codec.decode_iff create_trial_codec.decode_iff
      fork_branch_codec.decode_iff revise_hypothesis_codec.decode_iff)

text \<open>
  C25: the same for the replies that a client decodes: a status, a registration, claims, a decision, the
  lines of a query, a value or an error.
\<close>

theorem reply_decoders_are_exact:
  "(\<forall>s. decode_ack p l = Inr s \<longleftrightarrow> p = encode_ack s \<and> text_within 1024 l (st_reason s)) \<and>
   (\<forall>q. decode_decision_reply p l = Inr q \<longleftrightarrow>
      p = encode_decision_reply q \<and> status_block_bounded l (fst q) \<and> decision_bounded l (snd q)) \<and>
   (\<forall>q. decode_query_request p l = Inr q \<longleftrightarrow>
      p = encode_query_request q \<and> fst q \<noteq> QK_INVALID \<and> text_within 128 l (snd q)) \<and>
   (\<forall>q. decode_register_reply p l = Inr q \<longleftrightarrow> p = encode_register_reply q \<and> register_reply_bounded l q) \<and>
   (\<forall>q. decode_claim_reply p l = Inr q \<longleftrightarrow> p = encode_claim_reply q \<and> claim_reply_bounded l q) \<and>
   (\<forall>q. decode_error_reply p l = Inr q \<longleftrightarrow> p = encode_error_reply q \<and> error_reply_bounded l q) \<and>
   (\<forall>q. decode_query_result p l = Inr q \<longleftrightarrow> p = encode_query_result q \<and> query_result_bounded l q) \<and>
   (\<forall>q. decode_value_reply p l = Inr q \<longleftrightarrow> p = encode_value_reply q \<and> value_reply_bounded l q)"
  using decode_encode_status encode_decode_status
  by (auto simp: decode_ack_def encode_ack_def decode_decision_reply_def decode_query_request_def
      decision_reply_codec.decode_iff query_request_codec.decode_iff
      decode_register_reply_def decode_claim_reply_def decode_error_reply_def
      decode_query_result_def decode_value_reply_def register_reply_codec.decode_iff
      claim_reply_codec.decode_iff error_reply_codec.decode_iff query_result_codec.decode_iff
      value_reply_codec.decode_iff)

end
