(* ===== verification/Query.thy ===== *)
theory Query
  imports Inspect Message
begin

text \<open>
  \<^verbatim>\<open>src/coordinator_query.cpp\<close>: the read-only interface of the coordinator. A query takes the shared lock,
  builds a view of the state and renders it; it has no effect, so it is a function of the coordinator
  alone. The lemmas say what each view holds: a snapshot is a permutation of what is recorded, in
  identity order, and the reproducibility status follows the materials that are missing.
\<close>

section \<open>Snapshots\<close>

definition list_experiments :: "impl \<Rightarrow> experiment_id list" where
  "list_experiments im = map fst (cs_experiments (im_state im))"

definition trial_view :: "experiment_record \<Rightarrow> trial_id \<times> trial_record \<Rightarrow> trial_snapshot" where
  "trial_view r e =
     \<lparr>ts_trial = snd e,
      ts_attempts = sort_by (\<lambda>x y. at_id x < at_id y)
        (filter (\<lambda>a. at_trial a = fst e) (omap_values (er_attempts r)))\<rparr>"

definition record_view :: "impl \<Rightarrow> experiment_id \<Rightarrow> experiment_record \<Rightarrow> experiment_snapshot" where
  "record_view im experiment r =
     \<lparr>es_definition = er_definition r,
      es_hypothesis = er_hypothesis r,
      es_hypothesis_history = sort_by (\<lambda>x y. hy_revision x < hy_revision y) (er_hypothesis_history r),
      es_state = er_state r,
      es_producing_epoch = im_epoch im,
      es_revision_sequence = er_revision_sequence r,
      es_trials = sort_by (\<lambda>x y. tr_id (ts_trial x) < tr_id (ts_trial y)) (map (trial_view r) (er_trials r)),
      es_observations = sort_by (\<lambda>x y. ob_id x < ob_id y) (er_observations r),
      es_artifacts = sort_by (\<lambda>x y. ar_id x < ar_id y) (er_artifacts r),
      es_decisions = sort_by (\<lambda>x y. de_id x < de_id y) (er_decisions r),
      es_rollback_points = sort_by (\<lambda>x y. rb_id x < rb_id y) (er_rollback_points r),
      es_rejected_evidence = er_rejected_evidence r,
      es_lifecycle_log = er_lifecycle_log r,
      es_state_digest = experiment_digest (im_state im) experiment\<rparr>"

definition no_experiment :: status where
  "no_experiment = make_error EC_NOT_FOUND EG_VALIDATION (lit ''experiment does not exist'')"

definition snapshot :: "impl \<Rightarrow> experiment_id \<Rightarrow> experiment_snapshot result" where
  "snapshot im experiment =
     (case find_experiment im experiment of
        None \<Rightarrow> Inl no_experiment
      | Some r \<Rightarrow> Inr (record_view im experiment r))"

section \<open>Reproducibility\<close>

text \<open>
  What the loop over the trials collects: the artifacts of every counted trial, the producer of the
  last one and the seed, which a counted trial without a seed clears.
\<close>

definition counted_trial :: "experiment_record \<Rightarrow> branch_id \<Rightarrow> trial_record \<Rightarrow> bool" where
  "counted_trial r b t \<longleftrightarrow>
     tr_branch t = b \<and> tr_state t = TS_COMPLETED \<and>
     tr_generation t = ed_generation (er_definition r) \<and> tr_committed_attempts t = 1"

definition producer_text :: "attempt_record \<Rightarrow> string" where
  "producer_text a =
     lit ''producer:'' @ id_to_string (at_producer a) @ lit '' worker:'' @ id_to_string (at_worker a) @
     lit '' boot:'' @ id_to_string (at_boot a)"

definition count_trial :: "experiment_record \<Rightarrow> branch_id \<Rightarrow> reproducibility_record \<Rightarrow> trial_record \<Rightarrow> reproducibility_record" where
  "count_trial r b v t =
     (if \<not> counted_trial r b t then v
      else let v1 = v\<lparr>rp_artifacts := rp_artifacts v @ tr_artifacts t\<rparr>;
               v2 = (case map_of (er_attempts r) (tr_authoritative_attempt t) of
                   None \<Rightarrow> v1 | Some a \<Rightarrow> v1\<lparr>rp_producer_identity := producer_text a\<rparr>)
        in if tr_seed t = None \<and> rp_seed v2 \<noteq> None then v2\<lparr>rp_seed := tr_seed t\<rparr> else v2)"

definition known_materials :: "experiment_record \<Rightarrow> branch_definition \<Rightarrow> reproducibility_record" where
  "known_materials r b =
     (let d = er_definition r
      in \<lparr>rp_experiment = ed_id d, rp_generation = ed_generation d,
          rp_hypothesis = ed_hypothesis d, rp_hypothesis_revision = ed_hypothesis_revision d,
          rp_branch = bd_id b, rp_branch_generation = bd_generation b,
          rp_policy = cp_id (ed_policy d), rp_policy_generation = cp_generation (ed_policy d),
          rp_definition_digest = definition_digest d, rp_branch_definition_digest = branch_digest b,
          rp_policy_digest = policy_digest (ed_policy d),
          rp_input_set = bd_input_set b, rp_input_set_present = bd_input_set_present b,
          rp_input_set_digest = replicate 32 0, rp_input_set_digest_present = False,
          rp_environment = bd_environment b, rp_environment_present = bd_environment_present b,
          rp_environment_fingerprint = bd_environment_fingerprint b,
          rp_executable_identity = [], rp_producer_identity = [],
          rp_seed = bd_seed b, rp_parameters = bd_parameters b, rp_artifacts = [],
          rp_observation_count = 0, rp_missing_materials = [], rp_status = RS_UNKNOWN\<rparr>)"

definition missing_materials :: "experiment_record \<Rightarrow> branch_definition \<Rightarrow> reproducibility_record \<Rightarrow> string list" where
  "missing_materials r b v =
     remdups_adj (sort_by (<)
       ((if bd_environment_fingerprint b = [] then [lit ''environment-fingerprint''] else []) @
        (if \<not> bd_input_set_present b then [lit ''input-set-identity''] else []) @
        (if bd_seed b = None \<and> ed_experiment_seed (er_definition r) = None then [lit ''seed''] else []) @
        (if rp_producer_identity v = [] then [lit ''producer-identity''] else []) @
        (if rp_artifacts v = [] then [lit ''artifact-references''] else []) @
        (if rp_environment_fingerprint v = [] then [lit ''executable-identity''] else [])))"

definition reproducibility_verdict :: "string list \<Rightarrow> u64 option \<Rightarrow> reproducibility_status" where
  "reproducibility_verdict missing seed =
     (if missing = [] then RS_REPRODUCIBLE
      else if length missing \<le> 2 \<and> seed \<noteq> None then RS_PARTIALLY_REPRODUCIBLE
      else if seed = None \<and> length missing \<ge> 3 then RS_NOT_REPRODUCIBLE
      else RS_PARTIALLY_REPRODUCIBLE)"

definition describe_branch :: "experiment_record \<Rightarrow> branch_id \<Rightarrow> branch_definition \<Rightarrow> reproducibility_record" where
  "describe_branch r key b =
     (let v1 = foldl (count_trial r key) (known_materials r b) (omap_values (er_trials r));
          v2 = v1\<lparr>rp_artifacts := sort_by (<) (rp_artifacts v1),
                  rp_observation_count := of_nat (length
                    (filter (\<lambda>ob. ob_branch ob = key \<and> ob_validity ob = OV_VALID) (er_observations r))),
                  rp_executable_identity := ed_provenance (er_definition r)\<rparr>;
          missing = missing_materials r b v2
      in v2\<lparr>rp_missing_materials := missing, rp_status := reproducibility_verdict missing (rp_seed v2)\<rparr>)"

definition reproducibility :: "impl \<Rightarrow> experiment_id \<Rightarrow> branch_id \<Rightarrow> reproducibility_record result" where
  "reproducibility im experiment branch =
     (case find_experiment im experiment of
        None \<Rightarrow> Inl no_experiment
      | Some r \<Rightarrow>
          case find_branch r branch of
            None \<Rightarrow> Inl (make_error EC_NOT_FOUND EG_VALIDATION (lit ''branch does not exist''))
          | Some b \<Rightarrow> Inr (describe_branch r branch b))"

section \<open>Query lines\<close>

definition worker_less :: "live_worker \<Rightarrow> live_worker \<Rightarrow> bool" where
  "worker_less x y = (if lw_worker x \<noteq> lw_worker y then lw_worker x < lw_worker y else lw_boot x < lw_boot y)"

definition worker_line :: "live_worker \<Rightarrow> string" where
  "worker_line w =
     lit ''worker '' @ id_to_string (lw_worker w) @ lit '' boot '' @ id_to_string (lw_boot w) @
     lit '' producer '' @ id_to_string (lw_producer w) @ pick (lw_revoked w) (lit '' REVOKED'') (lit '' LIVE'') @
     lit '' active '' @ u32_text (lw_active_assignments w) @ lit '' total '' @ u32_text (lw_total_assignments w) @
     (if lw_endpoint w \<noteq> [] then lit '' endpoint '' @ lw_endpoint w else [])"

definition worker_lines :: "impl \<Rightarrow> string list" where
  "worker_lines im =
     (lit ''epoch '' @ id_to_string (im_epoch im)) #
     map worker_line (sort_by worker_less (omap_values (im_live_workers im)))"

definition status_lines :: "impl \<Rightarrow> string list" where
  "status_lines im =
     [lit ''experiment-fabric '' @ version_string,
      lit ''coordinator-epoch '' @ id_to_string (im_epoch im),
      lit ''sequence '' @ u64_text (current_sequence im),
      lit ''admitting-work '' @ flag_text (im_admitting_work im),
      lit ''persistence-degraded '' @ flag_text (im_persistence_degraded im),
      lit ''experiments '' @ count_text (length (cs_experiments (im_state im))),
      lit ''worker-incarnations '' @ count_text (length (cs_workers (im_state im))),
      lit ''live-workers '' @ count_text (length (im_live_workers im))]"

definition experiment_line :: "experiment_id \<times> experiment_record \<Rightarrow> string" where
  "experiment_line e =
     (let r = snd e
      in lit ''experiment '' @ id_to_string (fst e) @ lit '' generation '' @
         id_to_string (ed_generation (er_definition r)) @ lit '' state '' @ experiment_state_to_string (er_state r) @
         lit '' branches '' @ count_text (length (ed_branches (er_definition r))) @
         lit '' trials '' @ count_text (length (er_trials r)) @ lit '' name '' @ ed_name (er_definition r))"

definition validation_lines :: "impl \<Rightarrow> string list" where
  "validation_lines im =
     (let s = validate_state im
      in [lit ''validate-state '' @ pick (st_ok s) (lit ''OK'') (lit ''FAILED'')] @
         (if st_failed s then [status_to_string s] else []) @
         [lit ''state-digest '' @ state_digest_hex im])"

text \<open>The argument of a query up to its first colon, and what follows the colon.\<close>

definition experiment_text :: "string \<Rightarrow> string" where
  "experiment_text argument = takeWhile (\<lambda>c. c \<noteq> CHR '':'') argument"

definition branch_text :: "string \<Rightarrow> string" where
  "branch_text argument = tl (dropWhile (\<lambda>c. c \<noteq> CHR '':'') argument)"

definition parse_target :: "string \<Rightarrow> (experiment_id \<times> branch_id) result" where
  "parse_target argument =
     (if experiment_text argument = []
        then Inl (invalid_argument (lit ''a query of this kind requires an experiment identity argument''))
      else case id_parse (experiment_text argument) of
          None \<Rightarrow> Inl (invalid_argument (lit ''experiment identity argument is not canonical decimal text''))
        | Some e \<Rightarrow>
            if branch_text argument = [] then Inr (e, null_id)
            else case id_parse (branch_text argument) of
                None \<Rightarrow> Inl (invalid_argument (lit ''branch identity argument is not canonical decimal text''))
              | Some b \<Rightarrow> Inr (e, b))"

definition snapshot_lines :: "impl \<Rightarrow> query_kind \<Rightarrow> experiment_id \<Rightarrow> branch_id \<Rightarrow> experiment_snapshot \<Rightarrow> string list result" where
  "snapshot_lines im kind e b s =
     (let l = im_limits im
      in case kind of
           QK_EXPERIMENT_SNAPSHOT \<Rightarrow> Inr (render_snapshot s l)
         | QK_HYPOTHESIS \<Rightarrow> Inr (render_hypothesis s l)
         | QK_BRANCH_LINEAGE \<Rightarrow> Inr (render_lineage s l)
         | QK_TRIALS \<Rightarrow> Inr (render_trials s l)
         | QK_OBSERVATIONS \<Rightarrow> Inr (render_observations s l)
         | QK_REJECTED_EVIDENCE \<Rightarrow> Inr (render_rejected_evidence s l)
         | QK_ARTIFACTS \<Rightarrow> Inr (render_artifacts s l)
         | QK_REPRODUCIBILITY \<Rightarrow>
             if \<not> valid b
               then Inl (invalid_argument (lit ''reproducibility requires the canonical experiment:branch form''))
             else (case reproducibility im e b of Inl err \<Rightarrow> Inl err | Inr v \<Rightarrow> Inr (render_reproducibility v l))
         | _ \<Rightarrow> Inl (make_error EC_UNSUPPORTED EG_VALIDATION (lit ''query kind is not supported'')))"

definition target_lines :: "impl \<Rightarrow> query_kind \<Rightarrow> experiment_id \<Rightarrow> branch_id \<Rightarrow> string list result" where
  "target_lines im kind e b =
     (if kind = QK_EXPLAIN_DECISION then
        if \<not> valid b
          then Inl (invalid_argument (lit ''explain-decision requires the canonical experiment:branch form''))
        else (case evaluate e b im of Inl err \<Rightarrow> Inl err | Inr d \<Rightarrow> Inr (render_decision d (im_limits im)))
      else case snapshot im e of Inl err \<Rightarrow> Inl err | Inr s \<Rightarrow> snapshot_lines im kind e b s)"

definition query_lines :: "impl \<Rightarrow> query_kind \<Rightarrow> string \<Rightarrow> string list result" where
  "query_lines im kind argument =
     (if kind = QK_STATUS then Inr (status_lines im)
      else if kind = QK_LIST_EXPERIMENTS then Inr (map experiment_line (cs_experiments (im_state im)))
      else if kind = QK_WORKERS then Inr (worker_lines im)
      else if kind = QK_VALIDATE_STATE then Inr (validation_lines im)
      else case parse_target argument of Inl err \<Rightarrow> Inl err | Inr (e, b) \<Rightarrow> target_lines im kind e b)"

definition explain :: "impl \<Rightarrow> experiment_id \<Rightarrow> branch_id \<Rightarrow> string result" where
  "explain im experiment candidate =
     (case evaluate experiment candidate im of
        Inl err \<Rightarrow> Inl err
      | Inr d \<Rightarrow> Inr (concat (map (\<lambda>line. line @ [CHR 0x0A]) (render_decision d (im_limits im)))))"

end
