(* ===== verification/Framing.thy ===== *)
theory Framing
  imports Payload
begin

text \<open>
  The framing of \<^verbatim>\<open>src/protocol.cpp\<close>: message types, the 32-byte header with its checksums, and the
  encoder and decoder of one frame. A frame that is encoded is decoded again; whatever is decoded
  is, byte for byte, what the encoder makes of the decoded frame; and a frame in which one byte was
  replaced is not accepted as another frame with the same header.
\<close>

section \<open>Message types\<close>

datatype message_type =
    MT_INVALID
  | MT_HELLO
  | MT_HELLO_ACK
  | MT_REGISTER_WORKER
  | MT_REGISTER_ACK
  | MT_CLAIM_TRIAL
  | MT_CLAIM_RESULT
  | MT_PUBLISH_OBSERVATION
  | MT_PUBLISH_ARTIFACT
  | MT_COMMIT_TRIAL
  | MT_FAIL_TRIAL
  | MT_HEARTBEAT
  | MT_ACK
  | MT_CREATE_EXPERIMENT
  | MT_CREATE_TRIAL
  | MT_CANCEL_TRIAL
  | MT_CANCEL_EXPERIMENT
  | MT_FINALIZE_EXPERIMENT
  | MT_ROLLBACK
  | MT_QUERY
  | MT_QUERY_RESULT
  | MT_SHUTDOWN
  | MT_ERROR_REPLY
  | MT_FORK_BRANCH
  | MT_CREATE_HYPOTHESIS
  | MT_REVISE_HYPOTHESIS

primrec message_type_code :: "message_type \<Rightarrow> u16" where
    "message_type_code MT_INVALID = 0"
  | "message_type_code MT_HELLO = 1"
  | "message_type_code MT_HELLO_ACK = 2"
  | "message_type_code MT_REGISTER_WORKER = 3"
  | "message_type_code MT_REGISTER_ACK = 4"
  | "message_type_code MT_CLAIM_TRIAL = 5"
  | "message_type_code MT_CLAIM_RESULT = 6"
  | "message_type_code MT_PUBLISH_OBSERVATION = 7"
  | "message_type_code MT_PUBLISH_ARTIFACT = 8"
  | "message_type_code MT_COMMIT_TRIAL = 9"
  | "message_type_code MT_FAIL_TRIAL = 10"
  | "message_type_code MT_HEARTBEAT = 11"
  | "message_type_code MT_ACK = 12"
  | "message_type_code MT_CREATE_EXPERIMENT = 13"
  | "message_type_code MT_CREATE_TRIAL = 14"
  | "message_type_code MT_CANCEL_TRIAL = 15"
  | "message_type_code MT_CANCEL_EXPERIMENT = 16"
  | "message_type_code MT_FINALIZE_EXPERIMENT = 17"
  | "message_type_code MT_ROLLBACK = 18"
  | "message_type_code MT_QUERY = 19"
  | "message_type_code MT_QUERY_RESULT = 20"
  | "message_type_code MT_SHUTDOWN = 21"
  | "message_type_code MT_ERROR_REPLY = 22"
  | "message_type_code MT_FORK_BRANCH = 23"
  | "message_type_code MT_CREATE_HYPOTHESIS = 24"
  | "message_type_code MT_REVISE_HYPOTHESIS = 25"

primrec message_type_to_string :: "message_type \<Rightarrow> string" where
    "message_type_to_string MT_INVALID = ''INVALID''"
  | "message_type_to_string MT_HELLO = ''HELLO''"
  | "message_type_to_string MT_HELLO_ACK = ''HELLO_ACK''"
  | "message_type_to_string MT_REGISTER_WORKER = ''REGISTER_WORKER''"
  | "message_type_to_string MT_REGISTER_ACK = ''REGISTER_ACK''"
  | "message_type_to_string MT_CLAIM_TRIAL = ''CLAIM_TRIAL''"
  | "message_type_to_string MT_CLAIM_RESULT = ''CLAIM_RESULT''"
  | "message_type_to_string MT_PUBLISH_OBSERVATION = ''PUBLISH_OBSERVATION''"
  | "message_type_to_string MT_PUBLISH_ARTIFACT = ''PUBLISH_ARTIFACT''"
  | "message_type_to_string MT_COMMIT_TRIAL = ''COMMIT_TRIAL''"
  | "message_type_to_string MT_FAIL_TRIAL = ''FAIL_TRIAL''"
  | "message_type_to_string MT_HEARTBEAT = ''HEARTBEAT''"
  | "message_type_to_string MT_ACK = ''ACK''"
  | "message_type_to_string MT_CREATE_EXPERIMENT = ''CREATE_EXPERIMENT''"
  | "message_type_to_string MT_CREATE_TRIAL = ''CREATE_TRIAL''"
  | "message_type_to_string MT_CANCEL_TRIAL = ''CANCEL_TRIAL''"
  | "message_type_to_string MT_CANCEL_EXPERIMENT = ''CANCEL_EXPERIMENT''"
  | "message_type_to_string MT_FINALIZE_EXPERIMENT = ''FINALIZE_EXPERIMENT''"
  | "message_type_to_string MT_ROLLBACK = ''ROLLBACK''"
  | "message_type_to_string MT_QUERY = ''QUERY''"
  | "message_type_to_string MT_QUERY_RESULT = ''QUERY_RESULT''"
  | "message_type_to_string MT_SHUTDOWN = ''SHUTDOWN''"
  | "message_type_to_string MT_ERROR_REPLY = ''ERROR_REPLY''"
  | "message_type_to_string MT_FORK_BRANCH = ''FORK_BRANCH''"
  | "message_type_to_string MT_CREATE_HYPOTHESIS = ''CREATE_HYPOTHESIS''"
  | "message_type_to_string MT_REVISE_HYPOTHESIS = ''REVISE_HYPOTHESIS''"

text \<open>The enumerators in the order of their values.\<close>

definition message_types :: "message_type list" where
  "message_types =
    [MT_INVALID, MT_HELLO, MT_HELLO_ACK, MT_REGISTER_WORKER, MT_REGISTER_ACK, MT_CLAIM_TRIAL,
     MT_CLAIM_RESULT, MT_PUBLISH_OBSERVATION, MT_PUBLISH_ARTIFACT, MT_COMMIT_TRIAL, MT_FAIL_TRIAL,
     MT_HEARTBEAT, MT_ACK, MT_CREATE_EXPERIMENT, MT_CREATE_TRIAL, MT_CANCEL_TRIAL, MT_CANCEL_EXPERIMENT,
     MT_FINALIZE_EXPERIMENT, MT_ROLLBACK, MT_QUERY, MT_QUERY_RESULT, MT_SHUTDOWN, MT_ERROR_REPLY,
     MT_FORK_BRANCH, MT_CREATE_HYPOTHESIS, MT_REVISE_HYPOTHESIS]"

definition kMaxMessageType :: u16 where
  "kMaxMessageType = message_type_code MT_REVISE_HYPOTHESIS"

definition cast_message_type :: "u16 \<Rightarrow> message_type" where
  "cast_message_type raw = message_types ! unat raw"

definition parse_message_type :: "string \<Rightarrow> message_type option" where
  "parse_message_type name =
     find (\<lambda>t. message_type_to_string t = name)
       (map (\<lambda>v. cast_message_type (of_nat v)) [0..<Suc (unat kMaxMessageType)])"

lemma message_types_numbered:
  "map message_type_code message_types = map of_nat [0..<26]"
  by (simp add: message_types_def upt_rec)

lemma length_message_types: "length message_types = 26"
  using arg_cong [OF message_types_numbered, of length] by simp

lemma type_of_code: "raw \<le> kMaxMessageType \<Longrightarrow> message_type_code (cast_message_type raw) = raw"
proof -
  assume "raw \<le> kMaxMessageType"
  then have "unat raw < 26" by (simp add: kMaxMessageType_def word_le_nat_alt)
  then show ?thesis
    using arg_cong [OF message_types_numbered, of "\<lambda>xs. xs ! unat raw"]
    by (simp add: cast_message_type_def length_message_types del: upt_Suc)
qed

lemma code_of_type [simp]: "cast_message_type (message_type_code t) = t"
  by (cases t) (simp_all add: cast_message_type_def message_types_def)

lemma code_le: "message_type_code t \<le> kMaxMessageType"
  by (cases t) (simp_all add: kMaxMessageType_def)

lemma code_eq_0: "message_type_code t = 0 \<longleftrightarrow> t = MT_INVALID"
  by (cases t) simp_all

section \<open>Frames\<close>

definition kFrameHeaderBytes :: nat where
  "kFrameHeaderBytes = 32"

definition kFrameMagic :: u32 where
  "kFrameMagic = 0x4D524645"

definition kProtocolVersion :: u16 where
  "kProtocolVersion = 1"

record frame =
  fr_version :: u16
  fr_type :: message_type
  fr_correlation :: u64
  fr_payload :: "u8 list"

record frame_header_info =
  fh_version :: u16
  fh_type :: message_type
  fh_correlation :: u64
  fh_payload_length :: u32
  fh_payload_crc :: u32
  fh_header_crc :: u32
  fh_reserved :: u32

record frame_decode_outcome =
  fo_status :: status
  fo_consumed :: nat
  fo_frame :: frame

definition frame_init :: frame where
  "frame_init = \<lparr>fr_version = kProtocolVersion, fr_type = MT_INVALID, fr_correlation = 0, fr_payload = []\<rparr>"

definition parse_frame_header :: "u8 list \<Rightarrow> limits \<Rightarrow> frame_header_info result" where
  "parse_frame_header header l =
     (if length header \<noteq> kFrameHeaderBytes then Inl (payload_error (lit ''frame header size mismatch''))
      else
        let stored_header_crc = crc32 (take 24 header);
            declared_crc = load_le 4 (drop 24 header)
        in if stored_header_crc \<noteq> declared_crc then Inl (payload_error (lit ''frame header checksum mismatch''))
           else if load_le 4 header \<noteq> kFrameMagic then Inl (payload_error (lit ''frame magic mismatch''))
           else
             let version = load_le 2 (drop 4 header); raw_type = load_le 2 (drop 6 header)
             in if version \<noteq> kProtocolVersion then Inl (payload_error (lit ''unsupported protocol version''))
                else if raw_type = 0 \<or> raw_type > kMaxMessageType
                  then Inl (payload_error (lit ''unknown message type''))
                else
                  let correlation = load_le 8 (drop 8 header);
                      payload_length = load_le 4 (drop 16 header);
                      payload_crc = load_le 4 (drop 20 header);
                      reserved = load_le 4 (drop 28 header)
                  in if reserved \<noteq> 0 then Inl (payload_error (lit ''reserved header word must be zero''))
                     else if payload_length > lm_max_frame_payload_bytes l
                       then Inl (limits_error (lit ''frame payload exceeds bound''))
                     else Inr \<lparr>fh_version = version, fh_type = cast_message_type raw_type,
                       fh_correlation = correlation, fh_payload_length = payload_length,
                       fh_payload_crc = payload_crc, fh_header_crc = stored_header_crc,
                       fh_reserved = reserved\<rparr>)"

text \<open>The header as the code fills it.\<close>

definition encode_frame_header :: "frame \<Rightarrow> u8 list \<Rightarrow> limits \<Rightarrow> u8 list" where
  "encode_frame_header f payload l =
     (let h0 = replicate kFrameHeaderBytes 0;
          h1 = store_at 0 (store_le 4 kFrameMagic) h0;
          h2 = store_at 4 (store_le 2 (fr_version f)) h1;
          h3 = store_at 6 (store_le 2 (message_type_code (fr_type f))) h2;
          h4 = store_at 8 (store_le 8 (fr_correlation f)) h3;
          h5 = store_at 16 (store_le 4 (of_nat (length payload) :: u32)) h4;
          h6 = store_at 20 (store_le 4 (crc32 payload)) h5;
          h7 = store_at 24 (store_le 4 (crc32 (take 24 h6))) h6
      in store_at 28 (store_le 4 (0 :: u32)) h7)"

definition encode_frame :: "frame \<Rightarrow> limits \<Rightarrow> u8 list result" where
  "encode_frame f l =
     (if fr_version f \<noteq> kProtocolVersion
        then Inl (payload_error (lit ''refusing to encode unsupported protocol version''))
      else if fr_type f = MT_INVALID
        then Inl (payload_error (lit ''refusing to encode INVALID message type''))
      else if length (fr_payload f) > unat (lm_max_frame_payload_bytes l)
        then Inl (limits_error (lit ''frame payload exceeds bound''))
      else Inr (encode_frame_header f (fr_payload f) l @ fr_payload f))"

definition outcome_failed :: "status \<Rightarrow> frame_decode_outcome" where
  "outcome_failed s = \<lparr>fo_status = s, fo_consumed = 0, fo_frame = frame_init\<rparr>"

definition decode_frame :: "u8 list \<Rightarrow> limits \<Rightarrow> frame_decode_outcome" where
  "decode_frame bytes l =
     (if length bytes < kFrameHeaderBytes then outcome_failed (payload_error (lit ''short frame header''))
      else case parse_frame_header (take kFrameHeaderBytes bytes) l of
          Inl s \<Rightarrow> outcome_failed s
        | Inr header \<Rightarrow>
            let total = kFrameHeaderBytes + unat (fh_payload_length header)
            in if length bytes < total then outcome_failed (payload_error (lit ''short frame payload''))
               else
                 let payload = take (unat (fh_payload_length header)) (drop kFrameHeaderBytes bytes)
                 in if crc32 payload \<noteq> fh_payload_crc header
                      then outcome_failed (payload_error (lit ''frame payload checksum mismatch''))
                    else \<lparr>fo_status = success, fo_consumed = total,
                      fo_frame = \<lparr>fr_version = fh_version header, fr_type = fh_type header,
                        fr_correlation = fh_correlation header, fr_payload = payload\<rparr>\<rparr>)"

section \<open>Encoding and decoding\<close>

definition frame_prefix :: "frame \<Rightarrow> u8 list \<Rightarrow> u8 list" where
  "frame_prefix f payload =
     store_le 4 kFrameMagic @ store_le 2 (fr_version f) @ store_le 2 (message_type_code (fr_type f)) @
     store_le 8 (fr_correlation f) @ store_le 4 (of_nat (length payload) :: u32) @ store_le 4 (crc32 payload)"

lemma length_frame_prefix [simp]: "length (frame_prefix f payload) = 24"
  by (simp add: frame_prefix_def)

lemma encode_frame_header_eq:
  "encode_frame_header f payload l =
     frame_prefix f payload @ store_le 4 (crc32 (frame_prefix f payload)) @ store_le 4 (0 :: u32)"
proof -
  let ?m = "store_le 4 kFrameMagic" and ?v = "store_le 2 (fr_version f)"
    and ?t = "store_le 2 (message_type_code (fr_type f))" and ?c = "store_le 8 (fr_correlation f)"
    and ?n = "store_le 4 (of_nat (length payload) :: u32)" and ?p = "store_le 4 (crc32 payload)"
  have prefix: "((((?m @ ?v) @ ?t) @ ?c) @ ?n) @ ?p = frame_prefix f payload" by (simp add: frame_prefix_def)
  have fields: "store_at 0 ?m (replicate 32 0) = ?m @ replicate 28 0"
    "store_at 4 ?v (?m @ replicate 28 0) = (?m @ ?v) @ replicate 26 0"
    "store_at 6 ?t ((?m @ ?v) @ replicate 26 0) = ((?m @ ?v) @ ?t) @ replicate 24 0"
    "store_at 8 ?c (((?m @ ?v) @ ?t) @ replicate 24 0) = (((?m @ ?v) @ ?t) @ ?c) @ replicate 16 0"
    "store_at 16 ?n ((((?m @ ?v) @ ?t) @ ?c) @ replicate 16 0) = ((((?m @ ?v) @ ?t) @ ?c) @ ?n) @ replicate 12 0"
    "store_at 20 ?p (((((?m @ ?v) @ ?t) @ ?c) @ ?n) @ replicate 12 0) = frame_prefix f payload @ replicate 8 0"
    using store_first [of ?m 32] store_next [of ?m 4 ?v 28] store_next [of "?m @ ?v" 6 ?t 26]
      store_next [of "(?m @ ?v) @ ?t" 8 ?c 24] store_next [of "((?m @ ?v) @ ?t) @ ?c" 16 ?n 16]
      store_next [of "(((?m @ ?v) @ ?t) @ ?c) @ ?n" 20 ?p 12]
    by (simp_all only: prefix length_append length_store_le) simp_all
  have sums: "store_at 24 (store_le 4 (c :: u32)) (frame_prefix f payload @ replicate 8 0) =
      (frame_prefix f payload @ store_le 4 c) @ replicate 4 0"
    "store_at 28 (store_le 4 (0 :: u32)) ((frame_prefix f payload @ store_le 4 c) @ replicate 4 0) =
      (frame_prefix f payload @ store_le 4 c) @ store_le 4 (0 :: u32)" for c :: u32
    by (simp_all add: store_at_def)
  show ?thesis
    unfolding encode_frame_header_def kFrameHeaderBytes_def Let_def fields sums by simp
qed

lemma length_encode_frame_header [simp]: "length (encode_frame_header f payload l) = kFrameHeaderBytes"
  by (simp add: encode_frame_header_eq kFrameHeaderBytes_def)

definition frame_ok :: "limits \<Rightarrow> frame \<Rightarrow> bool" where
  "frame_ok l f \<longleftrightarrow>
     fr_version f = kProtocolVersion \<and> fr_type f \<noteq> MT_INVALID \<and>
     length (fr_payload f) \<le> unat (lm_max_frame_payload_bytes l)"

lemma encode_frame_ok: "encode_frame f l = Inr bs \<longleftrightarrow>
    frame_ok l f \<and> bs = encode_frame_header f (fr_payload f) l @ fr_payload f"
  by (auto simp: encode_frame_def frame_ok_def)

lemma parse_encoded_header:
  assumes "frame_ok l f"
  shows "parse_frame_header (encode_frame_header f (fr_payload f) l) l =
    Inr \<lparr>fh_version = fr_version f, fh_type = fr_type f, fh_correlation = fr_correlation f,
      fh_payload_length = of_nat (length (fr_payload f)), fh_payload_crc = crc32 (fr_payload f),
      fh_header_crc = crc32 (frame_prefix f (fr_payload f)), fh_reserved = 0\<rparr>"
proof -
  let ?n = "length (fr_payload f)"
  let ?p = "frame_prefix f (fr_payload f)"
  let ?h = "?p @ store_le 4 (crc32 ?p) @ store_le 4 (0 :: u32)"
  have n: "?n \<le> unat (lm_max_frame_payload_bytes l)" using assms by (simp add: frame_ok_def)
  have fields: "load_le 4 ?h = kFrameMagic" "load_le 2 (drop 4 ?h) = fr_version f"
    "load_le 2 (drop 6 ?h) = message_type_code (fr_type f)" "load_le 8 (drop 8 ?h) = fr_correlation f"
    "load_le 4 (drop 16 ?h) = (of_nat ?n :: u32)" "load_le 4 (drop 20 ?h) = crc32 (fr_payload f)"
    by (simp_all add: frame_prefix_def load_store_le)
  have checks: "take 24 ?h = ?p" "load_le 4 (drop 24 ?h) = crc32 ?p" "load_le 4 (drop 28 ?h) = (0 :: u32)"
    by (simp_all add: load_store_le)
  have "length ?h = kFrameHeaderBytes" by (simp add: kFrameHeaderBytes_def)
  then show ?thesis
    using assms code_le [of "fr_type f"] vector_count_fits [OF n]
    unfolding parse_frame_header_def encode_frame_header_eq fields checks Let_def
    by (simp add: frame_ok_def code_eq_0 leD)
qed

lemma decode_encoded:
  assumes "encode_frame f l = Inr bs"
  shows "decode_frame (bs @ rest) l = \<lparr>fo_status = success, fo_consumed = length bs, fo_frame = f\<rparr>"
proof -
  have ok: "frame_ok l f" and bs: "bs = encode_frame_header f (fr_payload f) l @ fr_payload f"
    using assms by (simp_all add: encode_frame_ok)
  have "length (fr_payload f) \<le> unat (lm_max_frame_payload_bytes l)" using ok by (simp add: frame_ok_def)
  note n = unat_of_length [OF this]
  show ?thesis
    unfolding decode_frame_def bs by (simp add: parse_encoded_header [OF ok] n Let_def)
qed

lemma header_segments:
  assumes "length h = 32"
  shows "h = store_le 4 (load_le 4 h :: u32) @ store_le 2 (load_le 2 (drop 4 h) :: u16) @
    store_le 2 (load_le 2 (drop 6 h) :: u16) @ store_le 8 (load_le 8 (drop 8 h) :: u64) @
    store_le 4 (load_le 4 (drop 16 h) :: u32) @ store_le 4 (load_le 4 (drop 20 h) :: u32) @
    store_le 4 (load_le 4 (drop 24 h) :: u32) @ store_le 4 (load_le 4 (drop 28 h) :: u32)"
proof -
  have "drop k h = take n (drop k h) @ drop (k + n) h" for k n
    using append_take_drop_id [of n "drop k h"] by (simp add: add.commute)
  from this [of 0 4] this [of 4 2] this [of 6 2] this [of 8 8] this [of 16 4] this [of 20 4] this [of 24 4] this [of 28 4]
  have "h = take 4 h @ take 2 (drop 4 h) @ take 2 (drop 6 h) @ take 8 (drop 8 h) @ take 4 (drop 16 h) @
      take 4 (drop 20 h) @ take 4 (drop 24 h) @ take 4 (drop 28 h)"
    using assms by simp
  then show ?thesis using assms by (simp add: store_load_le)
qed

lemma parsed_header_canonical:
  assumes parsed: "parse_frame_header h l = Inr i"
    and payload: "length payload = unat (fh_payload_length i)" "crc32 payload = fh_payload_crc i"
    and f: "f = \<lparr>fr_version = fh_version i, fr_type = fh_type i, fr_correlation = fh_correlation i, fr_payload = payload\<rparr>"
  shows "h = encode_frame_header f payload l \<and> frame_ok l f"
proof -
  have len: "length h = 32" and crc: "crc32 (take 24 h) = load_le 4 (drop 24 h)" and magic: "load_le 4 h = kFrameMagic"
    and version: "load_le 2 (drop 4 h) = kProtocolVersion" and type: "load_le 2 (drop 6 h) \<noteq> (0 :: u16)"
    "load_le 2 (drop 6 h) \<le> kMaxMessageType" and reserved: "load_le 4 (drop 28 h) = (0 :: u32)"
    and size: "load_le 4 (drop 16 h) \<le> lm_max_frame_payload_bytes l"
    and i: "i = \<lparr>fh_version = kProtocolVersion, fh_type = cast_message_type (load_le 2 (drop 6 h)),
      fh_correlation = load_le 8 (drop 8 h), fh_payload_length = load_le 4 (drop 16 h),
      fh_payload_crc = load_le 4 (drop 20 h), fh_header_crc = crc32 (take 24 h), fh_reserved = 0\<rparr>"
    using parsed by (auto simp: parse_frame_header_def kFrameHeaderBytes_def Let_def not_less split: if_splits)
  have code: "message_type_code (fr_type f) = load_le 2 (drop 6 h)" using f i type type_of_code by simp
  have "of_nat (length payload) = (load_le 4 (drop 16 h) :: u32)" using payload i by simp
  then have prefix: "frame_prefix f payload = store_le 4 (load_le 4 h :: u32) @ store_le 2 (load_le 2 (drop 4 h) :: u16) @
      store_le 2 (load_le 2 (drop 6 h) :: u16) @ store_le 8 (load_le 8 (drop 8 h) :: u64) @
      store_le 4 (load_le 4 (drop 16 h) :: u32) @ store_le 4 (load_le 4 (drop 20 h) :: u32)"
    using code payload f i magic version unfolding frame_prefix_def by simp
  then have whole: "h = frame_prefix f payload @ store_le 4 (load_le 4 (drop 24 h) :: u32) @ store_le 4 (0 :: u32)"
    using header_segments [OF len] reserved by simp
  then have "take 24 h = frame_prefix f payload" by (metis append_eq_conv_conj length_frame_prefix)
  then have "h = encode_frame_header f payload l" using whole crc by (simp add: encode_frame_header_eq)
  moreover have "fr_type f \<noteq> MT_INVALID" using code type by (auto simp: code_eq_0 [symmetric])
  ultimately show ?thesis using f i payload size by (simp add: frame_ok_def word_le_nat_alt)
qed

lemma outcome_failed_status [simp]: "fo_status (outcome_failed s) = s"
  by (simp add: outcome_failed_def)

lemma decoded_canonical:
  assumes "st_ok (fo_status (decode_frame bytes l))"
  shows "encode_frame (fo_frame (decode_frame bytes l)) l = Inr (take (fo_consumed (decode_frame bytes l)) bytes)"
proof -
  let ?o = "decode_frame bytes l"
  have long: "32 \<le> length bytes"
    using assms by (auto simp: decode_frame_def kFrameHeaderBytes_def not_less split: if_splits)
  show ?thesis
  proof (cases "parse_frame_header (take 32 bytes) l")
    case (Inl s)
    have "\<not> st_ok s"
      using Inl by (auto simp: parse_frame_header_def Let_def limits_error_def split: if_splits)
    then show ?thesis using assms Inl long by (simp add: decode_frame_def kFrameHeaderBytes_def)
  next
    case (Inr i)
    let ?n = "unat (fh_payload_length i)"
    let ?p = "take ?n (drop 32 bytes)"
    let ?f = "\<lparr>fr_version = fh_version i, fr_type = fh_type i, fr_correlation = fh_correlation i, fr_payload = ?p\<rparr>"
    have room: "32 + ?n \<le> length bytes" and crc: "crc32 ?p = fh_payload_crc i"
      and out: "fo_frame ?o = ?f" "fo_consumed ?o = 32 + ?n"
      using assms Inr long by (auto simp: decode_frame_def kFrameHeaderBytes_def Let_def not_less split: if_splits)
    have "take 32 bytes = encode_frame_header ?f ?p l \<and> frame_ok l ?f"
      using parsed_header_canonical [OF Inr] room crc by simp
    moreover have "take (32 + ?n) bytes = take 32 bytes @ ?p" by (simp add: take_add)
    ultimately show ?thesis unfolding out by (simp add: encode_frame_ok)
  qed
qed

section \<open>What the checksum detects\<close>

lemma crc_step_zero: "crc_step z = 0 \<Longrightarrow> z = 0"
proof -
  assume zero: "crc_step z = 0"
  have top: "\<not> bit (drop_bit 1 z) 31" by (auto simp: bit_drop_bit_eq dest: bit_imp_le_length)
  have low: "\<not> bit z 0"
  proof
    assume "bit z 0"
    then have "0xEDB88320 XOR drop_bit 1 z = 0" using zero by (simp add: crc_step_def)
    then have "\<not> bit (0xEDB88320 XOR drop_bit 1 z) 31" by (simp only: bit_0_eq bot_apply) simp
    then show False using top by (simp add: bit_xor_iff)
  qed
  then have shifted: "drop_bit 1 z = 0" using zero by (simp add: crc_step_def)
  show "z = 0"
  proof (rule bit_word_eqI)
    fix n
    show "bit z n = bit 0 n"
    proof (cases n)
      case (Suc m)
      have "bit z (Suc m) = bit (drop_bit 1 z) m" by (simp add: bit_drop_bit_eq)
      then show ?thesis using shifted Suc by simp
    qed (use low in simp)
  qed
qed

lemma xor_zero_eq: "x XOR y = 0 \<Longrightarrow> x = (y :: u32)"
  using xor_left_cancel [of x y x] by simp

lemma crc_step_inj: "crc_step x = crc_step y \<Longrightarrow> x = y"
  using crc_step_zero [of "x XOR y"] by (simp add: crc_step_xor xor_zero_eq)

lemma crc_steps_inj: "(crc_step ^^ n) x = (crc_step ^^ n) y \<Longrightarrow> x = y"
  by (induction n arbitrary: x y) (auto dest: crc_step_inj simp: funpow_swap1)

lemma crc_byte_inj_state: "crc_byte b s = crc_byte b t \<Longrightarrow> s = t"
  unfolding crc_byte_serial crc_byte_serial_def
  by (drule crc_steps_inj) (simp add: xor.commute [of _ "ucast b"], erule xor_left_cancel)

lemma crc_byte_inj_byte: "crc_byte b s = crc_byte c s \<Longrightarrow> b = c"
proof -
  assume "crc_byte b s = crc_byte c s"
  then have "(s XOR ucast b) = (s XOR (ucast c :: u32))"
    unfolding crc_byte_serial crc_byte_serial_def by (rule crc_steps_inj)
  then have "(ucast b :: u32) = ucast c" by (rule xor_left_cancel)
  then have same: "n < 32 \<and> bit b n \<longleftrightarrow> n < 32 \<and> bit c n" for n
    using bit_ucast_iff [of b n, where ?'a = 32] bit_ucast_iff [of c n, where ?'a = 32] by simp
  show "b = c"
  proof (rule bit_word_eqI)
    fix n assume "n < LENGTH(8)"
    then show "bit b n = bit c n" using same [of n] by simp
  qed
qed

lemma crc_update_inj: "crc_update bs s = crc_update bs t \<Longrightarrow> s = t"
  unfolding crc_update_def by (induction bs arbitrary: s t) (auto dest: crc_byte_inj_state)

lemma crc32_one_byte:
  assumes "i < length bs" and "crc32 (bs[i := b]) = crc32 bs"
  shows "b = bs ! i"
proof -
  let ?s = "crc_update (take i bs) 0xFFFFFFFF"
  have "crc_update (bs[i := b]) 0xFFFFFFFF = crc_update bs 0xFFFFFFFF"
    using assms(2) xor_left_cancel unfolding crc32_def xor.commute [of _ "0xFFFFFFFF"] by blast
  moreover have "crc_update bs 0xFFFFFFFF = crc_update (drop (Suc i) bs) (crc_byte (bs ! i) ?s)"
    using id_take_nth_drop [OF assms(1)] by (metis crc_update_def fold_append fold_simps(2) comp_apply)
  moreover have "crc_update (bs[i := b]) 0xFFFFFFFF = crc_update (drop (Suc i) bs) (crc_byte b ?s)"
    unfolding upd_conv_take_nth_drop [OF assms(1)] by (simp add: crc_update_def)
  ultimately show ?thesis using crc_update_inj crc_byte_inj_byte by metis
qed

lemma header_bytes:
  assumes "encode_frame f l = Inr bs"
  shows "take 24 bs = frame_prefix f (fr_payload f)" "take 4 (drop 24 bs) = store_le 4 (crc32 (take 24 bs))"
    "take 4 (drop 28 bs) = store_le 4 (0 :: u32)" "drop 32 bs = fr_payload f" "32 \<le> length bs"
  using assms by (auto simp: encode_frame_ok encode_frame_header_eq)

lemma frame_prefix_inj:
  assumes "frame_prefix f p = frame_prefix g q" and "length p \<le> unat (m :: u32)" and "length q \<le> unat m"
  shows "length p = length q" and "crc32 p = crc32 q"
proof -
  have "take 4 (drop 16 (frame_prefix f p)) = take 4 (drop 16 (frame_prefix g q))" using assms(1) by simp
  then have "(of_nat (length p) :: u32) = of_nat (length q)" by (intro store_le_inj [of 4]) (simp_all add: frame_prefix_def)
  then show "length p = length q" using assms(2,3) by (metis unat_of_length)
  have "drop 20 (frame_prefix f p) = drop 20 (frame_prefix g q)" using assms(1) by simp
  then show "crc32 p = crc32 q" by (intro store_le_inj [of 4]) (simp_all add: frame_prefix_def)
qed

text \<open>
  An encoding and a prefix of the bytes that differ from it in one place. Wherever that place lies,
  one of the checks sees it: the header checksum covers the first 24 bytes, the next four are the
  checksum, the reserved word is zero and the payload has a checksum of its own.
\<close>

lemma encodings_differ_in_more:
  assumes f: "encode_frame f l = Inr bs" and g: "encode_frame g l = Inr (take n (bs[i := b]))" and i: "i < length bs"
  shows "b = bs ! i"
proof -
  let ?cs = "take n (bs[i := b])"
  have n: "32 \<le> n" "32 \<le> length bs" using header_bytes(5) [OF f] header_bytes(5) [OF g] by simp_all
  have cut: "take k (drop m ?cs) = take k (drop m (bs[i := b]))" if "m + k \<le> 32" for m k
    using that n by (simp add: drop_take min_def)
  have seg: "take k (drop m ?cs) ! (i - m) = b" "take k (drop m bs) ! (i - m) = bs ! i"
    if "m \<le> i" "i < m + k" "m + k \<le> 32" for m k
    using that i by (simp_all add: cut)
  consider "i < 24" | "24 \<le> i" "i < 28" | "28 \<le> i" "i < 32" | "32 \<le> i" by linarith
  then show ?thesis
  proof cases
    case 1
    then have part: "take 24 ?cs = (take 24 bs)[i := b]" using n by (simp add: take_update_swap min_def)
    have "take 4 (drop 24 ?cs) = take 4 (drop 24 bs)" using 1 by (simp add: cut)
    then have "store_le 4 (crc32 (take 24 ?cs)) = store_le 4 (crc32 (take 24 bs))"
      using header_bytes(2) [OF f] header_bytes(2) [OF g] by simp
    then have "crc32 (take 24 ?cs) = crc32 (take 24 bs)" by (rule store_le_inj) simp
    then show ?thesis using crc32_one_byte [of i "take 24 bs" b] part 1 i by simp
  next
    case 2
    then have "take 24 ?cs = take 24 bs" using cut [of 0 24] by simp
    then have "take 4 (drop 24 ?cs) = take 4 (drop 24 bs)"
      using header_bytes(2) [OF f] header_bytes(2) [OF g] by simp
    then show ?thesis using seg [of 24 4] 2 by simp
  next
    case 3
    have "take 4 (drop 28 ?cs) = take 4 (drop 28 bs)"
      using header_bytes(3) [OF f] header_bytes(3) [OF g] by simp
    then show ?thesis using seg [of 28 4] 3 by simp
  next
    case 4
    then have "frame_prefix f (fr_payload f) = frame_prefix g (fr_payload g)"
      using header_bytes(1) [OF f] header_bytes(1) [OF g] cut [of 0 24] by simp
    moreover have "length (fr_payload f) \<le> unat (lm_max_frame_payload_bytes l)"
      "length (fr_payload g) \<le> unat (lm_max_frame_payload_bytes l)"
      using f g by (simp_all add: encode_frame_ok frame_ok_def)
    ultimately have same: "length (fr_payload f) = length (fr_payload g)" "crc32 (fr_payload f) = crc32 (fr_payload g)"
      by (rule frame_prefix_inj)+
    have pf: "fr_payload f = drop 32 bs" and pg: "fr_payload g = drop 32 ?cs"
      using header_bytes(4) [OF f] header_bytes(4) [OF g] by simp_all
    then have "?cs = bs[i := b]" using same(1) n by simp
    then have upd: "fr_payload g = (fr_payload f)[i - 32 := b]" using pf pg 4 by (simp add: drop_update_swap)
    have at: "i - 32 < length (fr_payload f)" "fr_payload f ! (i - 32) = bs ! i" using pf 4 i by simp_all
    then show ?thesis using crc32_one_byte [OF at(1), of b] same(2) upd by simp
  qed
qed

section \<open>Properties\<close>

text \<open>
  C26: an encoded frame decodes to itself. Whatever follows it in the buffer, the decoder succeeds,
  returns the frame and consumes exactly the encoded bytes.
\<close>

theorem frame_round_trip:
  assumes "encode_frame f l = Inr bs"
  shows "decode_frame (bs @ rest) l = \<lparr>fo_status = success, fo_consumed = length bs, fo_frame = f\<rparr>"
  using assms by (rule decode_encoded)

definition sample_frame :: frame where
  "sample_frame = \<lparr>fr_version = kProtocolVersion, fr_type = MT_HELLO, fr_correlation = 7, fr_payload = [1, 2, 3]\<rparr>"

lemma sample_frame_encoded:
  "encode_frame sample_frame limits_defaults =
     Inr (encode_frame_header sample_frame [1, 2, 3] limits_defaults @ [1, 2, 3])"
  by (simp add: encode_frame_ok frame_ok_def sample_frame_def limits_defaults_def)

theorem frame_round_trip_witness:
  "decode_frame ((encode_frame_header sample_frame [1, 2, 3] limits_defaults @ [1, 2, 3]) @ [9]) limits_defaults =
     \<lparr>fo_status = success, fo_consumed = 35, fo_frame = sample_frame\<rparr>"
  using frame_round_trip [OF sample_frame_encoded, of "[9]"] by (simp add: kFrameHeaderBytes_def)

text \<open>
  C27: a frame has one encoding. The bytes of every frame that the decoder accepts are exactly the
  bytes that the encoder produces for it.
\<close>

theorem decoded_frame_is_canonical:
  assumes "st_ok (fo_status (decode_frame bytes l))"
  shows "encode_frame (fo_frame (decode_frame bytes l)) l = Inr (take (fo_consumed (decode_frame bytes l)) bytes)"
  using assms by (rule decoded_canonical)

theorem decoded_frame_is_canonical_witness:
  "encode_frame (fo_frame (decode_frame (encode_frame_header sample_frame [1, 2, 3] limits_defaults @ [1, 2, 3])
     limits_defaults)) limits_defaults =
   Inr (encode_frame_header sample_frame [1, 2, 3] limits_defaults @ [1, 2, 3])"
  using decoded_frame_is_canonical
    [of "encode_frame_header sample_frame [1, 2, 3] limits_defaults @ [1, 2, 3]" limits_defaults]
    decode_encoded [OF sample_frame_encoded, of "[]"] by simp

text \<open>
  C28: no single corrupted byte goes unnoticed. Replacing any one byte of an encoded frame, in the
  header or in the payload, makes the decoder refuse it.
\<close>

theorem corrupted_byte_is_refused:
  assumes "encode_frame f l = Inr bs" and "i < length bs" and "b \<noteq> bs ! i"
  shows "\<not> st_ok (fo_status (decode_frame (bs[i := b]) l))"
proof
  assume "st_ok (fo_status (decode_frame (bs[i := b]) l))"
  from encodings_differ_in_more [OF assms(1) decoded_canonical [OF this] assms(2)] assms(3)
  show False by simp
qed

theorem corrupted_byte_is_refused_witness:
  "\<not> st_ok (fo_status (decode_frame
     ((encode_frame_header sample_frame [1, 2, 3] limits_defaults @ [1, 2, 3])[33 := 5]) limits_defaults))"
  by (rule corrupted_byte_is_refused [OF sample_frame_encoded]) (simp_all add: kFrameHeaderBytes_def nth_append)

end
