(* ===== verification/Transport.thy ===== *)
theory Transport
  imports Framing "HOL-Library.Sublist"
begin

text \<open>
  \<^verbatim>\<open>src/transport.cpp\<close>: sending and receiving frames over a connection. The operating system is an
  argument of the model: the script of what its \<^verbatim>\<open>recv\<close> and \<^verbatim>\<open>send\<close> calls do, in order. Bytes arrive in
  pieces of any size, calls are interrupted, the peer closes, calls fail; a call with an empty script
  is still blocked and the operation has not returned. The lemmas show that none of this changes
  which frames are received.
\<close>

section \<open>A connection\<close>

datatype recv_event =
    Arrives u8 "u8 list"
  | PeerCloses
  | RecvInterrupted
  | RecvFails

text \<open>\<open>Takes k\<close>: the system takes \<open>k + 1\<close> bytes, or all that it is given when these are fewer.\<close>

datatype send_event =
    Takes nat
  | SendInterrupted
  | SendFails

record connection =
  cn_open :: bool
  cn_recv :: "recv_event list"
  cn_send :: "send_event list"
  cn_sent :: "u8 list"

definition transport_error :: "error_code \<Rightarrow> string \<Rightarrow> status" where
  "transport_error c reason = make_error c EG_TRANSPORT reason"

definition close :: "connection \<Rightarrow> connection" where
  "close c = c\<lparr>cn_open := False\<rparr>"

definition kMaxChunk :: nat where
  "kMaxChunk = 0x7FFFFFFF"

section \<open>Sending\<close>

fun send_loop :: "u8 list \<Rightarrow> u8 list \<Rightarrow> send_event list \<Rightarrow> (status \<times> u8 list \<times> send_event list) option" where
  "send_loop [] sent events = Some (success, sent, events)"
| "send_loop (b # bs) sent [] = None"
| "send_loop (b # bs) sent (Takes k # events) =
     (let n = min (Suc k) (min (length (b # bs)) kMaxChunk)
      in send_loop (drop n (b # bs)) (sent @ take n (b # bs)) events)"
| "send_loop (b # bs) sent (SendInterrupted # events) = send_loop (b # bs) sent events"
| "send_loop (b # bs) sent (SendFails # events) =
     Some (transport_error EC_TRANSPORT_FAILURE (lit ''send failed''), sent, events)"

definition send_all :: "u8 list \<Rightarrow> connection \<Rightarrow> (status \<times> connection) option" where
  "send_all bytes c =
     (if \<not> cn_open c
        then Some (transport_error EC_NOT_FOUND (lit ''cannot send on a closed connection''), c)
      else case send_loop bytes (cn_sent c) (cn_send c) of
          None \<Rightarrow> None
        | Some (s, sent, events) \<Rightarrow> Some (s, c\<lparr>cn_sent := sent, cn_send := events\<rparr>))"

definition send_frame :: "limits \<Rightarrow> frame \<Rightarrow> connection \<Rightarrow> (status \<times> connection) option" where
  "send_frame l f c =
     (case encode_frame f l of Inl e \<Rightarrow> Some (e, c) | Inr bytes \<Rightarrow> send_all bytes c)"

section \<open>Receiving\<close>

fun arrives :: "u8 list \<Rightarrow> recv_event list \<Rightarrow> recv_event list" where
  "arrives [] events = events"
| "arrives (b # bs) events = Arrives b bs # events"

lemma length_arrives: "length (arrives bs events) \<le> Suc (length events)"
  by (cases bs) simp_all

function recv_loop :: "nat \<Rightarrow> u8 list \<Rightarrow> recv_event list \<Rightarrow> (u8 list result \<times> recv_event list) option" where
  "recv_loop remaining buffer events =
     (if remaining = 0 then Some (Inr buffer, events)
      else case events of
          [] \<Rightarrow> None
        | Arrives b bs # later \<Rightarrow>
            (let n = min (length (b # bs)) (min remaining kMaxChunk)
             in recv_loop (remaining - n) (buffer @ take n (b # bs)) (arrives (drop n (b # bs)) later))
        | PeerCloses # later \<Rightarrow>
            Some (Inl (if buffer = [] then transport_error EC_NOT_FOUND (lit ''peer closed the connection'')
              else transport_error EC_PROTOCOL_ERROR (lit ''connection closed mid-frame'')), events)
        | RecvInterrupted # later \<Rightarrow> recv_loop remaining buffer later
        | RecvFails # later \<Rightarrow> Some (Inl (transport_error EC_TRANSPORT_FAILURE (lit ''receive failed'')), later))"
  by pat_completeness auto

termination
proof (relation "measure (\<lambda>(remaining, buffer, events). remaining + length events)", goal_cases)
  case (2 remaining buffer events e later b bs n)
  then have "0 < n" "n \<le> remaining" by (auto simp: kMaxChunk_def)
  moreover have "length (arrives (drop n (b # bs)) later) \<le> length events"
    using 2 length_arrives [of "drop n (b # bs)" later] by simp
  ultimately show ?case by (simp only: in_measure case_prod_conv)
qed simp_all

declare recv_loop.simps [simp del]

definition receive_exact :: "nat \<Rightarrow> connection \<Rightarrow> (u8 list result \<times> connection) option" where
  "receive_exact wanted c =
     (if \<not> cn_open c
        then Some (Inl (transport_error EC_NOT_FOUND (lit ''cannot receive on a closed connection'')), c)
      else case recv_loop wanted [] (cn_recv c) of
          None \<Rightarrow> None
        | Some (r, events) \<Rightarrow> Some (r, c\<lparr>cn_recv := events\<rparr>))"

definition bad_checksum :: status where
  "bad_checksum = transport_error EC_PROTOCOL_ERROR (lit ''frame payload checksum mismatch'')"

definition receive_payload :: "frame_header_info \<Rightarrow> connection \<Rightarrow> (frame result \<times> connection) option" where
  "receive_payload i c =
     (let f = \<lparr>fr_version = fh_version i, fr_type = fh_type i, fr_correlation = fh_correlation i, fr_payload = []\<rparr>
      in if fh_payload_length i \<noteq> 0 then
           (case receive_exact (unat (fh_payload_length i)) c of
              None \<Rightarrow> None
            | Some (Inl e, c') \<Rightarrow> Some (Inl e, c')
            | Some (Inr payload, c') \<Rightarrow>
                if crc32 payload \<noteq> fh_payload_crc i then Some (Inl bad_checksum, c')
                else Some (Inr (f\<lparr>fr_payload := payload\<rparr>), c'))
         else if fh_payload_crc i \<noteq> crc32 [] then Some (Inl bad_checksum, c)
         else Some (Inr f, c))"

definition receive_frame :: "limits \<Rightarrow> connection \<Rightarrow> (frame result \<times> connection) option" where
  "receive_frame l c =
     (case receive_exact kFrameHeaderBytes c of
        None \<Rightarrow> None
      | Some (Inl e, c') \<Rightarrow> Some (Inl e, c')
      | Some (Inr header, c') \<Rightarrow>
          case parse_frame_header header l of
            Inl e \<Rightarrow> Some (Inl e, c')
          | Inr i \<Rightarrow> receive_payload i c')"

section \<open>Reassembly\<close>

text \<open>The bytes that reach the receiver before the connection ends, however they are cut.\<close>

fun delivered :: "recv_event list \<Rightarrow> u8 list" where
  "delivered [] = []"
| "delivered (Arrives b bs # events) = (b # bs) @ delivered events"
| "delivered (RecvInterrupted # events) = delivered events"
| "delivered (PeerCloses # events) = []"
| "delivered (RecvFails # events) = []"

lemma delivered_arrives [simp]: "delivered (arrives bs events) = bs @ delivered events"
  by (cases bs) simp_all

lemma recv_loop_delivers:
  "remaining \<le> length (delivered events) \<Longrightarrow>
   \<exists>later. recv_loop remaining buffer events = Some (Inr (buffer @ take remaining (delivered events)), later) \<and>
     delivered later = drop remaining (delivered events)"
proof (induction remaining buffer events rule: recv_loop.induct)
  case (1 remaining buffer events)
  show ?case
  proof (cases "remaining = 0")
    case True
    then show ?thesis by (simp add: recv_loop.simps)
  next
    case more_needed: False
    then consider (arrives) b bs later where "events = Arrives b bs # later"
      | (interrupted) later where "events = RecvInterrupted # later"
      using 1(3) by (cases events rule: delivered.cases) auto
    then show ?thesis
    proof cases
      case arrives
      let ?n = "min (length (b # bs)) (min remaining kMaxChunk)"
      have n: "?n \<le> remaining" "?n \<le> length (b # bs)" by simp_all
      have all: "delivered events = take ?n (b # bs) @ drop ?n (b # bs) @ delivered later"
        by (simp only: arrives delivered.simps append_assoc [symmetric] append_take_drop_id)
      have "recv_loop remaining buffer events =
          recv_loop (remaining - ?n) (buffer @ take ?n (b # bs)) (Transport.arrives (drop ?n (b # bs)) later)"
        using more_needed arrives by (subst recv_loop.simps) (simp add: Let_def)
      moreover have "remaining - ?n \<le> length (delivered (Transport.arrives (drop ?n (b # bs)) later))"
        using 1(3) n arrives by simp
      note 1(1) [OF more_needed arrives refl refl this]
      moreover have "take remaining (delivered events) =
          take ?n (b # bs) @ take (remaining - ?n) (drop ?n (b # bs) @ delivered later)"
        and "drop remaining (delivered events) = drop (remaining - ?n) (drop ?n (b # bs) @ delivered later)"
        using n unfolding all by (simp_all del: take_Suc_Cons drop_Suc_Cons)
      ultimately show ?thesis by simp
    next
      case interrupted
      then show ?thesis using 1(2) [OF more_needed interrupted refl] 1(3) more_needed
        by (subst recv_loop.simps) simp
    qed
  qed
qed

lemma recv_loop_received:
  "recv_loop remaining buffer events = Some (Inr bytes, later) \<Longrightarrow> remaining \<le> length (delivered events)"
proof (induction remaining buffer events rule: recv_loop.induct)
  case (1 remaining buffer events)
  show ?case
  proof (cases "remaining = 0")
    case more_needed: False
    then consider (arrives) b bs later where "events = Arrives b bs # later"
      | (interrupted) later where "events = RecvInterrupted # later"
      using 1(3) by (subst (asm) recv_loop.simps) (auto split: list.splits recv_event.splits)
    then show ?thesis
    proof cases
      case arrives
      let ?n = "min (length (b # bs)) (min remaining kMaxChunk)"
      have "recv_loop (remaining - ?n) (buffer @ take ?n (b # bs)) (Transport.arrives (drop ?n (b # bs)) later) =
          Some (Inr bytes, later')" if "recv_loop remaining buffer events = Some (Inr bytes, later')" for later'
        using that more_needed arrives by (subst (asm) recv_loop.simps) (simp add: Let_def)
      then have "remaining - ?n \<le> length (delivered (Transport.arrives (drop ?n (b # bs)) later))"
        using 1(1) [OF more_needed arrives refl refl] 1(3) by blast
      then show ?thesis using arrives by simp
    next
      case interrupted
      then show ?thesis using 1(2) [OF more_needed interrupted refl] 1(3) more_needed
        by (subst (asm) (2) recv_loop.simps) simp
    qed
  qed simp
qed

text \<open>A loop for a number of bytes returns them exactly when so many are delivered.\<close>

lemma receive_exact_iff:
  assumes "cn_open c"
  shows "receive_exact n c = Some (Inr bytes, c') \<longleftrightarrow>
    n \<le> length (delivered (cn_recv c)) \<and> bytes = take n (delivered (cn_recv c)) \<and>
    (\<exists>later. recv_loop n [] (cn_recv c) = Some (Inr bytes, later) \<and> c' = c\<lparr>cn_recv := later\<rparr>)"
    (is "?l \<longleftrightarrow> ?r")
proof
  assume ?l
  then obtain later where r: "recv_loop n [] (cn_recv c) = Some (Inr bytes, later)" "c' = c\<lparr>cn_recv := later\<rparr>"
    using assms by (auto simp: receive_exact_def split: option.splits)
  then have n: "n \<le> length (delivered (cn_recv c))" using recv_loop_received by blast
  show ?r using recv_loop_delivers [OF n, of "[]"] r n by auto
next
  assume ?r
  then show ?l using assms by (auto simp: receive_exact_def)
qed

lemma receive_exact_rest:
  assumes "receive_exact n c = Some (Inr bytes, c')" and "cn_open c"
  shows "delivered (cn_recv c) = bytes @ delivered (cn_recv c') \<and> length bytes = n \<and>
    cn_open c' \<and> cn_send c' = cn_send c \<and> cn_sent c' = cn_sent c"
proof -
  obtain later where n: "n \<le> length (delivered (cn_recv c))" "bytes = take n (delivered (cn_recv c))"
    and later: "recv_loop n [] (cn_recv c) = Some (Inr bytes, later)" "c' = c\<lparr>cn_recv := later\<rparr>"
    using assms by (auto simp: receive_exact_iff)
  then have "delivered later = drop n (delivered (cn_recv c))" using recv_loop_delivers [OF n(1), of "[]"] by auto
  then show ?thesis using n later assms(2) by simp
qed

lemma receive_exact_delivers:
  assumes "cn_open c" and "delivered (cn_recv c) = bytes @ rest"
  obtains c' where "receive_exact (length bytes) c = Some (Inr bytes, c')" and "delivered (cn_recv c') = rest"
    and "cn_open c'" and "cn_send c' = cn_send c" and "cn_sent c' = cn_sent c"
proof -
  obtain later where "recv_loop (length bytes) [] (cn_recv c) = Some (Inr bytes, later)" "delivered later = rest"
    using recv_loop_delivers [of "length bytes" "cn_recv c" "[]"] assms(2) by auto
  then show thesis using that [of "c\<lparr>cn_recv := later\<rparr>"] assms(1) by (simp add: receive_exact_def)
qed

lemma receive_frame_delivers:
  assumes "cn_open c" and "encode_frame f l = Inr bytes" and "delivered (cn_recv c) = bytes @ rest"
  shows "\<exists>c'. receive_frame l c = Some (Inr f, c') \<and> delivered (cn_recv c') = rest \<and> cn_open c' \<and>
    cn_send c' = cn_send c \<and> cn_sent c' = cn_sent c"
proof -
  let ?h = "encode_frame_header f (fr_payload f) l"
  have ok: "frame_ok l f" and bytes: "delivered (cn_recv c) = ?h @ fr_payload f @ rest"
    using assms(2,3) by (simp_all add: encode_frame_ok)
  have n: "length (fr_payload f) \<le> unat (lm_max_frame_payload_bytes l)" using ok by (simp add: frame_ok_def)
  obtain c1 where c1: "receive_exact kFrameHeaderBytes c = Some (Inr ?h, c1)"
    "delivered (cn_recv c1) = fr_payload f @ rest" "cn_open c1" "cn_send c1 = cn_send c" "cn_sent c1 = cn_sent c"
    using receive_exact_delivers [OF assms(1) bytes] by auto
  obtain c2 where c2: "receive_exact (length (fr_payload f)) c1 = Some (Inr (fr_payload f), c2)"
    "delivered (cn_recv c2) = rest" "cn_open c2" "cn_send c2 = cn_send c" "cn_sent c2 = cn_sent c"
    using receive_exact_delivers [OF c1(3,2)] c1(4,5) by auto
  have header: "receive_frame l c = receive_payload
      \<lparr>fh_version = fr_version f, fh_type = fr_type f, fh_correlation = fr_correlation f,
       fh_payload_length = of_nat (length (fr_payload f)), fh_payload_crc = crc32 (fr_payload f),
       fh_header_crc = crc32 (frame_prefix f (fr_payload f)), fh_reserved = 0\<rparr> c1"
    using c1(1) by (simp add: receive_frame_def parse_encoded_header [OF ok])
  show ?thesis
  proof (cases "fr_payload f = []")
    case True
    then show ?thesis using c1 by (simp add: header receive_payload_def)
  next
    case False
    then have "word_of_nat (length (fr_payload f)) \<noteq> (0 :: u32)" using unat_of_length [OF n] by auto
    then show ?thesis using c2 unat_of_length [OF n] by (simp add: header receive_payload_def)
  qed
qed

lemma receive_frame_received:
  assumes "receive_frame l c = Some (Inr f, c')" and "cn_open c"
  shows "\<exists>bytes. encode_frame f l = Inr bytes \<and> delivered (cn_recv c) = bytes @ delivered (cn_recv c') \<and>
    cn_open c' \<and> cn_send c' = cn_send c \<and> cn_sent c' = cn_sent c"
proof -
  obtain h c1 i where h: "receive_exact kFrameHeaderBytes c = Some (Inr h, c1)" "parse_frame_header h l = Inr i"
    "receive_payload i c1 = Some (Inr f, c')"
    using assms by (auto simp: receive_frame_def split: option.splits sum.splits)
  note r1 = receive_exact_rest [OF h(1) assms(2)]
  have r2: "length (fr_payload f) = unat (fh_payload_length i)" "crc32 (fr_payload f) = fh_payload_crc i"
    "f = \<lparr>fr_version = fh_version i, fr_type = fh_type i, fr_correlation = fh_correlation i, fr_payload = fr_payload f\<rparr>"
    "delivered (cn_recv c1) = fr_payload f @ delivered (cn_recv c')" "cn_open c'" "cn_send c' = cn_send c1" "cn_sent c' = cn_sent c1"
    using h(3) r1 receive_exact_rest [of _ c1 _ c']
    by (auto simp: receive_payload_def Let_def split: if_splits option.splits sum.splits)
  have "h = encode_frame_header f (fr_payload f) l" "frame_ok l f"
    using parsed_header_canonical [OF h(2) r2(1,2,3)] by simp_all
  then show ?thesis using r1 r2 by (auto simp: encode_frame_ok)
qed

section \<open>What is sent\<close>

lemma send_loop_sent:
  "send_loop bytes sent events = Some (s, sent', events') \<Longrightarrow>
   \<exists>part. prefix part bytes \<and> sent' = sent @ part \<and> (st_ok s \<longleftrightarrow> part = bytes)"
proof (induction bytes sent events rule: send_loop.induct)
  case (3 b bs sent k events)
  let ?n = "min (Suc k) (min (length (b # bs)) kMaxChunk)"
  obtain part where part: "prefix part (drop ?n (b # bs))" "sent' = (sent @ take ?n (b # bs)) @ part"
    "st_ok s \<longleftrightarrow> part = drop ?n (b # bs)"
    using 3 by (fastforce simp only: send_loop.simps Let_def)
  have "prefix (take ?n (b # bs) @ part) (take ?n (b # bs) @ drop ?n (b # bs))" using part(1) by (simp only: same_prefix_prefix)
  moreover have "part = drop ?n (b # bs) \<longleftrightarrow> take ?n (b # bs) @ part = take ?n (b # bs) @ drop ?n (b # bs)"
    by (simp only: same_append_eq)
  ultimately show ?case using part(2,3) by (intro exI [of _ "take ?n (b # bs) @ part"]) (simp only: append_take_drop_id append_assoc)
qed (auto simp: transport_error_def)

text \<open>A send reports success exactly when every byte of the frame has been taken, in order.\<close>

lemma send_frame_sent:
  assumes "send_frame l f c = Some (s, c')"
  shows "cn_recv c' = cn_recv c \<and> cn_open c' = cn_open c \<and>
    (st_ok s \<longrightarrow> (\<exists>bytes. encode_frame f l = Inr bytes \<and> cn_sent c' = cn_sent c @ bytes))"
proof (cases "encode_frame f l")
  case (Inl e)
  then have "\<not> st_ok e" by (auto simp: encode_frame_def limits_error_def split: if_splits)
  then show ?thesis using assms Inl by (auto simp: send_frame_def)
next
  case (Inr bytes)
  then show ?thesis
    using assms send_loop_sent [of bytes "cn_sent c" "cn_send c"]
    by (auto simp: send_frame_def send_all_def transport_error_def split: if_splits option.splits)
qed

text \<open>A system that does not fail and takes bytes often enough for \<open>n\<close> of them.\<close>

fun takes :: "send_event \<Rightarrow> bool" where
  "takes (Takes k) = True"
| "takes e = False"

definition willing :: "nat \<Rightarrow> send_event list \<Rightarrow> bool" where
  "willing n events \<longleftrightarrow> SendFails \<notin> set events \<and> n \<le> length (filter takes events)"

lemma send_loop_willing:
  "willing (length bytes + m) events \<Longrightarrow>
   \<exists>events'. send_loop bytes sent events = Some (success, sent @ bytes, events') \<and> willing m events'"
proof (induction bytes sent events rule: send_loop.induct)
  case (3 b bs sent k events)
  let ?n = "min (Suc k) (min (length (b # bs)) kMaxChunk)"
  have "0 < ?n" by (simp add: kMaxChunk_def)
  then have "willing (length (drop ?n (b # bs)) + m) events" using 3(2) by (auto simp: willing_def)
  note ih = 3(1) [OF refl this]
  have "(sent @ take ?n (b # bs)) @ drop ?n (b # bs) = sent @ b # bs" by (simp only: append_assoc append_take_drop_id)
  then show ?case using ih by (simp only: send_loop.simps Let_def)
qed (auto simp: willing_def)

lemma send_frame_willing:
  assumes "cn_open c" and "encode_frame f l = Inr bytes" and "willing (length bytes + m) (cn_send c)"
  shows "\<exists>c'. send_frame l f c = Some (success, c') \<and> cn_sent c' = cn_sent c @ bytes \<and>
    willing m (cn_send c') \<and> cn_recv c' = cn_recv c \<and> cn_open c'"
  using assms send_loop_willing [OF assms(3), of "cn_sent c"] by (auto simp: send_frame_def send_all_def)

section \<open>Fragmentation\<close>

text \<open>
  C23: receiving a frame depends only on the bytes that are delivered, not on how the network cuts
  them or how often a call is interrupted: a frame is returned exactly when its canonical encoding
  comes first, and what follows is left for the next frame.
\<close>

theorem received_frame_is_first_delivered:
  assumes "cn_open c"
  shows "(\<exists>c'. receive_frame l c = Some (Inr f, c') \<and> delivered (cn_recv c') = rest) \<longleftrightarrow>
    (\<exists>bytes. encode_frame f l = Inr bytes \<and> delivered (cn_recv c) = bytes @ rest)"
  using receive_frame_delivers [OF assms] receive_frame_received [OF _ assms] by blast

text \<open>A frame whose bytes arrive one at a time, each after an interrupted call.\<close>

definition trickle :: "u8 list \<Rightarrow> connection" where
  "trickle bytes =
     \<lparr>cn_open = True, cn_recv = concat (map (\<lambda>b. [RecvInterrupted, Arrives b []]) bytes), cn_send = [], cn_sent = []\<rparr>"

lemma delivered_trickle: "delivered (cn_recv (trickle bytes)) = bytes"
  by (induction bytes) (simp_all add: trickle_def)

definition hello_frame :: frame where
  "hello_frame = \<lparr>fr_version = kProtocolVersion, fr_type = MT_HELLO, fr_correlation = 7, fr_payload = []\<rparr>"

lemma encode_hello: "encode_frame hello_frame l = Inr (encode_frame_header hello_frame [] l)"
  by (simp add: encode_frame_def hello_frame_def)

theorem received_frame_is_first_delivered_witness:
  "\<exists>c'. receive_frame limits_defaults (trickle (encode_frame_header hello_frame [] limits_defaults)) =
      Some (Inr hello_frame, c') \<and> delivered (cn_recv c') = []"
proof -
  have "cn_open (trickle (encode_frame_header hello_frame [] limits_defaults))" by (simp add: trickle_def)
  then show ?thesis
    using received_frame_is_first_delivered [of _ limits_defaults hello_frame "[]"]
    by (simp add: delivered_trickle encode_hello)
qed

end
