(* ===== verification/Governance.thy ===== *)
theory Governance
  imports Recovery "HOL-Library.Sublist"
begin

text \<open>
  What every operation of the coordinator keeps. \<open>rec_inv\<close> is the invariant of one experiment
  record: at most one live attempt per trial, a completed trial has exactly its authoritative
  attempt committed. \<open>evolves\<close> is what may change in a record: terminal trials and attempts never
  do, history only grows. The locale \<open>record_update\<close> is the contract of an operation on one
  record; its lemma lifts the contract to the coordinator.
\<close>

section \<open>The invariant of an experiment record\<close>

definition executing :: "trial_state \<Rightarrow> bool" where
  "executing s \<longleftrightarrow> s = TS_ASSIGNED \<or> s = TS_RUNNING \<or> s = TS_OBSERVING"

definition holding :: "trial_state \<Rightarrow> bool" where
  "holding s \<longleftrightarrow> executing s \<or> s = TS_REVALIDATION_REQUIRED"

definition trial_inv :: "(trial_attempt_id, attempt_record) omap \<Rightarrow> trial_id \<Rightarrow> trial_record \<Rightarrow> bool" where
  "trial_inv attempts k t \<longleftrightarrow>
     tr_id t = k \<and> tr_committed_attempts t = (if tr_state t = TS_COMPLETED then 1 else 0) \<and>
     (valid (tr_authoritative_attempt t) \<longrightarrow>
        (\<exists>a. map_of attempts (tr_authoritative_attempt t) = Some a \<and> at_trial a = k)) \<and>
     (executing (tr_state t) \<longrightarrow>
        (\<exists>a. map_of attempts (tr_authoritative_attempt t) = Some a \<and> at_trial a = k \<and> live_attempt a)) \<and>
     (tr_state t = TS_COMPLETED \<longrightarrow>
        (\<exists>a. map_of attempts (tr_authoritative_attempt t) = Some a \<and> at_trial a = k \<and> at_state a = AS_COMPLETED))"

definition attempt_inv :: "(trial_id, trial_record) omap \<Rightarrow> trial_attempt_id \<Rightarrow> attempt_record \<Rightarrow> bool" where
  "attempt_inv trials j a \<longleftrightarrow>
     at_id a = j \<and> (at_committed a \<longleftrightarrow> at_state a = AS_COMPLETED) \<and>
     (\<exists>t. map_of trials (at_trial a) = Some t \<and> tr_branch t = at_branch a \<and>
        (live_attempt a \<longrightarrow> holding (tr_state t) \<and> tr_authoritative_attempt t = j) \<and>
        (at_committed a \<longrightarrow> tr_state t = TS_COMPLETED \<and> tr_authoritative_attempt t = j))"

definition rec_inv :: "experiment_record \<Rightarrow> bool" where
  "rec_inv r \<longleftrightarrow>
     omap_ordered (er_trials r) \<and> omap_ordered (er_attempts r) \<and>
     (\<forall>k t. map_of (er_trials r) k = Some t \<longrightarrow> trial_inv (er_attempts r) k t) \<and>
     (\<forall>j a. map_of (er_attempts r) j = Some a \<longrightarrow> attempt_inv (er_trials r) j a)"

lemma rec_inv_trial: "rec_inv r \<Longrightarrow> map_of (er_trials r) k = Some t \<Longrightarrow> trial_inv (er_attempts r) k t"
  by (simp add: rec_inv_def)

lemma rec_inv_attempt: "rec_inv r \<Longrightarrow> map_of (er_attempts r) j = Some a \<Longrightarrow> attempt_inv (er_trials r) j a"
  by (simp add: rec_inv_def)

lemma rec_inv_cong:
  "er_trials r' = er_trials r \<Longrightarrow> er_attempts r' = er_attempts r \<Longrightarrow> rec_inv r' = rec_inv r"
  by (simp add: rec_inv_def)

lemma state_facts [simp]:
  "is_terminal TS_COMPLETED" "\<not> is_terminal TS_READY" "is_terminal TS_FAILED" "is_terminal TS_CANCELLED"
  "is_terminal TS_SUPERSEDED" "\<not> is_terminal TS_OBSERVING" "\<not> is_terminal TS_ASSIGNED"
  "\<not> is_terminal TS_RUNNING" "\<not> is_terminal TS_REVALIDATION_REQUIRED"
  "is_attempt_terminal AS_COMPLETED" "is_attempt_terminal AS_FAILED" "is_attempt_terminal AS_CANCELLED"
  "is_attempt_terminal AS_ABANDONED" "\<not> is_attempt_terminal AS_ISSUED" "\<not> is_attempt_terminal AS_RUNNING"
  "\<not> is_attempt_terminal AS_REVALIDATION_REQUIRED"
  "executing TS_ASSIGNED" "executing TS_RUNNING" "executing TS_OBSERVING"
  "\<not> executing TS_READY" "\<not> executing TS_COMPLETED" "\<not> executing TS_FAILED" "\<not> executing TS_CANCELLED"
  "\<not> executing TS_SUPERSEDED" "\<not> executing TS_REVALIDATION_REQUIRED"
  by (simp_all add: fence_simps executing_def)

lemma executing_live: "executing s \<Longrightarrow> \<not> is_terminal s"
  by (auto simp: executing_def)

lemma holding_facts [simp]:
  "holding TS_ASSIGNED" "holding TS_RUNNING" "holding TS_OBSERVING" "holding TS_REVALIDATION_REQUIRED"
  "\<not> holding TS_READY" "\<not> holding TS_COMPLETED" "\<not> holding TS_FAILED" "\<not> holding TS_CANCELLED"
  "\<not> holding TS_SUPERSEDED"
  by (simp_all add: holding_def)

lemma holding_live: "holding s \<Longrightarrow> \<not> is_terminal s"
  by (auto simp: holding_def executing_def)

section \<open>What an operation may change\<close>

definition trial_later :: "trial_record \<Rightarrow> trial_record \<Rightarrow> bool" where
  "trial_later t t' \<longleftrightarrow>
     tr_id t' = tr_id t \<and> tr_branch t' = tr_branch t \<and> tr_generation t' = tr_generation t \<and>
     tr_branch_generation t' = tr_branch_generation t \<and>
     tr_hypothesis_revision t' = tr_hypothesis_revision t \<and> tr_policy t' = tr_policy t \<and>
     tr_policy_generation t' = tr_policy_generation t \<and>
     (is_terminal (tr_state t) \<longrightarrow> t' = t)"

definition attempt_later :: "attempt_record \<Rightarrow> attempt_record \<Rightarrow> bool" where
  "attempt_later a a' \<longleftrightarrow>
     at_id a' = at_id a \<and> at_trial a' = at_trial a \<and> at_branch a' = at_branch a \<and>
     at_number a' = at_number a \<and> at_worker a' = at_worker a \<and> at_boot a' = at_boot a \<and>
     at_epoch a' = at_epoch a \<and> at_producer a' = at_producer a \<and>
     (is_attempt_terminal (at_state a) \<longrightarrow> a' = a)"

definition evolves :: "experiment_record \<Rightarrow> experiment_record \<Rightarrow> bool" where
  "evolves r r' \<longleftrightarrow>
     ed_id (er_definition r') = ed_id (er_definition r) \<and>
     (\<forall>k t. map_of (er_trials r) k = Some t \<longrightarrow> (\<exists>t'. map_of (er_trials r') k = Some t' \<and> trial_later t t')) \<and>
     (\<forall>j a. map_of (er_attempts r) j = Some a \<longrightarrow> (\<exists>a'. map_of (er_attempts r') j = Some a' \<and> attempt_later a a')) \<and>
     prefix (er_observations r) (er_observations r') \<and> prefix (er_decisions r) (er_decisions r') \<and>
     prefix (er_rollback_points r) (er_rollback_points r') \<and>
     prefix (er_hypothesis_history r) (er_hypothesis_history r')"

lemma trial_later_refl [simp]: "trial_later t t"
  by (simp add: trial_later_def)

lemma attempt_later_refl [simp]: "attempt_later a a"
  by (simp add: attempt_later_def)

lemma trial_later_trans: "trial_later a b \<Longrightarrow> trial_later b c \<Longrightarrow> trial_later a c"
  by (auto simp: trial_later_def)

lemma attempt_later_trans: "attempt_later a b \<Longrightarrow> attempt_later b c \<Longrightarrow> attempt_later a c"
  by (auto simp: attempt_later_def)

lemma evolves_refl [simp]: "evolves r r"
  by (auto simp: evolves_def)

lemma evolves_trans:
  assumes "evolves r s" and "evolves s u"
  shows "evolves r u"
proof -
  have "\<exists>t'. map_of (er_trials u) k = Some t' \<and> trial_later t t'" if "map_of (er_trials r) k = Some t" for k t
    using assms that unfolding evolves_def by (meson trial_later_trans)
  moreover have "\<exists>a'. map_of (er_attempts u) j = Some a' \<and> attempt_later a a'"
    if "map_of (er_attempts r) j = Some a" for j a
    using assms that unfolding evolves_def by (meson attempt_later_trans)
  ultimately show ?thesis
    using assms unfolding evolves_def by (auto intro: prefix_order.trans)
qed

lemma evolves_log_line [simp]: "evolves r (log_line s r')= evolves r r'"
  by (simp add: evolves_def)

lemma rec_inv_log_line [simp]: "rec_inv (log_line s r) = rec_inv r"
  by (simp add: rec_inv_def)

section \<open>Closing live work keeps the invariant\<close>

lemma map_of_close_trials:
  "map_of (close_trials P st kind detail s m) k = Some t' \<longleftrightarrow>
     (\<exists>t. map_of m k = Some t \<and> t' = (if \<not> P t \<or> is_terminal (tr_state t) then t
       else t\<lparr>tr_state := st, tr_failure_kind := kind, tr_failure_detail := detail, tr_updated_sequence := s\<rparr>))"
  unfolding close_trials_def map_of_omap_map map_option_eq_Some
  by (rule ex_cong1, rule conj_cong [OF refl], rule eq_commute)

lemma map_of_close_attempts:
  "map_of (close_attempts P st kind detail s m) j = Some a' \<longleftrightarrow>
     (\<exists>a. map_of m j = Some a \<and> a' = (if \<not> P a \<or> is_attempt_terminal (at_state a) then a
       else a\<lparr>at_state := st, at_failure_kind := kind, at_failure_detail := detail, at_updated_sequence := s\<rparr>))"
  unfolding close_attempts_def map_of_omap_map map_option_eq_Some
  by (rule ex_cong1, rule conj_cong [OF refl], rule eq_commute)

lemma keys_close [simp]:
  "map fst (close_trials P st kind detail s m) = map fst m"
  "map fst (close_attempts Q ast kind detail s n) = map fst n"
  by (simp_all add: close_trials_def close_attempts_def)

lemma key_set_close [simp]:
  "fst ` set (close_trials P st kind detail s m) = fst ` set m"
  "fst ` set (close_attempts Q ast kind detail s n) = fst ` set n"
  by (simp_all flip: set_map)

lemma close_rec_inv:
  assumes inv: "rec_inv r"
    and st: "is_terminal st" "st \<noteq> TS_COMPLETED" and ast: "is_attempt_terminal ast" "ast \<noteq> AS_COMPLETED"
    and agree: "\<And>j a t. map_of (er_attempts r) j = Some a \<Longrightarrow> live_attempt a \<Longrightarrow>
        map_of (er_trials r) (at_trial a) = Some t \<Longrightarrow> Q a = P t"
    and trials: "er_trials r' = close_trials P st kind detail s (er_trials r)"
    and attempts: "er_attempts r' = close_attempts Q ast kind' detail' s' (er_attempts r)"
  shows "rec_inv r'"
proof -
  have "trial_inv (er_attempts r') k t'" if "map_of (er_trials r') k = Some t'" for k t'
  proof -
    obtain t where t: "map_of (er_trials r) k = Some t" "t' = (if \<not> P t \<or> is_terminal (tr_state t) then t
       else t\<lparr>tr_state := st, tr_failure_kind := kind, tr_failure_detail := detail, tr_updated_sequence := s\<rparr>)"
      using \<open>map_of (er_trials r') k = Some t'\<close> unfolding trials map_of_close_trials by blast
    have old: "trial_inv (er_attempts r) k t" using inv t(1) by (rule rec_inv_trial)
    have owned: "\<exists>b. map_of (er_attempts r') j = Some b \<and> at_trial b = k"
      if "map_of (er_attempts r) j = Some a" "at_trial a = k" for j a
      using that unfolding attempts map_of_close_attempts by auto
    show ?thesis
    proof (cases "\<not> P t \<or> is_terminal (tr_state t)")
      case True
      then have same: "t' = t" using t by simp
      have kept: "map_of (er_attempts r') (tr_authoritative_attempt t) = Some a"
        if a: "map_of (er_attempts r) (tr_authoritative_attempt t) = Some a" "at_trial a = k"
          "live_attempt a \<longrightarrow> executing (tr_state t)" for a
        using that True agree [OF a(1)] t(1) unfolding attempts map_of_close_attempts
        by (auto simp: live_attempt_def dest: executing_live)
      have "\<exists>a. map_of (er_attempts r') (tr_authoritative_attempt t) = Some a \<and> at_trial a = k \<and> live_attempt a"
        if "executing (tr_state t)"
        using old that kept unfolding trial_inv_def by blast
      moreover have "\<exists>a. map_of (er_attempts r') (tr_authoritative_attempt t) = Some a \<and> at_trial a = k \<and>
          at_state a = AS_COMPLETED" if "tr_state t = TS_COMPLETED"
        using old that kept unfolding trial_inv_def live_attempt_def by fastforce
      moreover have "\<exists>a. map_of (er_attempts r') (tr_authoritative_attempt t) = Some a \<and> at_trial a = k"
        if "valid (tr_authoritative_attempt t)"
        using old that owned unfolding trial_inv_def by blast
      moreover have "tr_id t = k" "tr_committed_attempts t = (if tr_state t = TS_COMPLETED then 1 else 0)"
        using old by (simp_all add: trial_inv_def)
      ultimately show ?thesis unfolding same trial_inv_def by blast
    next
      case False
      then show ?thesis using old owned t st by (auto simp: trial_inv_def dest: executing_live)
    qed
  qed
  moreover have "attempt_inv (er_trials r') j a'" if "map_of (er_attempts r') j = Some a'" for j a'
  proof -
    obtain a where a: "map_of (er_attempts r) j = Some a" "a' = (if \<not> Q a \<or> is_attempt_terminal (at_state a) then a
       else a\<lparr>at_state := ast, at_failure_kind := kind', at_failure_detail := detail', at_updated_sequence := s'\<rparr>)"
      using \<open>map_of (er_attempts r') j = Some a'\<close> unfolding attempts map_of_close_attempts by blast
    have old: "attempt_inv (er_trials r) j a" using inv a(1) by (rule rec_inv_attempt)
    then obtain t where t: "map_of (er_trials r) (at_trial a) = Some t"
      by (auto simp: attempt_inv_def)
    define t' where "t' = (if \<not> P t \<or> is_terminal (tr_state t) then t
       else t\<lparr>tr_state := st, tr_failure_kind := kind, tr_failure_detail := detail, tr_updated_sequence := s\<rparr>)"
    have t': "map_of (er_trials r') (at_trial a) = Some t'"
      using t unfolding trials map_of_close_trials t'_def by blast
    show ?thesis
      using old a t t' agree [OF a(1) _ t] ast
      unfolding attempt_inv_def live_attempt_def live_trial_def t'_def by (auto split: if_splits dest: holding_live)
  qed
  ultimately show ?thesis
    using inv unfolding rec_inv_def trials attempts by simp
qed

lemma close_evolves:
  assumes "er_trials r' = close_trials P st kind detail s (er_trials r)"
    and "er_attempts r' = close_attempts Q ast kind' detail' s' (er_attempts r)"
    and "ed_id (er_definition r') = ed_id (er_definition r)"
    and "prefix (er_observations r) (er_observations r')" and "prefix (er_decisions r) (er_decisions r')"
    and "prefix (er_rollback_points r) (er_rollback_points r')"
    and "prefix (er_hypothesis_history r) (er_hypothesis_history r')"
  shows "evolves r r'"
  unfolding evolves_def
  using assms
  by (auto simp: map_of_close_trials map_of_close_attempts trial_later_def attempt_later_def)

lemmas close_lemmas = close_rec_inv close_evolves

section \<open>The invariant of the coordinator\<close>

definition ids_bounded :: "coordinator_state \<Rightarrow> experiment_record \<Rightarrow> bool" where
  "ids_bounded s r \<longleftrightarrow>
     (\<forall>k \<in> fst ` set (er_trials r). id_value k \<le> cs_id_watermark_trial s) \<and>
     (\<forall>j \<in> fst ` set (er_attempts r). id_value j \<le> cs_id_watermark_attempt s)"

definition state_inv :: "coordinator_state \<Rightarrow> bool" where
  "state_inv s \<longleftrightarrow>
     omap_ordered (cs_experiments s) \<and>
     (\<forall>k \<in> fst ` set (cs_experiments s). id_value k \<le> cs_id_watermark_experiment s) \<and>
     (\<forall>k r. map_of (cs_experiments s) k = Some r \<longrightarrow>
        ed_id (er_definition r) = k \<and> rec_inv r \<and> ids_bounded s r)"

definition state_advances :: "coordinator_state \<Rightarrow> coordinator_state \<Rightarrow> bool" where
  "state_advances s s' \<longleftrightarrow>
     (\<forall>k r. map_of (cs_experiments s) k = Some r \<longrightarrow>
        (\<exists>r'. map_of (cs_experiments s') k = Some r' \<and> evolves r r'))"

text \<open>The state in memory and the state on disk both satisfy the invariant.\<close>

definition coord_inv :: "impl \<Rightarrow> bool" where
  "coord_inv im \<longleftrightarrow> state_inv (im_state im) \<and> (\<forall>d. im_disk im = Some d \<longrightarrow> state_inv d)"

text \<open>The image on disk is left alone or replaced by one of a state no older than the present one.\<close>

definition disk_follows :: "impl \<Rightarrow> impl \<Rightarrow> bool" where
  "disk_follows im im' \<longleftrightarrow>
     im_disk im' = im_disk im \<or> (\<exists>d. im_disk im' = Some d \<and> state_advances (im_state im) d)"

definition sound :: "impl \<Rightarrow> impl \<Rightarrow> bool" where
  "sound im im' \<longleftrightarrow>
     (coord_inv im \<longrightarrow> coord_inv im' \<and> state_advances (im_state im) (im_state im') \<and> disk_follows im im')"

definition watermarks_grow :: "coordinator_state \<Rightarrow> coordinator_state \<Rightarrow> bool" where
  "watermarks_grow s s' \<longleftrightarrow>
     cs_id_watermark_experiment s \<le> cs_id_watermark_experiment s' \<and>
     cs_id_watermark_trial s \<le> cs_id_watermark_trial s' \<and>
     cs_id_watermark_attempt s \<le> cs_id_watermark_attempt s'"

lemma state_advances_refl [simp]: "state_advances s s"
  by (auto simp: state_advances_def)

lemma state_advances_trans: "state_advances s t \<Longrightarrow> state_advances t u \<Longrightarrow> state_advances s u"
  unfolding state_advances_def by (meson evolves_trans)

lemma disk_follows_same [simp]: "im_disk im' = im_disk im \<Longrightarrow> disk_follows im im'"
  by (simp add: disk_follows_def)

lemma disk_follows_trans:
  "disk_follows a b \<Longrightarrow> state_advances (im_state a) (im_state b) \<Longrightarrow> disk_follows b c \<Longrightarrow> disk_follows a c"
  unfolding disk_follows_def using state_advances_trans by metis

lemma disk_frame [simp]:
  "im_disk (put_experiment k r im) = im_disk im" "im_disk (erase_experiment k im) = im_disk im"
  "im_disk (unindex_observation k ob im) = im_disk im" "im_disk (unindex_artifact k ar im) = im_disk im"
  by (simp_all add: put_experiment_def erase_experiment_def unindex_observation_def unindex_artifact_def)

lemma sound_refl [simp]: "sound im im"
  by (simp add: sound_def)

lemma sound_trans: "sound a b \<Longrightarrow> sound b c \<Longrightarrow> sound a c"
  unfolding sound_def using state_advances_trans disk_follows_trans by blast

lemma sound_core: "im_state im' = im_state im \<Longrightarrow> im_disk im' = im_disk im \<Longrightarrow> sound im im'"
  by (simp add: sound_def coord_inv_def)

lemma sound_persist: "sound im (snd (persist_locked im))"
  using persist_locked_disk [of im] by (auto simp: sound_def coord_inv_def disk_follows_def)

lemma sound_notify: "sound im (notify_event e im)" "sound im (notify_decision d im)"
  by (simp_all add: sound_core)

lemma ids_bounded_mono: "ids_bounded s r \<Longrightarrow> watermarks_grow s s' \<Longrightarrow> ids_bounded s' r"
  by (auto simp: ids_bounded_def watermarks_grow_def intro: order_trans)

text \<open>Counters moved and nothing else.\<close>

lemma sound_counters:
  assumes "cs_experiments (im_state im') = cs_experiments (im_state im)" and "im_disk im' = im_disk im"
    and "watermarks_grow (im_state im) (im_state im')"
  shows "sound im im'"
proof -
  have "state_inv (im_state im')" if "state_inv (im_state im)"
    using that assms ids_bounded_mono [OF _ assms(3)] unfolding state_inv_def watermarks_grow_def
    by (auto intro: order_trans)
  then show ?thesis using assms by (simp add: sound_def coord_inv_def state_advances_def)
qed

text \<open>One record replaced.\<close>

lemma sound_put:
  assumes exps: "cs_experiments (im_state im') = omap_put k r' (cs_experiments (im_state im))"
    and disk: "im_disk im' = im_disk im" and grow: "watermarks_grow (im_state im) (im_state im')"
    and find: "find_experiment im k = Some r"
    and new: "coord_inv im \<Longrightarrow> rec_inv r' \<and> evolves r r' \<and> ids_bounded (im_state im') r'"
  shows "sound im im'"
  unfolding sound_def
proof (intro impI conjI)
  assume inv: "coord_inv im"
  let ?s = "im_state im" and ?s' = "im_state im'"
  have old: "omap_ordered (cs_experiments ?s)" "map_of (cs_experiments ?s) k = Some r"
    "ed_id (er_definition r) = k"
    using inv find by (auto simp: coord_inv_def state_inv_def find_experiment_def)
  then have key: "k \<in> fst ` set (cs_experiments ?s)" by (metis map_of_eq_None_iff option.discI)
  have "state_inv ?s'"
    unfolding state_inv_def
  proof (intro conjI allI impI ballI)
    show "omap_ordered (cs_experiments ?s')" using old exps by (simp add: omap_ordered_put)
  next
    fix k' assume "k' \<in> fst ` set (cs_experiments ?s')"
    then have "k' \<in> fst ` set (cs_experiments ?s)" using exps key by auto
    then show "id_value k' \<le> cs_id_watermark_experiment ?s'"
      using inv grow by (auto simp: coord_inv_def state_inv_def watermarks_grow_def intro: order_trans)
  next
    fix k' u assume u: "map_of (cs_experiments ?s') k' = Some u"
    have new': "rec_inv r'" "evolves r r'" "ids_bounded ?s' r'" using new inv by auto
    have "u = r' \<and> k' = k \<or> map_of (cs_experiments ?s) k' = Some u"
      using u exps by (auto split: if_splits)
    then have "ed_id (er_definition u) = k' \<and> rec_inv u \<and> ids_bounded ?s' u"
    proof
      assume "map_of (cs_experiments ?s) k' = Some u"
      then show ?thesis using inv ids_bounded_mono [OF _ grow] by (auto simp: coord_inv_def state_inv_def)
    qed (use new' old in \<open>simp add: evolves_def\<close>)
    then show "ed_id (er_definition u) = k'" "rec_inv u" "ids_bounded ?s' u" by auto
  qed
  then show "coord_inv im'" using inv disk by (simp add: coord_inv_def)
  show "state_advances ?s ?s'"
    using old exps new inv by (auto simp: state_advances_def)
  show "disk_follows im im'" using disk by simp
qed

text \<open>The shared end of the operations.\<close>

lemma sound_commit_result:
  assumes step: "sound im im1"
    and undo: "\<And>i. im_state i = im_state im1 \<Longrightarrow> coord_inv im \<Longrightarrow> coord_inv i \<Longrightarrow>
        coord_inv (undo i) \<and> state_advances (im_state im) (im_state (undo i))"
    and kept: "\<And>i. im_disk (undo i) = im_disk i"
    and quiet: "\<And>i. im_state (note i) = im_state i \<and> im_disk (note i) = im_disk i"
  shows "sound im (snd (commit_result undo note v im1))"
proof -
  obtain p i where p: "persist_locked im1 = (p, i)" by fastforce
  have state: "im_state i = im_state im1" using persist_locked_frame(3) [of im1] p by simp
  have i: "sound im1 i" using sound_persist [of im1] p by simp
  have "sound im (note i)" using sound_trans [OF step i] quiet [of i] sound_core sound_trans by blast
  moreover have "sound im (undo i)"
    using sound_trans [OF step i] undo [OF state] kept [of i] unfolding sound_def disk_follows_def by metis
  ultimately show ?thesis using p by (simp add: commit_result_def)
qed

lemma commit_status_result:
  "snd (commit_status undo note im) = snd (commit_result undo note () im)"
  by (simp add: commit_status_def commit_result_def split: prod.split)

lemma sound_commit_plain:
  assumes "sound im im1" and "\<And>i. im_state (note i) = im_state i \<and> im_disk (note i) = im_disk i"
  shows "sound im (snd (commit_result (\<lambda>i. i) note v im1))" "sound im (snd (commit_status (\<lambda>i. i) note im1))"
proof -
  show "sound im (snd (commit_result (\<lambda>i. i) note v im1))" for v :: 'b
    using assms by (intro sound_commit_result) (auto simp: sound_def)
  then show "sound im (snd (commit_status (\<lambda>i. i) note im1))" unfolding commit_status_result .
qed

section \<open>The contract of an operation on one record\<close>

locale record_update =
  fixes f :: "experiment_record \<Rightarrow> experiment_record" and pre :: "experiment_record \<Rightarrow> bool"
  assumes keeps: "rec_inv r \<Longrightarrow> pre r \<Longrightarrow> rec_inv (f r)"
    and grows: "rec_inv r \<Longrightarrow> pre r \<Longrightarrow> evolves r (f r)"
    and keys: "rec_inv r \<Longrightarrow> pre r \<Longrightarrow>
      fst ` set (er_trials (f r)) = fst ` set (er_trials r) \<and>
      fst ` set (er_attempts (f r)) = fst ` set (er_attempts r)"
begin

lemma lift:
  assumes "find_experiment im k = Some r" and "pre r"
    and "cs_experiments (im_state im') = omap_put k (f r) (cs_experiments (im_state im))"
    and "im_disk im' = im_disk im" and "watermarks_grow (im_state im) (im_state im')"
  shows "sound im im'"
proof (rule sound_put [OF assms(3,4,5,1)])
  assume "coord_inv im"
  then have "rec_inv r" "ids_bounded (im_state im) r"
    using assms(1) by (auto simp: coord_inv_def state_inv_def find_experiment_def)
  then show "rec_inv (f r) \<and> evolves r (f r) \<and> ids_bounded (im_state im') (f r)"
    using keeps grows keys assms(2) ids_bounded_mono [OF _ assms(5)] by (auto simp: ids_bounded_def)
qed

lemma sound_put_sequence:
  assumes "find_experiment im k = Some r" and "pre r"
  shows "sound im (put_experiment k (f r) (im\<lparr>im_state := (im_state im)\<lparr>cs_last_sequence := v\<rparr>\<rparr>))"
  by (rule lift [OF assms]) (simp_all add: put_experiment_def watermarks_grow_def)

end

lemma watermarks_grow_same [simp]: "watermarks_grow s s"
  by (simp add: watermarks_grow_def)

lemma watermarks_grow_updates [simp]:
  "watermarks_grow s (s'\<lparr>cs_last_sequence := v\<rparr>) = watermarks_grow s s'"
  "watermarks_grow s (s'\<lparr>cs_experiments := e\<rparr>) = watermarks_grow s s'"
  "watermarks_grow s (s'\<lparr>cs_id_watermark_hypothesis := v\<rparr>) = watermarks_grow s s'"
  "watermarks_grow s (s'\<lparr>cs_id_watermark_metric := v\<rparr>) = watermarks_grow s s'"
  "watermarks_grow s (s'\<lparr>cs_id_watermark_policy := v\<rparr>) = watermarks_grow s s'"
  "watermarks_grow s (s'\<lparr>cs_id_watermark_branch := v\<rparr>) = watermarks_grow s s'"
  "watermarks_grow s (s'\<lparr>cs_id_watermark_observation := v\<rparr>) = watermarks_grow s s'"
  "watermarks_grow s (s'\<lparr>cs_id_watermark_artifact := v\<rparr>) = watermarks_grow s s'"
  "watermarks_grow s (s'\<lparr>cs_id_watermark_decision := v\<rparr>) = watermarks_grow s s'"
  "watermarks_grow s (s'\<lparr>cs_id_watermark_rollback := v\<rparr>) = watermarks_grow s s'"
  "watermarks_grow s (s'\<lparr>cs_workers := w\<rparr>) = watermarks_grow s s'"
  "watermarks_grow s (s'\<lparr>cs_next_worker_registration_sequence := v\<rparr>) = watermarks_grow s s'"
  by (simp_all add: watermarks_grow_def)

lemma watermarks_grow_trans: "watermarks_grow s t \<Longrightarrow> watermarks_grow t u \<Longrightarrow> watermarks_grow s u"
  by (auto simp: watermarks_grow_def intro: order_trans)

end
