(* ===== verification/Safety.thy ===== *)
theory Safety
  imports Governance Decision
begin

text \<open>
  Every operation of the coordinator keeps the invariant of \<open>Governance\<close> and only lets records
  evolve. The updates that the operations make to one record are interpretations of the locale
  \<open>record_update\<close>; the operations themselves are \<open>sound\<close>.
\<close>

section \<open>Shapes of record updates\<close>

text \<open>An update that leaves trials and attempts alone.\<close>

lemma quiet_update:
  assumes "er_trials r' = er_trials r" and "er_attempts r' = er_attempts r"
    and "ed_id (er_definition r') = ed_id (er_definition r)"
    and "prefix (er_observations r) (er_observations r')" and "prefix (er_decisions r) (er_decisions r')"
    and "prefix (er_rollback_points r) (er_rollback_points r')"
    and "prefix (er_hypothesis_history r) (er_hypothesis_history r')"
  shows "rec_inv r \<Longrightarrow> rec_inv r'" and "evolves r r'"
  using assms by (auto simp: rec_inv_def evolves_def)

text \<open>The only live attempt of a trial is its authoritative one.\<close>

lemma live_attempt_unique:
  assumes "rec_inv r" and "map_of (er_attempts r) j = Some a" and "live_attempt a"
    and "map_of (er_trials r) (at_trial a) = Some t"
  shows "live_trial t" and "tr_authoritative_attempt t = j" and "holding (tr_state t)"
  using rec_inv_attempt [OF assms(1,2)] assms(3,4) by (auto simp: attempt_inv_def live_trial_def dest: holding_live)

text \<open>
  A live trial leaves execution and all its live attempts are closed.
\<close>

lemma close_one_rec_inv:
  assumes inv: "rec_inv r" and k: "map_of (er_trials r) k = Some t" "live_trial t"
    and t': "tr_id t' = tr_id t" "tr_branch t' = tr_branch t" "tr_committed_attempts t' = tr_committed_attempts t"
      "tr_authoritative_attempt t' = tr_authoritative_attempt t \<or> \<not> valid (tr_authoritative_attempt t')"
      "\<not> executing (tr_state t')" "tr_state t' \<noteq> TS_COMPLETED"
    and g: "\<And>j a. at_id (g j a) = at_id a \<and> at_trial (g j a) = at_trial a \<and> at_branch (g j a) = at_branch a \<and>
        at_committed (g j a) = at_committed a \<and> \<not> live_attempt (g j a) \<and> at_state (g j a) \<noteq> AS_COMPLETED"
    and trials: "map_of (er_trials r') = (map_of (er_trials r))(k \<mapsto> t')" "omap_ordered (er_trials r')"
    and attempts: "\<And>j. map_of (er_attempts r') j =
        map_option (\<lambda>a. if at_trial a = k \<and> live_attempt a then g j a else a) (map_of (er_attempts r) j)"
      "omap_ordered (er_attempts r')"
  shows "rec_inv r'"
proof -
  have not_completed: "tr_state t \<noteq> TS_COMPLETED" using k(2) by (auto simp: live_trial_def)
  have "trial_inv (er_attempts r') m u" if u: "map_of (er_trials r') m = Some u" for m u
  proof (cases "m = k")
    case True
    then have "u = t'" using u trials by simp
    moreover have "\<exists>b. map_of (er_attempts r') j = Some b \<and> at_trial b = k"
      if "map_of (er_attempts r) j = Some a" "at_trial a = k" for j a
      using that attempts(1) g by auto
    ultimately show ?thesis
      using rec_inv_trial [OF inv k(1)] True t' not_completed by (auto simp: trial_inv_def)
  next
    case False
    then have old: "map_of (er_trials r) m = Some u" using u trials by simp
    have keep: "map_of (er_attempts r') j = Some a" if "map_of (er_attempts r) j = Some a" "at_trial a = m" for j a
      using that attempts(1) False by simp
    show ?thesis using rec_inv_trial [OF inv old] keep unfolding trial_inv_def by blast
  qed
  moreover have "attempt_inv (er_trials r') j b" if b: "map_of (er_attempts r') j = Some b" for j b
  proof -
    obtain a where a: "map_of (er_attempts r) j = Some a"
      "b = (if at_trial a = k \<and> live_attempt a then g j a else a)"
      using b attempts(1) by auto
    have old: "attempt_inv (er_trials r) j a" by (rule rec_inv_attempt [OF inv a(1)])
    show ?thesis
    proof (cases "at_trial a = k")
      case True
      then have "\<not> at_committed a" using old k not_completed by (auto simp: attempt_inv_def)
      then show ?thesis
        using old a(2) True g [of j a] k t' trials(1) by (auto simp: attempt_inv_def)
    next
      case False
      then show ?thesis using old a(2) trials(1) by (auto simp: attempt_inv_def)
    qed
  qed
  ultimately show ?thesis using trials(2) attempts(2) by (simp add: rec_inv_def)
qed

text \<open>A live trial and its live authoritative attempt advance together.\<close>

lemma advance_one_rec_inv:
  assumes inv: "rec_inv r" and k: "map_of (er_trials r) k = Some t" "live_trial t"
    and j: "map_of (er_attempts r) j = Some a" "at_trial a = k" "live_attempt a"
    and t': "tr_id t' = tr_id t" "tr_branch t' = tr_branch t" "tr_authoritative_attempt t' = j"
      "tr_committed_attempts t' = (if tr_state t' = TS_COMPLETED then 1 else 0)"
    and a': "at_id a' = at_id a" "at_trial a' = k" "at_branch a' = at_branch a"
      "at_committed a' = (at_state a' = AS_COMPLETED)"
    and both: "executing (tr_state t') \<Longrightarrow> live_attempt a'"
      "(tr_state t' = TS_COMPLETED) = (at_state a' = AS_COMPLETED)" "live_attempt a' \<Longrightarrow> holding (tr_state t')"
    and trials: "map_of (er_trials r') = (map_of (er_trials r))(k \<mapsto> t')" "omap_ordered (er_trials r')"
    and attempts: "map_of (er_attempts r') = (map_of (er_attempts r))(j \<mapsto> a')" "omap_ordered (er_attempts r')"
  shows "rec_inv r'"
proof -
  have not_completed: "tr_state t \<noteq> TS_COMPLETED" using k(2) by (auto simp: live_trial_def)
  have auth: "tr_authoritative_attempt t = j" using live_attempt_unique [OF inv j(1,3)] j k by simp
  have "trial_inv (er_attempts r') m u" if u: "map_of (er_trials r') m = Some u" for m u
  proof (cases "m = k")
    case True
    then have "u = t'" using u trials by simp
    then show ?thesis
      using rec_inv_trial [OF inv k(1)] True t' a' both attempts(1) by (auto simp: trial_inv_def)
  next
    case False
    then have old: "map_of (er_trials r) m = Some u" using u trials by simp
    have "tr_authoritative_attempt u \<noteq> j \<or>
        \<not> valid (tr_authoritative_attempt u) \<and> \<not> executing (tr_state u) \<and> tr_state u \<noteq> TS_COMPLETED"
      using rec_inv_trial [OF inv old] j False by (auto simp: trial_inv_def)
    then show ?thesis using rec_inv_trial [OF inv old] attempts(1) by (auto simp: trial_inv_def)
  qed
  moreover have "attempt_inv (er_trials r') i b" if b: "map_of (er_attempts r') i = Some b" for i b
  proof (cases "i = j")
    case True
    then have "b = a'" using b attempts by simp
    then show ?thesis
      using rec_inv_attempt [OF inv j(1)] True a' t' both trials(1) j(2) k(1) by (auto simp: attempt_inv_def)
  next
    case False
    then have old: "attempt_inv (er_trials r) i b" using b attempts(1) rec_inv_attempt [OF inv] by simp
    show ?thesis
    proof (cases "at_trial b = k")
      case True
      then have "\<not> live_attempt b \<and> \<not> at_committed b" using old k auth False not_completed by (auto simp: attempt_inv_def)
      then show ?thesis using old True k t' trials(1) by (auto simp: attempt_inv_def)
    next
      case False
      then show ?thesis using old trials(1) by (auto simp: attempt_inv_def)
    qed
  qed
  ultimately show ?thesis using trials(2) attempts(2) by (simp add: rec_inv_def)
qed

lemma evolvesI:
  assumes "ed_id (er_definition r') = ed_id (er_definition r)"
    and "\<And>k t. map_of (er_trials r) k = Some t \<Longrightarrow> \<exists>t'. map_of (er_trials r') k = Some t' \<and> trial_later t t'"
    and "\<And>j a. map_of (er_attempts r) j = Some a \<Longrightarrow> \<exists>a'. map_of (er_attempts r') j = Some a' \<and> attempt_later a a'"
    and "prefix (er_observations r) (er_observations r')" and "prefix (er_decisions r) (er_decisions r')"
    and "prefix (er_rollback_points r) (er_rollback_points r')"
    and "prefix (er_hypothesis_history r) (er_hypothesis_history r')"
  shows "evolves r r'"
  using assms by (simp add: evolves_def)

lemma keys_of_lookup:
  "(\<And>k. map_of m' k = None \<longleftrightarrow> map_of m k = None) \<Longrightarrow> fst ` set m' = fst ` set m"
  by (auto simp: map_of_eq_None_iff)

section \<open>Updates that close live work\<close>

interpretation abandon: record_update "abandon_stale_live_work s" "\<lambda>r. True"
proof unfold_locales
  fix r assume inv: "rec_inv r"
  show "rec_inv (abandon_stale_live_work s r)"
    by (rule close_rec_inv [OF inv, where P = "\<lambda>t. True" and Q = "\<lambda>a. True"])
      (simp_all add: abandon_stale_live_work_def)
  show "evolves r (abandon_stale_live_work s r)"
    by (rule close_evolves) (simp_all add: abandon_stale_live_work_def)
  show "fst ` set (er_trials (abandon_stale_live_work s r)) = fst ` set (er_trials r) \<and>
      fst ` set (er_attempts (abandon_stale_live_work s r)) = fst ` set (er_attempts r)"
    by (simp add: abandon_stale_live_work_def)
qed

interpretation revise: record_update "revise_record spec s" "\<lambda>r. True"
proof unfold_locales
  fix r assume inv: "rec_inv r"
  note defs = revise_record_def supersede_hypothesis_def abandon_stale_live_work_def Let_def
  show "rec_inv (revise_record spec s r)"
    by (rule close_rec_inv [OF inv, where P = "\<lambda>t. True" and Q = "\<lambda>a. True"]) (simp_all add: defs)
  show "evolves r (revise_record spec s r)"
    by (rule close_evolves) (simp_all add: defs)
  show "fst ` set (er_trials (revise_record spec s r)) = fst ` set (er_trials r) \<and>
      fst ` set (er_attempts (revise_record spec s r)) = fst ` set (er_attempts r)"
    by (simp add: defs)
qed

interpretation retire: record_update "retire_record branch reason s" "\<lambda>r. True"
proof unfold_locales
  fix r assume inv: "rec_inv r"
  note defs = retire_record_def Let_def
  show "rec_inv (retire_record branch reason s r)"
  proof (rule close_rec_inv [OF inv, where P = "\<lambda>t. tr_branch t = branch" and Q = "\<lambda>a. at_branch a = branch"])
    fix j a t
    assume "map_of (er_attempts r) j = Some a" "map_of (er_trials r) (at_trial a) = Some t"
    then show "(at_branch a = branch) = (tr_branch t = branch)"
      using rec_inv_attempt [OF inv] by (fastforce simp: attempt_inv_def)
  qed (simp_all add: defs)
  show "evolves r (retire_record branch reason s r)"
    by (rule close_evolves) (simp_all add: defs)
  show "fst ` set (er_trials (retire_record branch reason s r)) = fst ` set (er_trials r) \<and>
      fst ` set (er_attempts (retire_record branch reason s r)) = fst ` set (er_attempts r)"
    by (simp add: defs)
qed

interpretation cancel_all: record_update "cancel_experiment_record reason s" "\<lambda>r. True"
proof unfold_locales
  fix r assume inv: "rec_inv r"
  show "rec_inv (cancel_experiment_record reason s r)"
    by (rule close_rec_inv [OF inv, where P = "\<lambda>t. True" and Q = "\<lambda>a. True"])
      (simp_all add: cancel_experiment_record_def)
  show "evolves r (cancel_experiment_record reason s r)"
    by (rule close_evolves) (simp_all add: cancel_experiment_record_def)
  show "fst ` set (er_trials (cancel_experiment_record reason s r)) = fst ` set (er_trials r) \<and>
      fst ` set (er_attempts (cancel_experiment_record reason s r)) = fst ` set (er_attempts r)"
    by (simp add: cancel_experiment_record_def)
qed

definition has_live_trial :: "trial_id \<Rightarrow> experiment_record \<Rightarrow> bool" where
  "has_live_trial k r \<longleftrightarrow> (\<exists>t. map_of (er_trials r) k = Some t \<and> live_trial t)"

lemma fst_set_omap_modify [simp]: "fst ` set (omap_modify k f m) = fst ` set m"
  by (rule keys_of_lookup) (auto simp: map_of_omap_modify)

interpretation cancel_one: record_update "cancel_trial_record k reason s" "has_live_trial k"
proof unfold_locales
  fix r assume inv: "rec_inv r" and "has_live_trial k r"
  then obtain t where t: "map_of (er_trials r) k = Some t" "live_trial t" by (auto simp: has_live_trial_def)
  let ?r = "cancel_trial_record k reason s r"
  have ordered: "omap_ordered (er_trials r)" "omap_ordered (er_attempts r)" using inv by (auto simp: rec_inv_def)
  let ?t = "t\<lparr>tr_state := TS_CANCELLED, tr_failure_kind := FK_CANCELLATION, tr_failure_detail := reason,
      tr_updated_sequence := s\<rparr>"
  let ?g = "\<lambda>j a. a\<lparr>at_state := AS_CANCELLED, at_failure_kind := FK_CANCELLATION, at_failure_detail := reason,
      at_updated_sequence := s\<rparr>"
  have trials: "map_of (er_trials ?r) = (map_of (er_trials r))(k \<mapsto> ?t)"
    using t by (auto simp: cancel_trial_record_def omap_modify_def)
  have attempts: "map_of (er_attempts ?r) j =
      map_option (\<lambda>a. if at_trial a = k \<and> live_attempt a then ?g j a else a) (map_of (er_attempts r) j)" for j
    by (cases "map_of (er_attempts r) j")
      (auto simp: cancel_trial_record_def close_attempts_def live_attempt_def)
  show "rec_inv ?r"
  proof (rule close_one_rec_inv [OF inv t _ _ _ _ _ _ _ trials _ attempts])
    show "at_id (?g j a) = at_id a \<and> at_trial (?g j a) = at_trial a \<and> at_branch (?g j a) = at_branch a \<and>
        at_committed (?g j a) = at_committed a \<and> \<not> live_attempt (?g j a) \<and> at_state (?g j a) \<noteq> AS_COMPLETED" for j a
      by (simp add: live_attempt_def)
  qed (use ordered in \<open>simp_all add: cancel_trial_record_def omap_ordered_modify\<close>)
  show "evolves r ?r"
  proof (rule evolvesI)
    show "\<exists>u. map_of (er_trials ?r) m = Some u \<and> trial_later v u" if "map_of (er_trials r) m = Some v" for m v
      using that t trials by (auto simp: trial_later_def live_trial_def)
    show "\<exists>b. map_of (er_attempts ?r) j = Some b \<and> attempt_later a b" if "map_of (er_attempts r) j = Some a" for j a
      using that attempts [of j] by (auto simp: attempt_later_def live_attempt_def)
  qed (simp_all add: cancel_trial_record_def)
  show "fst ` set (er_trials ?r) = fst ` set (er_trials r) \<and> fst ` set (er_attempts ?r) = fst ` set (er_attempts r)"
    by (simp add: cancel_trial_record_def)
qed

section \<open>Losing a worker\<close>

interpretation lose_one: record_update "lose_attempt w b kind ad td s j" "\<lambda>r. True"
proof unfold_locales
  fix r assume inv: "rec_inv r"
  let ?r = "lose_attempt w b kind ad td s j r"
  have goal: "rec_inv ?r \<and> evolves r ?r \<and> fst ` set (er_trials ?r) = fst ` set (er_trials r) \<and>
      fst ` set (er_attempts ?r) = fst ` set (er_attempts r)"
  proof (cases "\<exists>a. map_of (er_attempts r) j = Some a \<and> held_by w b a")
    case False
    then have "?r = r" by (auto simp: lose_attempt_def split: option.split)
    with inv show ?thesis by simp
  next
    case True
    then obtain a where a: "map_of (er_attempts r) j = Some a" "held_by w b a" by blast
    then have live: "live_attempt a" by (simp add: held_by_def live_attempt_def)
    have id: "at_id a = j" using rec_inv_attempt [OF inv a(1)] by (simp add: attempt_inv_def)
    obtain t where t: "map_of (er_trials r) (at_trial a) = Some t" "live_trial t" "tr_authoritative_attempt t = j"
      using rec_inv_attempt [OF inv a(1)] live by (auto simp: attempt_inv_def live_trial_def dest: holding_live)
    let ?t = "lose_trial (er_definition r) kind td s t"
    let ?a = "a\<lparr>at_state := AS_ABANDONED, at_failure_kind := kind, at_failure_detail := ad, at_updated_sequence := s\<rparr>"
    have r: "?r = r\<lparr>er_attempts := omap_put j ?a (er_attempts r), er_trials := omap_put (at_trial a) ?t (er_trials r)\<rparr>"
      using a t id by (simp add: lose_attempt_def Let_def live_trial_def)
    have ordered: "omap_ordered (er_trials r)" "omap_ordered (er_attempts r)" using inv by (auto simp: rec_inv_def)
    let ?g = "\<lambda>i c. c\<lparr>at_state := AS_ABANDONED, at_failure_kind := kind, at_failure_detail := ad, at_updated_sequence := s\<rparr>"
    have only: "i = j" if "map_of (er_attempts r) i = Some c" "at_trial c = at_trial a" "live_attempt c" for i c
      using live_attempt_unique(2) [OF inv that(1,3)] that(2) t by simp
    have attempts: "map_of (er_attempts ?r) i =
        map_option (\<lambda>c. if at_trial c = at_trial a \<and> live_attempt c then ?g i c else c) (map_of (er_attempts r) i)" for i
      using a live only [of i] by (cases "map_of (er_attempts r) i") (auto simp: r)
    have trials: "map_of (er_trials ?r) = (map_of (er_trials r))(at_trial a \<mapsto> ?t)" by (simp add: r)
    have "rec_inv ?r"
    proof (rule close_one_rec_inv [OF inv t(1,2) _ _ _ _ _ _ _ trials _ attempts])
      show "at_id (?g i c) = at_id c \<and> at_trial (?g i c) = at_trial c \<and> at_branch (?g i c) = at_branch c \<and>
        at_committed (?g i c) = at_committed c \<and> \<not> live_attempt (?g i c) \<and> at_state (?g i c) \<noteq> AS_COMPLETED" for i c
        by (simp add: live_attempt_def)
    qed (use ordered in \<open>simp_all add: r omap_ordered_put lose_trial_def Let_def\<close>)
    moreover have "evolves r ?r"
    proof (rule evolvesI)
      show "\<exists>u. map_of (er_trials ?r) m = Some u \<and> trial_later v u" if "map_of (er_trials r) m = Some v" for m v
        using that t trials by (auto simp: trial_later_def live_trial_def lose_trial_def Let_def)
      show "\<exists>d. map_of (er_attempts ?r) i = Some d \<and> attempt_later c d" if "map_of (er_attempts r) i = Some c" for i c
        using that attempts [of i] by (auto simp: attempt_later_def live_attempt_def)
    qed (simp_all add: r)
    moreover have "at_trial a \<in> fst ` set (er_trials r)" "j \<in> fst ` set (er_attempts r)"
      using t(1) a(1) by (metis map_of_eq_None_iff option.discI)+
    ultimately show ?thesis by (simp add: r insert_absorb)
  qed
  then show "rec_inv ?r" "evolves r ?r" and "fst ` set (er_trials ?r) = fst ` set (er_trials r) \<and>
      fst ` set (er_attempts ?r) = fst ` set (er_attempts r)"
    by auto
qed

lemma record_update_id: "record_update (\<lambda>r. r) (\<lambda>r. True)"
  by unfold_locales auto

lemma record_update_comp:
  assumes f: "record_update f pre" and g: "record_update g (\<lambda>r. True)"
  shows "record_update (\<lambda>r. g (f r)) pre"
proof unfold_locales
  fix r assume r: "rec_inv r" "pre r"
  then have f': "rec_inv (f r)" "evolves r (f r)"
    using record_update.keeps [OF f] record_update.grows [OF f] by auto
  then show "rec_inv (g (f r))" using record_update.keeps [OF g] by auto
  show "evolves r (g (f r))" using f' record_update.grows [OF g f'(1)] evolves_trans by blast
  show "fst ` set (er_trials (g (f r))) = fst ` set (er_trials r) \<and>
      fst ` set (er_attempts (g (f r))) = fst ` set (er_attempts r)"
    using record_update.keys [OF f r] record_update.keys [OF g f'(1)] by auto
qed

lemma record_update_fold:
  assumes "\<And>i. record_update (f i) (\<lambda>r. True)"
  shows "record_update (fold f xs) (\<lambda>r. True)"
proof (induction xs)
  case Nil
  then show ?case using record_update_id by (simp add: id_def)
next
  case (Cons x xs)
  then show ?case using record_update_comp [OF assms [of x] Cons] by (simp add: comp_def)
qed

lemma record_update_log: "record_update (log_line line) (\<lambda>r. True)"
  by unfold_locales (auto simp: quiet_update(2) intro: quiet_update)

lemma record_update_lose_worker: "record_update (lose_worker w b kind ad td line s) (\<lambda>r. True)"
proof -
  have fold: "record_update (fold (lose_attempt w b kind ad td s) js) (\<lambda>r. True)" for js
    by (rule record_update_fold) (rule lose_one.record_update_axioms)
  show ?thesis
  proof unfold_locales
    fix r assume inv: "rec_inv r"
    let ?js = "map fst (er_attempts r)"
    show "rec_inv (lose_worker w b kind ad td line s r)" "evolves r (lose_worker w b kind ad td line s r)"
      using record_update.keeps [OF fold inv] record_update.grows [OF fold inv]
      by (auto simp: lose_worker_def Let_def)
    show "fst ` set (er_trials (lose_worker w b kind ad td line s r)) = fst ` set (er_trials r) \<and>
        fst ` set (er_attempts (lose_worker w b kind ad td line s r)) = fst ` set (er_attempts r)"
      using record_update.keys [OF fold inv, of ?js] by (simp add: lose_worker_def Let_def)
  qed
qed

text \<open>The contract applied to every record at once.\<close>

lemma sound_map_experiments:
  assumes f: "record_update f (\<lambda>r. True)"
  shows "sound im (map_experiments f im)"
proof -
  let ?s = "im_state im" and ?s' = "im_state (map_experiments f im)"
  have "state_inv ?s' \<and> state_advances ?s ?s'" if "state_inv ?s"
  proof
    show "state_inv ?s'"
      unfolding state_inv_def
    proof (intro conjI allI impI ballI)
      show "omap_ordered (cs_experiments ?s')" using that by (simp add: state_inv_def map_experiments_def)
      show "id_value k \<le> cs_id_watermark_experiment ?s'" if "k \<in> fst ` set (cs_experiments ?s')" for k
        using that \<open>state_inv ?s\<close> by (simp add: state_inv_def map_experiments_def flip: set_map)
      fix k u assume "map_of (cs_experiments ?s') k = Some u"
      then obtain r where r: "map_of (cs_experiments ?s) k = Some r" "u = f r"
        by (auto simp: map_experiments_def)
      then have inv: "rec_inv r" "ed_id (er_definition r) = k" "ids_bounded ?s r"
        using that by (auto simp: state_inv_def)
      then show "rec_inv u" "ed_id (er_definition u) = k"
        using r record_update.keeps [OF f inv(1)] record_update.grows [OF f inv(1)] by (auto simp: evolves_def)
      show "ids_bounded ?s' u"
        using r inv record_update.keys [OF f inv(1)] by (simp add: ids_bounded_def map_experiments_def)
    qed
    show "state_advances ?s ?s'"
      using that record_update.grows [OF f] by (auto simp: state_advances_def map_experiments_def state_inv_def)
  qed
  then show ?thesis by (simp add: sound_def coord_inv_def map_experiments_def)
qed

section \<open>Soundness of the operations\<close>

lemma sound_sequence: "sound im (im\<lparr>im_state := (im_state im)\<lparr>cs_last_sequence := v\<rparr>\<rparr>)"
  by (rule sound_counters) simp_all

lemma sound_live_workers: "sound im (im\<lparr>im_live_workers := w\<rparr>)"
  by (rule sound_core) simp_all

lemma sound_map_workers: "sound im (map_workers f im)"
  by (rule sound_counters) (simp_all add: map_workers_def)

lemma sound_index:
  "sound im (index_observation k ob i im)" "sound im (unindex_observation k ob im)"
  "sound im (index_artifact k a n im)" "sound im (unindex_artifact k a im)"
  by (rule sound_core; simp add: index_observation_def unindex_observation_def index_artifact_def unindex_artifact_def)+

lemma coord_inv_record:
  "coord_inv im \<Longrightarrow> find_experiment im k = Some r \<Longrightarrow>
     rec_inv r \<and> ed_id (er_definition r) = k \<and> ids_bounded (im_state im) r"
  by (auto simp: coord_inv_def state_inv_def find_experiment_def)

theorem sound_revise_hypothesis: "sound im (snd (revise_hypothesis k spec im))"
  by (simp add: revise_hypothesis_def Let_def case_prod_beta revise.sound_put_sequence
      sound_commit_plain(1) split: option.split)

theorem sound_retire_branch: "sound im (snd (retire_branch k branch reason im))"
  by (simp add: retire_branch_def Let_def case_prod_beta retire.sound_put_sequence
      sound_commit_plain(1) split: option.split)

theorem sound_cancel_experiment: "sound im (snd (cancel_experiment k reason im))"
  by (simp add: cancel_experiment_def Let_def case_prod_beta cancel_all.sound_put_sequence
      sound_commit_plain(2) split: option.split)

theorem sound_revoke_worker: "sound im (snd (revoke_worker w b kind reason im))"
proof -
  have "sound im (map_workers f (map_experiments (lose_worker w b kind ad td line s)
      (im\<lparr>im_live_workers := ws, im_state := (im_state im)\<lparr>cs_last_sequence := v\<rparr>\<rparr>)))" for f ad td line s v ws
  proof -
    have "sound im (im\<lparr>im_live_workers := ws, im_state := (im_state im)\<lparr>cs_last_sequence := v\<rparr>\<rparr>)"
      by (rule sound_counters) simp_all
    then show ?thesis
      by (rule sound_trans [OF sound_trans [OF _ sound_map_experiments [OF record_update_lose_worker]]
          sound_map_workers])
  qed
  then show ?thesis
    by (simp add: revoke_worker_def Let_def case_prod_beta sound_commit_plain(2) split: option.split)
qed

theorem sound_heartbeat: "sound im (snd (heartbeat q im))"
  by (simp add: heartbeat_def sound_live_workers split: option.split)

lemma find_entry: "find P m = Some (k, v) \<Longrightarrow> omap_ordered m \<Longrightarrow> map_of m k = Some v"
  by (drule find_SomeD) (simp add: omap_entry_lookup)

lemma put_ordered_sound:
  assumes "coord_inv im \<Longrightarrow> sound im im'"
  shows "sound im im'"
  using assms by (auto simp: sound_def)

theorem sound_cancel_trial: "sound im (snd (cancel_trial tid reason im))"
proof (rule put_ordered_sound)
  assume inv: "coord_inv im"
  have "sound im (put_experiment k (cancel_trial_record tid reason s r)
      (im\<lparr>im_state := (im_state im)\<lparr>cs_last_sequence := v\<rparr>\<rparr>))"
    if "find (\<lambda>e. map_of (er_trials (snd e)) tid \<noteq> None) (cs_experiments (im_state im)) = Some (k, r)"
      and "map_of (er_trials r) tid = Some t" "\<not> is_terminal (tr_state t)" for k r t s v
  proof (rule cancel_one.sound_put_sequence)
    show "find_experiment im k = Some r"
      using find_entry [OF that(1)] inv by (simp add: coord_inv_def state_inv_def find_experiment_def)
    show "has_live_trial tid r" using that by (simp add: has_live_trial_def live_trial_def)
  qed
  then show "sound im (snd (cancel_trial tid reason im))"
    by (simp add: cancel_trial_def case_prod_beta sound_commit_plain(2) split: option.split)
qed

section \<open>Updates through an accepted envelope\<close>

definition live_pair :: "trial_record \<Rightarrow> attempt_record \<Rightarrow> experiment_record \<Rightarrow> bool" where
  "live_pair t a r \<longleftrightarrow>
     map_of (er_trials r) (tr_id t) = Some t \<and> live_trial t \<and>
     map_of (er_attempts r) (at_id a) = Some a \<and> at_trial a = tr_id t \<and> live_attempt a"

lemma authority_pair:
  assumes "coord_inv im" and "holds_authority im e r t a"
  shows "live_pair t a r" and "tr_id t = ae_trial e" and "at_id a = ae_attempt e"
    and "find_experiment im (ae_experiment e) = Some r" and "rec_inv r"
    and "ed_id (er_definition r) = ae_experiment e"
proof -
  note h = assms(2) [unfolded holds_authority_def]
  show r: "find_experiment im (ae_experiment e) = Some r" using h by blast
  then show inv: "rec_inv r" and "ed_id (er_definition r) = ae_experiment e"
    using coord_inv_record [OF assms(1)] by auto
  have t: "map_of (er_trials r) (ae_trial e) = Some t" and a: "map_of (er_attempts r) (ae_attempt e) = Some a"
    using h by auto
  have auth: "tr_authoritative_attempt t = ae_attempt e" "valid (ae_attempt e)"
    using h by (auto simp: authoritative_trial_def complete_envelope_def)
  have ti: "trial_inv (er_attempts r) (ae_trial e) t" by (rule rec_inv_trial [OF inv t])
  show tid: "tr_id t = ae_trial e" using ti by (simp add: trial_inv_def)
  show aid: "at_id a = ae_attempt e" using rec_inv_attempt [OF inv a] by (simp add: attempt_inv_def)
  have "at_trial a = ae_trial e" using ti auth a by (auto simp: trial_inv_def)
  then show "live_pair t a r"
    using h t a tid aid
    by (simp add: live_pair_def live_trial_def live_attempt_def authoritative_trial_def authoritative_attempt_def)
qed

lemma live_pair_auth: "rec_inv r \<Longrightarrow> live_pair t a r \<Longrightarrow> tr_authoritative_attempt t = at_id a"
  using live_attempt_unique(2) by (fastforce simp: live_pair_def)

lemma live_pair_holding: "rec_inv r \<Longrightarrow> live_pair t a r \<Longrightarrow> holding (tr_state t)"
  using live_attempt_unique(3) by (fastforce simp: live_pair_def)

lemma live_pair_only:
  "rec_inv r \<Longrightarrow> live_pair t a r \<Longrightarrow> map_of (er_attempts r) i = Some c \<Longrightarrow> at_trial c = tr_id t \<Longrightarrow>
     live_attempt c \<Longrightarrow> i = at_id a"
  using live_attempt_unique(2) live_pair_auth by (fastforce simp: live_pair_def)

lemma live_pair_keys:
  "live_pair t a r \<Longrightarrow> tr_id t \<in> fst ` set (er_trials r) \<and> at_id a \<in> fst ` set (er_attempts r)"
  unfolding live_pair_def by (metis map_of_eq_None_iff option.discI)

lemma invalidate_branch_frame [simp]:
  "er_trials (invalidate_branch b d r) = er_trials r" "er_attempts (invalidate_branch b d r) = er_attempts r"
  "er_observations (invalidate_branch b d r) = er_observations r"
  "er_decisions (invalidate_branch b d r) = er_decisions r"
  "er_rollback_points (invalidate_branch b d r) = er_rollback_points r"
  "er_hypothesis_history (invalidate_branch b d r) = er_hypothesis_history r"
  "ed_id (er_definition (invalidate_branch b d r)) = ed_id (er_definition r)"
  by (simp_all add: invalidate_branch_def split: option.split)

interpretation failing: record_update "fail_record q t a s" "live_pair t a"
proof unfold_locales
  fix r assume inv: "rec_inv r" and pair: "live_pair t a r"
  let ?r = "fail_record q t a s r"
  let ?retry = "fl_retryable q \<and> ed_retry_policy (er_definition r) \<noteq> RP_NO_RETRY \<and>
      tr_attempt_count t < ed_max_attempts_per_trial (er_definition r)"
  let ?t = "fail_trial_record ?retry (fl_kind q) (fl_detail q) s t"
  let ?g = "\<lambda>i c. c\<lparr>at_state := AS_FAILED, at_failure_kind := fl_kind q, at_failure_detail := fl_detail q,
      at_updated_sequence := s\<rparr>"
  have t: "map_of (er_trials r) (tr_id t) = Some t" "live_trial t" and a: "map_of (er_attempts r) (at_id a) = Some a"
    "live_attempt a" "at_trial a = tr_id t"
    using pair by (auto simp: live_pair_def)
  have trials': "er_trials ?r = omap_put (tr_id t) ?t (er_trials r)"
    and attempts': "er_attempts ?r = omap_put (at_id a) (?g (at_id a) a) (er_attempts r)"
    by (simp_all add: fail_record_def Let_def)
  have trials: "map_of (er_trials ?r) = (map_of (er_trials r))(tr_id t \<mapsto> ?t)" by (simp add: trials')
  have attempts: "map_of (er_attempts ?r) i =
      map_option (\<lambda>c. if at_trial c = tr_id t \<and> live_attempt c then ?g i c else c) (map_of (er_attempts r) i)" for i
    using a live_pair_only [OF inv pair, of i] by (cases "map_of (er_attempts r) i") (auto simp: attempts')
  have ordered: "omap_ordered (er_trials r)" "omap_ordered (er_attempts r)" using inv by (auto simp: rec_inv_def)
  show "rec_inv ?r"
  proof (rule close_one_rec_inv [OF inv t _ _ _ _ _ _ _ trials _ attempts])
    show "at_id (?g i c) = at_id c \<and> at_trial (?g i c) = at_trial c \<and> at_branch (?g i c) = at_branch c \<and>
        at_committed (?g i c) = at_committed c \<and> \<not> live_attempt (?g i c) \<and> at_state (?g i c) \<noteq> AS_COMPLETED" for i c
      by (simp add: live_attempt_def)
  qed (use ordered in \<open>simp_all add: trials' attempts' omap_ordered_put fail_trial_record_def Let_def\<close>)
  show "evolves r ?r"
  proof (rule evolvesI)
    show "\<exists>u. map_of (er_trials ?r) m = Some u \<and> trial_later v u" if "map_of (er_trials r) m = Some v" for m v
      using that t trials by (auto simp: trial_later_def live_trial_def fail_trial_record_def Let_def)
    show "\<exists>d. map_of (er_attempts ?r) i = Some d \<and> attempt_later c d" if "map_of (er_attempts r) i = Some c" for i c
      using that attempts [of i] by (auto simp: attempt_later_def live_attempt_def)
  qed (simp_all add: fail_record_def Let_def)
  show "fst ` set (er_trials ?r) = fst ` set (er_trials r) \<and> fst ` set (er_attempts ?r) = fst ` set (er_attempts r)"
    using live_pair_keys [OF pair] by (simp add: trials' attempts' insert_absorb)
qed

theorem sound_fail_trial: "sound im (snd (fail_trial q im))"
proof (rule put_ordered_sound)
  assume inv: "coord_inv im"
  have "sound im (put_experiment (ae_experiment e) (fail_record q t a s r)
      (im\<lparr>im_state := (im_state im)\<lparr>cs_last_sequence := v\<rparr>\<rparr>))"
    if "holds_authority im e r t a" for e r t a s v
    using failing.sound_put_sequence authority_pair [OF inv that] by blast
  then show "sound im (snd (fail_trial q im))"
    by (auto simp: fail_trial_def Let_def case_prod_beta check_envelope_accepts holds_authority_def
        intro!: sound_commit_plain(2) split: option.splits)
qed

end
