(* ===== verification/EvidenceSafety.thy ===== *)
theory EvidenceSafety
  imports Safety
begin

text \<open>
  Soundness of the operations that carry evidence: publication of observations and artifacts and
  the completion of a trial, each with its refusals and its undo when the commit to disk fails.
\<close>

section \<open>Observations\<close>

definition moves_to_observing :: "trial_record \<Rightarrow> bool" where
  "moves_to_observing t \<longleftrightarrow>
     (tr_state t = TS_ASSIGNED \<or> tr_state t = TS_RUNNING) \<and> trial_transition (tr_state t) TS_OBSERVING"

lemma store_observation_parts:
  "er_trials (fst (store_observation r t a ob s)) =
     (if moves_to_observing t then omap_put (tr_id t)
        (t\<lparr>tr_state := TS_OBSERVING, tr_updated_sequence := s + 2\<rparr>) (er_trials r) else er_trials r)"
  "er_attempts (fst (store_observation r t a ob s)) =
     (if at_state a = AS_ISSUED then omap_put (at_id a) (a\<lparr>at_state := AS_RUNNING,
        at_updated_sequence := (if moves_to_observing t then s + 3 else s + 2)\<rparr>) (er_attempts r) else er_attempts r)"
  "er_observations (fst (store_observation r t a ob s)) = er_observations r @ [ob\<lparr>ob_sequence := s + 1\<rparr>]"
  "er_decisions (fst (store_observation r t a ob s)) = er_decisions r"
  "er_rollback_points (fst (store_observation r t a ob s)) = er_rollback_points r"
  "er_hypothesis_history (fst (store_observation r t a ob s)) = er_hypothesis_history r"
  "er_definition (fst (store_observation r t a ob s)) = er_definition r"
  by (simp_all add: store_observation_def Let_def moves_to_observing_def add.assoc)

lemma omap_put_put [simp]: "omap_put k v (omap_put k w m) = omap_put k v m"
  by (induction k w m rule: omap_put.induct) auto

interpretation storing: record_update "\<lambda>r. fst (store_observation r t a ob s)" "live_pair t a"
proof unfold_locales
  fix r assume inv: "rec_inv r" and pair: "live_pair t a r"
  let ?r = "fst (store_observation r t a ob s)"
  have t: "map_of (er_trials r) (tr_id t) = Some t" "live_trial t" and a: "map_of (er_attempts r) (at_id a) = Some a"
    "at_trial a = tr_id t" "live_attempt a"
    using pair by (auto simp: live_pair_def)
  have auth: "tr_authoritative_attempt t = at_id a" by (rule live_pair_auth [OF inv pair])
  have old: "trial_inv (er_attempts r) (tr_id t) t" "attempt_inv (er_trials r) (at_id a) a"
    using rec_inv_trial [OF inv t(1)] rec_inv_attempt [OF inv a(1)] by auto
  define t' where "t' = (if moves_to_observing t
      then t\<lparr>tr_state := TS_OBSERVING, tr_updated_sequence := s + 2\<rparr> else t)"
  have ts: "t' = t \<or> (\<exists>v. t' = t\<lparr>tr_state := TS_OBSERVING, tr_updated_sequence := v\<rparr>)"
    and t': "map_of (er_trials ?r) = (map_of (er_trials r))(tr_id t \<mapsto> t')"
    using fun_upd_triv [of "map_of (er_trials r)" "tr_id t"] t(1) by (auto simp: t'_def store_observation_parts)
  define a' where "a' = (if at_state a = AS_ISSUED then a\<lparr>at_state := AS_RUNNING,
      at_updated_sequence := (if moves_to_observing t then s + 3 else s + 2)\<rparr> else a)"
  have as: "a' = a \<or> (\<exists>v. a' = a\<lparr>at_state := AS_RUNNING, at_updated_sequence := v\<rparr>)"
    and a': "map_of (er_attempts ?r) = (map_of (er_attempts r))(at_id a \<mapsto> a')"
    using fun_upd_triv [of "map_of (er_attempts r)" "at_id a"] a(1) by (auto simp: a'_def store_observation_parts)
  have nc: "tr_state t \<noteq> TS_COMPLETED" "at_state a \<noteq> AS_COMPLETED"
    using t(2) a(3) by (auto simp: live_trial_def live_attempt_def)
  have ordered: "omap_ordered (er_trials r)" "omap_ordered (er_attempts r)" using inv by (auto simp: rec_inv_def)
  have facts: "live_attempt a'" "live_trial t'" "tr_state t' \<noteq> TS_COMPLETED" "at_state a' \<noteq> AS_COMPLETED"
    using ts as t(2) a(3) nc by (auto simp: live_attempt_def live_trial_def)
  show "rec_inv ?r"
  proof (rule advance_one_rec_inv [OF inv t a])
    show "tr_committed_attempts t' = (if tr_state t' = TS_COMPLETED then 1 else 0)"
      using ts old(1) nc by (auto simp: trial_inv_def)
    show "at_committed a' = (at_state a' = AS_COMPLETED)"
      using as old(2) nc by (auto simp: attempt_inv_def)
    show "omap_ordered (er_trials ?r)" "omap_ordered (er_attempts ?r)"
      using ordered by (simp_all add: store_observation_parts omap_ordered_put)
    show "map_of (er_trials ?r) = (map_of (er_trials r))(tr_id t \<mapsto> t')"
      "map_of (er_attempts ?r) = (map_of (er_attempts r))(at_id a \<mapsto> a')" by (fact t', fact a')
  qed (use ts as facts auth a(2) live_pair_holding [OF inv pair] in auto)
  show "evolves r ?r"
  proof (rule evolvesI)
    show "\<exists>u. map_of (er_trials ?r) m = Some u \<and> trial_later v u" if "map_of (er_trials r) m = Some v" for m v
      using that t t' ts by (auto simp: trial_later_def live_trial_def)
    show "\<exists>d. map_of (er_attempts ?r) i = Some d \<and> attempt_later c d" if "map_of (er_attempts r) i = Some c" for i c
      using that a a' as by (auto simp: attempt_later_def live_attempt_def)
  qed (simp_all add: store_observation_parts)
  show "fst ` set (er_trials ?r) = fst ` set (er_trials r) \<and> fst ` set (er_attempts ?r) = fst ` set (er_attempts r)"
    using live_pair_keys [OF pair] by (simp add: store_observation_parts insert_absorb)
qed

text \<open>The undo of a failed commit: the observation is gone, trial and attempt have moved.\<close>

interpretation unstoring:
  record_update "\<lambda>r. pop_observation (fst (store_observation r t a ob s))" "live_pair t a"
proof unfold_locales
  fix r assume inv: "rec_inv r" and pair: "live_pair t a r"
  let ?s = "fst (store_observation r t a ob s)"
  have obs: "er_observations (pop_observation ?s) = er_observations r"
    by (simp add: pop_observation_def store_observation_parts)
  show "rec_inv (pop_observation ?s)"
    using storing.keeps [OF inv pair, of ob s] by (simp add: pop_observation_def rec_inv_def)
  show "evolves r (pop_observation ?s)"
    using storing.grows [OF inv pair, of ob s] obs by (simp add: evolves_def pop_observation_def)
  show "fst ` set (er_trials (pop_observation ?s)) = fst ` set (er_trials r) \<and>
      fst ` set (er_attempts (pop_observation ?s)) = fst ` set (er_attempts r)"
    using storing.keys [OF inv pair, of ob s] by (simp add: pop_observation_def)
qed

interpretation rejection: record_update "note_rejection kind n v" "\<lambda>r. True"
  by unfold_locales (auto simp: note_rejection_def intro: quiet_update)

interpretation retaining:
  record_update "\<lambda>r. (note_rejection kind n v r)\<lparr>er_observations := er_observations r @ obs\<rparr>" "\<lambda>r. True"
  by unfold_locales (auto simp: note_rejection_def intro: quiet_update)

lemma note_rejection_frame [simp]:
  "er_observations (note_rejection kind n v r) = er_observations r"
  "er_definition (note_rejection kind n v r) = er_definition r"
  by (simp_all add: note_rejection_def)

lemma sound_put_plain:
  assumes "record_update f pre" and "find_experiment im k = Some r" and "pre r"
  shows "sound im (put_experiment k (f r) im)"
  by (rule record_update.lift [OF assms]) (simp_all add: put_experiment_def)

lemma sound_reject_observation: "sound im (snd (reject_observation q v im))"
proof (cases "find_experiment im (ob_experiment (po_observation q))")
  case None
  then show ?thesis by (simp add: reject_observation_def Let_def)
next
  case (Some r)
  let ?ob = "po_observation q"
  have rejected: "sound im (put_experiment (ob_experiment ?ob)
      (note_rejection (lit ''observation'') (id_value (ob_id ?ob)) v r) im)"
    by (rule sound_put_plain [OF rejection.record_update_axioms Some]) simp
  have retained: "sound im (index_observation x i n (put_experiment (ob_experiment ?ob)
      ((note_rejection (lit ''observation'') (id_value (ob_id ?ob)) v r)\<lparr>er_observations := er_observations r @ obs\<rparr>)
      (im\<lparr>im_state := (im_state im)\<lparr>cs_last_sequence := s\<rparr>\<rparr>)))" for x i n obs s
    by (rule sound_trans [OF retaining.sound_put_sequence [OF Some] sound_index(1)]) simp
  show ?thesis
    using sound_trans [OF rejected sound_persist] sound_trans [OF retained sound_persist] Some
    by (simp add: reject_observation_def Let_def case_prod_beta)
qed

lemma undo_put:
  assumes "record_update f pre" and "find_experiment im k = Some r" and "pre r" and "coord_inv im"
    and state: "im_state i = im_state (put_experiment k r' (im\<lparr>im_state := (im_state im)\<lparr>cs_last_sequence := s\<rparr>\<rparr>))"
    and i: "coord_inv i"
  shows "coord_inv (put_experiment k (f r) i) \<and> state_advances (im_state im) (im_state (put_experiment k (f r) i))"
proof -
  let ?j = "put_experiment k (f r) (im\<lparr>im_state := (im_state im)\<lparr>cs_last_sequence := s\<rparr>\<rparr>)"
  have "sound im ?j" by (rule record_update.sound_put_sequence [OF assms(1-3)])
  then have j: "state_inv (im_state ?j)" "state_advances (im_state im) (im_state ?j)"
    using assms(4) unfolding sound_def coord_inv_def by blast+
  have same: "im_state (put_experiment k (f r) i) = im_state ?j"
    unfolding put_experiment_def using state by (simp add: put_experiment_def)
  have "im_disk (put_experiment k (f r) i) = im_disk i" by (simp add: put_experiment_def)
  then show ?thesis using j i unfolding coord_inv_def same by auto
qed

theorem sound_publish_observation: "sound im (snd (publish_observation q im))"
proof (rule put_ordered_sound)
  assume inv: "coord_inv im"
  let ?ob = "po_observation q"
  have store: "sound im (snd (commit_status
      (\<lambda>i. unindex_observation x (ob_id ?ob) (put_experiment k (pop_observation (fst (store_observation r t a ?ob s))) i))
      (\<lambda>i. i) (index_observation x (ob_id ?ob) n (put_experiment k (fst (store_observation r t a ?ob s))
        (im\<lparr>im_state := (im_state im)\<lparr>cs_last_sequence := v\<rparr>\<rparr>)))))"
    if h: "holds_authority im e r t a" "ae_experiment e = k" for e r t a k x n s v
    unfolding commit_status_result
  proof (rule sound_commit_result)
    note pair = authority_pair [OF inv h(1)]
    show "sound im (index_observation x (ob_id ?ob) n (put_experiment k (fst (store_observation r t a ?ob s))
        (im\<lparr>im_state := (im_state im)\<lparr>cs_last_sequence := v\<rparr>\<rparr>)))"
      by (rule sound_trans [OF storing.sound_put_sequence sound_index(1)]) (use pair h in simp_all)
    fix i
    assume "im_state i = im_state (index_observation x (ob_id ?ob) n
        (put_experiment k (fst (store_observation r t a ?ob s))
          (im\<lparr>im_state := (im_state im)\<lparr>cs_last_sequence := v\<rparr>\<rparr>)))" and i: "coord_inv i"
    then have state: "im_state i = im_state (put_experiment k (fst (store_observation r t a ?ob s))
        (im\<lparr>im_state := (im_state im)\<lparr>cs_last_sequence := v\<rparr>\<rparr>))" by (simp add: index_observation_def)
    have "coord_inv (put_experiment k (pop_observation (fst (store_observation r t a ?ob s))) i) \<and>
        state_advances (im_state im) (im_state (put_experiment k (pop_observation (fst (store_observation r t a ?ob s))) i))"
      by (rule undo_put [OF unstoring.record_update_axioms _ _ inv state i]) (use pair h in simp_all)
    then show "coord_inv (unindex_observation x (ob_id ?ob)
          (put_experiment k (pop_observation (fst (store_observation r t a ?ob s))) i)) \<and>
        state_advances (im_state im) (im_state (unindex_observation x (ob_id ?ob)
          (put_experiment k (pop_observation (fst (store_observation r t a ?ob s))) i)))"
      by (simp add: unindex_observation_def coord_inv_def)
  qed simp_all
  show "sound im (snd (publish_observation q im))"
  proof (cases "find_experiment im (ob_experiment ?ob)")
    case None
    then show ?thesis by (simp add: publish_observation_def)
  next
    case (Some r)
    let ?e = "envelope_from ?ob (po_epoch q) (po_worker q) (po_boot q) r"
    have ids: "ae_experiment ?e = ob_experiment ?ob" "ae_trial ?e = ob_trial ?ob" "ae_attempt ?e = ob_attempt ?ob"
      by (simp_all add: envelope_from_def Let_def)
    show ?thesis
    proof (cases "av_accepted (check_envelope im ?e)")
      case False
      then show ?thesis using Some sound_reject_observation by (simp add: publish_observation_def Let_def)
    next
      case True
      then obtain t a where h: "holds_authority im ?e r t a"
        using Some ids by (auto simp: check_envelope_accepts holds_authority_def)
      then have found: "map_of (er_trials r) (ob_trial ?ob) = Some t" "map_of (er_attempts r) (ob_attempt ?ob) = Some a"
        using ids by (auto simp: holds_authority_def)
      show ?thesis
        using True Some found store [OF h ids(1)]
        by (simp add: publish_observation_def Let_def case_prod_beta split: option.split)
    qed
  qed
qed

end
