(* ===== verification/CompletionSafety.thy ===== *)
theory CompletionSafety
  imports EvidenceSafety
begin

text \<open>
  Soundness of the operations on artifacts and of the completion of a trial, including the loop
  that registers the submitted artifacts and its undo.
\<close>

section \<open>Artifacts\<close>

definition has_live_pair :: "trial_id \<Rightarrow> trial_attempt_id \<Rightarrow> experiment_record \<Rightarrow> bool" where
  "has_live_pair k j r \<longleftrightarrow> (\<exists>t a. tr_id t = k \<and> at_id a = j \<and> live_pair t a r)"

text \<open>An update of a live trial that touches none of the fields that carry authority.\<close>

definition keeps_authority :: "(trial_record \<Rightarrow> trial_record) \<Rightarrow> bool" where
  "keeps_authority f \<longleftrightarrow>
     (\<forall>t. tr_state (f t) = tr_state t \<and> tr_committed_attempts (f t) = tr_committed_attempts t \<and>
        tr_authoritative_attempt (f t) = tr_authoritative_attempt t \<and>
        (\<not> is_terminal (tr_state t) \<longrightarrow> trial_later t (f t)))"

lemma modify_live_trial:
  assumes inv: "rec_inv r" and pair: "has_live_pair k j r" and f: "keeps_authority f"
    and trials: "er_trials r' = omap_modify k f (er_trials r)"
    and same: "er_attempts r' = er_attempts r" "er_definition r' = er_definition r"
      "er_observations r' = er_observations r" "er_decisions r' = er_decisions r"
      "er_rollback_points r' = er_rollback_points r" "er_hypothesis_history r' = er_hypothesis_history r"
  shows "rec_inv r'" and "evolves r r'" and "has_live_pair k j r'"
    and "fst ` set (er_trials r') = fst ` set (er_trials r) \<and> fst ` set (er_attempts r') = fst ` set (er_attempts r)"
proof -
  obtain t a where ta: "tr_id t = k" "at_id a = j" "live_pair t a r" using pair by (auto simp: has_live_pair_def)
  then have t: "map_of (er_trials r) k = Some t" "live_trial t" and a: "map_of (er_attempts r) j = Some a"
    "at_trial a = k" "live_attempt a"
    by (auto simp: live_pair_def)
  have later: "trial_later t (f t)" using f t(2) by (simp add: keeps_authority_def live_trial_def)
  have auth: "tr_authoritative_attempt t = j" using live_pair_auth [OF inv ta(3)] ta(2) by simp
  have look: "map_of (er_trials r') = (map_of (er_trials r))(k \<mapsto> f t)"
    using t(1) by (auto simp: trials map_of_omap_modify)
  have ft: "tr_id (f t) = k" "tr_state (f t) = tr_state t" "live_trial (f t)"
    using later ta(1) f t(2) by (auto simp: trial_later_def keeps_authority_def live_trial_def)
  show "rec_inv r'"
  proof (rule advance_one_rec_inv [OF inv t a, where t' = "f t" and a' = a])
    show "tr_committed_attempts (f t) = (if tr_state (f t) = TS_COMPLETED then 1 else 0)"
      using rec_inv_trial [OF inv t(1)] f by (simp add: trial_inv_def keeps_authority_def)
    show "at_committed a = (at_state a = AS_COMPLETED)"
      using rec_inv_attempt [OF inv a(1)] by (simp add: attempt_inv_def)
    show "(tr_state (f t) = TS_COMPLETED) = (at_state a = AS_COMPLETED)"
      using ft t(2) a(3) by (auto simp: live_trial_def live_attempt_def)
    show "map_of (er_attempts r') = (map_of (er_attempts r))(j \<mapsto> a)"
      using a(1) by (auto simp: same)
    show "omap_ordered (er_trials r')" "omap_ordered (er_attempts r')"
      using inv by (simp_all add: rec_inv_def trials same omap_ordered_modify)
  qed (use later ta ft look f auth a(2,3) live_pair_holding [OF inv ta(3)] in \<open>auto simp: trial_later_def keeps_authority_def\<close>)
  show "evolves r r'"
    by (rule evolvesI) (use look t later in \<open>auto simp: same\<close>)
  show "has_live_pair k j r'"
    unfolding has_live_pair_def live_pair_def using ft look same a ta by (intro exI [of _ "f t"] exI [of _ a]) simp
  show "fst ` set (er_trials r') = fst ` set (er_trials r) \<and> fst ` set (er_attempts r') = fst ` set (er_attempts r)"
    by (simp add: trials same)
qed

lemma artifact_updates:
  assumes "rec_inv r" and "has_live_pair k j r"
  shows "rec_inv (add_artifact k art r)" "evolves r (add_artifact k art r)" "has_live_pair k j (add_artifact k art r)"
    and "rec_inv (pop_artifact k r)" "evolves r (pop_artifact k r)" "has_live_pair k j (pop_artifact k r)"
    and "rec_inv (touch_trial k s r)" "evolves r (touch_trial k s r)" "has_live_pair k j (touch_trial k s r)"
proof -
  have keeps: "keeps_authority (\<lambda>t. t\<lparr>tr_artifacts := tr_artifacts t @ [ar_id art]\<rparr>)"
    "keeps_authority (\<lambda>t. t\<lparr>tr_artifacts := butlast (tr_artifacts t)\<rparr>)"
    "keeps_authority (\<lambda>t. t\<lparr>tr_updated_sequence := s\<rparr>)"
    by (simp_all add: keeps_authority_def trial_later_def)
  show "rec_inv (add_artifact k art r)" "evolves r (add_artifact k art r)" "has_live_pair k j (add_artifact k art r)"
    by (rule modify_live_trial [OF assms keeps(1)]; simp add: add_artifact_def)+
  show "rec_inv (pop_artifact k r)" "evolves r (pop_artifact k r)" "has_live_pair k j (pop_artifact k r)"
    by (rule modify_live_trial [OF assms keeps(2)]; simp add: pop_artifact_def)+
  show "rec_inv (touch_trial k s r)" "evolves r (touch_trial k s r)" "has_live_pair k j (touch_trial k s r)"
    by (rule modify_live_trial [OF assms keeps(3)]; simp add: touch_trial_def)+
qed

lemma artifact_keys [simp]:
  "fst ` set (er_trials (add_artifact k art r)) = fst ` set (er_trials r)"
  "fst ` set (er_trials (pop_artifact k r)) = fst ` set (er_trials r)"
  "fst ` set (er_trials (touch_trial k s r)) = fst ` set (er_trials r)"
  "er_attempts (add_artifact k art r) = er_attempts r" "er_attempts (pop_artifact k r) = er_attempts r"
  "er_attempts (touch_trial k s r) = er_attempts r"
  by (simp_all add: add_artifact_def pop_artifact_def touch_trial_def)

interpretation adding: record_update "add_artifact k art" "has_live_pair k j"
  by unfold_locales (simp_all add: artifact_updates)

interpretation popping: record_update "pop_artifact k" "has_live_pair k j"
  by unfold_locales (simp_all add: artifact_updates)

interpretation touching: record_update "touch_trial k s" "has_live_pair k j"
  by unfold_locales (simp_all add: artifact_updates)

text \<open>Updates chain when the first keeps the precondition of the second.\<close>

lemma record_update_chain:
  assumes f: "record_update f pre" and g: "record_update g pre" and step: "\<And>r. rec_inv r \<Longrightarrow> pre r \<Longrightarrow> pre (f r)"
  shows "record_update (\<lambda>r. g (f r)) pre"
proof unfold_locales
  fix r assume r: "rec_inv r" "pre r"
  note f' = record_update.keeps [OF f r] and g' = record_update.keeps [OF g _ step [OF r]]
  show "rec_inv (g (f r))" using f' g' by blast
  show "evolves r (g (f r))"
    using record_update.grows [OF f r] record_update.grows [OF g f' step [OF r]] by (rule evolves_trans)
  show "fst ` set (er_trials (g (f r))) = fst ` set (er_trials r) \<and>
      fst ` set (er_attempts (g (f r))) = fst ` set (er_attempts r)"
    using record_update.keys [OF f r] record_update.keys [OF g f' step [OF r]] by simp
qed

lemma publishing: "record_update (\<lambda>r. touch_trial k s (add_artifact k art r)) (has_live_pair k j)"
  by (rule record_update_chain [OF adding.record_update_axioms touching.record_update_axioms])
    (rule artifact_updates)

lemma unpublishing:
  "record_update (\<lambda>r. pop_artifact k (touch_trial k s (add_artifact k art r))) (has_live_pair k j)"
  by (rule record_update_chain [OF publishing popping.record_update_axioms]) (simp add: artifact_updates)

lemma popping_many: "record_update (pop_artifact k ^^ n) (has_live_pair k j)"
proof (induction n)
  case 0
  then show ?case by unfold_locales simp_all
next
  case (Suc n)
  have "record_update (\<lambda>r. (pop_artifact k ^^ n) (pop_artifact k r)) (has_live_pair k j)"
    by (rule record_update_chain [OF popping.record_update_axioms Suc]) (rule artifact_updates)
  then show ?case by (simp add: funpow_Suc_right comp_def del: funpow.simps)
qed

theorem sound_publish_artifact: "sound im (snd (publish_artifact q im))"
proof (rule put_ordered_sound)
  assume inv: "coord_inv im"
  let ?art = "pb_artifact q"
  let ?k = "ar_experiment ?art" and ?t = "ar_trial ?art"
  have rejected: "sound im (snd (persist_locked (put_experiment ?k (note_rejection kind n v r) im)))"
    if "find_experiment im ?k = Some r" for kind n v r
    by (rule sound_trans [OF sound_put_plain [OF rejection.record_update_axioms that] sound_persist]) simp
  have store: "sound im (snd (commit_status
      (\<lambda>i. unindex_artifact x n (put_experiment ?k (pop_artifact ?t (touch_trial ?t s (add_artifact ?t art r))) i))
      (\<lambda>i. i) (index_artifact x n l (put_experiment ?k (touch_trial ?t s (add_artifact ?t art r))
        (im\<lparr>im_state := (im_state im)\<lparr>cs_last_sequence := v\<rparr>\<rparr>)))))"
    if r: "find_experiment im ?k = Some r" and pair: "has_live_pair ?t j r" for r j x n l s v art
    unfolding commit_status_result
  proof (rule sound_commit_result)
    let ?r = "touch_trial ?t s (add_artifact ?t art r)"
    let ?im = "put_experiment ?k ?r (im\<lparr>im_state := (im_state im)\<lparr>cs_last_sequence := v\<rparr>\<rparr>)"
    show "sound im (index_artifact x n l ?im)"
      by (rule sound_trans [OF record_update.sound_put_sequence [OF publishing r pair] sound_index(3)])
    fix i assume "im_state i = im_state (index_artifact x n l ?im)" and i: "coord_inv i"
    then have state: "im_state i = im_state ?im" by (simp add: index_artifact_def)
    have "coord_inv (put_experiment ?k (pop_artifact ?t ?r) i) \<and>
        state_advances (im_state im) (im_state (put_experiment ?k (pop_artifact ?t ?r) i))"
      by (rule undo_put [OF unpublishing r pair inv state i])
    then show "coord_inv (unindex_artifact x n (put_experiment ?k (pop_artifact ?t ?r) i)) \<and>
        state_advances (im_state im) (im_state (unindex_artifact x n (put_experiment ?k (pop_artifact ?t ?r) i)))"
      by (simp add: unindex_artifact_def coord_inv_def)
  qed simp_all
  have pair: "has_live_pair ?t (ar_attempt ?art) r"
    if "holds_authority im (envelope_from (shim_observation ?art) e w b r\<lparr>ae_branch_generation := g, ae_producer := p\<rparr>) r' t a"
      and "find_experiment im ?k = Some r" for e w b g p r r' t a
    using authority_pair [OF inv that(1)] that(2)
    by (auto simp: has_live_pair_def envelope_from_def shim_observation_def Let_def)
  show "sound im (snd (publish_artifact q im))"
    using rejected
    by (auto simp: publish_artifact_def reject_artifact_def Let_def case_prod_beta check_envelope_accepts
        intro!: store intro: pair split: option.splits)
qed

section \<open>Completion\<close>

lemma register_artifacts_step:
  assumes "coord_inv im" and r: "find_experiment im k = Some r" "has_live_pair tid j r"
    and step: "im' = index_artifact x n l (put_experiment k (add_artifact tid art r) (snd (next_sequence im)))"
  shows "sound im im'" and "find_experiment im' k = Some (add_artifact tid art r)"
    and "has_live_pair tid j (add_artifact tid art r)"
proof -
  show "sound im im'"
    unfolding step next_sequence_simps by (rule sound_trans [OF adding.sound_put_sequence [OF r] sound_index(3)])
  show "find_experiment im' k = Some (add_artifact tid art r)"
    by (simp add: step index_artifact_def find_experiment_def put_experiment_def)
  show "has_live_pair tid j (add_artifact tid art r)"
    using artifact_updates(3) coord_inv_record [OF assms(1) r(1)] r(2) by blast
qed

lemma sound_register_artifacts:
  assumes "coord_inv im" and "find_experiment im k = Some r" and "has_live_pair tid j r"
  shows "sound im (snd (register_artifacts k tid a arts im)) \<and>
    (\<exists>r'. find_experiment (snd (register_artifacts k tid a arts im)) k = Some r' \<and> has_live_pair tid j r')"
  using assms
proof (induction arts arbitrary: im r)
  case Nil
  then show ?case by auto
next
  case (Cons art arts)
  have counted: "sound im (snd (next_sequence im))" "find_experiment (snd (next_sequence im)) k = find_experiment im k"
    by (simp_all add: sound_sequence find_experiment_def)
  have step: "sound im (snd (register_artifacts k tid a arts im')) \<and>
      (\<exists>r'. find_experiment (snd (register_artifacts k tid a arts im')) k = Some r' \<and> has_live_pair tid j r')"
    if im': "im' = index_artifact x n l (put_experiment k (add_artifact tid b r) (snd (next_sequence im)))" for im' x n l b
  proof -
    note s = register_artifacts_step [OF Cons.prems im']
    have "coord_inv im'" using s(1) Cons.prems(1) by (simp add: sound_def)
    from Cons.IH [OF this s(2,3)] show ?thesis using sound_trans [OF s(1)] by blast
  qed
  obtain t where t: "map_of (er_trials r) tid = Some t"
    using Cons.prems(3) by (auto simp: has_live_pair_def live_pair_def)
  show ?case
    using Cons.prems t counted step
    by (auto simp: Let_def case_prod_beta simp del: next_sequence_simps split: sum.split)
qed

lemma sound_unindex_many: "sound im (fold (unindex_artifact x) ids im)"
proof (induction ids arbitrary: im)
  case (Cons i ids)
  show ?case using sound_trans [OF sound_index(4) Cons] by simp
qed simp

lemma find_unindex_many [simp]: "find_experiment (fold (unindex_artifact x) ids im) k = find_experiment im k"
  by (induction ids arbitrary: im) (simp_all add: unindex_artifact_def find_experiment_def)

lemma sound_unregister_artifacts:
  assumes "find_experiment im k = Some r" and "has_live_pair tid j r"
  shows "sound im (unregister_artifacts k x tid ids im)"
proof -
  have "sound (fold (unindex_artifact x) ids im)
      (put_experiment k ((pop_artifact tid ^^ length ids) r) (fold (unindex_artifact x) ids im))"
    by (rule sound_put_plain [OF popping_many]) (use assms in simp_all)
  then show ?thesis
    using sound_trans [OF sound_unindex_many] assms by (simp add: unregister_artifacts_def)
qed

interpretation completing: record_update "complete_trial k j s" "has_live_pair k j"
proof unfold_locales
  fix r assume inv: "rec_inv r" and "has_live_pair k j r"
  then obtain t a where ta: "tr_id t = k" "at_id a = j" "live_pair t a r" by (auto simp: has_live_pair_def)
  then have t: "map_of (er_trials r) k = Some t" "live_trial t" and a: "map_of (er_attempts r) j = Some a"
    "at_trial a = k" "live_attempt a"
    by (auto simp: live_pair_def)
  let ?r = "complete_trial k j s r"
  let ?t = "t\<lparr>tr_state := TS_COMPLETED, tr_committed_attempts := 1, tr_failure_kind := FK_NONE,
      tr_failure_detail := [], tr_updated_sequence := s\<rparr>"
  let ?a = "a\<lparr>at_state := AS_COMPLETED, at_committed := True, at_updated_sequence := s\<rparr>"
  have auth: "tr_authoritative_attempt t = j" using live_pair_auth [OF inv ta(3)] ta(2) by simp
  have look: "map_of (er_trials ?r) = (map_of (er_trials r))(k \<mapsto> ?t)"
    "map_of (er_attempts ?r) = (map_of (er_attempts r))(j \<mapsto> ?a)"
    using t(1) a(1) by (auto simp: complete_trial_def map_of_omap_modify)
  show "rec_inv ?r"
    by (rule advance_one_rec_inv [OF inv t a, where t' = ?t and a' = ?a])
      (use auth a look inv in \<open>simp_all add: live_attempt_def rec_inv_def complete_trial_def omap_ordered_modify\<close>)
  show "evolves r ?r"
  proof (rule evolvesI)
    show "\<exists>u. map_of (er_trials ?r) m = Some u \<and> trial_later v u" if "map_of (er_trials r) m = Some v" for m v
      using that t look by (auto simp: trial_later_def live_trial_def)
    show "\<exists>d. map_of (er_attempts ?r) i = Some d \<and> attempt_later c d" if "map_of (er_attempts r) i = Some c" for i c
      using that a look by (auto simp: attempt_later_def live_attempt_def)
  qed (simp_all add: complete_trial_def)
  show "fst ` set (er_trials ?r) = fst ` set (er_trials r) \<and> fst ` set (er_attempts ?r) = fst ` set (er_attempts r)"
    by (simp add: complete_trial_def)
qed

lemma sound_commit_checked:
  assumes inv: "coord_inv im" and r: "find_experiment im k = Some r" and pair: "live_pair t a r"
  shows "sound im (snd (commit_checked k r t a arts im))"
proof -
  let ?im1 = "snd (next_sequence im)"
  have one: "sound im ?im1" by (simp add: sound_sequence)
  then have inv1: "coord_inv ?im1" using inv by (simp add: sound_def)
  have r1: "find_experiment ?im1 k = Some r" using r by (simp add: find_experiment_def)
  have live: "has_live_pair (tr_id t) (at_id a) r" using pair by (auto simp: has_live_pair_def)
  obtain result im2 where two: "register_artifacts k (tr_id t) a arts ?im1 = (result, im2)" by fastforce
  obtain r2 where r2: "find_experiment im2 k = Some r2" "has_live_pair (tr_id t) (at_id a) r2"
    and "sound ?im1 im2"
    using sound_register_artifacts [OF inv1 r1 live, of a arts] two by auto
  then have s2: "sound im im2" using sound_trans [OF one] by blast
  have "sound im (put_experiment k (complete_trial (tr_id t) (at_id a) s r2) im2)" for s
    by (rule sound_trans [OF s2 sound_put_plain [OF completing.record_update_axioms r2]])
  moreover have "sound im (unregister_artifacts k x (tr_id t) ids im2)" for x ids
    by (rule sound_trans [OF s2 sound_unregister_artifacts [OF r2]])
  ultimately show ?thesis
    using s2 two r2(1)
    by (auto simp: commit_checked_def case_prod_beta simp del: next_sequence_simps split: sum.split
        intro!: sound_commit_plain(2))
qed

theorem sound_commit_trial: "sound im (snd (commit_trial q im))"
proof (rule put_ordered_sound)
  assume inv: "coord_inv im"
  have "sound im (snd (commit_checked (ae_experiment e) r t a arts im))" if "holds_authority im e r t a" for e r t a arts
    using sound_commit_checked authority_pair [OF inv that] inv by blast
  then show "sound im (snd (commit_trial q im))"
    by (auto simp: commit_trial_def Let_def check_envelope_accepts holds_authority_def split: option.splits)
qed

end
