(* ===== verification/IssueSafety.thy ===== *)
theory IssueSafety
  imports CompletionSafety
begin

text \<open>
  Soundness of the operations that bring new identities into the state: experiments, branches,
  trials and attempts. A 64-bit watermark that wraps around would reissue an identity; the
  theorems ask for \<open>room\<close>, one batch of the largest size below the top.
\<close>

section \<open>Room for new identities\<close>

definition room :: "coordinator_state \<Rightarrow> bool" where
  "room s \<longleftrightarrow>
     cs_id_watermark_experiment s < 0xFFFFFFFF00000000 \<and> cs_id_watermark_trial s < 0xFFFFFFFF00000000 \<and>
     cs_id_watermark_attempt s < 0xFFFFFFFF00000000"

lemma room_unat: "(w :: u64) < 0xFFFFFFFF00000000 \<longleftrightarrow> unat w + 2 ^ 32 < 2 ^ 64"
  by (simp add: word_less_nat_alt)

lemma below_top: "unat (w :: u64) + 1 < 2 ^ 64 \<Longrightarrow> w < w + 1 \<and> unat (w + 1) = unat w + 1"
  by (auto simp: unat_word_ariths word_less_nat_alt)

lemma fresh_key:
  assumes "w < (v :: u64)" and "\<forall>k \<in> fst ` set m. id_value k \<le> w"
  shows "map_of m (from_value v) = None"
proof (rule ccontr)
  assume "map_of m (from_value v) \<noteq> None"
  then obtain x where "x \<in> fst ` set m" "id_value x = v"
    using id_value_from_value by (metis map_of_eq_None_iff)
  then show False using assms by auto
qed

lemma omap_emplace_fresh: "map_of m k = None \<Longrightarrow> omap_emplace k v m = omap_put k v m"
  by (simp add: omap_emplace_def)

lemma omap_erase_put:
  assumes "omap_ordered m" and "map_of m k = None"
  shows "omap_erase k (omap_put k v m) = m"
  by (rule om.equal_entries)
    (use assms in \<open>simp_all add: omap_ordered_erase omap_ordered_put fun_upd_idem\<close>)

lemma undo_state:
  assumes "coord_inv im" and "coord_inv i" and "sound im (put_experiment k r' j)"
    and "im_state i = im_state (put_experiment k r j)"
  shows "coord_inv (put_experiment k r' i) \<and> state_advances (im_state im) (im_state (put_experiment k r' i))"
proof -
  have same: "im_state (put_experiment k r' i) = im_state (put_experiment k r' j)"
    unfolding put_experiment_def using assms(4) by (simp add: put_experiment_def)
  have "state_inv (im_state (put_experiment k r' j)) \<and> state_advances (im_state im) (im_state (put_experiment k r' j))"
    using assms(1,3) unfolding sound_def coord_inv_def by blast
  moreover have "im_disk (put_experiment k r' i) = im_disk i" by (simp add: put_experiment_def)
  ultimately show ?thesis using assms(2) unfolding coord_inv_def same by auto
qed

section \<open>Trials\<close>

lemma add_trial_rec_inv:
  assumes inv: "rec_inv r" and fresh: "map_of (er_trials r) tid = None"
    and t: "tr_id t = tid" "tr_state t = TS_READY" "tr_authoritative_attempt t = null_id" "tr_committed_attempts t = 0"
    and trials: "er_trials r' = omap_put tid t (er_trials r)"
    and same: "er_attempts r' = er_attempts r" "er_definition r' = er_definition r"
      "er_observations r' = er_observations r" "er_decisions r' = er_decisions r"
      "er_rollback_points r' = er_rollback_points r" "er_hypothesis_history r' = er_hypothesis_history r"
  shows "rec_inv r'" and "evolves r r'"
proof -
  have "trial_inv (er_attempts r') m u" if "map_of (er_trials r') m = Some u" for m u
    using that t rec_inv_trial [OF inv] by (auto simp: trials same trial_inv_def split: if_splits)
  moreover have "attempt_inv (er_trials r') j a" if "map_of (er_attempts r') j = Some a" for j a
    using that rec_inv_attempt [OF inv, of j a] fresh by (auto simp: trials same attempt_inv_def)
  ultimately show "rec_inv r'"
    using inv by (simp add: rec_inv_def trials same omap_ordered_put)
  show "evolves r r'"
    by (rule evolvesI) (use fresh in \<open>auto simp: trials same\<close>)
qed

theorem sound_create_trial:
  assumes room: "room (im_state im)"
  shows "sound im (snd (create_trial k b payload im))"
proof (rule put_ordered_sound)
  assume inv: "coord_inv im"
  define w where "w = cs_id_watermark_trial (im_state im)"
  define tid :: trial_id where "tid = from_value (w + 1)"
  define im2 where "im2 = snd (alloc_trial_id (snd (next_sequence im)))"
  have up: "w < w + 1" using room below_top [of w] by (simp add: room_def room_unat w_def)
  have frame: "cs_experiments (im_state im2) = cs_experiments (im_state im)" "im_disk im2 = im_disk im"
    "watermarks_grow (im_state im) (im_state im2)" "cs_id_watermark_trial (im_state im2) = w + 1"
    "im_limits im2 = im_limits im"
    using up by (simp_all add: im2_def alloc_trial_id_def Let_def watermarks_grow_def w_def)
  have put: "sound im (put_experiment k r' im2)"
    if r: "find_experiment im k = Some r" and r': "r' = log_line line (r\<lparr>er_trials := omap_emplace tid t (er_trials r)\<rparr>)
        \<or> r' = erase_trial tid (log_line line (r\<lparr>er_trials := omap_emplace tid t (er_trials r)\<rparr>))"
      and t: "tr_id t = tid" "tr_state t = TS_READY" "tr_authoritative_attempt t = null_id"
        "tr_committed_attempts t = 0" for r r' t line
  proof (rule sound_put [where k = k and r = r and r' = r'])
    show "cs_experiments (im_state (put_experiment k r' im2)) = omap_put k r' (cs_experiments (im_state im))"
      "im_disk (put_experiment k r' im2) = im_disk im"
      "watermarks_grow (im_state im) (im_state (put_experiment k r' im2))"
      using frame by (simp_all add: put_experiment_def)
    note old = coord_inv_record [OF inv r]
    have ord: "omap_ordered (er_trials r)" using old by (simp add: rec_inv_def)
    have fresh: "map_of (er_trials r) tid = None"
      unfolding tid_def by (rule fresh_key [OF up]) (use old in \<open>simp add: ids_bounded_def w_def\<close>)
    have bounded: "ids_bounded (im_state im2) r" using old frame(3) ids_bounded_mono by blast
    from r' show "rec_inv r' \<and> evolves r r' \<and> ids_bounded (im_state (put_experiment k r' im2)) r'"
    proof
      assume eq: "r' = log_line line (r\<lparr>er_trials := omap_emplace tid t (er_trials r)\<rparr>)"
      have "rec_inv r'" "evolves r r'"
        by (rule add_trial_rec_inv [where r = r and t = t and tid = tid];
            use old fresh t eq in \<open>simp add: omap_emplace_fresh\<close>)+
      then show ?thesis using bounded fresh frame(4)
        by (simp add: eq ids_bounded_def put_experiment_def omap_emplace_fresh tid_def)
    next
      assume eq: "r' = erase_trial tid (log_line line (r\<lparr>er_trials := omap_emplace tid t (er_trials r)\<rparr>))"
      have same: "er_trials r' = er_trials r" by (simp add: eq erase_trial_def omap_emplace_fresh fresh omap_erase_put ord)
      have "rec_inv r'" using old same rec_inv_cong [OF same] by (simp add: eq erase_trial_def)
      moreover have "evolves r r'" by (rule quiet_update(2) [OF same]) (simp_all add: eq erase_trial_def)
      ultimately have "rec_inv r'" "evolves r r'" by auto
      then show ?thesis using bounded same
        by (simp add: ids_bounded_def put_experiment_def) (simp add: eq erase_trial_def)
    qed
  qed (rule r)
  show "sound im (snd (create_trial k b payload im))"
  proof (cases "find_experiment im k")
    case None
    then show ?thesis by (simp add: create_trial_def)
  next
    case (Some r)
    show ?thesis
    proof (cases "create_trial_check r b payload (im_limits im)")
      case (Inl e)
      then show ?thesis using Some by (simp add: create_trial_def)
    next
      case (Inr bd)
      let ?t = "(new_trial k r bd payload tid (cs_last_sequence (im_state im) + 1))\<lparr>tr_branch := b\<rparr>"
      let ?r1 = "log_line (lit ''trial-created trial='' @ id_to_string tid @ lit '' branch='' @ id_to_string b)
          (r\<lparr>er_trials := omap_emplace tid ?t (er_trials r)\<rparr>)"
      have t: "tr_id ?t = tid" "tr_state ?t = TS_READY" "tr_authoritative_attempt ?t = null_id"
        "tr_committed_attempts ?t = 0" by (simp_all add: new_trial_def Let_def)
      have alloc: "alloc_trial_id (snd (next_sequence im)) = (tid, im2)"
        by (simp add: prod_eq_iff im2_def tid_def w_def) (simp add: alloc_trial_id_def Let_def)
      have both: "sound im (put_experiment k ?r1 im2)" "sound im (put_experiment k (erase_trial tid ?r1) im2)"
        using put [OF Some _ t] by auto
      have undo: "put_experiment k (erase_trial tid ?r1) (put_experiment k ?r1 im2) =
          put_experiment k (erase_trial tid ?r1) im2"
        by (simp add: put_experiment_def)
      have "sound im (snd (commit_result (put_experiment k (erase_trial tid ?r1)) (notify_event n) v
          (put_experiment k ?r1 im2)))" for n and v :: trial_id
        using undo_state [OF inv _ both(2)] by (intro sound_commit_result [OF both(1)]) auto
      then show ?thesis
        using Some Inr alloc both undo
        by (simp add: create_trial_def Let_def case_prod_beta)
    qed
  qed
qed

section \<open>Branches, decisions and rollback\<close>

text \<open>\<open>quiet im im'\<close>: only counters that no invariant mentions have moved.\<close>

definition quiet :: "impl \<Rightarrow> impl \<Rightarrow> bool" where
  "quiet im im' \<longleftrightarrow>
     cs_experiments (im_state im') = cs_experiments (im_state im) \<and> im_disk im' = im_disk im \<and>
     im_limits im' = im_limits im \<and> im_live_workers im' = im_live_workers im \<and> im_epoch im' = im_epoch im \<and>
     im_admitting_work im' = im_admitting_work im \<and>
     cs_id_watermark_experiment (im_state im') = cs_id_watermark_experiment (im_state im) \<and>
     cs_id_watermark_trial (im_state im') = cs_id_watermark_trial (im_state im) \<and>
     cs_id_watermark_attempt (im_state im') = cs_id_watermark_attempt (im_state im)"

lemma quiet_refl [simp]: "quiet im im"
  by (simp add: quiet_def)

lemma quiet_trans: "quiet a b \<Longrightarrow> quiet b c \<Longrightarrow> quiet a c"
  by (simp add: quiet_def)

lemma quiet_alloc:
  "quiet im (snd (next_sequence im))" "quiet im (snd (alloc_hypothesis_id im))" "quiet im (snd (alloc_metric_id im))"
  "quiet im (snd (alloc_policy_id im))" "quiet im (snd (alloc_branch_id im))" "quiet im (snd (alloc_observation_id im))"
  "quiet im (snd (alloc_artifact_id im))" "quiet im (snd (alloc_decision_id im))" "quiet im (snd (alloc_rollback_id im))"
  "quiet im (snd (alloc_producer_id im))"
  by (simp_all add: quiet_def alloc_hypothesis_id_def alloc_metric_id_def alloc_policy_id_def alloc_branch_id_def
      alloc_observation_id_def alloc_artifact_id_def alloc_decision_id_def alloc_rollback_id_def
      alloc_producer_id_def Let_def)

lemma quiet_sound: "quiet im im' \<Longrightarrow> sound im im'"
  by (rule sound_counters) (simp_all add: quiet_def watermarks_grow_def)

lemma quiet_find: "quiet im im' \<Longrightarrow> find_experiment im' k = find_experiment im k"
  by (simp add: quiet_def find_experiment_def)

lemma sound_put_quiet:
  assumes "record_update f pre" and "quiet im im'" and "find_experiment im k = Some r" and "pre r"
  shows "sound im (put_experiment k (f r) im')"
  using sound_trans [OF quiet_sound [OF assms(2)] sound_put_plain [OF assms(1) _ assms(4)]] assms(2,3)
  by (simp add: quiet_find)

interpretation forking:
  record_update "\<lambda>r. log_line line ((add_branch b r)\<lparr>er_revision_sequence := s\<rparr>)" "\<lambda>r. True"
  by unfold_locales (auto simp: add_branch_def intro: quiet_update)

interpretation unforking:
  record_update "\<lambda>r. pop_branch (log_line line ((add_branch b r)\<lparr>er_revision_sequence := s\<rparr>))" "\<lambda>r. True"
  by unfold_locales (auto simp: add_branch_def pop_branch_def intro: quiet_update)

interpretation finalizing: record_update "finalize_record dec points s" "\<lambda>r. True"
  by unfold_locales (auto simp: finalize_record_def intro: quiet_update)

lemma restore_frame:
  "er_trials (fold restore_branch ss r) = er_trials r" "er_attempts (fold restore_branch ss r) = er_attempts r"
  "er_observations (fold restore_branch ss r) = er_observations r"
  "er_decisions (fold restore_branch ss r) = er_decisions r"
  "er_rollback_points (fold restore_branch ss r) = er_rollback_points r"
  "er_hypothesis_history (fold restore_branch ss r) = er_hypothesis_history r"
  "ed_id (er_definition (fold restore_branch ss r)) = ed_id (er_definition r)"
  by (induction ss arbitrary: r) (simp_all add: restore_branch_def)

lemma rollback_record_frame:
  "er_trials (rollback_record k p reason rid s r) = er_trials (abandon_stale_live_work s r)"
  "er_attempts (rollback_record k p reason rid s r) = er_attempts (abandon_stale_live_work s r)"
  "er_observations (rollback_record k p reason rid s r) = er_observations r"
  "er_decisions (rollback_record k p reason rid s r) = er_decisions r"
  "er_hypothesis_history (rollback_record k p reason rid s r) = er_hypothesis_history r"
  "ed_id (er_definition (rollback_record k p reason rid s r)) = ed_id (er_definition r)"
  "prefix (er_rollback_points r) (er_rollback_points (rollback_record k p reason rid s r))"
  by (simp_all add: rollback_record_def restore_authority_def retire_unrestored_def Let_def restore_frame
      abandon_stale_live_work_def)

interpretation rolling_back: record_update "rollback_record k p reason rid s" "\<lambda>r. True"
proof unfold_locales
  fix r assume inv: "rec_inv r"
  show "rec_inv (rollback_record k p reason rid s r)"
    by (rule close_rec_inv [OF inv, where P = "\<lambda>t. True" and Q = "\<lambda>a. True"])
      (simp_all add: rollback_record_frame abandon_stale_live_work_def)
  show "evolves r (rollback_record k p reason rid s r)"
    by (rule close_evolves) (simp_all add: rollback_record_frame abandon_stale_live_work_def)
  show "fst ` set (er_trials (rollback_record k p reason rid s r)) = fst ` set (er_trials r) \<and>
      fst ` set (er_attempts (rollback_record k p reason rid s r)) = fst ` set (er_attempts r)"
    by (simp add: rollback_record_frame abandon_stale_live_work_def)
qed

theorem sound_rollback: "sound im (snd (rollback k target reason im))"
proof -
  have "sound im (put_experiment k (rollback_record k p reason rid s r) (snd (alloc_rollback_id (snd (next_sequence im)))))"
    if "find_experiment im k = Some r" for p rid s r
    by (rule sound_put_quiet [OF rolling_back.record_update_axioms quiet_trans [OF quiet_alloc(1) quiet_alloc(9)] that])
      simp
  then show ?thesis
    by (simp add: rollback_def Let_def case_prod_beta sound_commit_plain(2) split: option.split)
qed

theorem sound_finalize_experiment: "sound im (snd (finalize_experiment k c reason im))"
proof -
  have decided: "quiet im (snd (alloc_decision_id (snd (next_sequence im))))"
    by (rule quiet_trans [OF quiet_alloc(1) quiet_alloc(8)])
  have "sound im (put_experiment k (finalize_record dec points s r) im')"
    if "find_experiment im k = Some r" "im' = snd (alloc_decision_id (snd (next_sequence im))) \<or>
      im' = snd (alloc_rollback_id (snd (alloc_decision_id (snd (next_sequence im)))))" for dec points s r im'
    by (rule sound_put_quiet [OF finalizing.record_update_axioms _ that(1)])
      (use that(2) decided quiet_trans [OF decided quiet_alloc(9)] in auto)
  then show ?thesis
    by (simp add: finalize_experiment_def Let_def case_prod_beta sound_commit_plain(1) split: option.split)
qed

theorem sound_fork_branch: "sound im (snd (fork_branch k parent spec im))"
proof (rule put_ordered_sound)
  assume inv: "coord_inv im"
  define im2 where "im2 = snd (alloc_branch_id (snd (next_sequence im)))"
  have quiet: "quiet im im2" unfolding im2_def by (rule quiet_trans [OF quiet_alloc(1) quiet_alloc(5)])
  have "sound im (put_experiment k (log_line line ((add_branch b r)\<lparr>er_revision_sequence := s\<rparr>)) im2)"
    "sound im (put_experiment k (pop_branch (log_line line ((add_branch b r)\<lparr>er_revision_sequence := s\<rparr>))) im2)"
    if "find_experiment im k = Some r" for line b s r
    using sound_put_quiet [OF forking.record_update_axioms quiet that]
      sound_put_quiet [OF unforking.record_update_axioms quiet that] by simp_all
  note both = this
  have undo: "put_experiment k (pop_branch r) (put_experiment k r i) = put_experiment k (pop_branch r) i" for r i
    by (simp add: put_experiment_def)
  have commit: "sound im (snd (commit_result (put_experiment k (pop_branch r')) (notify_event n) v (put_experiment k r' im2)))"
    if "find_experiment im k = Some r" "r' = log_line line ((add_branch b r)\<lparr>er_revision_sequence := s\<rparr>)"
    for n line b s r r' and v :: branch_id
    unfolding that(2) using undo_state [OF inv _ both(2) [OF that(1)]]
    by (intro sound_commit_result [OF both(1) [OF that(1)]]) auto
  show "sound im (snd (fork_branch k parent spec im))"
    using both commit
    by (simp add: fork_branch_def Let_def case_prod_beta undo im2_def split: option.split sum.split)
qed

section \<open>Experiments\<close>

lemma quiet_build_metrics: "quiet im (snd (build_metrics ms im))"
proof (induction ms arbitrary: im)
  case (Cons m ms)
  show ?case using quiet_trans [OF quiet_alloc(3) Cons] by (simp add: case_prod_beta)
qed simp

lemma quiet_build_branches: "quiet im (snd (build_branches s earlier bs im))"
proof (induction bs arbitrary: im earlier)
  case (Cons b bs)
  have "quiet im (snd (build_branches s e bs (snd (alloc_branch_id im))))" for e
    by (rule quiet_trans [OF quiet_alloc(5) Cons])
  then show ?case
    using quiet_alloc(5) [of im] by (simp add: Let_def case_prod_beta split: option.split sum.split)
qed simp

lemma sound_new_experiment:
  assumes fresh: "map_of (cs_experiments (im_state im)) eid = None"
    and r: "er_trials r = []" "er_attempts r = []" "ed_id (er_definition r) = eid"
    and exps: "cs_experiments (im_state im') = omap_put eid r (cs_experiments (im_state im))"
    and disk: "im_disk im' = im_disk im" and grow: "watermarks_grow (im_state im) (im_state im')"
    and key: "id_value eid \<le> cs_id_watermark_experiment (im_state im')"
  shows "sound im im'"
proof -
  let ?s = "im_state im" and ?s' = "im_state im'"
  have new: "rec_inv r" "ids_bounded ?s' r" using r by (simp_all add: rec_inv_def ids_bounded_def)
  have "state_inv ?s'" if old: "state_inv ?s"
    unfolding state_inv_def
  proof (intro conjI allI impI ballI)
    show "omap_ordered (cs_experiments ?s')" using old exps by (simp add: state_inv_def omap_ordered_put)
    show "id_value k \<le> cs_id_watermark_experiment ?s'" if "k \<in> fst ` set (cs_experiments ?s')" for k
      using that exps key old grow by (auto simp: state_inv_def watermarks_grow_def intro: order_trans)
    fix k u assume "map_of (cs_experiments ?s') k = Some u"
    then have "k = eid \<and> u = r \<or> map_of (cs_experiments ?s) k = Some u" using exps by (auto split: if_splits)
    then have "ed_id (er_definition u) = k \<and> rec_inv u \<and> ids_bounded ?s' u"
      using new r(3) old ids_bounded_mono [OF _ grow] by (auto simp: state_inv_def)
    then show "ed_id (er_definition u) = k" "rec_inv u" "ids_bounded ?s' u" by auto
  qed
  moreover have "state_advances ?s ?s'" using fresh exps by (auto simp: state_advances_def)
  ultimately show ?thesis using disk by (simp add: sound_def coord_inv_def)
qed

lemma sound_store_experiment:
  assumes inv: "coord_inv im" and fresh: "map_of (cs_experiments (im_state im)) eid = None"
    and r: "er_trials r = []" "er_attempts r = []" "ed_id (er_definition r) = eid"
    and same: "cs_experiments (im_state im') = cs_experiments (im_state im)" "im_disk im' = im_disk im"
      "watermarks_grow (im_state im) (im_state im')" "id_value eid \<le> cs_id_watermark_experiment (im_state im')"
  shows "sound im (snd (store_experiment eid r im'))"
proof -
  define r1 where "r1 = log_line (lit ''experiment-created generation='' @ id_to_string (ed_generation (er_definition r))) r"
  define im1 where "im1 = im'\<lparr>im_state := (im_state im')\<lparr>cs_experiments := omap_put eid r1 (cs_experiments (im_state im))\<rparr>\<rparr>"
  have ord: "omap_ordered (cs_experiments (im_state im))" using inv by (simp add: coord_inv_def state_inv_def)
  have stored: "sound im im1"
    by (rule sound_new_experiment [OF fresh, where r = r1]) (use r same in \<open>simp_all add: r1_def im1_def\<close>)
  have erased: "im_state (erase_experiment eid i) = im_state im'" if "im_state i = im_state im1" for i
    using that same(1) omap_erase_put [OF ord fresh] by (simp add: erase_experiment_def im1_def)
  have undo: "coord_inv (erase_experiment eid i) \<and> state_advances (im_state im) (im_state (erase_experiment eid i))"
    if "im_state i = im_state im1" "coord_inv i" for i
  proof -
    have "sound im im'" by (rule sound_counters [OF same(1-3)])
    then have "state_inv (im_state im') \<and> state_advances (im_state im) (im_state im')"
      using inv unfolding sound_def coord_inv_def by blast
    moreover have "im_disk (erase_experiment eid i) = im_disk i" by (simp add: erase_experiment_def)
    ultimately show ?thesis using that(2) erased [OF that(1)] unfolding coord_inv_def by auto
  qed
  have "sound im (snd (commit_result (erase_experiment eid) (notify_event n) v im1))" for n and v :: experiment_id
    by (rule sound_commit_result [OF stored undo]) simp_all
  moreover have "sound im (erase_experiment eid im1)"
    using undo [of im1] stored by (auto simp: sound_def disk_follows_def)
  moreover have "im'\<lparr>im_state := (im_state im')\<lparr>cs_experiments := omap_emplace eid r1 (cs_experiments (im_state im'))\<rparr>\<rparr> = im1"
    using fresh same(1) by (simp add: im1_def omap_emplace_fresh)
  ultimately show ?thesis by (simp add: store_experiment_def Let_def flip: r1_def)
qed

theorem sound_create_experiment:
  assumes room: "room (im_state im)"
  shows "sound im (snd (create_experiment spec im))"
proof (rule put_ordered_sound)
  assume inv: "coord_inv im"
  let ?w = "cs_id_watermark_experiment (im_state im)"
  define im1 where "im1 = snd (alloc_experiment_id im)"
  have up: "?w < ?w + 1" using room below_top [of ?w] by (simp add: room_def room_unat)
  have one: "cs_experiments (im_state im1) = cs_experiments (im_state im)" "im_disk im1 = im_disk im"
    "watermarks_grow (im_state im) (im_state im1)" "cs_id_watermark_experiment (im_state im1) = ?w + 1"
    using up by (simp_all add: im1_def alloc_experiment_id_def Let_def watermarks_grow_def)
  have moved: "sound im im'" if "quiet im1 im'" for im'
    using sound_trans [OF sound_counters [OF one(1-3)] quiet_sound [OF that]] .
  define eid where "eid = fst (alloc_experiment_id im)"
  have store: "sound im (snd (store_experiment eid r im'))"
    if "quiet im1 im'" "find_experiment im1 eid = None" "er_trials r = []" "er_attempts r = []"
      "ed_id (er_definition r) = eid" for r im'
    by (rule sound_store_experiment [OF inv _ that(3-5)])
      (use that one in \<open>simp_all add: quiet_def find_experiment_def watermarks_grow_def eid_def alloc_experiment_id_def Let_def\<close>)
  define im4 where "im4 ms = snd (build_metrics ms (snd (alloc_hypothesis_id (snd (next_sequence im1)))))" for ms
  define im6 where "im6 ms s bs = snd (build_branches s [] bs (snd (alloc_policy_id (im4 ms))))" for ms s bs
  have four: "quiet im1 (im4 ms)" for ms
    unfolding im4_def by (rule quiet_trans [OF quiet_trans [OF quiet_alloc(1) quiet_alloc(2)] quiet_build_metrics])
  have six: "quiet im1 (im6 ms s bs)" for ms s bs
    unfolding im6_def by (rule quiet_trans [OF quiet_trans [OF four quiet_alloc(4)] quiet_build_branches])
  have pair: "alloc_experiment_id im = (eid, im1)" by (simp add: eid_def im1_def)
  show "sound im (snd (create_experiment spec im))"
    using moved [OF quiet_refl] moved [OF four] moved [OF six] store [OF six]
    by (simp add: create_experiment_def Let_def pair case_prod_beta im4_def im6_def build_record_def
        split: option.split sum.split)
qed

section \<open>Workers\<close>

lemma sound_fold: "(\<And>x i. sound i (f x i)) \<Longrightarrow> sound im (fold f xs im)"
proof (induction xs arbitrary: im)
  case (Cons x xs)
  then show ?case using sound_trans by fastforce
qed simp

lemma sound_replace_incarnations: "sound im (replace_incarnations q s im)"
proof -
  have "sound i (replace_incarnation s live i)" for live i
    unfolding replace_incarnation_def
    by (rule sound_trans [OF sound_map_workers sound_map_experiments [OF record_update_lose_worker]])
  from sound_trans [OF sound_fold [OF this] sound_live_workers] show ?thesis
    by (simp add: replace_incarnations_def Let_def)
qed

lemma sound_admit_worker: "sound im (snd (admit_worker q im))"
proof -
  define im2 where "im2 = snd (alloc_producer_id (snd (next_sequence im)))"
  have "sound im im2"
    unfolding im2_def by (rule quiet_sound [OF quiet_trans [OF quiet_alloc(1) quiet_alloc(10)]])
  then have stored: "sound im (snd (persist_locked (map_workers f (im2\<lparr>im_live_workers := ws\<rparr>))))" for f ws
    by (rule sound_trans [OF _ sound_trans [OF sound_live_workers sound_trans [OF sound_map_workers sound_persist]]])
  then show ?thesis
    using sound_trans [OF stored sound_notify(1)] by (simp add: admit_worker_def Let_def case_prod_beta im2_def)
qed

theorem sound_register_worker: "sound im (snd (register_worker q im))"
proof -
  define im2 where "im2 = replace_incarnations q (fst (next_sequence im)) (snd (next_sequence im))"
  have "sound im im2"
    unfolding im2_def by (rule sound_trans [OF quiet_sound [OF quiet_alloc(1)] sound_replace_incarnations])
  then show ?thesis
    using sound_trans [OF _ sound_admit_worker]
    by (simp add: register_worker_def Let_def case_prod_beta im2_def split: option.split)
qed

section \<open>Attempts\<close>

lemma issue_rec_inv:
  assumes inv: "rec_inv r" and t: "map_of (er_trials r) tid = Some t" "tr_state t = TS_READY"
    and fresh: "map_of (er_attempts r) aid = None"
    and t': "tr_id t' = tid" "tr_branch t' = tr_branch t" "tr_state t' = TS_ASSIGNED"
      "tr_authoritative_attempt t' = aid" "tr_committed_attempts t' = tr_committed_attempts t"
    and a: "at_id a = aid" "at_trial a = tid" "at_branch a = tr_branch t" "at_state a = AS_ISSUED" "\<not> at_committed a"
    and r': "er_trials r' = omap_put tid t' (er_trials r)" "er_attempts r' = omap_put aid a (er_attempts r)"
  shows "rec_inv r'"
proof -
  have "trial_inv (er_attempts r') m u" if u: "map_of (er_trials r') m = Some u" for m u
  proof (cases "m = tid")
    case True
    then have "u = t'" using u r' by simp
    then show ?thesis using rec_inv_trial [OF inv t(1)] True t t' a r' by (auto simp: trial_inv_def live_attempt_def)
  next
    case False
    then have old: "trial_inv (er_attempts r) m u" using u r' rec_inv_trial [OF inv] by simp
    have kept: "map_of (er_attempts r') j = Some c" if "map_of (er_attempts r) j = Some c" for j c
      using that fresh r' by auto
    show ?thesis using old kept unfolding trial_inv_def by blast
  qed
  moreover have "attempt_inv (er_trials r') j c" if c: "map_of (er_attempts r') j = Some c" for j c
  proof (cases "j = aid")
    case True
    then have "c = a" using c r' by simp
    then show ?thesis using True t t' a r' by (auto simp: attempt_inv_def)
  next
    case False
    then have old: "attempt_inv (er_trials r) j c" using c r' rec_inv_attempt [OF inv] by simp
    then show ?thesis
      using t t' r' by (cases "at_trial c = tid") (auto simp: attempt_inv_def)
  qed
  ultimately show ?thesis using inv by (simp add: rec_inv_def r' omap_ordered_put)
qed

lemma quiet_reserve_metrics: "quiet im (snd (reserve_metrics ms im))"
proof (induction ms arbitrary: im)
  case (Cons m ms)
  show ?case using quiet_trans [OF quiet_alloc(6) Cons] by (simp add: case_prod_beta)
qed simp

lemma quiet_reserve_artifacts: "quiet im (snd (reserve_artifacts n im))"
proof (induction n arbitrary: im)
  case (Suc n)
  show ?case using quiet_trans [OF quiet_alloc(7) Suc] by (simp add: case_prod_beta)
qed simp

lemma claimable_ready: "claimable l r t \<Longrightarrow> tr_state t = TS_READY"
  by (auto simp: claimable_def Let_def)

text \<open>The record after one issue, and the counters around it.\<close>

definition issued_record ::
    "claim_trial_request \<Rightarrow> producer_id \<Rightarrow> experiment_record \<Rightarrow> trial_id \<Rightarrow> trial_record \<Rightarrow> impl \<Rightarrow> experiment_record" where
  "issued_record q producer r tid t im =
     (let aid = fst (alloc_attempt_id im);
          a = issue_attempt q (im_epoch im) producer r t aid (cs_last_sequence (im_state im) + 1)
      in r\<lparr>er_trials := omap_put tid (assign_trial a (cs_last_sequence (im_state im) + 1) t) (er_trials r),
           er_attempts := omap_emplace aid a (er_attempts r)\<rparr>)"

lemma issue_trial_state:
  assumes "im' = snd (issue_trial q producer k r tid t im)"
  shows "cs_experiments (im_state im') = omap_put k (issued_record q producer r tid t im) (cs_experiments (im_state im))"
    and "im_disk im' = im_disk im" and "im_epoch im' = im_epoch im" and "im_limits im' = im_limits im"
    and "im_admitting_work im' = im_admitting_work im"
    and "cs_id_watermark_experiment (im_state im') = cs_id_watermark_experiment (im_state im)"
    and "cs_id_watermark_trial (im_state im') = cs_id_watermark_trial (im_state im)"
    and "cs_id_watermark_attempt (im_state im') = cs_id_watermark_attempt (im_state im) + 1"
    and "im_live_workers im' = omap_modify (id_value (ct_worker q), id_value (ct_boot q))
      (\<lambda>live. live\<lparr>lw_active_assignments := lw_active_assignments live + 1,
         lw_total_assignments := lw_total_assignments live + 1\<rparr>) (im_live_workers im)"
proof -
  let ?im2 = "snd (alloc_attempt_id (snd (next_sequence im)))"
  let ?im4 = "snd (reserve_artifacts (unat (artifact_budget (im_limits im) r))
      (snd (reserve_metrics (ed_metrics (er_definition r)) ?im2)))"
  have quiet: "quiet ?im2 ?im4" by (rule quiet_trans [OF quiet_reserve_metrics quiet_reserve_artifacts])
  have aid: "fst (alloc_attempt_id (snd (next_sequence im))) = fst (alloc_attempt_id im)"
    by (simp add: alloc_attempt_id_def Let_def)
  have im': "im' = (put_experiment k (issued_record q producer r tid t im) ?im4)\<lparr>im_live_workers :=
      omap_modify (id_value (ct_worker q), id_value (ct_boot q))
      (\<lambda>live. live\<lparr>lw_active_assignments := lw_active_assignments live + 1,
         lw_total_assignments := lw_total_assignments live + 1\<rparr>) (im_live_workers ?im4)\<rparr>"
    using assms aid by (simp add: issue_trial_def issued_record_def case_prod_beta Let_def put_experiment_def)
  show "cs_experiments (im_state im') = omap_put k (issued_record q producer r tid t im) (cs_experiments (im_state im))"
    "im_disk im' = im_disk im" "im_epoch im' = im_epoch im" "im_limits im' = im_limits im"
    "im_admitting_work im' = im_admitting_work im"
    "cs_id_watermark_experiment (im_state im') = cs_id_watermark_experiment (im_state im)"
    "cs_id_watermark_trial (im_state im') = cs_id_watermark_trial (im_state im)"
    "cs_id_watermark_attempt (im_state im') = cs_id_watermark_attempt (im_state im) + 1"
    "im_live_workers im' = omap_modify (id_value (ct_worker q), id_value (ct_boot q))
      (\<lambda>live. live\<lparr>lw_active_assignments := lw_active_assignments live + 1,
         lw_total_assignments := lw_total_assignments live + 1\<rparr>) (im_live_workers im)"
    using quiet by (simp_all add: im' quiet_def put_experiment_def alloc_attempt_id_def Let_def)
qed

lemma sound_issue_trial:
  assumes r: "find_experiment im k = Some r" and t: "map_of (er_trials r) tid = Some t" "tr_state t = TS_READY"
    and room: "unat (cs_id_watermark_attempt (im_state im)) + 1 < 2 ^ 64"
  shows "sound im (snd (issue_trial q producer k r tid t im))"
proof (rule sound_put [OF _ _ _ r])
  define im' where "im' = snd (issue_trial q producer k r tid t im)"
  define w where "w = cs_id_watermark_attempt (im_state im)"
  note state = issue_trial_state [OF im'_def]
  have up: "w < w + 1" using below_top room by (simp add: w_def)
  show "cs_experiments (im_state (snd (issue_trial q producer k r tid t im))) =
      omap_put k (issued_record q producer r tid t im) (cs_experiments (im_state im))"
    and "im_disk (snd (issue_trial q producer k r tid t im)) = im_disk im"
    and grow: "watermarks_grow (im_state im) (im_state (snd (issue_trial q producer k r tid t im)))"
    using state up by (simp_all add: watermarks_grow_def w_def flip: im'_def)
  assume "coord_inv im"
  then have old: "rec_inv r" "ids_bounded (im_state im) r" using coord_inv_record r by auto
  let ?r = "issued_record q producer r tid t im" and ?aid = "from_value (w + 1) :: trial_attempt_id"
  have fresh: "map_of (er_attempts r) ?aid = None"
    by (rule fresh_key [OF up]) (use old in \<open>simp add: ids_bounded_def w_def\<close>)
  have key: "tid \<in> fst ` set (er_trials r)" using t(1) by (metis map_of_eq_None_iff option.discI)
  have id: "tr_id t = tid" using rec_inv_trial [OF old(1) t(1)] by (simp add: trial_inv_def)
  obtain a t' where parts: "er_trials ?r = omap_put tid t' (er_trials r)" "er_attempts ?r = omap_put ?aid a (er_attempts r)"
    and a: "at_id a = ?aid" "at_trial a = tid" "at_branch a = tr_branch t" "at_state a = AS_ISSUED" "\<not> at_committed a"
    and t': "t' = assign_trial a (cs_last_sequence (im_state im) + 1) t"
    using fresh id
    by (simp add: issued_record_def Let_def alloc_attempt_id_def w_def omap_emplace_fresh) (simp add: issue_attempt_def)
  have "rec_inv ?r"
    by (rule issue_rec_inv [OF old(1) t fresh _ _ _ _ _ a parts]) (use t' id a in \<open>simp_all add: assign_trial_def\<close>)
  moreover have "evolves r ?r"
  proof (rule evolvesI)
    show "\<exists>u. map_of (er_trials ?r) m = Some u \<and> trial_later v u" if "map_of (er_trials r) m = Some v" for m v
      using that t by (auto simp: parts t' assign_trial_def trial_later_def)
    show "\<exists>d. map_of (er_attempts ?r) i = Some d \<and> attempt_later c d" if "map_of (er_attempts r) i = Some c" for i c
      using that fresh by (auto simp: parts)
  qed (simp_all add: issued_record_def Let_def)
  moreover have "ids_bounded (im_state im') ?r"
    using ids_bounded_mono [OF old(2) grow] key state(8)
    by (auto simp: ids_bounded_def parts w_def simp flip: im'_def)
  ultimately show "rec_inv ?r \<and> evolves r ?r \<and>
      ids_bounded (im_state (snd (issue_trial q producer k r tid t im))) ?r" by (simp add: im'_def)
qed

lemma claim_one_sound:
  assumes "sound im0 im" and "unat (cs_id_watermark_attempt (im_state im)) + unat budget < 2 ^ 64"
    and "claim_one q producer k tid (im, got, budget) = (im', got', budget')"
  shows "sound im0 im' \<and> unat (cs_id_watermark_attempt (im_state im')) + unat budget' < 2 ^ 64"
proof (cases "\<exists>r t. budget \<noteq> 0 \<and> find_experiment im k = Some r \<and> is_experiment_mutable (er_state r) \<and>
    map_of (er_trials r) tid = Some t \<and> claimable (im_limits im) r t")
  case False
  then have "im' = im \<and> budget' = budget"
    using assms(3) by (auto simp: claim_one_def split: if_splits option.splits)
  then show ?thesis using assms by simp
next
  case True
  then obtain r t where rt: "budget \<noteq> 0" "find_experiment im k = Some r" "map_of (er_trials r) tid = Some t"
    "claimable (im_limits im) r t" "is_experiment_mutable (er_state r)" by blast
  have im': "im' = snd (issue_trial q producer k r tid t im)" "budget' = budget - 1"
    using assms(3) rt by (auto simp: claim_one_def case_prod_beta)
  have down: "unat budget' + 1 = unat budget" using rt(1) by (simp add: im'(2) unat_minus_one unat_gt_0)
  have bound: "unat (cs_id_watermark_attempt (im_state im)) + 1 < 2 ^ 64" using assms(2) down by simp
  have "sound im im'"
    unfolding im' by (rule sound_issue_trial [OF rt(2,3) claimable_ready [OF rt(4)] bound])
  then show ?thesis
    using sound_trans [OF assms(1)] assms(2) down below_top [OF bound] issue_trial_state(8) [OF im'(1)] by simp
qed

lemma claim_fold_sound:
  assumes "sound im0 im" and "unat (cs_id_watermark_attempt (im_state im)) + unat budget < 2 ^ 64"
  shows "sound im0 (fst (fold (\<lambda>(k, tid). claim_one q producer k tid) todo (im, got, budget)))"
  using assms
proof (induction todo arbitrary: im got budget)
  case (Cons x todo)
  obtain k tid where x: "x = (k, tid)" by fastforce
  obtain im' got' budget' where step: "claim_one q producer k tid (im, got, budget) = (im', got', budget')"
    by (cases "claim_one q producer k tid (im, got, budget)") auto
  from claim_one_sound [OF Cons.prems step] Cons.IH show ?case by (simp add: x step)
qed simp

theorem sound_claim_trials:
  assumes "room (im_state im)"
  shows "sound im (snd (claim_trials q im))"
proof -
  have "unat (cs_id_watermark_attempt (im_state im)) + unat budget < 2 ^ 64" for budget :: u32
    using assms unsigned_less [of budget, where ?'a = nat] by (simp add: room_def room_unat)
  then have folded: "sound im (fst (fold (\<lambda>(k, tid). claim_one q producer k tid) todo
      (im\<lparr>im_live_workers := ws\<rparr>, got, budget)))" for producer todo ws got budget
    by (intro claim_fold_sound sound_live_workers) simp
  then show ?thesis
    using sound_trans [OF folded sound_persist]
    by (simp add: claim_trials_def Let_def case_prod_beta split: option.split)
qed

end
