(* ===== verification/RecoverySafety.thy ===== *)
theory RecoverySafety
  imports IssueSafety
begin

text \<open>
  Soundness of the start of a process: reconciling recovered state keeps the invariant, changes
  nothing terminal and leaves no attempt and no trial with inherited authority.
\<close>

section \<open>Staging\<close>

lemma map_stamp_keys [simp]: "map fst (fst (map_stamp P f m s)) = map fst m"
  by (induction P f m s rule: map_stamp.induct) (simp_all add: case_prod_beta)

lemma map_stamp_key_set [simp]: "fst ` set (fst (map_stamp P f m s)) = fst ` set m"
  by (simp flip: set_map)

lemma map_stamp_lookup:
  "\<exists>s'. map_of (fst (map_stamp P f m s)) k = map_option (\<lambda>v. if P v then f s' v else v) (map_of m k)"
proof (induction P f m s rule: map_stamp.induct)
  case (2 P f k' v m s)
  then show ?case by (cases "P v") (auto simp: case_prod_beta)
qed simp

lemma map_stamp_untouched: "\<not> list_ex P (omap_values m) \<Longrightarrow> fst (map_stamp P f m s) = m"
  by (induction P f m s rule: map_stamp.induct) (auto simp: case_prod_beta omap_values_def)

lemma log_fold_frame [simp]:
  "er_trials (fold (\<lambda>t. log_line (g t)) ts r) = er_trials r" "er_attempts (fold (\<lambda>t. log_line (g t)) ts r) = er_attempts r"
  "er_observations (fold (\<lambda>t. log_line (g t)) ts r) = er_observations r"
  "er_decisions (fold (\<lambda>t. log_line (g t)) ts r) = er_decisions r"
  "er_rollback_points (fold (\<lambda>t. log_line (g t)) ts r) = er_rollback_points r"
  "er_hypothesis_history (fold (\<lambda>t. log_line (g t)) ts r) = er_hypothesis_history r"
  "er_definition (fold (\<lambda>t. log_line (g t)) ts r) = er_definition r"
  "er_state (fold (\<lambda>t. log_line (g t)) ts r) = er_state r"
  by (induction ts arbitrary: r) simp_all

definition staged :: "experiment_record \<Rightarrow> bool" where
  "staged r \<longleftrightarrow> (\<forall>k t. map_of (er_trials r) k = Some t \<longrightarrow> \<not> executing (tr_state t))"

definition settled :: "experiment_record \<Rightarrow> bool" where
  "settled r \<longleftrightarrow> (\<forall>k t. map_of (er_trials r) k = Some t \<longrightarrow> \<not> holding (tr_state t))"

lemma stage_record_trials:
  "er_trials (fst (stage_record r s)) = fst (map_stamp live_trial revalidate_trial (er_trials r)
     (snd (map_stamp live_attempt revalidate_attempt (er_attempts r) s)))"
  "er_attempts (fst (stage_record r s)) = fst (map_stamp live_attempt revalidate_attempt (er_attempts r) s)"
  by (auto simp: stage_record_def Let_def case_prod_beta)

lemma stage_record_frame:
  "er_definition (fst (stage_record r s)) = er_definition r"
  "er_observations (fst (stage_record r s)) = er_observations r"
  "er_decisions (fst (stage_record r s)) = er_decisions r"
  "er_rollback_points (fst (stage_record r s)) = er_rollback_points r"
  "er_hypothesis_history (fst (stage_record r s)) = er_hypothesis_history r"
  by (auto simp: stage_record_def Let_def case_prod_beta)

lemma staged_trial:
  assumes "map_of (er_trials r) k = Some t"
  shows "\<exists>t'. map_of (er_trials (fst (stage_record r s))) k = Some t' \<and>
    (t' = t \<and> is_terminal (tr_state t) \<or> \<not> is_terminal (tr_state t) \<and> (\<exists>n. t' = revalidate_trial n t))"
  using map_stamp_lookup [of live_trial revalidate_trial "er_trials r" "snd (map_stamp live_attempt revalidate_attempt (er_attempts r) s)" k]
    assms
  by (auto simp: stage_record_trials live_trial_def)

lemma staged_attempt:
  assumes "map_of (er_attempts r) j = Some a"
  shows "\<exists>a'. map_of (er_attempts (fst (stage_record r s))) j = Some a' \<and>
    (a' = a \<and> is_attempt_terminal (at_state a) \<or> \<not> is_attempt_terminal (at_state a) \<and> (\<exists>n. a' = revalidate_attempt n a))"
  using map_stamp_lookup [of live_attempt revalidate_attempt "er_attempts r" s j] assms
  by (auto simp: stage_record_trials live_attempt_def)

lemma staged_none:
  "map_of (er_trials (fst (stage_record r s))) k = None \<longleftrightarrow> map_of (er_trials r) k = None"
  "map_of (er_attempts (fst (stage_record r s))) j = None \<longleftrightarrow> map_of (er_attempts r) j = None"
  by (simp_all add: map_of_eq_None_iff stage_record_trials)

interpretation staging: record_update "\<lambda>r. fst (stage_record r s)" "\<lambda>r. True"
proof unfold_locales
  fix r assume inv: "rec_inv r"
  let ?r = "fst (stage_record r s)"
  have "trial_inv (er_attempts ?r) k t'" if t': "map_of (er_trials ?r) k = Some t'" for k t'
  proof -
    obtain t where t: "map_of (er_trials r) k = Some t" using t' staged_none(1) by (metis not_None_eq)
    then have old: "trial_inv (er_attempts r) k t" by (rule rec_inv_trial [OF inv])
    have owned: "\<exists>b. map_of (er_attempts ?r) j = Some b \<and> at_trial b = at_trial a \<and> (at_state a = AS_COMPLETED \<longrightarrow> b = a)"
      if "map_of (er_attempts r) j = Some a" for j a
      using staged_attempt [OF that, of s] by (auto simp: revalidate_attempt_def)
    from staged_trial [OF t, of s] t' consider "t' = t" "is_terminal (tr_state t)"
      | n where "\<not> is_terminal (tr_state t)" "t' = revalidate_trial n t" by auto
    then show ?thesis
    proof cases
      case 1
      then have "\<not> executing (tr_state t)" using executing_live by blast
      then show ?thesis using old owned 1 unfolding trial_inv_def by (metis (full_types))
    next
      case 2
      then have "tr_state t \<noteq> TS_COMPLETED" by auto
      then show ?thesis using old owned 2 unfolding trial_inv_def revalidate_trial_def by (auto; metis)
    qed
  qed
  moreover have "attempt_inv (er_trials ?r) j a'" if a': "map_of (er_attempts ?r) j = Some a'" for j a'
  proof -
    obtain a where a: "map_of (er_attempts r) j = Some a" using a' staged_none(2) by (metis not_None_eq)
    then have old: "attempt_inv (er_trials r) j a" by (rule rec_inv_attempt [OF inv])
    then obtain t where t: "map_of (er_trials r) (at_trial a) = Some t" by (auto simp: attempt_inv_def)
    obtain t' where t': "map_of (er_trials ?r) (at_trial a) = Some t'"
      "t' = t \<and> is_terminal (tr_state t) \<or> \<not> is_terminal (tr_state t) \<and> (\<exists>n. t' = revalidate_trial n t)"
      using staged_trial [OF t, of s] by blast
    have "a' = a \<and> is_attempt_terminal (at_state a) \<or>
        \<not> is_attempt_terminal (at_state a) \<and> (\<exists>n. a' = revalidate_attempt n a)"
      using staged_attempt [OF a, of s] a' by auto
    then show ?thesis
      using old t t' holding_live [of "tr_state t"]
      by (auto simp: attempt_inv_def live_attempt_def revalidate_trial_def revalidate_attempt_def)
  qed
  ultimately show "rec_inv ?r"
    using inv by (simp add: rec_inv_def stage_record_trials)
  show "evolves r ?r"
  proof (rule evolvesI)
    show "\<exists>u. map_of (er_trials ?r) m = Some u \<and> trial_later v u" if "map_of (er_trials r) m = Some v" for m v
      using staged_trial [OF that, of s] by (auto simp: trial_later_def revalidate_trial_def)
    show "\<exists>d. map_of (er_attempts ?r) i = Some d \<and> attempt_later c d" if "map_of (er_attempts r) i = Some c" for i c
      using staged_attempt [OF that, of s] by (auto simp: attempt_later_def revalidate_attempt_def)
  qed (simp_all add: stage_record_frame)
  show "fst ` set (er_trials ?r) = fst ` set (er_trials r) \<and> fst ` set (er_attempts ?r) = fst ` set (er_attempts r)"
    by (simp add: stage_record_trials)
qed

lemma stage_record_staged: "staged (fst (stage_record r s))"
  unfolding staged_def
proof (intro allI impI)
  fix k t' assume t': "map_of (er_trials (fst (stage_record r s))) k = Some t'"
  then obtain t where "map_of (er_trials r) k = Some t" using staged_none(1) by (metis not_None_eq)
  from staged_trial [OF this, of s] t' show "\<not> executing (tr_state t')"
    by (auto simp: revalidate_trial_def dest: executing_live)
qed

lemma stage_untouched_settled:
  assumes "\<not> stage_touched r"
  shows "settled (fst (stage_record r s))"
proof -
  have "er_trials (fst (stage_record r s)) = er_trials r"
    using assms by (simp add: stage_touched_def stage_record_trials map_stamp_untouched)
  moreover have "\<not> holding (tr_state t)" if "map_of (er_trials r) k = Some t" for k t
    using map_of_in_values [OF that] assms
    by (auto simp: stage_touched_def list_ex_iff live_trial_def dest: holding_live)
  ultimately show ?thesis by (simp add: settled_def)
qed

section \<open>Resolution\<close>

lemma resolve_trial_skip:
  "\<not> (\<exists>t. map_of (er_trials r) k = Some t \<and> tr_state t = TS_REVALIDATION_REQUIRED) \<Longrightarrow> resolve_trial k (r, s) = (r, s)"
  by (auto simp: resolve_trial_def split: option.split)

lemma resolve_trial_parts:
  assumes "map_of (er_trials r) k = Some t" and "tr_state t = TS_REVALIDATION_REQUIRED"
  shows "er_attempts (fst (resolve_trial k (r, s))) =
      fst (map_stamp (\<lambda>a. at_trial a = tr_id t \<and> live_attempt a) abandon_recovered (er_attempts r) s)"
    and "\<exists>n. er_trials (fst (resolve_trial k (r, s))) =
      omap_put k ((resolve_trial_record (resolves_to_ready r t) t)\<lparr>tr_updated_sequence := n\<rparr>) (er_trials r)"
    and "er_definition (fst (resolve_trial k (r, s))) = er_definition r"
    and "er_observations (fst (resolve_trial k (r, s))) = er_observations r"
    and "er_decisions (fst (resolve_trial k (r, s))) = er_decisions r"
    and "er_rollback_points (fst (resolve_trial k (r, s))) = er_rollback_points r"
    and "er_hypothesis_history (fst (resolve_trial k (r, s))) = er_hypothesis_history r"
  using assms by (auto simp: resolve_trial_def Let_def case_prod_beta)

lemma resolve_trial_update:
  assumes inv: "rec_inv r"
  shows "rec_inv (fst (resolve_trial k (r, s))) \<and> evolves r (fst (resolve_trial k (r, s))) \<and>
    fst ` set (er_trials (fst (resolve_trial k (r, s)))) = fst ` set (er_trials r) \<and>
    fst ` set (er_attempts (fst (resolve_trial k (r, s)))) = fst ` set (er_attempts r)"
proof (cases "\<exists>t. map_of (er_trials r) k = Some t \<and> tr_state t = TS_REVALIDATION_REQUIRED")
  case False
  then show ?thesis using inv by (simp add: resolve_trial_skip)
next
  case True
  then obtain t where t: "map_of (er_trials r) k = Some t" "tr_state t = TS_REVALIDATION_REQUIRED" by blast
  let ?r = "fst (resolve_trial k (r, s))"
  note parts = resolve_trial_parts [OF t, of s]
  obtain n where trials: "er_trials ?r =
      omap_put k ((resolve_trial_record (resolves_to_ready r t) t)\<lparr>tr_updated_sequence := n\<rparr>) (er_trials r)"
    using parts(2) by blast
  let ?t = "(resolve_trial_record (resolves_to_ready r t) t)\<lparr>tr_updated_sequence := n\<rparr>"
  have id: "tr_id t = k" using rec_inv_trial [OF inv t(1)] by (simp add: trial_inv_def)
  have live: "live_trial t" by (simp add: live_trial_def t(2))
  define g where "g j = abandon_recovered (at_updated_sequence (the (map_of (er_attempts ?r) j)))" for j
  have attempts: "map_of (er_attempts ?r) j =
      map_option (\<lambda>a. if at_trial a = k \<and> live_attempt a then g j a else a) (map_of (er_attempts r) j)" for j
  proof -
    obtain s' where look: "map_of (er_attempts ?r) j =
        map_option (\<lambda>a. if at_trial a = k \<and> live_attempt a then abandon_recovered s' a else a) (map_of (er_attempts r) j)"
      using map_stamp_lookup [of "\<lambda>a. at_trial a = tr_id t \<and> live_attempt a" abandon_recovered "er_attempts r" s j]
      unfolding parts(1) id by (rule exE)
    show ?thesis
      by (cases "map_of (er_attempts r) j") (simp_all add: look g_def abandon_recovered_def)
  qed
  have closed: "attempt_later c (g i c)" if "live_attempt c" for i c
    using that by (simp add: attempt_later_def g_def abandon_recovered_def live_attempt_def)
  have later: "trial_later t ?t" using live by (simp add: trial_later_def resolve_trial_record_def live_trial_def)
  have "rec_inv ?r"
  proof (rule close_one_rec_inv [OF inv t(1) live _ _ _ _ _ _ _ _ _ attempts])
    show "at_id (g j a) = at_id a \<and> at_trial (g j a) = at_trial a \<and> at_branch (g j a) = at_branch a \<and>
        at_committed (g j a) = at_committed a \<and> \<not> live_attempt (g j a) \<and> at_state (g j a) \<noteq> AS_COMPLETED" for j a
      by (simp add: g_def abandon_recovered_def live_attempt_def)
    show "map_of (er_trials ?r) = (map_of (er_trials r))(k \<mapsto> ?t)" by (simp add: trials)
    show "omap_ordered (er_trials ?r)" "omap_ordered (er_attempts ?r)"
      using inv by (simp_all add: rec_inv_def trials parts(1) omap_ordered_put)
  qed (simp_all add: resolve_trial_record_def)
  moreover have "evolves r ?r"
  proof (rule evolvesI)
    show "\<exists>u. map_of (er_trials ?r) m = Some u \<and> trial_later v u" if "map_of (er_trials r) m = Some v" for m v
      using that t later by (auto simp: trials)
    show "\<exists>d. map_of (er_attempts ?r) i = Some d \<and> attempt_later c d" if "map_of (er_attempts r) i = Some c" for i c
      using that attempts [of i] closed by auto
  qed (simp_all add: parts)
  moreover have "k \<in> fst ` set (er_trials r)" using t(1) by (metis map_of_eq_None_iff option.discI)
  ultimately show ?thesis by (simp add: trials parts(1) insert_absorb)
qed

lemma resolve_fold_update:
  "rec_inv r \<Longrightarrow>
     rec_inv (fst (fold resolve_trial ks (r, s))) \<and> evolves r (fst (fold resolve_trial ks (r, s))) \<and>
     fst ` set (er_trials (fst (fold resolve_trial ks (r, s)))) = fst ` set (er_trials r) \<and>
     fst ` set (er_attempts (fst (fold resolve_trial ks (r, s)))) = fst ` set (er_attempts r)"
proof (induction ks arbitrary: r s)
  case (Cons k ks)
  obtain r' s' where step: "resolve_trial k (r, s) = (r', s')" by fastforce
  then have one: "rec_inv r'" "evolves r r'" "fst ` set (er_trials r') = fst ` set (er_trials r)"
    "fst ` set (er_attempts r') = fst ` set (er_attempts r)"
    using resolve_trial_update [OF Cons.prems, of k s] by auto
  then show ?case using Cons.IH [OF one(1), of s'] evolves_trans [OF one(2)] step by auto
qed simp

interpretation resolving: record_update "\<lambda>r. fst (resolve_record r s)" "\<lambda>r. True"
  by unfold_locales (simp_all add: resolve_record_def resolve_fold_update)

text \<open>A resolved trial is never in a state that holds authority, and resolution adds no such trial.\<close>

lemma resolve_trial_states:
  assumes "map_of (er_trials (fst (resolve_trial k (r, s)))) m = Some t'"
  shows "\<exists>t. map_of (er_trials r) m = Some t \<and> (t' = t \<or> \<not> holding (tr_state t')) \<and>
    (m = k \<longrightarrow> tr_state t' \<noteq> TS_REVALIDATION_REQUIRED)"
proof (cases "\<exists>t. map_of (er_trials r) k = Some t \<and> tr_state t = TS_REVALIDATION_REQUIRED")
  case False
  then show ?thesis using assms by (auto simp: resolve_trial_skip)
next
  case True
  then obtain t where t: "map_of (er_trials r) k = Some t" "tr_state t = TS_REVALIDATION_REQUIRED" by blast
  then show ?thesis
    using assms resolve_trial_parts(2) [OF t, of s] by (auto simp: resolve_trial_record_def split: if_splits)
qed

lemma resolve_fold_states:
  "map_of (er_trials (fst (fold resolve_trial ks (r, s)))) m = Some t' \<Longrightarrow>
     \<exists>t. map_of (er_trials r) m = Some t \<and> (t' = t \<or> \<not> holding (tr_state t')) \<and>
       (m \<in> set ks \<longrightarrow> tr_state t' \<noteq> TS_REVALIDATION_REQUIRED)"
proof (induction ks arbitrary: r s)
  case (Cons k ks)
  obtain r' s' where step: "resolve_trial k (r, s) = (r', s')" by fastforce
  obtain u where u: "map_of (er_trials r') m = Some u" "t' = u \<or> \<not> holding (tr_state t')"
    "m \<in> set ks \<longrightarrow> tr_state t' \<noteq> TS_REVALIDATION_REQUIRED"
    using Cons.IH Cons.prems step by fastforce
  from resolve_trial_states [of k r s m u] u(1) step
  obtain t where "map_of (er_trials r) m = Some t" "u = t \<or> \<not> holding (tr_state u)"
    "m = k \<longrightarrow> tr_state u \<noteq> TS_REVALIDATION_REQUIRED" by auto
  then show ?case using u(2,3) by (auto simp: holding_def)
qed auto

lemma resolve_record_settled:
  assumes "staged r"
  shows "settled (fst (resolve_record r s))"
  unfolding settled_def
proof (intro allI impI)
  fix m t' assume "map_of (er_trials (fst (resolve_record r s))) m = Some t'"
  from resolve_fold_states [OF this [unfolded resolve_record_def]]
  obtain t where t: "map_of (er_trials r) m = Some t" "t' = t \<or> \<not> holding (tr_state t')"
    "m \<in> set (map fst (er_trials r)) \<longrightarrow> tr_state t' \<noteq> TS_REVALIDATION_REQUIRED" by blast
  have "m \<in> set (map fst (er_trials r))" using t(1) by (metis map_of_eq_None_iff option.discI set_map)
  then show "\<not> holding (tr_state t')" using t assms by (auto simp: staged_def holding_def)
qed

section \<open>The two loops over the experiments\<close>

lemma stage_loop_sound:
  assumes "distinct ks" and "stage_loop ks changed im = (st, changed', im')"
  shows "sound im im' \<and> (changed \<longrightarrow> changed') \<and>
    (\<forall>k. k \<notin> set ks \<longrightarrow> find_experiment im' k = find_experiment im k) \<and>
    (st_ok st \<longrightarrow> (\<forall>k r. k \<in> set ks \<longrightarrow> find_experiment im' k = Some r \<longrightarrow>
       staged r \<and> (changed' \<or> settled r)))"
  using assms
proof (induction ks arbitrary: changed im)
  case (Cons k ks)
  then have ks: "distinct ks" "k \<notin> set ks" by auto
  show ?case
  proof (cases "find_experiment im k")
    case None
    from Cons.IH [OF ks(1), of changed im] Cons.prems None ks show ?thesis by auto
  next
    case (Some r)
    let ?r = "fst (stage_record r (cs_last_sequence (im_state im)))"
    define v where "v = snd (stage_record r (cs_last_sequence (im_state im)))"
    define im1 where "im1 = put_experiment k ?r (im\<lparr>im_state := (im_state im)\<lparr>cs_last_sequence := v\<rparr>\<rparr>)"
    define im2 where "im2 = (if stage_touched r then snd (persist_locked im1) else im1)"
    define c where "c = (changed \<or> er_state r = ES_RECOVERING \<or> stage_touched r)"
    have one: "sound im im1" unfolding im1_def by (rule staging.sound_put_sequence [OF Some]) simp
    then have two: "sound im im2" using sound_trans [OF one sound_persist] by (simp add: im2_def)
    have find1: "find_experiment im1 k' = (if k' = k then Some ?r else find_experiment im k')" for k'
      unfolding im1_def find_put_experiment by (simp add: find_experiment_def)
    have find2: "find_experiment im2 k' = (if k' = k then Some ?r else find_experiment im k')" for k'
      using find1 by (simp add: im2_def find_experiment_cong [of "snd (persist_locked im1)" im1])
    have here: "staged ?r \<and> (c \<or> settled ?r)"
      using stage_record_staged stage_untouched_settled by (auto simp: c_def)
    show ?thesis
    proof (cases "stage_touched r \<and> \<not> st_ok (fst (persist_locked im1))")
      case True
      then have "\<not> st_ok st" "im' = im2" "changed' = c"
        using Cons.prems(2) Some
        by (auto simp: Let_def case_prod_beta im2_def c_def simp flip: im1_def v_def)
      then show ?thesis using two find2 by (auto simp: c_def)
    next
      case False
      then have rest: "stage_loop ks c im2 = (st, changed', im')"
        using Cons.prems(2) Some
        by (auto simp: Let_def case_prod_beta im2_def c_def simp flip: im1_def v_def split: if_splits)
      note ih = Cons.IH [OF ks(1) rest]
      have kept: "find_experiment im' k = Some ?r" using ih ks(2) find2 [of k] by simp
      have "sound im im'" using ih sound_trans [OF two] by blast
      moreover have "changed \<longrightarrow> changed'" using ih by (auto simp: c_def)
      moreover have "\<forall>k'. k' \<notin> set (k # ks) \<longrightarrow> find_experiment im' k' = find_experiment im k'"
        using ih find2 by auto
      moreover have "staged u \<and> (changed' \<or> settled u)"
        if "st_ok st" "k' \<in> set (k # ks)" "find_experiment im' k' = Some u" for k' u
        using that ih kept here by (cases "k' = k") auto
      ultimately show ?thesis by blast
    qed
  qed
qed simp

lemma resolve_experiment_sound: "sound im (resolve_experiment k im)"
proof (cases "find_experiment im k")
  case (Some r)
  then show ?thesis
    using resolving.sound_put_sequence [OF Some] by (simp add: resolve_experiment_def case_prod_beta)
qed (simp add: resolve_experiment_def)

lemma resolve_experiment_find:
  "find_experiment (resolve_experiment k im) k' =
     (if k' = k then map_option (\<lambda>r. fst (resolve_record r (cs_last_sequence (im_state im)))) (find_experiment im k)
      else find_experiment im k')"
  by (simp add: resolve_experiment_def case_prod_beta find_experiment_def put_experiment_def split: option.split)

lemma resolve_all_find:
  assumes "find_experiment (fold resolve_experiment ks im) k = Some u"
    and "\<And>r. find_experiment im k = Some r \<Longrightarrow> staged r \<and> (k \<in> set ks \<or> settled r)"
    and "distinct ks"
  shows "settled u"
  using assms
proof (induction ks arbitrary: im)
  case (Cons k' ks)
  show ?case
  proof (rule Cons.IH)
    show "find_experiment (fold resolve_experiment ks (resolve_experiment k' im)) k = Some u" using Cons.prems(1) by simp
    fix r assume "find_experiment (resolve_experiment k' im) k = Some r"
    then show "staged r \<and> (k \<in> set ks \<or> settled r)"
      using Cons.prems(2) resolve_record_settled
      by (auto simp: resolve_experiment_find staged_def settled_def holding_def split: if_splits)
  qed (use Cons.prems(3) in simp)
qed simp

lemma keys_ordered_distinct: "state_inv (im_state im) \<Longrightarrow> distinct (experiment_keys im)"
  by (simp add: state_inv_def experiment_keys_def omap_ordered_distinct)

lemma experiment_keys_find: "k \<in> set (experiment_keys im) \<longleftrightarrow> find_experiment im k \<noteq> None"
  by (simp add: experiment_keys_def find_experiment_def map_of_eq_None_iff)

theorem reconcile_sound:
  assumes inv: "coord_inv im" and "reconcile_recovered_state im = (st, im')"
  shows "sound im im'" and "st_ok st \<Longrightarrow> find_experiment im' k = Some u \<Longrightarrow> settled u"
proof -
  obtain st1 changed im1 where loop: "stage_loop (experiment_keys im) False im = (st1, changed, im1)"
    by (cases "stage_loop (experiment_keys im) False im") auto
  have keys: "distinct (experiment_keys im)" using inv keys_ordered_distinct by (simp add: coord_inv_def)
  note staged = stage_loop_sound [OF keys loop]
  then have inv1: "coord_inv im1" using inv by (simp add: sound_def)
  have all: "staged r \<and> (changed \<or> settled r)" if "st_ok st1" "find_experiment im1 k' = Some r" for k' r
    using staged that experiment_keys_find [of k' im] by (metis option.discI)
  define im2 where "im2 = fold resolve_experiment (experiment_keys im1) im1"
  have resolved: "sound im1 im2" unfolding im2_def by (rule sound_fold) (rule resolve_experiment_sound)
  show "sound im im'"
    using assms(2) staged sound_trans [OF conjunct1 [OF staged] sound_trans [OF resolved sound_persist]]
    by (auto simp: reconcile_recovered_state_def loop im2_def dest: arg_cong [of _ _ snd] split: if_splits)
  show "settled u" if ok: "st_ok st" "find_experiment im' k = Some u"
  proof (cases "st_ok st1 \<and> changed")
    case True
    then have "find_experiment im' k = find_experiment im2 k"
      using assms(2) by (auto simp: reconcile_recovered_state_def loop im2_def
          dest!: arg_cong [of _ _ snd] intro!: find_experiment_cong)
    then have "find_experiment (fold resolve_experiment (experiment_keys im1) im1) k = Some u"
      using ok(2) by (simp add: im2_def)
    then show ?thesis
    proof (rule resolve_all_find)
      show "staged r \<and> (k \<in> set (experiment_keys im1) \<or> settled r)" if "find_experiment im1 k = Some r" for r
        using all [OF _ that] True that experiment_keys_find [of k im1] by auto
      show "distinct (experiment_keys im1)" using inv1 keys_ordered_distinct by (simp add: coord_inv_def)
    qed
  next
    case False
    then show ?thesis
      using assms(2) ok all by (auto simp: reconcile_recovered_state_def loop split: if_splits)
  qed
qed

text \<open>Reconciling touches nothing of the process itself.\<close>

definition same_process :: "impl \<Rightarrow> impl \<Rightarrow> bool" where
  "same_process im im' \<longleftrightarrow>
     im_config im' = im_config im \<and> im_limits im' = im_limits im \<and> im_epoch im' = im_epoch im \<and>
     im_admitting_work im' = im_admitting_work im \<and> im_live_workers im' = im_live_workers im"

lemma same_process_trans: "same_process a b \<Longrightarrow> same_process b c \<Longrightarrow> same_process a c"
  by (simp add: same_process_def)

lemma same_process_steps [simp]:
  "same_process im im" "same_process im (snd (persist_locked im))"
  "same_process im (put_experiment k r (im\<lparr>im_state := s\<rparr>))" "same_process im (resolve_experiment k im)"
  by (simp_all add: same_process_def put_experiment_def resolve_experiment_def case_prod_beta split: option.split)

lemma same_process_stage_loop: "same_process im (snd (snd (stage_loop ks changed im)))"
proof (induction ks arbitrary: changed im)
  case (Cons k ks)
  show ?case
  proof (cases "find_experiment im k")
    case None
    then show ?thesis using Cons by simp
  next
    case (Some r)
    let ?im1 = "put_experiment k (fst (stage_record r (cs_last_sequence (im_state im))))
        (im\<lparr>im_state := (im_state im)\<lparr>cs_last_sequence := snd (stage_record r (cs_last_sequence (im_state im)))\<rparr>\<rparr>)"
    have one: "same_process im ?im1" by simp
    have two: "same_process im (snd (persist_locked ?im1))" by (rule same_process_trans [OF one]) simp
    have "same_process im (snd (snd (stage_loop ks c ?im1)))"
      "same_process im (snd (snd (stage_loop ks c (snd (persist_locked ?im1)))))" for c
      using same_process_trans [OF one Cons] same_process_trans [OF two Cons] by auto
    then show ?thesis using Some two by (simp add: Let_def case_prod_beta)
  qed
qed simp

lemma same_process_resolve_all: "same_process im (fold resolve_experiment ks im)"
proof (induction ks arbitrary: im)
  case (Cons k ks)
  show ?case using same_process_trans [OF same_process_steps(4) Cons] by simp
qed simp

lemma same_process_reconcile: "same_process im (snd (reconcile_recovered_state im))"
  using same_process_stage_loop [of im "experiment_keys im" False] same_process_resolve_all same_process_trans
  by (simp add: reconcile_recovered_state_def case_prod_beta) (meson same_process_steps(2))

section \<open>Process start\<close>

lemma state_inv_init: "state_inv (coordinator_state_init\<lparr>cs_format_version := v\<rparr>)"
  by (simp add: state_inv_def coordinator_state_init_def)

text \<open>What a state path may hold when a process starts.\<close>

definition image_inv :: "found_image \<Rightarrow> bool" where
  "image_inv found = (case found of Image (Inr d) \<Rightarrow> state_inv d | _ \<Rightarrow> True)"

theorem create_sound:
  assumes image: "image_inv found" and "create cfg found faults = Inr im"
  shows "coord_inv im" and "find_experiment im k = Some u \<Longrightarrow> settled u"
    and "load_state cfg found (im_state (new_impl cfg faults)) = Inr s \<Longrightarrow> state_advances s (im_state im)"
    and "im_live_workers im = []"
    and "load_state cfg found (im_state (new_impl cfg faults)) = Inr s \<Longrightarrow>
      im_epoch im = from_value (mint_epoch (cs_last_epoch s) (cg_epoch_seed cfg))"
proof -
  let ?im0 = "new_impl cfg faults"
  obtain s' where s': "load_state cfg found (im_state ?im0) = Inr s'"
    using assms(2) by (auto simp: create_def Let_def split: if_splits sum.splits)
  define im1 where "im1 = rebuild_indexes (?im0\<lparr>im_state := s'\<lparr>cs_last_epoch := mint_epoch (cs_last_epoch s') (cg_epoch_seed cfg)\<rparr>,
      im_epoch := from_value (mint_epoch (cs_last_epoch s') (cg_epoch_seed cfg)),
      im_disk := (case found of Image (Inr d) \<Rightarrow> Some d | _ \<Rightarrow> None)\<rparr>)"
  obtain st where st: "reconcile_recovered_state im1 = (st, im)" "st_ok st"
    using assms(2) s' by (auto simp: create_def Let_def im1_def [symmetric] split: if_splits prod.splits)
  have loaded: "state_inv s'"
    using s' image state_inv_init
    by (auto simp: load_state_def image_inv_def new_impl_def split: if_splits found_image.splits sum.splits)
  have "state_inv (s'\<lparr>cs_last_epoch := e\<rparr>)" for e
    using loaded by (simp add: state_inv_def ids_bounded_def)
  then have inv1: "coord_inv im1"
    using image by (auto simp: coord_inv_def im1_def rebuild_indexes_def image_inv_def split: found_image.splits sum.splits)
  note r = reconcile_sound [OF inv1 st(1)]
  show "coord_inv im" using r(1) inv1 by (simp add: sound_def)
  show "find_experiment im k = Some u \<Longrightarrow> settled u" using r(2) st(2) by blast
  have "state_advances (im_state im1) (im_state im)" using r(1) inv1 by (simp add: sound_def)
  then show "load_state cfg found (im_state (new_impl cfg faults)) = Inr s \<Longrightarrow> state_advances s (im_state im)"
    using s' by (simp add: state_advances_def im1_def rebuild_indexes_def)
  have same: "same_process im1 im" using same_process_reconcile [of im1] st(1) by simp
  show "im_live_workers im = []" using same by (simp add: same_process_def im1_def rebuild_indexes_def new_impl_def)
  show "load_state cfg found (im_state (new_impl cfg faults)) = Inr s \<Longrightarrow>
      im_epoch im = from_value (mint_epoch (cs_last_epoch s) (cg_epoch_seed cfg))"
    using same s' by (simp add: same_process_def im1_def rebuild_indexes_def)
qed

end
