(* ===== verification/Runs.thy ===== *)
theory Runs
  imports RecoverySafety
begin

text \<open>
  The coordinator as a state machine: an operation is a call of its interface with its arguments,
  a run is a sequence of calls between process starts. Every call keeps the invariant and lets
  records only evolve, so both hold along every run and across restarts.
\<close>

section \<open>Operations\<close>

datatype operation =
    CreateExperiment experiment_spec
  | ReviseHypothesis experiment_id hypothesis_revision_spec
  | ForkBranch experiment_id branch_id branch_spec
  | RetireBranch experiment_id branch_id string
  | CreateTrial experiment_id branch_id string
  | RegisterWorker register_worker_request
  | RevokeWorker worker_id worker_boot_id failure_kind string
  | Heartbeat heartbeat_request
  | ClaimTrials claim_trial_request
  | PublishObservation publish_observation_request
  | PublishArtifact publish_artifact_request
  | CommitTrial commit_trial_request
  | FailTrial fail_trial_request
  | CancelTrial trial_id string
  | CancelExperiment experiment_id string
  | FinalizeExperiment experiment_id branch_id string
  | Rollback experiment_id experiment_generation string
  | Save
  | RequestShutdown
  | StartServer "u16 result"
  | StopServer

fun perform :: "operation \<Rightarrow> impl \<Rightarrow> impl" where
  "perform (CreateExperiment spec) im = snd (create_experiment spec im)"
| "perform (ReviseHypothesis k spec) im = snd (revise_hypothesis k spec im)"
| "perform (ForkBranch k b spec) im = snd (fork_branch k b spec im)"
| "perform (RetireBranch k b reason) im = snd (retire_branch k b reason im)"
| "perform (CreateTrial k b payload) im = snd (create_trial k b payload im)"
| "perform (RegisterWorker q) im = snd (register_worker q im)"
| "perform (RevokeWorker w b kind reason) im = snd (revoke_worker w b kind reason im)"
| "perform (Heartbeat q) im = snd (heartbeat q im)"
| "perform (ClaimTrials q) im = snd (claim_trials q im)"
| "perform (PublishObservation q) im = snd (publish_observation q im)"
| "perform (PublishArtifact q) im = snd (publish_artifact q im)"
| "perform (CommitTrial q) im = snd (commit_trial q im)"
| "perform (FailTrial q) im = snd (fail_trial q im)"
| "perform (CancelTrial t reason) im = snd (cancel_trial t reason im)"
| "perform (CancelExperiment k reason) im = snd (cancel_experiment k reason im)"
| "perform (FinalizeExperiment k c reason) im = snd (finalize_experiment k c reason im)"
| "perform (Rollback k g reason) im = snd (rollback k g reason im)"
| "perform Save im = snd (save im)"
| "perform RequestShutdown im = request_shutdown im"
| "perform (StartServer bound) im = snd (start_server bound im)"
| "perform StopServer im = snd (stop_server im)"

lemma sound_start_server: "sound im (snd (start_server bound im))"
  by (cases bound) (simp_all add: start_server_def sound_core)

lemma sound_stop_server: "sound im (snd (stop_server im))"
proof -
  let ?off = "im\<lparr>im_admitting_work := False, im_server := None, im_server_active := False\<rparr>"
  have off: "sound im ?off" by (rule sound_core) simp_all
  have saved: "sound im (snd (persist_locked ?off))" by (rule sound_trans [OF off sound_persist])
  show ?thesis
    using saved sound_trans [OF saved sound_notify(1)] by (simp add: stop_server_def save_def case_prod_beta)
qed

theorem sound_perform:
  assumes "room (im_state im)"
  shows "sound im (perform op im)"
  using assms
  by (cases op)
    (simp_all add: sound_create_experiment sound_revise_hypothesis sound_fork_branch sound_retire_branch
      sound_create_trial sound_register_worker sound_revoke_worker sound_heartbeat sound_claim_trials
      sound_publish_observation sound_publish_artifact sound_commit_trial sound_fail_trial sound_cancel_trial
      sound_cancel_experiment sound_finalize_experiment sound_rollback sound_persist save_def
      sound_start_server sound_stop_server sound_core request_shutdown_def)

section \<open>Runs of one process\<close>

fun run :: "operation list \<Rightarrow> impl \<Rightarrow> impl" where
  "run [] im = im"
| "run (op # ops) im = run ops (perform op im)"

lemma run_append: "run (xs @ ys) im = run ys (run xs im)"
  by (induction xs arbitrary: im) simp_all

fun run_in_room :: "operation list \<Rightarrow> impl \<Rightarrow> bool" where
  "run_in_room [] im = True"
| "run_in_room (op # ops) im \<longleftrightarrow> room (im_state im) \<and> run_in_room ops (perform op im)"

lemma run_sound: "run_in_room ops im \<Longrightarrow> sound im (run ops im)"
proof (induction ops arbitrary: im)
  case (Cons op ops)
  then have "sound im (perform op im)" "sound (perform op im) (run ops (perform op im))"
    using sound_perform by simp_all
  then show ?case using sound_trans by simp
qed simp

lemma run_evolves:
  assumes "coord_inv im" and "run_in_room ops im" and "find_experiment im k = Some r"
  shows "\<exists>r'. find_experiment (run ops im) k = Some r' \<and> evolves r r' \<and> rec_inv r'"
proof -
  have "coord_inv (run ops im)" "state_advances (im_state im) (im_state (run ops im))"
    using run_sound [OF assms(2)] assms(1) by (auto simp: sound_def)
  then show ?thesis
    using assms(3) coord_inv_record by (fastforce simp: state_advances_def find_experiment_def)
qed

section \<open>Reachable states\<close>

text \<open>
  A process starts on what the state path holds: nothing, or the image the process before it left
  there. The bytes of the image are read back as the state that was written.
\<close>

inductive reachable :: "impl \<Rightarrow> bool" where
  fresh_start: "create cfg NoImage faults = Inr im \<Longrightarrow> reachable im"
| call: "reachable im \<Longrightarrow> room (im_state im) \<Longrightarrow> reachable (perform op im)"
| restart: "reachable im \<Longrightarrow> im_disk im = Some d \<Longrightarrow> create cfg (Image (Inr d)) faults = Inr im' \<Longrightarrow> reachable im'"

theorem reachable_inv: "reachable im \<Longrightarrow> coord_inv im"
proof (induction rule: reachable.induct)
  case (fresh_start cfg faults im)
  moreover have "image_inv NoImage" by (simp add: image_inv_def)
  ultimately show ?case using create_sound(1) by blast
next
  case (call im op)
  then show ?case using sound_perform by (simp add: sound_def)
next
  case (restart im d cfg faults im')
  then have "image_inv (Image (Inr d))" by (simp add: image_inv_def coord_inv_def)
  then show ?case using create_sound(1) restart by blast
qed

lemma reachable_run: "reachable im \<Longrightarrow> run_in_room ops im \<Longrightarrow> reachable (run ops im)"
  by (induction ops arbitrary: im) (auto intro: reachable.call)

end
