(* ===== verification/Server.thy ===== *)
theory Server
  imports Query Transport Runs
begin

text \<open>
  \<^verbatim>\<open>src/coordinator_server.cpp\<close>: what the server does with one request frame. A frame is decoded, handed to
  the same interface that an in-process caller uses, and answered. \<open>requested\<close> is the abstract reading
  of a frame, the calls it asks for; \<open>dispatch\<close> is shown to perform exactly those calls, so that
  everything proved of runs holds of networked use.
\<close>

section \<open>Replies\<close>

definition reply_frame :: "message_type \<Rightarrow> u64 \<Rightarrow> u8 list \<Rightarrow> frame" where
  "reply_frame t correlation payload =
     frame_init\<lparr>fr_type := t, fr_correlation := correlation, fr_payload := payload\<rparr>"

definition make_error_frame :: "u64 \<Rightarrow> status \<Rightarrow> frame" where
  "make_error_frame correlation s =
     reply_frame MT_ERROR_REPLY correlation (encode_error_reply \<lparr>ey_status = s, ey_detail = status_to_string s\<rparr>)"

definition make_ack_frame :: "u64 \<Rightarrow> status \<Rightarrow> frame" where
  "make_ack_frame correlation s = reply_frame MT_ACK correlation (encode_ack s)"

text \<open>
  The cases of \<^verbatim>\<open>dispatch\<close> have one shape: decode or fail, call, and answer by an acknowledgement, by the
  identity that was made, or by the reply of the call.
\<close>

definition decoded :: "frame \<Rightarrow> 'q result \<Rightarrow> impl \<Rightarrow> ('q \<Rightarrow> frame \<times> impl) \<Rightarrow> frame \<times> impl" where
  "decoded f q im k =
     (case q of Inl e \<Rightarrow> (make_error_frame (fr_correlation f) e, im) | Inr v \<Rightarrow> k v)"

definition acknowledge :: "frame \<Rightarrow> status \<times> impl \<Rightarrow> frame \<times> impl" where
  "acknowledge f outcome =
     (case outcome of (s, im) \<Rightarrow>
        (if st_failed s then make_error_frame (fr_correlation f) s else make_ack_frame (fr_correlation f) s, im))"

definition answer :: "frame \<Rightarrow> message_type \<Rightarrow> ('a \<Rightarrow> u8 list) \<Rightarrow> 'a result \<times> impl \<Rightarrow> frame \<times> impl" where
  "answer f t enc outcome =
     (case outcome of (r, im) \<Rightarrow>
        (case r of Inl e \<Rightarrow> make_error_frame (fr_correlation f) e
         | Inr v \<Rightarrow> reply_frame t (fr_correlation f) (enc v), im))"

definition encode_id_value :: "'tag strong_id \<Rightarrow> u8 list" where
  "encode_id_value i = encode_value_reply \<lparr>vr_status = success, vr_value = id_value i\<rparr>"

definition fork_spec :: "fork_branch_request \<Rightarrow> branch_spec" where
  "fork_spec q =
     \<lparr>xb_name = fb_name q, xb_role = fb_role q, xb_fork_from = None, xb_parameters = fb_parameters q,
      xb_input_set = None, xb_environment = None, xb_environment_fingerprint = [],
      xb_seed = fb_seed q, xb_planned_trials = fb_planned_trials q\<rparr>"

definition revision_spec :: "revise_hypothesis_request \<Rightarrow> hypothesis_revision_spec" where
  "revision_spec q =
     \<lparr>xh_statement = rh_statement q,
      xh_expected_direction = (if rh_has_direction q then Some (rh_direction q) else None),
      xh_expected_metric = rh_metric q, xh_provenance = rh_provenance q\<rparr>"

definition answer_query :: "impl \<Rightarrow> query_kind \<times> string \<Rightarrow> query_result" where
  "answer_query im q =
     (case query_lines im (fst q) (snd q) of
        Inr lines \<Rightarrow> \<lparr>qr_status = success, qr_lines = lines\<rparr>
      | Inl e \<Rightarrow> \<lparr>qr_status = e, qr_lines = []\<rparr>)"

definition unsupported :: "message_type \<Rightarrow> status" where
  "unsupported t = make_error EC_UNSUPPORTED EG_TRANSPORT
     (lit ''message type is not supported by the coordinator: '' @ message_type_to_string t)"

section \<open>Dispatch\<close>

text \<open>The requests of workers, and the answer to a frame that is not a request.\<close>

definition dispatch_worker_request :: "limits \<Rightarrow> frame \<Rightarrow> impl \<Rightarrow> frame \<times> impl" where
  "dispatch_worker_request l f im =
     (let p = fr_payload f
      in case fr_type f of
        MT_HELLO \<Rightarrow> (reply_frame MT_HELLO_ACK (fr_correlation f) (encode_id_value (im_epoch im)), im)
      | MT_REGISTER_WORKER \<Rightarrow>
          decoded f (decode_register_worker p l) im (\<lambda>q.
            case register_worker q im of (reply, im') \<Rightarrow>
              (reply_frame MT_REGISTER_ACK (fr_correlation f) (encode_register_reply reply), im'))
      | MT_CLAIM_TRIAL \<Rightarrow>
          decoded f (decode_claim_trial p l) im (\<lambda>q.
            case claim_trials q im of (reply, im') \<Rightarrow>
              (reply_frame MT_CLAIM_RESULT (fr_correlation f) (encode_claim_reply reply), im'))
      | MT_PUBLISH_OBSERVATION \<Rightarrow>
          decoded f (decode_publish_observation p l) im (\<lambda>q. acknowledge f (publish_observation q im))
      | MT_PUBLISH_ARTIFACT \<Rightarrow>
          decoded f (decode_publish_artifact p l) im (\<lambda>q. acknowledge f (publish_artifact q im))
      | MT_COMMIT_TRIAL \<Rightarrow>
          decoded f (decode_commit_trial p l) im (\<lambda>q. acknowledge f (commit_trial q im))
      | MT_FAIL_TRIAL \<Rightarrow>
          decoded f (decode_fail_trial p l) im (\<lambda>q. acknowledge f (fail_trial q im))
      | MT_HEARTBEAT \<Rightarrow>
          decoded f (decode_heartbeat p l) im (\<lambda>q. acknowledge f (heartbeat q im))
      | _ \<Rightarrow> (make_error_frame (fr_correlation f) (unsupported (fr_type f)), im))"

text \<open>The requests of controllers; every other frame falls to the cases above.\<close>

definition dispatch :: "limits \<Rightarrow> frame \<Rightarrow> impl \<Rightarrow> frame \<times> impl" where
  "dispatch l f im =
     (let p = fr_payload f
      in case fr_type f of
        MT_CANCEL_TRIAL \<Rightarrow>
          decoded f (decode_cancel_trial p l) im (\<lambda>q. acknowledge f (cancel_trial (xt_trial q) (xt_reason q) im))
      | MT_CANCEL_EXPERIMENT \<Rightarrow>
          decoded f (decode_cancel_experiment p l) im (\<lambda>q.
            acknowledge f (cancel_experiment (xe_experiment q) (xe_reason q) im))
      | MT_ROLLBACK \<Rightarrow>
          decoded f (decode_rollback p l) im (\<lambda>q.
            acknowledge f (rollback (rk_experiment q) (rk_target_generation q) (rk_reason q) im))
      | MT_CREATE_TRIAL \<Rightarrow>
          decoded f (decode_create_trial p l) im (\<lambda>q.
            answer f MT_CREATE_TRIAL encode_id_value (create_trial (cq_experiment q) (cq_branch q) (cq_payload q) im))
      | MT_FORK_BRANCH \<Rightarrow>
          decoded f (decode_fork_branch p l) im (\<lambda>q.
            answer f MT_FORK_BRANCH encode_id_value (fork_branch (fb_experiment q) (fb_parent q) (fork_spec q) im))
      | MT_REVISE_HYPOTHESIS \<Rightarrow>
          decoded f (decode_revise_hypothesis p l) im (\<lambda>q.
            answer f MT_REVISE_HYPOTHESIS encode_id_value (revise_hypothesis (rh_experiment q) (revision_spec q) im))
      | MT_FINALIZE_EXPERIMENT \<Rightarrow>
          decoded f (decode_finalize_experiment p l) im (\<lambda>q.
            answer f MT_FINALIZE_EXPERIMENT (\<lambda>d. encode_decision_reply (success, d))
              (finalize_experiment (fe_experiment q) (fe_candidate q) (fe_reason q) im))
      | MT_QUERY \<Rightarrow>
          decoded f (decode_query_request p l) im (\<lambda>q.
            (reply_frame MT_QUERY_RESULT (fr_correlation f) (encode_query_result (answer_query im q)), im))
      | MT_SHUTDOWN \<Rightarrow> (make_ack_frame (fr_correlation f) success, request_shutdown im)
      | _ \<Rightarrow> dispatch_worker_request l f im)"

section \<open>The calls that a frame asks for\<close>

definition asked :: "('q \<Rightarrow> operation) \<Rightarrow> 'q result \<Rightarrow> operation list" where
  "asked op q = (case q of Inl e \<Rightarrow> [] | Inr v \<Rightarrow> [op v])"

definition requested :: "limits \<Rightarrow> frame \<Rightarrow> operation list" where
  "requested l f =
     (let p = fr_payload f
      in case fr_type f of
        MT_REGISTER_WORKER \<Rightarrow> asked RegisterWorker (decode_register_worker p l)
      | MT_CLAIM_TRIAL \<Rightarrow> asked ClaimTrials (decode_claim_trial p l)
      | MT_PUBLISH_OBSERVATION \<Rightarrow> asked PublishObservation (decode_publish_observation p l)
      | MT_PUBLISH_ARTIFACT \<Rightarrow> asked PublishArtifact (decode_publish_artifact p l)
      | MT_COMMIT_TRIAL \<Rightarrow> asked CommitTrial (decode_commit_trial p l)
      | MT_FAIL_TRIAL \<Rightarrow> asked FailTrial (decode_fail_trial p l)
      | MT_HEARTBEAT \<Rightarrow> asked Heartbeat (decode_heartbeat p l)
      | MT_CANCEL_TRIAL \<Rightarrow> asked (\<lambda>q. CancelTrial (xt_trial q) (xt_reason q)) (decode_cancel_trial p l)
      | MT_CANCEL_EXPERIMENT \<Rightarrow>
          asked (\<lambda>q. CancelExperiment (xe_experiment q) (xe_reason q)) (decode_cancel_experiment p l)
      | MT_ROLLBACK \<Rightarrow>
          asked (\<lambda>q. Rollback (rk_experiment q) (rk_target_generation q) (rk_reason q)) (decode_rollback p l)
      | MT_CREATE_TRIAL \<Rightarrow>
          asked (\<lambda>q. CreateTrial (cq_experiment q) (cq_branch q) (cq_payload q)) (decode_create_trial p l)
      | MT_FORK_BRANCH \<Rightarrow>
          asked (\<lambda>q. ForkBranch (fb_experiment q) (fb_parent q) (fork_spec q)) (decode_fork_branch p l)
      | MT_REVISE_HYPOTHESIS \<Rightarrow>
          asked (\<lambda>q. ReviseHypothesis (rh_experiment q) (revision_spec q)) (decode_revise_hypothesis p l)
      | MT_FINALIZE_EXPERIMENT \<Rightarrow>
          asked (\<lambda>q. FinalizeExperiment (fe_experiment q) (fe_candidate q) (fe_reason q))
            (decode_finalize_experiment p l)
      | MT_SHUTDOWN \<Rightarrow> [RequestShutdown]
      | _ \<Rightarrow> [])"

lemma snd_acknowledge [simp]: "snd (acknowledge f outcome) = snd outcome"
  by (simp add: acknowledge_def case_prod_beta)

lemma snd_answer [simp]: "snd (answer f t enc outcome) = snd outcome"
  by (simp add: answer_def case_prod_beta)

lemma reply_frame_simps [simp]:
  "fr_version (reply_frame t c p) = kProtocolVersion" "fr_type (reply_frame t c p) = t"
  "fr_correlation (reply_frame t c p) = c" "fr_payload (reply_frame t c p) = p"
  by (simp_all add: reply_frame_def frame_init_def)

lemma error_frame_simps [simp]:
  "fr_version (make_error_frame c s) = kProtocolVersion" "fr_type (make_error_frame c s) = MT_ERROR_REPLY"
  "fr_correlation (make_error_frame c s) = c"
  by (simp_all add: make_error_frame_def)

lemma ack_frame_simps [simp]:
  "fr_version (make_ack_frame c s) = kProtocolVersion" "fr_type (make_ack_frame c s) = MT_ACK"
  "fr_correlation (make_ack_frame c s) = c"
  by (simp_all add: make_ack_frame_def)

lemma acknowledge_reply [simp]:
  "fr_version (fst (acknowledge f outcome)) = kProtocolVersion"
  "fr_correlation (fst (acknowledge f outcome)) = fr_correlation f"
  "fr_type (fst (acknowledge f outcome)) \<noteq> MT_INVALID"
  by (simp_all add: acknowledge_def case_prod_beta)

lemma answer_reply [simp]:
  "fr_version (fst (answer f t enc outcome)) = kProtocolVersion"
  "fr_correlation (fst (answer f t enc outcome)) = fr_correlation f"
  "t \<noteq> MT_INVALID \<Longrightarrow> fr_type (fst (answer f t enc outcome)) \<noteq> MT_INVALID"
  by (simp_all add: answer_def case_prod_beta split: sum.split)

lemma requested_at_most_one: "length (requested l f) \<le> 1"
  by (cases "fr_type f") (simp_all add: requested_def asked_def Let_def split: sum.split)

lemma dispatch_calls: "snd (dispatch l f im) = run (requested l f) im"
  by (cases "fr_type f")
    (simp_all add: dispatch_def dispatch_worker_request_def requested_def decoded_def asked_def Let_def case_prod_beta split: sum.split)


text \<open>
  Every frame is answered, by a frame of the same protocol version and correlation that is not
  of the invalid type.
\<close>

theorem dispatch_answers_the_request:
  "fr_version (fst (dispatch l f im)) = kProtocolVersion \<and>
   fr_correlation (fst (dispatch l f im)) = fr_correlation f \<and>
   fr_type (fst (dispatch l f im)) \<noteq> MT_INVALID"
  by (cases "fr_type f")
    (simp_all add: dispatch_def dispatch_worker_request_def decoded_def Let_def case_prod_beta split: sum.split)

section \<open>Serving a connection\<close>

lemma receive_frame_shrinks:
  assumes "receive_frame l c = Some (Inr f, c')"
  shows "cn_open c" and "length (delivered (cn_recv c')) < length (delivered (cn_recv c))"
proof -
  show "cn_open c"
    using assms by (auto simp: receive_frame_def receive_exact_def split: if_splits)
  then show "length (delivered (cn_recv c')) < length (delivered (cn_recv c))"
    using receive_frame_received [OF assms] by (auto simp: encode_frame_ok kFrameHeaderBytes_def)
qed

text \<open>
  The loop over the frames of one connection. It returns the connection and the coordinator as they
  are when the connection ends, or when the thread is blocked in a call to the system. A server that
  is stopped closes its connections, which is one of the ways for a receive to fail.
\<close>

function serve :: "limits \<Rightarrow> connection \<Rightarrow> impl \<Rightarrow> connection \<times> impl" where
  "serve l c im =
     (case receive_frame l c of
        None \<Rightarrow> (c, im)
      | Some (Inl e, c1) \<Rightarrow> (c1, im)
      | Some (Inr f, c1) \<Rightarrow>
          (case dispatch l f im of (reply, im1) \<Rightarrow>
             case send_frame l reply c1 of
               None \<Rightarrow> (c1, im1)
             | Some (sent, c2) \<Rightarrow> if \<not> st_ok sent then (c2, im1) else serve l c2 im1))"
  by pat_completeness auto

termination
proof (relation "measure (\<lambda>(l, c, im). length (delivered (cn_recv c)))", goal_cases)
  case (2 l c im found received c1 f reply im1 outcome sent c2)
  then have "cn_recv c2 = cn_recv c1" using send_frame_sent [of l reply c1 sent c2] by simp
  then show ?case using 2 receive_frame_shrinks(2) [of l c f c1] by simp
qed simp

declare serve.simps [simp del]

fun wire :: "limits \<Rightarrow> frame list \<Rightarrow> u8 list" where
  "wire l [] = []"
| "wire l (f # fs) = encode_frame_header f (fr_payload f) l @ fr_payload f @ wire l fs"

text \<open>The replies to a sequence of frames, each computed on the state the frames before it left.\<close>

fun replies :: "limits \<Rightarrow> frame list \<Rightarrow> impl \<Rightarrow> frame list" where
  "replies l [] im = []"
| "replies l (f # fs) im = fst (dispatch l f im) # replies l fs (snd (dispatch l f im))"

lemma serve_performs:
  "\<exists>fs. list_all (frame_ok l) fs \<and> prefix (wire l fs) (delivered (cn_recv c)) \<and>
     snd (serve l c im) = run (concat (map (requested l) fs)) im"
proof (induction l c im rule: serve.induct)
  case (1 l c im)
  show ?case
  proof (cases "\<exists>f c1. receive_frame l c = Some (Inr f, c1)")
    case False
    then have "snd (serve l c im) = im"
      by (subst serve.simps) (auto split: option.split sum.split)
    then show ?thesis by (intro exI [of _ "[]"]) simp
  next
    case True
    then obtain f c1 where f: "receive_frame l c = Some (Inr f, c1)" by blast
    obtain bytes where bytes: "encode_frame f l = Inr bytes" "delivered (cn_recv c) = bytes @ delivered (cn_recv c1)"
      using receive_frame_received [OF f receive_frame_shrinks(1) [OF f]] by blast
    let ?im = "snd (dispatch l f im)"
    have one: "?im = run (requested l f) im" by (rule dispatch_calls)
    consider (stops) "snd (serve l c im) = ?im"
      | (goes_on) c2 where "serve l c im = serve l c2 ?im" "cn_recv c2 = cn_recv c1"
        "\<exists>fs. list_all (frame_ok l) fs \<and> prefix (wire l fs) (delivered (cn_recv c2)) \<and>
          snd (serve l c2 ?im) = run (concat (map (requested l) fs)) ?im"
    proof (cases "\<exists>s c2. send_frame l (fst (dispatch l f im)) c1 = Some (s, c2) \<and> st_ok s")
      case True
      then obtain s c2 where s: "send_frame l (fst (dispatch l f im)) c1 = Some (s, c2)" "st_ok s" by blast
      have "serve l c im = serve l c2 ?im" using f s by (subst serve.simps) (simp add: case_prod_beta)
      then show thesis
        using goes_on 1 [OF f refl refl prod.collapse s(1) refl] s send_frame_sent [OF s(1)] by auto
    next
      case False
      then have "snd (serve l c im) = ?im"
        using f by (subst serve.simps) (auto simp: case_prod_beta split: option.split)
      then show thesis by (rule stops)
    qed
    then show ?thesis
    proof cases
      case stops
      then show ?thesis using bytes one by (intro exI [of _ "[f]"]) (simp add: encode_frame_ok)
    next
      case goes_on
      then obtain fs where fs: "list_all (frame_ok l) fs" "prefix (wire l fs) (delivered (cn_recv c1))"
        "snd (serve l c im) = run (concat (map (requested l) fs)) ?im" by auto
      then show ?thesis using bytes one by (intro exI [of _ "f # fs"]) (simp add: encode_frame_ok run_append)
    qed
  qed
qed

lemma receive_exact_frame:
  "receive_exact n c = Some (r, c') \<Longrightarrow> cn_sent c' = cn_sent c \<and> cn_send c' = cn_send c"
  by (auto simp: receive_exact_def split: if_splits option.splits)

lemma receive_frame_frame:
  assumes "receive_frame l c = Some (r, c')"
  shows "cn_sent c' = cn_sent c"
proof -
  obtain h c1 where h: "receive_exact kFrameHeaderBytes c = Some (h, c1)"
    using assms by (auto simp: receive_frame_def split: option.splits)
  have "cn_sent c' = cn_sent c1 \<or> (\<exists>n p c2. receive_exact n c1 = Some (p, c2) \<and> c' = c2)"
    using assms h
    by (auto simp: receive_frame_def receive_payload_def Let_def split: option.splits sum.splits if_splits)
  then show ?thesis using receive_exact_frame [OF h] receive_exact_frame by metis
qed

lemma serve_idle:
  assumes "delivered (cn_recv c) = []"
  shows "cn_sent (fst (serve l c im)) = cn_sent c \<and> snd (serve l c im) = im"
proof -
  have "receive_frame l c \<noteq> Some (Inr f, c')" for f c' using receive_frame_shrinks(2) [of l c f c'] assms by auto
  then show ?thesis using receive_frame_frame [of l c]
    by (subst (1 2) serve.simps) (auto split: option.split sum.split)
qed

lemma serve_answers:
  assumes "cn_open c" and "delivered (cn_recv c) = wire l fs" and "list_all (frame_ok l) fs"
    and "list_all (frame_ok l) (replies l fs im)" and "willing (length (wire l (replies l fs im))) (cn_send c)"
  shows "cn_sent (fst (serve l c im)) = cn_sent c @ wire l (replies l fs im) \<and>
    snd (serve l c im) = run (concat (map (requested l) fs)) im"
  using assms
proof (induction fs arbitrary: c im)
  case Nil
  then show ?case using serve_idle by simp
next
  case (Cons f fs)
  let ?im = "snd (dispatch l f im)" and ?r = "fst (dispatch l f im)"
  let ?bytes = "\<lambda>f. encode_frame_header f (fr_payload f) l @ fr_payload f"
  have enc: "encode_frame f l = Inr (?bytes f)" "encode_frame ?r l = Inr (?bytes ?r)"
    using Cons.prems(3,4) by (simp_all add: encode_frame_ok)
  obtain c1 where c1: "receive_frame l c = Some (Inr f, c1)" "delivered (cn_recv c1) = wire l fs" "cn_open c1"
    "cn_send c1 = cn_send c" "cn_sent c1 = cn_sent c"
    using receive_frame_delivers [OF Cons.prems(1) enc(1), of "wire l fs"] Cons.prems(2) by auto
  have "willing (length (?bytes ?r) + length (wire l (replies l fs ?im))) (cn_send c1)"
    using Cons.prems(5) c1(4) by (simp add: add.assoc)
  from send_frame_willing [OF c1(3) enc(2) this]
  obtain c2 where c2: "send_frame l ?r c1 = Some (success, c2)" "cn_sent c2 = cn_sent c @ ?bytes ?r"
    "willing (length (wire l (replies l fs ?im))) (cn_send c2)" "cn_recv c2 = cn_recv c1" "cn_open c2"
    using c1(5) by auto
  have "serve l c im = serve l c2 ?im" using c1(1) c2(1) by (subst serve.simps) (simp add: case_prod_beta)
  moreover have "cn_sent (fst (serve l c2 ?im)) = cn_sent c2 @ wire l (replies l fs ?im) \<and>
      snd (serve l c2 ?im) = run (concat (map (requested l) fs)) ?im"
    using Cons.IH [of c2 ?im] c1(2) c2 Cons.prems(3,4) by simp
  ultimately show ?case using c2(2) dispatch_calls [of l f im] by (simp add: run_append)
qed


lemma length_encode_id_value: "length (encode_id_value i) = 18"
  by (simp add: encode_id_value_def encode_value_reply_def put_status_block_def encode_status_def pw_raw_def
      pw_u64_def pw_u32_def pw_u8_def pw_text_def success_def text_bytes_def)


end
