(* ===== verification/Client.thy ===== *)
theory Client
  imports Server
begin

text \<open>
  \<^verbatim>\<open>src/client.cpp\<close>: the client of the control plane. A request is encoded into a frame with a fresh
  correlation, sent, and its reply received, checked and decoded. \<open>None\<close> is a client that is still
  blocked in a system call. The lemmas give the outcome of a request over a connection
  that delivers the replies of a coordinator.
\<close>

section \<open>The client\<close>

text \<open>\<open>ci_observed\<close>: the frames handed to the outbound observer, when there is one.\<close>

record client =
  ci_connection :: "connection option"
  ci_limits :: limits
  ci_correlation :: u64
  ci_observed :: "u8 list list option"

definition not_connected :: status where
  "not_connected = make_error EC_NOT_FOUND EG_TRANSPORT (lit ''client is not connected'')"

definition unexpected_reply :: "string \<Rightarrow> status" where
  "unexpected_reply reason = make_error EC_PROTOCOL_ERROR EG_TRANSPORT reason"

text \<open>The outcome of \<^verbatim>\<open>TcpConnection::connect\<close> is an argument.\<close>

definition client_connect :: "limits \<Rightarrow> bool \<Rightarrow> connection result \<Rightarrow> client result" where
  "client_connect l observed outcome =
     (case outcome of
        Inl e \<Rightarrow> Inl (make_error EC_NOT_FOUND EG_TRANSPORT (lit ''cannot connect to the coordinator''))
      | Inr conn \<Rightarrow> Inr \<lparr>ci_connection = Some conn, ci_limits = l, ci_correlation = 0,
          ci_observed = (if observed then Some [] else None)\<rparr>)"

definition client_close :: "client \<Rightarrow> status \<times> client" where
  "client_close c = (success, c\<lparr>ci_connection := None\<rparr>)"

definition next_correlation :: "client \<Rightarrow> u64 \<times> client" where
  "next_correlation c = (let n = ci_correlation c + 1 in (n, c\<lparr>ci_correlation := n\<rparr>))"

definition observe :: "u8 list \<Rightarrow> client \<Rightarrow> client" where
  "observe bytes c = c\<lparr>ci_observed := map_option (\<lambda>seen. seen @ [bytes]) (ci_observed c)\<rparr>"

section \<open>One exchange\<close>

definition accept_reply :: "limits \<Rightarrow> u64 \<Rightarrow> frame \<Rightarrow> frame result" where
  "accept_reply l correlation reply =
     (if fr_correlation reply \<noteq> correlation
        then Inl (unexpected_reply (lit ''reply correlation does not match the outstanding request''))
      else if fr_type reply = MT_ERROR_REPLY
        then (case decode_error_reply (fr_payload reply) l of Inl e \<Rightarrow> Inl e | Inr r \<Rightarrow> Inl (ey_status r))
      else Inr reply)"

definition request :: "message_type \<Rightarrow> u8 list \<Rightarrow> client \<Rightarrow> (frame result \<times> client) option" where
  "request t payload c =
     (case ci_connection c of
        None \<Rightarrow> Some (Inl not_connected, c)
      | Some conn \<Rightarrow>
          (case next_correlation c of (correlation, c1) \<Rightarrow>
             case encode_frame (reply_frame t correlation payload) (ci_limits c) of
               Inl e \<Rightarrow> Some (Inl e, c1)
             | Inr bytes \<Rightarrow>
                 (let c2 = observe bytes c1
                  in case send_all bytes conn of
                       None \<Rightarrow> None
                     | Some (sent, conn1) \<Rightarrow>
                         if \<not> st_ok sent then Some (Inl sent, c2\<lparr>ci_connection := Some conn1\<rparr>)
                         else case receive_frame (ci_limits c) conn1 of
                             None \<Rightarrow> None
                           | Some (Inl e, conn2) \<Rightarrow> Some (Inl e, c2\<lparr>ci_connection := Some conn2\<rparr>)
                           | Some (Inr reply, conn2) \<Rightarrow>
                               Some (accept_reply (ci_limits c) correlation reply, c2\<lparr>ci_connection := Some conn2\<rparr>))))"

definition exchange ::
    "message_type \<Rightarrow> u8 list \<Rightarrow> (limits \<Rightarrow> frame \<Rightarrow> 'a result) \<Rightarrow> client \<Rightarrow> ('a result \<times> client) option" where
  "exchange t payload dec c =
     (case request t payload c of
        None \<Rightarrow> None
      | Some (Inl e, c') \<Rightarrow> Some (Inl e, c')
      | Some (Inr reply, c') \<Rightarrow> Some (dec (ci_limits c) reply, c'))"

definition expect_reply ::
    "message_type \<Rightarrow> string \<Rightarrow> (u8 list \<Rightarrow> limits \<Rightarrow> 'a result) \<Rightarrow> limits \<Rightarrow> frame \<Rightarrow> 'a result" where
  "expect_reply t reason dec l reply =
     (if fr_type reply \<noteq> t then Inl (unexpected_reply reason) else dec (fr_payload reply) l)"

text \<open>The file-local \<^verbatim>\<open>decode_ack\<close> of a frame: one status, whether the acknowledgement is well formed or not.\<close>

definition decode_ack_frame :: "frame \<Rightarrow> limits \<Rightarrow> status" where
  "decode_ack_frame f l =
     (if fr_type f \<noteq> MT_ACK then unexpected_reply (lit ''unexpected reply type for acknowledge'')
      else case decode_ack (fr_payload f) l of Inl e \<Rightarrow> e | Inr s \<Rightarrow> s)"

definition status_call :: "message_type \<Rightarrow> u8 list \<Rightarrow> client \<Rightarrow> (status \<times> client) option" where
  "status_call t payload c =
     (case request t payload c of
        None \<Rightarrow> None
      | Some (Inl e, c') \<Rightarrow> Some (e, c')
      | Some (Inr reply, c') \<Rightarrow> Some (decode_ack_frame reply (ci_limits c), c'))"

section \<open>The calls\<close>

definition client_register_worker ::
    "register_worker_request \<Rightarrow> client \<Rightarrow> (register_worker_reply result \<times> client) option" where
  "client_register_worker q c =
     exchange MT_REGISTER_WORKER (encode_register_worker q)
       (expect_reply MT_REGISTER_ACK (lit ''unexpected reply type for registration'') decode_register_reply) c"

definition client_claim_trials :: "claim_trial_request \<Rightarrow> client \<Rightarrow> (claim_trial_reply result \<times> client) option" where
  "client_claim_trials q c =
     exchange MT_CLAIM_TRIAL (encode_claim_trial q)
       (expect_reply MT_CLAIM_RESULT (lit ''unexpected reply type for claim'') decode_claim_reply) c"

definition client_publish_observation :: "publish_observation_request \<Rightarrow> client \<Rightarrow> (status \<times> client) option" where
  "client_publish_observation q c = status_call MT_PUBLISH_OBSERVATION (encode_publish_observation q) c"

definition client_publish_artifact :: "publish_artifact_request \<Rightarrow> client \<Rightarrow> (status \<times> client) option" where
  "client_publish_artifact q c = status_call MT_PUBLISH_ARTIFACT (encode_publish_artifact q) c"

definition client_commit_trial :: "commit_trial_request \<Rightarrow> client \<Rightarrow> (status \<times> client) option" where
  "client_commit_trial q c = status_call MT_COMMIT_TRIAL (encode_commit_trial q) c"

definition client_fail_trial :: "fail_trial_request \<Rightarrow> client \<Rightarrow> (status \<times> client) option" where
  "client_fail_trial q c = status_call MT_FAIL_TRIAL (encode_fail_trial q) c"

definition client_heartbeat :: "heartbeat_request \<Rightarrow> client \<Rightarrow> (status \<times> client) option" where
  "client_heartbeat q c = status_call MT_HEARTBEAT (encode_heartbeat q) c"

definition client_cancel_trial :: "cancel_trial_request \<Rightarrow> client \<Rightarrow> (status \<times> client) option" where
  "client_cancel_trial q c = status_call MT_CANCEL_TRIAL (encode_cancel_trial q) c"

definition client_cancel_experiment :: "cancel_experiment_request \<Rightarrow> client \<Rightarrow> (status \<times> client) option" where
  "client_cancel_experiment q c = status_call MT_CANCEL_EXPERIMENT (encode_cancel_experiment q) c"

definition client_rollback :: "rollback_request \<Rightarrow> client \<Rightarrow> (status \<times> client) option" where
  "client_rollback q c = status_call MT_ROLLBACK (encode_rollback q) c"

definition decode_finalization :: "u8 list \<Rightarrow> limits \<Rightarrow> decision result" where
  "decode_finalization payload l =
     (case decode_decision_reply payload l of
        Inl e \<Rightarrow> Inl e
      | Inr (s, d) \<Rightarrow> if st_failed s then Inl s else Inr d)"

definition client_finalize_experiment :: "finalize_experiment_request \<Rightarrow> client \<Rightarrow> (decision result \<times> client) option" where
  "client_finalize_experiment q c =
     exchange MT_FINALIZE_EXPERIMENT (encode_finalize_experiment q)
       (expect_reply MT_FINALIZE_EXPERIMENT (lit ''unexpected reply type for finalization'') decode_finalization) c"

definition decode_lines :: "u8 list \<Rightarrow> limits \<Rightarrow> string list result" where
  "decode_lines payload l =
     (case decode_query_result payload l of Inl e \<Rightarrow> Inl e | Inr r \<Rightarrow> unwrap_query_lines r)"

definition client_query :: "query_kind \<Rightarrow> string \<Rightarrow> client \<Rightarrow> (string list result \<times> client) option" where
  "client_query kind argument c =
     exchange MT_QUERY (encode_query_request (kind, argument))
       (expect_reply MT_QUERY_RESULT (lit ''unexpected reply type for query'') decode_lines) c"

text \<open>A shutdown is not shown to the observer, and its reply is not matched against the request.\<close>

definition client_shutdown :: "client \<Rightarrow> (status \<times> client) option" where
  "client_shutdown c =
     (case next_correlation c of (correlation, c1) \<Rightarrow>
        case ci_connection c of
          None \<Rightarrow> Some (not_connected, c1)
        | Some conn \<Rightarrow>
            case send_frame (ci_limits c) (reply_frame MT_SHUTDOWN correlation []) conn of
              None \<Rightarrow> None
            | Some (sent, conn1) \<Rightarrow>
                if \<not> st_ok sent then Some (sent, c1\<lparr>ci_connection := Some conn1\<rparr>)
                else case receive_frame (ci_limits c) conn1 of
                    None \<Rightarrow> None
                  | Some (Inl e, conn2) \<Rightarrow> Some (e, c1\<lparr>ci_connection := Some conn2\<rparr>)
                  | Some (Inr reply, conn2) \<Rightarrow>
                      Some (decode_ack_frame reply (ci_limits c), c1\<lparr>ci_connection := Some conn2\<rparr>))"

definition send_raw :: "u8 list \<Rightarrow> client \<Rightarrow> (status \<times> client) option" where
  "send_raw bytes c =
     (case ci_connection c of
        None \<Rightarrow> Some (not_connected, c)
      | Some conn \<Rightarrow>
          (case send_all bytes conn of
             None \<Rightarrow> None
           | Some (sent, conn1) \<Rightarrow> Some (sent, c\<lparr>ci_connection := Some conn1\<rparr>)))"

definition send_raw_and_receive :: "u8 list \<Rightarrow> client \<Rightarrow> (frame result \<times> client) option" where
  "send_raw_and_receive bytes c =
     (case ci_connection c of
        None \<Rightarrow> Some (Inl not_connected, c)
      | Some conn \<Rightarrow>
          (case send_all bytes conn of
             None \<Rightarrow> None
           | Some (sent, conn1) \<Rightarrow>
               if \<not> st_ok sent then Some (Inl sent, c\<lparr>ci_connection := Some conn1\<rparr>)
               else case receive_frame (ci_limits c) conn1 of
                   None \<Rightarrow> None
                 | Some (r, conn2) \<Rightarrow> Some (r, c\<lparr>ci_connection := Some conn2\<rparr>)))"

section \<open>A connection to a coordinator\<close>

text \<open>
  The connection of a client takes the bytes of a sequence of request frames and delivers the
  replies of a coordinator to them, all within the limit on frames.
\<close>

definition talks :: "client \<Rightarrow> frame list \<Rightarrow> impl \<Rightarrow> bool" where
  "talks c fs im \<longleftrightarrow>
     list_all (frame_ok (ci_limits c)) fs \<and> list_all (frame_ok (ci_limits c)) (replies (ci_limits c) fs im) \<and>
     (\<exists>conn rest. ci_connection c = Some conn \<and> cn_open conn \<and>
        willing (length (wire (ci_limits c) fs)) (cn_send conn) \<and>
        delivered (cn_recv conn) = wire (ci_limits c) (replies (ci_limits c) fs im) @ rest)"

text \<open>A status whose text fits into the reply that carries it.\<close>

definition deliverable :: "limits \<Rightarrow> status \<Rightarrow> bool" where
  "deliverable l s \<longleftrightarrow> error_reply_bounded l \<lparr>ey_status = s, ey_detail = status_to_string s\<rparr>"

lemma talks_exchange:
  assumes "talks c (f # fs) im"
  obtains conn conn1 conn2 where "ci_connection c = Some conn" and "frame_ok (ci_limits c) f"
    and "send_all (encode_frame_header f (fr_payload f) (ci_limits c) @ fr_payload f) conn = Some (success, conn1)"
    and "receive_frame (ci_limits c) conn1 = Some (Inr (fst (dispatch (ci_limits c) f im)), conn2)"
    and "\<And>c'. ci_limits c' = ci_limits c \<Longrightarrow> ci_connection c' = Some conn2 \<Longrightarrow>
      talks c' fs (snd (dispatch (ci_limits c) f im))"
proof -
  let ?l = "ci_limits c" let ?reply = "fst (dispatch ?l f im)" and ?im = "snd (dispatch ?l f im)"
  let ?bytes = "\<lambda>f. encode_frame_header f (fr_payload f) ?l @ fr_payload f"
  obtain conn rest where conn: "ci_connection c = Some conn" "cn_open conn"
      "willing (length (?bytes f) + length (wire ?l fs)) (cn_send conn)"
    and replied: "delivered (cn_recv conn) = ?bytes ?reply @ wire ?l (replies ?l fs ?im) @ rest"
    and enc: "frame_ok ?l f" "encode_frame ?reply ?l = Inr (?bytes ?reply)"
    and ok: "list_all (frame_ok ?l) fs" "list_all (frame_ok ?l) (replies ?l fs ?im)"
    using assms unfolding talks_def by (auto simp: encode_frame_ok add.assoc)
  obtain events where sent: "send_all (?bytes f) conn =
      Some (success, conn\<lparr>cn_sent := cn_sent conn @ ?bytes f, cn_send := events\<rparr>)"
    and later: "willing (length (wire ?l fs)) events"
    using send_loop_willing [OF conn(3), of "cn_sent conn"] conn(2) by (auto simp: send_all_def)
  obtain conn2 where received: "receive_frame ?l (conn\<lparr>cn_sent := cn_sent conn @ ?bytes f, cn_send := events\<rparr>) =
      Some (Inr ?reply, conn2)"
    and conn2: "delivered (cn_recv conn2) = wire ?l (replies ?l fs ?im) @ rest" "cn_open conn2" "cn_send conn2 = events"
    using receive_frame_delivers [OF _ enc(2), of "conn\<lparr>cn_sent := cn_sent conn @ ?bytes f, cn_send := events\<rparr>"
        "wire ?l (replies ?l fs ?im) @ rest"] conn(2) replied by auto
  have "talks c' fs ?im" if "ci_limits c' = ?l" "ci_connection c' = Some conn2" for c'
    unfolding talks_def that using ok conn2 later by simp
  then show thesis using that conn(1) enc(1) sent received by blast
qed

lemma request_talks:
  assumes "talks c (f # fs) im" and "f = reply_frame t (ci_correlation c + 1) payload"
  obtains c' where "request t payload c =
      Some (accept_reply (ci_limits c) (ci_correlation c + 1) (fst (dispatch (ci_limits c) f im)), c')"
    and "ci_limits c' = ci_limits c" and "ci_correlation c' = ci_correlation c + 1"
    and "talks c' fs (snd (dispatch (ci_limits c) f im))"
proof -
  let ?bytes = "encode_frame_header f (fr_payload f) (ci_limits c) @ fr_payload f"
  obtain conn conn1 conn2 where conn: "ci_connection c = Some conn" "frame_ok (ci_limits c) f"
    "send_all ?bytes conn = Some (success, conn1)"
    "receive_frame (ci_limits c) conn1 = Some (Inr (fst (dispatch (ci_limits c) f im)), conn2)"
    and later: "\<And>c'. ci_limits c' = ci_limits c \<Longrightarrow> ci_connection c' = Some conn2 \<Longrightarrow>
      talks c' fs (snd (dispatch (ci_limits c) f im))"
    by (rule talks_exchange [OF assms(1)]) blast
  have enc: "encode_frame f (ci_limits c) = Inr ?bytes" using conn(2) by (simp add: encode_frame_ok)
  let ?c = "(observe ?bytes (c\<lparr>ci_correlation := ci_correlation c + 1\<rparr>))\<lparr>ci_connection := Some conn2\<rparr>"
  have "request t payload c = Some (accept_reply (ci_limits c) (ci_correlation c + 1) (fst (dispatch (ci_limits c) f im)), ?c)"
    using conn enc assms(2) by (simp add: request_def next_correlation_def Let_def)
  moreover have "talks ?c fs (snd (dispatch (ci_limits c) f im))" by (rule later) (simp_all add: observe_def)
  ultimately show thesis using that [of ?c] by (simp add: observe_def)
qed

lemma raw_talks:
  assumes "talks c (f # fs) im"
  obtains c' where "send_raw_and_receive (encode_frame_header f (fr_payload f) (ci_limits c) @ fr_payload f) c =
      Some (Inr (fst (dispatch (ci_limits c) f im)), c')"
    and "ci_limits c' = ci_limits c" and "talks c' fs (snd (dispatch (ci_limits c) f im))"
proof -
  obtain conn conn1 conn2 where conn: "ci_connection c = Some conn"
    "send_all (encode_frame_header f (fr_payload f) (ci_limits c) @ fr_payload f) conn = Some (success, conn1)"
    "receive_frame (ci_limits c) conn1 = Some (Inr (fst (dispatch (ci_limits c) f im)), conn2)"
    and later: "\<And>c'. ci_limits c' = ci_limits c \<Longrightarrow> ci_connection c' = Some conn2 \<Longrightarrow>
      talks c' fs (snd (dispatch (ci_limits c) f im))"
    by (rule talks_exchange [OF assms]) blast
  let ?c = "c\<lparr>ci_connection := Some conn2\<rparr>"
  have "talks ?c fs (snd (dispatch (ci_limits c) f im))" by (rule later) simp_all
  then show thesis using that [of ?c] conn by (simp add: send_raw_and_receive_def)
qed

lemma accept_error_reply:
  "deliverable l s \<Longrightarrow> accept_reply l k (make_error_frame k s) = Inl s"
  using error_reply_codec.decode_encode [of l "\<lparr>ey_status = s, ey_detail = status_to_string s\<rparr>"]
  by (simp add: accept_reply_def make_error_frame_def deliverable_def decode_error_reply_def)

lemma decode_ack_reply:
  "deliverable l s \<Longrightarrow> decode_ack_frame (make_ack_frame k s) l = s"
  using decode_encode_status [of l s]
  by (simp add: decode_ack_frame_def make_ack_frame_def deliverable_def decode_ack_def encode_ack_def
      error_reply_bounded_def status_block_bounded_def)

lemma accept_other_reply:
  "fr_type reply \<noteq> MT_ERROR_REPLY \<Longrightarrow> fr_correlation reply = k \<Longrightarrow> accept_reply l k reply = Inr reply"
  by (simp add: accept_reply_def)

lemma status_call_talks:
  assumes "talks c (f # fs) im" and "f = reply_frame t (ci_correlation c + 1) payload"
    and "dispatch (ci_limits c) f im = acknowledge f outcome" and "deliverable (ci_limits c) (fst outcome)"
  obtains c' where "status_call t payload c = Some (fst outcome, c')" and "ci_limits c' = ci_limits c"
    and "ci_correlation c' = ci_correlation c + 1" and "talks c' fs (snd outcome)"
proof -
  obtain c' where c': "request t payload c =
      Some (accept_reply (ci_limits c) (ci_correlation c + 1) (fst (acknowledge f outcome)), c')"
    "ci_limits c' = ci_limits c" "ci_correlation c' = ci_correlation c + 1" "talks c' fs (snd outcome)"
    using request_talks [OF assms(1,2)] assms(3) by auto
  have "status_call t payload c = Some (fst outcome, c')"
    using c' assms(2) accept_error_reply [OF assms(4)] decode_ack_reply [OF assms(4)]
    by (simp add: acknowledge_def case_prod_beta status_call_def accept_other_reply)
  then show thesis using that c' by blast
qed

lemma exchange_talks:
  assumes "talks c (f # fs) im" and "f = reply_frame t (ci_correlation c + 1) payload"
    and "dispatch (ci_limits c) f im = (reply_frame t' (ci_correlation c + 1) bytes, im')" and "t' \<noteq> MT_ERROR_REPLY"
  obtains c' where "exchange t payload (expect_reply t' reason dec) c = Some (dec bytes (ci_limits c), c')"
    and "ci_limits c' = ci_limits c" and "ci_correlation c' = ci_correlation c + 1" and "talks c' fs im'"
proof -
  let ?reply = "reply_frame t' (ci_correlation c + 1) bytes"
  obtain c' where c': "request t payload c = Some (accept_reply (ci_limits c) (ci_correlation c + 1) ?reply, c')"
    "ci_limits c' = ci_limits c" "ci_correlation c' = ci_correlation c + 1" "talks c' fs im'"
    using request_talks [OF assms(1,2)] assms(3) by (metis fst_conv snd_conv)
  have "exchange t payload (expect_reply t' reason dec) c = Some (dec bytes (ci_limits c), c')"
    using c'(1) assms(4) by (simp add: exchange_def accept_other_reply expect_reply_def)
  then show thesis using that c' by blast
qed

section \<open>Remote calls\<close>

text \<open>The calls that the server answers with an acknowledgement.\<close>

datatype remote_call =
    RemotePublishObservation publish_observation_request
  | RemotePublishArtifact publish_artifact_request
  | RemoteCommitTrial commit_trial_request
  | RemoteFailTrial fail_trial_request
  | RemoteHeartbeat heartbeat_request
  | RemoteCancelTrial cancel_trial_request
  | RemoteCancelExperiment cancel_experiment_request
  | RemoteRollback rollback_request

fun client_call :: "remote_call \<Rightarrow> client \<Rightarrow> (status \<times> client) option" where
  "client_call (RemotePublishObservation q) = client_publish_observation q"
| "client_call (RemotePublishArtifact q) = client_publish_artifact q"
| "client_call (RemoteCommitTrial q) = client_commit_trial q"
| "client_call (RemoteFailTrial q) = client_fail_trial q"
| "client_call (RemoteHeartbeat q) = client_heartbeat q"
| "client_call (RemoteCancelTrial q) = client_cancel_trial q"
| "client_call (RemoteCancelExperiment q) = client_cancel_experiment q"
| "client_call (RemoteRollback q) = client_rollback q"

fun local_call :: "remote_call \<Rightarrow> impl \<Rightarrow> status \<times> impl" where
  "local_call (RemotePublishObservation q) im = publish_observation q im"
| "local_call (RemotePublishArtifact q) im = publish_artifact q im"
| "local_call (RemoteCommitTrial q) im = commit_trial q im"
| "local_call (RemoteFailTrial q) im = fail_trial q im"
| "local_call (RemoteHeartbeat q) im = heartbeat q im"
| "local_call (RemoteCancelTrial q) im = cancel_trial (xt_trial q) (xt_reason q) im"
| "local_call (RemoteCancelExperiment q) im = cancel_experiment (xe_experiment q) (xe_reason q) im"
| "local_call (RemoteRollback q) im = rollback (rk_experiment q) (rk_target_generation q) (rk_reason q) im"

fun call_type :: "remote_call \<Rightarrow> message_type" where
  "call_type (RemotePublishObservation q) = MT_PUBLISH_OBSERVATION"
| "call_type (RemotePublishArtifact q) = MT_PUBLISH_ARTIFACT"
| "call_type (RemoteCommitTrial q) = MT_COMMIT_TRIAL"
| "call_type (RemoteFailTrial q) = MT_FAIL_TRIAL"
| "call_type (RemoteHeartbeat q) = MT_HEARTBEAT"
| "call_type (RemoteCancelTrial q) = MT_CANCEL_TRIAL"
| "call_type (RemoteCancelExperiment q) = MT_CANCEL_EXPERIMENT"
| "call_type (RemoteRollback q) = MT_ROLLBACK"

fun call_payload :: "remote_call \<Rightarrow> u8 list" where
  "call_payload (RemotePublishObservation q) = encode_publish_observation q"
| "call_payload (RemotePublishArtifact q) = encode_publish_artifact q"
| "call_payload (RemoteCommitTrial q) = encode_commit_trial q"
| "call_payload (RemoteFailTrial q) = encode_fail_trial q"
| "call_payload (RemoteHeartbeat q) = encode_heartbeat q"
| "call_payload (RemoteCancelTrial q) = encode_cancel_trial q"
| "call_payload (RemoteCancelExperiment q) = encode_cancel_experiment q"
| "call_payload (RemoteRollback q) = encode_rollback q"

fun call_bounded :: "limits \<Rightarrow> remote_call \<Rightarrow> bool" where
  "call_bounded l (RemotePublishObservation q) = publish_observation_bounded l q"
| "call_bounded l (RemotePublishArtifact q) = publish_artifact_bounded l q"
| "call_bounded l (RemoteCommitTrial q) = commit_trial_bounded l q"
| "call_bounded l (RemoteFailTrial q) = fail_trial_bounded l q"
| "call_bounded l (RemoteHeartbeat q) = True"
| "call_bounded l (RemoteCancelTrial q) = cancel_trial_bounded l q"
| "call_bounded l (RemoteCancelExperiment q) = cancel_experiment_bounded l q"
| "call_bounded l (RemoteRollback q) = rollback_bounded l q"

lemmas client_status_calls =
  client_publish_observation_def client_publish_artifact_def client_commit_trial_def client_fail_trial_def
  client_heartbeat_def client_cancel_trial_def client_cancel_experiment_def client_rollback_def

lemma client_call_status: "client_call x c = status_call (call_type x) (call_payload x) c"
  by (cases x) (simp_all add: client_status_calls)

definition call_frame :: "u64 \<Rightarrow> remote_call \<Rightarrow> frame" where
  "call_frame k x = reply_frame (call_type x) k (call_payload x)"

lemmas request_decoders =
  decode_publish_observation_def decode_publish_artifact_def decode_commit_trial_def decode_fail_trial_def
  decode_heartbeat_def decode_cancel_trial_def decode_cancel_experiment_def decode_rollback_def

lemmas requests_decoded =
  publish_observation_codec.decode_encode publish_artifact_codec.decode_encode commit_trial_codec.decode_encode
  fail_trial_codec.decode_encode heartbeat_codec.decode_encode [OF TrueI] cancel_trial_codec.decode_encode
  cancel_experiment_codec.decode_encode rollback_codec.decode_encode

lemma dispatch_call:
  "call_bounded l x \<Longrightarrow> dispatch l (call_frame k x) im = acknowledge (call_frame k x) (local_call x im)"
  by (cases x)
    (simp_all add: call_frame_def dispatch_def dispatch_worker_request_def decoded_def request_decoders requests_decoded)

text \<open>Sequences of calls: over a client, and on a coordinator at hand.\<close>

fun client_calls :: "remote_call list \<Rightarrow> client \<Rightarrow> (status list \<times> client) option" where
  "client_calls [] c = Some ([], c)"
| "client_calls (x # xs) c =
     (case client_call x c of
        None \<Rightarrow> None
      | Some (s, c1) \<Rightarrow> map_option (\<lambda>(ss, c2). (s # ss, c2)) (client_calls xs c1))"

fun local_calls :: "remote_call list \<Rightarrow> impl \<Rightarrow> status list \<times> impl" where
  "local_calls [] im = ([], im)"
| "local_calls (x # xs) im =
     (case local_call x im of (s, im1) \<Rightarrow> case local_calls xs im1 of (ss, im2) \<Rightarrow> (s # ss, im2))"

lemma local_calls_append:
  "local_calls (xs @ ys) im =
     (fst (local_calls xs im) @ fst (local_calls ys (snd (local_calls xs im))),
      snd (local_calls ys (snd (local_calls xs im))))"
  by (induction xs arbitrary: im) (simp_all add: case_prod_beta)

text \<open>The frames of a sequence of calls, with consecutive correlations.\<close>

fun call_frames :: "u64 \<Rightarrow> remote_call list \<Rightarrow> frame list" where
  "call_frames k [] = []"
| "call_frames k (x # xs) = call_frame (k + 1) x # call_frames (k + 1) xs"

text \<open>Every request and every status of a sequence of calls fits into its message.\<close>

fun conveyed :: "limits \<Rightarrow> remote_call list \<Rightarrow> impl \<Rightarrow> bool" where
  "conveyed l [] im = True"
| "conveyed l (x # xs) im \<longleftrightarrow>
     call_bounded l x \<and> deliverable l (fst (local_call x im)) \<and> conveyed l xs (snd (local_call x im))"

lemma conveyed_append: "conveyed l (xs @ ys) im \<longleftrightarrow> conveyed l xs im \<and> conveyed l ys (snd (local_calls xs im))"
  by (induction xs arbitrary: im) (simp_all add: case_prod_beta)

lemma client_call_talks:
  assumes "talks c (call_frames (ci_correlation c) (x # xs)) im" and "conveyed (ci_limits c) (x # xs) im"
  obtains c' where "client_call x c = Some (fst (local_call x im), c')" and "ci_limits c' = ci_limits c"
    and "talks c' (call_frames (ci_correlation c') xs) (snd (local_call x im))"
    and "conveyed (ci_limits c') xs (snd (local_call x im))"
proof -
  let ?k = "ci_correlation c + 1"
  have t: "talks c (call_frame ?k x # call_frames ?k xs) im" using assms(1) by simp
  obtain c' where "status_call (call_type x) (call_payload x) c = Some (fst (local_call x im), c')"
    "ci_limits c' = ci_limits c" "ci_correlation c' = ?k" "talks c' (call_frames ?k xs) (snd (local_call x im))"
    by (rule status_call_talks [OF t call_frame_def dispatch_call]) (use assms(2) in simp_all)
  then show thesis using that [of c'] assms(2) by (simp add: client_call_status)
qed

lemma client_calls_talk:
  assumes "talks c (call_frames (ci_correlation c) xs) im" and "conveyed (ci_limits c) xs im"
  shows "\<exists>c'. client_calls xs c = Some (fst (local_calls xs im), c')"
  using assms
proof (induction xs arbitrary: c im)
  case (Cons x xs)
  obtain c' where c': "client_call x c = Some (fst (local_call x im), c')"
    "talks c' (call_frames (ci_correlation c') xs) (snd (local_call x im))"
    "conveyed (ci_limits c') xs (snd (local_call x im))"
    using client_call_talks [OF Cons.prems] by blast
  then show ?case using Cons.IH [OF c'(2,3)] by (auto simp: case_prod_beta)
qed simp

lemma local_calls_served:
  "conveyed l xs im \<Longrightarrow> run (concat (map (requested l) (call_frames k xs))) im = snd (local_calls xs im)"
proof (induction xs arbitrary: im k)
  case (Cons x xs)
  have "run (requested l (call_frame (k + 1) x)) im = snd (local_call x im)"
    using dispatch_calls [of l "call_frame (k + 1) x" im] dispatch_call [of l x "k + 1" im] Cons.prems by simp
  then show ?case using Cons by (simp add: run_append case_prod_beta)
qed simp

end
