(* ===== verification/Worker.thy ===== *)
theory Worker
  imports Client
begin

text \<open>
  \<^verbatim>\<open>src/worker.cpp\<close>: the worker process. It registers, claims trials, hands each to a task and reports what
  the task made of it. The task is an argument of the model, as it is one of the code; what the
  random device, the clocks, the file system and the network give are arguments too. \<open>None\<close> is a
  worker that is still blocked in a call of its client.
\<close>

unbundle bit_operations_syntax

section \<open>What a task produces\<close>

record named_observation =
  no_metric :: string
  no_validity :: observation_validity
  no_value :: metric_value
  no_detail :: string

record named_artifact =
  na_category :: string
  na_locator :: string
  na_content_digest :: digest
  na_digest_present :: bool
  na_size_present :: bool
  na_size_bytes :: u64
  na_provenance :: string

record trial_outcome =
  to_succeeded :: bool
  to_failure_kind :: failure_kind
  to_failure_detail :: string
  to_retryable :: bool
  to_observations :: "named_observation list"
  to_artifacts :: "named_artifact list"
  to_result_payload :: string

record worker_task_context =
  tc_worker :: worker_id
  tc_boot :: worker_boot_id
  tc_epoch :: coordinator_epoch
  tc_producer :: producer_id
  tc_attempt :: trial_attempt_number
  tc_parameters :: "parameter_assignment list"

type_synonym task_function = "trial_assignment \<Rightarrow> worker_task_context \<Rightarrow> trial_outcome"

definition context_parameter :: "worker_task_context \<Rightarrow> string \<Rightarrow> string option" where
  "context_parameter x key = map_option pa_value (find (\<lambda>p. pa_key p = key) (tc_parameters x))"

section \<open>The process\<close>

text \<open>\<open>wc_frame_log\<close> and \<open>wc_progress_hook\<close>: whether a path for the log and a hook are configured.\<close>

record worker_config =
  wc_worker :: worker_id
  wc_forced_boot :: "worker_boot_id option"
  wc_endpoint :: string
  wc_fingerprint :: string
  wc_limits :: limits
  wc_max_concurrent_assignments :: u32
  wc_frame_log :: bool
  wc_progress_hook :: bool

text \<open>\<open>wk_progress\<close>: the calls of the progress hook, in order.\<close>

record worker_process =
  wk_config :: worker_config
  wk_client :: client
  wk_boot :: worker_boot_id
  wk_epoch :: coordinator_epoch
  wk_producer :: producer_id
  wk_published :: u32
  wk_failed :: u32
  wk_last_error :: string
  wk_published_observations :: u64
  wk_progress :: "(u64 \<times> u32) list"

definition mint_boot_identity :: "u32 \<Rightarrow> u32 \<Rightarrow> u64 \<Rightarrow> u64 \<Rightarrow> worker_boot_id" where
  "mint_boot_identity r1 r2 clock steady =
     (let v = push_bit 32 (ucast r1) XOR ucast r2 XOR clock XOR steady
      in from_value (if v = 0 then 1 else v))"

definition worker_create ::
    "worker_config \<Rightarrow> worker_boot_id \<Rightarrow> bool \<Rightarrow> connection result \<Rightarrow> worker_process result" where
  "worker_create cfg minted log_opens outcome =
     (if \<not> valid (wc_worker cfg)
        then Inl (make_error EC_INVALID_ARGUMENT EG_IDENTITY (lit ''worker identity must be non-null''))
      else
        let boot = (case wc_forced_boot cfg of Some b \<Rightarrow> b | None \<Rightarrow> minted)
        in if \<not> valid boot
             then Inl (make_error EC_INVALID_ARGUMENT EG_IDENTITY (lit ''worker boot identity must be non-null''))
           else if wc_frame_log cfg \<and> \<not> log_opens
             then Inl (make_error EC_PERSISTENCE_FAILURE EG_TRANSPORT (lit ''cannot open the worker frame log for writing''))
           else case client_connect (wc_limits cfg) (wc_frame_log cfg) outcome of
               Inl e \<Rightarrow> Inl e
             | Inr c \<Rightarrow> Inr \<lparr>wk_config = cfg, wk_client = c, wk_boot = boot, wk_epoch = null_id,
                 wk_producer = null_id, wk_published = 0, wk_failed = 0, wk_last_error = [],
                 wk_published_observations = 0, wk_progress = []\<rparr>)"

text \<open>The frame log holds every frame sent, each after its length.\<close>

definition record_frame :: "u8 list \<Rightarrow> u8 list \<Rightarrow> u8 list" where
  "record_frame bytes log = log @ store_le 8 (of_nat (length bytes) :: u64) @ bytes"

definition frame_log :: "worker_process \<Rightarrow> u8 list" where
  "frame_log w = (case ci_observed (wk_client w) of None \<Rightarrow> [] | Some frames \<Rightarrow> fold record_frame frames [])"

definition note_error :: "status \<Rightarrow> worker_process \<Rightarrow> worker_process" where
  "note_error s w = w\<lparr>wk_last_error := status_to_string s\<rparr>"

section \<open>Registration\<close>

definition registration_request :: "worker_process \<Rightarrow> register_worker_request" where
  "registration_request w =
     \<lparr>rq_claimed_epoch = null_id, rq_worker = wc_worker (wk_config w), rq_boot = wk_boot w,
      rq_producer = null_id, rq_endpoint = wc_endpoint (wk_config w),
      rq_max_concurrent_assignments = wc_max_concurrent_assignments (wk_config w),
      rq_fingerprint = wc_fingerprint (wk_config w)\<rparr>"

definition connect_and_register :: "worker_process \<Rightarrow> (status \<times> worker_process) option" where
  "connect_and_register w =
     (case client_register_worker (registration_request w) (wk_client w) of
        None \<Rightarrow> None
      | Some (Inl e, c) \<Rightarrow> Some (e, note_error e (w\<lparr>wk_client := c\<rparr>))
      | Some (Inr r, c) \<Rightarrow>
          if st_failed (rr_status r) then Some (rr_status r, note_error (rr_status r) (w\<lparr>wk_client := c\<rparr>))
          else Some (success, w\<lparr>wk_client := c, wk_epoch := rr_epoch r, wk_producer := rr_producer r, wk_boot := rr_boot r\<rparr>))"

section \<open>One assignment\<close>

definition task_context :: "worker_process \<Rightarrow> trial_assignment \<Rightarrow> worker_task_context" where
  "task_context w a =
     \<lparr>tc_worker = wc_worker (wk_config w), tc_boot = wk_boot w, tc_epoch = wk_epoch w,
      tc_producer = wk_producer w, tc_attempt = ta_attempt_number a, tc_parameters = ta_parameters a\<rparr>"

definition failure_request ::
    "worker_process \<Rightarrow> trial_assignment \<Rightarrow> failure_kind \<Rightarrow> string \<Rightarrow> bool \<Rightarrow> fail_trial_request" where
  "failure_request w a kind detail retryable =
     \<lparr>fl_epoch = wk_epoch w, fl_worker = wc_worker (wk_config w), fl_boot = wk_boot w,
      fl_envelope = ta_envelope a, fl_kind = kind, fl_detail = detail, fl_retryable = retryable\<rparr>"

definition report_failure :: "trial_assignment \<Rightarrow> trial_outcome \<Rightarrow> worker_process \<Rightarrow> worker_process option" where
  "report_failure a out w =
     (case client_fail_trial (failure_request w a (to_failure_kind out) (to_failure_detail out) (to_retryable out))
         (wk_client w) of
        None \<Rightarrow> None
      | Some (s, c) \<Rightarrow>
          if st_ok s then Some (w\<lparr>wk_client := c, wk_failed := wk_failed w + 1\<rparr>)
          else Some (note_error s (w\<lparr>wk_client := c\<rparr>)))"

definition publish_request ::
    "worker_process \<Rightarrow> trial_assignment \<Rightarrow> assigned_metric \<Rightarrow> named_observation \<Rightarrow> publish_observation_request" where
  "publish_request w a m named =
     (let e = ta_envelope a
      in \<lparr>po_epoch = wk_epoch w, po_worker = wc_worker (wk_config w), po_boot = wk_boot w,
          po_observation =
            \<lparr>ob_id = am_observation_id m, ob_experiment = ae_experiment e, ob_generation = ae_generation e,
             ob_branch = ae_branch e, ob_branch_generation = ae_branch_generation e, ob_trial = ae_trial e,
             ob_attempt = ae_attempt e, ob_metric = am_metric m, ob_producer = wk_producer w,
             ob_worker = wc_worker (wk_config w), ob_boot = wk_boot w, ob_epoch = wk_epoch w,
             ob_validity = no_validity named, ob_value = no_value named, ob_detail = no_detail named,
             ob_sequence = 0\<rparr>\<rparr>)"

definition count_observation :: "worker_process \<Rightarrow> worker_process" where
  "count_observation w =
     (let n = wk_published_observations w + 1
      in w\<lparr>wk_published_observations := n,
           wk_progress := wk_progress w @ (if wc_progress_hook (wk_config w) then [(n, wk_published w)] else [])\<rparr>)"

text \<open>The loop over the observations; its result is \<^verbatim>\<open>published_all\<close>.\<close>

fun publish_observations ::
    "trial_assignment \<Rightarrow> named_observation list \<Rightarrow> worker_process \<Rightarrow> (bool \<times> worker_process) option" where
  "publish_observations a [] w = Some (True, w)"
| "publish_observations a (named # rest) w =
     (case find_last (\<lambda>m. am_name m = no_metric named) (ta_metrics a) of
        None \<Rightarrow> Some (False, w\<lparr>wk_last_error :=
          lit ''task produced an observation for a metric that was not assigned: '' @ no_metric named\<rparr>)
      | Some m \<Rightarrow>
          (case client_publish_observation (publish_request w a m named) (wk_client w) of
             None \<Rightarrow> None
           | Some (s, c) \<Rightarrow>
               if \<not> st_ok s then Some (False, note_error s (w\<lparr>wk_client := c\<rparr>))
               else publish_observations a rest (count_observation (w\<lparr>wk_client := c\<rparr>))))"

definition report_invalid :: "trial_assignment \<Rightarrow> worker_process \<Rightarrow> worker_process option" where
  "report_invalid a w =
     (case client_fail_trial (failure_request w a FK_INVALID_OBSERVATION (wk_last_error w) False) (wk_client w) of
        None \<Rightarrow> None
      | Some (s, c) \<Rightarrow> Some (w\<lparr>wk_client := c, wk_failed := wk_failed w + 1\<rparr>))"

definition assigned_artifact :: "authority_envelope \<Rightarrow> artifact_id \<times> named_artifact \<Rightarrow> artifact_record" where
  "assigned_artifact e entry =
     (case entry of (i, named) \<Rightarrow>
       \<lparr>ar_id = i, ar_experiment = ae_experiment e, ar_generation = ae_generation e, ar_branch = ae_branch e,
        ar_trial = ae_trial e, ar_attempt = ae_attempt e, ar_category = na_category named,
        ar_locator = na_locator named, ar_content_digest = na_content_digest named,
        ar_digest_present = na_digest_present named, ar_size_present = na_size_present named,
        ar_size_bytes = na_size_bytes named, ar_provenance = na_provenance named,
        ar_current = True, ar_sequence = 0\<rparr>)"

text \<open>Artifacts beyond the reserved identities are dropped.\<close>

definition commit_request :: "worker_process \<Rightarrow> trial_assignment \<Rightarrow> trial_outcome \<Rightarrow> commit_trial_request" where
  "commit_request w a out =
     \<lparr>cm_epoch = wk_epoch w, cm_worker = wc_worker (wk_config w), cm_boot = wk_boot w,
      cm_envelope = ta_envelope a,
      cm_artifacts = map (assigned_artifact (ta_envelope a)) (zip (ta_artifact_ids a) (to_artifacts out)),
      cm_result_payload = to_result_payload out\<rparr>"

definition commit_outcome :: "trial_assignment \<Rightarrow> trial_outcome \<Rightarrow> worker_process \<Rightarrow> worker_process option" where
  "commit_outcome a out w =
     (case client_commit_trial (commit_request w a out) (wk_client w) of
        None \<Rightarrow> None
      | Some (s, c) \<Rightarrow>
          if \<not> st_ok s then Some ((note_error s (w\<lparr>wk_client := c\<rparr>))\<lparr>wk_failed := wk_failed w + 1\<rparr>)
          else Some (w\<lparr>wk_client := c, wk_published := wk_published w + 1\<rparr>))"

definition run_assignment :: "task_function \<Rightarrow> trial_assignment \<Rightarrow> worker_process \<Rightarrow> worker_process option" where
  "run_assignment task a w =
     (let out = task a (task_context w a)
      in if \<not> to_succeeded out then report_failure a out w
         else case publish_observations a (to_observations out) w of
             None \<Rightarrow> None
           | Some (published_all, w1) \<Rightarrow> if published_all then commit_outcome a out w1 else report_invalid a w1)"

fun run_assignments :: "task_function \<Rightarrow> trial_assignment list \<Rightarrow> worker_process \<Rightarrow> worker_process option" where
  "run_assignments task [] w = Some w"
| "run_assignments task (a # as) w =
     (case run_assignment task a w of None \<Rightarrow> None | Some w1 \<Rightarrow> run_assignments task as w1)"

section \<open>Cycles\<close>

definition claim_request :: "worker_process \<Rightarrow> claim_trial_request" where
  "claim_request w =
     \<lparr>ct_epoch = wk_epoch w, ct_worker = wc_worker (wk_config w), ct_boot = wk_boot w,
      ct_max_claims = wc_max_concurrent_assignments (wk_config w)\<rparr>"

definition no_work :: status where
  "no_work = make_error EC_NOT_FOUND EG_LIFECYCLE (lit ''no trial is available to claim'')"

definition run_once :: "task_function \<Rightarrow> worker_process \<Rightarrow> (status \<times> worker_process) option" where
  "run_once task w =
     (case client_claim_trials (claim_request w) (wk_client w) of
        None \<Rightarrow> None
      | Some (Inl e, c) \<Rightarrow> Some (e, note_error e (w\<lparr>wk_client := c\<rparr>))
      | Some (Inr r, c) \<Rightarrow>
          if st_failed (cl_status r) then Some (cl_status r, note_error (cl_status r) (w\<lparr>wk_client := c\<rparr>))
          else if cl_assignments r = [] then Some (no_work, w\<lparr>wk_client := c\<rparr>)
          else case run_assignments task (cl_assignments r) (w\<lparr>wk_client := c\<rparr>) of
              None \<Rightarrow> None
            | Some w1 \<Rightarrow> Some (success, w1))"

text \<open>Every round of the loop asks the stop flag once; \<open>stops\<close> is what it reads.\<close>

fun run_until_idle :: "task_function \<Rightarrow> bool list \<Rightarrow> worker_process \<Rightarrow> (status \<times> worker_process) option" where
  "run_until_idle task [] w = None"
| "run_until_idle task (stop # stops) w =
     (if stop then Some (success, w)
      else case (if \<not> valid (wk_epoch w) then connect_and_register w else Some (success, w)) of
          None \<Rightarrow> None
        | Some (registered, w1) \<Rightarrow>
            if \<not> st_ok registered then Some (registered, w1)
            else case run_once task w1 of
                None \<Rightarrow> None
              | Some (s, w2) \<Rightarrow>
                  if st_ok s then run_until_idle task stops w2
                  else if st_code s = EC_NOT_FOUND then Some (success, w2)
                  else if st_code s = EC_STALE_EPOCH \<or> st_code s = EC_STALE_WORKER then
                    (case connect_and_register w2 of
                       None \<Rightarrow> None
                     | Some (again, w3) \<Rightarrow>
                         if \<not> st_ok again then Some (again, w3) else run_until_idle task stops w3)
                  else Some (s, w2))"

definition replay_raw :: "u8 list \<Rightarrow> worker_process \<Rightarrow> (frame result \<times> worker_process) option" where
  "replay_raw bytes w =
     (case send_raw_and_receive bytes (wk_client w) of
        None \<Rightarrow> None
      | Some (r, c) \<Rightarrow> Some (r, w\<lparr>wk_client := c\<rparr>))"

definition worker_send_raw :: "u8 list \<Rightarrow> worker_process \<Rightarrow> (status \<times> worker_process) option" where
  "worker_send_raw bytes w =
     (case send_raw bytes (wk_client w) of
        None \<Rightarrow> None
      | Some (s, c) \<Rightarrow> Some (s, w\<lparr>wk_client := c\<rparr>))"

end
