(* ===== verification/NumberText.thy ===== *)
theory NumberText
  imports Inspect
begin

text \<open>
  The conversions of the C++ library between numbers and text that the programs under \<^verbatim>\<open>src/apps\<close> and
  \<^verbatim>\<open>make_real_parameter\<close> use: \<^verbatim>\<open>std::stoul\<close>, \<^verbatim>\<open>std::stoull\<close>, \<^verbatim>\<open>std::stod\<close> and the shortest text of a double. \<open>None\<close>
  is an exception. An \<^verbatim>\<open>unsigned long\<close> has 64 bits, and the decimal point is the one of the C locale.
\<close>

section \<open>Scanning\<close>

definition is_space :: "char \<Rightarrow> bool" where
  "is_space c \<longleftrightarrow> c = CHR '' '' \<or> (9 \<le> (of_char c :: int) \<and> (of_char c :: int) \<le> 13)"

definition take_sign :: "string \<Rightarrow> bool \<times> string" where
  "take_sign s =
     (case s of
        c # rest \<Rightarrow> if c = CHR ''-'' then (True, rest) else if c = CHR ''+'' then (False, rest) else (False, s)
      | [] \<Rightarrow> (False, s))"

definition dec_digit :: "char \<Rightarrow> int option" where
  "dec_digit c = (let n = (of_char c :: int) in if 48 \<le> n \<and> n \<le> 57 then Some (n - 48) else None)"

definition hex_digit :: "char \<Rightarrow> int option" where
  "hex_digit c =
     (let n = (of_char c :: int)
      in if 48 \<le> n \<and> n \<le> 57 then Some (n - 48)
         else if 65 \<le> n \<and> n \<le> 70 then Some (n - 55)
         else if 97 \<le> n \<and> n \<le> 102 then Some (n - 87) else None)"

fun span_digits :: "(char \<Rightarrow> int option) \<Rightarrow> string \<Rightarrow> int list \<times> string" where
  "span_digits digit [] = ([], [])"
| "span_digits digit (c # s) =
     (case digit c of
        None \<Rightarrow> ([], c # s)
      | Some d \<Rightarrow> (case span_digits digit s of (ds, rest) \<Rightarrow> (d # ds, rest)))"

definition digits_value :: "int \<Rightarrow> int list \<Rightarrow> int" where
  "digits_value base ds = foldl (\<lambda>v d. v * base + d) 0 ds"

section \<open>Unsigned integers\<close>

text \<open>A minus sign negates the value in the range of the type, as \<^verbatim>\<open>strtoull\<close> does.\<close>

definition stoull :: "string \<Rightarrow> u64 option" where
  "stoull s =
     (case take_sign (dropWhile is_space s) of (negative, r) \<Rightarrow>
        case span_digits dec_digit r of (ds, rest) \<Rightarrow>
          let v = digits_value 10 ds
          in if ds = [] \<or> v \<ge> 2 ^ 64 then None
             else Some (if negative then - word_of_int v else word_of_int v))"

section \<open>Doubles\<close>

text \<open>The digits before and after the point, the number of those after it, and the rest.\<close>

definition mantissa :: "(char \<Rightarrow> int option) \<Rightarrow> string \<Rightarrow> int list \<times> nat \<times> string" where
  "mantissa digit s =
     (case span_digits digit s of (ds, r) \<Rightarrow>
        case r of
          c # r1 \<Rightarrow>
            if c \<noteq> CHR ''.'' then (ds, 0, r)
            else (case span_digits digit r1 of (fs, r2) \<Rightarrow>
              if ds = [] \<and> fs = [] then ([], 0, s) else (ds @ fs, length fs, r2))
        | [] \<Rightarrow> (ds, 0, r))"

definition exponent_of :: "char \<Rightarrow> char \<Rightarrow> string \<Rightarrow> int" where
  "exponent_of lower upper r =
     (case r of
        c # r1 \<Rightarrow>
          if c \<noteq> lower \<and> c \<noteq> upper then 0
          else (case take_sign r1 of (negative, r2) \<Rightarrow>
            case span_digits dec_digit r2 of (es, rest) \<Rightarrow>
              if negative then - digits_value 10 es else digits_value 10 es)
      | [] \<Rightarrow> 0)"

text \<open>
  The nearest double to \<open>num / den\<close>. Overflow, and a subnormal or zero result that is not exact, set
  \<^verbatim>\<open>ERANGE\<close>, for which \<^verbatim>\<open>std::stod\<close> throws.
\<close>

definition ranged :: "bool \<Rightarrow> int \<Rightarrow> int \<Rightarrow> double option" where
  "ranged negative num den =
     (if num = 0 then Some (if negative then d_neg d_zero else d_zero)
      else let d = d_round negative (num * 2 ^ 1074) den
        in if isinf d \<or> (d_exp d = 0 \<and> d_mag d * den \<noteq> num * 2 ^ 1074) then None else Some d)"

definition scaled :: "bool \<Rightarrow> int \<Rightarrow> int \<Rightarrow> int \<Rightarrow> double option" where
  "scaled negative value base e =
     (if e \<ge> 0 then ranged negative (value * base ^ nat e) 1 else ranged negative value (base ^ nat (- e)))"

definition lower_char :: "char \<Rightarrow> char" where
  "lower_char c = (let n = (of_char c :: int) in if 65 \<le> n \<and> n \<le> 90 then char_of (n + 32) else c)"

definition starts_with :: "string \<Rightarrow> string \<Rightarrow> bool" where
  "starts_with word s \<longleftrightarrow> map lower_char (take (length word) s) = word"

definition decimal_double :: "bool \<Rightarrow> string \<Rightarrow> double option" where
  "decimal_double negative s =
     (case mantissa dec_digit s of (ds, point, rest) \<Rightarrow>
        if ds = [] then None
        else scaled negative (digits_value 10 ds) 10 (exponent_of (CHR ''e'') (CHR ''E'') rest - int point))"

definition stod :: "string \<Rightarrow> double option" where
  "stod s =
     (case take_sign (dropWhile is_space s) of (negative, r) \<Rightarrow>
        if starts_with ''inf'' r then Some (d_inf negative)
        else if starts_with ''nan'' r then Some d_nan
        else if starts_with ''0x'' r then
          (case mantissa hex_digit (drop 2 r) of (ds, point, rest) \<Rightarrow>
             if ds = [] then decimal_double negative r
             else scaled negative (digits_value 16 ds) 2 (exponent_of (CHR ''p'') (CHR ''P'') rest - 4 * int point))
        else decimal_double negative r)"

text \<open>
  \<^verbatim>\<open>std::to_chars\<close> without a format: the shorter of the fixed and the scientific text of the shortest
  digits, the fixed one when they are equally long; an integral value is written out exactly.
\<close>

definition fixed_text :: "double \<Rightarrow> string \<Rightarrow> int \<Rightarrow> string" where
  "fixed_text v ds e =
     (if e < 0 then ''0.'' @ replicate (nat (- e) - 1) CHR ''0'' @ ds
      else if int (length ds) \<le> e + 1 then int_to_string (d_mag v div 2 ^ 1074)
      else take (nat (e + 1)) ds @ ''.'' @ drop (nat (e + 1)) ds)"

definition scientific_text :: "string \<Rightarrow> int \<Rightarrow> string" where
  "scientific_text ds e = take 1 ds @ (if length ds > 1 then ''.'' @ drop 1 ds else []) @ exponent_text e"

definition to_chars_text :: "double \<Rightarrow> string" where
  "to_chars_text v =
     (if isnan v then (if d_sign v then ''-nan'' else ''nan'')
      else (if d_sign v then ''-'' else []) @
        (if isinf v then ''inf''
         else if d_mag v = 0 then ''0''
         else case shortest_digits v of (ds, e) \<Rightarrow>
           if length (fixed_text v ds e) \<le> length (scientific_text ds e) then fixed_text v ds e
           else scientific_text ds e))"

definition make_real_parameter :: "string \<Rightarrow> double \<Rightarrow> parameter_assignment" where
  "make_real_parameter key v = \<lparr>pa_key = key, pa_kind = PK_REAL, pa_value = to_chars_text v\<rparr>"

section \<open>Examples\<close>

lemma stoull_examples:
  "stoull ''17'' = Some 17" "stoull ''-1'' = Some 0xFFFFFFFFFFFFFFFF" "stoull ''18446744073709551616'' = None" "stoull ''x'' = None"
  by code_simp+

end
