(* ===== verification/Catalogue.thy ===== *)
theory Catalogue
  imports Worker NumberText
begin

text \<open>
  \<^verbatim>\<open>apps/scenarios.cpp\<close>: the reference experiments, the reference workloads and the helpers that drive a
  coordinator in the same process. The helpers hold no authority: the lemmas show that each of them is
  a sequence of the coordinator's own operations.
\<close>

unbundle bit_operations_syntax

section \<open>Parts of a specification\<close>

definition real_metric :: "string \<Rightarrow> string \<Rightarrow> metric_direction \<Rightarrow> metric_spec" where
  "real_metric name unit_text direction =
     \<lparr>xm_name = name, xm_unit = unit_text, xm_kind = MK_REAL, xm_direction = direction, xm_aggregation = AR_MEAN,
      xm_required = True, xm_accepts_non_finite = False, xm_lower_bound = None, xm_upper_bound = None,
      xm_target_low = None, xm_target_high = None, xm_weight = 1, xm_priority = 0, xm_categories = []\<rparr>"

definition scenario_branch :: "string \<Rightarrow> branch_role \<Rightarrow> u32 \<Rightarrow> parameter_assignment list \<Rightarrow> branch_spec" where
  "scenario_branch name role planned_trials parameters =
     \<lparr>xb_name = name, xb_role = role, xb_fork_from = None, xb_parameters = parameters,
      xb_input_set = Some (lit ''reference-input-set-v1''), xb_environment = Some (lit ''reference-environment''),
      xb_environment_fingerprint = lit ''synthetic-reference-x64'', xb_seed = None, xb_planned_trials = planned_trials\<rparr>"

definition scenario_rule :: "string \<Rightarrow> comparison_op \<Rightarrow> double \<Rightarrow> u32 \<Rightarrow> comparison_rule_spec" where
  "scenario_rule metric oper threshold prio =
     \<lparr>xr_metric = metric, xr_op = oper, xr_threshold = threshold, xr_target_low = d_zero, xr_target_high = d_zero,
      xr_priority = prio\<rparr>"

text \<open>A value-initialised \<^verbatim>\<open>ExperimentSpec\<close>.\<close>

definition experiment_spec_init :: experiment_spec where
  "experiment_spec_init =
     \<lparr>xs_name = [], xs_hypothesis_statement = [], xs_expected_direction = None, xs_expected_metric = None,
      xs_provenance = [], xs_branches = [], xs_metrics = [], xs_require_baseline = True,
      xs_min_completed_trials_per_branch = 1, xs_min_valid_observations_per_required_metric = 1,
      xs_reject_on_any_invalid_observation = False, xs_require_environment_match = True,
      xs_majority_wins_min_basis_points = 5000, xs_use_weighted_score = False, xs_accept_score_threshold = d_zero,
      xs_rules = [], xs_seed_policy = SP_DERIVED_PER_TRIAL, xs_experiment_seed = None,
      xs_retry_policy = RP_FRESH_ATTEMPT_SAME_TRIAL, xs_max_attempts_per_trial = 2,
      xs_partial_failure_policy = PF_TOLERATE_IF_EVIDENCE_SUFFICIENT, xs_late_evidence_policy = LE_REJECT_AND_RECORD,
      xs_parameters = []\<rparr>"

section \<open>The catalogue\<close>

definition scenario_names :: "string list" where
  "scenario_names = [''latency'', ''throughput-memory'', ''forked-parameter'', ''insufficient'', ''invalid-evidence'',
     ''authority'', ''retry'']"

definition workload_names :: "string list" where
  "workload_names = [''parameter'', ''parameter-slow'', ''fail-once'', ''partial'']"

definition synthetic :: string where
  "synthetic = lit ''synthetic reference experiment''"

definition latency_metric :: metric_spec where
  "latency_metric = real_metric (lit ''latency_ms'') (lit ''ms'') MD_MINIMIZE"

definition latency_branch :: "string \<Rightarrow> branch_role \<Rightarrow> u32 \<Rightarrow> int \<Rightarrow> branch_spec" where
  "latency_branch name role planned v =
     scenario_branch name role planned [make_real_parameter (lit ''latency_ms'') (d_of_int v)]"

definition latency_rule :: comparison_rule_spec where
  "latency_rule = scenario_rule (lit ''latency_ms'') CO_MIN_IMPROVEMENT (d_of_int 1) 0"

definition latency_scenario :: experiment_spec where
  "latency_scenario = experiment_spec_init
     \<lparr>xs_name := lit ''baseline-vs-candidate-latency'',
      xs_hypothesis_statement := lit ''Raising the prefetch depth lowers mean request latency without changing the input set.'',
      xs_expected_direction := Some MD_MINIMIZE, xs_expected_metric := Some (lit ''latency_ms''),
      xs_provenance := synthetic, xs_metrics := [latency_metric],
      xs_branches := [latency_branch (lit ''baseline'') BR_BASELINE 2 120, latency_branch (lit ''candidate'') BR_CANDIDATE 2 95],
      xs_rules := [latency_rule], xs_min_completed_trials_per_branch := 2,
      xs_min_valid_observations_per_required_metric := 1, xs_experiment_seed := Some 4242,
      xs_max_attempts_per_trial := 3\<rparr>"

definition tradeoff_parameters :: "int \<Rightarrow> int \<Rightarrow> parameter_assignment list" where
  "tradeoff_parameters throughput memory =
     [make_real_parameter (lit ''throughput'') (d_of_int throughput),
      make_real_parameter (lit ''peak_memory_mb'') (d_of_int memory)]"

definition throughput_metric :: metric_spec where
  "throughput_metric = real_metric (lit ''throughput'') (lit ''ops/s'') MD_MAXIMIZE"

definition throughput_memory_scenario :: experiment_spec where
  "throughput_memory_scenario = experiment_spec_init
     \<lparr>xs_name := lit ''throughput-versus-memory-tradeoff'',
      xs_hypothesis_statement :=
        lit ''Batching raises throughput while peak resident memory must not regress beyond the tolerance.'',
      xs_provenance := synthetic,
      xs_metrics := [throughput_metric, real_metric (lit ''peak_memory_mb'') (lit ''MiB'') MD_MINIMIZE],
      xs_branches := [scenario_branch (lit ''baseline'') BR_BASELINE 2 (tradeoff_parameters 1000 512),
        scenario_branch (lit ''candidate'') BR_CANDIDATE 2 (tradeoff_parameters 1250 530)],
      xs_rules := [scenario_rule (lit ''throughput'') CO_MIN_IMPROVEMENT (d_of_int 50) 0,
        scenario_rule (lit ''peak_memory_mb'') CO_MAX_REGRESSION_TOLERANCE (d_of_int 32) 1],
      xs_min_completed_trials_per_branch := 2, xs_experiment_seed := Some 77\<rparr>"

definition throughput_branch :: "string \<Rightarrow> branch_role \<Rightarrow> int \<Rightarrow> branch_spec" where
  "throughput_branch name role v =
     scenario_branch name role 2 [make_real_parameter (lit ''throughput'') (d_of_int v)]"

definition forked_parameter_scenario :: experiment_spec where
  "forked_parameter_scenario = experiment_spec_init
     \<lparr>xs_name := lit ''forked-branch-with-changed-parameter'',
      xs_hypothesis_statement := lit ''A forked branch with a larger batch size improves throughput.'',
      xs_provenance := synthetic, xs_metrics := [throughput_metric],
      xs_branches := [throughput_branch (lit ''baseline'') BR_BASELINE 1000,
        (throughput_branch (lit ''candidate'') BR_CANDIDATE 1180)\<lparr>xb_fork_from := Some (lit ''baseline'')\<rparr>],
      xs_rules := [scenario_rule (lit ''throughput'') CO_MIN_IMPROVEMENT (d_of_int 10) 0],
      xs_min_completed_trials_per_branch := 2, xs_experiment_seed := Some 9\<rparr>"

definition insufficient_scenario :: experiment_spec where
  "insufficient_scenario = experiment_spec_init
     \<lparr>xs_name := lit ''favorable-candidate-with-insufficient-evidence'',
      xs_hypothesis_statement := lit ''A much lower latency is claimed, but the evidence floor is not met.'',
      xs_provenance := synthetic, xs_metrics := [latency_metric],
      xs_branches := [latency_branch (lit ''baseline'') BR_BASELINE 1 120, latency_branch (lit ''candidate'') BR_CANDIDATE 1 40],
      xs_rules := [latency_rule], xs_min_completed_trials_per_branch := 4, xs_experiment_seed := Some 5\<rparr>"

definition invalid_evidence_scenario :: experiment_spec where
  "invalid_evidence_scenario = experiment_spec_init
     \<lparr>xs_name := lit ''numerically-favorable-but-invalid-evidence'',
      xs_hypothesis_statement := lit ''A favorable number is produced without a valid observation.'',
      xs_provenance := synthetic, xs_metrics := [latency_metric],
      xs_branches := [latency_branch (lit ''baseline'') BR_BASELINE 2 120,
        scenario_branch (lit ''candidate'') BR_CANDIDATE 2
          [make_real_parameter (lit ''latency_ms'') (d_of_int 30),
           make_boolean_parameter (lit ''latency_ms_invalid'') True]],
      xs_rules := [latency_rule], xs_min_completed_trials_per_branch := 2,
      xs_reject_on_any_invalid_observation := True, xs_experiment_seed := Some 11\<rparr>"

definition authority_scenario :: experiment_spec where
  "authority_scenario = experiment_spec_init
     \<lparr>xs_name := lit ''authority-fencing-under-process-death'',
      xs_hypothesis_statement := lit ''The candidate reduces latency once its trials are authoritative.'',
      xs_provenance := synthetic, xs_metrics := [latency_metric],
      xs_branches := [latency_branch (lit ''baseline'') BR_BASELINE 1 120, latency_branch (lit ''candidate'') BR_CANDIDATE 1 95],
      xs_rules := [latency_rule], xs_min_completed_trials_per_branch := 1, xs_max_attempts_per_trial := 4,
      xs_experiment_seed := Some 2026\<rparr>"

definition retry_scenario :: experiment_spec where
  "retry_scenario = experiment_spec_init
     \<lparr>xs_name := lit ''failed-trial-followed-by-fresh-attempt'',
      xs_hypothesis_statement := lit ''A transient execution failure is recoverable through a fresh attempt.'',
      xs_provenance := synthetic, xs_metrics := [latency_metric],
      xs_branches := [latency_branch (lit ''baseline'') BR_BASELINE 1 120, latency_branch (lit ''candidate'') BR_CANDIDATE 1 95],
      xs_rules := [latency_rule], xs_min_completed_trials_per_branch := 1, xs_max_attempts_per_trial := 3,
      xs_experiment_seed := Some 31\<rparr>"

text \<open>The text on the left is the error of an unknown name.\<close>

definition build_scenario :: "string \<Rightarrow> string + experiment_spec" where
  "build_scenario name =
     (if name = ''latency'' then Inr latency_scenario
      else if name = ''throughput-memory'' then Inr throughput_memory_scenario
      else if name = ''forked-parameter'' then Inr forked_parameter_scenario
      else if name = ''insufficient'' then Inr insufficient_scenario
      else if name = ''invalid-evidence'' then Inr invalid_evidence_scenario
      else if name = ''authority'' then Inr authority_scenario
      else if name = ''retry'' then Inr retry_scenario
      else Inl (''unknown scenario: '' @ name))"

section \<open>Workloads\<close>

definition d_ratio :: "int \<Rightarrow> int \<Rightarrow> double" where
  "d_ratio num den = d_round False (num * 2 ^ 1074) den"

definition jitter :: "u64 option \<Rightarrow> double \<Rightarrow> double" where
  "jitter seed spread =
     (let v = fst (next_u64 (rng_init (case seed of None \<Rightarrow> 0 | Some s \<Rightarrow> s)));
          unit_value = d_div (d_of_int (uint (v mod 1000000))) (d_of_int 1000000)
      in d_mul (d_sub (d_mul unit_value d_two) d_one) spread)"

definition parameter_as_real :: "worker_task_context \<Rightarrow> string \<Rightarrow> double \<Rightarrow> double" where
  "parameter_as_real x key fallback =
     (case context_parameter x key of
        None \<Rightarrow> fallback
      | Some text_value \<Rightarrow> (case stod text_value of None \<Rightarrow> fallback | Some v \<Rightarrow> v))"

definition parameter_as_bool :: "worker_task_context \<Rightarrow> string \<Rightarrow> bool" where
  "parameter_as_bool x key =
     (case context_parameter x key of None \<Rightarrow> False | Some v \<Rightarrow> v = ''true'' \<or> v = ''1'')"

definition busy_work :: "u64 \<Rightarrow> nat \<Rightarrow> u64" where
  "busy_work seed rounds =
     (let digest = (digest_of ^^ rounds) (digest_of (update_u64 seed))
      in foldl (\<lambda>v b. push_bit 8 v OR ucast b) 0 (take 8 digest))"

definition busy_rounds :: nat where
  "busy_rounds = 6000000"

definition trial_outcome_init :: trial_outcome where
  "trial_outcome_init =
     \<lparr>to_succeeded = False, to_failure_kind = FK_EXECUTION_FAILURE, to_failure_detail = [], to_retryable = False,
      to_observations = [], to_artifacts = [], to_result_payload = []\<rparr>"

definition workload_observation :: "trial_assignment \<Rightarrow> worker_task_context \<Rightarrow> assigned_metric \<Rightarrow> named_observation" where
  "workload_observation a x metric =
     (let trial = ae_trial (ta_envelope a);
          trial_seed = (if valid trial then Some (id_value trial * 2654435761) else None);
          base = parameter_as_real x (am_name metric) (d_of_int 100);
          jittered = d_mul base (d_add d_one (jitter trial_seed (d_ratio 2 100)));
          invalid = parameter_as_bool x (am_name metric @ ''_invalid'')
      in \<lparr>no_metric = am_name metric, no_validity = (if invalid then OV_INVALID else OV_VALID),
          no_value = \<lparr>mv_kind = am_kind metric, mv_real = jittered, mv_integer = 0, mv_boolean = False, mv_category = []\<rparr>,
          no_detail = (if invalid then lit ''synthetic workload produced an invalid observation by configuration'' else [])\<rparr>)"

text \<open>The loop over the metrics; the partial workload emits one required metric only.\<close>

fun emitted_metrics :: "bool \<Rightarrow> nat \<Rightarrow> assigned_metric list \<Rightarrow> assigned_metric list" where
  "emitted_metrics partial_load emitted [] = []"
| "emitted_metrics partial_load emitted (metric # rest) =
     (if partial_load \<and> (\<not> am_required metric \<or> emitted \<ge> 1) then emitted_metrics partial_load emitted rest
      else metric # emitted_metrics partial_load (emitted + 1) rest)"

definition run_workload :: "string \<Rightarrow> task_function" where
  "run_workload name a x =
     (if name = ''fail-once'' \<and> id_value (tc_attempt x) \<le> 1 then
        trial_outcome_init\<lparr>to_failure_detail := lit ''synthetic transient execution failure on attempt 1'', to_retryable := True\<rparr>
      else if name = ''parameter-slow'' \<and>
          busy_work (id_value (ae_trial (ta_envelope a)) XOR id_value (tc_boot x)) busy_rounds = 0 then
        trial_outcome_init\<lparr>to_failure_detail := lit ''unreachable synthetic guard''\<rparr>
      else trial_outcome_init\<lparr>to_succeeded := True,
        to_observations := map (workload_observation a x) (emitted_metrics (name = ''partial'') 0 (ta_metrics a)),
        to_result_payload := ''trial='' @ id_to_string (ae_trial (ta_envelope a)) @
          '' attempt='' @ id_to_string (ae_attempt (ta_envelope a))\<rparr>)"

section \<open>Driving a coordinator in the same process\<close>

fun create_trials :: "nat \<Rightarrow> experiment_id \<Rightarrow> branch_id \<Rightarrow> string \<Rightarrow> impl \<Rightarrow> status \<times> impl" where
  "create_trials 0 experiment b payload im = (success, im)"
| "create_trials (Suc n) experiment b payload im =
     (case create_trial experiment b payload im of
        (Inl e, im1) \<Rightarrow> (e, im1)
      | (Inr i, im1) \<Rightarrow> create_trials n experiment b payload im1)"

fun create_branch_trials :: "branch_definition list \<Rightarrow> experiment_id \<Rightarrow> string \<Rightarrow> impl \<Rightarrow> status \<times> impl" where
  "create_branch_trials [] experiment payload im = (success, im)"
| "create_branch_trials (b # bs) experiment payload im =
     (if \<not> is_branch_eligible (bd_state b) then create_branch_trials bs experiment payload im
      else case create_trials (unat (bd_planned_trials b)) experiment (bd_id b) payload im of
          (s, im1) \<Rightarrow> if \<not> st_ok s then (s, im1) else create_branch_trials bs experiment payload im1)"

definition create_planned_trials :: "experiment_id \<Rightarrow> string \<Rightarrow> impl \<Rightarrow> status \<times> impl" where
  "create_planned_trials experiment payload im =
     (case snapshot im experiment of
        Inl e \<Rightarrow> (e, im)
      | Inr view \<Rightarrow> create_branch_trials (ed_branches (es_definition view)) experiment payload im)"

record session =
  sn_worker :: worker_id
  sn_boot :: worker_boot_id
  sn_producer :: producer_id
  sn_epoch :: coordinator_epoch

definition join_request :: "u64 \<Rightarrow> u64 \<Rightarrow> register_worker_request" where
  "join_request ident boot =
     \<lparr>rq_claimed_epoch = null_id, rq_worker = from_value ident,
      rq_boot = from_value (if boot = 0 then 0x5E55100000000000 OR ident else boot), rq_producer = null_id,
      rq_endpoint = ''example-session-'' @ u64_text ident, rq_max_concurrent_assignments = 32,
      rq_fingerprint = lit ''reference-example-worker''\<rparr>"

definition join :: "u64 \<Rightarrow> u64 \<Rightarrow> impl \<Rightarrow> session result \<times> impl" where
  "join ident boot im =
     (case register_worker (join_request ident boot) im of (r, im1) \<Rightarrow>
        (if st_failed (rr_status r) then Inl (rr_status r)
         else Inr \<lparr>sn_worker = from_value ident, sn_boot = rr_boot r, sn_producer = rr_producer r, sn_epoch = rr_epoch r\<rparr>,
         im1))"

definition session_claim :: "session \<Rightarrow> u32 \<Rightarrow> claim_trial_request" where
  "session_claim sn max_claims =
     \<lparr>ct_epoch = sn_epoch sn, ct_worker = sn_worker sn, ct_boot = sn_boot sn, ct_max_claims = max_claims\<rparr>"

definition claim :: "session \<Rightarrow> u32 \<Rightarrow> impl \<Rightarrow> trial_assignment result \<times> impl" where
  "claim sn max_claims im =
     (case claim_trials (session_claim sn max_claims) im of (r, im1) \<Rightarrow>
        (if st_failed (cl_status r) then Inl (cl_status r)
         else case cl_assignments r of [] \<Rightarrow> Inl no_work | a # as \<Rightarrow> Inr a, im1))"

text \<open>
  \<^verbatim>\<open>static_cast<std::int64_t>\<close> of a double cuts its fraction off; what it gives for a value outside the
  range of the type is undefined, and an argument here.
\<close>

definition d_to_i64 :: "u64 \<Rightarrow> double \<Rightarrow> u64" where
  "d_to_i64 unspecified d =
     (let n = d_mag d div 2 ^ 1074; v = (if d_sign d then - n else n)
      in if isnan d \<or> isinf d \<or> v < - (2 ^ 63) \<or> v \<ge> 2 ^ 63 then unspecified else word_of_int v)"

definition session_observation ::
    "u64 \<Rightarrow> session \<Rightarrow> trial_assignment \<Rightarrow> assigned_metric \<Rightarrow> double \<Rightarrow> observation_validity \<Rightarrow> publish_observation_request" where
  "session_observation unspecified sn a metric v validity =
     (let e = ta_envelope a
      in \<lparr>po_epoch = sn_epoch sn, po_worker = sn_worker sn, po_boot = sn_boot sn,
          po_observation =
            \<lparr>ob_id = am_observation_id metric, ob_experiment = ae_experiment e, ob_generation = ae_generation e,
             ob_branch = ae_branch e, ob_branch_generation = ae_branch_generation e, ob_trial = ae_trial e,
             ob_attempt = ae_attempt e, ob_metric = am_metric metric, ob_producer = sn_producer sn,
             ob_worker = sn_worker sn, ob_boot = sn_boot sn, ob_epoch = sn_epoch sn, ob_validity = validity,
             ob_value = \<lparr>mv_kind = am_kind metric, mv_real = v, mv_integer = d_to_i64 unspecified v,
               mv_boolean = d_ne v d_zero, mv_category = []\<rparr>,
             ob_detail = [], ob_sequence = 0\<rparr>\<rparr>)"

definition publish ::
    "u64 \<Rightarrow> session \<Rightarrow> trial_assignment \<Rightarrow> string \<Rightarrow> double \<Rightarrow> observation_validity \<Rightarrow> impl \<Rightarrow> status \<times> impl" where
  "publish unspecified sn a metric v validity im =
     (case find_last (\<lambda>candidate. am_name candidate = metric) (ta_metrics a) of
        None \<Rightarrow> (make_error EC_NOT_FOUND EG_OBSERVATION (lit ''the requested metric was not reserved for this assignment''), im)
      | Some reservation \<Rightarrow> publish_observation (session_observation unspecified sn a reservation v validity) im)"

definition session_commit :: "session \<Rightarrow> trial_assignment \<Rightarrow> commit_trial_request" where
  "session_commit sn a =
     \<lparr>cm_epoch = sn_epoch sn, cm_worker = sn_worker sn, cm_boot = sn_boot sn, cm_envelope = ta_envelope a,
      cm_artifacts = [], cm_result_payload = lit ''reference-example''\<rparr>"

definition commit :: "session \<Rightarrow> trial_assignment \<Rightarrow> impl \<Rightarrow> status \<times> impl" where
  "commit sn a im = commit_trial (session_commit sn a) im"

definition complete_one :: "u64 \<Rightarrow> session \<Rightarrow> string \<Rightarrow> double \<Rightarrow> observation_validity \<Rightarrow> impl \<Rightarrow> status \<times> impl" where
  "complete_one unspecified sn metric v validity im =
     (case claim sn 1 im of
        (Inl e, im1) \<Rightarrow> (e, im1)
      | (Inr a, im1) \<Rightarrow>
          (case publish unspecified sn a metric v validity im1 of
             (published, im2) \<Rightarrow> if \<not> st_ok published then (published, im2) else commit sn a im2))"

section \<open>The helpers only call operations\<close>

definition driven :: "impl \<Rightarrow> impl \<Rightarrow> bool" where
  "driven im im' \<longleftrightarrow> (\<exists>ops. im' = run ops im)"

lemma driven_refl: "driven im im"
  unfolding driven_def by (metis run.simps(1))

lemma driven_trans: "driven im im1 \<Longrightarrow> driven im1 im2 \<Longrightarrow> driven im im2"
  unfolding driven_def by (metis run_append)

lemma driven_perform: "driven im (perform op im)"
  unfolding driven_def by (metis run.simps)

lemma driven_operations:
  "driven im (snd (create_trial e b payload im))" "driven im (snd (register_worker q im))"
  "driven im (snd (claim_trials c im))" "driven im (snd (publish_observation o' im))" "driven im (snd (commit_trial m im))"
  using driven_perform [of im "CreateTrial e b payload"] driven_perform [of im "RegisterWorker q"]
    driven_perform [of im "ClaimTrials c"] driven_perform [of im "PublishObservation o'"] driven_perform [of im "CommitTrial m"]
  by simp_all

lemma driven_create_trials: "driven im (snd (create_trials n e b payload im))"
proof (induction n arbitrary: im)
  case (Suc n)
  obtain r im1 where r: "create_trial e b payload im = (r, im1)" by fastforce
  then have "driven im im1" using driven_operations(1) [of im e b payload] by simp
  then show ?case using r Suc.IH [of im1] driven_trans by (cases r) auto
qed (simp add: driven_refl)

lemma driven_create_branch_trials: "driven im (snd (create_branch_trials bs e payload im))"
proof (induction bs arbitrary: im)
  case (Cons b bs)
  let ?r = "create_trials (unat (bd_planned_trials b)) e (bd_id b) payload im"
  have "driven im (snd ?r)" by (rule driven_create_trials)
  then show ?case using Cons.IH [of im] Cons.IH [of "snd ?r"] driven_trans by (auto simp: case_prod_beta)
qed (simp add: driven_refl)

lemma driven_helpers:
  "driven im (snd (create_planned_trials e payload im))" "driven im (snd (join ident boot im))"
  "driven im (snd (claim sn n im))" "driven im (snd (publish u sn a metric v validity im))" "driven im (snd (commit sn a im))"
  by (simp_all add: create_planned_trials_def join_def claim_def publish_def commit_def case_prod_beta
      driven_operations driven_refl driven_create_branch_trials split: sum.split option.split)

lemma driven_complete_one: "driven im (snd (complete_one u sn metric v validity im))"
proof -
  obtain r im1 where r: "claim sn 1 im = (r, im1)" by fastforce
  have c: "driven im im1" using driven_helpers(3) [of im sn 1] r by simp
  show ?thesis
  proof (cases r)
    case (Inr a)
    let ?p = "publish u sn a metric v validity im1"
    have "driven im (snd ?p)" using c driven_helpers(4) driven_trans by blast
    then show ?thesis
      using r Inr driven_trans [OF _ driven_helpers(5)] by (auto simp: complete_one_def case_prod_beta)
  qed (use r c in \<open>simp add: complete_one_def\<close>)
qed

text \<open>
  Completing a trial through the helpers publishes under the identity that was reserved for the
  metric, in the name of the worker and of the attempt that the coordinator issued.
\<close>

lemma session_observation_reserved:
  assumes "find_last (\<lambda>c. am_name c = metric) (ta_metrics a) = Some m"
  shows "publish u sn a metric v validity im = publish_observation (session_observation u sn a m v validity) im \<and>
    m \<in> set (ta_metrics a) \<and> am_name m = metric"
  using assms find_last_SomeD [OF assms] by (simp add: publish_def)

end
