(* ===== verification/Control.thy ===== *)
theory Control
  imports Worker NumberText
begin

text \<open>
  \<^verbatim>\<open>apps/ef_ctl.cpp\<close>: the control client. A command line is read into options and a command, the command
  makes one call of the client, or replays a log of frames, and what it prints and its exit code are
  the result. \<open>None\<close> is a program that is still blocked in a call.
\<close>

section \<open>Output\<close>

record program_output =
  po_code :: int
  po_out :: "string list"
  po_err :: "string list"

definition ended :: "int \<Rightarrow> string list \<Rightarrow> string list \<Rightarrow> program_output" where
  "ended code out err = \<lparr>po_code = code, po_out = out, po_err = err\<rparr>"

definition print_lines :: "string list result \<Rightarrow> program_output" where
  "print_lines lines =
     (case lines of
        Inl e \<Rightarrow> ended 5 [] [''query failed: '' @ status_to_string e]
      | Inr ls \<Rightarrow> ended 0 ls [])"

definition print_status :: "string \<Rightarrow> status \<Rightarrow> program_output" where
  "print_status word s = (if st_ok s then ended 0 [word] [] else ended 5 [status_to_string s] [])"

section \<open>Replaying a log of frames\<close>

text \<open>
  The outcome that a reply carries inside it, when it carries one. The classifier reads it for
  errors, registrations, claims and acknowledgements.
\<close>

definition embedded_status :: "frame \<Rightarrow> status option" where
  "embedded_status reply =
     (case fr_type reply of
        MT_ERROR_REPLY \<Rightarrow>
          (case decode_error_reply (fr_payload reply) limits_defaults of
             Inr r \<Rightarrow> Some (ey_status r)
           | Inl e \<Rightarrow> Some (make_error EC_PROTOCOL_ERROR EG_TRANSPORT (lit ''malformed error reply'')))
      | MT_REGISTER_ACK \<Rightarrow>
          (case decode_register_reply (fr_payload reply) limits_defaults of Inr r \<Rightarrow> Some (rr_status r) | Inl e \<Rightarrow> None)
      | MT_CLAIM_RESULT \<Rightarrow>
          (case decode_claim_reply (fr_payload reply) limits_defaults of Inr r \<Rightarrow> Some (cl_status r) | Inl e \<Rightarrow> None)
      | MT_ACK \<Rightarrow>
          (case decode_ack (fr_payload reply) limits_defaults of Inr s \<Rightarrow> Some s | Inl e \<Rightarrow> None)
      | _ \<Rightarrow> None)"

definition refused_reply :: "frame \<Rightarrow> bool" where
  "refused_reply reply = (case embedded_status reply of None \<Rightarrow> False | Some s \<Rightarrow> st_failed s)"

definition replay_line :: "u32 \<Rightarrow> frame \<Rightarrow> frame \<Rightarrow> string" where
  "replay_line index f reply =
     ''replayed-frame '' @ u32_text index @ '' type='' @ message_type_to_string (fr_type f) @
     (case embedded_status reply of
        None \<Rightarrow> '' accepted reply-type='' @ message_type_to_string (fr_type reply) @ '' embedded-status=none''
      | Some s \<Rightarrow>
          if st_failed s
            then '' rejected='' @ error_code_to_string (st_code s) @ '' detail='' @ st_reason s
          else '' accepted reply-type='' @ message_type_to_string (fr_type reply) @
            '' embedded-status='' @ error_code_to_string (st_code s))"

definition entry_bound :: nat where
  "entry_bound = unat (lm_max_frame_payload_bytes limits_defaults + of_nat kFrameHeaderBytes)"

definition replay_failed :: "u32 \<Rightarrow> string \<Rightarrow> string list \<Rightarrow> program_output" where
  "replay_failed index reason out = ended 4 out [''frame log entry '' @ u32_text index @ reason]"

text \<open>Each entry is the length of a frame and its bytes; a cut length ends the log.\<close>

function replay_loop :: "u8 list \<Rightarrow> u32 \<Rightarrow> u32 \<Rightarrow> string list \<Rightarrow> client \<Rightarrow> (program_output \<times> client) option" where
  "replay_loop log index rejected out c =
     (if length log < 8
        then Some (ended 0 (out @ [''replayed-total '' @ u32_text index @ '' rejected '' @ u32_text rejected]) [], c)
      else
        let n = unat (load_le 8 log :: u64); rest = drop 8 log
        in if n = 0 \<or> n > entry_bound then Some (replay_failed index '' declares an impossible length'' out, c)
           else if length rest < n then Some (replay_failed index '' is truncated'' out, c)
           else
             let bytes = take n rest; decoded_frame = decode_frame bytes limits_defaults
             in if \<not> st_ok (fo_status decoded_frame)
                  then Some (replay_failed index ('' is not a valid frame: '' @ status_to_string (fo_status decoded_frame)) out, c)
                else
                  let index' = index + 1; f = fo_frame decoded_frame
                  in case send_raw_and_receive bytes c of
                       None \<Rightarrow> None
                     | Some (Inl e, c') \<Rightarrow>
                         replay_loop (drop n rest) index' (rejected + 1)
                           (out @ [''replayed-frame '' @ u32_text index' @ '' type='' @ message_type_to_string (fr_type f) @
                              '' transport-error='' @ status_to_string e]) c'
                     | Some (Inr reply, c') \<Rightarrow>
                         replay_loop (drop n rest) index' (if refused_reply reply then rejected + 1 else rejected)
                           (out @ [replay_line index' f reply]) c')"
  by pat_completeness auto
termination
  by (relation "measure (\<lambda>(log, index, rejected, out, c). length log)") auto

declare replay_loop.simps [simp del]

text \<open>\<open>file\<close>: the bytes of the log, when it can be opened.\<close>

definition replay_frames :: "u8 list option \<Rightarrow> string \<Rightarrow> client \<Rightarrow> (program_output \<times> client) option" where
  "replay_frames file path c =
     (case file of
        None \<Rightarrow> Some (ended 4 [] [''cannot open frame log: '' @ path], c)
      | Some log \<Rightarrow> replay_loop log 0 0 [] c)"

section \<open>Commands\<close>

definition finished :: "('r \<Rightarrow> program_output) \<Rightarrow> ('r \<times> client) option \<Rightarrow> (program_output \<times> client) option" where
  "finished render outcome = map_option (\<lambda>(r, c). (render r, c)) outcome"

definition lacks_argument :: "string \<Rightarrow> program_output" where
  "lacks_argument command = ended 2 [] [''command '' @ command @ '' requires an argument'']"

definition parse_two :: "string \<Rightarrow> string \<Rightarrow> ('a strong_id \<times> 'b strong_id) option" where
  "parse_two x y = (case (id_parse x, id_parse y) of (Some a, Some b) \<Rightarrow> Some (a, b) | _ \<Rightarrow> None)"

definition simple_query :: "string \<Rightarrow> query_kind option" where
  "simple_query command =
     (if command = ''status'' then Some QK_STATUS
      else if command = ''list'' then Some QK_LIST_EXPERIMENTS
      else if command = ''workers'' then Some QK_WORKERS
      else if command = ''validate'' then Some QK_VALIDATE_STATE
      else None)"

definition experiment_query :: "string \<Rightarrow> query_kind option" where
  "experiment_query command =
     (if command = ''snapshot'' \<or> command = ''branches'' then Some QK_EXPERIMENT_SNAPSHOT
      else if command = ''hypothesis'' then Some QK_HYPOTHESIS
      else if command = ''lineage'' then Some QK_BRANCH_LINEAGE
      else if command = ''trials'' then Some QK_TRIALS
      else if command = ''observations'' then Some QK_OBSERVATIONS
      else if command = ''rejected'' then Some QK_REJECTED_EVIDENCE
      else if command = ''artifacts'' then Some QK_ARTIFACTS
      else None)"

definition ask_experiment :: "query_kind \<Rightarrow> string \<Rightarrow> client \<Rightarrow> (program_output \<times> client) option" where
  "ask_experiment kind argument c =
     (case (id_parse argument :: experiment_id option) of
        None \<Rightarrow> Some (ended 2 [] [''experiment identity must be canonical decimal text''], c)
      | Some experiment \<Rightarrow> finished print_lines (client_query kind (id_to_string experiment) c))"

definition finalize_command :: "string \<Rightarrow> string \<Rightarrow> string list \<Rightarrow> client \<Rightarrow> (program_output \<times> client) option" where
  "finalize_command e_text b_text rest c =
     (case parse_two e_text b_text of
        None \<Rightarrow> Some (ended 2 [] [''finalize requires canonical decimal identities''], c)
      | Some (experiment, b) \<Rightarrow>
          finished (\<lambda>r. case r of
              Inl e \<Rightarrow> ended 5 [] [''finalize failed: '' @ status_to_string e]
            | Inr d \<Rightarrow> ended 0 (render_decision d limits_defaults) [])
            (client_finalize_experiment
               \<lparr>fe_experiment = experiment, fe_candidate = b, fe_reason = (case rest of [] \<Rightarrow> [] | r # rs \<Rightarrow> r)\<rparr> c))"

text \<open>What is printed of a reply that carries a number; the two commands differ in their words.\<close>

definition print_value :: "limits \<Rightarrow> string \<Rightarrow> string \<Rightarrow> (value_reply result \<Rightarrow> string) \<Rightarrow> frame result \<Rightarrow> program_output" where
  "print_value l command word refusal outcome =
     (case outcome of
        Inl e \<Rightarrow> ended 5 [] [command @ '' failed: '' @ status_to_string e]
      | Inr reply \<Rightarrow>
          (case decode_value_reply (fr_payload reply) l of
             Inl e \<Rightarrow> ended 5 [] [refusal (Inl e)]
           | Inr v \<Rightarrow>
               if st_failed (vr_status v) then ended 5 [] [refusal (Inr v)]
               else ended 0 [word @ u64_text (vr_value v)] []))"

definition create_trial_command :: "string \<Rightarrow> string \<Rightarrow> string list \<Rightarrow> client \<Rightarrow> (program_output \<times> client) option" where
  "create_trial_command e_text b_text rest c =
     (case parse_two e_text b_text of
        None \<Rightarrow> Some (ended 2 [] [''create-trial requires canonical decimal identities''], c)
      | Some (experiment, b) \<Rightarrow>
          finished (print_value (ci_limits c) ''create-trial'' ''trial '' (\<lambda>r. ''create-trial rejected''))
            (request MT_CREATE_TRIAL
               (encode_create_trial
                  \<lparr>cq_experiment = experiment, cq_branch = b, cq_payload = (case rest of [] \<Rightarrow> [] | r # rs \<Rightarrow> r)\<rparr>) c))"

definition fork_command :: "string \<Rightarrow> string \<Rightarrow> string \<Rightarrow> client \<Rightarrow> (program_output \<times> client) option" where
  "fork_command e_text p_text name c =
     (case parse_two e_text p_text of
        None \<Rightarrow> Some (ended 2 [] [''fork requires canonical decimal identities''], c)
      | Some (experiment, parent) \<Rightarrow>
          finished (print_value (ci_limits c) ''fork'' ''branch ''
              (\<lambda>r. ''fork rejected: '' @ (case r of Inl e \<Rightarrow> ''protocol'' | Inr v \<Rightarrow> status_to_string (vr_status v))))
            (request MT_FORK_BRANCH
               (encode_fork_branch
                  \<lparr>fb_experiment = experiment, fb_parent = parent, fb_name = name, fb_role = BR_CANDIDATE,
                   fb_parameters = [], fb_seed = None, fb_planned_trials = 1\<rparr>) c))"

definition reason_or :: "string \<Rightarrow> string list \<Rightarrow> string" where
  "reason_or fallback rest = (case rest of [] \<Rightarrow> fallback | r # rs \<Rightarrow> r)"

definition cancel_trial_command :: "string \<Rightarrow> string list \<Rightarrow> client \<Rightarrow> (program_output \<times> client) option" where
  "cancel_trial_command argument rest c =
     (case id_parse argument of
        None \<Rightarrow> Some (ended 2 [] [''trial identity must be canonical decimal text''], c)
      | Some trial \<Rightarrow>
          finished (print_status ''cancelled'')
            (client_cancel_trial \<lparr>xt_trial = trial, xt_reason = reason_or ''operator cancellation'' rest\<rparr> c))"

definition cancel_experiment_command :: "string \<Rightarrow> string list \<Rightarrow> client \<Rightarrow> (program_output \<times> client) option" where
  "cancel_experiment_command argument rest c =
     (case id_parse argument of
        None \<Rightarrow> Some (ended 2 [] [''experiment identity must be canonical decimal text''], c)
      | Some experiment \<Rightarrow>
          finished (print_status ''cancelled'')
            (client_cancel_experiment \<lparr>xe_experiment = experiment, xe_reason = reason_or ''operator cancellation'' rest\<rparr> c))"

definition rollback_command :: "string \<Rightarrow> string \<Rightarrow> string list \<Rightarrow> client \<Rightarrow> (program_output \<times> client) option" where
  "rollback_command e_text g_text rest c =
     (case parse_two e_text g_text of
        None \<Rightarrow> Some (ended 2 [] [''rollback requires canonical decimal identities''], c)
      | Some (experiment, generation) \<Rightarrow>
          finished (print_status ''rolled-back'')
            (client_rollback \<lparr>rk_experiment = experiment, rk_target_generation = generation,
               rk_reason = reason_or ''operator rollback'' rest\<rparr> c))"

definition print_usage :: "string list" where
  "print_usage =
     [''ef_ctl '' @ version_string @ '' '' @ map char_of [0xE2 :: nat, 0x80, 0x94] @ '' deterministic inspection and control client'',
      ''usage: ef_ctl --host <address> --port <n> <command> [arguments]'',
      ''commands:'',
      ''  status                                  coordinator status lines'',
      ''  list                                    list experiments'',
      ''  workers                                 list live worker incarnations'',
      ''  validate                                validate the durable state image'',
      ''  snapshot <experiment>                   full deterministic snapshot'',
      ''  hypothesis <experiment>                 hypothesis and revision history'',
      ''  branches <experiment>                   branch definitions'',
      ''  lineage <experiment>                    branch lineage tree'',
      ''  trials <experiment>                     trials and attempt history'',
      ''  observations <experiment>               metric observations'',
      ''  rejected <experiment>                   stale, invalid and rejected evidence'',
      ''  artifacts <experiment>                  artifact references'',
      ''  repro <experiment>:<branch>             reproducibility record'',
      ''  explain <experiment>:<branch>           comparison explanation'',
      ''  finalize <experiment> <branch> [reason] commit an authoritative decision'',
      ''  create-trial <experiment> <branch>      create one logical trial'',
      ''  fork <experiment> <parent> <name>       fork a branch'',
      ''  cancel-trial <trial> [reason]           cancel a logical trial'',
      ''  cancel-experiment <experiment> [reason] cancel an experiment'',
      ''  rollback <experiment> <generation>      roll back to an authoritative generation'',
      ''  replay <frames-file>                    replay preserved frames and report each reply'',
      ''  shutdown                                request an orderly coordinator stop'']"

text \<open>\<open>files\<close> gives the bytes of the files that can be opened.\<close>

definition ctl_command ::
    "(string \<Rightarrow> u8 list option) \<Rightarrow> string \<Rightarrow> string list \<Rightarrow> client \<Rightarrow> (program_output \<times> client) option" where
  "ctl_command files command arguments c =
     (case simple_query command of
        Some kind \<Rightarrow> finished print_lines (client_query kind [] c)
      | None \<Rightarrow>
      case experiment_query command of
        Some kind \<Rightarrow>
          (case arguments of [] \<Rightarrow> Some (lacks_argument command, c) | x # rest \<Rightarrow> ask_experiment kind x c)
      | None \<Rightarrow>
          if command = ''repro'' \<or> command = ''explain'' then
            (case arguments of
               [] \<Rightarrow> Some (lacks_argument command, c)
             | x # rest \<Rightarrow> finished print_lines
                 (client_query (if command = ''repro'' then QK_REPRODUCIBILITY else QK_EXPLAIN_DECISION) x c))
          else if command = ''finalize'' then
            (case arguments of x # y # rest \<Rightarrow> finalize_command x y rest c | _ \<Rightarrow> Some (lacks_argument command, c))
          else if command = ''create-trial'' then
            (case arguments of x # y # rest \<Rightarrow> create_trial_command x y rest c | _ \<Rightarrow> Some (lacks_argument command, c))
          else if command = ''fork'' then
            (case arguments of x # y # z # rest \<Rightarrow> fork_command x y z c | _ \<Rightarrow> Some (lacks_argument command, c))
          else if command = ''cancel-trial'' then
            (case arguments of x # rest \<Rightarrow> cancel_trial_command x rest c | [] \<Rightarrow> Some (lacks_argument command, c))
          else if command = ''cancel-experiment'' then
            (case arguments of x # rest \<Rightarrow> cancel_experiment_command x rest c | [] \<Rightarrow> Some (lacks_argument command, c))
          else if command = ''rollback'' then
            (case arguments of x # y # rest \<Rightarrow> rollback_command x y rest c | _ \<Rightarrow> Some (lacks_argument command, c))
          else if command = ''replay'' then
            (case arguments of x # rest \<Rightarrow> replay_frames (files x) x c | [] \<Rightarrow> Some (lacks_argument command, c))
          else if command = ''shutdown'' then finished (print_status ''shutdown-requested'') (client_shutdown c)
          else Some (ended 2 print_usage [''unknown command: '' @ command], c))"

section \<open>The command line\<close>

datatype ctl_options = ShowsHelp | LacksValue | Throws | Options string u16 "string list"

fun ctl_scan :: "string list \<Rightarrow> string \<Rightarrow> u16 \<Rightarrow> ctl_options" where
  "ctl_scan [] host p = Options host p []"
| "ctl_scan (argument # rest) host p =
     (if argument = ''--help'' \<or> argument = ''-h'' then ShowsHelp
      else if argument = ''--host'' then (case rest of [] \<Rightarrow> LacksValue | v # rest' \<Rightarrow> ctl_scan rest' v p)
      else if argument = ''--port'' then
        (case rest of
           [] \<Rightarrow> LacksValue
         | v # rest' \<Rightarrow> (case stoull v of None \<Rightarrow> Throws | Some n \<Rightarrow> ctl_scan rest' host (ucast n)))
      else Options host p (argument # rest))"

text \<open>
  \<open>dial\<close> is what connecting to a host and port gives; the text of the exception of \<^verbatim>\<open>std::stoul\<close> is the
  one of the GNU library.
\<close>

definition ctl_main ::
    "(string \<Rightarrow> u16 \<Rightarrow> connection result) \<Rightarrow> (string \<Rightarrow> u8 list option) \<Rightarrow> string list \<Rightarrow> program_output option" where
  "ctl_main dial files arguments =
     (case ctl_scan arguments ''127.0.0.1'' 0 of
        ShowsHelp \<Rightarrow> Some (ended 0 print_usage [])
      | LacksValue \<Rightarrow> Some (ended 2 [] [])
      | Throws \<Rightarrow> Some (ended 4 [] [''fatal: stoul''])
      | Options host p [] \<Rightarrow> Some (ended 2 print_usage [])
      | Options host p (command # rest) \<Rightarrow>
          (case client_connect limits_defaults False (dial host p) of
             Inl e \<Rightarrow> Some (ended 3 [] [''cannot connect: '' @ status_to_string e])
           | Inr c \<Rightarrow> map_option fst (ctl_command files command rest c)))"

section \<open>What a replay does\<close>

text \<open>The lines that a replay prints for the frames of a log and the replies to them.\<close>

fun replay_report :: "u32 \<Rightarrow> u32 \<Rightarrow> frame list \<Rightarrow> frame list \<Rightarrow> string list" where
  "replay_report index rejected (f # fs) (reply # rs) =
     replay_line (index + 1) f reply #
       replay_report (index + 1) (if refused_reply reply then rejected + 1 else rejected) fs rs"
| "replay_report index rejected _ _ = [''replayed-total '' @ u32_text index @ '' rejected '' @ u32_text rejected]"

definition log_entry :: "frame \<Rightarrow> u8 list" where
  "log_entry f =
     (let bytes = encode_frame_header f (fr_payload f) limits_defaults @ fr_payload f
      in store_le 8 (of_nat (length bytes) :: u64) @ bytes)"

lemma fold_record_frame: "fold record_frame bs log = log @ concat (map (\<lambda>b. store_le 8 (of_nat (length b) :: u64) @ b) bs)"
  by (induction bs arbitrary: log) (simp_all add: record_frame_def)

lemma entry_bound_eq: "entry_bound = unat (lm_max_frame_payload_bytes limits_defaults) + kFrameHeaderBytes"
  by (simp add: entry_bound_def limits_defaults_def kFrameHeaderBytes_def)

lemma replay_step:
  assumes "0 < length bytes" and "length bytes \<le> entry_bound"
    and "decode_frame bytes limits_defaults = \<lparr>fo_status = success, fo_consumed = length bytes, fo_frame = f\<rparr>"
    and "send_raw_and_receive bytes c = Some (Inr reply, c')"
  shows "replay_loop (store_le 8 (of_nat (length bytes) :: u64) @ bytes @ log) index rejected out c =
     replay_loop log (index + 1) (if refused_reply reply then rejected + 1 else rejected)
       (out @ [replay_line (index + 1) f reply]) c'"
proof -
  have "length bytes < 2 ^ 64"
    using assms(2) unat_lt_32 [of "lm_max_frame_payload_bytes limits_defaults"] by (simp add: entry_bound_eq kFrameHeaderBytes_def)
  then have "unat (of_nat (length bytes) :: u64) = length bytes" by (simp add: unat_of_nat)
  then show ?thesis using assms by (subst replay_loop.simps) (simp add: load_store_le Let_def)
qed

lemma replay_entries:
  assumes "talks c fs im" and "ci_limits c = limits_defaults"
  shows "\<exists>c'. replay_loop (concat (map log_entry fs)) index rejected out c =
     Some (ended 0 (out @ replay_report index rejected fs (replies limits_defaults fs im)) [], c')"
  using assms
proof (induction fs arbitrary: c im index rejected out)
  case Nil
  then show ?case by (subst replay_loop.simps) simp
next
  case (Cons f fs)
  let ?bytes = "encode_frame_header f (fr_payload f) limits_defaults @ fr_payload f"
  let ?reply = "fst (dispatch limits_defaults f im)"
  have f: "frame_ok limits_defaults f" using Cons.prems by (simp add: talks_def)
  then have enc: "encode_frame f limits_defaults = Inr ?bytes" by (simp add: encode_frame_ok)
  obtain c' where sent: "send_raw_and_receive ?bytes c = Some (Inr ?reply, c')"
    and c': "ci_limits c' = limits_defaults" "talks c' fs (snd (dispatch limits_defaults f im))"
    using raw_talks [OF Cons.prems(1)] Cons.prems(2) by metis
  have "0 < length ?bytes" "length ?bytes \<le> entry_bound"
    using f by (simp_all add: entry_bound_eq frame_ok_def kFrameHeaderBytes_def)
  note step = replay_step [OF this decode_encoded [OF enc, of "[]", simplified append_Nil2] sent]
  have "concat (map log_entry (f # fs)) = store_le 8 (of_nat (length ?bytes) :: u64) @ ?bytes @ concat (map log_entry fs)"
    by (simp only: log_entry_def list.map concat.simps Let_def append_assoc)
  with step Cons.IH [OF c'(2,1), of "index + 1" "if refused_reply ?reply then rejected + 1 else rejected"
      "out @ [replay_line (index + 1) f ?reply]"]
  show ?case by simp
qed

end
