(* ===== verification/Programs.thy ===== *)
theory Programs
  imports Catalogue Control
begin

text \<open>
  The main functions of \<^verbatim>\<open>apps/ef_coordinator.cpp\<close> and \<^verbatim>\<open>apps/ef_worker.cpp\<close>. The coordinator program is
  shown to be a start followed by calls of the coordinator's interface; the claim loop of the worker
  program is shown to return when a number of cycles is configured. The exit code and the lines
  are a \<open>program_output\<close>; the text of an exception of \<^verbatim>\<open>std::stoul\<close> is the one of the GNU library.
\<close>

section \<open>Scanning arguments\<close>

datatype 'o scanned = Stops program_output | Starts 'o

text \<open>What the value of an option does to the options; on the left the text of an exception.\<close>

type_synonym 'o setting = "string \<Rightarrow> 'o \<Rightarrow> string + 'o"

definition text_setting :: "(string \<Rightarrow> 'o \<Rightarrow> 'o) \<Rightarrow> 'o setting" where
  "text_setting f v opts = Inr (f v opts)"

definition number_setting :: "string \<Rightarrow> (u64 \<Rightarrow> 'o \<Rightarrow> 'o) \<Rightarrow> 'o setting" where
  "number_setting function_name f v opts = (case stoull v of None \<Rightarrow> Inl function_name | Some n \<Rightarrow> Inr (f n opts))"

fun scan :: "string \<Rightarrow> string list \<Rightarrow> string list \<Rightarrow> (string \<Rightarrow> 'o setting option) \<Rightarrow> string list \<Rightarrow> 'o \<Rightarrow> 'o scanned" where
  "scan listing names usage settings [] opts = Starts opts"
| "scan listing names usage settings (argument # rest) opts =
     (if argument = listing then Stops (ended 0 names [])
      else if argument = ''--help'' \<or> argument = ''-h'' then Stops (ended 0 usage [])
      else case settings argument of
          None \<Rightarrow> Stops (ended 2 usage [''unknown argument: '' @ argument])
        | Some f \<Rightarrow>
            (case rest of
               [] \<Rightarrow> Stops (ended 2 [] [])
             | v # rest' \<Rightarrow>
                 (case f v opts of
                    Inl what \<Rightarrow> Stops (ended 4 [] [''fatal: '' @ what])
                  | Inr opts' \<Rightarrow> scan listing names usage settings rest' opts')))"

section \<open>The coordinator program\<close>

record coordinator_options =
  co_state_path :: string
  co_bind_address :: string
  co_scenario :: string
  co_port_file :: string
  co_port :: u16
  co_epoch_seed :: u64
  co_create_trials :: bool

definition coordinator_options_init :: coordinator_options where
  "coordinator_options_init =
     \<lparr>co_state_path = [], co_bind_address = ''127.0.0.1'', co_scenario = [], co_port_file = [], co_port = 0,
      co_epoch_seed = 0, co_create_trials = True\<rparr>"

definition coordinator_usage :: "string list" where
  "coordinator_usage =
     [''ef_coordinator '' @ version_string,
      ''  --state <path>        durable state image (empty for in-memory)'',
      ''  --port <n>            control-plane port (0 chooses an ephemeral port)'',
      ''  --bind <address>      bind address (default 127.0.0.1)'',
      ''  --scenario <name>     create a reference experiment at start'',
      ''  --trials <n>          create the planned trials of every branch (0 or 1)'',
      ''  --epoch-seed <n>      lower bound for the coordinator epoch'',
      ''  --port-file <path>    write the bound port once the control plane is ready'',
      ''  --list-scenarios      print the built-in scenario names and exit'']"

definition coordinator_settings :: "string \<Rightarrow> coordinator_options setting option" where
  "coordinator_settings argument =
     (if argument = ''--state'' then Some (text_setting (\<lambda>v opts. opts\<lparr>co_state_path := v\<rparr>))
      else if argument = ''--bind'' then Some (text_setting (\<lambda>v opts. opts\<lparr>co_bind_address := v\<rparr>))
      else if argument = ''--scenario'' then Some (text_setting (\<lambda>v opts. opts\<lparr>co_scenario := v\<rparr>))
      else if argument = ''--port-file'' then Some (text_setting (\<lambda>v opts. opts\<lparr>co_port_file := v\<rparr>))
      else if argument = ''--port'' then Some (number_setting ''stoul'' (\<lambda>n opts. opts\<lparr>co_port := ucast n\<rparr>))
      else if argument = ''--epoch-seed'' then Some (number_setting ''stoull'' (\<lambda>n opts. opts\<lparr>co_epoch_seed := n\<rparr>))
      else if argument = ''--trials'' then Some (number_setting ''stoul'' (\<lambda>n opts. opts\<lparr>co_create_trials := (n \<noteq> 0)\<rparr>))
      else None)"

definition coordinator_scan :: "string list \<Rightarrow> coordinator_options scanned" where
  "coordinator_scan arguments =
     scan ''--list-scenarios'' scenario_names coordinator_usage coordinator_settings arguments coordinator_options_init"

text \<open>The address and the port of the configuration are used by the listener alone, see \<open>bound\<close>.\<close>

definition coordinator_config :: "coordinator_options \<Rightarrow> config" where
  "coordinator_config opts =
     \<lparr>cg_limits = limits_defaults, cg_state_path = co_state_path opts, cg_persist_on_mutation = True,
      cg_epoch_seed = co_epoch_seed opts, cg_observer = False\<rparr>"

definition start_scenario :: "coordinator_options \<Rightarrow> impl \<Rightarrow> (program_output + experiment_id) \<times> impl" where
  "start_scenario opts im =
     (if co_scenario opts = [] then (Inr null_id, im)
      else case build_scenario (co_scenario opts) of
          Inl error \<Rightarrow> (Inl (ended 2 [] [error]), im)
        | Inr spec \<Rightarrow>
            (case create_experiment spec im of
               (Inl e, im1) \<Rightarrow> (Inl (ended 3 [] [''experiment creation failed: '' @ status_to_string e]), im1)
             | (Inr experiment, im1) \<Rightarrow>
                 if \<not> co_create_trials opts then (Inr experiment, im1)
                 else case create_planned_trials experiment (lit ''scenario-trial'') im1 of
                     (s, im2) \<Rightarrow>
                       if \<not> st_ok s then (Inl (ended 3 [] [''trial creation failed: '' @ status_to_string s]), im2)
                       else (Inr experiment, im2)))"

definition port_text :: "impl \<Rightarrow> string" where
  "port_text im = int_to_string (uint (port im))"

definition ready_line :: "experiment_id \<Rightarrow> impl \<Rightarrow> string" where
  "ready_line experiment im =
     ''coordinator-ready epoch='' @ id_to_string (im_epoch im) @ '' port='' @ port_text im @ '' experiment='' @
     (if valid experiment then id_to_string experiment else ''none'')"

text \<open>
  \<open>found\<close> and \<open>faults\<close> are what the file system holds and does, \<open>bound\<close> the outcome of opening the
  listener, \<open>served\<close> the calls made through the server until a shutdown is requested; without such
  a request the program goes on waiting, and there is no result. The result is the output,
  the text written to the port file and the coordinator at the end.
\<close>

definition coordinator_main ::
    "found_image \<Rightarrow> save_fault option list \<Rightarrow> u16 result \<Rightarrow> operation list \<Rightarrow> string list \<Rightarrow>
     (program_output \<times> string option \<times> impl option) option" where
  "coordinator_main found faults bound served arguments =
     (case coordinator_scan arguments of
        Stops out \<Rightarrow> Some (out, None, None)
      | Starts opts \<Rightarrow>
          (case create (coordinator_config opts) found faults of
             Inl e \<Rightarrow> Some (ended 3 [] [''coordinator creation failed: '' @ status_to_string e], None, None)
           | Inr im \<Rightarrow>
               (case start_scenario opts im of
                  (Inl out, im1) \<Rightarrow> Some (out, None, Some im1)
                | (Inr experiment, im1) \<Rightarrow>
                    (case start_server bound im1 of
                       (started, im2) \<Rightarrow>
                         if \<not> st_ok started
                         then Some (ended 3 [] [''control plane failed to start: '' @ status_to_string started], None, Some im2)
                         else
                           let port_file = (if co_port_file opts = [] then None else Some (port_text im2));
                               im3 = run served im2
                           in if \<not> im_shutdown_flagged im3 then None
                              else Some (ended 0 [ready_line experiment im2, ''coordinator-stopped''] [], port_file,
                                Some (snd (stop_server im3)))))))"

section \<open>The worker program\<close>

record worker_options =
  wo_host :: string
  wo_workload :: string
  wo_fingerprint :: string
  wo_frame_log :: string
  wo_port :: u16
  wo_worker :: u64
  wo_claims :: u32
  wo_cycles :: u64
  wo_die_after_publish :: u64

definition worker_options_init :: worker_options where
  "worker_options_init =
     \<lparr>wo_host = ''127.0.0.1'', wo_workload = ''parameter'', wo_fingerprint = ''reference-worker'', wo_frame_log = [],
      wo_port = 0, wo_worker = 1, wo_claims = 1, wo_cycles = 1, wo_die_after_publish = 0\<rparr>"

definition worker_usage :: "string list" where
  "worker_usage =
     [''ef_worker '' @ version_string,
      ''  --host <address>          coordinator address (default 127.0.0.1)'',
      ''  --port <n>                coordinator control-plane port'',
      ''  --worker <n>              logical worker identity'',
      ''  --workload <name>         reference workload name'',
      ''  --claims <n>              maximum concurrent assignments (default 1)'',
      ''  --cycles <n>              number of claim cycles before exiting (0 = until idle)'',
      ''  --frame-log <path>        record every frame this process sends'',
      ''  --fingerprint <text>      producer fingerprint recorded at registration'',
      ''  --die-after-publish <n>   terminate the process without cleanup after n published observations'',
      ''  --list-workloads          print the built-in workload names and exit'']"

definition worker_settings :: "string \<Rightarrow> worker_options setting option" where
  "worker_settings argument =
     (if argument = ''--host'' then Some (text_setting (\<lambda>v opts. opts\<lparr>wo_host := v\<rparr>))
      else if argument = ''--workload'' then Some (text_setting (\<lambda>v opts. opts\<lparr>wo_workload := v\<rparr>))
      else if argument = ''--fingerprint'' then Some (text_setting (\<lambda>v opts. opts\<lparr>wo_fingerprint := v\<rparr>))
      else if argument = ''--frame-log'' then Some (text_setting (\<lambda>v opts. opts\<lparr>wo_frame_log := v\<rparr>))
      else if argument = ''--port'' then Some (number_setting ''stoul'' (\<lambda>n opts. opts\<lparr>wo_port := ucast n\<rparr>))
      else if argument = ''--worker'' then Some (number_setting ''stoull'' (\<lambda>n opts. opts\<lparr>wo_worker := n\<rparr>))
      else if argument = ''--claims'' then Some (number_setting ''stoul'' (\<lambda>n opts. opts\<lparr>wo_claims := ucast n\<rparr>))
      else if argument = ''--cycles'' then Some (number_setting ''stoull'' (\<lambda>n opts. opts\<lparr>wo_cycles := n\<rparr>))
      else if argument = ''--die-after-publish'' then
        Some (number_setting ''stoull'' (\<lambda>n opts. opts\<lparr>wo_die_after_publish := n\<rparr>))
      else None)"

definition worker_scan :: "string list \<Rightarrow> worker_options scanned" where
  "worker_scan arguments =
     scan ''--list-workloads'' workload_names worker_usage worker_settings arguments worker_options_init"

definition worker_configuration :: "worker_options \<Rightarrow> worker_config" where
  "worker_configuration opts =
     \<lparr>wc_worker = from_value (wo_worker opts), wc_forced_boot = None,
      wc_endpoint = wo_host opts @ '':'' @ int_to_string (uint (wo_port opts)), wc_fingerprint = wo_fingerprint opts,
      wc_limits = limits_defaults, wc_max_concurrent_assignments = wo_claims opts,
      wc_frame_log = (wo_frame_log opts \<noteq> []), wc_progress_hook = (wo_die_after_publish opts \<noteq> 0)\<rparr>"

text \<open>The claim loop: the status that ended it with an error, if one did, and the worker.\<close>

partial_function (option) worker_cycles ::
    "task_function \<Rightarrow> u64 \<Rightarrow> u64 \<Rightarrow> worker_process \<Rightarrow> (status option \<times> worker_process) option" where
  "worker_cycles task cycles completed w =
     Option.bind (run_once task w) (\<lambda>outcome.
       if \<not> st_ok (fst outcome)
       then Some (if st_code (fst outcome) = EC_NOT_FOUND then None else Some (fst outcome), snd outcome)
       else if cycles \<noteq> 0 \<and> completed + 1 \<ge> cycles then Some (None, snd outcome)
       else worker_cycles task cycles (completed + 1) (snd outcome))"

text \<open>
  The program from the created worker on, for a hook that never ends the process: the option that
  makes it exit after some publications is for tests of process death.
\<close>

definition worker_session :: "worker_options \<Rightarrow> worker_process \<Rightarrow> (program_output \<times> worker_process) option" where
  "worker_session opts w =
     (case connect_and_register w of
        None \<Rightarrow> None
      | Some (registered, w1) \<Rightarrow>
          if \<not> st_ok registered then Some (ended 4 [] [''registration failed: '' @ status_to_string registered], w1)
          else
            let hello = ''worker-registered worker='' @ u64_text (wo_worker opts) @ '' boot='' @ id_to_string (wk_boot w1) @
                  '' epoch='' @ id_to_string (wk_epoch w1) @ '' producer='' @ id_to_string (wk_producer w1)
            in case worker_cycles (run_workload (wo_workload opts)) (wo_cycles opts) 0 w1 of
                 None \<Rightarrow> None
               | Some (Some e, w2) \<Rightarrow> Some (ended 5 [hello] [''worker run_once failed: '' @ status_to_string e], w2)
               | Some (None, w2) \<Rightarrow>
                   Some (ended 0 [hello, ''worker-finished published='' @ u32_text (wk_published w2) @
                     '' failed='' @ u32_text (wk_failed w2) @ '' boot='' @ id_to_string (wk_boot w2)] [], w2))"

section \<open>What the programs do\<close>

lemma driven_start_scenario: "driven im (snd (start_scenario opts im))"
proof -
  have created: "driven im (snd (create_experiment spec im))" for spec
    using driven_perform [of im "CreateExperiment spec"] by simp
  have "driven im (snd (create_planned_trials e payload (snd (create_experiment spec im))))" for e payload spec
    by (rule driven_trans [OF created driven_helpers(1)])
  with created show ?thesis
    by (auto simp: start_scenario_def driven_refl case_prod_beta split: sum.split)
qed

text \<open>Whatever the arguments, a coordinator program starts a coordinator and calls its interface.\<close>

lemma coordinator_program_is_a_run:
  assumes "coordinator_main found faults bound served arguments = Some (out, port_file, Some im')"
  shows "\<exists>opts im ops. create (coordinator_config opts) found faults = Inr im \<and> im' = run ops im"
proof -
  obtain opts im where start: "coordinator_scan arguments = Starts opts" "create (coordinator_config opts) found faults = Inr im"
    using assms by (auto simp: coordinator_main_def split: scanned.splits sum.splits)
  obtain r im1 where r: "start_scenario opts im = (r, im1)" by fastforce
  have one: "driven im im1" using driven_start_scenario [of im opts] r by simp
  have two: "driven im (snd (start_server bound im1))"
    by (rule driven_trans [OF one]) (metis driven_perform perform.simps(20))
  have three: "driven im (run served (snd (start_server bound im1)))"
    using driven_trans [OF two] by (simp add: driven_def) metis
  have "driven im (snd (stop_server (run served (snd (start_server bound im1)))))"
    by (rule driven_trans [OF three]) (metis driven_perform perform.simps(21))
  with one two have "driven im im'"
    using assms start r by (auto simp: coordinator_main_def case_prod_beta Let_def split: sum.splits if_splits)
  then show ?thesis using start(2) by (auto simp: driven_def)
qed

text \<open>A worker program with a number of cycles returns from its loop when every call returns.\<close>

lemma worker_cycles_return:
  assumes "\<And>w. run_once task w \<noteq> None" and "cycles \<noteq> 0" and "completed < cycles"
  shows "worker_cycles task cycles completed w \<noteq> None"
  using assms(3)
proof (induction "unat cycles - unat completed" arbitrary: completed w rule: less_induct)
  case less
  obtain s w' where w': "run_once task w = Some (s, w')" using assms(1) [of w] by auto
  have step: "worker_cycles task cycles (completed + 1) w' \<noteq> None" if "completed + 1 < cycles"
  proof (rule less.hyps [OF _ that])
    have "unat (completed + 1) = unat completed + 1"
      using less.prems unat_lt_64 [of cycles] below_top [of completed] by (simp add: word_less_nat_alt)
    then show "unat cycles - unat (completed + 1) < unat cycles - unat completed"
      using less.prems by (simp add: word_less_nat_alt)
  qed
  show ?case
    using w' step assms(2) by (subst worker_cycles.simps) (auto simp: not_le)
qed

end
