(* ===== verification/Scenario.thy ===== *)
theory Scenario
  imports Runs
begin

text \<open>
  A small run of the coordinator, used to show that the hypotheses of the theorems can hold: one
  experiment with a baseline and a candidate branch and one metric, a worker that registers,
  claims a trial, publishes an observation and commits.
\<close>

definition demo_limits :: limits where
  "demo_limits =
     \<lparr>lm_max_experiments = 4, lm_max_branches_per_experiment = 4, lm_max_metrics_per_experiment = 4,
      lm_max_trials_per_branch = 4, lm_max_attempts_per_trial = 4, lm_max_observations_per_trial = 4,
      lm_max_artifacts_per_attempt = 0, lm_max_observations_per_experiment = 4, lm_max_artifacts_per_experiment = 4,
      lm_max_decisions_per_experiment = 4, lm_max_parameters_per_branch = 4, lm_max_comparison_rules = 4,
      lm_max_lineage_depth = 4, lm_max_name_length = 4, lm_max_unit_length = 4, lm_max_statement_length = 4,
      lm_max_payload_text_length = 4, lm_max_locator_length = 4, lm_max_provenance_length = 4,
      lm_max_explanation_lines = 4, lm_max_explanation_bytes = 4, lm_max_state_file_bytes = 4,
      lm_max_persisted_records = 32, lm_max_persisted_string_bytes = 4, lm_max_frame_payload_bytes = 64,
      lm_max_connections = 4, lm_max_inflight_frames_per_connection = 4, lm_max_batch_items = 4,
      lm_max_registered_workers = 4, lm_max_concurrent_assignments_per_worker = 4, lm_max_worker_threads = 4\<rparr>"

definition demo_config :: config where
  "demo_config = \<lparr>cg_limits = demo_limits, cg_state_path = ''s'', cg_persist_on_mutation = True,
     cg_epoch_seed = 0, cg_observer = False\<rparr>"

definition demo_metric :: metric_spec where
  "demo_metric = \<lparr>xm_name = ''m'', xm_unit = [], xm_kind = MK_INTEGER, xm_direction = MD_MAXIMIZE,
     xm_aggregation = AR_SUM, xm_required = True, xm_accepts_non_finite = False, xm_lower_bound = None,
     xm_upper_bound = None, xm_target_low = None, xm_target_high = None, xm_weight = 1, xm_priority = 0,
     xm_categories = []\<rparr>"

definition demo_branch :: "string \<Rightarrow> branch_role \<Rightarrow> branch_spec" where
  "demo_branch name role = \<lparr>xb_name = name, xb_role = role, xb_fork_from = None, xb_parameters = [],
     xb_input_set = None, xb_environment = None, xb_environment_fingerprint = [], xb_seed = None,
     xb_planned_trials = 2\<rparr>"

definition demo_spec :: experiment_spec where
  "demo_spec = \<lparr>xs_name = ''e'', xs_hypothesis_statement = ''h'', xs_expected_direction = None,
     xs_expected_metric = None, xs_provenance = [],
     xs_branches = [demo_branch ''b'' BR_BASELINE, demo_branch ''c'' BR_CANDIDATE],
     xs_metrics = [demo_metric], xs_require_baseline = True, xs_min_completed_trials_per_branch = 1,
     xs_min_valid_observations_per_required_metric = 1, xs_reject_on_any_invalid_observation = False,
     xs_require_environment_match = False, xs_majority_wins_min_basis_points = 5000,
     xs_use_weighted_score = False, xs_accept_score_threshold = d_zero,
     xs_rules = [\<lparr>xr_metric = ''m'', xr_op = CO_GREATER_THAN, xr_threshold = d_zero, xr_target_low = d_zero,
       xr_target_high = d_zero, xr_priority = 0\<rparr>],
     xs_seed_policy = SP_NONE, xs_experiment_seed = None, xs_retry_policy = RP_FRESH_ATTEMPT_SAME_TRIAL,
     xs_max_attempts_per_trial = 2, xs_partial_failure_policy = PF_RETRY_ALLOWED,
     xs_late_evidence_policy = LE_REJECT_AND_RECORD, xs_parameters = []\<rparr>"

definition demo_start :: impl where
  "demo_start = (case create demo_config NoImage [] of Inr im \<Rightarrow> im | Inl e \<Rightarrow> new_impl demo_config [])"

definition demo_register :: register_worker_request where
  "demo_register = \<lparr>rq_claimed_epoch = null_id, rq_worker = from_value 7, rq_boot = from_value 9,
     rq_producer = null_id, rq_endpoint = [], rq_max_concurrent_assignments = 1, rq_fingerprint = []\<rparr>"

definition demo_claim :: claim_trial_request where
  "demo_claim = \<lparr>ct_epoch = from_value 1, ct_worker = from_value 7, ct_boot = from_value 9, ct_max_claims = 1\<rparr>"

definition demo_envelope :: authority_envelope where
  "demo_envelope = \<lparr>ae_epoch = from_value 1, ae_experiment = from_value 1, ae_generation = from_value 1,
     ae_hypothesis = from_value 1, ae_hypothesis_revision = from_value 1, ae_policy = from_value 1,
     ae_policy_generation = from_value 1, ae_branch = from_value 2, ae_branch_generation = from_value 1,
     ae_trial = from_value 1, ae_attempt = from_value 1, ae_worker = from_value 7, ae_boot = from_value 9,
     ae_producer = from_value 1\<rparr>"

definition demo_observation :: publish_observation_request where
  "demo_observation = \<lparr>po_epoch = from_value 1, po_worker = from_value 7, po_boot = from_value 9,
     po_observation = \<lparr>ob_id = from_value 1, ob_experiment = from_value 1, ob_generation = from_value 1,
       ob_branch = from_value 2, ob_branch_generation = from_value 1, ob_trial = from_value 1,
       ob_attempt = from_value 1, ob_metric = from_value 1, ob_producer = from_value 1,
       ob_worker = from_value 7, ob_boot = from_value 9, ob_epoch = from_value 1, ob_validity = OV_VALID,
       ob_value = \<lparr>mv_kind = MK_INTEGER, mv_real = d_zero, mv_integer = 3, mv_boolean = False, mv_category = []\<rparr>,
       ob_detail = [], ob_sequence = 0\<rparr>\<rparr>"

definition demo_commit :: commit_trial_request where
  "demo_commit = \<lparr>cm_epoch = from_value 1, cm_worker = from_value 7, cm_boot = from_value 9,
     cm_envelope = demo_envelope, cm_artifacts = [], cm_result_payload = []\<rparr>"

definition demo_setup :: "operation list" where
  "demo_setup = [CreateExperiment demo_spec, CreateTrial (from_value 1) (from_value 2) [],
     RegisterWorker demo_register, ClaimTrials demo_claim]"

definition demo_claimed :: impl where
  "demo_claimed = run demo_setup demo_start"

definition demo_observed :: impl where
  "demo_observed = run [PublishObservation demo_observation] demo_claimed"

definition demo_committed :: impl where
  "demo_committed = run [CommitTrial demo_commit] demo_observed"

section \<open>Evaluation\<close>

text \<open>Bounds on the length of a list are compared as integers when the model is evaluated.\<close>

lemma log_line_code [code]:
  "log_line line r =
     (let lines = er_lifecycle_log r; kept = (if int (length lines) \<ge> 65536 then tl lines else lines)
      in r\<lparr>er_lifecycle_log := kept @ [line]\<rparr>)"
  by (simp add: log_line_def)

lemma note_rejection_code [code]:
  "note_rejection kind identifier v r =
     (if int (length (er_rejected_evidence r)) < 65536
      then r\<lparr>er_rejected_evidence := er_rejected_evidence r @
        [\<lparr>re_kind = kind, re_identifier = identifier, re_reason = error_code_code (av_code v), re_detail = av_detail v\<rparr>]\<rparr>
      else r)"
  by (simp add: note_rejection_def)

lemma demo_created: "create demo_config NoImage [] = Inr demo_start"
proof -
  have "\<exists>im. create demo_config NoImage [] = Inr im"
  proof (cases "create demo_config NoImage []")
    case (Inl e)
    moreover have "case create demo_config NoImage [] of Inl e \<Rightarrow> False | Inr im \<Rightarrow> True" by code_simp
    ultimately show ?thesis by simp
  qed simp
  then show ?thesis by (auto simp: demo_start_def)
qed

lemma demo_room: "run_in_room (demo_setup @ [PublishObservation demo_observation, CommitTrial demo_commit]) demo_start"
  by code_simp

lemma run_in_room_append: "run_in_room (xs @ ys) im \<longleftrightarrow> run_in_room xs im \<and> run_in_room ys (run xs im)"
  by (induction xs arbitrary: im) simp_all

lemma demo_reachable: "reachable demo_start" "reachable demo_claimed" "reachable demo_observed" "reachable demo_committed"
proof -
  show start: "reachable demo_start" by (rule reachable.fresh_start [OF demo_created])
  have room: "run_in_room demo_setup demo_start" "run_in_room [PublishObservation demo_observation] demo_claimed"
    "run_in_room [CommitTrial demo_commit] demo_observed"
    using demo_room by (simp_all add: run_in_room_append demo_claimed_def demo_observed_def)
  show claimed: "reachable demo_claimed" unfolding demo_claimed_def by (rule reachable_run [OF start room(1)])
  show observed: "reachable demo_observed" unfolding demo_observed_def by (rule reachable_run [OF claimed room(2)])
  show "reachable demo_committed" unfolding demo_committed_def by (rule reachable_run [OF observed room(3)])
qed

lemma demo_authority: "av_accepted (check_envelope demo_claimed demo_envelope)"
  by code_simp

lemma demo_published: "st_ok (fst (publish_observation demo_observation demo_claimed))"
  by code_simp

lemma demo_completed: "st_ok (fst (commit_trial demo_commit demo_observed))"
  by code_simp

text \<open>What the scenario leaves behind, used by the witnesses.\<close>

definition demo_cancel :: "operation list" where
  "demo_cancel = [CancelExperiment (from_value 1) ''x'']"

lemma demo_cancel_room: "run_in_room demo_cancel demo_committed"
  by code_simp

lemma demo_closed:
  "\<exists>r a. find_experiment demo_committed (from_value 1) = Some r \<and> map_of (er_attempts r) (from_value 1) = Some a \<and>
     is_attempt_terminal (at_state a)"
proof -
  have "case find_experiment demo_committed (from_value 1) of None \<Rightarrow> False | Some r \<Rightarrow>
      (case map_of (er_attempts r) (from_value 1) of None \<Rightarrow> False | Some a \<Rightarrow> is_attempt_terminal (at_state a))"
    by code_simp
  then show ?thesis by (auto split: option.splits)
qed

lemma demo_live:
  "\<exists>r t a. find_experiment demo_claimed (from_value 1) = Some r \<and> map_of (er_trials r) (from_value 1) = Some t \<and>
     map_of (er_attempts r) (from_value 1) = Some a \<and> live_attempt a"
proof -
  obtain r t a where "holds_authority demo_claimed demo_envelope r t a"
    using demo_authority by (auto simp: check_envelope_accepts)
  then show ?thesis
    by (auto simp: holds_authority_def demo_envelope_def authoritative_attempt_def live_attempt_def)
qed

lemma demo_restart:
  "\<exists>d r im'. im_disk demo_claimed = Some d \<and> map_of (cs_experiments d) (from_value 1) = Some r \<and>
     create demo_config (Image (Inr d)) [] = Inr im'"
proof -
  have "case im_disk demo_claimed of None \<Rightarrow> False | Some d \<Rightarrow>
      map_of (cs_experiments d) (from_value 1) \<noteq> None \<and>
      (case create demo_config (Image (Inr d)) [] of Inl e \<Rightarrow> False | Inr im' \<Rightarrow> True)"
    by code_simp
  then show ?thesis by (auto split: option.splits sum.splits)
qed

end
