(* ===== verification/Pool.thy ===== *)
theory Pool
  imports Server Scenario "HOL-Library.Multiset"
begin

text \<open>
  \<^verbatim>\<open>CoordinatorServerRuntime\<close> of \<^verbatim>\<open>src/coordinator_server.cpp\<close>: the accept thread, the fixed pool of threads
  that serve connections, and the thread that stops them, as a step relation on their shared state.
  A step is what a thread does between two points where others can interfere: one section under the
  mutex, one read of the stop flag, one blocking call, one call of the coordinator. In between, peers
  send bytes and callers of the same process use the coordinator. The theorems hold of every
  interleaving.
\<close>

section \<open>The state of the runtime\<close>

text \<open>
  Connections are numbered in the order of their acceptance. A thread is at a point of \<^verbatim>\<open>worker_loop\<close>
  or of \<^verbatim>\<open>serve\<close>; the acceptor is at a point of \<^verbatim>\<open>accept_loop\<close>, the stopper at a point of \<^verbatim>\<open>stop\<close>.
\<close>

datatype thread_point =
    AwaitsWork
  | ChecksStop nat
  | Receives nat
  | Dispatches nat frame
  | Sends nat frame
  | Unlists nat
  | Closes nat
  | ThreadReturned

datatype acceptor_point = ChecksStopping | Accepts | Enqueues nat | AcceptorReturned

datatype stopper_point = NotStopping | StopFlagged | ListenerClosed | Joining | Joined

record pool =
  pl_impl :: impl
  pl_limits :: limits
  pl_listening :: bool
  pl_stopping :: bool
  pl_connections :: "connection list"
  pl_pending :: "nat list"
  pl_active :: "nat list"
  pl_acceptor :: acceptor_point
  pl_threads :: "thread_point list"
  pl_stopper :: stopper_point

text \<open>The number of threads: at least one and no more than the limit.\<close>

definition thread_bound :: "limits \<Rightarrow> u32 \<Rightarrow> u32" where
  "thread_bound l thread_count = max 1 (min thread_count (lm_max_worker_threads l))"

definition pool_start :: "u32 \<Rightarrow> limits \<Rightarrow> impl \<Rightarrow> pool" where
  "pool_start thread_count l im =
     \<lparr>pl_impl = im, pl_limits = l, pl_listening = True, pl_stopping = False, pl_connections = [],
      pl_pending = [], pl_active = [], pl_acceptor = ChecksStopping,
      pl_threads = replicate (unat (thread_bound l thread_count)) AwaitsWork, pl_stopper = NotStopping\<rparr>"

definition set_thread :: "nat \<Rightarrow> thread_point \<Rightarrow> pool \<Rightarrow> pool" where
  "set_thread n t p = p\<lparr>pl_threads := (pl_threads p)[n := t]\<rparr>"

definition set_connection :: "nat \<Rightarrow> connection \<Rightarrow> pool \<Rightarrow> pool" where
  "set_connection i c p = p\<lparr>pl_connections := (pl_connections p)[i := c]\<rparr>"

text \<open>Connections that are closed together: those of the active list, or those whose owner drops them.\<close>

definition close_connections :: "nat list \<Rightarrow> connection list \<Rightarrow> connection list" where
  "close_connections is cs = map (\<lambda>(i, c). if i \<in> set is then close c else c) (enumerate 0 cs)"

section \<open>The threads of the pool\<close>

text \<open>
  \<^verbatim>\<open>worker_loop\<close>: wait for work or for the stop; without work return, else serve the oldest pending
  connection, and close it when \<^verbatim>\<open>serve\<close> returns. \<^verbatim>\<open>None\<close> is a thread that stays blocked.
\<close>

definition thread_step :: "nat \<Rightarrow> pool \<Rightarrow> pool option" where
  "thread_step n p =
     (case pl_threads p ! n of
        AwaitsWork \<Rightarrow>
          (case pl_pending p of
             [] \<Rightarrow> if pl_stopping p then Some (set_thread n ThreadReturned p) else None
           | i # rest \<Rightarrow> Some (set_thread n (ChecksStop i) (p\<lparr>pl_pending := rest, pl_active := pl_active p @ [i]\<rparr>)))
      | ChecksStop i \<Rightarrow> Some (set_thread n (if pl_stopping p then Unlists i else Receives i) p)
      | Receives i \<Rightarrow>
          (case receive_frame (pl_limits p) (pl_connections p ! i) of
             None \<Rightarrow> None
           | Some (Inl e, c) \<Rightarrow> Some (set_thread n (Unlists i) (set_connection i c p))
           | Some (Inr f, c) \<Rightarrow> Some (set_thread n (Dispatches i f) (set_connection i c p)))
      | Dispatches i f \<Rightarrow>
          (case dispatch (pl_limits p) f (pl_impl p) of (reply, im) \<Rightarrow>
             Some (set_thread n (Sends i reply) (p\<lparr>pl_impl := im\<rparr>)))
      | Sends i reply \<Rightarrow>
          (case send_frame (pl_limits p) reply (pl_connections p ! i) of
             None \<Rightarrow> None
           | Some (s, c) \<Rightarrow> Some (set_thread n (if st_ok s then ChecksStop i else Unlists i) (set_connection i c p)))
      | Unlists i \<Rightarrow> Some (set_thread n (Closes i) (p\<lparr>pl_active := filter (\<lambda>j. j \<noteq> i) (pl_active p)\<rparr>))
      | Closes i \<Rightarrow> Some (set_thread n AwaitsWork (set_connection i (close (pl_connections p ! i)) p))
      | ThreadReturned \<Rightarrow> None)"

section \<open>The acceptor and the stopper\<close>

text \<open>
  \<^verbatim>\<open>wakes\<close>: whether closing the listening socket ends an \<^verbatim>\<open>accept\<close> that is blocked on it, as the
  listener documents. \<open>accepted\<close> is the connection that \<^verbatim>\<open>accept\<close> returns, if one arrives.
\<close>

definition acceptor_step :: "bool \<Rightarrow> connection option \<Rightarrow> pool \<Rightarrow> pool option" where
  "acceptor_step wakes accepted p =
     (case pl_acceptor p of
        ChecksStopping \<Rightarrow> Some (p\<lparr>pl_acceptor := (if pl_stopping p then AcceptorReturned else Accepts)\<rparr>)
      | Accepts \<Rightarrow>
          if \<not> pl_listening p \<and> wakes then Some (p\<lparr>pl_acceptor := AcceptorReturned\<rparr>)
          else (case accepted of
              None \<Rightarrow> None
            | Some c \<Rightarrow> Some (p\<lparr>pl_connections := pl_connections p @ [c],
                pl_acceptor := Enqueues (length (pl_connections p))\<rparr>))
      | Enqueues i \<Rightarrow>
          if pl_stopping p
            then Some ((set_connection i (close (pl_connections p ! i)) p)\<lparr>pl_acceptor := AcceptorReturned\<rparr>)
          else Some (p\<lparr>pl_pending := pl_pending p @ [i], pl_acceptor := ChecksStopping\<rparr>)
      | AcceptorReturned \<Rightarrow> None)"

definition stopper_step :: "pool \<Rightarrow> pool option" where
  "stopper_step p =
     (case pl_stopper p of
        NotStopping \<Rightarrow> Some (p\<lparr>pl_stopping := True, pl_stopper := StopFlagged\<rparr>)
      | StopFlagged \<Rightarrow> Some (p\<lparr>pl_listening := False, pl_stopper := ListenerClosed\<rparr>)
      | ListenerClosed \<Rightarrow>
          Some (p\<lparr>pl_connections := close_connections (pl_active p @ pl_pending p) (pl_connections p),
            pl_pending := [], pl_stopper := Joining\<rparr>)
      | Joining \<Rightarrow>
          if pl_acceptor p = AcceptorReturned \<and> list_all (\<lambda>t. t = ThreadReturned) (pl_threads p)
            then Some (p\<lparr>pl_stopper := Joined\<rparr>) else None
      | Joined \<Rightarrow> None)"

section \<open>Interleavings\<close>

text \<open>
  A step of one of the threads, or of their surroundings: events arrive on a connection, and callers
  of the same process call the coordinator.
\<close>

inductive runtime_step :: "bool \<Rightarrow> pool \<Rightarrow> pool \<Rightarrow> bool" for wakes where
  threads: "n < length (pl_threads p) \<Longrightarrow> thread_step n p = Some p' \<Longrightarrow> runtime_step wakes p p'"
| acceptor: "acceptor_step wakes accepted p = Some p' \<Longrightarrow> runtime_step wakes p p'"
| stopper: "stopper_step p = Some p' \<Longrightarrow> runtime_step wakes p p'"

inductive pool_step :: "bool \<Rightarrow> pool \<Rightarrow> pool \<Rightarrow> bool" for wakes where
  runtime: "runtime_step wakes p p' \<Longrightarrow> pool_step wakes p p'"
| arrives: "i < length (pl_connections p) \<Longrightarrow> c = pl_connections p ! i \<Longrightarrow>
    pool_step wakes p (set_connection i (c\<lparr>cn_recv := cn_recv c @ arriving, cn_send := cn_send c @ taking\<rparr>) p)"
| local_call: "pool_step wakes p (p\<lparr>pl_impl := perform op (pl_impl p)\<rparr>)"

inductive_cases runtime_step_cases: "runtime_step wakes p p'"
inductive_cases pool_step_cases: "pool_step wakes p p'"

text \<open>The runtimes that a coordinator can have, while its identities do not run out.\<close>

inductive pool_reachable :: "bool \<Rightarrow> pool \<Rightarrow> bool" for wakes where
  started: "reachable im \<Longrightarrow> pool_reachable wakes (pool_start thread_count l im)"
| stepped: "pool_reachable wakes p \<Longrightarrow> room (im_state (pl_impl p)) \<Longrightarrow> pool_step wakes p p' \<Longrightarrow> pool_reachable wakes p'"

section \<open>Who holds a connection\<close>

fun thread_holds :: "thread_point \<Rightarrow> nat multiset" where
  "thread_holds AwaitsWork = {#}"
| "thread_holds (ChecksStop i) = {#i#}"
| "thread_holds (Receives i) = {#i#}"
| "thread_holds (Dispatches i f) = {#i#}"
| "thread_holds (Sends i f) = {#i#}"
| "thread_holds (Unlists i) = {#i#}"
| "thread_holds (Closes i) = {#i#}"
| "thread_holds ThreadReturned = {#}"

fun thread_serves :: "thread_point \<Rightarrow> nat multiset" where
  "thread_serves (Closes i) = {#}"
| "thread_serves t = thread_holds t"

fun acceptor_holds :: "acceptor_point \<Rightarrow> nat multiset" where
  "acceptor_holds (Enqueues i) = {#i#}"
| "acceptor_holds _ = {#}"

definition held :: "pool \<Rightarrow> nat multiset" where
  "held p = acceptor_holds (pl_acceptor p) + mset (pl_pending p) + (\<Sum>t\<in>#mset (pl_threads p). thread_holds t)"

definition served :: "pool \<Rightarrow> nat multiset" where
  "served p = (\<Sum>t\<in>#mset (pl_threads p). thread_serves t)"

text \<open>
  Every connection has at most one holder, an open one has exactly one; the active list is what the
  threads serve; the stop flag and the listener follow the stopper; and once the stopper has swept,
  nothing is pending and what is still served is closed.
\<close>

definition pool_inv :: "pool \<Rightarrow> bool" where
  "pool_inv p \<longleftrightarrow>
     (\<forall>i. count (held p) i \<le> 1) \<and> (\<forall>i \<in># held p. i < length (pl_connections p)) \<and>
     (\<forall>i < length (pl_connections p). cn_open (pl_connections p ! i) \<longrightarrow> i \<in># held p) \<and>
     mset (pl_active p) = served p \<and>
     (pl_stopping p \<longleftrightarrow> pl_stopper p \<noteq> NotStopping) \<and>
     (pl_listening p \<longleftrightarrow> pl_stopper p = NotStopping \<or> pl_stopper p = StopFlagged) \<and>
     (pl_stopper p = Joining \<or> pl_stopper p = Joined \<longrightarrow>
        pl_pending p = [] \<and> (\<forall>i \<in># served p. \<not> cn_open (pl_connections p ! i))) \<and>
     (pl_stopper p = Joined \<longrightarrow>
        pl_acceptor p = AcceptorReturned \<and> list_all (\<lambda>t. t = ThreadReturned) (pl_threads p))"

lemma pool_invI:
  assumes "\<And>i. count (held p) i \<le> 1" and "\<And>i. i \<in># held p \<Longrightarrow> i < length (pl_connections p)"
    and "\<And>i. i < length (pl_connections p) \<Longrightarrow> cn_open (pl_connections p ! i) \<Longrightarrow> i \<in># held p"
    and "mset (pl_active p) = served p"
    and "pl_stopping p \<longleftrightarrow> pl_stopper p \<noteq> NotStopping"
    and "pl_listening p \<longleftrightarrow> pl_stopper p = NotStopping \<or> pl_stopper p = StopFlagged"
    and "pl_stopper p = Joining \<or> pl_stopper p = Joined \<Longrightarrow>
      pl_pending p = [] \<and> (\<forall>i \<in># served p. \<not> cn_open (pl_connections p ! i))"
    and "pl_stopper p = Joined \<Longrightarrow> pl_acceptor p = AcceptorReturned \<and> list_all (\<lambda>t. t = ThreadReturned) (pl_threads p)"
  shows "pool_inv p"
  unfolding pool_inv_def using assms by blast

lemma pool_invD:
  assumes "pool_inv p"
  shows "count (held p) i \<le> 1" and "i \<in># held p \<Longrightarrow> i < length (pl_connections p)"
    and "i < length (pl_connections p) \<Longrightarrow> cn_open (pl_connections p ! i) \<Longrightarrow> i \<in># held p"
    and "mset (pl_active p) = served p"
    and "pl_stopping p \<longleftrightarrow> pl_stopper p \<noteq> NotStopping"
    and "pl_listening p \<longleftrightarrow> pl_stopper p = NotStopping \<or> pl_stopper p = StopFlagged"
    and "pl_stopper p = Joining \<or> pl_stopper p = Joined \<Longrightarrow>
      pl_pending p = [] \<and> (\<forall>i \<in># served p. \<not> cn_open (pl_connections p ! i))"
    and "pl_stopper p = Joined \<Longrightarrow> pl_acceptor p = AcceptorReturned \<and> list_all (\<lambda>t. t = ThreadReturned) (pl_threads p)"
  using assms unfolding pool_inv_def by blast+

lemma thread_serves_le: "thread_serves t \<subseteq># thread_holds t"
  by (cases t) simp_all

lemma served_le: "served p \<subseteq># held p"
proof -
  have "(\<Sum>t\<in>#M. thread_serves t) \<subseteq># (\<Sum>t\<in>#M. thread_holds t)" for M
    by (induction M) (simp_all add: subset_mset.add_mono thread_serves_le)
  moreover have "(\<Sum>t\<in>#mset (pl_threads p). thread_holds t) \<subseteq># held p" by (simp add: held_def)
  ultimately show ?thesis unfolding served_def by (metis subset_mset.order_trans)
qed

text \<open>One thread moves; the others hold what they held.\<close>

lemma thread_sum:
  fixes f :: "thread_point \<Rightarrow> nat multiset"
  assumes "n < length ts"
  shows "(\<Sum>t\<in>#mset ts. f t) = f (ts ! n) + (\<Sum>t\<in>#mset ts - {#ts ! n#}. f t)"
    and "(\<Sum>t\<in>#mset (ts[n := t']). f t) = f t' + (\<Sum>t\<in>#mset ts - {#ts ! n#}. f t)"
proof -
  have "mset ts = add_mset (ts ! n) (mset ts - {#ts ! n#})" using assms by simp
  then show "(\<Sum>t\<in>#mset ts. f t) = f (ts ! n) + (\<Sum>t\<in>#mset ts - {#ts ! n#}. f t)"
    by (metis image_mset_add_mset sum_mset.insert)
  show "(\<Sum>t\<in>#mset (ts[n := t']). f t) = f t' + (\<Sum>t\<in>#mset ts - {#ts ! n#}. f t)"
    using assms by (simp add: mset_update)
qed

definition others_hold :: "nat \<Rightarrow> pool \<Rightarrow> nat multiset" where
  "others_hold n p = acceptor_holds (pl_acceptor p) + mset (pl_pending p) +
     (\<Sum>t\<in>#mset (pl_threads p) - {#pl_threads p ! n#}. thread_holds t)"

definition others_serve :: "nat \<Rightarrow> pool \<Rightarrow> nat multiset" where
  "others_serve n p = (\<Sum>t\<in>#mset (pl_threads p) - {#pl_threads p ! n#}. thread_serves t)"

lemma held_split: "n < length (pl_threads p) \<Longrightarrow> held p = thread_holds (pl_threads p ! n) + others_hold n p"
  by (simp add: held_def others_hold_def thread_sum(1) ac_simps)

lemma served_split: "n < length (pl_threads p) \<Longrightarrow> served p = thread_serves (pl_threads p ! n) + others_serve n p"
  by (simp add: served_def others_serve_def thread_sum(1))

lemma set_thread_simps [simp]:
  "pl_impl (set_thread n t p) = pl_impl p" "pl_limits (set_thread n t p) = pl_limits p"
  "pl_listening (set_thread n t p) = pl_listening p" "pl_stopping (set_thread n t p) = pl_stopping p"
  "pl_connections (set_thread n t p) = pl_connections p" "pl_pending (set_thread n t p) = pl_pending p"
  "pl_active (set_thread n t p) = pl_active p" "pl_acceptor (set_thread n t p) = pl_acceptor p"
  "pl_stopper (set_thread n t p) = pl_stopper p" "pl_threads (set_thread n t p) = (pl_threads p)[n := t]"
  by (simp_all add: set_thread_def)

lemma set_connection_simps [simp]:
  "pl_impl (set_connection i c p) = pl_impl p" "pl_limits (set_connection i c p) = pl_limits p"
  "pl_listening (set_connection i c p) = pl_listening p" "pl_stopping (set_connection i c p) = pl_stopping p"
  "pl_connections (set_connection i c p) = (pl_connections p)[i := c]" "pl_pending (set_connection i c p) = pl_pending p"
  "pl_active (set_connection i c p) = pl_active p" "pl_acceptor (set_connection i c p) = pl_acceptor p"
  "pl_stopper (set_connection i c p) = pl_stopper p" "pl_threads (set_connection i c p) = pl_threads p"
  by (simp_all add: set_connection_def)

lemma held_set_thread:
  "n < length (pl_threads p) \<Longrightarrow> held (set_thread n t p) = thread_holds t + others_hold n p"
  by (simp add: held_def others_hold_def thread_sum(2) ac_simps)

lemma served_set_thread:
  "n < length (pl_threads p) \<Longrightarrow> served (set_thread n t p) = thread_serves t + others_serve n p"
  by (simp add: served_def others_serve_def thread_sum(2))

lemma others_frame [simp]:
  "others_hold n (set_connection i c p) = others_hold n p" "others_serve n (set_connection i c p) = others_serve n p"
  "others_hold n (p\<lparr>pl_impl := im\<rparr>) = others_hold n p" "others_serve n (p\<lparr>pl_impl := im\<rparr>) = others_serve n p"
  "others_hold n (p\<lparr>pl_active := is\<rparr>) = others_hold n p" "others_serve n (p\<lparr>pl_active := is\<rparr>) = others_serve n p"
  "others_serve n (p\<lparr>pl_pending := js\<rparr>) = others_serve n p"
  by (simp_all add: others_hold_def others_serve_def)

section \<open>The invariant is kept\<close>

text \<open>A thread that keeps the connection it holds, whatever it received, sent or called.\<close>

lemma pool_inv_keep:
  assumes inv: "pool_inv p" and n: "n < length (pl_threads p)"
    and same: "thread_holds t = thread_holds (pl_threads p ! n)" "thread_serves t = thread_serves (pl_threads p ! n)"
    and q: "pl_pending q = pl_pending p" "pl_active q = pl_active p" "pl_acceptor q = pl_acceptor p"
      "pl_threads q = pl_threads p" "pl_stopper q = pl_stopper p" "pl_stopping q = pl_stopping p" "pl_listening q = pl_listening p"
    and conn: "length (pl_connections q) = length (pl_connections p)"
      "\<And>i. i < length (pl_connections p) \<Longrightarrow> cn_open (pl_connections q ! i) \<Longrightarrow> cn_open (pl_connections p ! i)"
    and moved: "pl_threads p ! n \<noteq> ThreadReturned"
  shows "pool_inv (set_thread n t q)"
proof -
  have held: "held (set_thread n t q) = held p" and served: "served (set_thread n t q) = served p"
    using n same q held_set_thread [of n q t] served_set_thread [of n q t] held_split [OF n] served_split [OF n]
    by (simp_all add: others_hold_def others_serve_def)
  have "pl_stopper p \<noteq> Joined" using inv n moved unfolding pool_inv_def list_all_length by blast
  moreover have "i < length (pl_connections p)" if "i \<in># served p" for i
    using inv that mset_subset_eqD [OF served_le] unfolding pool_inv_def by blast
  ultimately show ?thesis
    using inv conn q unfolding pool_inv_def held served by auto
qed

text \<open>A thread that receives: what it gets of the connection is never more open than before.\<close>

lemma receive_frame_open: "receive_frame l c = Some (r, c') \<Longrightarrow> cn_open c' = cn_open c"
proof -
  have "receive_exact m c1 = Some (x, c2) \<Longrightarrow> cn_open c2 = cn_open c1" for m c1 x c2
    by (auto simp: receive_exact_def split: if_splits option.splits)
  then show "receive_frame l c = Some (r, c') \<Longrightarrow> cn_open c' = cn_open c"
    by (fastforce simp: receive_frame_def receive_payload_def Let_def split: option.splits sum.splits if_splits)
qed

lemma send_frame_open: "send_frame l f c = Some (s, c') \<Longrightarrow> cn_open c' = cn_open c"
  by (auto simp: send_frame_def send_all_def split: sum.splits if_splits option.splits)

lemma set_connection_open:
  "i < length (pl_connections p) \<Longrightarrow> j < length (pl_connections p) \<Longrightarrow> (cn_open c \<Longrightarrow> cn_open (pl_connections p ! i)) \<Longrightarrow>
   cn_open (pl_connections (set_connection i c p) ! j) \<Longrightarrow> cn_open (pl_connections p ! j)"
  by (cases "i = j") simp_all

lemma not_joined:
  "pool_inv p \<Longrightarrow> n < length (pl_threads p) \<Longrightarrow> pl_threads p ! n \<noteq> ThreadReturned \<Longrightarrow> pl_stopper p \<noteq> Joined"
  unfolding pool_inv_def list_all_length by blast

lemma thread_takes_pending:
  assumes inv: "pool_inv p" and n: "n < length (pl_threads p)" and at: "pl_threads p ! n = AwaitsWork"
    and pending: "pl_pending p = i # rest"
  shows "pool_inv (set_thread n (ChecksStop i) (p\<lparr>pl_pending := rest, pl_active := pl_active p @ [i]\<rparr>))"
    (is "pool_inv ?p")
proof -
  let ?q = "p\<lparr>pl_pending := rest, pl_active := pl_active p @ [i]\<rparr>"
  have held: "held ?p = held p"
    using held_set_thread [of n ?q "ChecksStop i"] held_split [OF n] n at pending by (simp add: others_hold_def)
  have served: "served ?p = add_mset i (served p)"
    using served_set_thread [of n ?q "ChecksStop i"] served_split [OF n] n at by simp
  have "pl_stopper p \<noteq> Joined" using not_joined [OF inv n] at by simp
  then show ?thesis using inv pending unfolding pool_inv_def held served by auto
qed

lemma thread_unlists:
  assumes inv: "pool_inv p" and n: "n < length (pl_threads p)" and at: "pl_threads p ! n = Unlists i"
  shows "pool_inv (set_thread n (Closes i) (p\<lparr>pl_active := filter (\<lambda>j. j \<noteq> i) (pl_active p)\<rparr>))" (is "pool_inv ?p")
proof -
  let ?q = "p\<lparr>pl_active := filter (\<lambda>j. j \<noteq> i) (pl_active p)\<rparr>"
  have held: "held ?p = held p" using held_set_thread [of n ?q "Closes i"] held_split [OF n] n at by simp
  have served: "served p = add_mset i (served ?p)"
    using served_set_thread [of n ?q "Closes i"] served_split [OF n] n at by simp
  have "count (served p) i \<le> 1" using inv mset_subset_eq_count [OF served_le, of p i] order.trans unfolding pool_inv_def by blast
  then have "i \<notin># served ?p" unfolding served by (simp add: not_in_iff)
  then have "filter_mset (\<lambda>j. j \<noteq> i) (add_mset i (served ?p)) = served ?p"
    by (intro multiset_eqI) (auto simp: not_in_iff)
  moreover have "mset (pl_active p) = add_mset i (served ?p)" using inv served unfolding pool_inv_def by simp
  ultimately have "mset (pl_active ?p) = served ?p" by simp
  moreover have "pl_stopper p \<noteq> Joined" using not_joined [OF inv n] at by simp
  ultimately show ?thesis using inv unfolding pool_inv_def held served by auto
qed

lemma thread_closes:
  assumes inv: "pool_inv p" and n: "n < length (pl_threads p)" and at: "pl_threads p ! n = Closes i"
  shows "pool_inv (set_thread n AwaitsWork (set_connection i (close (pl_connections p ! i)) p))" (is "pool_inv ?p")
proof (rule pool_invI)
  let ?q = "set_connection i (close (pl_connections p ! i)) p"
  obtain H where H: "held ?p = H" "held p = add_mset i H"
    using held_set_thread [of n ?q AwaitsWork] held_split [OF n] n at by simp
  have served: "served ?p = served p" using served_set_thread [of n ?q AwaitsWork] served_split [OF n] n at by simp
  have i: "i < length (pl_connections p)" using pool_invD(2) [OF inv, of i] H(2) by simp
  show "count (held ?p) j \<le> 1" for j
    using pool_invD(1) [OF inv, of j] unfolding H count_add_mset by (rule order.trans [rotated]) simp
  show "j < length (pl_connections ?p)" if "j \<in># held ?p" for j using that pool_invD(2) [OF inv, of j] H by simp
  show "j \<in># held ?p" if "j < length (pl_connections ?p)" "cn_open (pl_connections ?p ! j)" for j
    using that pool_invD(3) [OF inv, of j] i H by (cases "j = i") (simp_all add: close_def)
  have "pl_stopper p \<noteq> Joined" using not_joined [OF inv n] at by simp
  then show "pl_acceptor ?p = AcceptorReturned \<and> list_all (\<lambda>t. t = ThreadReturned) (pl_threads ?p)" if "pl_stopper ?p = Joined"
    using that by simp
  show "pl_pending ?p = [] \<and> (\<forall>j \<in># served ?p. \<not> cn_open (pl_connections ?p ! j))"
    if "pl_stopper ?p = Joining \<or> pl_stopper ?p = Joined"
    using that pool_invD(7) [OF inv] i unfolding served by (auto simp: nth_list_update close_def)
  show "mset (pl_active ?p) = served ?p" using pool_invD(4) [OF inv] unfolding served by simp
qed (use pool_invD(5,6) [OF inv] in simp_all)

lemma thread_step_inv:
  assumes inv: "pool_inv p" and n: "n < length (pl_threads p)" and step: "thread_step n p = Some p'"
  shows "pool_inv p'"
proof -
  have bound: "i < length (pl_connections p)" if "i \<in># thread_holds (pl_threads p ! n)" for i
    using inv that held_split [OF n] unfolding pool_inv_def by simp
  note keep = pool_inv_keep [OF inv n]
  show ?thesis
  proof (cases "pl_threads p ! n")
    case (ChecksStop i)
    then show ?thesis using step by (auto simp: thread_step_def intro!: keep)
  next
    case (Receives i)
    then obtain r c where r: "receive_frame (pl_limits p) (pl_connections p ! i) = Some (r, c)"
      using step by (auto simp: thread_step_def split: option.splits)
    have "cn_open (pl_connections (set_connection i c p) ! j) \<Longrightarrow> j < length (pl_connections p) \<Longrightarrow> cn_open (pl_connections p ! j)" for j
      using set_connection_open [of i p j c] bound [of i] receive_frame_open [OF r] Receives by simp
    then show ?thesis using step r Receives by (auto simp: thread_step_def split: sum.splits intro!: keep)
  next
    case (Dispatches i f)
    then show ?thesis using step by (auto simp: thread_step_def case_prod_beta intro!: keep)
  next
    case (Sends i f)
    then obtain s c where r: "send_frame (pl_limits p) f (pl_connections p ! i) = Some (s, c)"
      using step by (auto simp: thread_step_def split: option.splits)
    have "cn_open (pl_connections (set_connection i c p) ! j) \<Longrightarrow> j < length (pl_connections p) \<Longrightarrow> cn_open (pl_connections p ! j)" for j
      using set_connection_open [of i p j c] bound [of i] send_frame_open [OF r] Sends by simp
    then show ?thesis using step r Sends by (auto simp: thread_step_def intro!: keep)
  next
    case AwaitsWork
    show ?thesis
    proof (cases "pl_pending p")
      case Nil
      then show ?thesis using step AwaitsWork by (auto simp: thread_step_def split: if_splits intro!: keep)
    next
      case (Cons i rest)
      then show ?thesis using step AwaitsWork thread_takes_pending [OF inv n] by (simp add: thread_step_def)
    qed
  next
    case (Unlists i)
    then show ?thesis using step thread_unlists [OF inv n] by (simp add: thread_step_def)
  next
    case (Closes i)
    then show ?thesis using step thread_closes [OF inv n] by (simp add: thread_step_def)
  next
    case ThreadReturned
    then show ?thesis using step by (simp add: thread_step_def)
  qed
qed

text \<open>The acceptor and the stopper.\<close>

lemma served_frame [simp]:
  "served (p\<lparr>pl_acceptor := a\<rparr>) = served p" "served (p\<lparr>pl_connections := cs\<rparr>) = served p"
  "served (p\<lparr>pl_pending := is\<rparr>) = served p" "served (p\<lparr>pl_stopper := s\<rparr>) = served p"
  "served (p\<lparr>pl_stopping := b\<rparr>) = served p" "served (p\<lparr>pl_listening := b\<rparr>) = served p"
  "served (p\<lparr>pl_impl := im\<rparr>) = served p" "served (set_connection i c p) = served p"
  by (simp_all add: served_def)

lemma held_frame [simp]:
  "held (p\<lparr>pl_connections := cs\<rparr>) = held p" "held (p\<lparr>pl_stopper := s\<rparr>) = held p"
  "held (p\<lparr>pl_stopping := b\<rparr>) = held p" "held (p\<lparr>pl_listening := b\<rparr>) = held p"
  "held (p\<lparr>pl_impl := im\<rparr>) = held p" "held (set_connection i c p) = held p"
  by (simp_all add: held_def)

lemma held_acceptor: "held (p\<lparr>pl_acceptor := a\<rparr>) + acceptor_holds (pl_acceptor p) = held p + acceptor_holds a"
  by (simp add: held_def)

lemma acceptor_accepts:
  assumes inv: "pool_inv p" and at: "pl_acceptor p = Accepts"
  shows "pool_inv (p\<lparr>pl_connections := pl_connections p @ [c], pl_acceptor := Enqueues (length (pl_connections p))\<rparr>)"
    (is "pool_inv ?p")
proof (rule pool_invI)
  let ?n = "length (pl_connections p)"
  have held: "held ?p = add_mset ?n (held p)" using at by (simp add: held_def)
  have fresh: "?n \<notin># held p" using pool_invD(2) [OF inv, of ?n] by auto
  show "count (held ?p) j \<le> 1" for j using pool_invD(1) [OF inv, of j] fresh by (auto simp: held not_in_iff)
  show "j < length (pl_connections ?p)" if "j \<in># held ?p" for j
    using that pool_invD(2) [OF inv, of j] by (auto simp: held)
  show "j \<in># held ?p" if "j < length (pl_connections ?p)" "cn_open (pl_connections ?p ! j)" for j
    using that pool_invD(3) [OF inv, of j] by (cases "j = ?n") (auto simp: held nth_append)
  have "j < ?n" if "j \<in># served p" for j using pool_invD(2) [OF inv] mset_subset_eqD [OF served_le that] by blast
  then show "pl_pending ?p = [] \<and> (\<forall>j \<in># served ?p. \<not> cn_open (pl_connections ?p ! j))"
    if "pl_stopper ?p = Joining \<or> pl_stopper ?p = Joined"
    using that pool_invD(7) [OF inv] by (auto simp: nth_append)
  show "pl_acceptor ?p = AcceptorReturned \<and> list_all (\<lambda>t. t = ThreadReturned) (pl_threads ?p)" if "pl_stopper ?p = Joined"
    using that pool_invD(8) [OF inv] at by simp
qed (use pool_invD(4-6) [OF inv] in simp_all)

lemma acceptor_drops:
  assumes inv: "pool_inv p" and at: "pl_acceptor p = Enqueues i"
  shows "pool_inv ((set_connection i (close (pl_connections p ! i)) p)\<lparr>pl_acceptor := AcceptorReturned\<rparr>)" (is "pool_inv ?p")
proof (rule pool_invI)
  obtain H where H: "held ?p = H" "held p = add_mset i H" using at by (simp add: held_def)
  have i: "i < length (pl_connections p)" using pool_invD(2) [OF inv, of i] H(2) by simp
  show "count (held ?p) j \<le> 1" for j
    using pool_invD(1) [OF inv, of j] unfolding H count_add_mset by (rule order.trans [rotated]) simp
  show "j < length (pl_connections ?p)" if "j \<in># held ?p" for j using that pool_invD(2) [OF inv, of j] H by simp
  show "j \<in># held ?p" if "j < length (pl_connections ?p)" "cn_open (pl_connections ?p ! j)" for j
    using that pool_invD(3) [OF inv, of j] i H by (cases "j = i") (simp_all add: close_def)
  show "pl_pending ?p = [] \<and> (\<forall>j \<in># served ?p. \<not> cn_open (pl_connections ?p ! j))"
    if "pl_stopper ?p = Joining \<or> pl_stopper ?p = Joined"
    using that pool_invD(7) [OF inv] i by (auto simp: nth_list_update close_def)
  show "pl_acceptor ?p = AcceptorReturned \<and> list_all (\<lambda>t. t = ThreadReturned) (pl_threads ?p)" if "pl_stopper ?p = Joined"
    using that pool_invD(8) [OF inv] at by simp
qed (use pool_invD(4-6) [OF inv] in simp_all)

lemma acceptor_step_inv:
  assumes inv: "pool_inv p" and step: "acceptor_step wakes accepted p = Some p'"
  shows "pool_inv p'"
proof (cases "pl_acceptor p")
  case ChecksStopping
  then have "held (p\<lparr>pl_acceptor := a\<rparr>) = held p" if "acceptor_holds a = {#}" for a using that by (simp add: held_def)
  then show ?thesis using step inv ChecksStopping
    by (auto simp: acceptor_step_def intro!: pool_invI dest: pool_invD split: if_splits)
next
  case Accepts
  have "held (p\<lparr>pl_acceptor := AcceptorReturned\<rparr>) = held p" using Accepts by (simp add: held_def)
  then have "pool_inv (p\<lparr>pl_acceptor := AcceptorReturned\<rparr>)"
    using inv Accepts by (auto intro!: pool_invI dest: pool_invD)
  then show ?thesis using step Accepts acceptor_accepts [OF inv]
    by (auto simp: acceptor_step_def split: if_splits option.splits)
next
  case (Enqueues i)
  let ?p = "p\<lparr>pl_pending := pl_pending p @ [i], pl_acceptor := ChecksStopping\<rparr>"
  have "held ?p = held p" using Enqueues by (simp add: held_def)
  then have "pool_inv ?p" if "\<not> pl_stopping p"
    using that inv Enqueues pool_invD(5) [OF inv] by (auto intro!: pool_invI dest: pool_invD)
  then show ?thesis using step Enqueues acceptor_drops [OF inv] by (auto simp: acceptor_step_def split: if_splits)
next
  case AcceptorReturned
  then show ?thesis using step by (simp add: acceptor_step_def)
qed

lemma length_close_connections [simp]: "length (close_connections is cs) = length cs"
  by (simp add: close_connections_def)

lemma nth_close_connections:
  "i < length cs \<Longrightarrow> close_connections is cs ! i = (if i \<in> set is then close (cs ! i) else cs ! i)"
  by (simp add: close_connections_def nth_enumerate_eq)

lemma stopper_sweeps:
  assumes inv: "pool_inv p" and at: "pl_stopper p = ListenerClosed"
  shows "pool_inv (p\<lparr>pl_connections := close_connections (pl_active p @ pl_pending p) (pl_connections p),
    pl_pending := [], pl_stopper := Joining\<rparr>)" (is "pool_inv ?p")
proof (rule pool_invI)
  have held: "held p = held ?p + mset (pl_pending p)" by (simp add: held_def)
  show "count (held ?p) j \<le> 1" for j
    using pool_invD(1) [OF inv, of j] unfolding held count_union by simp
  show "j < length (pl_connections ?p)" if "j \<in># held ?p" for j using that pool_invD(2) [OF inv, of j] held by simp
  show "j \<in># held ?p" if "j < length (pl_connections ?p)" "cn_open (pl_connections ?p ! j)" for j
    using that pool_invD(3) [OF inv, of j] held by (auto simp: nth_close_connections close_def split: if_splits)
  have active: "set_mset (served p) = set (pl_active p)" using pool_invD(4) [OF inv] by (metis set_mset_mset)
  have "j < length (pl_connections p)" if "j \<in># served p" for j
    using pool_invD(2) [OF inv] mset_subset_eqD [OF served_le that] by blast
  then show "pl_pending ?p = [] \<and> (\<forall>j \<in># served ?p. \<not> cn_open (pl_connections ?p ! j))"
    by (simp add: active nth_close_connections close_def)
qed (use pool_invD(4-6) [OF inv] at in simp_all)

lemma stopper_step_inv:
  assumes inv: "pool_inv p" and step: "stopper_step p = Some p'"
  shows "pool_inv p'"
proof (cases "pl_stopper p")
  case ListenerClosed
  then show ?thesis using step stopper_sweeps [OF inv] by (simp add: stopper_step_def)
qed (use step pool_invD [OF inv] in \<open>auto simp: stopper_step_def intro!: pool_invI split: if_splits\<close>)

lemma pool_step_inv:
  assumes "pool_inv p" and "pool_step wakes p p'"
  shows "pool_inv p'"
  using assms(2)
proof cases
  case runtime
  then show ?thesis
  proof cases
    case (threads n)
    then show ?thesis by (rule thread_step_inv [OF assms(1)])
  next
    case (acceptor accepted)
    then show ?thesis by (rule acceptor_step_inv [OF assms(1)])
  next
    case stopper
    then show ?thesis by (rule stopper_step_inv [OF assms(1)])
  qed
next
  case (arrives i c arriving taking)
  show ?thesis unfolding arrives(1)
    using pool_invD [OF assms(1)] arrives(2,3) by (intro pool_invI) (auto simp: nth_list_update split: if_splits)
next
  case (local_call op)
  show ?thesis unfolding local_call using pool_invD [OF assms(1)] by (intro pool_invI) auto
qed

lemma pool_start_inv: "pool_inv (pool_start thread_count l im)"
proof -
  have "\<Sum>\<^sub># (replicate_mset n {#}) = {#}" for n by (induction n) simp_all
  then have "held (pool_start thread_count l im) = {#}" "served (pool_start thread_count l im) = {#}"
    by (simp_all add: pool_start_def held_def served_def)
  then show ?thesis by (intro pool_invI) (simp_all add: pool_start_def)
qed

section \<open>Runtimes that can be reached\<close>

lemma dispatch_reachable:
  assumes "reachable im" and "room (im_state im)"
  shows "reachable (snd (dispatch l f im))"
proof -
  have "run_in_room (requested l f) im"
    using assms(2) requested_at_most_one [of l f] by (cases "requested l f") simp_all
  then show ?thesis using reachable_run [OF assms(1)] by (simp add: dispatch_calls)
qed

lemma runtime_step_impl:
  assumes "runtime_step wakes p p'"
  shows "pl_impl p' = pl_impl p \<or> (\<exists>f. pl_impl p' = snd (dispatch (pl_limits p) f (pl_impl p)))"
  using assms
proof cases
  case (threads n)
  then show ?thesis
    by (cases "pl_threads p ! n")
      (auto simp: thread_step_def case_prod_beta split: list.splits if_splits option.splits sum.splits)
next
  case (acceptor accepted)
  then show ?thesis by (cases "pl_acceptor p") (auto simp: acceptor_step_def split: if_splits option.splits)
next
  case stopper
  then show ?thesis by (cases "pl_stopper p") (auto simp: stopper_step_def split: if_splits)
qed

lemma runtime_step_frame:
  assumes "runtime_step wakes p p'"
  shows "length (pl_threads p') = length (pl_threads p) \<and> pl_limits p' = pl_limits p"
  using assms
proof cases
  case (threads n)
  then show ?thesis
    by (cases "pl_threads p ! n")
      (auto simp: thread_step_def case_prod_beta split: list.splits if_splits option.splits sum.splits)
next
  case (acceptor accepted)
  then show ?thesis by (cases "pl_acceptor p") (auto simp: acceptor_step_def split: if_splits option.splits)
next
  case stopper
  then show ?thesis by (cases "pl_stopper p") (auto simp: stopper_step_def split: if_splits)
qed

lemma pool_reachable_facts:
  assumes "pool_reachable wakes p"
  shows "pool_inv p \<and> reachable (pl_impl p) \<and> length (pl_threads p) \<le> unat (max 1 (lm_max_worker_threads (pl_limits p)))"
  using assms
proof induction
  case (started im thread_count l)
  have "thread_bound l thread_count \<le> max 1 (lm_max_worker_threads l)"
    unfolding thread_bound_def by (simp add: max.coboundedI2 min.coboundedI2)
  then show ?case using started pool_start_inv by (simp add: pool_start_def word_le_nat_alt)
next
  case (stepped p p')
  from \<open>pool_step wakes p p'\<close>
  have "reachable (pl_impl p') \<and> length (pl_threads p') = length (pl_threads p) \<and> pl_limits p' = pl_limits p"
  proof cases
    case runtime
    then show ?thesis
      using runtime_step_impl [OF runtime] runtime_step_frame [OF runtime] stepped dispatch_reachable by auto
  qed (use stepped in \<open>auto intro: reachable.call\<close>)
  moreover have "pool_inv p'" using pool_step_inv [OF _ \<open>pool_step wakes p p'\<close>] stepped.IH by blast
  ultimately show ?case using stepped.IH by simp
qed

lemma size_served: "size (served p) \<le> length (pl_threads p)"
proof -
  have one: "size (thread_serves t) \<le> 1" for t by (cases t) simp_all
  have "size (\<Sum>t\<in>#mset ts. thread_serves t) \<le> length ts" for ts
  proof (induction ts)
    case (Cons t ts)
    then show ?case using one [of t] by simp
  qed simp
  then show ?thesis by (simp add: served_def)
qed

section \<open>Stopping\<close>

text \<open>Once the stopper has swept, every step of the runtime leaves less to do.\<close>

fun thread_rank :: "thread_point \<Rightarrow> nat" where
  "thread_rank ThreadReturned = 0"
| "thread_rank AwaitsWork = 1"
| "thread_rank (Closes i) = 2"
| "thread_rank (Unlists i) = 3"
| "thread_rank (ChecksStop i) = 4"
| "thread_rank (Receives i) = 4"
| "thread_rank (Sends i f) = 4"
| "thread_rank (Dispatches i f) = 5"

fun acceptor_rank :: "acceptor_point \<Rightarrow> nat" where
  "acceptor_rank AcceptorReturned = 0"
| "acceptor_rank _ = 1"

definition shutdown_work :: "pool \<Rightarrow> nat" where
  "shutdown_work p =
     sum_list (map thread_rank (pl_threads p)) + acceptor_rank (pl_acceptor p) + (if pl_stopper p = Joined then 0 else 1)"

lemma rank_update:
  "n < length ts \<Longrightarrow> thread_rank t < thread_rank (ts ! n) \<Longrightarrow>
   sum_list (map thread_rank (ts[n := t])) < sum_list (map thread_rank ts)"
  by (induction ts arbitrary: n) (auto simp: less_Suc_eq_0_disj nth_Cons split: nat.splits)

lemma receive_closed: "\<not> cn_open c \<Longrightarrow> \<exists>e. receive_frame l c = Some (Inl e, c)"
  by (simp add: receive_frame_def receive_exact_def)

lemma send_closed: "\<not> cn_open c \<Longrightarrow> \<exists>s. send_frame l f c = Some (s, c) \<and> \<not> st_ok s"
  by (auto simp: send_frame_def encode_frame_def send_all_def transport_error_def limits_error_def)

text \<open>A step of a thread that serves a closed connection, or none, while the runtime stops.\<close>

lemma thread_step_stopping:
  assumes inv: "pool_inv p" and at: "pl_stopper p = Joining" and n: "n < length (pl_threads p)"
    and busy: "pl_threads p ! n \<noteq> ThreadReturned"
  shows "\<exists>p' t. thread_step n p = Some p' \<and> pl_threads p' = (pl_threads p)[n := t] \<and>
    thread_rank t < thread_rank (pl_threads p ! n) \<and> pl_acceptor p' = pl_acceptor p \<and> pl_stopper p' = pl_stopper p"
proof -
  have stopping: "pl_stopping p" "pl_pending p = []" using pool_invD(5,7) [OF inv] at by simp_all
  have closed: "\<not> cn_open (pl_connections p ! i)" if "i \<in># thread_serves (pl_threads p ! n)" for i
    using pool_invD(7) [OF inv] at that served_split [OF n] by simp
  show ?thesis
  proof (cases "pl_threads p ! n")
    case (Receives i)
    then obtain e where "receive_frame (pl_limits p) (pl_connections p ! i) = Some (Inl e, pl_connections p ! i)"
      using receive_closed closed by fastforce
    then show ?thesis using Receives by (force simp: thread_step_def)
  next
    case (Sends i f)
    then obtain s where "send_frame (pl_limits p) f (pl_connections p ! i) = Some (s, pl_connections p ! i)" "\<not> st_ok s"
      using send_closed closed by fastforce
    then show ?thesis using Sends by (force simp: thread_step_def)
  qed (use stopping busy in \<open>force simp: thread_step_def case_prod_beta\<close>)+
qed

lemma stopping_step:
  assumes inv: "pool_inv p" and at: "pl_stopper p = Joining" and step: "runtime_step wakes p p'" and wakes: wakes
  shows "shutdown_work p' < shutdown_work p \<and> (pl_stopper p' = Joining \<or> pl_stopper p' = Joined)"
  using step
proof cases
  case (threads n)
  then have "pl_threads p ! n \<noteq> ThreadReturned" by (auto simp: thread_step_def)
  from thread_step_stopping [OF inv at threads(1) this] threads
  show ?thesis using at rank_update [OF threads(1)] by (auto simp: shutdown_work_def)
next
  case (acceptor accepted)
  have "pl_stopping p" "\<not> pl_listening p" using pool_invD(5,6) [OF inv] at by simp_all
  then show ?thesis
    using acceptor wakes at by (cases "pl_acceptor p") (auto simp: acceptor_step_def shutdown_work_def)
next
  case stopper
  then show ?thesis using at by (auto simp: stopper_step_def shutdown_work_def split: if_splits)
qed

lemma stopping_progress:
  assumes inv: "pool_inv p" and at: "pl_stopper p = Joining" and wakes: wakes
  shows "\<exists>p'. runtime_step wakes p p'"
proof -
  consider (acceptor) "pl_acceptor p \<noteq> AcceptorReturned"
    | (thread) n where "n < length (pl_threads p)" "pl_threads p ! n \<noteq> ThreadReturned"
    | (none) "pl_acceptor p = AcceptorReturned" "list_all (\<lambda>t. t = ThreadReturned) (pl_threads p)"
    unfolding list_all_length by blast
  then show ?thesis
  proof cases
    case acceptor
    have "pl_stopping p" "\<not> pl_listening p" using pool_invD(5,6) [OF inv] at by simp_all
    then have "\<exists>p'. acceptor_step wakes None p = Some p'"
      using acceptor wakes by (cases "pl_acceptor p") (simp_all add: acceptor_step_def)
    then show ?thesis by (blast intro: runtime_step.acceptor)
  next
    case thread
    then show ?thesis using thread_step_stopping [OF inv at] by (blast intro: runtime_step.threads)
  next
    case none
    then have "\<exists>p'. stopper_step p = Some p'" using at by (simp add: stopper_step_def)
    then show ?thesis by (blast intro: runtime_step.stopper)
  qed
qed

lemma stopping_ends:
  assumes "pool_inv p" and "pl_stopper p = Joining \<or> pl_stopper p = Joined" and wakes
  shows "\<exists>p'. (runtime_step wakes)\<^sup>*\<^sup>* p p' \<and> pl_stopper p' = Joined \<and> pool_inv p'"
  using assms(1,2)
proof (induction "shutdown_work p" arbitrary: p rule: less_induct)
  case less
  show ?case
  proof (cases "pl_stopper p = Joined")
    case False
    then have at: "pl_stopper p = Joining" using less.prems(2) by simp
    obtain p1 where p1: "runtime_step wakes p p1" using stopping_progress [OF less.prems(1) at assms(3)] by blast
    then have "pool_inv p1" using pool_step_inv [OF less.prems(1)] pool_step.runtime by blast
    then obtain p' where "(runtime_step wakes)\<^sup>*\<^sup>* p1 p'" "pl_stopper p' = Joined" "pool_inv p'"
      using less.hyps [of p1] stopping_step [OF less.prems(1) at p1 assms(3)] by blast
    then show ?thesis using p1 by (meson converse_rtranclp_into_rtranclp)
  qed (use less.prems in blast)
qed

lemma joined_stays:
  assumes inv: "pool_inv p" and at: "pl_stopper p = Joined"
  shows "\<not> runtime_step wakes p p'"
proof
  assume "runtime_step wakes p p'"
  then show False
  proof cases
    case (threads n)
    then show ?thesis using pool_invD(8) [OF inv] at by (auto simp: thread_step_def list_all_length)
  next
    case (acceptor accepted)
    then show ?thesis using pool_invD(8) [OF inv] at by (simp add: acceptor_step_def)
  next
    case stopper
    then show ?thesis using at by (simp add: stopper_step_def)
  qed
qed

lemma no_endless_stopping:
  assumes "pool_inv p" and "pl_stopper p = Joining" and wakes and "f 0 = p"
  shows "\<exists>n. \<not> runtime_step wakes (f n) (f (Suc n))"
proof (rule ccontr)
  assume "\<nexists>n. \<not> runtime_step wakes (f n) (f (Suc n))"
  then have steps: "runtime_step wakes (f n) (f (Suc n))" for n by blast
  have "pool_inv (f n) \<and> pl_stopper (f n) = Joining" for n
  proof (induction n)
    case (Suc n)
    then have "pool_inv (f (Suc n))" using pool_step_inv pool_step.runtime steps by blast
    moreover have "pl_stopper (f (Suc n)) \<noteq> Joined" using joined_stays [OF calculation] steps by blast
    ultimately show ?case using Suc stopping_step [OF _ _ steps assms(3)] by blast
  qed (use assms in simp)
  then have "shutdown_work (f (Suc n)) < shutdown_work (f n)" for n using stopping_step [OF _ _ steps assms(3)] by blast
  then have down: "Suc (shutdown_work (f (Suc n))) \<le> shutdown_work (f n)" for n by (simp add: Suc_leI)
  have "shutdown_work (f n) + n \<le> shutdown_work (f 0)" for n
  proof (induction n)
    case (Suc n)
    then show ?case using down [of n] by linarith
  qed simp
  from this [of "Suc (shutdown_work (f 0))"] show False by simp
qed

lemma returned_hold_nothing: "list_all (\<lambda>t. t = ThreadReturned) ts \<Longrightarrow> (\<Sum>t\<in>#mset ts. thread_holds t) = {#}"
  by (induction ts) simp_all

section \<open>Properties\<close>


text \<open>
  C20: no connection is served by two threads or lost: every connection has at most one holder among
  the acceptor, the queue and the threads, and every connection that is open has one. The list of
  active connections is what the threads serve, and there are no more threads than the limit allows.
\<close>

theorem pool_serves_each_connection_once:
  assumes "pool_reachable wakes p"
  shows "count (held p) i \<le> 1 \<and>
    (i < length (pl_connections p) \<and> cn_open (pl_connections p ! i) \<longrightarrow> i \<in># held p) \<and>
    mset (pl_active p) = served p \<and> length (pl_active p) \<le> length (pl_threads p) \<and>
    length (pl_threads p) \<le> unat (max 1 (lm_max_worker_threads (pl_limits p)))"
proof -
  have inv: "pool_inv p" and threads: "length (pl_threads p) \<le> unat (max 1 (lm_max_worker_threads (pl_limits p)))"
    using pool_reachable_facts [OF assms] by blast+
  have "length (pl_active p) \<le> length (pl_threads p)"
    using pool_invD(4) [OF inv] size_served [of p] by (metis size_mset)
  then show ?thesis using pool_invD [OF inv] threads by blast
qed


text \<open>
  The witnesses: a server with two threads over the coordinator of the scenario accepts a connection,
  queues it, and a thread takes it; the server that is stopped before any connection arrives.
\<close>

definition demo_pool :: pool where
  "demo_pool = pool_start 2 limits_defaults demo_claimed"

definition demo_serving :: pool where
  "demo_serving = demo_pool\<lparr>pl_connections := [trickle []], pl_active := [0],
     pl_threads := [ChecksStop 0, AwaitsWork]\<rparr>"

definition demo_stopping :: pool where
  "demo_stopping = demo_serving\<lparr>pl_stopping := True, pl_listening := False,
     pl_connections := [close (trickle [])], pl_stopper := Joining\<rparr>"

lemma demo_pool_reachable: "pool_reachable True demo_pool" "room (im_state (pl_impl demo_pool))"
proof -
  show "pool_reachable True demo_pool" unfolding demo_pool_def by (rule pool_reachable.started [OF demo_reachable(2)])
  show "room (im_state (pl_impl demo_pool))"
    using demo_room by (simp add: demo_pool_def pool_start_def run_in_room_append flip: demo_claimed_def)
qed

lemma runtime_reachable:
  "pool_reachable wakes p \<Longrightarrow> room (im_state (pl_impl p)) \<Longrightarrow> runtime_step wakes p p' \<Longrightarrow> pool_reachable wakes p'"
  by (blast intro: pool_reachable.stepped pool_step.runtime)

lemma demo_pool_threads: "pl_threads demo_pool = [AwaitsWork, AwaitsWork]"
proof -
  have "unat (thread_bound limits_defaults 2) = Suc (Suc 0)" by code_simp
  then show ?thesis by (simp add: demo_pool_def pool_start_def)
qed

lemma demo_serving_reachable: "pool_reachable True demo_serving"
proof -
  let ?accepting = "demo_pool\<lparr>pl_acceptor := Accepts\<rparr>"
  let ?accepted = "demo_pool\<lparr>pl_connections := [trickle []], pl_acceptor := Enqueues 0\<rparr>"
  let ?queued = "demo_pool\<lparr>pl_connections := [trickle []], pl_pending := [0], pl_acceptor := ChecksStopping\<rparr>"
  have start: "pl_acceptor demo_pool = ChecksStopping" "\<not> pl_stopping demo_pool" "pl_listening demo_pool"
    "pl_connections demo_pool = []" "pl_pending demo_pool = []" "pl_active demo_pool = []"
    by (simp_all add: demo_pool_def pool_start_def)
  have "pool_reachable True ?accepting"
    by (rule runtime_reachable [OF demo_pool_reachable], rule runtime_step.acceptor [of True None])
      (simp add: acceptor_step_def start)
  then have "pool_reachable True ?accepted"
    by (rule runtime_reachable [OF _ _ runtime_step.acceptor [of True "Some (trickle [])"]])
      (simp_all add: acceptor_step_def start demo_pool_reachable(2))
  then have "pool_reachable True ?queued"
    by (rule runtime_reachable [OF _ _ runtime_step.acceptor [of True None]])
      (simp_all add: acceptor_step_def start demo_pool_reachable(2))
  then show ?thesis
    by (rule runtime_reachable [OF _ _ runtime_step.threads [of 0]])
      (simp_all add: thread_step_def start demo_pool_reachable(2) demo_pool_threads set_thread_def demo_serving_def)
qed

lemma demo_stopping_reachable: "pool_reachable True demo_stopping"
proof -
  let ?flagged = "demo_serving\<lparr>pl_stopping := True, pl_stopper := StopFlagged\<rparr>"
  let ?closed = "demo_serving\<lparr>pl_stopping := True, pl_listening := False, pl_stopper := ListenerClosed\<rparr>"
  have start: "pl_stopper demo_serving = NotStopping" "pl_pending demo_serving = []" "pl_active demo_serving = [0]"
    "pl_connections demo_serving = [trickle []]" "pl_impl demo_serving = pl_impl demo_pool"
    by (simp_all add: demo_serving_def demo_pool_def pool_start_def)
  note step = runtime_reachable [OF _ _ runtime_step.stopper]
  have "pool_reachable True ?flagged"
    by (rule step [OF demo_serving_reachable]) (simp_all add: stopper_step_def start demo_pool_reachable(2))
  then have "pool_reachable True ?closed"
    by (rule step) (simp_all add: stopper_step_def start demo_pool_reachable(2))
  then show ?thesis
    by (rule step) (simp_all add: stopper_step_def start demo_pool_reachable(2) demo_stopping_def close_connections_def)
qed


theorem pool_serves_each_connection_once_witness:
  "count (held demo_serving) 0 \<le> 1 \<and> 0 \<in># held demo_serving \<and> mset (pl_active demo_serving) = served demo_serving"
proof -
  have "0 < length (pl_connections demo_serving)" "cn_open (pl_connections demo_serving ! 0)"
    by (simp_all add: demo_serving_def trickle_def)
  then show ?thesis using pool_serves_each_connection_once [OF demo_serving_reachable, of 0] by blast
qed


end
