(* ===== verification/Socket.thy ===== *)
theory Socket
  imports Transport
begin

text \<open>
  The other half of \<^verbatim>\<open>src/transport.cpp\<close>: resolving and connecting, binding and accepting. What the
  operating system answers to each call is an argument: the addresses a name resolves to, and for
  each whether a socket can be made and connected or bound. A socket that was made and not used is
  closed again; \<open>os_closed\<close> counts these, so that the lemmas can say that none is left open.
\<close>

section \<open>The socket runtime\<close>

definition ensure_initialised :: "bool \<Rightarrow> status" where
  "ensure_initialised initialised =
     (if initialised then success
      else transport_error EC_UNSUPPORTED (lit ''the platform socket runtime could not be initialised''))"

section \<open>Trying the addresses of a name\<close>

text \<open>
  One address: no socket can be made for it, the socket cannot be used, or it can; \<open>'s\<close> is what the
  use gives.
\<close>

datatype 's candidate = NoSocket | Unusable | Usable 's

record 's attempt_log =
  os_made :: nat
  os_closed :: nat
  os_socket :: "'s option"

fun try_candidates :: "'s candidate list \<Rightarrow> 's attempt_log \<Rightarrow> 's attempt_log" where
  "try_candidates [] log = log"
| "try_candidates (NoSocket # rest) log = try_candidates rest log"
| "try_candidates (Unusable # rest) log =
     try_candidates rest (log\<lparr>os_made := os_made log + 1, os_closed := os_closed log + 1\<rparr>)"
| "try_candidates (Usable s # rest) log = log\<lparr>os_made := os_made log + 1, os_socket := Some s\<rparr>"

definition no_attempts :: "'s attempt_log" where
  "no_attempts = \<lparr>os_made = 0, os_closed = 0, os_socket = None\<rparr>"

section \<open>Connections\<close>

text \<open>A connection with the name of its peer.\<close>

definition adopt :: "connection \<Rightarrow> string \<Rightarrow> connection \<times> string" where
  "adopt c peer = (c, peer)"

definition tcp_connect ::
    "bool \<Rightarrow> connection candidate list option \<Rightarrow> string \<Rightarrow> u16 \<Rightarrow> (connection \<times> string) result" where
  "tcp_connect initialised resolved host p =
     (if \<not> st_ok (ensure_initialised initialised) then Inl (ensure_initialised initialised)
      else case resolved of
          None \<Rightarrow> Inl (transport_error EC_NOT_FOUND (lit ''cannot resolve the coordinator endpoint''))
        | Some candidates \<Rightarrow>
            (case os_socket (try_candidates candidates no_attempts) of
               None \<Rightarrow> Inl (transport_error EC_NOT_FOUND (lit ''cannot connect to the coordinator endpoint''))
             | Some c \<Rightarrow> Inr (adopt c (host @ '':'' @ int_to_string (uint p)))))"

section \<open>Listeners\<close>

record listener =
  ls_open :: bool
  ls_port :: u16
  ls_address :: string

text \<open>\<open>named\<close>: the port that \<^verbatim>\<open>getsockname\<close> reports for an IPv4 address, when it reports one.\<close>

definition bind_listener :: "bool \<Rightarrow> unit candidate list option \<Rightarrow> u16 option \<Rightarrow> string \<Rightarrow> u16 \<Rightarrow> listener result" where
  "bind_listener initialised resolved named address p =
     (if \<not> st_ok (ensure_initialised initialised) then Inl (ensure_initialised initialised)
      else case resolved of
          None \<Rightarrow> Inl (transport_error EC_INVALID_ARGUMENT (lit ''cannot resolve the requested bind address''))
        | Some candidates \<Rightarrow>
            (case os_socket (try_candidates candidates no_attempts) of
               None \<Rightarrow> Inl (transport_error EC_TRANSPORT_FAILURE (lit ''cannot bind the coordinator control plane''))
             | Some s \<Rightarrow> Inr \<lparr>ls_open = True,
                 ls_port = (case named of None \<Rightarrow> p | Some q \<Rightarrow> q), ls_address = address\<rparr>))"

text \<open>\<open>accepted\<close>: what \<^verbatim>\<open>accept\<close> returns, with the numeric name of the peer when there is one.\<close>

definition accept_one :: "(connection \<times> (string \<times> string) option) option \<Rightarrow> listener \<Rightarrow> (connection \<times> string) result" where
  "accept_one accepted ls =
     (if \<not> ls_open ls then Inl (transport_error EC_NOT_FOUND (lit ''listener is closed''))
      else case accepted of
          None \<Rightarrow> Inl (transport_error EC_NOT_FOUND (lit ''listener was closed while waiting for a connection''))
        | Some (c, name) \<Rightarrow>
            Inr (adopt c (case name of None \<Rightarrow> lit ''unknown'' | Some (host, service) \<Rightarrow> host @ '':'' @ service)))"

definition close_listener :: "listener \<Rightarrow> listener" where
  "close_listener ls = ls\<lparr>ls_open := False\<rparr>"

section \<open>Nothing is left open\<close>

lemma try_candidates_balance:
  "os_made log = os_closed log \<Longrightarrow> os_socket log = None \<Longrightarrow>
   os_made (try_candidates cs log) =
     os_closed (try_candidates cs log) + (if os_socket (try_candidates cs log) = None then 0 else 1)"
  by (induction cs log rule: try_candidates.induct) simp_all

text \<open>The first address that can be used is used, and every other socket that was made is closed.\<close>

lemma try_candidates_first:
  "os_socket (try_candidates cs (no_attempts :: 's attempt_log)) =
     map_option (\<lambda>c. case c of Usable s \<Rightarrow> s) (find (\<lambda>c. \<exists>s. c = Usable s) cs)"
proof -
  have "os_socket log = None \<Longrightarrow> os_socket (try_candidates cs log) =
      map_option (\<lambda>c. case c of Usable s \<Rightarrow> s) (find (\<lambda>c. \<exists>s. c = Usable s) cs)" for log :: "'s attempt_log"
    by (induction cs log rule: try_candidates.induct) simp_all
  then show ?thesis by (simp add: no_attempts_def)
qed

lemma connect_leaks_no_socket:
  "os_made (try_candidates cs no_attempts) =
     os_closed (try_candidates cs no_attempts) + (if os_socket (try_candidates cs no_attempts) = None then 0 else 1)"
  by (rule try_candidates_balance) (simp_all add: no_attempts_def)

lemma connected_to_first_usable:
  "tcp_connect initialised (Some cs) host p = Inr (c, peer) \<longleftrightarrow>
     initialised \<and> find (\<lambda>c. \<exists>s. c = Usable s) cs = Some (Usable c) \<and> peer = host @ '':'' @ int_to_string (uint p)"
proof (cases "find (\<lambda>c. \<exists>s. c = Usable s) cs")
  case (Some u)
  then obtain s where "u = Usable s" using find_SomeD [OF Some] by blast
  then show ?thesis using Some
    by (auto simp: tcp_connect_def ensure_initialised_def try_candidates_first adopt_def transport_error_def)
qed (auto simp: tcp_connect_def ensure_initialised_def try_candidates_first transport_error_def)

end
