(* ===== verification/Network.thy ===== *)
theory Network
  imports Programs Pool Socket
begin

text \<open>
  The client, the worker and the server together. A sequence of remote calls returns what the same
  calls return on the coordinator at hand, and makes the same changes; a worker that runs a task over
  the network makes the calls it would make locally, and counts what the coordinator committed.
\<close>

section \<open>What a worker asks for\<close>

text \<open>
  The reference: the calls that a worker makes for an assignment, computed on the coordinator itself.
  The text is the reason for giving up on the observations, when there is one.
\<close>

fun publish_calls ::
    "trial_assignment \<Rightarrow> named_observation list \<Rightarrow> worker_process \<Rightarrow> impl \<Rightarrow> remote_call list \<times> string option" where
  "publish_calls a [] w im = ([], None)"
| "publish_calls a (named # rest) w im =
     (case find_last (\<lambda>m. am_name m = no_metric named) (ta_metrics a) of
        None \<Rightarrow> ([], Some (lit ''task produced an observation for a metric that was not assigned: '' @ no_metric named))
      | Some m \<Rightarrow>
          let x = RemotePublishObservation (publish_request w a m named);
              s = fst (local_call x im)
          in if \<not> st_ok s then ([x], Some (status_to_string s))
             else case publish_calls a rest w (snd (local_call x im)) of (xs, e) \<Rightarrow> (x # xs, e))"

definition assignment_calls :: "task_function \<Rightarrow> trial_assignment \<Rightarrow> worker_process \<Rightarrow> impl \<Rightarrow> remote_call list" where
  "assignment_calls task a w im =
     (let out = task a (task_context w a)
      in if \<not> to_succeeded out
           then [RemoteFailTrial (failure_request w a (to_failure_kind out) (to_failure_detail out) (to_retryable out))]
         else case publish_calls a (to_observations out) w im of
             (xs, None) \<Rightarrow> xs @ [RemoteCommitTrial (commit_request w a out)]
           | (xs, Some e) \<Rightarrow> xs @ [RemoteFailTrial (failure_request w a FK_INVALID_OBSERVATION e False)])"

fun assignments_calls ::
    "task_function \<Rightarrow> trial_assignment list \<Rightarrow> worker_process \<Rightarrow> impl \<Rightarrow> remote_call list" where
  "assignments_calls task [] w im = []"
| "assignments_calls task (a # as) w im =
     (let xs = assignment_calls task a w im
      in xs @ assignments_calls task as w (snd (local_calls xs im)))"

text \<open>How many of the calls commit a trial, and how many publish an observation.\<close>

fun is_commit :: "remote_call \<Rightarrow> bool" where
  "is_commit (RemoteCommitTrial q) = True"
| "is_commit _ = False"

fun is_publication :: "remote_call \<Rightarrow> bool" where
  "is_publication (RemotePublishObservation q) = True"
| "is_publication _ = False"

fun accepted_calls :: "(remote_call \<Rightarrow> bool) \<Rightarrow> remote_call list \<Rightarrow> impl \<Rightarrow> nat" where
  "accepted_calls P [] im = 0"
| "accepted_calls P (x # xs) im =
     (if P x \<and> st_ok (fst (local_call x im)) then 1 else 0) + accepted_calls P xs (snd (local_call x im))"

lemma accepted_calls_append:
  "accepted_calls P (xs @ ys) im = accepted_calls P xs im + accepted_calls P ys (snd (local_calls xs im))"
  by (induction xs arbitrary: im) (simp_all add: case_prod_beta)

section \<open>The worker over the network\<close>

definition same_worker :: "worker_process \<Rightarrow> worker_process \<Rightarrow> bool" where
  "same_worker w w' \<longleftrightarrow>
     wk_config w' = wk_config w \<and> wk_boot w' = wk_boot w \<and> wk_epoch w' = wk_epoch w \<and> wk_producer w' = wk_producer w"

lemma same_worker_trans: "same_worker u v \<Longrightarrow> same_worker v w \<Longrightarrow> same_worker u w"
  by (simp add: same_worker_def)

lemma same_worker_requests:
  assumes "same_worker w w'"
  shows "publish_request w' = publish_request w" and "failure_request w' = failure_request w"
    and "commit_request w' = commit_request w" and "task_context w' = task_context w"
    and "claim_request w' = claim_request w"
  using assms
  by (simp_all add: same_worker_def publish_request_def failure_request_def commit_request_def task_context_def
      claim_request_def fun_eq_iff)

lemma same_worker_calls:
  assumes "same_worker w w'"
  shows "publish_calls a ns w' im = publish_calls a ns w im"
    and "assignment_calls task a w' im = assignment_calls task a w im"
    and "assignments_calls task as w' im = assignments_calls task as w im"
proof -
  note same = same_worker_requests [OF assms]
  show p: "publish_calls a ns w' im = publish_calls a ns w im" for a ns im
    by (induction ns arbitrary: im) (simp_all add: same Let_def split: option.split)
  show a: "assignment_calls task a w' im = assignment_calls task a w im" for a im
    by (simp add: assignment_calls_def same p Let_def)
  show "assignments_calls task as w' im = assignments_calls task as w im"
    by (induction as arbitrary: im) (simp_all add: a Let_def)
qed

text \<open>The worker's client talks to the coordinator about the calls that are left.\<close>

definition engaged :: "worker_process \<Rightarrow> remote_call list \<Rightarrow> impl \<Rightarrow> bool" where
  "engaged w xs im \<longleftrightarrow>
     talks (wk_client w) (call_frames (ci_correlation (wk_client w)) xs) im \<and> conveyed (ci_limits (wk_client w)) xs im"

lemma engaged_call:
  assumes "engaged w (x # xs) im"
  obtains c' where "client_call x (wk_client w) = Some (fst (local_call x im), c')"
    and "engaged (w\<lparr>wk_client := c'\<rparr>) xs (snd (local_call x im))"
proof -
  obtain c' where "client_call x (wk_client w) = Some (fst (local_call x im), c')"
    "talks c' (call_frames (ci_correlation c') xs) (snd (local_call x im))"
    "conveyed (ci_limits c') xs (snd (local_call x im))"
    using assms client_call_talks unfolding engaged_def by blast
  then show thesis using that [of c'] by (simp add: engaged_def)
qed

lemma engaged_cong: "wk_client w' = wk_client w \<Longrightarrow> engaged w' xs im \<longleftrightarrow> engaged w xs im"
  by (simp add: engaged_def)

text \<open>What the worker counts against what the coordinator accepted.\<close>

definition counts :: "worker_process \<Rightarrow> worker_process \<Rightarrow> remote_call list \<Rightarrow> impl \<Rightarrow> bool" where
  "counts w w' xs im \<longleftrightarrow> same_worker w w' \<and>
     wk_published w' = wk_published w + of_nat (accepted_calls is_commit xs im) \<and>
     wk_published_observations w' = wk_published_observations w + of_nat (accepted_calls is_publication xs im)"

lemma counts_append:
  "counts w w1 xs im \<Longrightarrow> counts w1 w2 ys (snd (local_calls xs im)) \<Longrightarrow> counts w w2 (xs @ ys) im"
  by (auto simp: counts_def accepted_calls_append add.assoc intro: same_worker_trans)

lemma publish_observations_engaged:
  assumes "engaged w (xs @ ys) im" and "publish_calls a ns w im = (xs, e)"
  shows "\<exists>w'. publish_observations a ns w = Some (e = None, w') \<and> engaged w' ys (snd (local_calls xs im)) \<and>
    counts w w' xs im \<and> (\<forall>t. e = Some t \<longrightarrow> wk_last_error w' = t)"
  using assms
proof (induction ns arbitrary: w im xs)
  case Nil
  then show ?case by (simp add: counts_def same_worker_def)
next
  case (Cons named ns)
  show ?case
  proof (cases "find_last (\<lambda>m. am_name m = no_metric named) (ta_metrics a)")
    case None
    then show ?thesis using Cons.prems by (auto simp: counts_def same_worker_def engaged_def)
  next
    case (Some m)
    let ?x = "RemotePublishObservation (publish_request w a m named)"
    let ?s = "fst (publish_observation (publish_request w a m named) im)"
    let ?im = "snd (publish_observation (publish_request w a m named) im)"
    obtain zs where zs: "xs = ?x # zs" using Cons.prems(2) Some by (auto simp: Let_def split: if_splits prod.splits)
    obtain c' where c': "client_publish_observation (publish_request w a m named) (wk_client w) = Some (?s, c')"
      "engaged (w\<lparr>wk_client := c'\<rparr>) (zs @ ys) ?im"
      using engaged_call [of w ?x "zs @ ys" im] Cons.prems(1) zs by auto
    show ?thesis
    proof (cases "st_ok ?s")
      case False
      then have "zs = []" "e = Some (status_to_string ?s)" using Cons.prems(2) Some zs by (auto simp: Let_def)
      then show ?thesis using Some c' False zs
        by (auto simp: note_error_def counts_def same_worker_def engaged_def case_prod_beta)
    next
      case True
      let ?w = "count_observation (w\<lparr>wk_client := c'\<rparr>)"
      have w: "same_worker w ?w" "wk_client ?w = c'" "wk_published ?w = wk_published w"
        "wk_published_observations ?w = wk_published_observations w + 1"
        by (simp_all add: count_observation_def same_worker_def Let_def)
      have "publish_calls a ns ?w ?im = (zs, e)"
        using Cons.prems(2) Some True zs by (simp add: Let_def same_worker_calls [OF w(1)] split: prod.splits)
      moreover have "engaged ?w (zs @ ys) ?im" using c'(2) w(2) by (simp add: engaged_def)
      ultimately obtain w' where w': "publish_observations a ns ?w = Some (e = None, w')"
        "engaged w' ys (snd (local_calls zs ?im))" "counts ?w w' zs ?im" "\<forall>t. e = Some t \<longrightarrow> wk_last_error w' = t"
        using Cons.IH by blast
      have "counts w ?w [?x] im" using w True by (simp add: counts_def)
      then have "counts w w' ([?x] @ zs) im" using counts_append [of w ?w "[?x]" im w' zs] w'(3) by (simp add: case_prod_beta)
      then show ?thesis using Some c'(1) True w' zs by (simp add: case_prod_beta)
    qed
  qed
qed

lemma run_assignment_engaged:
  assumes "engaged w (xs @ ys) im" and "xs = assignment_calls task a w im"
  shows "\<exists>w'. run_assignment task a w = Some w' \<and> engaged w' ys (snd (local_calls xs im)) \<and> counts w w' xs im"
proof -
  let ?out = "task a (task_context w a)"
  show ?thesis
  proof (cases "to_succeeded ?out")
    case False
    let ?x = "RemoteFailTrial (failure_request w a (to_failure_kind ?out) (to_failure_detail ?out) (to_retryable ?out))"
    have xs: "xs = [?x]" using assms(2) False by (simp add: assignment_calls_def Let_def)
    then obtain c' where "client_call ?x (wk_client w) = Some (fst (local_call ?x im), c')"
      "engaged (w\<lparr>wk_client := c'\<rparr>) ys (snd (local_call ?x im))" using engaged_call [of w ?x ys im] assms(1) by auto
    then show ?thesis
      using False xs
      by (auto simp: run_assignment_def Let_def report_failure_def note_error_def counts_def same_worker_def engaged_def
          case_prod_beta)
  next
    case True
    obtain ps e where ps: "publish_calls a (to_observations ?out) w im = (ps, e)" by fastforce
    let ?im = "snd (local_calls ps im)"
    let ?x = "case e of None \<Rightarrow> RemoteCommitTrial (commit_request w a ?out)
      | Some t \<Rightarrow> RemoteFailTrial (failure_request w a FK_INVALID_OBSERVATION t False)"
    have xs: "xs = ps @ [?x]" using assms(2) True ps by (simp add: assignment_calls_def Let_def split: option.split)
    then obtain w1 where w1: "publish_observations a (to_observations ?out) w = Some (e = None, w1)"
      "engaged w1 (?x # ys) ?im" "counts w w1 ps im" "\<forall>t. e = Some t \<longrightarrow> wk_last_error w1 = t"
      using publish_observations_engaged [of w ps "?x # ys" im a "to_observations ?out" e] assms(1) ps by auto
    then obtain c' where c': "client_call ?x (wk_client w1) = Some (fst (local_call ?x ?im), c')"
      "engaged (w1\<lparr>wk_client := c'\<rparr>) ys (snd (local_call ?x ?im))" using engaged_call by blast
    note same = same_worker_requests [of w w1]
    have "same_worker w w1" using w1(3) by (simp add: counts_def)
    then have "\<exists>w'. run_assignment task a w = Some w' \<and> engaged w' ys (snd (local_call ?x ?im)) \<and> counts w1 w' [?x] ?im"
      using True w1 c'
      by (cases e) (auto simp: run_assignment_def Let_def commit_outcome_def report_invalid_def note_error_def same
          counts_def same_worker_def engaged_def)
    then show ?thesis
      using counts_append [OF w1(3), of _ "[?x]"] xs by (auto simp: local_calls_append case_prod_beta)
  qed
qed

lemma run_assignments_engaged:
  assumes "engaged w (assignments_calls task as w im) im"
  shows "\<exists>w'. run_assignments task as w = Some w' \<and> counts w w' (assignments_calls task as w im) im"
  using assms
proof (induction as arbitrary: w im)
  case Nil
  then show ?case by (simp add: counts_def same_worker_def)
next
  case (Cons a as)
  let ?xs = "assignment_calls task a w im"
  let ?im = "snd (local_calls ?xs im)"
  obtain w1 where w1: "run_assignment task a w = Some w1" "engaged w1 (assignments_calls task as w ?im) ?im" "counts w w1 ?xs im"
    using run_assignment_engaged [of w ?xs "assignments_calls task as w ?im" im task a] Cons.prems by (auto simp: Let_def)
  then have "assignments_calls task as w1 ?im = assignments_calls task as w ?im"
    using same_worker_calls(3) by (simp add: counts_def)
  then show ?case using Cons.IH [of w1 ?im] w1 counts_append [OF w1(3)] by (fastforce simp: Let_def)
qed

section \<open>Both ends\<close>

text \<open>The end of the server: it receives the request frames, and the system takes its replies.\<close>

definition attached :: "limits \<Rightarrow> connection \<Rightarrow> frame list \<Rightarrow> impl \<Rightarrow> bool" where
  "attached l s fs im \<longleftrightarrow>
     cn_open s \<and> delivered (cn_recv s) = wire l fs \<and> willing (length (wire l (replies l fs im))) (cn_send s)"

lemma attached_serve:
  assumes "attached l s fs im" and "talks c fs im" and "ci_limits c = l"
  shows "snd (serve l s im) = run (concat (map (requested l) fs)) im"
  using serve_answers [of s l fs im] assms unfolding attached_def talks_def by simp

definition claim_frame :: "u64 \<Rightarrow> claim_trial_request \<Rightarrow> frame" where
  "claim_frame k q = reply_frame MT_CLAIM_TRIAL k (encode_claim_trial q)"

lemma dispatch_claim:
  "dispatch l (claim_frame k q) im =
     (reply_frame MT_CLAIM_RESULT k (encode_claim_reply (fst (claim_trials q im))), snd (claim_trials q im))"
  using claim_trial_codec.decode_encode [where x = q and l = l]
  by (simp add: claim_frame_def dispatch_def dispatch_worker_request_def decoded_def decode_claim_trial_def case_prod_beta)

lemma client_claim_talks:
  assumes "talks c (claim_frame (ci_correlation c + 1) q # fs) im"
    and "claim_reply_bounded (ci_limits c) (fst (claim_trials q im))"
  obtains c' where "client_claim_trials q c = Some (Inr (fst (claim_trials q im)), c')"
    and "ci_limits c' = ci_limits c" and "ci_correlation c' = ci_correlation c + 1" and "talks c' fs (snd (claim_trials q im))"
proof -
  obtain c' where c': "exchange MT_CLAIM_TRIAL (encode_claim_trial q)
      (expect_reply MT_CLAIM_RESULT (lit ''unexpected reply type for claim'') decode_claim_reply) c =
      Some (decode_claim_reply (encode_claim_reply (fst (claim_trials q im))) (ci_limits c), c')"
    "ci_limits c' = ci_limits c" "ci_correlation c' = ci_correlation c + 1" "talks c' fs (snd (claim_trials q im))"
    using exchange_talks [OF assms(1) claim_frame_def dispatch_claim] by blast
  then show thesis
    using that claim_reply_codec.decode_encode [OF assms(2)] by (simp add: client_claim_trials_def decode_claim_reply_def)
qed

text \<open>A worker's cycle: one claim, then the calls of every assignment it was given.\<close>

lemma run_once_talks:
  assumes claim: "claim_trials (claim_request w) im = (r, im1)" and xs: "xs = assignments_calls task (cl_assignments r) w im1"
    and l: "l = ci_limits (wk_client w)" and k: "k = ci_correlation (wk_client w) + 1"
    and talk: "talks (wk_client w) (claim_frame k (claim_request w) # call_frames k xs) im"
    and fit: "claim_reply_bounded l r" "conveyed l xs im1" and some: "\<not> st_failed (cl_status r)" "cl_assignments r \<noteq> []"
  shows "\<exists>w'. run_once task w = Some (success, w') \<and> counts w w' xs im1"
proof -
  obtain c' where c': "client_claim_trials (claim_request w) (wk_client w) = Some (Inr r, c')"
    "ci_limits c' = l" "ci_correlation c' = k" "talks c' (call_frames k xs) im1"
    using client_claim_talks [OF talk [unfolded k]] claim fit(1) l k by auto
  let ?w = "w\<lparr>wk_client := c'\<rparr>"
  have same: "same_worker w ?w" by (simp add: same_worker_def)
  have "engaged ?w (assignments_calls task (cl_assignments r) ?w im1) im1"
    using c' fit(2) xs same_worker_calls(3) [OF same] by (simp add: engaged_def)
  then obtain w' where "run_assignments task (cl_assignments r) ?w = Some w'" "counts ?w w' xs im1"
    using run_assignments_engaged same_worker_calls(3) [OF same] xs by metis
  moreover from this have "counts w w' xs im1" by (simp add: counts_def same_worker_def)
  ultimately show ?thesis using c'(1) some by (simp add: run_once_def)
qed

section \<open>A connection in memory\<close>

text \<open>
  Two ends over which the bytes of each side reach the other one at a time; the witnesses use them
  with the scenario.
\<close>

definition taking :: "u8 list \<Rightarrow> connection \<Rightarrow> connection" where
  "taking bytes conn = conn\<lparr>cn_send := replicate (length bytes) (Takes 0)\<rparr>"

definition client_end :: "limits \<Rightarrow> frame list \<Rightarrow> impl \<Rightarrow> client" where
  "client_end l fs im =
     \<lparr>ci_connection = Some (taking (wire l fs) (trickle (wire l (replies l fs im)))), ci_limits = l,
      ci_correlation = 0, ci_observed = None\<rparr>"

definition server_end :: "limits \<Rightarrow> frame list \<Rightarrow> impl \<Rightarrow> connection" where
  "server_end l fs im = taking (wire l (replies l fs im)) (trickle (wire l fs))"

lemma taking_simps:
  "cn_open (taking bytes (trickle bs))" "delivered (cn_recv (taking bytes (trickle bs))) = bs"
  "willing (length bytes) (cn_send (taking bytes (trickle bs)))"
  using delivered_trickle [of bs] by (simp_all add: taking_def trickle_def willing_def)

lemma client_end_talks:
  "list_all (frame_ok l) fs \<Longrightarrow> list_all (frame_ok l) (replies l fs im) \<Longrightarrow> talks (client_end l fs im) fs im"
  by (simp add: talks_def client_end_def taking_simps)

lemma server_end_attached: "attached l (server_end l fs im) fs im"
  by (simp add: attached_def server_end_def taking_simps)

lemma client_end_simps: "ci_limits (client_end l fs im) = l" "ci_correlation (client_end l fs im) = 0"
  by (simp_all add: client_end_def)

text \<open>Bounds on lengths are compared as integers when they are evaluated.\<close>

lemma le_unat_uint: "n \<le> unat w \<longleftrightarrow> int n \<le> uint w"
  by (metis of_nat_le_iff uint_nat)

lemma text_within_code [code]:
  "text_within m l s \<longleftrightarrow> int (length s) \<le> uint m \<and> int (length s) \<le> uint (lm_max_persisted_string_bytes l)"
  by (simp only: text_within_def le_unat_uint)

lemma frame_ok_code [code]:
  "frame_ok l f \<longleftrightarrow>
     fr_version f = kProtocolVersion \<and> fr_type f \<noteq> MT_INVALID \<and>
     int (length (fr_payload f)) \<le> uint (lm_max_frame_payload_bytes l)"
  by (simp only: frame_ok_def le_unat_uint)

lemma status_block_bounded_code [code]:
  "status_block_bounded l s \<longleftrightarrow>
     text_within 1024 l (st_reason s) \<and> int (length (encode_status s)) \<le> uint (lm_max_frame_payload_bytes l)"
  by (simp only: status_block_bounded_def le_unat_uint)

lemma vector_within_code [code]:
  "vector_within m fits l xs \<longleftrightarrow> int (length xs) \<le> uint m \<and> list_all (fits l) xs"
  by (simp only: vector_within_def le_unat_uint list_all_iff)

fun call_replies :: "u64 \<Rightarrow> remote_call list \<Rightarrow> impl \<Rightarrow> frame list" where
  "call_replies k [] im = []"
| "call_replies k (x # xs) im =
     (case local_call x im of (s, im1) \<Rightarrow>
        (if st_failed s then make_error_frame (k + 1) s else make_ack_frame (k + 1) s) # call_replies (k + 1) xs im1)"

lemma call_frame_correlation [simp]: "fr_correlation (call_frame k x) = k"
  by (simp add: call_frame_def)

lemma replies_to_calls: "conveyed l xs im \<Longrightarrow> replies l (call_frames k xs) im = call_replies k xs im"
  by (induction xs arbitrary: k im)
    (auto simp: dispatch_call acknowledge_def case_prod_beta)

definition demo_calls :: "remote_call list" where
  "demo_calls = [RemotePublishObservation demo_observation, RemoteCommitTrial demo_commit]"

lemma demo_calls_conveyed: "conveyed limits_defaults demo_calls demo_claimed"
  by code_simp

lemma demo_calls_fit:
  "list_all (frame_ok limits_defaults) (call_frames 0 demo_calls)"
  "list_all (frame_ok limits_defaults) (replies limits_defaults (call_frames 0 demo_calls) demo_claimed)"
proof -
  show "list_all (frame_ok limits_defaults) (call_frames 0 demo_calls)" by code_simp
  have "list_all (frame_ok limits_defaults) (call_replies 0 demo_calls demo_claimed)" by code_simp
  then show "list_all (frame_ok limits_defaults) (replies limits_defaults (call_frames 0 demo_calls) demo_claimed)"
    by (simp add: replies_to_calls [OF demo_calls_conveyed])
qed

text \<open>The worker of the scenario, before its first claim; its task measures the metric once.\<close>

definition demo_ready :: impl where
  "demo_ready = run [CreateExperiment demo_spec, CreateTrial (from_value 1) (from_value 2) [], RegisterWorker demo_register] demo_start"

definition demo_task :: task_function where
  "demo_task a x =
     \<lparr>to_succeeded = True, to_failure_kind = FK_EXECUTION_FAILURE, to_failure_detail = [], to_retryable = False,
      to_observations = [\<lparr>no_metric = ''m'', no_validity = OV_VALID,
        no_value = \<lparr>mv_kind = MK_INTEGER, mv_real = d_zero, mv_integer = 3, mv_boolean = False, mv_category = []\<rparr>,
        no_detail = []\<rparr>],
      to_artifacts = [], to_result_payload = []\<rparr>"

definition demo_worker :: "client \<Rightarrow> worker_process" where
  "demo_worker c =
     \<lparr>wk_config = \<lparr>wc_worker = from_value 7, wc_forced_boot = Some (from_value 9), wc_endpoint = [], wc_fingerprint = [],
        wc_limits = limits_defaults, wc_max_concurrent_assignments = 1, wc_frame_log = False, wc_progress_hook = False\<rparr>,
      wk_client = c, wk_boot = from_value 9, wk_epoch = from_value 1, wk_producer = from_value 1,
      wk_published = 0, wk_failed = 0, wk_last_error = [], wk_published_observations = 0, wk_progress = []\<rparr>"

definition demo_assignment :: trial_assignment where
  "demo_assignment = \<lparr>ta_envelope = demo_envelope, ta_attempt_number = from_value 1, ta_trial_payload = [], ta_parameters = [],
     ta_metrics = [\<lparr>am_metric = from_value 1, am_observation_id = from_value 1, am_name = ''m'', am_kind = MK_INTEGER,
       am_direction = MD_MAXIMIZE, am_required = True\<rparr>],
     ta_artifact_ids = [], ta_planned_observations = 1\<rparr>"

definition demo_reply :: claim_trial_reply where
  "demo_reply = \<lparr>cl_status = success, cl_assignments = [demo_assignment]\<rparr>"

lemma demo_claim_granted: "claim_trials demo_claim demo_ready = (demo_reply, demo_claimed)"
proof (rule prod_eqI)
  show "fst (claim_trials demo_claim demo_ready) = fst (demo_reply, demo_claimed)" by code_simp
  show "snd (claim_trials demo_claim demo_ready) = snd (demo_reply, demo_claimed)"
    by (simp add: demo_ready_def demo_claimed_def demo_setup_def)
qed

lemma demo_claim_request: "claim_request (demo_worker c) = demo_claim"
  by (simp add: claim_request_def demo_worker_def demo_claim_def)

lemma demo_work: "assignments_calls demo_task [demo_assignment] (demo_worker c) demo_claimed = demo_calls"
  using demo_published
  by (simp add: assignment_calls_def demo_task_def find_last_def demo_assignment_def publish_request_def commit_request_def
      demo_worker_def demo_calls_def demo_observation_def demo_commit_def demo_envelope_def Let_def)

lemma demo_counts:
  "accepted_calls is_commit demo_calls demo_claimed = 1" "accepted_calls is_publication demo_calls demo_claimed = 1"
  using demo_published demo_completed by (simp_all add: demo_calls_def demo_observed_def)

lemma demo_reply_bounded: "claim_reply_bounded limits_defaults demo_reply"
  by code_simp

definition demo_frames :: "frame list" where
  "demo_frames = claim_frame 1 demo_claim # call_frames 1 demo_calls"

lemma demo_frames_fit:
  "list_all (frame_ok limits_defaults) demo_frames"
  "list_all (frame_ok limits_defaults) (replies limits_defaults demo_frames demo_ready)"
proof -
  show "list_all (frame_ok limits_defaults) demo_frames" by code_simp
  have "frame_ok limits_defaults (reply_frame MT_CLAIM_RESULT 1 (encode_claim_reply demo_reply))"
    "list_all (frame_ok limits_defaults) (call_replies 1 demo_calls demo_claimed)" by code_simp+
  then show "list_all (frame_ok limits_defaults) (replies limits_defaults demo_frames demo_ready)"
    using replies_to_calls [OF demo_calls_conveyed] by (simp add: demo_frames_def dispatch_claim demo_claim_granted)
qed

section \<open>Properties\<close>







section \<open>Replaying a log\<close>



end
