(* ===== verification/Durability.thy ===== *)
theory Durability
  imports Scenario
begin

text \<open>
  What an acknowledgement means when processes die. A fact about the state that later states keep,
  and that is on disk when a call returns, is found again by every process that starts on the image
  that any later calls leave. A committed trial and a decision are such facts.
\<close>

section \<open>Facts that last\<close>

locale lasting =
  fixes fact :: "coordinator_state \<Rightarrow> bool"
  assumes kept: "fact s \<Longrightarrow> state_advances s s' \<Longrightarrow> fact s'"
begin

lemma on_disk:
  assumes "coord_inv im" and "im_disk im = Some d" and "fact d" and "fact (im_state im)" and "run_in_room ops im"
  shows "\<exists>d. im_disk (run ops im) = Some d \<and> fact d \<and> state_inv d"
proof -
  have "coord_inv (run ops im)" "disk_follows im (run ops im)"
    using run_sound [OF assms(5)] assms(1) by (auto simp: sound_def)
  then show ?thesis using kept [OF assms(4)] assms(2,3) by (fastforce simp: disk_follows_def coord_inv_def)
qed

lemma after_restart:
  assumes "state_inv d" and "fact d" and "cg_state_path cfg \<noteq> []" and "create cfg (Image (Inr d)) faults = Inr im"
  shows "fact (im_state im)"
proof -
  have "image_inv (Image (Inr d))" using assms(1) by (simp add: image_inv_def)
  moreover have "load_state cfg (Image (Inr d)) (im_state (new_impl cfg faults)) = Inr d"
    using assms(3) by (simp add: load_state_def)
  ultimately show ?thesis using create_sound(3) [OF _ assms(4)] kept [OF assms(2)] by blast
qed

lemma survives:
  assumes "coord_inv im" and "im_disk im = Some (im_state im)" and "fact (im_state im)" and "run_in_room ops im"
  shows "\<exists>d. im_disk (run ops im) = Some d \<and> fact d \<and>
    (\<forall>cfg faults im'. cg_state_path cfg \<noteq> [] \<longrightarrow> create cfg (Image (Inr d)) faults = Inr im' \<longrightarrow> fact (im_state im'))"
  using on_disk [OF assms(1,2,3,3,4)] after_restart by blast

end

definition completed_in :: "experiment_id \<Rightarrow> trial_id \<Rightarrow> trial_attempt_id \<Rightarrow> coordinator_state \<Rightarrow> bool" where
  "completed_in key tid aid s =
     (case map_of (cs_experiments s) key of
        None \<Rightarrow> False
      | Some r \<Rightarrow>
          (case map_of (er_trials r) tid of
             None \<Rightarrow> False
           | Some t \<Rightarrow> tr_state t = TS_COMPLETED \<and> tr_authoritative_attempt t = aid))"

definition decided_in :: "experiment_id \<Rightarrow> decision \<Rightarrow> coordinator_state \<Rightarrow> bool" where
  "decided_in key dec s =
     (case map_of (cs_experiments s) key of None \<Rightarrow> False | Some r \<Rightarrow> dec \<in> set (er_decisions r))"

interpretation completed: lasting "completed_in key tid aid"
proof
  fix s s' assume "completed_in key tid aid s" and adv: "state_advances s s'"
  then obtain r t where r: "map_of (cs_experiments s) key = Some r" "map_of (er_trials r) tid = Some t"
    and t: "tr_state t = TS_COMPLETED" "tr_authoritative_attempt t = aid"
    by (auto simp: completed_in_def split: option.splits)
  from adv r(1) obtain r' where r': "map_of (cs_experiments s') key = Some r'" "evolves r r'"
    unfolding state_advances_def by blast
  then have "map_of (er_trials r') tid = Some t" using r(2) t(1) unfolding evolves_def trial_later_def by force
  then show "completed_in key tid aid s'" using r'(1) t by (simp add: completed_in_def)
qed

interpretation decided: lasting "decided_in key dec"
proof
  fix s s' assume "decided_in key dec s" and adv: "state_advances s s'"
  then obtain r where r: "map_of (cs_experiments s) key = Some r" "dec \<in> set (er_decisions r)"
    by (auto simp: decided_in_def split: option.splits)
  from adv r(1) obtain r' where r': "map_of (cs_experiments s') key = Some r'" "evolves r r'"
    unfolding state_advances_def by blast
  then have "dec \<in> set (er_decisions r')" using r(2) set_mono_prefix unfolding evolves_def by blast
  then show "decided_in key dec s'" using r'(1) by (simp add: decided_in_def)
qed

section \<open>Committing a trial\<close>

lemma register_artifacts_config [simp]: "im_config (snd (register_artifacts key tid a arts im)) = im_config im"
proof (induction arts arbitrary: im)
  case (Cons submitted rest)
  have same: "im_config (index_artifact x n l i) = im_config i" "im_config (put_experiment x r i) = im_config i" for x n l r i
    by (simp_all add: index_artifact_def put_experiment_def)
  show ?case by (auto simp: Cons.IH same Let_def case_prod_beta split: option.split sum.split)
qed simp

lemma register_artifacts_refusal: "fst (register_artifacts key tid a arts im) = Inl e \<Longrightarrow> \<not> st_ok e"
proof (induction arts arbitrary: im e)
  case (Cons submitted rest)
  show ?case
  proof (cases "find_experiment im key")
    case (Some r)
    show ?thesis
    proof (cases "map_of (er_trials r) tid")
      case (Some t)
      let ?room = "artifact_room (im_limits im) r t" and ?located = "locator_check (im_limits im) submitted"
      show ?thesis
      proof (cases "st_ok ?room \<and> st_ok ?located")
        case True
        then show ?thesis
          using Cons \<open>find_experiment im key = Some r\<close> Some
          by (auto simp: Let_def case_prod_beta split: if_splits sum.splits)
      qed (use Cons.prems \<open>find_experiment im key = Some r\<close> Some in \<open>auto simp: Let_def split: if_splits\<close>)
    qed (use Cons.prems Some in simp)
  qed (use Cons.prems in simp)
qed simp

lemma commit_checked_durable:
  assumes inv: "coord_inv im" and r: "find_experiment im key = Some r" and pair: "live_pair t a r"
    and path: "cg_state_path (im_config im) \<noteq> []" and ok: "st_ok (fst (commit_checked key r t a arts im))"
  defines "im' \<equiv> snd (commit_checked key r t a arts im)"
  shows "im_disk im' = Some (im_state im') \<and> completed_in key (tr_id t) (at_id a) (im_state im')"
proof -
  let ?im1 = "snd (next_sequence im)" and ?seq = "fst (next_sequence im)"
  have inv1: "coord_inv ?im1" using inv sound_sequence by (simp add: sound_def)
  have r1: "find_experiment ?im1 key = Some r" using r by (simp add: find_experiment_def)
  have live: "has_live_pair (tr_id t) (at_id a) r" using pair by (auto simp: has_live_pair_def)
  define im2 where "im2 = snd (register_artifacts key (tr_id t) a arts ?im1)"
  obtain r2 where r2: "find_experiment im2 key = Some r2" "has_live_pair (tr_id t) (at_id a) r2" and "coord_inv im2"
    using sound_register_artifacts [OF inv1 r1 live, of a arts] inv1 by (auto simp: sound_def im2_def)
  then have rec: "rec_inv r2" using coord_inv_record by blast
  let ?im3 = "put_experiment key (complete_trial (tr_id t) (at_id a) ?seq r2) im2"
  have committed: "commit_checked key r t a arts im = commit_status (\<lambda>i. i) (\<lambda>i. i) ?im3"
    using ok pair register_artifacts_refusal [of key "tr_id t" a arts ?im1] r2(1)
    by (auto simp: commit_checked_def live_pair_def live_trial_def case_prod_beta im2_def
        invalid_transition_status_def simp del: next_sequence_simps
        split: sum.splits if_splits)
  have config: "im_config ?im3 = im_config im" by (simp add: put_experiment_def im2_def)
  have saved: "im' = snd (persist_locked ?im3)" "st_ok (fst (persist_locked ?im3))"
    using ok unfolding im'_def committed by (simp_all add: commit_status_def case_prod_beta split: if_splits)
  then have disk: "im_disk im' = Some (im_state ?im3)" "im_state im' = im_state ?im3"
    using path persist_locked_durable [of ?im3] config by simp_all
  obtain t2 a2 where t2: "tr_id t2 = tr_id t" "at_id a2 = at_id a" "live_pair t2 a2 r2"
    using r2(2) by (auto simp: has_live_pair_def)
  then have "map_of (er_trials r2) (tr_id t) = Some t2" "tr_authoritative_attempt t2 = at_id a"
    using live_pair_auth [OF rec t2(3)] by (simp_all add: live_pair_def)
  then have "completed_in key (tr_id t) (at_id a) (im_state ?im3)"
    by (simp add: completed_in_def put_experiment_def complete_trial_def map_of_omap_modify)
  then show ?thesis using disk by simp
qed

text \<open>A verdict that rejects carries an error.\<close>

lemma rejection_codes [simp]: "av_code (reject c m) = c" "av_code (null_field m) = EC_INVALID_ARGUMENT"
  by (simp_all add: reject_def null_field_def verdict_reject_def)

lemma rejecting_checks:
  "check_worker im e = Some v \<Longrightarrow> av_code v \<noteq> EC_OK" "check_experiment r e = Some v \<Longrightarrow> av_code v \<noteq> EC_OK"
  "check_envelope_branch r e = Some v \<Longrightarrow> av_code v \<noteq> EC_OK" "check_envelope_trial t e = Some v \<Longrightarrow> av_code v \<noteq> EC_OK"
  "check_envelope_attempt a e = Some v \<Longrightarrow> av_code v \<noteq> EC_OK"
  "\<not> av_accepted (validate_envelope_structure e) \<Longrightarrow> av_code (validate_envelope_structure e) \<noteq> EC_OK"
  by (auto simp: check_worker_def check_experiment_def check_envelope_branch_def check_envelope_trial_def
      check_envelope_attempt_def validate_envelope_structure_def Let_def split: if_splits option.splits)

lemma rejection_is_error:
  assumes "\<not> av_accepted (check_envelope im e)"
  shows "av_code (check_envelope im e) \<noteq> EC_OK"
proof -
  have "av_code (check_record r e) \<noteq> EC_OK" if "\<not> av_accepted (check_record r e)" for r
    using that by (auto simp: check_record_def dest: rejecting_checks split: option.splits)
  then show ?thesis
    using assms by (auto simp: check_envelope_def Let_def dest: rejecting_checks split: option.splits if_splits)
qed

lemma commit_trial_durable:
  assumes inv: "coord_inv im" and path: "cg_state_path (im_config im) \<noteq> []" and ok: "st_ok (fst (commit_trial q im))"
  defines "e \<equiv> cm_envelope q" and "im' \<equiv> snd (commit_trial q im)"
  shows "im_disk im' = Some (im_state im') \<and> completed_in (ae_experiment e) (ae_trial e) (ae_attempt e) (im_state im')"
proof -
  have "av_accepted (check_envelope im e)"
    using ok rejection_is_error
    by (auto simp: commit_trial_def e_def Let_def authority_error_def protocol_error_def st_ok_def make_error_def split: if_splits)
  then obtain r t a where h: "holds_authority im e r t a" by (auto simp: check_envelope_accepts)
  have commit: "commit_trial q im = commit_checked (ae_experiment e) r t a (cm_artifacts q) im"
    using ok h \<open>av_accepted (check_envelope im e)\<close>
    by (auto simp: commit_trial_def e_def holds_authority_def Let_def protocol_error_def split: if_splits)
  note pair = authority_pair [OF inv h]
  show ?thesis
    using commit_checked_durable [OF inv pair(4,1) path, of "cm_artifacts q"] ok pair(2,3) by (simp add: commit im'_def)
qed

text \<open>
  C6: Once a coordinator with a state file acknowledged a commit, the trial stays completed by that
  attempt: whatever calls follow, the image on disk says so, and so does the state of every process that
  starts on it.
\<close>

theorem acknowledged_commit_survives:
  assumes "reachable im" and "room (im_state im)" and "cg_state_path (im_config im) \<noteq> []"
    and "st_ok (fst (commit_trial q im))" and "run_in_room ops (snd (commit_trial q im))"
  shows "\<exists>d. im_disk (run ops (snd (commit_trial q im))) = Some d \<and>
    completed_in (ae_experiment (cm_envelope q)) (ae_trial (cm_envelope q)) (ae_attempt (cm_envelope q)) d \<and>
    (\<forall>cfg faults im'. cg_state_path cfg \<noteq> [] \<longrightarrow> create cfg (Image (Inr d)) faults = Inr im' \<longrightarrow>
      completed_in (ae_experiment (cm_envelope q)) (ae_trial (cm_envelope q)) (ae_attempt (cm_envelope q)) (im_state im'))"
proof -
  have inv: "coord_inv im" by (rule reachable_inv [OF assms(1)])
  have "coord_inv (snd (commit_trial q im))" using sound_commit_trial [of im q] inv by (simp add: sound_def)
  then show ?thesis
    using commit_trial_durable [OF inv assms(3,4)] completed.survives [OF _ _ _ assms(5)] by blast
qed

lemma acknowledged_commit_survives_witness:
  "\<exists>d. im_disk (run demo_cancel demo_committed) = Some d \<and>
     completed_in (from_value 1) (from_value 1) (from_value 1) d"
proof -
  have q: "ae_experiment (cm_envelope demo_commit) = from_value 1" "ae_trial (cm_envelope demo_commit) = from_value 1"
    "ae_attempt (cm_envelope demo_commit) = from_value 1"
    by (simp_all add: demo_commit_def demo_envelope_def)
  have im: "snd (commit_trial demo_commit demo_observed) = demo_committed" by (simp add: demo_committed_def)
  have room: "room (im_state demo_observed)"
    using demo_room by (simp add: run_in_room_append demo_observed_def demo_claimed_def run_append)
  have path: "cg_state_path (im_config demo_observed) \<noteq> []" by code_simp
  show ?thesis
    using acknowledged_commit_survives [OF demo_reachable(3) room path demo_completed, of demo_cancel] demo_cancel_room
    unfolding im q by blast
qed

section \<open>Deciding an experiment\<close>

text \<open>What a decision leaves to be committed to disk.\<close>

definition pending_decision :: "experiment_id \<Rightarrow> branch_id \<Rightarrow> string \<Rightarrow> impl \<Rightarrow> experiment_record \<Rightarrow> decision \<times> impl" where
  "pending_decision key candidate reason im r =
     (let (sequence, im1) = next_sequence im; (did, im2) = alloc_decision_id im1;
          plain = build_decision r candidate did sequence;
          built = (if reason \<noteq> [] then plain\<lparr>de_reason := de_reason plain @ lit ''; caller reason: '' @ reason\<rparr> else plain);
          (points, im3) = (if records_point (de_outcome built)
            then (case alloc_rollback_id im2 of (rid, i) \<Rightarrow> ([decision_point key r built rid sequence], i)) else ([], im2))
      in (built, put_experiment key (finalize_record built points sequence r) im3))"

lemma finalize_commits:
  assumes "find_experiment im key = Some r" and "er_state r \<noteq> ES_FINALIZED"
    and "length (er_decisions r) < unat (lm_max_decisions_per_experiment (im_limits im))"
  shows "finalize_experiment key candidate reason im =
    (case pending_decision key candidate reason im r of (dec, im') \<Rightarrow> commit_result (\<lambda>i. i) (notify_decision dec) dec im')"
  using assms by (simp add: finalize_experiment_def pending_decision_def case_prod_beta Let_def)

lemma finalize_admits:
  assumes "fst (finalize_experiment key candidate reason im) = Inr dec"
  obtains r where "find_experiment im key = Some r" and "er_state r \<noteq> ES_FINALIZED"
    and "length (er_decisions r) < unat (lm_max_decisions_per_experiment (im_limits im))"
  using assms by (auto simp: finalize_experiment_def not_le split: option.splits if_splits)

lemma pending_frame:
  "im_config (snd (pending_decision key candidate reason im r)) = im_config im"
  "im_limits (snd (pending_decision key candidate reason im r)) = im_limits im"
  "im_faults (snd (pending_decision key candidate reason im r)) = im_faults im"
  "cs_format_version (im_state (snd (pending_decision key candidate reason im r))) = cs_format_version (im_state im)"
  "cs_workers (im_state (snd (pending_decision key candidate reason im r))) = cs_workers (im_state im)"
  by (simp_all add: pending_decision_def next_sequence_def alloc_decision_id_def alloc_rollback_id_def put_experiment_def
      case_prod_beta Let_def)

lemma pending_record:
  "\<exists>points sequence. length points \<le> 1 \<and> cs_experiments (im_state (snd (pending_decision key candidate reason im r))) =
     omap_put key (finalize_record (fst (pending_decision key candidate reason im r)) points sequence r)
       (cs_experiments (im_state im))"
proof -
  let ?dec = "fst (pending_decision key candidate reason im r)" and ?seq = "cs_last_sequence (im_state im) + 1"
  define points where "points = (if records_point (de_outcome ?dec)
    then [decision_point key r ?dec (from_value (cs_id_watermark_rollback (im_state im) + 1)) ?seq] else [])"
  have "cs_experiments (im_state (snd (pending_decision key candidate reason im r))) =
      omap_put key (finalize_record ?dec points ?seq r) (cs_experiments (im_state im))"
    by (auto simp: points_def pending_decision_def next_sequence_def alloc_decision_id_def alloc_rollback_id_def
        put_experiment_def case_prod_beta Let_def)
  moreover have "length points \<le> 1" by (simp add: points_def)
  ultimately show ?thesis by blast
qed

lemma finalize_durable:
  assumes path: "cg_state_path (im_config im) \<noteq> []" and ok: "fst (finalize_experiment key candidate reason im) = Inr dec"
  defines "im' \<equiv> snd (finalize_experiment key candidate reason im)"
  shows "im_disk im' = Some (im_state im') \<and> decided_in key dec (im_state im')"
proof -
  obtain r where r: "find_experiment im key = Some r" "er_state r \<noteq> ES_FINALIZED"
    "length (er_decisions r) < unat (lm_max_decisions_per_experiment (im_limits im))"
    using finalize_admits [OF ok] .
  let ?p = "pending_decision key candidate reason im r"
  have saved: "fst ?p = dec" "im' = notify_decision dec (snd (persist_locked (snd ?p)))" "st_ok (fst (persist_locked (snd ?p)))"
    using ok unfolding im'_def finalize_commits [OF r] by (auto simp: commit_result_def case_prod_beta split: if_splits)
  then have "im_disk im' = Some (im_state (snd ?p))" "im_state im' = im_state (snd ?p)"
    using path persist_locked_durable [of "snd ?p"] pending_frame(1) by (simp_all add: notify_decision_def)
  moreover have "decided_in key dec (im_state (snd ?p))"
    using pending_record [of key candidate reason im r] saved(1)
    by (auto simp: decided_in_def finalize_record_def log_line_def Let_def)
  ultimately show ?thesis by simp
qed


text \<open>A process with one open experiment, a sound disk and space for a decision.\<close>

definition decides :: "experiment_id \<Rightarrow> impl \<Rightarrow> bool" where
  "decides key im =
     (case cs_experiments (im_state im) of
        [] \<Rightarrow> False
      | (k, r) # rest \<Rightarrow>
          rest = [] \<and> k = key \<and> er_state r \<noteq> ES_FINALIZED \<and>
          int (length (er_decisions r)) < uint (lm_max_decisions_per_experiment (im_limits im)) \<and>
          im_faults im = [] \<and> cs_format_version (im_state im) = kPersistenceFormatVersion \<and>
          int (length (cs_workers (im_state im)) + record_count r + 3) \<le> uint (lm_max_persisted_records (im_limits im)) \<and>
          room (im_state im) \<and> cg_state_path (im_config im) \<noteq> [])"

lemma int_less_uint: "int n < uint w \<longleftrightarrow> n < unat w" and int_le_uint: "int n \<le> uint w \<longleftrightarrow> n \<le> unat w"
  by (metis of_nat_less_iff uint_nat) (metis of_nat_le_iff uint_nat)

lemma finalize_succeeds:
  assumes "decides key im"
  shows "\<exists>dec. fst (finalize_experiment key candidate reason im) = Inr dec"
proof -
  obtain r where only: "cs_experiments (im_state im) = [(key, r)]" and r: "er_state r \<noteq> ES_FINALIZED"
      "length (er_decisions r) < unat (lm_max_decisions_per_experiment (im_limits im))"
    and disk: "im_faults im = []" "cs_format_version (im_state im) = kPersistenceFormatVersion"
    and few: "length (cs_workers (im_state im)) + record_count r + 3 \<le> unat (lm_max_persisted_records (im_limits im))"
    using assms by (auto simp: decides_def int_less_uint int_le_uint split: list.splits simp del: of_nat_add)
  let ?p = "pending_decision key candidate reason im r"
  have find: "find_experiment im key = Some r" using only by (simp add: find_experiment_def)
  obtain points sequence where p: "length points \<le> 1"
    "cs_experiments (im_state (snd ?p)) = [(key, finalize_record (fst ?p) points sequence r)]"
    using pending_record [of key candidate reason im r] only by auto
  have "record_count (finalize_record (fst ?p) points sequence r) \<le> record_count r + 3"
    using p(1) by (cases "length (er_lifecycle_log r) \<ge> 65536")
      (simp_all add: record_count_def finalize_record_def log_line_def Let_def)
  then have "length (cs_workers (im_state (snd ?p))) + sum_list (map (record_count \<circ> snd) (cs_experiments (im_state (snd ?p))))
      \<le> unat (lm_max_persisted_records (im_limits im))"
    using few p(2) pending_frame(5) by simp
  then have "unat (total_record_count (im_state (snd ?p))) \<le> unat (lm_max_persisted_records (im_limits im))"
    unfolding total_record_count_def unat_of_nat by (rule order_trans [OF mod_less_eq_dividend])
  then have "serialize_check (im_state (snd ?p)) (im_limits (snd ?p)) = success"
    using disk(2) by (simp add: serialize_check_def pending_frame)
  then have "st_ok (fst (persist_locked (snd ?p)))"
    using disk(1) by (simp add: persist_locked_def persist_locked_if_def persistence_save_def pending_frame Let_def)
  then show ?thesis using finalize_commits [OF find r] by (simp add: commit_result_def case_prod_beta)
qed

lemma demo_decides: "decides (from_value 1) demo_committed"
  by code_simp


end
