(* ===== verification/Contracts.thy ===== *)
theory Contracts
  imports Durability
begin

text \<open>
  Contracts of single operations: publishing the same observation again changes nothing, and a
  rollback restores exactly the recorded authority.
\<close>

section \<open>Publishing twice\<close>

text \<open>The comparison of the language: a NaN is not equal to itself.\<close>

definition comparable :: "metric_value \<Rightarrow> bool" where
  "comparable v \<longleftrightarrow> d_eq (mv_real v) (mv_real v)"

lemma same_observation_stamped: "comparable (ob_value ob) \<Longrightarrow> same_observation (ob\<lparr>ob_sequence := s\<rparr>) ob"
  by (simp add: same_observation_def same_metric_value_def comparable_def)

lemma store_observation_state [simp]: "er_state (fst (store_observation r t a ob s)) = er_state r"
  by (simp add: store_observation_def Let_def)

lemma envelope_stored [simp]:
  "envelope_from ob e w b (fst (store_observation r t a ob' s)) = envelope_from ob e w b r"
  by (simp add: envelope_from_def store_observation_parts)

lemma stored_keeps_authority:
  assumes inv: "coord_inv im" and h: "holds_authority im e r t a"
    and core: "im_admitting_work im' = im_admitting_work im" "im_epoch im' = im_epoch im"
      "im_live_workers im' = im_live_workers im"
    and found: "find_experiment im' (ae_experiment e) = Some (fst (store_observation r t a ob s))"
  shows "\<exists>t' a'. holds_authority im' e (fst (store_observation r t a ob s)) t' a'"
proof -
  let ?r = "fst (store_observation r t a ob s)"
  note pair = authority_pair [OF inv h]
  let ?t = "if moves_to_observing t then t\<lparr>tr_state := TS_OBSERVING, tr_updated_sequence := s + 2\<rparr> else t"
  let ?a = "if at_state a = AS_ISSUED then a\<lparr>at_state := AS_RUNNING,
      at_updated_sequence := (if moves_to_observing t then s + 3 else s + 2)\<rparr> else a"
  have "live_process im' e" using h core by (simp add: holds_authority_def live_process_def find_live_worker_def)
  moreover have "current_definition ?r e"
    using h by (simp add: holds_authority_def current_definition_def store_observation_parts find_branch_def)
  moreover have "map_of (er_trials ?r) (ae_trial e) = Some ?t" "map_of (er_attempts ?r) (ae_attempt e) = Some ?a"
    using h pair(2,3) by (auto simp: holds_authority_def store_observation_parts)
  moreover have "authoritative_trial ?t e" "authoritative_attempt ?a e"
    using h by (auto simp: holds_authority_def authoritative_trial_def authoritative_attempt_def)
  moreover have "complete_envelope e" using h by (simp add: holds_authority_def)
  ultimately show ?thesis using found unfolding holds_authority_def by blast
qed

lemma reject_observation_fails: "\<not> av_accepted v \<Longrightarrow> av_code v \<noteq> EC_OK \<Longrightarrow> \<not> st_ok (fst (reject_observation q v im))"
  by (auto simp: reject_observation_def authority_error_def make_error_def st_ok_def Let_def case_prod_beta split: option.split)

lemma publish_stores:
  assumes inv: "coord_inv im" and r: "find_experiment im (ob_experiment ob) = Some r" and ob: "ob = po_observation q"
    and h: "holds_authority im (envelope_from ob (po_epoch q) (po_worker q) (po_boot q) r) r t a"
    and fresh: "admit_observation_check im r ob = None"
    and ok: "st_ok (fst (publish_observation q im))" and same: "comparable (ob_value ob)"
  shows "publish_observation q (snd (publish_observation q im)) = (success, snd (publish_observation q im))"
proof -
  let ?e = "envelope_from ob (po_epoch q) (po_worker q) (po_boot q) r"
  let ?s = "cs_last_sequence (im_state im)"
  define r' where "r' = fst (store_observation r t a ob ?s)"
  define im1 where "im1 = index_observation (ed_id (er_definition r)) (ob_id ob) (length (er_observations r))
      (put_experiment (ob_experiment ob) r'
        (im\<lparr>im_state := (im_state im)\<lparr>cs_last_sequence := snd (store_observation r t a ob ?s)\<rparr>\<rparr>))"
  have e: "ae_experiment ?e = ob_experiment ob" "ae_trial ?e = ob_trial ob" "ae_attempt ?e = ob_attempt ob"
    by (simp_all add: envelope_from_def Let_def)
  have accepted: "av_accepted (check_envelope im ?e)" using h by (auto simp: check_envelope_accepts)
  have found: "map_of (er_trials r) (ob_trial ob) = Some t" "map_of (er_attempts r) (ob_attempt ob) = Some a"
    using h e by (auto simp: holds_authority_def)
  have published: "publish_observation q im = commit_status
      (\<lambda>i. unindex_observation (ed_id (er_definition r)) (ob_id ob) (put_experiment (ob_experiment ob) (pop_observation r') i))
      (\<lambda>i. i) im1"
    using r accepted fresh found unfolding publish_observation_def ob [symmetric] im1_def r'_def
    by (simp add: Let_def case_prod_beta)
  define im2 where "im2 = snd (publish_observation q im)"
  have im2: "im2 = snd (persist_locked im1)"
    using ok unfolding im2_def published by (simp add: commit_status_def case_prod_beta split: if_splits)
  have core: "im_state im2 = im_state im1" "im_observation_index im2 = im_observation_index im1" "im_limits im2 = im_limits im1"
    "im_admitting_work im2 = im_admitting_work im" "im_epoch im2 = im_epoch im" "im_live_workers im2 = im_live_workers im"
    by (simp_all add: im2 im1_def index_observation_def put_experiment_def)
  have r2: "find_experiment im2 (ob_experiment ob) = Some r'"
    by (simp add: find_experiment_def core im1_def index_observation_def put_experiment_def)
  have d: "er_definition r' = er_definition r" by (simp add: r'_def store_observation_parts)
  have "av_accepted (check_envelope im2 ?e)"
    using stored_keeps_authority [OF inv h core(4,5,6), of ob ?s] r2 e(1) unfolding check_envelope_accepts r'_def by auto
  moreover have "envelope_from ob (po_epoch q) (po_worker q) (po_boot q) r' = ?e" by (simp add: r'_def)
  moreover have "admit_observation_check im2 r' ob = Some success"
  proof -
    obtain m where "find_metric r (ob_metric ob) = Some m"
      using fresh by (auto simp: admit_observation_check_def split: option.splits)
    moreover have "map_of (observation_index_of im2 (ed_id (er_definition r'))) (ob_id ob) = Some (length (er_observations r))"
      by (simp add: observation_index_of_def core d im1_def index_observation_def put_experiment_def)
    moreover have "er_observations r' ! length (er_observations r) = ob\<lparr>ob_sequence := ?s + 1\<rparr>"
      by (simp add: r'_def store_observation_parts)
    ultimately show ?thesis
      using same_observation_stamped [OF same] by (simp add: admit_observation_check_def find_metric_def d)
  qed
  ultimately show ?thesis
    unfolding im2_def [symmetric] using r2 by (simp add: publish_observation_def ob [symmetric] Let_def)
qed



section \<open>Rollback\<close>

lemma restore_branch_find:
  "find_branch (restore_branch s r) k =
     (if k = ba_branch s then map_option (\<lambda>b. b\<lparr>bd_state := ba_state s, bd_generation := ba_generation s\<rparr>) (find_branch r k)
      else find_branch r k)"
  by (simp add: restore_branch_def put_branch_def find_branch_def find_update_first find_update_first_other)

lemma find_map_inside:
  assumes "\<And>x. P (f x) = P x"
  shows "find P (map f xs) = map_option f (find P xs)"
  by (induction xs) (simp_all add: assms)

lemma find_last_append: "find_last P (xs @ [x]) = (if P x then Some x else find_last P xs)"
  by (simp add: find_last_def)

text \<open>
  The authority a branch has after a rollback to a point: what the point recorded of it, the last
  entry where there are several; a branch the point does not know did not exist then, and loses
  its authority.
\<close>

definition restored_authority :: "rollback_point \<Rightarrow> branch_definition \<Rightarrow> branch_definition" where
  "restored_authority p b =
     (case find_last (\<lambda>s. ba_branch s = bd_id b) (rb_authority p) of
        Some s \<Rightarrow> b\<lparr>bd_state := ba_state s, bd_generation := ba_generation s\<rparr>
      | None \<Rightarrow> b\<lparr>bd_state := (if bd_state b = BS_ACTIVE then BS_RETIRED else BS_SUPERSEDED)\<rparr>)"

lemma restored_find:
  "find_branch (fold restore_branch ss r) k = map_option (\<lambda>b.
     case find_last (\<lambda>s. ba_branch s = k) ss of
       Some s \<Rightarrow> b\<lparr>bd_state := ba_state s, bd_generation := ba_generation s\<rparr> | None \<Rightarrow> b) (find_branch r k)"
proof (induction ss rule: rev_induct)
  case Nil
  show ?case by (simp add: find_last_def option.map_ident)
next
  case (snoc s ss)
  show ?case
    using snoc.IH by (cases "find_last (\<lambda>s. ba_branch s = k) ss"; cases "k = ba_branch s")
      (simp_all add: restore_branch_find find_last_append option.map_comp o_def)
qed

lemma retired_find:
  "find_branch (retire_unrestored keep r) k = map_option (\<lambda>b.
     if bd_id b \<in> keep then b
     else b\<lparr>bd_state := (if bd_state b = BS_ACTIVE then BS_RETIRED else BS_SUPERSEDED)\<rparr>) (find_branch r k)"
  unfolding find_branch_def retire_unrestored_def
  by (simp, subst find_map_inside) (auto intro!: arg_cong2 [where f = map_option] ext)

lemma find_branch_id: "find_branch r k = Some b \<Longrightarrow> bd_id b = k"
  by (auto simp: find_branch_def find_Some_iff)

lemma find_last_none: "find_last P xs = None \<longleftrightarrow> (\<forall>x\<in>set xs. \<not> P x)"
  by (simp add: find_last_def find_None_iff Ball_def)

lemma restore_authority_find:
  "find_branch (restore_authority p s r) k = map_option (restored_authority p) (find_branch r k)"
proof -
  define r2 where "r2 = (abandon_stale_live_work s r)\<lparr>er_definition := (er_definition (abandon_stale_live_work s r))
      \<lparr>ed_generation := rb_generation p\<rparr>\<rparr>"
  have r2: "find_branch r2 b = find_branch r b" for b
    by (simp add: r2_def abandon_stale_live_work_def find_branch_def)
  have "k \<in> restored_branches r2 (rb_authority p) \<longleftrightarrow> find_last (\<lambda>s. ba_branch s = k) (rb_authority p) \<noteq> None"
    if "find_branch r k = Some b" for b
    using that by (auto simp: restored_branches_def find_last_none r2)
  then show ?thesis
    using find_branch_id [of r k] unfolding restore_authority_def Let_def r2_def [symmetric]
    by (cases "find_last (\<lambda>s. ba_branch s = k) (rb_authority p)"; cases "find_branch r k")
      (simp_all add: retired_find restored_find restored_authority_def r2)
qed

lemma find_branch_log [simp]: "find_branch (log_line line r) k = find_branch r k"
  by (simp add: find_branch_def)

lemma rollback_record_authority:
  "find_branch (rollback_record k p reason rid s r) b = map_option (restored_authority p) (find_branch r b)"
  "ed_generation (er_definition (rollback_record k p reason rid s r)) = rb_generation p"
proof -
  have "find_branch (rollback_record k p reason rid s r) b = find_branch (restore_authority p s r) b"
    by (simp add: rollback_record_def Let_def find_branch_def)
  then show "find_branch (rollback_record k p reason rid s r) b = map_option (restored_authority p) (find_branch r b)"
    by (simp add: restore_authority_find)
  have "ed_generation (er_definition (fold restore_branch ss q)) = ed_generation (er_definition q)" for ss q
    by (induction ss arbitrary: q) (simp_all add: restore_branch_def put_branch_def)
  then show "ed_generation (er_definition (rollback_record k p reason rid s r)) = rb_generation p"
    by (simp add: rollback_record_def restore_authority_def retire_unrestored_def Let_def)
qed

lemma abandoned_is_over:
  "(x, t) \<in> set (er_trials (abandon_stale_live_work s r)) \<Longrightarrow> is_terminal (tr_state t)"
  "(y, a) \<in> set (er_attempts (abandon_stale_live_work s r)) \<Longrightarrow> is_attempt_terminal (at_state a)"
  by (auto simp: abandon_stale_live_work_def close_trials_def close_attempts_def omap_map_def)

text \<open>
  C10: A rollback restores exactly the authority that was recorded. When a rollback is acknowledged,
  the experiment is at the generation asked for, every branch that the last point of that
  generation recorded has the state and the generation recorded there, and every branch forked
  since has lost its authority; no trial and no attempt of the experiment is live any more, while the
  observations and the decisions are kept, and with them every earlier rollback point.
\<close>

theorem rollback_restores_authority:
  assumes "st_ok (fst (rollback k target reason im))"
  shows "\<exists>r p r'. find_experiment im k = Some r \<and> find_last (\<lambda>p. rb_generation p = target) (er_rollback_points r) = Some p \<and>
    find_experiment (snd (rollback k target reason im)) k = Some r' \<and> ed_generation (er_definition r') = target \<and>
    (\<forall>b. find_branch r' b = map_option (restored_authority p) (find_branch r b)) \<and>
    list_all (\<lambda>(_, t). is_terminal (tr_state t)) (er_trials r') \<and>
    list_all (\<lambda>(_, a). is_attempt_terminal (at_state a)) (er_attempts r') \<and>
    er_observations r' = er_observations r \<and> er_decisions r' = er_decisions r \<and>
    prefix (er_rollback_points r) (er_rollback_points r')"
proof -
  obtain r p where r: "find_experiment im k = Some r" "er_state r \<noteq> ES_CANCELLED" "valid target"
    and p: "find_last (\<lambda>p. rb_generation p = target) (er_rollback_points r) = Some p"
    and moves: "\<not> (rb_generation p = ed_generation (er_definition r) \<and> er_state r = ES_OPEN)"
    using assms by (auto simp: rollback_def lifecycle_error_def make_error_def st_ok_def split: option.splits if_splits)
  let ?rid = "fst (alloc_rollback_id (snd (next_sequence im)))" and ?seq = "fst (next_sequence im)"
  let ?im = "snd (alloc_rollback_id (snd (next_sequence im)))"
  define r' where "r' = rollback_record k p reason ?rid ?seq r"
  have "rollback k target reason im = (let validated = validate_experiment_record r' (im_limits im) k in
      if \<not> st_ok validated then (validated, put_experiment k r' ?im)
      else commit_status (\<lambda>i. i) (notify_event (lit ''rollback:'' @ id_to_string k)) (put_experiment k r' ?im))"
    using r p unfolding rollback_def r'_def by (simp add: moves Let_def case_prod_beta)
  then have "find_experiment (snd (rollback k target reason im)) k = Some r'"
    using assms by (auto simp: Let_def commit_status_def case_prod_beta find_experiment_def put_experiment_def split: if_splits)
  moreover have "rb_generation p = target" using find_last_SomeD [OF p] by simp
  ultimately show ?thesis
    using r(1) p rollback_record_authority abandoned_is_over rollback_record_frame(1-4,7)
    by (fastforce simp: r'_def list_all_iff)
qed

text \<open>
  For the witness: neither the validation nor the count of records reads the digest of a rollback
  point, so the digest stays unevaluated.
\<close>

definition undigested :: "rollback_point \<Rightarrow> rollback_point_id \<Rightarrow> u64 \<Rightarrow> experiment_record \<Rightarrow> experiment_record" where
  "undigested p rid s r =
     (let r1 = restore_authority p s r
      in r1\<lparr>er_rollback_points := er_rollback_points r1 @ [p\<lparr>rb_id := rid, rb_decision_present := False, rb_sequence := s\<rparr>],
            er_state := (if er_state r1 = ES_FINALIZED \<or> er_state r1 = ES_SUPERSEDED then ES_OPEN else er_state r1),
            er_revision_sequence := s\<rparr>)"

lemma rollback_loop_append:
  "rollback_loop c bs ds ids v (xs @ [p]) = rollback_loop c bs ds ids v (xs @ [q])"
  if "rb_id p = rb_id q" "rb_generation p = rb_generation q" "rb_sequence p = rb_sequence q"
    "\<not> rb_decision_present p" "\<not> rb_decision_present q" "rb_authority p = rb_authority q" for p q
  using that by (induction xs arbitrary: ids v) simp_all

lemma validate_cong:
  assumes d: "er_definition r = er_definition q" and h: "er_hypothesis r = er_hypothesis q"
    and t: "er_trials r = er_trials q" and a: "er_attempts r = er_attempts q"
    and obs: "er_observations r = er_observations q" and x: "er_artifacts r = er_artifacts q"
    and c: "er_decisions r = er_decisions q"
    and n: "length (er_rollback_points r) = length (er_rollback_points q)"
    and p: "\<And>c bs ds. rollback_loop c bs ds {} 0 (er_rollback_points r) = rollback_loop c bs ds {} 0 (er_rollback_points q)"
  shows "validate_experiment_record r l k = validate_experiment_record q l k"
proof -
  have "check_observation ctxt r = check_observation ctxt q" "check_artifact ctxt l r = check_artifact ctxt l q"
    for ctxt
    by (rule ext, simp only: check_observation_def check_artifact_def d t a)+
  then have "validate_evidence ctxt l r = validate_evidence ctxt l q" for ctxt
    by (simp only: validate_evidence_def obs x c n t)
  moreover have "check_header ctxt r l k = check_header ctxt q l k"
    "validate_trials ctxt l r = validate_trials ctxt l q" "validate_decisions ctxt r = validate_decisions ctxt q"
    for ctxt
    by (simp_all only: check_header_def validate_trials_def validate_decisions_def d h t a c p)
  ultimately show ?thesis by (simp only: validate_experiment_record_def validate_record_def d)
qed

lemma undigested_validates:
  "validate_experiment_record (rollback_record k p reason rid s r) l k = validate_experiment_record (undigested p rid s r) l k"
  by (rule validate_cong) (simp_all add: rollback_record_def undigested_def Let_def log_line_def rollback_loop_append)

definition rolls_back :: "experiment_id \<Rightarrow> experiment_generation \<Rightarrow> impl \<Rightarrow> bool" where
  "rolls_back k target im =
     (case find_experiment im k of None \<Rightarrow> False
      | Some r \<Rightarrow> er_state r = ES_FINALIZED \<and> valid target \<and>
          (case find_last (\<lambda>p. rb_generation p = target) (er_rollback_points r) of None \<Rightarrow> False
           | Some p \<Rightarrow> cg_state_path (im_config im) = [] \<and>
               st_ok (validate_experiment_record (undigested p (from_value (cs_id_watermark_rollback (im_state im) + 1))
                 (cs_last_sequence (im_state im) + 1) r) (im_limits im) k)))"

lemma rollback_succeeds: "rolls_back k target im \<Longrightarrow> st_ok (fst (rollback k target reason im))"
  by (auto simp: rolls_back_def rollback_def next_sequence_def alloc_rollback_id_def undigested_validates Let_def
      commit_status_def persist_locked_def persist_locked_if_def put_experiment_def split: option.splits)

definition demo_point :: rollback_point where
  "demo_point = \<lparr>rb_id = from_value 9, rb_experiment = from_value 1, rb_generation = from_value 1,
     rb_restored_from = null_id, rb_decision = null_id, rb_decision_present = False, rb_state_digest = replicate 32 0,
     rb_authority = [\<lparr>ba_branch = from_value 1, ba_generation = from_value 1, ba_state = BS_ACTIVE\<rparr>], rb_sequence = 1\<rparr>"

definition decided_with :: "rollback_point \<Rightarrow> impl \<Rightarrow> impl" where
  "decided_with p im = (case find_experiment im (from_value 1) of None \<Rightarrow> im
     | Some r \<Rightarrow> (put_experiment (from_value 1) (r\<lparr>er_state := ES_FINALIZED, er_rollback_points := [p]\<rparr>) im)
         \<lparr>im_config := demo_config\<lparr>cg_state_path := []\<rparr>\<rparr>)"

definition demo_pointed :: impl where
  "demo_pointed = decided_with demo_point demo_claimed"

lemma demo_rolls_back: "rolls_back (from_value 1) (from_value 1) demo_pointed"
  by code_simp

lemma rollback_restores_authority_witness:
  "\<exists>r'. find_experiment (snd (rollback (from_value 1) (from_value 1) [] demo_pointed)) (from_value 1) = Some r' \<and>
     ed_generation (er_definition r') = from_value 1 \<and> list_all (\<lambda>(_, a). is_attempt_terminal (at_state a)) (er_attempts r')"
  using rollback_restores_authority [OF rollback_succeeds [OF demo_rolls_back]] by blast

end
