(* ===== verification/Refusals.thy ===== *)
theory Refusals
  imports Durability
begin

text \<open>
  Refused creations: a call that creates an experiment, a branch or a trial and is refused, be it by
  the final validation or by a failed save, takes what it had stored out again.
\<close>

text \<open>A record without its log and its revision counter, the two things a refused call may leave a mark in.\<close>

definition work_of :: "experiment_record \<Rightarrow> experiment_record" where
  "work_of r = r\<lparr>er_lifecycle_log := [], er_revision_sequence := 0\<rparr>"

definition keeps_work :: "impl \<Rightarrow> impl \<Rightarrow> bool" where
  "keeps_work im im' \<longleftrightarrow> (\<forall>k. map_option work_of (find_experiment im' k) = map_option work_of (find_experiment im k))"

lemma work_of_log [simp]: "work_of (log_line line r) = work_of r"
  by (simp add: work_of_def log_line_def Let_def)

lemma work_of_fields:
  "work_of (erase_trial tid (log_line line (r\<lparr>er_trials := ts\<rparr>))) = work_of (r\<lparr>er_trials := omap_erase tid ts\<rparr>)"
  "work_of (pop_branch (log_line line ((add_branch b r)\<lparr>er_revision_sequence := s\<rparr>))) = work_of r"
  by (simp_all add: work_of_def erase_trial_def pop_branch_def add_branch_def log_line_def Let_def)

lemma keeps_work_put:
  assumes "find_experiment im k = Some r" and "work_of r' = work_of r"
    and "cs_experiments (im_state i) = omap_put k r1 (cs_experiments (im_state im))"
  shows "keeps_work im (put_experiment k r' i)"
  using assms by (auto simp: keeps_work_def find_experiment_def put_experiment_def)

lemma refused_commit: "fst (commit_result undo tell v im) = Inl e \<Longrightarrow> snd (commit_result undo tell v im) = undo (snd (persist_locked im))"
  by (simp add: commit_result_def case_prod_beta split: if_splits)

text \<open>The common end of the three calls: undo when the validation or the save fails.\<close>

lemma refused_store:
  assumes "\<And>i. im_state i = im_state im3 \<Longrightarrow> keeps_work im (undo i)"
    and "fst (if \<not> st_ok v then (Inl v, undo im3) else commit_result undo tell x im3) = Inl e"
  shows "keeps_work im (snd (if \<not> st_ok v then (Inl v, undo im3) else commit_result undo tell x im3))"
  using assms refused_commit [of undo tell x im3 e] by (auto split: if_splits)

lemma keeps_work_refl [simp]: "keeps_work im im"
  by (simp add: keeps_work_def)

lemma refused_fork_branch:
  assumes refused: "fst (fork_branch k parent spec im) = Inl e"
  shows "keeps_work im (snd (fork_branch k parent spec im))"
proof (cases "find_experiment im k")
  case (Some r)
  show ?thesis
  proof (cases "fork_check r parent spec (im_limits im)")
    case (Inr p)
    let ?im = "snd (alloc_branch_id (snd (next_sequence im)))"
    have undone: "keeps_work im (put_experiment k (pop_branch (log_line line ((add_branch b r)\<lparr>er_revision_sequence := s\<rparr>))) i)"
      if "im_state i = im_state (put_experiment k r1 ?im)" for line b r1 s i
      by (rule keeps_work_put [OF Some work_of_fields(2), where ?r1.0 = r1])
        (simp add: that put_experiment_def alloc_branch_id_def next_sequence_def Let_def)
    show ?thesis
      using refused unfolding fork_branch_def Some Inr Let_def case_prod_beta option.case sum.case
      by (rule refused_store [rotated]) (rule undone)
  qed (simp add: Some fork_branch_def)
qed (simp add: fork_branch_def)

lemma refused_create_trial:
  assumes inv: "coord_inv im" and room: "room (im_state im)" and refused: "fst (create_trial k b payload im) = Inl e"
  shows "keeps_work im (snd (create_trial k b payload im))"
proof (cases "find_experiment im k")
  case (Some r)
  show ?thesis
  proof (cases "create_trial_check r b payload (im_limits im)")
    case (Inr p)
    let ?im = "snd (alloc_trial_id (snd (next_sequence im)))" and ?tid = "fst (alloc_trial_id (snd (next_sequence im)))"
    let ?w = "cs_id_watermark_trial (im_state im)"
    have "ids_bounded (im_state im) r" "rec_inv r"
      using inv Some by (auto simp: coord_inv_def state_inv_def find_experiment_def)
    moreover have "?w < ?w + 1" using room below_top [of ?w] by (simp add: room_def room_unat)
    ultimately have fresh: "map_of (er_trials r) ?tid = None"
      using fresh_key [of ?w "?w + 1" "er_trials r"] by (simp add: ids_bounded_def alloc_trial_id_def next_sequence_def Let_def)
    have "omap_ordered (er_trials r)" using \<open>rec_inv r\<close> by (simp add: rec_inv_def)
    then have same: "work_of (erase_trial ?tid (log_line line (r\<lparr>er_trials := omap_emplace ?tid t (er_trials r)\<rparr>))) = work_of r"
      for line t
      using fresh by (simp add: work_of_fields omap_emplace_fresh omap_erase_put)
    have undone: "keeps_work im (put_experiment k (erase_trial ?tid (log_line line (r\<lparr>er_trials := omap_emplace ?tid t (er_trials r)\<rparr>))) i)"
      if "im_state i = im_state (put_experiment k r1 ?im)" for line t r1 i
      by (rule keeps_work_put [OF Some same, where ?r1.0 = r1])
        (simp add: that put_experiment_def alloc_trial_id_def next_sequence_def Let_def)
    show ?thesis
      using refused unfolding create_trial_def Some Inr Let_def case_prod_beta option.case sum.case
      by (rule refused_store [rotated]) (rule undone)
  qed (simp add: Some create_trial_def)
qed (simp add: create_trial_def)

lemma keeps_work_same: "cs_experiments (im_state im') = cs_experiments (im_state im) \<Longrightarrow> keeps_work im im'"
  by (simp add: keeps_work_def find_experiment_def)

lemma refused_store_experiment:
  assumes ord: "omap_ordered (cs_experiments (im_state im))" and fresh: "map_of (cs_experiments (im_state im)) eid = None"
    and same: "cs_experiments (im_state im') = cs_experiments (im_state im)"
    and refused: "fst (store_experiment eid r im') = Inl e"
  shows "keeps_work im (snd (store_experiment eid r im'))"
proof -
  have undone: "keeps_work im (erase_experiment eid i)"
    if "im_state i = im_state (im'\<lparr>im_state := (im_state im')\<lparr>cs_experiments := omap_emplace eid u (cs_experiments (im_state im'))\<rparr>\<rparr>)"
    for u i
    by (rule keeps_work_same) (simp add: that erase_experiment_def same omap_emplace_fresh fresh omap_erase_put ord)
  show ?thesis
    using refused unfolding store_experiment_def Let_def
    by (rule refused_store [rotated]) (rule undone)
qed

lemma refused_create_experiment:
  assumes inv: "coord_inv im" and refused: "fst (create_experiment spec im) = Inl e"
  shows "keeps_work im (snd (create_experiment spec im))"
proof -
  define im1 where "im1 = snd (alloc_experiment_id im)"
  define eid where "eid = fst (alloc_experiment_id im)"
  have pair: "alloc_experiment_id im = (eid, im1)" by (simp add: eid_def im1_def)
  have same: "cs_experiments (im_state i) = cs_experiments (im_state im)" if "quiet im1 i" for i
    using that by (simp add: quiet_def im1_def alloc_experiment_id_def Let_def)
  have ord: "omap_ordered (cs_experiments (im_state im))" using inv by (simp add: coord_inv_def state_inv_def)
  have store: "keeps_work im (snd (store_experiment eid r i))"
    if "quiet im1 i" "find_experiment im1 eid = None" "fst (store_experiment eid r i) = Inl e" for r i
    by (rule refused_store_experiment [OF ord _ same [OF that(1)] that(3)])
      (use that(2) same [of im1] in \<open>simp add: find_experiment_def quiet_refl\<close>)
  define im4 where "im4 ms = snd (build_metrics ms (snd (alloc_hypothesis_id (snd (next_sequence im1)))))" for ms
  define im6 where "im6 ms s bs = snd (build_branches s [] bs (snd (alloc_policy_id (im4 ms))))" for ms s bs
  have four: "quiet im1 (im4 ms)" for ms
    unfolding im4_def by (rule quiet_trans [OF quiet_trans [OF quiet_alloc(1) quiet_alloc(2)] quiet_build_metrics])
  have six: "quiet im1 (im6 ms s bs)" for ms s bs
    unfolding im6_def by (rule quiet_trans [OF quiet_trans [OF four quiet_alloc(4)] quiet_build_branches])
  show ?thesis
    using refused keeps_work_same [OF same [OF quiet_refl]] keeps_work_same [OF same [OF four]]
      keeps_work_same [OF same [OF six]] store [OF six]
    by (simp add: create_experiment_def Let_def pair case_prod_beta im4_def im6_def split: option.splits sum.splits if_splits)
qed

text \<open>
  C12: A refused creation leaves no trace in the work. When a reachable coordinator refuses to create an
  experiment, to fork a branch or to create a trial, whatever the reason, a failed save included,
  then every experiment has the definition, trials, attempts, observations, artifacts, decisions
  and rollback points it had before, and no experiment was added; only the log and the revision
  counter of the record may differ.
\<close>

theorem refused_creation_leaves_no_trace:
  assumes "reachable im" and "room (im_state im)"
  shows "(\<forall>spec e. fst (create_experiment spec im) = Inl e \<longrightarrow> keeps_work im (snd (create_experiment spec im))) \<and>
    (\<forall>k parent spec e. fst (fork_branch k parent spec im) = Inl e \<longrightarrow> keeps_work im (snd (fork_branch k parent spec im))) \<and>
    (\<forall>k b payload e. fst (create_trial k b payload im) = Inl e \<longrightarrow> keeps_work im (snd (create_trial k b payload im)))"
  using reachable_inv [OF assms(1)] assms(2) refused_create_experiment refused_fork_branch refused_create_trial by blast

text \<open>A coordinator whose first save fails.\<close>

definition demo_faulty :: impl where
  "demo_faulty = (case create demo_config NoImage [Some OPEN_FAILS] of Inr im \<Rightarrow> im | Inl e \<Rightarrow> new_impl demo_config [])"

lemma demo_faulty_created: "create demo_config NoImage [Some OPEN_FAILS] = Inr demo_faulty"
proof -
  have "case create demo_config NoImage [Some OPEN_FAILS] of Inl e \<Rightarrow> False | Inr im \<Rightarrow> True" by code_simp
  then show ?thesis by (auto simp: demo_faulty_def split: sum.splits)
qed

lemma demo_refused: "(case fst (create_experiment demo_spec demo_faulty) of Inl e \<Rightarrow> True | Inr k \<Rightarrow> False) \<and> cs_experiments (im_state demo_faulty) = []
    \<and> room (im_state demo_faulty)"
  by code_simp

lemma refused_creation_leaves_no_trace_witness:
  "find_experiment (snd (create_experiment demo_spec demo_faulty)) (from_value 1) = None"
proof -
  obtain e where "fst (create_experiment demo_spec demo_faulty) = Inl e"
    using demo_refused by (cases "fst (create_experiment demo_spec demo_faulty)") auto
  then have "keeps_work demo_faulty (snd (create_experiment demo_spec demo_faulty))"
    using refused_creation_leaves_no_trace [OF reachable.fresh_start [OF demo_faulty_created]] demo_refused by blast
  then show ?thesis using demo_refused by (simp add: keeps_work_def find_experiment_def)
qed

end
