(* ===== verification/DecisionSafety.thy ===== *)
theory DecisionSafety
  imports Scenario
begin

text \<open>
  What a decision rests on. A declarative account of when a candidate is acceptable is shown to be
  exactly when the constraints and the comparison of \<^verbatim>\<open>src/coordinator_decision.cpp\<close> accept it, and a
  decision is shown to depend only on the observations of the attempts that completed their trials.
\<close>

section \<open>When a candidate is acceptable\<close>

definition supplied :: "comparison_policy \<Rightarrow> branch_evidence option \<Rightarrow> metric_definition \<Rightarrow> bool" where
  "supplied p ev m =
     (case present_aggregate ev (md_id m) of
        None \<Rightarrow> False
      | Some a \<Rightarrow> ma_valid_count a \<ge> cp_min_valid_observations_per_required_metric p)"

definition sufficient :: "comparison_policy \<Rightarrow> metric_definition list \<Rightarrow> branch_evidence option \<Rightarrow> bool" where
  "sufficient p required ev =
     (case ev of
        None \<Rightarrow> False
      | Some e \<Rightarrow> be_completed_trials e \<ge> cp_min_completed_trials_per_branch p \<and> list_all (supplied p ev) required)"

definition one_environment :: "trial_record list \<Rightarrow> bool" where
  "one_environment ts = (length (remdups (filter (\<lambda>f. f \<noteq> []) (map tr_environment_fingerprint ts))) \<le> 1)"

text \<open>The verdict of one rule, and whether it tells the branches apart.\<close>

definition rule_holds ::
    "experiment_record \<Rightarrow> branch_evidence option \<Rightarrow> branch_evidence option \<Rightarrow> comparison_rule \<Rightarrow> bool" where
  "rule_holds r candidate_ev baseline_ev rule =
     (case (present_aggregate candidate_ev (cr_metric rule), present_aggregate baseline_ev (cr_metric rule)) of
        (Some c, Some b) \<Rightarrow> rule_satisfied rule (rule_direction r (cr_metric rule)) c b
      | _ \<Rightarrow> False)"

definition rule_differs :: "branch_evidence option \<Rightarrow> branch_evidence option \<Rightarrow> comparison_rule \<Rightarrow> bool" where
  "rule_differs candidate_ev baseline_ev rule =
     (case (present_aggregate candidate_ev (cr_metric rule), present_aggregate baseline_ev (cr_metric rule)) of
        (Some c, Some b) \<Rightarrow> d_ne (d_sub (ma_value c) (ma_value b)) d_zero
      | _ \<Rightarrow> False)"

definition score_reached :: "experiment_record \<Rightarrow> branch_evidence option \<Rightarrow> branch_evidence option \<Rightarrow> bool" where
  "score_reached r candidate_ev baseline_ev =
     (case fold (score_metric candidate_ev baseline_ev) (ed_metrics (er_definition r)) (d_zero, False) of
        (score, evaluated) \<Rightarrow> evaluated \<longrightarrow> d_ge score (cp_accept_score_threshold (ed_policy (er_definition r))))"

definition acceptable :: "experiment_record \<Rightarrow> branch_id \<Rightarrow> bool" where
  "acceptable r candidate =
     (case (candidate_branch r candidate, baseline_branch r) of
        (Some c, Some b) \<Rightarrow>
          let p = ed_policy (er_definition r);
              required = filter md_required (ed_metrics (er_definition r));
              rules = filter (\<lambda>rule. cr_op rule \<noteq> CO_REPORT_ONLY) (cp_rules p);
              candidate_ev = evidence_of (compute_evidence r) (bd_id c);
              baseline_ev = evidence_of (compute_evidence r) (bd_id b)
          in er_state r = ES_OPEN \<and> bd_id b \<noteq> bd_id c \<and>
             is_branch_eligible (bd_state c) \<and> is_branch_eligible (bd_state b) \<and>
             sufficient p required candidate_ev \<and> sufficient p required baseline_ev \<and>
             (cp_reject_on_any_invalid_observation p \<longrightarrow>
                list_all (\<lambda>m. invalid_of candidate_ev (md_id m) + invalid_of baseline_ev (md_id m) = 0) required) \<and>
             (cp_require_environment_match p \<longrightarrow> one_environment (compared_trials r c (Some b))) \<and>
             list_all (rule_holds r candidate_ev baseline_ev) rules \<and>
             list_ex (rule_differs candidate_ev baseline_ev) rules \<and>
             (cp_use_weighted_score p \<longrightarrow> score_reached r candidate_ev baseline_ev)
      | _ \<Rightarrow> False)"

section \<open>The constraints\<close>

lemma verdict_steps [simp]:
  "vd_outcome (add name passed detail v) = vd_outcome v"
  "vd_outcome (fail outcome kind reason v) = DO_ACCEPT \<longleftrightarrow> vd_outcome v = DO_ACCEPT \<and> outcome = DO_ACCEPT"
  "vd_outcome (fail_if b outcome kind reason v) = DO_ACCEPT \<longleftrightarrow> vd_outcome v = DO_ACCEPT \<and> (b \<longrightarrow> outcome = DO_ACCEPT)"
  "vd_outcome (insufficient_if b reason v) = DO_ACCEPT \<longleftrightarrow> vd_outcome v = DO_ACCEPT \<and> \<not> b"
  by (auto simp: add_def fail_def fail_if_def insufficient_if_def)

lemma open_accepts: "vd_outcome (constrain_open r v) = DO_ACCEPT \<longleftrightarrow> vd_outcome v = DO_ACCEPT \<and> er_state r = ES_OPEN"
  by (cases "er_state r") (simp_all add: constrain_open_def Let_def)

lemma candidate_accepts:
  "vd_outcome (constrain_candidate c ev v) = DO_ACCEPT \<longleftrightarrow>
     vd_outcome v = DO_ACCEPT \<and> ev \<noteq> None \<and> is_branch_eligible (bd_state c)"
  by (simp add: constrain_candidate_def Let_def)

lemma baseline_accepts:
  "vd_outcome (constrain_baseline p baseline ev v) = DO_ACCEPT \<longleftrightarrow>
     vd_outcome v = DO_ACCEPT \<and>
     (case baseline of None \<Rightarrow> \<not> cp_require_baseline p | Some b \<Rightarrow> ev \<noteq> None \<and> is_branch_eligible (bd_state b))"
  by (cases baseline) (auto simp: constrain_baseline_def Let_def)

lemma completed_accepts:
  "vd_outcome (constrain_completed p name reason ev v) = DO_ACCEPT \<longleftrightarrow>
     vd_outcome v = DO_ACCEPT \<and>
     (case ev of None \<Rightarrow> True | Some e \<Rightarrow> be_completed_trials e \<ge> cp_min_completed_trials_per_branch p)"
  by (cases ev) (simp_all add: constrain_completed_def Let_def)

lemma metric_on_accepts:
  "vd_outcome (constrain_metric_on p m n1 n2 absent missing few ev v) = DO_ACCEPT \<longleftrightarrow>
     vd_outcome v = DO_ACCEPT \<and> supplied p ev m"
  by (cases "present_aggregate ev (md_id m)") (auto simp: constrain_metric_on_def supplied_def Let_def)

lemma invalid_accepts:
  "vd_outcome (constrain_invalid p m ce be v) = DO_ACCEPT \<longleftrightarrow>
     vd_outcome v = DO_ACCEPT \<and>
     (cp_reject_on_any_invalid_observation p \<longrightarrow> invalid_of ce (md_id m) + invalid_of be (md_id m) = 0)"
  by (simp add: constrain_invalid_def Let_def)

lemma metric_accepts:
  "vd_outcome (constrain_metric p ce be m v) = DO_ACCEPT \<longleftrightarrow>
     vd_outcome v = DO_ACCEPT \<and>
     (md_required m \<longrightarrow> supplied p ce m \<and> (be \<noteq> None \<longrightarrow> supplied p be m) \<and>
        (cp_reject_on_any_invalid_observation p \<longrightarrow> invalid_of ce (md_id m) + invalid_of be (md_id m) = 0))"
  by (auto simp: constrain_metric_def metric_on_accepts invalid_accepts Let_def)

lemma metrics_accept:
  "vd_outcome (fold (constrain_metric p ce be) ms v) = DO_ACCEPT \<longleftrightarrow>
     vd_outcome v = DO_ACCEPT \<and>
     (\<forall>m \<in> set ms. md_required m \<longrightarrow> supplied p ce m \<and> (be \<noteq> None \<longrightarrow> supplied p be m) \<and>
        (cp_reject_on_any_invalid_observation p \<longrightarrow> invalid_of ce (md_id m) + invalid_of be (md_id m) = 0))"
  by (induction ms arbitrary: v) (auto simp: metric_accepts)

lemma environment_accepts:
  "vd_outcome (constrain_environment r c baseline v) = DO_ACCEPT \<longleftrightarrow>
     vd_outcome v = DO_ACCEPT \<and>
     (cp_require_environment_match (ed_policy (er_definition r)) \<longrightarrow> one_environment (compared_trials r c baseline))"
  by (auto simp: constrain_environment_def one_environment_def Let_def)

lemma constraints_accept:
  "vd_outcome (apply_constraints r c baseline evidence) = DO_ACCEPT \<longleftrightarrow>
     (let p = ed_policy (er_definition r); required = filter md_required (ed_metrics (er_definition r));
          ce = evidence_of evidence (bd_id c);
          be = (case baseline of None \<Rightarrow> None | Some b \<Rightarrow> evidence_of evidence (bd_id b))
      in er_state r = ES_OPEN \<and> is_branch_eligible (bd_state c) \<and> sufficient p required ce \<and>
         (case baseline of None \<Rightarrow> \<not> cp_require_baseline p
          | Some b \<Rightarrow> is_branch_eligible (bd_state b) \<and> sufficient p required be) \<and>
         (cp_reject_on_any_invalid_observation p \<longrightarrow>
            list_all (\<lambda>m. invalid_of ce (md_id m) + invalid_of be (md_id m) = 0) required) \<and>
         (cp_require_environment_match p \<longrightarrow> one_environment (compared_trials r c baseline)))"
  unfolding apply_constraints_def Let_def environment_accepts metrics_accept completed_accepts baseline_accepts
    candidate_accepts open_accepts
  by (auto simp: verdict_start_def sufficient_def list_all_iff split: option.splits)

section \<open>The comparison\<close>

lemma compare_rule_flags:
  "cx_any_decisive (compare_rule r ce be rule x) \<longleftrightarrow> cx_any_decisive x \<or> cr_op rule \<noteq> CO_REPORT_ONLY"
  "cx_any_decisive_failed (compare_rule r ce be rule x) \<longleftrightarrow>
     cx_any_decisive_failed x \<or> cr_op rule \<noteq> CO_REPORT_ONLY \<and> \<not> rule_holds r ce be rule"
  "cx_any_nonzero_delta (compare_rule r ce be rule x) \<longleftrightarrow>
     cx_any_nonzero_delta x \<or> cr_op rule \<noteq> CO_REPORT_ONLY \<and> rule_differs ce be rule"
  by (auto simp: compare_rule_def push_factor_def record_failure_def rule_holds_def rule_differs_def Let_def split: option.split)

lemma compare_rules_flags:
  "cx_any_decisive (fold (compare_rule r ce be) rules x) \<longleftrightarrow>
     cx_any_decisive x \<or> (\<exists>rule \<in> set rules. cr_op rule \<noteq> CO_REPORT_ONLY)"
  "cx_any_decisive_failed (fold (compare_rule r ce be) rules x) \<longleftrightarrow>
     cx_any_decisive_failed x \<or> (\<exists>rule \<in> set rules. cr_op rule \<noteq> CO_REPORT_ONLY \<and> \<not> rule_holds r ce be rule)"
  "cx_any_nonzero_delta (fold (compare_rule r ce be) rules x) \<longleftrightarrow>
     cx_any_nonzero_delta x \<or> (\<exists>rule \<in> set rules. cr_op rule \<noteq> CO_REPORT_ONLY \<and> rule_differs ce be rule)"
  by (induction rules arbitrary: x) (auto simp: compare_rule_flags)

lemma weighted_score_flags:
  "cx_any_decisive (weighted_score r ce be x) = cx_any_decisive x"
  "cx_any_decisive_failed (weighted_score r ce be x) \<longleftrightarrow>
     cx_any_decisive_failed x \<or> cp_use_weighted_score (ed_policy (er_definition r)) \<and> \<not> score_reached r ce be"
  "cx_any_nonzero_delta (weighted_score r ce be x) = cx_any_nonzero_delta x"
  by (auto simp: weighted_score_def score_reached_def push_factor_def record_failure_def Let_def split: prod.split)

lemma settle_accepts:
  "de_outcome (settle v x dec) = DO_ACCEPT \<longleftrightarrow>
     vd_outcome v = DO_ACCEPT \<and> cx_any_decisive x \<and> \<not> cx_any_decisive_failed x \<and> cx_any_nonzero_delta x"
  by (auto simp: settle_def Let_def)

lemma no_baseline_no_rule: "rule_holds r ce None rule \<longleftrightarrow> False" "rule_differs ce None rule \<longleftrightarrow> False"
  by (auto simp: rule_holds_def rule_differs_def present_aggregate_def split: option.splits)

lemma comparison_accepts:
  "de_outcome (settle v (compare_branches r ce be) dec) = DO_ACCEPT \<longleftrightarrow>
     vd_outcome v = DO_ACCEPT \<and>
     (let rules = filter (\<lambda>rule. cr_op rule \<noteq> CO_REPORT_ONLY) (cp_rules (ed_policy (er_definition r)))
      in list_all (rule_holds r ce be) rules \<and> list_ex (rule_differs ce be) rules) \<and>
     (cp_use_weighted_score (ed_policy (er_definition r)) \<longrightarrow> score_reached r ce be)"
  unfolding settle_accepts compare_branches_def weighted_score_flags compare_rules_flags
  by (auto simp: comparison_start_def list_all_iff list_ex_iff Let_def)

text \<open>
  C8: A decision accepts a candidate exactly when it is acceptable: the experiment is open, the
  candidate and a baseline other than it are eligible, both hold as many completed trials, and for
  every required metric as many valid observations, as the policy asks for, no required metric has
  an invalid observation where the policy forbids it, the compared trials ran in one environment where the
  policy asks for that, every decisive rule holds, one of them tells the branches apart, and the
  weighted score reaches its threshold where the policy uses one.
\<close>

theorem decision_accepts_iff_acceptable:
  "de_outcome (build_decision r candidate did sequence) = DO_ACCEPT \<longleftrightarrow> acceptable r candidate"
proof (cases "candidate_branch r candidate")
  case None
  then show ?thesis by (simp add: build_decision_def acceptable_def refuse_decision_def Let_def)
next
  case (Some c)
  show ?thesis
  proof (cases "baseline_branch r")
    case None
    then show ?thesis
      using Some
      by (auto simp: build_decision_def acceptable_def comparison_accepts no_baseline_no_rule list_ex_iff Let_def)
  next
    case b: (Some b)
    show ?thesis
      using Some b
      by (auto simp: build_decision_def acceptable_def comparison_accepts constraints_accept refuse_decision_def Let_def)
  qed
qed

section \<open>The evidence that counts\<close>

text \<open>An observation of the attempt that completed its trial.\<close>

definition backs_evidence :: "experiment_record \<Rightarrow> observation \<Rightarrow> bool" where
  "backs_evidence r ob =
     (case map_of (er_trials r) (ob_trial ob) of
        None \<Rightarrow> False
      | Some t \<Rightarrow> tr_state t = TS_COMPLETED \<and> ob_attempt ob = tr_authoritative_attempt t)"

text \<open>Two records that a decision does not tell apart.\<close>

definition same_evidence :: "experiment_record \<Rightarrow> experiment_record \<Rightarrow> bool" where
  "same_evidence r r' \<longleftrightarrow>
     er_definition r' = er_definition r \<and> er_state r' = er_state r \<and> er_trials r' = er_trials r \<and>
     filter (backs_evidence r) (er_observations r') = filter (backs_evidence r) (er_observations r)"

lemma authoritative_completed:
  assumes "rec_inv r" and "t \<in> set (authoritative_trials r branch)"
  shows "map_of (er_trials r) (tr_id t) = Some t \<and> tr_state t = TS_COMPLETED"
proof -
  obtain b where b: "is_authoritative r b branch t" "t \<in> set (omap_values (er_trials r))"
    using assms(2) by (auto simp: authoritative_trials_def split: option.splits)
  then obtain k where "map_of (er_trials r) k = Some t"
    using assms(1) omap_values_lookup by (metis rec_inv_def)
  then show ?thesis using b(1) rec_inv_trial [OF assms(1)] by (fastforce simp: is_authoritative_def trial_inv_def)
qed

lemma id_value_eq: "id_value x = id_value y \<longleftrightarrow> x = y"
  by (metis strong_id.expand)

lemma index_entry_evidence:
  assumes "same_evidence r r'" and "map_of (er_trials r) (tr_id t) = Some t" and "tr_state t = TS_COMPLETED"
  shows "index_entry r' (tr_id t) mid = index_entry r (tr_id t) mid"
proof -
  have counts: "counts_for r' (tr_id t) mid = counts_for r (tr_id t) mid"
    using assms(1) by (simp add: counts_for_def same_evidence_def fun_eq_iff)
  have "filter (counts_for r (tr_id t) mid) obs = filter (counts_for r (tr_id t) mid) (filter (backs_evidence r) obs)" for obs
    using assms(2,3) by (auto simp: counts_for_def backs_evidence_def id_value_eq intro!: filter_cong)
  then have "filter (counts_for r (tr_id t) mid) (er_observations r') = filter (counts_for r (tr_id t) mid) (er_observations r)"
    using assms(1) unfolding same_evidence_def by metis
  then show ?thesis by (simp add: index_entry_def counts Let_def)
qed

lemma evidence_ignores_the_rest:
  assumes inv: "rec_inv r" and same: "same_evidence r r'"
  shows "compute_evidence r' = compute_evidence r"
proof -
  have d: "er_definition r' = er_definition r" "er_trials r' = er_trials r" using same by (simp_all add: same_evidence_def)
  have trials: "authoritative_trials r' branch = authoritative_trials r branch" for branch
    unfolding authoritative_trials_def is_authoritative_def [abs_def] find_branch_def d by (rule refl)
  have tally: "tally_trials r' m (authoritative_trials r branch) = tally_trials r m (authoritative_trials r branch)" for m branch
    unfolding tally_trials_def
    by (rule fold_cong) (use authoritative_completed [OF inv] in \<open>auto simp: tally_trial_def index_entry_evidence [OF same]\<close>)
  have "aggregate_metric r' (authoritative_trials r branch) = aggregate_metric r (authoritative_trials r branch)" for branch
    by (intro ext) (simp add: aggregate_metric_def tally)
  then have "branch_summary r' = branch_summary r" by (intro ext) (simp add: branch_summary_def trials d)
  then show ?thesis by (simp add: compute_evidence_def d)
qed

lemma decision_cong:
  assumes "er_definition r' = er_definition r" and "er_state r' = er_state r" and "er_trials r' = er_trials r"
    and "compute_evidence r' = compute_evidence r"
  shows "build_decision r' candidate did sequence =
     (build_decision r candidate did sequence)\<lparr>de_rejected_evidence := er_rejected_evidence r'\<rparr>"
proof -
  have rules: "compare_rule r' = compare_rule r"
    unfolding compare_rule_def [abs_def] metric_name_def find_metric_def rule_direction_def assms by (rule refl)
  have comparison: "compare_branches r' = compare_branches r"
    unfolding compare_branches_def [abs_def] weighted_score_def rules assms by (rule refl)
  have constraints: "apply_constraints r' = apply_constraints r"
    unfolding apply_constraints_def [abs_def] constrain_open_def constrain_environment_def compared_trials_def assms
    by (rule refl)
  have start: "decision_start r' candidate did sequence =
      (decision_start r candidate did sequence)\<lparr>de_rejected_evidence := er_rejected_evidence r'\<rparr>"
    by (simp add: decision_start_def assms Let_def)
  have ends: "settle v x (dec\<lparr>de_rejected_evidence := e\<rparr>) = (settle v x dec)\<lparr>de_rejected_evidence := e\<rparr>"
    "refuse_decision name reason (dec\<lparr>de_rejected_evidence := e\<rparr>) = (refuse_decision name reason dec)\<lparr>de_rejected_evidence := e\<rparr>"
    for v x dec e name reason by (simp_all add: settle_def refuse_decision_def Let_def)
  have swap: "dec\<lparr>de_rejected_evidence := e, de_baseline := b, de_baseline_present := p\<rparr> =
      dec\<lparr>de_baseline := b, de_baseline_present := p, de_rejected_evidence := e\<rparr>" for dec :: decision and e b p
    by (cases dec) simp
  show ?thesis
    unfolding build_decision_def candidate_branch_def baseline_branch_def comparison constraints start assms Let_def
    by (simp add: ends [symmetric] swap split: option.split)
qed

text \<open>
  C9: In every reachable state a decision rests on nothing but the definition, the state of
  the experiment, its trials and the observations of the attempts that completed them. Whatever
  observations of fenced or unfinished attempts, artifacts, attempts, log lines or earlier decisions a
  record holds besides, the evidence and the decision are the same, up to the list of rejected
  evidence that the decision reports.
\<close>

theorem decision_ignores_fenced_evidence:
  assumes "reachable im" and "find_experiment im experiment = Some r" and "same_evidence r r'"
  shows "compute_evidence r' = compute_evidence r \<and>
    build_decision r' candidate did sequence =
      (build_decision r candidate did sequence)\<lparr>de_rejected_evidence := er_rejected_evidence r'\<rparr>"
proof -
  have "rec_inv r" using reachable_inv [OF assms(1)] assms(2) by (simp add: coord_inv_def state_inv_def find_experiment_def)
  then have same: "compute_evidence r' = compute_evidence r" using assms(3) by (rule evidence_ignores_the_rest)
  moreover have "build_decision r' candidate did sequence =
      (build_decision r candidate did sequence)\<lparr>de_rejected_evidence := er_rejected_evidence r'\<rparr>"
    using assms(3) same by (intro decision_cong) (simp_all add: same_evidence_def)
  ultimately show ?thesis by blast
qed

lemma decision_ignores_fenced_evidence_witness:
  "\<exists>r stale. find_experiment demo_committed (from_value 1) = Some r \<and>
     backs_evidence r (po_observation demo_observation) \<and> \<not> backs_evidence r stale \<and>
     compute_evidence (r\<lparr>er_observations := er_observations r @ [stale]\<rparr>) = compute_evidence r"
proof -
  let ?ob = "po_observation demo_observation" let ?stale = "?ob\<lparr>ob_attempt := from_value 2\<rparr>"
  have "case find_experiment demo_committed (from_value 1) of None \<Rightarrow> False
      | Some r \<Rightarrow> backs_evidence r ?ob \<and> \<not> backs_evidence r ?stale"
    by code_simp
  then obtain r where r: "find_experiment demo_committed (from_value 1) = Some r" "backs_evidence r ?ob" "\<not> backs_evidence r ?stale"
    by (auto split: option.splits)
  then have "same_evidence r (r\<lparr>er_observations := er_observations r @ [?stale]\<rparr>)" by (simp add: same_evidence_def)
  from decision_ignores_fenced_evidence [OF demo_reachable(4) r(1) this] r show ?thesis by blast
qed

end
