(* ===== verification/Persistence.thy ===== *)
theory Persistence
  imports RecordCodec Impl
begin

text \<open>
  \<^verbatim>\<open>src/persistence.cpp\<close>: the bytes of the state image, a 56-byte header with a checksum and the
  SHA-256 digest of the body, and a body of records with a checksum each. \<open>serialize\<close> and
  \<open>deserialize\<close> are the source's functions of the same names; \<open>load\<close> adds what the file system can
  do. A state within the bounds of the format is read back from its image, a truncated image is
  refused, and the scan for temporary images never touches the live file.
\<close>

section \<open>Writing an image\<close>

definition kHeaderBytes :: nat where
  "kHeaderBytes = 56"

definition kMagic :: u32 where
  "kMagic = 0x54415453"

datatype record_type = STATE_HEADER | WORKER | EXPERIMENT

primrec record_type_code :: "record_type \<Rightarrow> u32" where
  "record_type_code STATE_HEADER = 1"
| "record_type_code WORKER = 2"
| "record_type_code EXPERIMENT = 3"

definition append_record :: "u8 list \<Rightarrow> record_type \<Rightarrow> u8 list \<Rightarrow> u8 list" where
  "append_record body type payload =
     body @ store_le 4 (record_type_code type) @ store_le 4 (of_nat (length payload) :: u32) @
     store_le 4 (crc32 payload) @ payload"

definition map_codec_status :: "status \<Rightarrow> status" where
  "map_codec_status s =
     (if st_code s = EC_RESOURCE_EXHAUSTED then s
      else corrupt (lit ''record decode failed: '' @ status_to_string s))"

definition put_state_header :: "coordinator_state \<Rightarrow> u8 list" where
  "put_state_header s =
     pw_u32 (cs_format_version s) @ pw_u64 (cs_last_epoch s) @ pw_u64 (cs_last_sequence s) @
     pw_u64 (cs_next_worker_registration_sequence s) @ put_watermarks s"

definition image_body :: "coordinator_state \<Rightarrow> u8 list" where
  "image_body s =
     (let b1 = append_record [] STATE_HEADER (put_state_header s);
          b2 = foldl (\<lambda>b w. append_record b WORKER (put_worker_incarnation w)) b1 (cs_workers s)
      in foldl (\<lambda>b e. append_record b EXPERIMENT (pw_u64 (id_value (fst e)) @ put_experiment_record (snd e)))
           b2 (cs_experiments s))"

definition image_of :: "u32 \<Rightarrow> u8 list \<Rightarrow> u8 list" where
  "image_of version body =
     (let i0 = replicate (kHeaderBytes + length body) 0;
          i1 = store_at 0 (store_le 4 kMagic) i0;
          i2 = store_at 4 (store_le 4 version) i1;
          i3 = store_at 8 (store_le 4 (0 :: u32)) i2;
          i4 = store_at 12 (store_le 4 (crc32 (take 12 i3))) i3;
          i5 = store_at 16 (store_le 8 (of_nat (length body) :: u64)) i4;
          i6 = store_at 24 (digest_of body) i5
      in store_at kHeaderBytes body i6)"

definition serialize :: "coordinator_state \<Rightarrow> limits \<Rightarrow> u8 list result" where
  "serialize s l =
     (if cs_format_version s \<noteq> kPersistenceFormatVersion
        then Inl (io_failure (lit ''refusing to serialize state with a mismatched format version''))
      else if unat (total_record_count s) > unat (lm_max_persisted_records l)
        then Inl (limits_error (lit ''state holds more records than the configured bound''))
      else Inr (image_of (cs_format_version s) (image_body s)))"

section \<open>Reading an image\<close>

text \<open>The readers of the three kinds of record; a codec failure is reported through \<open>map_codec_status\<close>.\<close>

definition mapped :: "'a reader \<Rightarrow> 'a reader" where
  "mapped r l bs = (case r l bs of Inl s \<Rightarrow> Inl (map_codec_status s) | Inr x \<Rightarrow> Inr x)"

definition read_state_header :: "coordinator_state \<Rightarrow> coordinator_state reader" where
  "read_state_header st = mapped (
     bind_reader pr_u32 (\<lambda>version. bind_reader pr_u64 (\<lambda>last_epoch. bind_reader pr_u64 (\<lambda>last_sequence.
     bind_reader pr_u64 (\<lambda>registration.
     read_watermarks (st\<lparr>cs_format_version := version, cs_last_epoch := last_epoch,
       cs_last_sequence := last_sequence, cs_next_worker_registration_sequence := registration\<rparr>))))))"

definition read_worker_entry :: "coordinator_state \<Rightarrow> coordinator_state reader" where
  "read_worker_entry st = bind_reader (mapped read_worker_incarnation) (\<lambda>incarnation l bs.
     if length (cs_workers st) \<ge> unat (lm_max_registered_workers l)
       then Inl (limits_error (lit ''state holds more worker incarnations than the configured bound''))
     else Inr (st\<lparr>cs_workers := cs_workers st @ [incarnation]\<rparr>, bs))"

definition read_experiment_entry :: "coordinator_state \<Rightarrow> coordinator_state reader" where
  "read_experiment_entry st = bind_reader (mapped pr_u64) (\<lambda>raw.
     let experiment = from_value raw
     in if \<not> valid experiment then refuse (corrupt (lit ''experiment record carries a null identity''))
        else bind_reader (mapped read_experiment_record) (\<lambda>record l bs.
          if length (cs_experiments st) \<ge> unat (lm_max_experiments l)
            then Inl (limits_error (lit ''state holds more experiments than the configured bound''))
          else if map_of (cs_experiments st) experiment \<noteq> None
            then Inl (corrupt (lit ''duplicate experiment record''))
          else Inr (st\<lparr>cs_experiments := omap_emplace experiment record (cs_experiments st)\<rparr>, bs)))"

text \<open>The switch on the record type. The pair is \<^verbatim>\<open>header_seen\<close> and the state built so far.\<close>

definition read_record :: "u32 \<Rightarrow> bool \<times> coordinator_state \<Rightarrow> (bool \<times> coordinator_state) reader" where
  "read_record raw_type = (\<lambda>(header_seen, st).
     if raw_type = record_type_code STATE_HEADER then
       (if header_seen then refuse (corrupt (lit ''state image contains more than one header record''))
        else bind_reader (read_state_header st) (\<lambda>st'. ready (True, st')))
     else if raw_type = record_type_code WORKER then
       bind_reader (read_worker_entry st) (\<lambda>st'. ready (header_seen, st'))
     else bind_reader (read_experiment_entry st) (\<lambda>st'. ready (header_seen, st')))"

function read_records ::
    "limits \<Rightarrow> u64 \<Rightarrow> bool \<times> coordinator_state \<Rightarrow> u8 list \<Rightarrow> (bool \<times> coordinator_state) result" where
  "read_records l counted acc body =
     (if body = [] then Inr acc
      else if length body < 12 then Inl (corrupt (lit ''record header is truncated''))
      else
        let raw_type = load_le 4 body; payload_length = (load_le 4 (drop 4 body) :: u32);
            payload_crc = load_le 4 (drop 8 body)
        in if raw_type < record_type_code STATE_HEADER \<or> raw_type > record_type_code EXPERIMENT
             then Inl (corrupt (lit ''record type is not recognised''))
           else if unat payload_length > length body - 12
             then Inl (corrupt (lit ''record payload is truncated''))
           else if counted + 1 > ucast (lm_max_persisted_records l)
             then Inl (limits_error (lit ''state holds too many records''))
           else
             let payload = take (unat payload_length) (drop 12 body)
             in if crc32 payload \<noteq> payload_crc then Inl (corrupt (lit ''record checksum mismatch''))
                else case read_record raw_type acc l payload of
                    Inl e \<Rightarrow> Inl e
                  | Inr (acc', rest) \<Rightarrow>
                      if \<not> st_ok (expect_end rest) then Inl (corrupt (lit ''record contains trailing bytes''))
                      else read_records l (counted + 1) acc' (drop (12 + unat payload_length) body))"
  by pat_completeness auto
termination
  by (relation "measure (\<lambda>(l, n, acc, body). length body)") auto

declare read_records.simps [simp del]

definition deserialize :: "u8 list \<Rightarrow> limits \<Rightarrow> coordinator_state result" where
  "deserialize bytes l =
     (if length bytes < kHeaderBytes then Inl (corrupt (lit ''state image is shorter than its header''))
      else if length bytes > unat (lm_max_state_file_bytes l)
        then Inl (limits_error (lit ''state image exceeds the configured bound''))
      else if load_le 4 bytes \<noteq> kMagic then Inl (corrupt (lit ''state image magic mismatch''))
      else if load_le 4 (drop 4 bytes) \<noteq> kPersistenceFormatVersion
        then Inl (corrupt (lit ''state image format version is not supported by this build''))
      else if load_le 4 (drop 8 bytes) \<noteq> (0 :: u32) then Inl (corrupt (lit ''state image flags must be zero''))
      else if load_le 4 (drop 12 bytes) \<noteq> crc32 (take 12 bytes)
        then Inl (corrupt (lit ''state image header checksum mismatch''))
      else
        let body_length = (load_le 8 (drop 16 bytes) :: u64); body = drop kHeaderBytes bytes
        in if unat body_length \<noteq> length bytes - kHeaderBytes then
             (if unat body_length > length bytes - kHeaderBytes
                then Inl (corrupt (lit ''state image is truncated''))
              else Inl (corrupt (lit ''state image has trailing garbage'')))
           else if digest_of body \<noteq> take kDigestBytes (drop 24 bytes)
             then Inl (corrupt (lit ''state image body digest mismatch''))
           else case read_records l 0 (False, coordinator_state_init) body of
               Inl e \<Rightarrow> Inl e
             | Inr (header_seen, st) \<Rightarrow>
                 if \<not> header_seen then Inl (corrupt (lit ''state image is missing its header record''))
                 else let validated = validate st l
                   in if \<not> st_ok validated then Inl validated else Inr st)"

section \<open>Files\<close>

text \<open>What can go wrong while the image is read: the size query, the open and a short read.\<close>

datatype load_fault = FILE_SIZE_FAILS | OPEN_FOR_READING_FAILS | SHORT_READ

definition load :: "u8 list option \<Rightarrow> load_fault option \<Rightarrow> limits \<Rightarrow> coordinator_state result" where
  "load contents fault l =
     (case contents of
        None \<Rightarrow> Inl (make_error EC_NOT_FOUND EG_PERSISTENCE (lit ''no persisted state image exists''))
      | Some bytes \<Rightarrow>
          if fault = Some FILE_SIZE_FAILS
            then Inl (io_failure (lit ''cannot determine the size of the state image''))
          else if length bytes > unat (lm_max_state_file_bytes l)
            then Inl (limits_error (lit ''state image exceeds the configured bound''))
          else if fault = Some OPEN_FOR_READING_FAILS
            then Inl (io_failure (lit ''cannot open the state image for reading''))
          else if bytes \<noteq> [] \<and> fault = Some SHORT_READ
            then Inl (corrupt (lit ''state image could not be read in full''))
          else deserialize bytes l)"

definition temporary_prefix :: "string \<Rightarrow> string" where
  "temporary_prefix filename = filename @ lit ''.tmp.''"

definition temporary_name :: "string \<Rightarrow> u64 \<Rightarrow> string" where
  "temporary_name filename sequence = temporary_prefix filename @ int_to_string (uint (sequence + 1))"

text \<open>
  The scan for leftover temporary images: \<open>names\<close> are the entries of the state directory (None: there
  is no directory) and \<open>removable\<close> says which of them the file system lets go. The result is the
  number removed and what is left in the directory.
\<close>

definition discard_temporary_images ::
    "string \<Rightarrow> string list option \<Rightarrow> (string \<Rightarrow> bool) \<Rightarrow> u32 \<times> string list option" where
  "discard_temporary_images filename names removable =
     (case names of
        None \<Rightarrow> (0, None)
      | Some entries \<Rightarrow>
          let goes = (\<lambda>name. take (length (temporary_prefix filename)) name = temporary_prefix filename \<and>
                removable name)
          in (count32 goes entries, Some (filter (\<lambda>name. \<not> goes name) entries)))"

section \<open>The layout of an image\<close>

definition image_prefix :: "u32 \<Rightarrow> u8 list" where
  "image_prefix version = store_le 4 kMagic @ store_le 4 version @ store_le 4 (0 :: u32)"

lemma length_image_prefix [simp]: "length (image_prefix v) = 12"
  by (simp add: image_prefix_def)

lemma image_of_eq:
  "image_of version body =
     image_prefix version @ store_le 4 (crc32 (image_prefix version)) @
     store_le 8 (of_nat (length body) :: u64) @ digest_of body @ body"
proof -
  let ?n = "length body" and ?p = "image_prefix version" and ?d = "digest_of body"
  let ?m = "store_le 4 kMagic" and ?v = "store_le 4 version" and ?z = "store_le 4 (0 :: u32)"
    and ?k = "store_le 8 (of_nat (length body) :: u64)"
  have prefix: "(?m @ ?v) @ ?z = ?p" by (simp add: image_prefix_def)
  have fields: "store_at 0 ?m (replicate (56 + ?n) 0) = ?m @ replicate (52 + ?n) 0"
    "store_at 4 ?v (?m @ replicate (52 + ?n) 0) = (?m @ ?v) @ replicate (48 + ?n) 0"
    "store_at 8 ?z ((?m @ ?v) @ replicate (48 + ?n) 0) = ?p @ replicate (44 + ?n) 0"
    using store_first [of ?m "56 + ?n"] store_next [of ?m 4 ?v "52 + ?n"] store_next [of "?m @ ?v" 8 ?z "48 + ?n"]
    by (simp_all only: prefix length_append length_store_le) simp_all
  have sums: "store_at 12 (store_le 4 (c :: u32)) (?p @ replicate (44 + ?n) 0) = (?p @ store_le 4 c) @ replicate (40 + ?n) 0"
    "store_at 16 ?k ((?p @ store_le 4 c) @ replicate (40 + ?n) 0) = ((?p @ store_le 4 c) @ ?k) @ replicate (32 + ?n) 0"
    "store_at 24 ?d (((?p @ store_le 4 c) @ ?k) @ replicate (32 + ?n) 0) = (((?p @ store_le 4 c) @ ?k) @ ?d) @ replicate ?n 0"
    "store_at 56 body ((((?p @ store_le 4 c) @ ?k) @ ?d) @ replicate ?n 0) = (((?p @ store_le 4 c) @ ?k) @ ?d) @ body" for c :: u32
    using store_next [of ?p 12 "store_le 4 c" "44 + ?n"] store_next [of "?p @ store_le 4 c" 16 ?k "40 + ?n"]
      store_next [of "(?p @ store_le 4 c) @ ?k" 24 ?d "32 + ?n"]
      store_next [of "((?p @ store_le 4 c) @ ?k) @ ?d" 56 body ?n]
    by (simp_all add: length_digest_of del: append_assoc)
  show ?thesis
    unfolding image_of_def kHeaderBytes_def Let_def fields sums by simp
qed

lemma length_image_of [simp]: "length (image_of version body) = kHeaderBytes + length body"
  by (simp add: image_of_eq kHeaderBytes_def length_digest_of)

definition record_bytes :: "record_type \<Rightarrow> u8 list \<Rightarrow> u8 list" where
  "record_bytes type payload =
     store_le 4 (record_type_code type) @ store_le 4 (of_nat (length payload) :: u32) @
     store_le 4 (crc32 payload) @ payload"

lemma append_record_eq: "append_record body t payload = body @ record_bytes t payload"
  by (simp add: append_record_def record_bytes_def)

lemma record_bytes_nonempty [simp]: "record_bytes t payload \<noteq> []"
  by (simp add: record_bytes_def flip: length_greater_0_conv)

lemma foldl_append: "foldl (\<lambda>b x. b @ f x) b xs = b @ concat (map f xs)"
  by (induction xs arbitrary: b) simp_all

definition worker_bytes :: "worker_incarnation \<Rightarrow> u8 list" where
  "worker_bytes w = record_bytes WORKER (put_worker_incarnation w)"

definition experiment_bytes :: "experiment_id \<times> experiment_record \<Rightarrow> u8 list" where
  "experiment_bytes e = record_bytes EXPERIMENT (pw_u64 (id_value (fst e)) @ put_experiment_record (snd e))"

lemma image_body_eq:
  "image_body s = record_bytes STATE_HEADER (put_state_header s) @ concat (map worker_bytes (cs_workers s)) @
     concat (map experiment_bytes (cs_experiments s))"
  by (simp add: image_body_def append_record_eq foldl_append worker_bytes_def [abs_def] experiment_bytes_def [abs_def])

section \<open>Reading back\<close>

lemma record_type_codes:
  "\<not> (record_type_code t < record_type_code STATE_HEADER \<or> record_type_code t > record_type_code EXPERIMENT)"
  by (cases t) simp_all

lemma read_records_step:
  assumes small: "length payload < 2 ^ 32" and room: "k + 1 \<le> unat (lm_max_persisted_records l)"
    and one: "read_record (record_type_code t) acc l payload = Inr (acc', [])"
  shows "read_records l (of_nat k) acc (record_bytes t payload @ rest) = read_records l (of_nat (k + 1)) acc' rest"
proof -
  let ?b = "record_bytes t payload @ rest"
  have loads: "load_le 4 ?b = record_type_code t" "load_le 4 (drop 4 ?b) = (of_nat (length payload) :: u32)"
    "load_le 4 (drop 8 ?b) = crc32 payload" "drop 12 ?b = payload @ rest"
    by (simp_all add: record_bytes_def load_store_le)
  have n: "unat (of_nat (length payload) :: u32) = length payload" using small by (simp add: unat_of_nat)
  have "unat (of_nat k + 1 :: u64) = k + 1" "unat (lm_max_persisted_records l) < 2 ^ 32"
    using room unat_lt_32 [of "lm_max_persisted_records l"] by (simp_all add: unat_word_ariths unat_of_nat)
  then have counted: "\<not> (of_nat k + 1 :: u64) > ucast (lm_max_persisted_records l)"
    using room by (simp add: word_less_nat_alt unsigned_ucast_eq take_bit_nat_eq_self)
  have "?b \<noteq> []" "\<not> length ?b < 12" by (simp, simp add: record_bytes_def)
  moreover have "\<not> length payload > length ?b - 12" "drop (12 + length payload) ?b = rest"
    by (simp_all add: record_bytes_def)
  ultimately show ?thesis
    using counted one
    unfolding read_records.simps [of l "of_nat k" acc ?b] loads n Let_def
    by (simp add: expect_end_def record_type_codes add.commute del: record_type_code.simps)
qed

lemma read_workers:
  assumes "\<And>w. w \<in> set ws \<Longrightarrow> worker_incarnation_bounded l w \<and> length (put_worker_incarnation w) < 2 ^ 32"
    and "length (cs_workers st) + length ws \<le> unat (lm_max_registered_workers l)"
    and "k + length ws \<le> unat (lm_max_persisted_records l)"
  shows "read_records l (of_nat k) (seen, st) (concat (map worker_bytes ws) @ rest) =
    read_records l (of_nat (k + length ws)) (seen, st\<lparr>cs_workers := cs_workers st @ ws\<rparr>) rest"
  using assms
proof (induction ws arbitrary: k st)
  case (Cons w ws)
  let ?st = "st\<lparr>cs_workers := cs_workers st @ [w]\<rparr>"
  have w: "worker_incarnation_bounded l w" "length (put_worker_incarnation w) < 2 ^ 32" using Cons.prems(1) by auto
  have "read_record (record_type_code WORKER) (seen, st) l (put_worker_incarnation w) = Inr ((seen, ?st), [])"
    using Cons.prems(2)
    by (simp add: read_record_def read_worker_entry_def bind_reader_def ready_def mapped_def
        worker_incarnation_codec.get_put_end [OF w(1)])
  from read_records_step [OF w(2) _ this, of k "concat (map worker_bytes ws) @ rest"] Cons.prems(3)
  have "read_records l (of_nat k) (seen, st) (concat (map worker_bytes (w # ws)) @ rest) =
      read_records l (of_nat (k + 1)) (seen, ?st) (concat (map worker_bytes ws) @ rest)"
    by (simp add: worker_bytes_def [of w])
  also have "\<dots> = read_records l (of_nat (k + 1 + length ws)) (seen, ?st\<lparr>cs_workers := cs_workers ?st @ ws\<rparr>) rest"
    using Cons.prems by (intro Cons.IH) auto
  finally show ?case by (simp add: ac_simps)
qed simp

lemma read_experiments:
  assumes "\<And>e. e \<in> set es \<Longrightarrow> valid (fst e) \<and> experiment_record_bounded l (snd e) \<and>
      length (pw_u64 (id_value (fst e)) @ put_experiment_record (snd e)) < 2 ^ 32"
    and "omap_ordered (cs_experiments st @ es)"
    and "length (cs_experiments st) + length es \<le> unat (lm_max_experiments l)"
    and "k + length es \<le> unat (lm_max_persisted_records l)"
  shows "read_records l (of_nat k) (seen, st) (concat (map experiment_bytes es) @ rest) =
    read_records l (of_nat (k + length es)) (seen, st\<lparr>cs_experiments := cs_experiments st @ es\<rparr>) rest"
  using assms
proof (induction es arbitrary: k st)
  case (Cons e es)
  obtain i r where e: "e = (i, r)" by (cases e)
  let ?st = "st\<lparr>cs_experiments := cs_experiments st @ [(i, r)]\<rparr>"
  let ?p = "pw_u64 (id_value i) @ put_experiment_record r"
  have ok: "valid i" "experiment_record_bounded l r" and small: "length ?p < 2 ^ 32"
    using Cons.prems(1) [of e] e by auto
  have below: "\<And>x. x \<in> set (cs_experiments st) \<Longrightarrow> fst x < i" using Cons.prems(2) e by (auto simp: sorted_wrt_append)
  then have fresh: "map_of (cs_experiments st) i = None" by (force simp: map_of_eq_None_iff)
  have "read_record (record_type_code EXPERIMENT) (seen, st) l ?p = Inr ((seen, ?st), [])"
    using Cons.prems(3) ok fresh
    by (simp add: read_record_def read_experiment_entry_def codec_reads mapped_def from_value_def
        experiment_record_codec.get_put_end [OF ok(2)] omap_emplace_last [OF below])
  from read_records_step [OF small _ this, of k "concat (map experiment_bytes es) @ rest"] Cons.prems(4)
  have "read_records l (of_nat k) (seen, st) (concat (map experiment_bytes (e # es)) @ rest) =
      read_records l (of_nat (k + 1)) (seen, ?st) (concat (map experiment_bytes es) @ rest)"
    using e by (simp add: experiment_bytes_def [of "(i, r)"])
  also have "\<dots> = read_records l (of_nat (k + 1 + length es)) (seen, ?st\<lparr>cs_experiments := cs_experiments ?st @ es\<rparr>) rest"
    using Cons.prems e by (intro Cons.IH) auto
  finally show ?case using e by (simp add: ac_simps)
qed simp

text \<open>What the format can carry within the limits.\<close>

definition image_bounded :: "limits \<Rightarrow> coordinator_state \<Rightarrow> bool" where
  "image_bounded l s \<longleftrightarrow>
     (\<forall>w \<in> set (cs_workers s). worker_incarnation_bounded l w) \<and>
     length (cs_workers s) \<le> unat (lm_max_registered_workers l) \<and>
     omap_ordered (cs_experiments s) \<and> (\<forall>e \<in> set (cs_experiments s). experiment_record_bounded l (snd e)) \<and>
     1 + length (cs_workers s) + length (cs_experiments s) \<le> unat (lm_max_persisted_records l) \<and>
     kHeaderBytes + length (image_body s) \<le> unat (lm_max_state_file_bytes l) \<and> length (image_body s) < 2 ^ 32"

lemma state_header_read:
  "read_state_header coordinator_state_init l (put_state_header s) =
     Inr (s\<lparr>cs_workers := [], cs_experiments := []\<rparr>, [])"
proof -
  have end_marks: "read_watermarks y l (put_watermarks s) = read_watermarks y l (put_watermarks s @ [])" for y by simp
  show ?thesis
    by (simp add: read_state_header_def put_state_header_def mapped_def codec_reads end_marks
        coordinator_state_init_def del: append_Nil2)
qed

lemma length_le_concat: "x \<in> set xs \<Longrightarrow> length (f x) \<le> length (concat (map f xs))"
  by (induction xs) auto

lemma read_image_body:
  assumes b: "image_bounded l s" and v: "st_ok (validate s l)"
  shows "read_records l 0 (False, coordinator_state_init) (image_body s) = Inr (True, s)"
proof -
  let ?st = "s\<lparr>cs_workers := [], cs_experiments := []\<rparr>"
  have small: "length p < 2 ^ 32" if "length (record_bytes t p) \<le> length (image_body s)" for t p
    using that b by (simp add: image_bounded_def record_bytes_def)
  have workers: "worker_incarnation_bounded l w \<and> length (put_worker_incarnation w) < 2 ^ 32" if "w \<in> set (cs_workers s)" for w
    using that b length_le_concat [OF that, of worker_bytes] small [of WORKER "put_worker_incarnation w"]
    by (auto simp: image_bounded_def image_body_eq worker_bytes_def)
  have keys: "valid (fst e)" if "e \<in> set (cs_experiments s)" for e
    using v that by (auto simp: validate_def and_then_def check_each_ok split: if_splits)
  have experiments: "valid (fst e) \<and> experiment_record_bounded l (snd e) \<and>
      length (pw_u64 (id_value (fst e)) @ put_experiment_record (snd e)) < 2 ^ 32" if "e \<in> set (cs_experiments s)" for e
    using that b keys [OF that] length_le_concat [OF that, of experiment_bytes]
      small [of EXPERIMENT "pw_u64 (id_value (fst e)) @ put_experiment_record (snd e)"]
    by (auto simp: image_bounded_def image_body_eq experiment_bytes_def)
  have "read_record (record_type_code STATE_HEADER) (False, coordinator_state_init) l (put_state_header s) = Inr ((True, ?st), [])"
    by (simp add: read_record_def bind_reader_def ready_def state_header_read)
  from read_records_step [OF small [of STATE_HEADER] _ this, where k = 0] b
  have "read_records l 0 (False, coordinator_state_init) (image_body s) =
      read_records l (of_nat 1) (True, ?st) (concat (map worker_bytes (cs_workers s)) @ concat (map experiment_bytes (cs_experiments s)))"
    by (simp add: image_body_eq image_bounded_def)
  also have "\<dots> = read_records l (of_nat (1 + length (cs_workers s))) (True, s\<lparr>cs_experiments := []\<rparr>)
      (concat (map experiment_bytes (cs_experiments s)))"
    using read_workers [OF workers, where st = ?st and k = 1 and seen = True] b by (simp add: image_bounded_def)
  also have "\<dots> = read_records l (of_nat (1 + length (cs_workers s) + length (cs_experiments s))) (True, s) []"
    using read_experiments [OF experiments, where st = "s\<lparr>cs_experiments := []\<rparr>" and k = "1 + length (cs_workers s)" and
        seen = True and rest = "[]"] b v
    by (simp add: image_bounded_def validate_def split: if_splits)
  finally show ?thesis by (simp add: read_records.simps)
qed

section \<open>Properties\<close>

lemma image_segments:
  assumes "i = image_of version body"
  shows "take 12 i = image_prefix version" "load_le 4 i = kMagic" "load_le 4 (drop 4 i) = version"
    "load_le 4 (drop 8 i) = (0 :: u32)" "load_le 4 (drop 12 i) = crc32 (image_prefix version)"
    "load_le 8 (drop 16 i) = (of_nat (length body) :: u64)" "take 32 (drop 24 i) = digest_of body" "drop 56 i = body"
  unfolding assms image_of_eq by (simp_all add: image_prefix_def load_store_le length_digest_of)

lemma load_le_take:
  "m + k \<le> n \<Longrightarrow> n < length bs \<Longrightarrow> load_le k (drop m (take n bs)) = (load_le k (drop m bs) :: 'a::len word)"
  by (rule bit_word_eqI) (auto simp: bit_load_le)

lemma serialize_Inr:
  "serialize s l = Inr bytes \<Longrightarrow>
     bytes = image_of (cs_format_version s) (image_body s) \<and> cs_format_version s = kPersistenceFormatVersion"
  by (auto simp: serialize_def split: if_splits)

text \<open>
  C13: a state image is read back as the state it was written from. For a valid state whose texts
  and vectors are within the bounds of the format, and whose image is within the configured size,
  deserializing the serialized bytes succeeds and returns exactly that state.
\<close>

theorem state_image_round_trip:
  assumes "serialize s l = Inr bytes" and "image_bounded l s" and "st_ok (validate s l)"
  shows "deserialize bytes l = Inr s"
proof -
  have bytes: "bytes = image_of kPersistenceFormatVersion (image_body s)" using serialize_Inr [OF assms(1)] by simp
  note parts = image_segments [OF bytes]
  have size: "length bytes = 56 + length (image_body s)" "length bytes \<le> unat (lm_max_state_file_bytes l)"
    "length (image_body s) < 2 ^ 64"
    using assms(2) by (simp_all add: bytes kHeaderBytes_def image_bounded_def)
  have "unat (of_nat (length (image_body s)) :: u64) = length (image_body s)" using size(3) by (simp add: unat_of_nat)
  then show ?thesis
    using size(1,2) assms(3)
    by (simp add: deserialize_def kHeaderBytes_def kDigestBytes_def parts read_image_body [OF assms(2,3)] Let_def)
qed

lemma length_parts:
  "length (pw_u8 b) = 1" "length (pw_u32 v) = 4" "length (pw_u64 w) = 8" "length (pw_boolean c) = 1" "length (pw_real d) = 8"
  "length (write_id i) = 8" "length (write_enum code x) = 1" "length (pw_text t m) = 4 + min (length t) (unat m)"
  "length (put_optional_u64 o64) = (case o64 of None \<Rightarrow> 1 | Some _ \<Rightarrow> 9)"
  "length (put_optional_real o64) = (case o64 of None \<Rightarrow> 1 | Some _ \<Rightarrow> 9)"
  "length (write_vector n f xs) = 4 + sum_list (map (length \<circ> f) xs)"
  "length (record_bytes ty payload) = 12 + length payload"
  by (simp_all add: pw_u8_def pw_u32_def pw_u64_def pw_boolean_def pw_real_def write_id_def write_enum_def pw_text_def
      put_optional_u64_def put_optional_real_def write_vector_def pw_count_def record_bytes_def Let_def
      length_concat split: option.splits)

definition sample_worker :: worker_incarnation where
  "sample_worker =
     \<lparr>wi_worker = from_value 1, wi_boot = from_value 1, wi_epoch = from_value 1, wi_producer = from_value 1,
      wi_endpoint = ''w'', wi_fingerprint = [], wi_registered_sequence = 1, wi_revoked = False,
      wi_revocation_kind = FK_NONE, wi_revoked_sequence = 0\<rparr>"

definition sample_state :: coordinator_state where
  "sample_state = coordinator_state_init
     \<lparr>cs_format_version := 1, cs_last_epoch := 1, cs_last_sequence := 9, cs_workers := [sample_worker],
      cs_experiments := [(from_value 1, sample_record)], cs_id_watermark_experiment := 9,
      cs_id_watermark_hypothesis := 9, cs_id_watermark_branch := 9, cs_id_watermark_trial := 9\<rparr>"

lemma sample_state_valid: "st_ok (validate sample_state limits_defaults)"
  using sample_record_ok
  by (simp add: validate_def sample_state_def sample_worker_def and_then_def validate_experiment_record_def
      watermarks_dominate_def max_of_def coordinator_state_init_def kPersistenceFormatVersion_def
      total_record_count_def record_count_def sample_defs Let_def)

lemma sample_record_bounded: "experiment_record_bounded limits_defaults sample_record"
  by (simp add: experiment_record_bounded_def experiment_definition_bounded_def branch_definition_bounded_def
      metric_definition_bounded_def comparison_policy_bounded_def parameters_bounded_def parameter_bounded_def
      hypothesis_bounded_def trial_bounded_def map_bounded_def keyed_by_def omap_values_def vector_within_def
      text_within_def sample_defs less_strong_id_def)

lemma sample_body_length: "length (image_body sample_state) < 2000"
  by (simp add: image_body_eq worker_bytes_def experiment_bytes_def sample_state_def sample_worker_def sample_defs
      coordinator_state_init_def put_state_header_def put_watermarks_def put_worker_incarnation_def
      put_experiment_record_def put_experiment_definition_def put_branch_definition_def put_metric_definition_def
      put_comparison_policy_def put_comparison_rule_def put_parameters_def put_parameter_def put_hypothesis_def
      put_expected_direction_def put_trial_def omap_values_def length_parts comp_def)

lemma sample_state_bounded: "image_bounded limits_defaults sample_state"
  using sample_record_bounded sample_body_length
  by (simp add: image_bounded_def sample_state_def sample_worker_def coordinator_state_init_def
      worker_incarnation_bounded_def text_within_def limits_defaults_def kHeaderBytes_def)

lemma sample_state_serialized:
  "serialize sample_state limits_defaults = Inr (image_of 1 (image_body sample_state))"
  using sample_state_valid by (simp add: serialize_def validate_def kPersistenceFormatVersion_def split: if_splits)

theorem state_image_round_trip_witness:
  "deserialize (image_of 1 (image_body sample_state)) limits_defaults = Inr sample_state"
  by (rule state_image_round_trip [OF sample_state_serialized sample_state_bounded sample_state_valid])

text \<open>
  C29: an image that was cut short is never loaded. Every proper prefix of a serialized image is
  refused as corrupt, so a torn write cannot be taken for a smaller state.
\<close>

theorem truncated_image_is_refused:
  assumes "serialize s l = Inr bytes" and "length bytes \<le> unat (lm_max_state_file_bytes l)" and "n < length bytes"
  shows "\<exists>e. deserialize (take n bytes) l = Inl e \<and> st_code e = EC_CORRUPT_PERSISTENCE"
proof (cases "n < 56")
  case True
  then show ?thesis using assms(3) by (simp add: deserialize_def kHeaderBytes_def corrupt_def)
next
  case False
  have bytes: "bytes = image_of kPersistenceFormatVersion (image_body s)" using serialize_Inr [OF assms(1)] by simp
  have heads: "take k (drop m (take n bytes)) = take k (drop m bytes)" if "m + k \<le> 56" for m k
    using that False by (simp add: drop_take min_def)
  note parts = image_segments [OF bytes]
  have size: "length bytes = 56 + length (image_body s)" "length (image_body s) < 2 ^ 64"
    using assms(2) unat_lt_64 [of "lm_max_state_file_bytes l"] by (simp_all add: bytes kHeaderBytes_def)
  have "unat (of_nat (length (image_body s)) :: u64) = length (image_body s)" using size(2) by (simp add: unat_of_nat)
  moreover have "n - 56 < length (image_body s)" using False assms(3) size(1) by simp
  ultimately show ?thesis
    using False assms(2,3) size(1) heads [of 0 12] parts load_le_take [of 0 4 n bytes, where ?'a = 32]
    by (simp add: deserialize_def kHeaderBytes_def Let_def corrupt_def load_le_take)
qed

theorem truncated_image_is_refused_witness:
  "\<exists>bytes. serialize sample_state limits_defaults = Inr bytes \<and>
     (\<exists>e. deserialize (take 60 bytes) limits_defaults = Inl e \<and> st_code e = EC_CORRUPT_PERSISTENCE)"
proof -
  let ?bytes = "image_of 1 (image_body sample_state)"
  have "60 < length ?bytes" by (simp add: kHeaderBytes_def image_body_eq length_parts put_state_header_def)
  moreover have "length ?bytes \<le> unat (lm_max_state_file_bytes limits_defaults)"
    using sample_state_bounded by (simp add: image_bounded_def)
  ultimately show ?thesis using truncated_image_is_refused [OF sample_state_serialized] sample_state_serialized by blast
qed

text \<open>
  C30: the scan at process start removes leftovers only. The live image stays, no entry appears, and
  every temporary image that a save of this path can have left behind is gone when the file system
  allows its removal.
\<close>

theorem discard_keeps_live_image:
  assumes "discard_temporary_images filename (Some entries) removable = (n, Some left)"
  shows "(filename \<in> set entries \<longrightarrow> filename \<in> set left) \<and> set left \<subseteq> set entries \<and>
    (\<forall>k. removable (temporary_name filename k) \<longrightarrow> temporary_name filename k \<notin> set left)"
proof -
  let ?p = "temporary_prefix filename"
  have left: "left = filter (\<lambda>name. \<not> (take (length ?p) name = ?p \<and> removable name)) entries"
    using assms by (auto simp: discard_temporary_images_def Let_def)
  have "take (length ?p) filename \<noteq> ?p" by (simp add: temporary_prefix_def lit_def)
  moreover have "take (length ?p) (temporary_name filename k) = ?p" for k by (simp add: temporary_name_def)
  ultimately show ?thesis by (auto simp: left)
qed

theorem discard_keeps_live_image_witness:
  "let left = the (snd (discard_temporary_images ''s'' (Some [''s'', ''s.tmp.1'']) (\<lambda>name. True)))
   in ''s'' \<in> set left \<and> temporary_name ''s'' 0 \<notin> set left"
proof -
  have "discard_temporary_images ''s'' (Some [''s'', ''s.tmp.1'']) (\<lambda>name. True) = (1, Some [''s''])"
    by (simp add: discard_temporary_images_def temporary_prefix_def lit_def count32_def)
  from discard_keeps_live_image [OF this] this show ?thesis by simp
qed

end
