(* ===== verification/Spec2Isabelle.thy ===== *)
theory Spec2Isabelle
  imports Network Contracts Refusals DecisionSafety Persistence
begin

text \<open>
  Experiment Fabric is a coordinator for experiments: it defines experiments with hypotheses,
  branches, metrics and a comparison policy, issues trials to worker processes, collects their
  observations and artifacts, decides between branches, rolls back, and survives restarts. This
  development models the library under \<^verbatim>\<open>src/src\<close> and \<^verbatim>\<open>src/include\<close> as functions on explicit states and proves
  what makes it correct: authority over a trial is exclusive and cannot be replayed, history is never
  rewritten, and what is stored or sent is what is read back.

  \<^bold>\<open>Parts and theories, from the bottom up.\<close>

  \<^item> \<open>Prelude\<close>, \<open>OrderedMap\<close>, \<open>Binary64\<close>: string literals, results, \<^verbatim>\<open>std::sort\<close>, \<^verbatim>\<open>std::map\<close> (an association list in key
    order, with its interface as a locale) and \<^verbatim>\<open>double\<close> in its bits.
  \<^item> \<open>Identity\<close> (\<^verbatim>\<open>identity.hpp\<close>), \<open>ErrorModel\<close> (\<^verbatim>\<open>error.cpp\<close>), \<open>Domain\<close> (\<^verbatim>\<open>domain.cpp\<close>), \<open>Hash\<close> (\<^verbatim>\<open>hash.cpp\<close>),
    \<open>Model\<close> (\<^verbatim>\<open>model.hpp\<close>, \<^verbatim>\<open>limits.cpp\<close>): typed identities and their text, statuses, enumerations with their
    transition tables, SHA-256, CRC-32, the seeds of trials, and the records. Shown: text round trips,
    the streaming hash equals the specification on whole messages, the table of the checksum equals
    bitwise division, terminal states are left by no transition.
  \<^item> \<open>Canonical\<close> (\<^verbatim>\<open>canonical.cpp\<close>) and \<open>State\<close> (\<^verbatim>\<open>state.cpp\<close>): digests that do not depend on the order of
    definition, the durable state and its validation. Shown: what validation guarantees of references,
    uniqueness and lineage.
  \<^item> \<open>Payload\<close>, \<open>ModelCodec\<close>, \<open>RecordCodec\<close>, \<open>Framing\<close>, \<open>Message\<close> (\<^verbatim>\<open>protocol.cpp\<close>): writers append bytes, a reader
    maps limits and bytes to a value and the rest or to a status. The locales \<open>codec\<close> and \<open>strict_codec\<close> state
    that a value is read back and that nothing else is accepted; every record, message and frame is an
    interpretation.
  \<^item> \<open>Persistence\<close> (\<^verbatim>\<open>persistence.cpp\<close>): the image of the state, its loading, the removal of leftovers.
  \<^item> \<open>Impl\<close>, \<open>Coordinator\<close>, \<open>Recovery\<close> (\<^verbatim>\<open>coordinator_internal.hpp\<close>, \<^verbatim>\<open>coordinator.cpp\<close>): the record \<open>impl\<close> is
    \<^verbatim>\<open>Coordinator::Impl\<close>. Every public operation runs under one lock from its first read to its commit to
    disk, so it is a function from the coordinator to its result and the next coordinator. The disk is
    \<open>im_disk\<close>, the state whose image the live file holds; \<open>im_faults\<close> scripts the failures of the file system.
  \<^item> \<open>Authority\<close> (\<^verbatim>\<open>authority.cpp\<close>, \<^verbatim>\<open>coordinator_authority.cpp\<close>), \<open>Evidence\<close> (\<^verbatim>\<open>compute_evidence\<close>), \<open>Decision\<close>
    (\<^verbatim>\<open>coordinator_decision.cpp\<close>): the envelope check, workers, claims, publication, completion, failure,
    cancellation, evidence, constraints, comparison, finalization and rollback, each with its refusals
    and with its undo when the commit to disk fails.
  \<^item> \<open>Inspect\<close> (\<^verbatim>\<open>inspect.cpp\<close>), \<open>Query\<close> (\<^verbatim>\<open>coordinator_query.cpp\<close>): the read-only views and their text.
  \<^item> \<open>Transport\<close> (\<^verbatim>\<open>transport.cpp\<close>), \<open>Server\<close> (\<^verbatim>\<open>coordinator_server.cpp\<close>): the loops that send and receive frames
    over a connection whose system calls are a script, the dispatch of a frame to a call and the loop
    that serves a connection. \<open>Socket\<close>: connecting, binding and accepting, with the answers of the system as
    arguments. \<open>Pool\<close>: the accept thread, the pool of threads and the stop sequence as interleaved steps on
    shared state, with the holder of every connection as invariant and an end of the stop sequence.
  \<^item> \<open>Client\<close> (\<^verbatim>\<open>client.cpp\<close>), \<open>Worker\<close> (\<^verbatim>\<open>worker.cpp\<close>): one exchange of a request for its reply, every call of the
    client, and the worker's registration, cycles and loop; the task, the clock and the random device
    are arguments. \<open>Network\<close> puts both ends together: remote calls are local calls, a worker's cycle over
    the network is its reference cycle, a coordinator that serves any peer stays reachable, and the
    replay of a worker's frame log repeats it.
  \<^item> \<open>NumberText\<close>, \<open>Catalogue\<close> (\<^verbatim>\<open>apps/scenarios.cpp\<close>), \<open>Control\<close> (\<^verbatim>\<open>apps/ef_ctl.cpp\<close>), \<open>Programs\<close>
    (\<^verbatim>\<open>apps/ef_coordinator.cpp\<close>, \<^verbatim>\<open>apps/ef_worker.cpp\<close>): the reference experiments and workloads, the helpers that
    drive a coordinator in the same process, and the programs, from their arguments to the lines they
    print and their exit codes. Shown: helpers and the coordinator program only make calls of the
    coordinator's interface, and the claim loop with a number of cycles returns.

  \<^bold>\<open>Safety of the coordinator.\<close> \<open>Governance\<close> states the invariant \<open>rec_inv\<close> of an experiment record and the
  relation \<open>evolves\<close> between a record and a later one, and the locale \<open>record_update\<close>, the contract of an
  operation on one record. \<open>Safety\<close>, \<open>EvidenceSafety\<close>, \<open>CompletionSafety\<close>, \<open>IssueSafety\<close> and \<open>RecoverySafety\<close>
  interpret it on every update the code makes and conclude that each operation is \<open>sound\<close>: it keeps the
  invariant, advances the state, and leaves on disk the old image or one of a state no older than the
  present one. \<open>Runs\<close> is the state machine: operations, runs, and the states reachable through calls,
  failed commits and restarts. \<open>Scenario\<close> is a concrete run that the witnesses use. \<open>Durability\<close> states what
  an acknowledgement means (the locale \<open>lasting\<close>: a fact that later states keep and that is on disk is found
  by every later process) for commits and decisions. \<open>DecisionSafety\<close> gives the conditions under which a
  candidate is accepted, shows that the constraints and the comparison decide exactly them, and that
  nothing but the evidence of completed trials influences a decision. \<open>Contracts\<close>: an observation
  that was acknowledged can be published again without effect, and a rollback restores exactly the recorded
  authority. \<open>Refusals\<close>: a creation that is refused, by a failed save too, leaves no trace but in the log.
  This theory holds the properties that span components.

  \<^bold>\<open>Bounds.\<close> Identities are 64-bit words that wrap around. The theorems about runs ask for \<open>room\<close>: before
  each call the watermarks of experiments, trials and attempts are below \<open>0xFFFFFFFF00000000\<close>, one largest
  batch from the top; a coordinator that issued a million identities a second would reach it after
  half a million years. No function uses fuel: loops over containers are structural, lineage walks
  end at their depth limit, and the loops over a connection end because each frame consumes bytes of
  the script; a receive or a send that is still blocked has no result (\<open>None\<close>), and
  \<open>connection_is_served\<close> shows when there is one.

  \<^bold>\<open>Not modelled.\<close> Inside a call of the coordinator no other thread is seen, because the call holds the
  lock; memory orders and the condition variables are below the steps of \<open>Pool\<close>. What sockets, files and
  directory listing do is the operating system's. The hook with which \<^verbatim>\<open>ef_worker\<close> ends its own process in
  the middle of a cycle is left out, because the model of a cycle has no end other than its own.
  Examples, benchmarks and tests are callers of what is modelled here and print or measure. The
  transport sends replies in order on one connection, so the limits on connections and frames in
  flight, which no code reads, have no counterpart.
\<close>

section \<open>Attempts of one trial\<close>

lemma filter_at_most_one:
  assumes ordered: "omap_ordered m" and one: "\<And>j a. map_of m j = Some a \<Longrightarrow> P a \<Longrightarrow> j = i"
  shows "length (filter P (omap_values m)) \<le> 1"
proof -
  let ?keys = "map fst (filter (\<lambda>e. P (snd e)) m)"
  have sub: "set ?keys \<subseteq> {i}" using one omap_entry_lookup [OF ordered] by fastforce
  have "distinct ?keys" using omap_ordered_distinct [OF ordered] by (rule distinct_map_filter)
  then have "length ?keys = card (set ?keys)" by (rule distinct_card [symmetric])
  also have "\<dots> \<le> card {i}" by (rule card_mono [OF _ sub]) simp
  finally show ?thesis by (simp add: omap_values_def filter_map comp_def)
qed

definition live_attempts :: "trial_id \<Rightarrow> experiment_record \<Rightarrow> attempt_record list" where
  "live_attempts k r = filter (\<lambda>a. at_trial a = k \<and> live_attempt a) (omap_values (er_attempts r))"

definition committed_attempts :: "trial_id \<Rightarrow> experiment_record \<Rightarrow> attempt_record list" where
  "committed_attempts k r = filter (\<lambda>a. at_trial a = k \<and> at_committed a) (omap_values (er_attempts r))"

lemma rec_inv_at_most_one_live: "rec_inv r \<Longrightarrow> length (live_attempts k r) \<le> 1"
  unfolding live_attempts_def
proof (rule filter_at_most_one)
  assume inv: "rec_inv r"
  then show "omap_ordered (er_attempts r)" by (simp add: rec_inv_def)
  fix j a assume "map_of (er_attempts r) j = Some a" "at_trial a = k \<and> live_attempt a"
  then show "j = tr_authoritative_attempt (the (map_of (er_trials r) k))"
    using rec_inv_attempt [OF inv] by (fastforce simp: attempt_inv_def)
qed

lemma rec_inv_committed:
  assumes inv: "rec_inv r" and t: "map_of (er_trials r) k = Some t"
  shows "length (committed_attempts k r) = (if tr_state t = TS_COMPLETED then 1 else 0)"
proof -
  have ordered: "omap_ordered (er_attempts r)" using inv by (simp add: rec_inv_def)
  have auth: "tr_state t = TS_COMPLETED \<and> j = tr_authoritative_attempt t"
    if "map_of (er_attempts r) j = Some a" "at_trial a = k \<and> at_committed a" for j a
    using rec_inv_attempt [OF inv that(1)] that(2) t by (auto simp: attempt_inv_def)
  have most: "length (committed_attempts k r) \<le> 1"
    unfolding committed_attempts_def using auth by (intro filter_at_most_one [OF ordered]) blast
  show ?thesis
  proof (cases "tr_state t = TS_COMPLETED")
    case True
    then obtain a where a: "map_of (er_attempts r) (tr_authoritative_attempt t) = Some a" "at_trial a = k" "at_state a = AS_COMPLETED"
      using rec_inv_trial [OF inv t] by (auto simp: trial_inv_def)
    then have "at_committed a" using rec_inv_attempt [OF inv a(1)] by (simp add: attempt_inv_def)
    then have "a \<in> set (committed_attempts k r)"
      using a map_of_in_values [OF a(1)] by (simp add: committed_attempts_def)
    then have "0 < length (committed_attempts k r)" by (rule length_pos_if_in_set)
    then show ?thesis using most True by (simp add: le_antisym Suc_leI)
  next
    case False
    then have "committed_attempts k r = []"
      using auth omap_values_lookup [OF ordered] by (fastforce simp: committed_attempts_def filter_empty_conv)
    then show ?thesis using False by simp
  qed
qed

section \<open>Authority is exclusive\<close>

text \<open>
  C1: in every reachable state, and so after any sequence of calls, failed commits to disk and
  restarts, a trial has at most one live attempt, exactly one committed attempt when it is
  COMPLETED and none otherwise.
\<close>

theorem trial_authority_is_exclusive:
  assumes "reachable im" and "find_experiment im e = Some r" and "map_of (er_trials r) k = Some t"
  shows "length (live_attempts k r) \<le> 1 \<and>
    length (committed_attempts k r) = (if tr_state t = TS_COMPLETED then 1 else 0)"
  using coord_inv_record [OF reachable_inv [OF assms(1)] assms(2)] rec_inv_at_most_one_live
    rec_inv_committed [OF _ assms(3)] by blast

theorem trial_authority_is_exclusive_witness:
  "\<exists>r t. find_experiment demo_claimed (from_value 1) = Some r \<and> map_of (er_trials r) (from_value 1) = Some t \<and>
     length (live_attempts (from_value 1) r) \<le> 1 \<and>
     length (committed_attempts (from_value 1) r) = (if tr_state t = TS_COMPLETED then 1 else 0)"
  using demo_live trial_authority_is_exclusive [OF demo_reachable(2)] by blast

text \<open>
  C2: a terminal trial and a terminal attempt are never changed by any later sequence of calls.
\<close>

theorem terminal_work_is_final:
  assumes "reachable im" and "run_in_room ops im" and "find_experiment im e = Some r"
  shows "\<exists>r'. find_experiment (run ops im) e = Some r' \<and>
    (\<forall>k t. map_of (er_trials r) k = Some t \<and> is_terminal (tr_state t) \<longrightarrow> map_of (er_trials r') k = Some t) \<and>
    (\<forall>j a. map_of (er_attempts r) j = Some a \<and> is_attempt_terminal (at_state a) \<longrightarrow> map_of (er_attempts r') j = Some a)"
  using run_evolves [OF reachable_inv [OF assms(1)] assms(2,3)]
  unfolding evolves_def trial_later_def attempt_later_def by metis

theorem terminal_work_is_final_witness:
  "\<exists>r r' a. find_experiment demo_committed (from_value 1) = Some r \<and>
     find_experiment (run demo_cancel demo_committed) (from_value 1) = Some r' \<and>
     map_of (er_attempts r) (from_value 1) = Some a \<and> map_of (er_attempts r') (from_value 1) = Some a"
proof -
  obtain r a where r: "find_experiment demo_committed (from_value 1) = Some r"
    "map_of (er_attempts r) (from_value 1) = Some a" "is_attempt_terminal (at_state a)" using demo_closed by blast
  show ?thesis using terminal_work_is_final [OF demo_reachable(4) demo_cancel_room r(1)] r by blast
qed

text \<open>
  C5: the recorded history of an experiment only grows: observations, decisions, rollback points
  and superseded hypotheses stay, in order, at the front of the later lists.
\<close>

theorem history_is_append_only:
  assumes "reachable im" and "run_in_room ops im" and "find_experiment im e = Some r"
  shows "\<exists>r'. find_experiment (run ops im) e = Some r' \<and>
    prefix (er_observations r) (er_observations r') \<and> prefix (er_decisions r) (er_decisions r') \<and>
    prefix (er_rollback_points r) (er_rollback_points r') \<and>
    prefix (er_hypothesis_history r) (er_hypothesis_history r')"
  using run_evolves [OF reachable_inv [OF assms(1)] assms(2,3)] unfolding evolves_def by blast

theorem history_is_append_only_witness:
  "\<exists>r r'. find_experiment demo_committed (from_value 1) = Some r \<and>
     find_experiment (run demo_cancel demo_committed) (from_value 1) = Some r' \<and>
     prefix (er_observations r) (er_observations r')"
  using demo_closed history_is_append_only [OF demo_reachable(4) demo_cancel_room] by blast

text \<open>
  C3: once an attempt is closed, no envelope that names it is accepted again, whatever calls follow.
\<close>

theorem closed_attempt_is_fenced:
  assumes "reachable im" and "run_in_room ops im" and "find_experiment im (ae_experiment env) = Some r"
    and "map_of (er_attempts r) (ae_attempt env) = Some a" and "is_attempt_terminal (at_state a)"
  shows "\<not> av_accepted (check_envelope (run ops im) env)"
proof
  assume "av_accepted (check_envelope (run ops im) env)"
  then obtain r' t a' where h: "holds_authority (run ops im) env r' t a'" by (auto simp: check_envelope_accepts)
  obtain r'' where r'': "find_experiment (run ops im) (ae_experiment env) = Some r''" "evolves r r''"
    using run_evolves [OF reachable_inv [OF assms(1)] assms(2,3)] by blast
  then have "map_of (er_attempts r'') (ae_attempt env) = Some a"
    using assms(4,5) unfolding evolves_def attempt_later_def by metis
  then show False using h r''(1) assms(5) by (simp add: holds_authority_def authoritative_attempt_def)
qed

theorem closed_attempt_is_fenced_witness:
  "\<not> av_accepted (check_envelope (run demo_cancel demo_committed) demo_envelope)"
proof -
  have e: "ae_experiment demo_envelope = from_value 1" "ae_attempt demo_envelope = from_value 1"
    by (simp_all add: demo_envelope_def)
  obtain r a where r: "find_experiment demo_committed (ae_experiment demo_envelope) = Some r"
    "map_of (er_attempts r) (ae_attempt demo_envelope) = Some a" "is_attempt_terminal (at_state a)"
    using demo_closed unfolding e by blast
  show ?thesis by (rule closed_attempt_is_fenced [OF demo_reachable(4) demo_cancel_room r])
qed



end
